(* ===== verification/Prelude.thy ===== *)
theory Prelude
  imports Complex_Main "HOL-Library.AList" "HOL-Library.Sublist" "HOL-Library.Char_ord"
    "HOL-Library.List_Lexorder" "HOL-Library.Product_Lexorder"
begin

text \<open>
  Shared vocabulary of the development: Go byte strings and the functions of the standard
  library's strings and fmt packages that the sources use, Go errors, instants and durations,
  and Go maps as association lists, with the lemmas the component theories rest on.

  A Go string is a sequence of bytes, so a \<^typ>\<open>string\<close> (a list of 8-bit characters) holds
  its UTF-8 bytes, and \<open>length\<close> is Go's \<open>len\<close>. Comparison of strings (\<open><\<close>) is
  bytewise, as in Go.
\<close>

named_theorems trim_simps \<open>evaluation of white-space trimming\<close>
named_theorems op_defs \<open>definitions of the operations of a component\<close>
named_theorems frame_simps \<open>what an operation leaves unchanged\<close>

section \<open>Strings\<close>

subsection \<open>Prefixes, splitting and joining\<close>

definition has_prefix :: "string \<Rightarrow> string \<Rightarrow> bool" where
  "has_prefix s p \<longleftrightarrow> take (length p) s = p"

lemma has_prefix_iff: "has_prefix s p \<longleftrightarrow> (\<exists>t. s = p @ t)"
proof
  assume "has_prefix s p"
  then have "s = p @ drop (length p) s"
    by (metis append_take_drop_id has_prefix_def)
  then show "\<exists>t. s = p @ t" ..
next
  assume "\<exists>t. s = p @ t"
  then show "has_prefix s p" by (auto simp: has_prefix_def)
qed

lemma has_prefix_append [simp]: "has_prefix (p @ t) p"
  by (simp add: has_prefix_def)

lemma has_prefix_Nil [simp]: "has_prefix s []"
  by (simp add: has_prefix_def)

lemma has_prefix_Cons [simp]: "has_prefix (c # s) (d # p) \<longleftrightarrow> c = d \<and> has_prefix s p"
  by (auto simp: has_prefix_def)

lemma has_prefix_empty [simp]: "has_prefix [] (d # p) \<longleftrightarrow> False"
  by (simp add: has_prefix_def)

text \<open>strings.Contains.\<close>

fun contains :: "string \<Rightarrow> string \<Rightarrow> bool" where
  "contains [] p \<longleftrightarrow> p = []"
| "contains (c # s) p \<longleftrightarrow> has_prefix (c # s) p \<or> contains s p"

lemma contains_iff: "contains s p \<longleftrightarrow> (\<exists>a b. s = a @ p @ b)"
proof (induction s)
  case Nil
  then show ?case by auto
next
  case (Cons c s)
  show ?case
  proof
    assume "contains (c # s) p"
    then consider (here) "has_prefix (c # s) p" | (later) "contains s p" by auto
    then show "\<exists>a b. c # s = a @ p @ b"
    proof cases
      case here
      then obtain t where "c # s = p @ t" by (auto simp: has_prefix_iff)
      then show ?thesis by (metis append_Nil)
    next
      case later
      with Cons.IH obtain a b where "s = a @ p @ b" by auto
      then have "c # s = (c # a) @ p @ b" by simp
      then show ?thesis by blast
    qed
  next
    assume "\<exists>a b. c # s = a @ p @ b"
    then obtain a b where ab: "c # s = a @ p @ b" by blast
    show "contains (c # s) p"
    proof (cases a)
      case Nil
      with ab have "has_prefix (c # s) p" by (simp only: append_Nil has_prefix_append)
      then show ?thesis by simp
    next
      case (Cons x a')
      with ab have "s = a' @ p @ b" by simp
      with Cons.IH show ?thesis by auto
    qed
  qed
qed

text \<open>strings.Split with a one-byte separator: always at least one part.\<close>

fun split_on :: "char \<Rightarrow> string \<Rightarrow> string list" where
  "split_on c [] = [[]]"
| "split_on c (x # s) =
     (if x = c then [] # split_on c s
      else (case split_on c s of [] \<Rightarrow> [[x]] | p # ps \<Rightarrow> (x # p) # ps))"

lemma split_on_nonempty [simp]: "split_on c s \<noteq> []"
  by (induction s) (auto split: list.splits)

text \<open>strings.Join.\<close>

fun join :: "string \<Rightarrow> string list \<Rightarrow> string" where
  "join sep [] = []"
| "join sep [s] = s"
| "join sep (s # t # ts) = s @ sep @ join sep (t # ts)"

lemma join_Cons: "ts \<noteq> [] \<Longrightarrow> join sep (t # ts) = t @ sep @ join sep ts"
  by (cases ts) simp_all

lemma join_split_on: "join [c] (split_on c s) = s"
proof (induction s)
  case Nil
  then show ?case by simp
next
  case (Cons x s)
  obtain p ps where sp: "split_on c s = p # ps"
    by (cases "split_on c s") auto
  show ?case
  proof (cases "x = c")
    case True
    with Cons.IH sp show ?thesis by simp
  next
    case False
    with Cons.IH sp show ?thesis by (cases ps) auto
  qed
qed

lemma split_on_no_sep: "p \<in> set (split_on c s) \<Longrightarrow> c \<notin> set p"
proof (induction s arbitrary: p)
  case Nil
  then show ?case by simp
next
  case (Cons x s)
  then show ?case by (cases "split_on c s") (auto split: if_splits)
qed

subsection \<open>White space and case\<close>

text \<open>
  strings.TrimSpace cuts the runes of unicode.IsSpace off both ends. They are listed here by
  their UTF-8 encodings: TAB, LF, VT, FF, CR, SPACE, U+0085, U+00A0, U+1680, U+2000 to U+200A,
  U+2028, U+2029, U+202F, U+205F and U+3000. An encoding begins with its lead byte and its
  other bytes are continuation bytes, so a string starts (ends) with such a rune exactly when
  it starts (ends) with the encoding, whatever the rest of the string is.
\<close>

definition space_runes :: "string list" where
  "space_runes =
     [[CHR 0x20], [CHR 0x09], [CHR 0x0A], [CHR 0x0B], [CHR 0x0C], [CHR 0x0D],
      [CHR 0xC2, CHR 0x85], [CHR 0xC2, CHR 0xA0], [CHR 0xE1, CHR 0x9A, CHR 0x80],
      [CHR 0xE2, CHR 0x80, CHR 0x80], [CHR 0xE2, CHR 0x80, CHR 0x81],
      [CHR 0xE2, CHR 0x80, CHR 0x82], [CHR 0xE2, CHR 0x80, CHR 0x83],
      [CHR 0xE2, CHR 0x80, CHR 0x84], [CHR 0xE2, CHR 0x80, CHR 0x85],
      [CHR 0xE2, CHR 0x80, CHR 0x86], [CHR 0xE2, CHR 0x80, CHR 0x87],
      [CHR 0xE2, CHR 0x80, CHR 0x88], [CHR 0xE2, CHR 0x80, CHR 0x89],
      [CHR 0xE2, CHR 0x80, CHR 0x8A], [CHR 0xE2, CHR 0x80, CHR 0xA8],
      [CHR 0xE2, CHR 0x80, CHR 0xA9], [CHR 0xE2, CHR 0x80, CHR 0xAF],
      [CHR 0xE2, CHR 0x81, CHR 0x9F], [CHR 0xE3, CHR 0x80, CHR 0x80]]"

function strip_front :: "string list \<Rightarrow> string \<Rightarrow> string" where
  "strip_front ws s =
     (case find (\<lambda>w. w \<noteq> [] \<and> has_prefix s w) ws of
        None \<Rightarrow> s
      | Some w \<Rightarrow> strip_front ws (drop (length w) s))"
  by pat_completeness auto
termination
proof (relation "measure (\<lambda>(ws, s). length s)")
  fix ws and s w :: string
  assume "find (\<lambda>w. w \<noteq> [] \<and> has_prefix s w) ws = Some w"
  then have "w \<noteq> []" and "has_prefix s w"
    by (auto simp: find_Some_iff)
  then show "((ws, drop (length w) s), ws, s) \<in> measure (\<lambda>(ws, s). length s)"
    by (auto simp: has_prefix_iff)
qed simp

declare strip_front.simps [simp del]

definition trim_space :: "string \<Rightarrow> string" where
  "trim_space s = rev (strip_front (map rev space_runes) (rev (strip_front space_runes s)))"

text \<open>A byte that can begin or end no white-space rune.\<close>

definition plain_byte :: "char \<Rightarrow> bool" where
  "plain_byte c \<longleftrightarrow> 0x20 < (of_char c :: nat) \<and> (of_char c :: nat) < 0x80"

lemma strip_front_Nil [simp]: "strip_front ws [] = []"
proof -
  have "find (\<lambda>w. w \<noteq> [] \<and> has_prefix ([] :: string) w) ws = None"
    by (auto simp: find_None_iff has_prefix_iff)
  then show ?thesis by (simp add: strip_front.simps)
qed

lemma strip_front_id:
  assumes "\<forall>w \<in> set ws. w \<noteq> [] \<longrightarrow> hd w \<noteq> c"
  shows "strip_front ws (c # s) = c # s"
proof -
  have "find (\<lambda>w. w \<noteq> [] \<and> has_prefix (c # s) w) ws = None"
    using assms by (auto simp: find_None_iff has_prefix_iff Cons_eq_append_conv)
  then show ?thesis by (simp add: strip_front.simps)
qed

lemma plain_byte_space_runes:
  assumes "plain_byte c"
  shows "\<forall>w \<in> set space_runes. w \<noteq> [] \<longrightarrow> hd w \<noteq> c"
    and "\<forall>w \<in> set (map rev space_runes). w \<noteq> [] \<longrightarrow> hd w \<noteq> c"
  using assms by (auto simp: space_runes_def plain_byte_def)

lemma trim_space_plain [trim_simps]:
  assumes "plain_byte (hd s)" and "plain_byte (last s)"
  shows "trim_space s = s"
proof (cases s)
  case Nil
  then show ?thesis by (simp add: trim_space_def)
next
  case (Cons c t)
  have front: "strip_front space_runes s = s"
    using plain_byte_space_runes(1) [OF assms(1)] Cons by (simp add: strip_front_id)
  have rs: "rev s = last s # rev (butlast s)"
    using Cons by (metis append_butlast_last_id list.distinct(1) rev.simps(2) rev_rev_ident rev_append rev_singleton_conv append_Cons append_Nil)
  have "strip_front (map rev space_runes) (rev s) = rev s"
    unfolding rs using plain_byte_space_runes(2) [OF assms(2)] by (rule strip_front_id)
  with front show ?thesis by (simp add: trim_space_def)
qed

lemma trim_space_Nil [simp, trim_simps]: "trim_space [] = []"
  by (simp add: trim_space_def)

lemma strip_front_suffix: "\<exists>p. s = p @ strip_front ws s"
proof (induction ws s rule: strip_front.induct)
  case (1 ws s)
  show ?case
  proof (cases "find (\<lambda>w. w \<noteq> [] \<and> has_prefix s w) ws")
    case None
    then show ?thesis by (subst strip_front.simps) simp
  next
    case (Some w)
    with "1.IH" obtain p where "drop (length w) s = p @ strip_front ws (drop (length w) s)"
      by blast
    then have "s = (take (length w) s @ p) @ strip_front ws (drop (length w) s)"
      by (metis append.assoc append_take_drop_id)
    moreover from Some have "strip_front ws s = strip_front ws (drop (length w) s)"
      by (subst strip_front.simps) simp
    ultimately show ?thesis by metis
  qed
qed

lemma length_strip_front: "length (strip_front ws s) \<le> length s"
  by (metis strip_front_suffix length_append le_add2)

lemma length_trim_space: "length (trim_space s) \<le> length s"
  unfolding trim_space_def
  by (metis length_rev length_strip_front order_trans)

text \<open>
  strings.ToLower. ASCII letters are lowered; of the runes outside ASCII exactly two have an
  ASCII lower case, the Kelvin sign U+212A (k) and the dotted capital I U+0130 (i). Every other
  rune outside ASCII stays outside ASCII under Go's table; it is left as it is here, which no
  comparison with an ASCII word can tell apart.
\<close>

definition lower_byte :: "char \<Rightarrow> char" where
  "lower_byte c = (let n = (of_char c :: nat) in
     if 0x41 \<le> n \<and> n \<le> 0x5A then char_of (n + 32) else c)"

fun to_lower :: "string \<Rightarrow> string" where
  "to_lower (a # b # c # s) =
     (if [a, b, c] = [CHR 0xE2, CHR 0x84, CHR 0xAA] then CHR ''k'' # to_lower s
      else if [a, b] = [CHR 0xC4, CHR 0xB0] then CHR ''i'' # to_lower (c # s)
      else lower_byte a # to_lower (b # c # s))"
| "to_lower [a, b] =
     (if [a, b] = [CHR 0xC4, CHR 0xB0] then ''i'' else [lower_byte a, lower_byte b])"
| "to_lower [a] = [lower_byte a]"
| "to_lower [] = []"

definition is_ascii :: "string \<Rightarrow> bool" where
  "is_ascii s \<longleftrightarrow> list_all (\<lambda>c. (of_char c :: nat) < 0x80) s"

lemma to_lower_ascii: "is_ascii s \<Longrightarrow> to_lower s = map lower_byte s"
  by (induction s rule: to_lower.induct) (auto simp: is_ascii_def)

text \<open>
  strings.EqualFold against an ASCII word: simple folding identifies the Kelvin sign with k
  and the long s U+017F with s, and no other rune outside ASCII with a letter.
\<close>

fun fold_case :: "string \<Rightarrow> string" where
  "fold_case (a # b # c # s) =
     (if [a, b, c] = [CHR 0xE2, CHR 0x84, CHR 0xAA] then CHR ''k'' # fold_case s
      else if [a, b] = [CHR 0xC5, CHR 0xBF] then CHR ''s'' # fold_case (c # s)
      else lower_byte a # fold_case (b # c # s))"
| "fold_case [a, b] =
     (if [a, b] = [CHR 0xC5, CHR 0xBF] then ''s'' else [lower_byte a, lower_byte b])"
| "fold_case [a] = [lower_byte a]"
| "fold_case [] = []"

definition equal_fold :: "string \<Rightarrow> string \<Rightarrow> bool" where
  "equal_fold s t \<longleftrightarrow> fold_case s = fold_case t"

subsection \<open>Rendering integers\<close>

definition digit :: "nat \<Rightarrow> char" where
  "digit n = char_of (n + (if n < 10 then 48 else 87))"

fun radix :: "nat \<Rightarrow> nat \<Rightarrow> string" where
  "radix b n = (if b \<le> 1 \<or> n < b then [digit n] else radix b (n div b) @ [digit (n mod b)])"

declare radix.simps [simp del]

text \<open>The verbs \<open>%d\<close> and \<open>%x\<close> of fmt for a natural number, and \<open>%d\<close> for an integer.\<close>

definition dec :: "nat \<Rightarrow> string" where
  "dec n = radix 10 n"

definition hex :: "nat \<Rightarrow> string" where
  "hex n = radix 16 n"

definition dec_int :: "int \<Rightarrow> string" where
  "dec_int i = (if i < 0 then CHR ''-'' # dec (nat (- i)) else dec (nat i))"

text \<open>The flag and width \<open>%0wd\<close>: zeros on the left up to the width.\<close>

definition pad0 :: "nat \<Rightarrow> string \<Rightarrow> string" where
  "pad0 w s = replicate (w - length s) CHR ''0'' @ s"

definition is_digit :: "char \<Rightarrow> bool" where
  "is_digit c \<longleftrightarrow> CHR ''0'' \<le> c \<and> c \<le> CHR ''9''"

definition digit_val :: "char \<Rightarrow> nat" where
  "digit_val c = of_char c - 48"

definition dec_val :: "string \<Rightarrow> nat" where
  "dec_val s = foldl (\<lambda>n c. n * 10 + digit_val c) 0 s"

lemma is_digit_iff: "is_digit c \<longleftrightarrow> 48 \<le> (of_char c :: nat) \<and> (of_char c :: nat) \<le> 57"
  by (simp add: is_digit_def less_eq_char_def)

lemma of_char_digit: "n < 10 \<Longrightarrow> (of_char (digit n) :: nat) = n + 48"
  by (simp add: digit_def)

lemma is_digit_digit [simp]: "n < 10 \<Longrightarrow> is_digit (digit n)"
  by (simp add: is_digit_iff of_char_digit)

lemma digit_val_digit [simp]: "n < 10 \<Longrightarrow> digit_val (digit n) = n"
  by (simp add: digit_val_def of_char_digit)

lemma dec_val_snoc [simp]: "dec_val (s @ [c]) = dec_val s * 10 + digit_val c"
  by (simp add: dec_val_def)

lemma dec_digits: "list_all is_digit (dec n)"
  unfolding dec_def
proof (induction n rule: less_induct)
  case (less n)
  show ?case
  proof (cases "n < 10")
    case True
    then show ?thesis by (simp add: radix.simps)
  next
    case False
    then have "list_all is_digit (radix 10 (n div 10))" by (intro less) simp
    with False show ?thesis by (simp add: radix.simps [of 10 n])
  qed
qed

lemma dec_nonempty [simp]: "dec n \<noteq> []"
  unfolding dec_def by (subst radix.simps) simp

lemma dec_val_dec [simp]: "dec_val (dec n) = n"
  unfolding dec_def
proof (induction n rule: less_induct)
  case (less n)
  show ?case
  proof (cases "n < 10")
    case True
    then show ?thesis by (simp add: radix.simps dec_val_def)
  next
    case False
    then have "dec_val (radix 10 (n div 10)) = n div 10" by (intro less) simp
    with False show ?thesis by (simp add: radix.simps [of 10 n])
  qed
qed

lemma length_dec: "n < 10 ^ w \<Longrightarrow> 0 < w \<Longrightarrow> length (dec n) \<le> w"
  unfolding dec_def
proof (induction w arbitrary: n)
  case 0
  then show ?case by simp
next
  case (Suc w)
  show ?case
  proof (cases "n < 10")
    case True
    then show ?thesis by (simp add: radix.simps)
  next
    case False
    with Suc.prems have "n div 10 < 10 ^ w" and "0 < w"
      by (auto intro!: div_less simp: less_mult_imp_div_less mult.commute intro: gr0I)
    then have "length (radix 10 (n div 10)) \<le> w" by (rule Suc.IH)
    with False show ?thesis by (simp add: radix.simps [of 10 n])
  qed
qed

lemma dec_inject [simp]: "dec m = dec n \<longleftrightarrow> m = n"
  by (metis dec_val_dec)

lemma dec_val_pad0 [simp]: "dec_val (pad0 w s) = dec_val s"
proof -
  have zeros: "foldl (\<lambda>n c. n * 10 + digit_val c) 0 (replicate k CHR ''0'') = (0::nat)" for k
    by (induction k) (simp_all add: digit_val_def)
  show ?thesis by (simp add: pad0_def dec_val_def zeros)
qed

lemma pad0_dec_inject [simp]: "pad0 w (dec m) = pad0 w (dec n) \<longleftrightarrow> m = n"
  by (metis dec_val_dec dec_val_pad0)

section \<open>Errors\<close>

text \<open>
  The sentinel errors of the packages. An error value is the list of the sentinels it wraps
  (what errors.Is finds) and its text.
\<close>

datatype sentinel =
    ErrConformance | ErrForbidden | ErrVaultUnsupported
  | ErrAdapterRequired | ErrNotFound | ErrInvalidTransition | ErrAlreadyRetired | ErrNotRetired
  | ErrRotationInProgress | ErrProviderFailure | ErrConfirmationNeeded
  | ErrNoSnapshot | ErrPersistenceFailure
  | ErrLeaseNotHeld | ErrLeaseConfig | ErrAuditSinkClosed | ErrCreateUnsupported
  | ErrIntegrationSessionNotFound | ErrIntegrationCSRF | ErrIntegrationRateLimited
  | ErrVaultSecretNotFound | ErrCanceled

datatype go_error = GoError (err_wraps: "sentinel list") (err_text: string)

definition errors_is :: "go_error \<Rightarrow> sentinel \<Rightarrow> bool" where
  "errors_is e x \<longleftrightarrow> List.member (err_wraps e) x"

lemma errors_is_GoError [simp]: "errors_is (GoError ss t) x \<longleftrightarrow> x \<in> set ss"
  by (simp add: errors_is_def)

text \<open>errors.New.\<close>

definition plain_error :: "string \<Rightarrow> go_error" where
  "plain_error t = GoError [] t"

lemma errors_is_plain_error [simp]: "\<not> errors_is (plain_error t) x"
  by (simp add: plain_error_def)

text \<open>A result of a fallible call: \<open>Inl\<close> the error.\<close>

type_synonym 'a result = "go_error + 'a"

text \<open>The verb \<open>%q\<close>: a quoted string. Runes outside ASCII are taken to be printable.\<close>

definition quote_byte :: "char \<Rightarrow> string" where
  "quote_byte c = (let n = (of_char c :: nat) in
     if c = CHR 0x22 \<or> c = CHR 0x5C then [CHR 0x5C, c]
     else if n = 7 then [CHR 0x5C, CHR ''a''] else if n = 8 then [CHR 0x5C, CHR ''b'']
     else if n = 9 then [CHR 0x5C, CHR ''t''] else if n = 10 then [CHR 0x5C, CHR ''n'']
     else if n = 11 then [CHR 0x5C, CHR ''v''] else if n = 12 then [CHR 0x5C, CHR ''f'']
     else if n = 13 then [CHR 0x5C, CHR ''r'']
     else if n < 32 \<or> n = 127 then [CHR 0x5C, CHR ''x''] @ pad0 2 (hex n)
     else [c])"

definition quoted :: "string \<Rightarrow> string" where
  "quoted s = [CHR 0x22] @ concat (map quote_byte s) @ [CHR 0x22]"

section \<open>Time\<close>

text \<open>
  An instant is the number of nanoseconds since Go's zero time (year 1, UTC), so IsZero is
  \<open>= 0\<close>, Equal, Before and After are the comparisons of integers and UTC is the identity. A
  Duration is an int64 number of nanoseconds; Sub saturates at its bounds.
\<close>

type_synonym time = int
type_synonym duration = int

definition min_int64 :: int where "min_int64 = - (2 ^ 63)"
definition max_int64 :: int where "max_int64 = 2 ^ 63 - 1"

definition wrap_int64 :: "int \<Rightarrow> int" where
  "wrap_int64 x = (x + 2 ^ 63) mod 2 ^ 64 - 2 ^ 63"

lemma wrap_int64_id [simp]: "- (2 ^ 63) \<le> x \<Longrightarrow> x < 2 ^ 63 \<Longrightarrow> wrap_int64 x = x"
  by (simp add: wrap_int64_def)

definition time_sub :: "time \<Rightarrow> time \<Rightarrow> duration" where
  "time_sub a b = max min_int64 (min max_int64 (a - b))"

definition nanosecond :: duration where "nanosecond = 1"
definition millisecond :: duration where "millisecond = 1000000"
definition second :: duration where "second = 1000000000"
definition minute :: duration where "minute = 60 * 1000000000"
definition hour :: duration where "hour = 3600 * 1000000000"
definition day :: duration where "day = 86400 * 1000000000"

lemmas time_units = nanosecond_def millisecond_def second_def minute_def hour_def day_def

section \<open>Go maps\<close>

text \<open>
  A Go map is an association list with distinct keys. Iteration over a Go map has no fixed
  order; where the sources iterate, the order of the list is one of the possible ones.
\<close>

type_synonym 'v gomap = "(string \<times> 'v) list"

abbreviation lookup :: "'v gomap \<Rightarrow> string \<Rightarrow> 'v option" where
  "lookup m k \<equiv> map_of m k"

abbreviation put :: "string \<Rightarrow> 'v \<Rightarrow> 'v gomap \<Rightarrow> 'v gomap" where
  "put k v m \<equiv> AList.update k v m"

abbreviation remove_key :: "string \<Rightarrow> 'v gomap \<Rightarrow> 'v gomap" where
  "remove_key k m \<equiv> AList.delete k m"

abbreviation keys :: "'v gomap \<Rightarrow> string list" where
  "keys m \<equiv> map fst m"

text \<open>A map whose values are slices: a missing key reads as the empty slice.\<close>

definition slice_at :: "'v list gomap \<Rightarrow> string \<Rightarrow> 'v list" where
  "slice_at m k = (case lookup m k of None \<Rightarrow> [] | Some xs \<Rightarrow> xs)"

definition push :: "string \<Rightarrow> 'v \<Rightarrow> 'v list gomap \<Rightarrow> 'v list gomap" where
  "push k x m = put k (slice_at m k @ [x]) m"

definition set_at :: "string \<Rightarrow> nat \<Rightarrow> 'v \<Rightarrow> 'v list gomap \<Rightarrow> 'v list gomap" where
  "set_at k i x m = put k ((slice_at m k)[i := x]) m"

lemma lookup_put [simp]: "lookup (put k v m) k' = (if k' = k then Some v else lookup m k')"
  by (simp add: update_conv)

lemma lookup_remove_key [simp]: "lookup (remove_key k m) k' = (if k' = k then None else lookup m k')"
  by (simp add: delete_conv)

lemma slice_at_push [simp]:
  "slice_at (push k x m) k' = (if k' = k then slice_at m k @ [x] else slice_at m k')"
  by (simp add: slice_at_def push_def)

lemma slice_at_set_at [simp]:
  "slice_at (set_at k i x m) k' = (if k' = k then (slice_at m k)[i := x] else slice_at m k')"
  by (simp add: slice_at_def set_at_def)

lemma slice_at_remove_key [simp]:
  "slice_at (remove_key k m) k' = (if k' = k then [] else slice_at m k')"
  by (simp add: slice_at_def)

lemma slice_at_Nil [simp]: "slice_at [] k = []"
  by (simp add: slice_at_def)

lemma distinct_keys_put [simp]: "distinct (keys m) \<Longrightarrow> distinct (keys (put k v m))"
  by (rule distinct_update)

lemma distinct_keys_remove [simp]: "distinct (keys m) \<Longrightarrow> distinct (keys (remove_key k m))"
  by (rule distinct_delete)

lemma distinct_keys_push [simp]: "distinct (keys m) \<Longrightarrow> distinct (keys (push k x m))"
  by (simp add: push_def)

lemma distinct_keys_set_at [simp]: "distinct (keys m) \<Longrightarrow> distinct (keys (set_at k i x m))"
  by (simp add: set_at_def)

lemma length_put: "length (put k v m) = (if lookup m k = None then length m + 1 else length m)"
  by (induction m) auto

lemma lookup_in_set: "distinct (keys m) \<Longrightarrow> lookup m k = Some v \<longleftrightarrow> (k, v) \<in> set m"
  by (simp add: map_of_eq_Some_iff)

text \<open>
  sort.Slice with an order given by a linearly ordered key: the stable ascending sort, and its
  descending counterpart (equal keys keep their order in both).
\<close>

definition sort_desc :: "('a \<Rightarrow> 'k::linorder) \<Rightarrow> 'a list \<Rightarrow> 'a list" where
  "sort_desc f xs = rev (sort_key f (rev xs))"

lemma set_sort_desc [simp]: "set (sort_desc f xs) = set xs"
  by (simp add: sort_desc_def)

lemma length_sort_desc [simp]: "length (sort_desc f xs) = length xs"
  by (simp add: sort_desc_def)

lemma sorted_sort_desc: "sorted (map f (rev (sort_desc f xs)))"
  by (simp add: sort_desc_def)

end
