(* ===== verification/Float64.thy ===== *)
theory Float64
  imports Prelude "HOL-Library.Log_Nat"
begin

text \<open>
  Go's float64 on the values the program computes with: finite binary64 numbers as rationals,
  and the rounding to nearest, ties to even, that every arithmetic operation and the
  conversion of a decimal text apply to the exact result. Gradual underflow is included
  (the exponent never goes below -1022); a result beyond the largest finite number is not
  rounded to an infinity here, the one place where the program could meet it (a decimal
  text) checks \<open>f64_overflow\<close> first. Negative zero and NaN do not arise.
\<close>

section \<open>Rounding\<close>

text \<open>The exponent of the leading binary digit of a positive rational.\<close>

definition lead_exp :: "rat \<Rightarrow> int" where
  "lead_exp x = (let (n, d) = quotient_of x; l = bitlen n - bitlen d in
     if 2 powi l \<le> x then l else l - 1)"

definition f64_ulp :: "rat \<Rightarrow> rat" where
  "f64_ulp x = 2 powi (max (lead_exp x) (- 1022) - 52)"

definition round_half_even :: "rat \<Rightarrow> int" where
  "round_half_even q = (let f = \<lfloor>q\<rfloor>; r = q - of_int f in
     if r < 1 / 2 then f else if 1 / 2 < r then f + 1 else if even f then f else f + 1)"

definition f64_pos :: "rat \<Rightarrow> rat" where
  "f64_pos x = of_int (round_half_even (x / f64_ulp x)) * f64_ulp x"

definition f64 :: "rat \<Rightarrow> rat" where
  "f64 x = (if x = 0 then 0 else if 0 < x then f64_pos x else - f64_pos (- x))"

definition f64_overflow :: "rat \<Rightarrow> bool" where
  "f64_overflow x \<longleftrightarrow> 2 ^ 1024 - 2 ^ 970 \<le> \<bar>x\<bar>"

lemma f64_overflow_code [code]:
  "f64_overflow x \<longleftrightarrow> \<not> \<bar>x\<bar> < 9223372036854775808 \<and> 2 ^ 1024 - 2 ^ 970 \<le> \<bar>x\<bar>"
proof -
  have "(9223372036854775808::rat) < 2 ^ 1024 - 2 ^ 970" by simp
  then show ?thesis unfolding f64_overflow_def by linarith
qed

text \<open>
  time.Duration of a float64: truncation towards zero. A value outside int64 gives the
  most negative int64, as the conversion instruction of amd64 does (the language leaves it
  to the implementation).
\<close>

definition trunc_rat :: "rat \<Rightarrow> int" where
  "trunc_rat x = (if 0 \<le> x then \<lfloor>x\<rfloor> else - \<lfloor>- x\<rfloor>)"

definition float_to_int64 :: "rat \<Rightarrow> int" where
  "float_to_int64 x = (let t = trunc_rat x in
     if min_int64 \<le> t \<and> t \<le> max_int64 then t else min_int64)"

section \<open>Facts about the rounding\<close>

lemma lead_exp_bounds:
  assumes "0 < x"
  shows "2 powi (lead_exp x) \<le> x" and "x < 2 powi (lead_exp x + 1)"
proof -
  obtain n d where nd: "quotient_of x = (n, d)" by (cases "quotient_of x")
  have d: "0 < d" by (rule quotient_of_denom_pos [OF nd])
  have xnd: "x = of_int n / of_int d" by (rule quotient_of_div [OF nd])
  with assms d have n: "0 < n" by (simp add: zero_less_divide_iff)
  have bl: "(2::rat) powi (bitlen k - 1) \<le> of_int k" "of_int k < (2::rat) powi (bitlen k)"
    if k: "0 < k" for k :: int
  proof -
    have len: "0 < bitlen k" using k bitlen_bounds [OF k] by (cases "bitlen k \<le> 0") auto
    then have p1: "(2::rat) powi (bitlen k - 1) = of_int (2 ^ nat (bitlen k - 1))"
      and p2: "(2::rat) powi (bitlen k) = of_int (2 ^ nat (bitlen k))"
      by (simp_all add: power_int_def)
    show "(2::rat) powi (bitlen k - 1) \<le> of_int k"
      using bitlen_bounds [OF k] unfolding p1 by (simp only: of_int_le_iff)
    show "of_int k < (2::rat) powi (bitlen k)"
      using bitlen_bounds [OF k] unfolding p2 by (simp only: of_int_less_iff)
  qed
  let ?l = "bitlen n - bitlen d"
  have up: "x < 2 powi (?l + 1)"
  proof -
    have "of_int n < (2::rat) powi (?l + 1) * 2 powi (bitlen d - 1)"
      using bl(2) [OF n] by (simp flip: power_int_add)
    also have "\<dots> \<le> 2 powi (?l + 1) * of_int d"
      using bl(1) [OF d] by (intro mult_left_mono) simp_all
    finally show ?thesis using d xnd by (simp add: divide_less_eq)
  qed
  have low: "2 powi (?l - 1) \<le> x"
  proof -
    have "(2::rat) powi (?l - 1) * of_int d \<le> 2 powi (?l - 1) * 2 powi (bitlen d)"
      using bl(2) [OF d] by (intro mult_left_mono) simp_all
    also have "\<dots> = 2 powi (bitlen n - 1)" by (simp flip: power_int_add)
    also have "\<dots> \<le> of_int n" by (rule bl(1) [OF n])
    finally show ?thesis using d xnd by (simp add: le_divide_eq)
  qed
  show "2 powi (lead_exp x) \<le> x" and "x < 2 powi (lead_exp x + 1)"
    using up low by (auto simp: lead_exp_def nd Let_def)
qed

lemma powi2_mono: "i \<le> j \<Longrightarrow> (2::rat) powi i \<le> 2 powi j"
  by (rule power_int_increasing) simp_all

lemma powi2_less_iff: "(2::rat) powi i < 2 powi j \<longleftrightarrow> i < j"
  by (metis less_le_not_le linorder_not_le one_less_numeral_iff power_int_strict_increasing powi2_mono semiring_norm(76))

lemma f64_ulp_pos [simp]: "0 < f64_ulp x"
  by (simp add: f64_ulp_def)

lemma f64_ulp_nonneg [simp]: "0 \<le> f64_ulp x"
  by (simp add: order.strict_implies_order)

lemma f64_ulp_nonzero [simp]: "f64_ulp x \<noteq> 0"
  by (simp add: f64_ulp_def)

lemma lead_exp_mono: "0 < x \<Longrightarrow> x \<le> y \<Longrightarrow> lead_exp x \<le> lead_exp y"
proof -
  assume "0 < x" "x \<le> y"
  then have "(2::rat) powi lead_exp x < 2 powi (lead_exp y + 1)"
    using lead_exp_bounds [of x] lead_exp_bounds [of y] by linarith
  then show ?thesis by (simp add: powi2_less_iff)
qed

lemma round_half_even_int [simp]: "round_half_even (of_int n) = n"
  by (simp add: round_half_even_def)

lemma round_half_even_mono: "p \<le> q \<Longrightarrow> round_half_even p \<le> round_half_even q"
proof -
  assume pq: "p \<le> q"
  then have fl: "\<lfloor>p\<rfloor> \<le> \<lfloor>q\<rfloor>" by (rule floor_mono)
  have le1: "round_half_even p \<le> \<lfloor>p\<rfloor> + 1" and ge: "\<lfloor>q\<rfloor> \<le> round_half_even q"
    by (simp_all add: round_half_even_def Let_def)
  show ?thesis
  proof (cases "\<lfloor>p\<rfloor> = \<lfloor>q\<rfloor>")
    case True
    with pq show ?thesis by (auto simp: round_half_even_def Let_def)
  next
    case False
    with fl le1 ge show ?thesis by linarith
  qed
qed

lemma round_half_even_near:
  "\<bar>of_int (round_half_even q) - q\<bar> \<le> 1 / 2"
proof -
  have "of_int \<lfloor>q\<rfloor> \<le> q" and "q < of_int \<lfloor>q\<rfloor> + 1" by linarith+
  then show ?thesis by (auto simp: round_half_even_def Let_def)
qed

lemma f64_pos_exact_less:
  assumes m: "0 < m" "m < 2 ^ 53" and k: "- 1074 \<le> k"
  shows "f64_pos (of_int m * 2 powi k) = of_int m * 2 powi k"
proof -
  let ?x = "of_int m * (2::rat) powi k"
  let ?e = "max (lead_exp ?x) (- 1022) - 52"
  have pos: "0 < ?x" using m by simp
  have "of_int m < (of_int (2 ^ 53) :: rat)" using m by (simp only: of_int_less_iff)
  then have "of_int m < (2::rat) powi 53" by (simp add: power_int_def)
  then have "?x < 2 powi 53 * 2 powi k" by (intro mult_strict_right_mono) simp_all
  also have "\<dots> = 2 powi (53 + k)" by (rule power_int_add [symmetric]) simp
  finally have "2 powi lead_exp ?x < (2::rat) powi (53 + k)"
    by (rule le_less_trans [OF lead_exp_bounds(1) [OF pos]])
  then have "lead_exp ?x \<le> 52 + k" by (simp add: powi2_less_iff)
  with k have j: "?e \<le> k" by simp
  define j where "j = nat (k - ?e)"
  have kj: "k = int j + ?e" using j by (simp add: j_def)
  have "?x = of_int (m * 2 ^ j) * 2 powi ?e"
    by (subst kj) (simp add: power_int_add)
  then have x: "?x = of_int (m * 2 ^ j) * f64_ulp ?x" by (simp add: f64_ulp_def)
  then have "?x / f64_ulp ?x = of_int (m * 2 ^ j)"
    by (metis f64_ulp_pos less_irrefl nonzero_mult_div_cancel_right)
  then have "f64_pos ?x = of_int (m * 2 ^ j) * f64_ulp ?x"
    unfolding f64_pos_def by (simp only: round_half_even_int)
  also have "\<dots> = ?x" by (rule x [symmetric])
  finally show ?thesis .
qed

lemma f64_pos_exact:
  assumes m: "0 < m" "m \<le> 2 ^ 53" and k: "- 1074 \<le> k"
  shows "f64_pos (of_int m * 2 powi k) = of_int m * 2 powi k"
proof (cases "m = 2 ^ 53")
  case True
  then have "of_int m * (2::rat) powi k = of_int (2 ^ 52) * 2 powi (k + 1)"
    by (simp add: power_int_add)
  then show ?thesis using f64_pos_exact_less [of "2 ^ 52" "k + 1"] k by simp
qed (use m k f64_pos_exact_less in simp)

lemma f64_int_exact: "\<bar>n\<bar> \<le> 2 ^ 53 \<Longrightarrow> f64 (of_int n) = of_int n"
  using f64_pos_exact [of n 0] f64_pos_exact [of "- n" 0] by (auto simp: f64_def)

lemma f64_0 [simp]: "f64 0 = 0"
  by (simp add: f64_def)

lemma f64_1 [simp]: "f64 1 = 1"
  using f64_int_exact [of 1] by simp

lemma f64_pos_mono_same:
  assumes "x \<le> y" and "f64_ulp x = f64_ulp y"
  shows "f64_pos x \<le> f64_pos y"
proof -
  have "round_half_even (x / f64_ulp y) \<le> round_half_even (y / f64_ulp y)"
    using assms(1) by (intro round_half_even_mono divide_right_mono) (simp_all add: order.strict_implies_order)
  then show ?thesis
    unfolding f64_pos_def assms(2)
    by (intro mult_right_mono) (simp_all add: order.strict_implies_order)
qed

text \<open>A power of two between two numbers separates their roundings.\<close>

lemma f64_pos_le_pow:
  assumes x: "0 < x" "x \<le> 2 powi k" and ulp: "f64_ulp x = 2 powi u" "u \<le> k"
  shows "f64_pos x \<le> 2 powi k"
proof -
  have "(2::rat) powi k / 2 powi u = of_int (2 ^ nat (k - u))"
    using ulp(2) by (simp add: power_int_diff [symmetric]) (simp add: power_int_def)
  moreover have "round_half_even (x / f64_ulp x) \<le> round_half_even (2 powi k / f64_ulp x)"
    using x(2) by (intro round_half_even_mono divide_right_mono) (simp_all add: order.strict_implies_order)
  ultimately have "round_half_even (x / f64_ulp x) \<le> 2 ^ nat (k - u)"
    by (simp add: ulp(1) del: of_int_power)
  then have "of_int (round_half_even (x / f64_ulp x)) \<le> (of_int (2 ^ nat (k - u)) :: rat)"
    by (simp only: of_int_le_iff)
  then have "f64_pos x \<le> of_int (2 ^ nat (k - u)) * f64_ulp x"
    unfolding f64_pos_def by (intro mult_right_mono) (simp_all add: order.strict_implies_order)
  also have "\<dots> = 2 powi k"
    using ulp by (simp add: power_int_add [symmetric] flip: power_int_of_nat)
  finally show ?thesis .
qed

lemma f64_pos_ge_pow:
  assumes x: "2 powi k \<le> x" and ulp: "f64_ulp x = 2 powi u" "u \<le> k"
  shows "2 powi k \<le> f64_pos x"
proof -
  have "(2::rat) powi k / 2 powi u = of_int (2 ^ nat (k - u))"
    using ulp(2) by (simp add: power_int_diff [symmetric]) (simp add: power_int_def)
  moreover have "round_half_even (2 powi k / f64_ulp x) \<le> round_half_even (x / f64_ulp x)"
    using x by (intro round_half_even_mono divide_right_mono) (simp_all add: order.strict_implies_order)
  ultimately have "2 ^ nat (k - u) \<le> round_half_even (x / f64_ulp x)"
    by (simp add: ulp(1) del: of_int_power)
  then have "(of_int (2 ^ nat (k - u)) :: rat) \<le> of_int (round_half_even (x / f64_ulp x))"
    by (simp only: of_int_le_iff)
  then have "of_int (2 ^ nat (k - u)) * f64_ulp x \<le> f64_pos x"
    unfolding f64_pos_def by (intro mult_right_mono) (simp_all add: order.strict_implies_order)
  moreover have "of_int (2 ^ nat (k - u)) * f64_ulp x = 2 powi k"
    using ulp by (simp add: power_int_add [symmetric] flip: power_int_of_nat)
  ultimately show ?thesis by simp
qed

lemma f64_pos_mono:
  assumes "0 < x" and "x \<le> y"
  shows "f64_pos x \<le> f64_pos y"
proof (cases "max (lead_exp x) (- 1022) = max (lead_exp y) (- 1022)")
  case True
  with assms show ?thesis by (intro f64_pos_mono_same) (simp_all add: f64_ulp_def)
next
  case False
  let ?k = "lead_exp y"
  have less: "lead_exp x < ?k" and big: "- 1022 < ?k"
    using False lead_exp_mono [OF assms] by (auto simp: max_def split: if_splits)
  have "x < 2 powi (lead_exp x + 1)" using assms(1) by (rule lead_exp_bounds(2))
  also have "\<dots> \<le> 2 powi ?k" using less by (intro powi2_mono) simp
  finally have "f64_pos x \<le> 2 powi ?k"
    using assms(1) less big
    by (intro f64_pos_le_pow [where u = "max (lead_exp x) (- 1022) - 52"])
      (simp_all add: f64_ulp_def)
  also have "\<dots> \<le> f64_pos y"
    using assms lead_exp_bounds(1) [of y] big
    by (intro f64_pos_ge_pow [where u = "max ?k (- 1022) - 52"]) (simp_all add: f64_ulp_def)
  finally show ?thesis .
qed

lemma f64_nonneg: "0 \<le> x \<Longrightarrow> 0 \<le> f64 x"
proof -
  assume "0 \<le> x"
  moreover have "0 \<le> round_half_even (x / f64_ulp x)" if "0 < x"
  proof -
    have "0 \<le> x / f64_ulp x" using that by (simp add: order.strict_implies_order)
    then have "round_half_even (of_int 0) \<le> round_half_even (x / f64_ulp x)"
      by (intro round_half_even_mono) simp
    then show ?thesis by (simp only: round_half_even_int)
  qed
  ultimately show ?thesis by (auto simp: f64_def f64_pos_def intro!: mult_nonneg_nonneg)
qed

lemma f64_mono: "0 \<le> x \<Longrightarrow> x \<le> y \<Longrightarrow> f64 x \<le> f64 y"
  using f64_pos_mono [of x y] f64_nonneg [of y] by (auto simp: f64_def)

lemma f64_ge_1: "1 \<le> x \<Longrightarrow> 1 \<le> f64 x"
  using f64_mono [of 1 x] by simp

lemma f64_le_int: "0 \<le> x \<Longrightarrow> x \<le> of_int n \<Longrightarrow> n \<le> 2 ^ 53 \<Longrightarrow> f64 x \<le> of_int n"
proof -
  assume x: "0 \<le> x" "x \<le> of_int n" and n: "n \<le> 2 ^ 53"
  then have "0 \<le> n" by (metis of_int_0_le_iff order_trans)
  with n have "f64 (of_int n) = of_int n" by (intro f64_int_exact) simp
  with f64_mono [OF x] show ?thesis by simp
qed

text \<open>The error of a rounding is at most half a unit in the last place.\<close>

lemma f64_pos_error: "\<bar>f64_pos x - x\<bar> \<le> f64_ulp x / 2"
proof -
  have "\<bar>of_int (round_half_even (x / f64_ulp x)) - x / f64_ulp x\<bar> \<le> 1 / 2"
    by (rule round_half_even_near)
  then have "\<bar>of_int (round_half_even (x / f64_ulp x)) - x / f64_ulp x\<bar> * f64_ulp x \<le> 1 / 2 * f64_ulp x"
    by (intro mult_right_mono) (simp_all add: order.strict_implies_order)
  moreover have "\<bar>of_int (round_half_even (x / f64_ulp x)) - x / f64_ulp x\<bar> * f64_ulp x
      = \<bar>(of_int (round_half_even (x / f64_ulp x)) - x / f64_ulp x) * f64_ulp x\<bar>"
    by (simp add: abs_mult order.strict_implies_order)
  moreover have "(of_int (round_half_even (x / f64_ulp x)) - x / f64_ulp x) * f64_ulp x = f64_pos x - x"
    by (simp add: f64_pos_def left_diff_distrib)
  ultimately show ?thesis by simp
qed

end
