(* ===== verification/Protocol.thy ===== *)
theory Protocol
  imports Prelude
begin

text \<open>
  The vocabulary of the protocol package (pkg/protocol): its enumerations, the lifecycle
  state machine, and the objects and messages the control plane exchanges. The sources
  declare the enumerations that come in from outside (State, Health, Outcome,
  RotationStatus) as strings with named constants; here each is a datatype with one
  constructor per constant and one, \<open>...Other\<close>, for any other text. The functions
  \<open>..._of\<close> and \<open>..._text\<close> read and show them.
\<close>

section \<open>Version\<close>

definition Version :: string where "Version = ''v1''"
definition APIVersion :: string where "APIVersion = Version"
definition MediaType :: string where "MediaType = ''application/vnd.mutandae.v1+json''"
definition ContentType :: string where "ContentType = MediaType @ ''; charset=utf-8''"

section \<open>Enumerations\<close>

datatype state = StateRegistered | StateActive | StateRenewing | StateRetired | StateOther string

fun state_text :: "state \<Rightarrow> string" where
  "state_text StateRegistered = ''registered''"
| "state_text StateActive = ''active''"
| "state_text StateRenewing = ''renewing''"
| "state_text StateRetired = ''retired''"
| "state_text (StateOther s) = s"

definition state_of :: "string \<Rightarrow> state" where
  "state_of s =
     (if s = ''registered'' then StateRegistered else if s = ''active'' then StateActive
      else if s = ''renewing'' then StateRenewing else if s = ''retired'' then StateRetired
      else StateOther s)"

definition ValidState :: "string \<Rightarrow> bool" where
  "ValidState value = List.member [''registered'', ''active'', ''renewing'', ''retired''] value"

datatype health = HealthHealthy | HealthAttention | HealthOther string

fun health_text :: "health \<Rightarrow> string" where
  "health_text HealthHealthy = ''healthy''"
| "health_text HealthAttention = ''attention''"
| "health_text (HealthOther s) = s"

definition health_of :: "string \<Rightarrow> health" where
  "health_of s = (if s = ''healthy'' then HealthHealthy
     else if s = ''attention'' then HealthAttention else HealthOther s)"

definition ValidHealth :: "string \<Rightarrow> bool" where
  "ValidHealth value = List.member [''healthy'', ''attention''] value"

text \<open>Urgency is only ever computed, never read from outside.\<close>

datatype urgency = UrgencyHealthy | UrgencyExpiring | UrgencyOverdue | UrgencyRetired

fun urgency_text :: "urgency \<Rightarrow> string" where
  "urgency_text UrgencyHealthy = ''healthy''"
| "urgency_text UrgencyExpiring = ''expiring''"
| "urgency_text UrgencyOverdue = ''overdue''"
| "urgency_text UrgencyRetired = ''retired''"

definition ValidUrgency :: "string \<Rightarrow> bool" where
  "ValidUrgency value = List.member [''healthy'', ''expiring'', ''overdue'', ''retired''] value"

datatype rotation_status =
    RotationPending | RotationRunning | RotationSucceeded | RotationFailed | RotationRollBack
  | RotationOther string

fun rotation_status_text :: "rotation_status \<Rightarrow> string" where
  "rotation_status_text RotationPending = ''pending''"
| "rotation_status_text RotationRunning = ''running''"
| "rotation_status_text RotationSucceeded = ''succeeded''"
| "rotation_status_text RotationFailed = ''failed''"
| "rotation_status_text RotationRollBack = ''rolled_back''"
| "rotation_status_text (RotationOther s) = s"

definition ValidRotationStatus :: "string \<Rightarrow> bool" where
  "ValidRotationStatus value =
     List.member [''pending'', ''running'', ''succeeded'', ''failed'', ''rolled_back''] value"

datatype outcome =
    OutcomeSuccess | OutcomeInProgress | OutcomeAttention | OutcomeFailure | OutcomeCancelled
  | OutcomeOther string

fun outcome_text :: "outcome \<Rightarrow> string" where
  "outcome_text OutcomeSuccess = ''success''"
| "outcome_text OutcomeInProgress = ''in_progress''"
| "outcome_text OutcomeAttention = ''attention''"
| "outcome_text OutcomeFailure = ''failure''"
| "outcome_text OutcomeCancelled = ''cancelled''"
| "outcome_text (OutcomeOther s) = s"

definition ValidOutcome :: "string \<Rightarrow> bool" where
  "ValidOutcome value =
     List.member [''success'', ''in_progress'', ''attention'', ''failure'', ''cancelled''] value"

datatype error_code =
    ErrCodeNone | ErrCodeInvalidRequest | ErrCodeForbidden | ErrCodeConformanceFailure
  | ErrCodeNotFound | ErrCodeInvalidTransition | ErrCodeAlreadyRetired
  | ErrCodeRotationInProgress | ErrCodeProviderFailure | ErrCodeUnsupportedVersion
  | ErrCodeConflict | ErrCodeInternal | ErrCodeUnimplemented

fun error_code_text :: "error_code \<Rightarrow> string" where
  "error_code_text ErrCodeNone = ''''"
| "error_code_text ErrCodeInvalidRequest = ''invalid_request''"
| "error_code_text ErrCodeForbidden = ''forbidden''"
| "error_code_text ErrCodeConformanceFailure = ''conformance_failure''"
| "error_code_text ErrCodeNotFound = ''not_found''"
| "error_code_text ErrCodeInvalidTransition = ''invalid_transition''"
| "error_code_text ErrCodeAlreadyRetired = ''already_retired''"
| "error_code_text ErrCodeRotationInProgress = ''rotation_in_progress''"
| "error_code_text ErrCodeProviderFailure = ''provider_failure''"
| "error_code_text ErrCodeUnsupportedVersion = ''unsupported_version''"
| "error_code_text ErrCodeConflict = ''conflict''"
| "error_code_text ErrCodeInternal = ''internal''"
| "error_code_text ErrCodeUnimplemented = ''unimplemented''"

record protocol_error =
  pe_code :: error_code
  pe_message :: string

definition NewProtocolError :: "error_code \<Rightarrow> string \<Rightarrow> protocol_error" where
  "NewProtocolError c m = \<lparr>pe_code = c, pe_message = m\<rparr>"

section \<open>Events\<close>

datatype event_type =
    EventIdentityDiscovered | EventIdentityRegistered | EventIdentityImported
  | EventOwnershipAssigned | EventOwnershipChanged
  | EventPolicyApplied | EventRenewalAlerted | EventExpiryImminent | EventExpiryOverdue
  | EventRotationRequested | EventRotationStarted | EventRotationCompleted
  | EventRotationFailed | EventRotationRollBack
  | EventCredentialDelivered | EventCredentialUsed | EventCredentialRevoked
  | EventIntegrationConnected | EventApplicationCreated | EventSecretCreated
  | EventSecretRead | EventSecretInvalidated | EventIntegrationClosed
  | EventIdentityRetired | EventIdentityRevoked | EventIdentityResurrected
  | EventIdentityDeleted | EventOther string

fun event_type_text :: "event_type \<Rightarrow> string" where
  "event_type_text EventIdentityDiscovered = ''identity.discovered''"
| "event_type_text EventIdentityRegistered = ''identity.registered''"
| "event_type_text EventIdentityImported = ''identity.imported''"
| "event_type_text EventOwnershipAssigned = ''ownership.assigned''"
| "event_type_text EventOwnershipChanged = ''ownership.changed''"
| "event_type_text EventPolicyApplied = ''policy.applied''"
| "event_type_text EventRenewalAlerted = ''renewal.alerted''"
| "event_type_text EventExpiryImminent = ''expiry.imminent''"
| "event_type_text EventExpiryOverdue = ''expiry.overdue''"
| "event_type_text EventRotationRequested = ''rotation.requested''"
| "event_type_text EventRotationStarted = ''rotation.started''"
| "event_type_text EventRotationCompleted = ''rotation.completed''"
| "event_type_text EventRotationFailed = ''rotation.failed''"
| "event_type_text EventRotationRollBack = ''rotation.rolled_back''"
| "event_type_text EventCredentialDelivered = ''credential.delivered''"
| "event_type_text EventCredentialUsed = ''credential.used''"
| "event_type_text EventCredentialRevoked = ''credential.revoked''"
| "event_type_text EventIntegrationConnected = ''integration.connected''"
| "event_type_text EventApplicationCreated = ''application.created''"
| "event_type_text EventSecretCreated = ''secret.created''"
| "event_type_text EventSecretRead = ''secret.read''"
| "event_type_text EventSecretInvalidated = ''secret.invalidated''"
| "event_type_text EventIntegrationClosed = ''integration.closed''"
| "event_type_text EventIdentityRetired = ''identity.retired''"
| "event_type_text EventIdentityRevoked = ''identity.revoked''"
| "event_type_text EventIdentityResurrected = ''identity.resurrected''"
| "event_type_text EventIdentityDeleted = ''identity.deleted''"
| "event_type_text (EventOther s) = s"

definition ActorOperator :: string where "ActorOperator = ''operator''"
definition ActorControlPlane :: string where "ActorControlPlane = ''control-plane''"
definition ActorProviderAdapter :: string where "ActorProviderAdapter = ''provider-adapter''"
definition ActorDiscovery :: string where "ActorDiscovery = ''discovery''"

section \<open>The lifecycle state machine\<close>

fun AllowedTransitions :: "state \<Rightarrow> state list option" where
  "AllowedTransitions StateRegistered = Some [StateActive]"
| "AllowedTransitions StateActive = Some [StateRenewing, StateRetired]"
| "AllowedTransitions StateRenewing = Some [StateActive, StateRetired]"
| "AllowedTransitions StateRetired = Some []"
| "AllowedTransitions (StateOther s) = None"

definition CanTransition :: "state \<Rightarrow> state \<Rightarrow> bool" where
  "CanTransition old new =
     (case AllowedTransitions old of None \<Rightarrow> False | Some allowed \<Rightarrow> List.member allowed new)"

definition KnownStates :: "state list" where
  "KnownStates = [StateRegistered, StateActive, StateRenewing, StateRetired]"

lemma CanTransition_simps [simp]:
  "CanTransition StateRegistered s \<longleftrightarrow> s = StateActive"
  "CanTransition StateActive s \<longleftrightarrow> s = StateRenewing \<or> s = StateRetired"
  "CanTransition StateRenewing s \<longleftrightarrow> s = StateActive \<or> s = StateRetired"
  "CanTransition StateRetired s \<longleftrightarrow> False"
  "CanTransition (StateOther t) s \<longleftrightarrow> False"
  by (auto simp: CanTransition_def)

section \<open>Objects\<close>

type_synonym details = "(string \<times> string) list"
type_synonym metadata = "string gomap"

record provider_binding =
  pb_provider :: string
  pb_provider_id :: string
  pb_tenant_id :: string
  pb_object_id :: string
  pb_region :: string
  pb_account_id :: string
  pb_project_id :: string

record ownership =
  ow_team :: string
  ow_service :: string
  ow_purpose :: string
  ow_criticality :: string
  ow_contacts :: "string list"

record lifecycle_policy =
  lp_renewal_period :: string
  lp_grace_period :: string
  lp_max_age :: string
  lp_approval_required :: bool

record credential_reference =
  cr_kind :: string
  cr_location :: string
  cr_fingerprint :: string
  cr_key_id :: string
  cr_delivery :: string

record planned_operation =
  po_op :: string
  po_identity :: string
  po_detail :: string
  po_reversible :: bool
  po_destructive :: bool

text \<open>\<open>pl_operations\<close> is \<open>None\<close> for a nil slice.\<close>

record plan =
  pl_dry_run :: bool
  pl_operations :: "planned_operation list option"
  pl_expires_hint :: string

record vault_reference =
  vr_url :: string
  vr_secret_name :: string
  vr_version :: string
  vr_expires_at :: time
  vr_owner_object_ids :: "string list"

record machine_identity =
  mi_id :: string
  mi_name :: string
  mi_display_name :: string
  mi_namespace :: string
  mi_environment :: string
  mi_provider :: provider_binding
  mi_ownership :: ownership
  mi_policy :: lifecycle_policy
  mi_credential :: credential_reference
  mi_state :: state
  mi_health :: health
  mi_expires_at :: time
  mi_last_rotated_at :: time
  mi_created_at :: time
  mi_updated_at :: time
  mi_metadata :: metadata

record lifecycle_event =
  ev_id :: string
  ev_identity_id :: string
  ev_type :: event_type
  ev_summary :: string
  ev_actor :: string
  ev_outcome :: outcome
  ev_at :: time
  ev_correlation_id :: string
  ev_run_id :: string
  ev_details :: details

record rotation_run =
  rr_id :: string
  rr_identity_id :: string
  rr_status :: rotation_status
  rr_requested_by :: string
  rr_requested_at :: time
  rr_started_at :: time
  rr_finished_at :: time
  rr_outcome :: outcome
  rr_evidence :: credential_reference
  rr_error :: string

record azure_integration_event =
  ie_id :: string
  ie_type :: string
  ie_correlation_id :: string
  ie_at :: time
  ie_outcome :: outcome
  ie_provider :: string
  ie_application_id :: string
  ie_details :: details

subsection \<open>Zero values\<close>

definition zero_binding :: provider_binding where
  "zero_binding = \<lparr>pb_provider = '''', pb_provider_id = '''', pb_tenant_id = '''',
     pb_object_id = '''', pb_region = '''', pb_account_id = '''', pb_project_id = ''''\<rparr>"

definition zero_ownership :: ownership where
  "zero_ownership = \<lparr>ow_team = '''', ow_service = '''', ow_purpose = '''',
     ow_criticality = '''', ow_contacts = []\<rparr>"

definition zero_policy :: lifecycle_policy where
  "zero_policy = \<lparr>lp_renewal_period = '''', lp_grace_period = '''', lp_max_age = '''',
     lp_approval_required = False\<rparr>"

definition zero_credential :: credential_reference where
  "zero_credential = \<lparr>cr_kind = '''', cr_location = '''', cr_fingerprint = '''',
     cr_key_id = '''', cr_delivery = ''''\<rparr>"

definition zero_identity :: machine_identity where
  "zero_identity = \<lparr>mi_id = '''', mi_name = '''', mi_display_name = '''', mi_namespace = '''',
     mi_environment = '''', mi_provider = zero_binding, mi_ownership = zero_ownership,
     mi_policy = zero_policy, mi_credential = zero_credential, mi_state = StateOther '''',
     mi_health = HealthOther '''', mi_expires_at = 0, mi_last_rotated_at = 0,
     mi_created_at = 0, mi_updated_at = 0, mi_metadata = []\<rparr>"

definition zero_run :: rotation_run where
  "zero_run = \<lparr>rr_id = '''', rr_identity_id = '''', rr_status = RotationOther '''',
     rr_requested_by = '''', rr_requested_at = 0, rr_started_at = 0, rr_finished_at = 0,
     rr_outcome = OutcomeOther '''', rr_evidence = zero_credential, rr_error = ''''\<rparr>"

section \<open>Messages\<close>

record register_request =
  rg_id :: string
  rg_name :: string
  rg_display_name :: string
  rg_namespace :: string
  rg_environment :: string
  rg_provider :: provider_binding
  rg_ownership :: ownership
  rg_policy :: lifecycle_policy
  rg_credential :: credential_reference
  rg_expires_at :: time
  rg_requested_by :: string

record register_response =
  rgr_api_version :: string
  rgr_identity :: machine_identity
  rgr_events :: "lifecycle_event list"

record rotate_request =
  ro_id :: string
  ro_requested_by :: string
  ro_reason :: string
  ro_metadata :: metadata
  ro_dry_run :: bool

record rotate_response =
  ror_api_version :: string
  ror_identity :: machine_identity
  ror_rotation :: rotation_run
  ror_events :: "lifecycle_event list"
  ror_plan :: "plan option"

text \<open>RotateResponse.MarshalJSON leaves the rotation field out of a dry-run response.\<close>

definition wire_rotation :: "rotate_response \<Rightarrow> rotation_run option" where
  "wire_rotation r = (if ror_plan r = None then Some (ror_rotation r) else None)"

record retire_request =
  rt_id :: string
  rt_requested_by :: string
  rt_reason :: string
  rt_confirm :: bool
  rt_dry_run :: bool

record retire_response =
  rtr_api_version :: string
  rtr_identity :: machine_identity
  rtr_events :: "lifecycle_event list"
  rtr_plan :: "plan option"

record delete_request =
  de_id :: string
  de_requested_by :: string
  de_reason :: string
  de_confirm :: bool

record delete_response =
  der_api_version :: string
  der_deleted :: bool
  der_identity :: machine_identity
  der_events :: "lifecycle_event list"

record provision_request =
  pv_provider :: string
  pv_purpose :: string
  pv_requested_by :: string
  pv_owner_ip :: string

record provision_response =
  pvr_api_version :: string
  pvr_identity :: machine_identity
  pvr_one_time_secret :: string
  pvr_key_id :: string
  pvr_instructions :: string
  pvr_vault :: "vault_reference option"

record use_request =
  us_id :: string
  us_requested_by :: string
  us_version :: string

record use_response =
  usr_api_version :: string
  usr_identity :: machine_identity
  usr_key_id :: string
  usr_secret :: string
  usr_vault :: "vault_reference option"

text \<open>
  RequestedByOrDefault of the six request types: registration and provisioning default to the
  control plane, the other operations to the operator.
\<close>

definition or_default :: "string \<Rightarrow> string \<Rightarrow> string" where
  "or_default actor dflt = (if actor \<noteq> [] then actor else dflt)"

definition register_actor :: "register_request \<Rightarrow> string" where
  "register_actor r = or_default (rg_requested_by r) ActorControlPlane"

definition rotate_actor :: "rotate_request \<Rightarrow> string" where
  "rotate_actor r = or_default (ro_requested_by r) ActorOperator"

definition retire_actor :: "retire_request \<Rightarrow> string" where
  "retire_actor r = or_default (rt_requested_by r) ActorOperator"

definition delete_actor :: "delete_request \<Rightarrow> string" where
  "delete_actor r = or_default (de_requested_by r) ActorOperator"

definition use_actor :: "use_request \<Rightarrow> string" where
  "use_actor r = or_default (us_requested_by r) ActorOperator"

definition provision_actor :: "provision_request \<Rightarrow> string" where
  "provision_actor r = or_default (pv_requested_by r) ActorControlPlane"

section \<open>Facts\<close>

lemma state_text_of [simp]: "state_text (state_of s) = s"
  by (simp add: state_of_def)

lemma ValidState_iff: "ValidState s \<longleftrightarrow> (\<forall>t. state_of s \<noteq> StateOther t)"
  by (simp add: ValidState_def state_of_def)

lemma ValidHealth_iff: "ValidHealth s \<longleftrightarrow> (\<forall>t. health_of s \<noteq> HealthOther t)"
  by (simp add: ValidHealth_def health_of_def)

end
