(* ===== verification/Duration.thy ===== *)
theory Duration
  imports Float64 Protocol
begin

text \<open>
  The ISO-8601 durations of pkg/protocol/duration.go: the parser with its loop over the bytes
  and its float64 arithmetic, and the formatter. The lemmas say when reading back what was
  written gives the same duration, and by how much it can differ.
\<close>

section \<open>Parsing\<close>

text \<open>
  \<open>fmt.Sscanf(token, "%f", ...)\<close> on a token of digits and dots: the longest prefix with at
  most one dot is read, what follows it is ignored, and a prefix with no digit or beyond the
  float64 range is an error.
\<close>

definition scan_float :: "string \<Rightarrow> rat option" where
  "scan_float token =
     (let ip = takeWhile is_digit token; rest = dropWhile is_digit token;
          fp = (case rest of c # r \<Rightarrow> if c = CHR ''.'' then takeWhile is_digit r else [] | [] \<Rightarrow> [])
      in if ip = [] \<and> fp = [] then None
         else let x = of_nat (dec_val ip) + of_nat (dec_val fp) / 10 ^ length fp
              in if f64_overflow x then None else Some (f64 x))"

fun unit_nanos :: "char \<Rightarrow> duration option" where
  "unit_nanos c =
     (if c = CHR ''D'' then Some day else if c = CHR ''W'' then Some (7 * day)
      else if c = CHR ''H'' then Some hour else if c = CHR ''M'' then Some minute
      else if c = CHR ''S'' then Some second else None)"

declare unit_nanos.simps [simp del]

definition isoUnit :: "char \<Rightarrow> rat \<Rightarrow> duration result" where
  "isoUnit unit amount =
     (case unit_nanos unit of
        Some u \<Rightarrow> Inr (float_to_int64 (f64 (amount * of_int u)))
      | None \<Rightarrow> Inl (plain_error (''protocol: unsupported unit '' @ [CHR 0x27, unit, CHR 0x27])))"

text \<open>The variables of the loop.\<close>

record iso_state =
  is_token :: string
  is_in_time :: bool
  is_time_components :: nat
  is_total :: duration
  is_count :: nat

definition iso_start :: iso_state where
  "iso_start = \<lparr>is_token = [], is_in_time = False, is_time_components = 0,
     is_total = 0, is_count = 0\<rparr>"

definition iso_error :: "string \<Rightarrow> string \<Rightarrow> go_error" where
  "iso_error what value = plain_error (''protocol: '' @ what @ '' in '' @ quoted value)"

definition iso_flush :: "string \<Rightarrow> char \<Rightarrow> iso_state \<Rightarrow> iso_state result" where
  "iso_flush value unit st =
     (if is_token st = [] then
        Inl (iso_error (''empty value before unit '' @ [CHR 0x27, unit, CHR 0x27]) value)
      else case scan_float (is_token st) of
        None \<Rightarrow> Inl (iso_error (''invalid number '' @ quoted (is_token st)) value)
      | Some amount \<Rightarrow>
          (case isoUnit unit amount of
             Inl e \<Rightarrow> Inl e
           | Inr d \<Rightarrow> Inr (st\<lparr>is_total := wrap_int64 (is_total st + d),
               is_count := is_count st + 1,
               is_time_components := is_time_components st + (if is_in_time st then 1 else 0),
               is_token := []\<rparr>)))"

definition is_unit :: "char \<Rightarrow> bool" where
  "is_unit c \<longleftrightarrow> List.member ''YMDWHS'' c"

definition iso_byte :: "string \<Rightarrow> char \<Rightarrow> iso_state \<Rightarrow> iso_state result" where
  "iso_byte value c st =
     (if c = CHR ''T'' then
        (if is_token st \<noteq> [] then
           Inl (plain_error (''protocol: misplaced time designator in '' @ quoted value))
         else Inr (st\<lparr>is_in_time := True\<rparr>))
      else if is_digit c \<or> c = CHR ''.'' then Inr (st\<lparr>is_token := is_token st @ [c]\<rparr>)
      else if is_unit c then
        (if \<not> is_in_time st \<and> (c = CHR ''H'' \<or> c = CHR ''S'') then
           Inl (iso_error (quoted [c] @ '' must follow the time designator'') value)
         else if \<not> is_in_time st \<and> c = CHR ''M'' then
           Inl (plain_error (''protocol: months are not supported in '' @ quoted value))
         else iso_flush value c st)
      else Inl (iso_error (''unexpected character '' @ quoted [c]) value))"

fun iso_loop :: "string \<Rightarrow> string \<Rightarrow> iso_state \<Rightarrow> iso_state result" where
  "iso_loop value [] st = Inr st"
| "iso_loop value (c # s) st =
     (case iso_byte value c st of Inl e \<Rightarrow> Inl e | Inr st' \<Rightarrow> iso_loop value s st')"

definition ParseISO8601Duration :: "string \<Rightarrow> duration result" where
  "ParseISO8601Duration value =
     (let s = trim_space value in
      if \<not> has_prefix s ''P'' \<or> length s < 2 then
        Inl (plain_error (''protocol: invalid ISO-8601 duration '' @ quoted value))
      else case iso_loop value (drop 1 s) iso_start of
        Inl e \<Rightarrow> Inl e
      | Inr st \<Rightarrow>
          if is_token st \<noteq> [] then
            Inl (iso_error (''trailing value '' @ quoted (is_token st)) value)
          else if is_in_time st \<and> is_time_components st = 0 then
            Inl (plain_error (''protocol: time designator without components in '' @ quoted value))
          else if is_count st = 0 then
            Inl (plain_error (''protocol: no duration components in '' @ quoted value))
          else Inr (is_total st))"

section \<open>Formatting\<close>

definition part :: "int \<Rightarrow> string \<Rightarrow> string" where
  "part n unit = (if 0 < n then dec (nat n) @ unit else [])"

definition format_components :: "int \<Rightarrow> int \<Rightarrow> int \<Rightarrow> int \<Rightarrow> int \<Rightarrow> string" where
  "format_components days hours minutes seconds ms =
     part days ''D''
     @ (if 0 < hours \<or> 0 < minutes \<or> 0 < seconds \<or> 0 < ms then ''T'' else [])
     @ part hours ''H'' @ part minutes ''M''
     @ (if 0 < seconds \<or> 0 < ms then
          (if 0 < ms then dec (nat seconds) @ ''.'' @ pad0 3 (dec (nat ms)) @ ''S''
           else dec (nat seconds) @ ''S'')
        else [])"

definition FormatISO8601Duration :: "duration \<Rightarrow> string" where
  "FormatISO8601Duration d =
     (if d \<le> 0 then ''P0D''
      else ''P'' @ format_components (d div day) (d mod day div hour)
             (d mod day mod hour div minute) (d mod day mod hour mod minute div second)
             (d mod day mod hour mod minute mod second div millisecond))"

section \<open>Reading back what was written\<close>

lemma iso_loop_digits:
  "list_all is_digit ds \<Longrightarrow>
   iso_loop v (ds @ s) st = iso_loop v s (st\<lparr>is_token := is_token st @ ds\<rparr>)"
proof (induction ds arbitrary: st)
  case Nil
  then show ?case by simp
next
  case (Cons c ds)
  then have "is_digit c" by simp
  moreover from this have "c \<noteq> CHR ''T''" by (auto simp: is_digit_iff)
  ultimately have "iso_byte v c st = Inr (st\<lparr>is_token := is_token st @ [c]\<rparr>)"
    by (simp add: iso_byte_def)
  with Cons show ?case by simp
qed

lemma takeWhile_digits [simp]: "list_all P ds \<Longrightarrow> takeWhile P (ds @ s) = ds @ takeWhile P s"
  by (induction ds) auto

lemma dropWhile_digits [simp]: "list_all P ds \<Longrightarrow> dropWhile P (ds @ s) = dropWhile P s"
  by (induction ds) auto

lemma dec_takeWhile [simp]: "takeWhile is_digit (dec n) = dec n" "dropWhile is_digit (dec n) = []"
  using dec_digits [of n] by (simp_all add: list_all_iff)

lemma scan_float_dec: "\<not> f64_overflow (of_nat n) \<Longrightarrow> scan_float (dec n) = Some (f64 (of_nat n))"
  by (simp add: scan_float_def dec_val_def [of "[]"])

lemma f64_small_not_overflow: "0 \<le> x \<Longrightarrow> x \<le> 2 ^ 63 \<Longrightarrow> \<not> f64_overflow x"
proof -
  have "(2::rat) ^ 63 < 2 ^ 1024 - 2 ^ 970" by simp
  then show "0 \<le> x \<Longrightarrow> x \<le> 2 ^ 63 \<Longrightarrow> \<not> f64_overflow x"
    unfolding f64_overflow_def by linarith
qed

text \<open>The state after a component.\<close>

definition iso_add :: "duration \<Rightarrow> iso_state \<Rightarrow> iso_state" where
  "iso_add d st = st\<lparr>is_total := is_total st + d, is_count := is_count st + 1,
     is_time_components := is_time_components st + (if is_in_time st then 1 else 0),
     is_token := []\<rparr>"

lemma iso_add_simps [simp]:
  "is_total (iso_add d st) = is_total st + d"
  "is_count (iso_add d st) = is_count st + 1"
  "is_time_components (iso_add d st) = is_time_components st + (if is_in_time st then 1 else 0)"
  "is_token (iso_add d st) = []"
  "is_in_time (iso_add d st) = is_in_time st"
  by (simp_all add: iso_add_def)

text \<open>A whole number of units whose product with the unit is exact in float64.\<close>

lemma iso_flush_whole:
  assumes tok: "is_token st = dec n" and u: "unit_nanos c = Some u"
    and n: "n \<le> 2 ^ 53" and ex: "f64 (of_int (int n * u)) = of_int (int n * u)"
    and pos: "0 \<le> u" and range: "0 \<le> is_total st" "is_total st + int n * u \<le> max_int64"
  shows "iso_flush v c st = Inr (iso_add (int n * u) st)"
proof -
  have "(of_nat n :: rat) \<le> of_nat (2 ^ 53)" using n by (simp only: of_nat_le_iff)
  then have "\<not> f64_overflow (of_nat n)" by (intro f64_small_not_overflow) simp_all
  then have sc: "scan_float (dec n) = Some (of_nat n)"
    using f64_int_exact [of "int n"] n by (simp add: scan_float_dec)
  have prod: "of_nat n * of_int u = (of_int (int n * u) :: rat)" by simp
  have np: "0 \<le> int n * u" using pos by simp
  have "trunc_rat (of_int (int n * u)) = int n * u"
    unfolding trunc_rat_def using np by (simp only: of_int_0_le_iff floor_of_int if_True)
  then have "float_to_int64 (f64 (of_nat n * of_int u)) = int n * u"
    unfolding prod ex using np range by (simp add: float_to_int64_def min_int64_def)
  moreover have "wrap_int64 (is_total st + int n * u) = is_total st + int n * u"
    using np range by (simp add: max_int64_def)
  ultimately show ?thesis by (simp add: iso_flush_def tok sc isoUnit_def u iso_add_def)
qed

lemma f64_exact_times_pow: "\<bar>m\<bar> \<le> 2 ^ 53 \<Longrightarrow> f64 (of_int (m * 2 ^ k)) = of_int (m * 2 ^ k)"
proof -
  assume m: "\<bar>m\<bar> \<le> 2 ^ 53"
  have eq: "(of_int (n * 2 ^ k) :: rat) = of_int n * 2 powi int k" for n by simp
  have pos: "f64_pos (of_int (n * 2 ^ k)) = of_int (n * 2 ^ k)" if "0 < n" "n \<le> 2 ^ 53" for n
    unfolding eq using that by (intro f64_pos_exact) simp_all
  consider "m = 0" | "0 < m" | "m < 0" by linarith
  then show ?thesis
  proof cases
    case 3
    then have "f64_pos (of_int (- m * 2 ^ k)) = of_int (- m * 2 ^ k)" using m by (intro pos) simp_all
    moreover have "(of_int (m * 2 ^ k) :: rat) < 0" using 3 by (simp add: mult_less_0_iff)
    ultimately show ?thesis by (simp add: f64_def)
  next
    case 2
    then have "(0::rat) < of_int (m * 2 ^ k)" by simp
    with pos [of m] 2 m show ?thesis unfolding f64_def by simp
  qed simp
qed


text \<open>The products of the formatter's components with their units are exact.\<close>

lemma unit_product_exact:
  assumes "unit_nanos c = Some u" and "c \<noteq> CHR ''W''" and "0 \<le> n" and "n * u \<le> max_int64"
    and "c \<noteq> CHR ''D'' \<Longrightarrow> n < 60"
  shows "f64 (of_int (n * u)) = of_int (n * u)"
proof (cases "c = CHR ''D''")
  case True
  then have u: "u = 1318359375 * 2 ^ 16"
    using assms(1) by (simp add: unit_nanos.simps day_def)
  then have "n * 1318359375 * 2 ^ 16 \<le> max_int64" using assms(4) by (simp add: mult.assoc)
  then have "\<bar>n * 1318359375\<bar> \<le> 2 ^ 53" using assms(3) by (simp add: max_int64_def)
  from f64_exact_times_pow [OF this, of 16] show ?thesis by (simp only: u mult.assoc)
next
  case False
  then have "n < 60" and "0 \<le> u" and "u \<le> 3600000000000"
    using assms(1,2,5) by (auto simp: unit_nanos.simps time_units split: if_splits)
  then have "n * u \<le> 60 * 3600000000000" using assms(3) by (intro mult_mono) simp_all
  then have "\<bar>n * u\<bar> \<le> 2 ^ 53" using assms(3) \<open>0 \<le> u\<close> by simp
  then show ?thesis by (rule f64_int_exact)
qed

lemma unit_nanos_pos: "unit_nanos c = Some u \<Longrightarrow> 0 < u"
  by (auto simp: unit_nanos.simps time_units split: if_splits)

lemma unit_nanos_unit: "unit_nanos c = Some u \<Longrightarrow> is_unit c \<and> \<not> is_digit c \<and> c \<noteq> CHR ''T'' \<and> c \<noteq> CHR ''.''"
  by (auto simp: unit_nanos.simps is_unit_def is_digit_iff split: if_splits)

lemma iso_loop_component:
  assumes u: "unit_nanos c = Some u" and c: "c \<noteq> CHR ''W''" and n: "0 \<le> n"
    and small: "c \<noteq> CHR ''D'' \<Longrightarrow> n < 60 \<and> is_in_time st"
    and tok: "is_token st = []" and total: "0 \<le> is_total st" "is_total st + n * u \<le> max_int64"
  shows "iso_loop v (dec (nat n) @ c # s) st = iso_loop v s (iso_add (n * u) st)"
proof -
  have nu: "n * u \<le> max_int64" using total by simp
  have ex: "f64 (of_int (n * u)) = of_int (n * u)"
    by (rule unit_product_exact [OF u c n nu]) (use small in simp)
  have n53: "nat n \<le> 2 ^ 53"
  proof (cases "c = CHR ''D''")
    case True
    with u have "n * (86400 * 1000000000) \<le> max_int64" using nu
      by (simp add: unit_nanos.simps day_def)
    then have "n \<le> 2 ^ 53" by (simp add: max_int64_def)
    then show ?thesis by (simp add: nat_le_iff)
  next
    case False
    with small have "n < 60" by simp
    then show ?thesis by (simp add: nat_le_iff)
  qed
  let ?st = "st\<lparr>is_token := dec (nat n)\<rparr>"
  have "iso_flush v c ?st = Inr (iso_add (int (nat n) * u) ?st)"
    using unit_nanos_pos [OF u] ex n n53 total by (intro iso_flush_whole u) simp_all
  also have "iso_add (int (nat n) * u) ?st = iso_add (n * u) st"
    using n by (simp add: iso_add_def)
  finally have "iso_byte v c ?st = Inr (iso_add (n * u) st)"
    using unit_nanos_unit [OF u] small by (auto simp: iso_byte_def unit_nanos.simps)
  then show ?thesis using tok by (simp add: iso_loop_digits dec_digits)
qed

lemma iso_loop_part:
  assumes "unit_nanos c = Some u" and "c \<noteq> CHR ''W''" and "0 \<le> n"
    and "c \<noteq> CHR ''D'' \<Longrightarrow> n < 60 \<and> is_in_time st"
    and "is_token st = []" and "0 \<le> is_total st" and "is_total st + n * u \<le> max_int64"
  shows "iso_loop v (part n [c] @ s) st = iso_loop v s (if 0 < n then iso_add (n * u) st else st)"
  using iso_loop_component [OF assms] by (simp add: part_def)


text \<open>Seconds with a millisecond fraction: the product is truncated, at most one below.\<close>

lemma f64_close:
  assumes "0 \<le> x" and "x < 2 powi k" and "- 1021 \<le> k"
  shows "\<bar>f64 x - x\<bar> \<le> 2 powi (k - 54)"
proof (cases "x = 0")
  case False
  with assms(1) have x: "0 < x" by simp
  have "(2::rat) powi lead_exp x < 2 powi k"
    using lead_exp_bounds(1) [OF x] assms(2) by linarith
  then have "max (lead_exp x) (- 1022) \<le> k - 1"
    using assms(3) unfolding powi2_less_iff by linarith
  then have "f64_ulp x \<le> 2 powi (k - 1 - 52)"
    unfolding f64_ulp_def by (intro powi2_mono) linarith
  also have "\<dots> = 2 * 2 powi (k - 54)"
    using power_int_add_1' [of "2::rat" "k - 54"] by simp
  finally have "\<bar>f64_pos x - x\<bar> \<le> 2 powi (k - 54)"
    using f64_pos_error [of x] by linarith
  with x show ?thesis by (simp add: f64_def)
qed simp

lemma fraction_seconds:
  assumes s: "0 \<le> s" "s < 60" and m: "0 \<le> m" "m < 1000"
  defines "r \<equiv> float_to_int64 (f64 (f64 (of_int s + of_int m / 1000) * of_int second))"
  shows "s * second + m * millisecond - 1 \<le> r \<and> r \<le> s * second + m * millisecond"
proof -
  define x :: rat where "x = of_int s + of_int m / 1000"
  define N where "N = s * second + m * millisecond"
  have x: "0 \<le> x" "x < 2 powi 6"
    using s m by (simp_all add: x_def power_int_def field_simps)
  have N: "of_int N = x * 1000000000"
    by (simp add: N_def x_def second_def millisecond_def field_simps)
  have Nb: "0 \<le> N" "N < 64000000000"
    using s m by (simp_all add: N_def second_def millisecond_def)
  have a: "\<bar>f64 x - x\<bar> \<le> 2 powi (- 48)" using f64_close [OF x] by simp
  define y where "y = f64 x * 1000000000"
  have "y - of_int N = (f64 x - x) * 1000000000"
    unfolding y_def N by (rule left_diff_distrib [symmetric])
  then have "\<bar>y - of_int N\<bar> = \<bar>f64 x - x\<bar> * 1000000000" by (simp only: abs_mult abs_numeral)
  then have ya: "\<bar>y - of_int N\<bar> \<le> 2 powi (- 48) * 1000000000"
    using a by (simp only: mult_right_mono zero_le_numeral)
  have eps: "(2::rat) powi (- 48) * 1000000000 < 1 / 4" by (simp add: power_int_def power_divide)
  have y0: "0 \<le> y" unfolding y_def using f64_nonneg [OF x(1)] by simp
  have "y < 64000000000"
    using ya eps Nb(2) by linarith
  then have y1: "y < 2 powi 36" by (simp add: power_int_def)
  have b: "\<bar>f64 y - y\<bar> \<le> 2 powi (- 18)" using f64_close [OF y0 y1] by simp
  have eps': "(2::rat) powi (- 18) < 1 / 4" by (simp add: power_int_def power_divide)
  have near: "\<bar>f64 y - of_int N\<bar> < 1" using ya eps b eps' by linarith
  have fy: "0 \<le> f64 y" by (rule f64_nonneg [OF y0])
  have "r = \<lfloor>f64 y\<rfloor>"
  proof -
    have range: "min_int64 \<le> k \<and> k \<le> max_int64" if "0 \<le> k" "k \<le> N" for k
      using that Nb by (simp add: min_int64_def max_int64_def)
    have "min_int64 \<le> \<lfloor>f64 y\<rfloor> \<and> \<lfloor>f64 y\<rfloor> \<le> max_int64"
      by (rule range) (use near fy in \<open>simp_all add: floor_le_iff\<close>)
    moreover have "r = float_to_int64 (f64 y)"
      by (simp add: r_def x_def [symmetric] y_def second_def)
    ultimately show ?thesis using fy by (simp add: float_to_int64_def trunc_rat_def)
  qed
  moreover have "N - 1 \<le> \<lfloor>f64 y\<rfloor>" using near by (simp add: le_floor_iff)
  moreover have "\<lfloor>f64 y\<rfloor> \<le> N" using near by (simp add: floor_le_iff)
  ultimately show ?thesis by (simp add: N_def)
qed


lemma pad0_length: "n < 10 ^ w \<Longrightarrow> 0 < w \<Longrightarrow> length (pad0 w (dec n)) = w"
  using length_dec [of n w] by (simp add: pad0_def)

lemma list_all_pad0: "list_all is_digit (pad0 w (dec n))"
  using dec_digits [of n] by (auto simp: pad0_def list_all_iff is_digit_iff)

lemma scan_float_fraction:
  assumes "s < 60" and "m < 1000"
  shows "scan_float (dec s @ ''.'' @ pad0 3 (dec m)) = Some (f64 (of_nat s + of_nat m / 1000))"
proof -
  have tw: "takeWhile is_digit (pad0 3 (dec m)) = pad0 3 (dec m)"
    using list_all_pad0 by (simp add: list_all_iff)
  have "\<not> is_digit CHR ''.''" by (simp add: is_digit_iff)
  moreover have "(of_nat s + of_nat m / 1000 :: rat) \<le> 2 ^ 63"
  proof -
    have "(of_nat s :: rat) < 60" "(of_nat m :: rat) < 1000"
      using assms by (simp_all only: of_nat_less_numeral_iff)
    then have "(of_nat s + of_nat m / 1000 :: rat) < 61" by (simp add: field_simps)
    then show ?thesis by simp
  qed
  then have "\<not> f64_overflow (of_nat s + of_nat m / 1000)" by (intro f64_small_not_overflow) simp_all
  ultimately show ?thesis
    using assms(2) by (simp add: scan_float_def dec_digits pad0_length tw)
qed

lemma iso_loop_fraction:
  assumes s: "0 \<le> s" "s < 60" and m: "0 \<le> m" "m < 1000"
    and st: "is_token st = []" "is_in_time st" "0 \<le> is_total st"
    and total: "is_total st + (s * second + m * millisecond) \<le> max_int64"
    and pos: "0 < m"
  obtains r where "s * second + m * millisecond - 1 \<le> r" "r \<le> s * second + m * millisecond"
    and "iso_loop v (dec (nat s) @ ''.'' @ pad0 3 (dec (nat m)) @ ''S'') st = Inr (iso_add r st)"
proof
  let ?r = "float_to_int64 (f64 (f64 (of_int s + of_int m / 1000) * of_int second))"
  show low: "s * second + m * millisecond - 1 \<le> ?r" and high: "?r \<le> s * second + m * millisecond"
    using fraction_seconds [OF s m] by simp_all
  let ?tok = "dec (nat s) @ ''.'' @ pad0 3 (dec (nat m))"
  have step: "iso_loop v (?tok @ ''S'') st = iso_loop v ''S'' (st\<lparr>is_token := ?tok\<rparr>)"
  proof -
    have dot: "iso_byte v CHR ''.'' st' = Inr (st'\<lparr>is_token := is_token st' @ ''.''\<rparr>)" for st'
      by (simp add: iso_byte_def)
    show ?thesis using st(1) by (simp add: iso_loop_digits dec_digits list_all_pad0 dot)
  qed
  have "0 \<le> ?r" using low pos s(1) by (simp add: second_def millisecond_def)
  then have "wrap_int64 (is_total st + ?r) = is_total st + ?r"
    using high total st(3) by (simp add: max_int64_def)
  moreover have "scan_float ?tok = Some (f64 (of_int s + of_int m / 1000))"
    using scan_float_fraction [of "nat s" "nat m"] s m by simp
  ultimately have "iso_flush v CHR ''S'' (st\<lparr>is_token := ?tok\<rparr>) = Inr (iso_add ?r st)"
    by (simp add: iso_flush_def isoUnit_def unit_nanos.simps iso_add_def)
  moreover have "iso_byte v CHR ''S'' (st\<lparr>is_token := ?tok\<rparr>) = iso_flush v CHR ''S'' (st\<lparr>is_token := ?tok\<rparr>)"
    using st(2) by (simp add: iso_byte_def is_digit_iff is_unit_def)
  ultimately show "iso_loop v (dec (nat s) @ ''.'' @ pad0 3 (dec (nat m)) @ ''S'') st = Inr (iso_add ?r st)"
    using step by simp
qed


text \<open>The formatter's digits of a duration, and the body it writes after the P.\<close>

lemma duration_digits:
  fixes d :: int
  assumes "0 \<le> d"
  defines "h \<equiv> d mod day div hour" and "m \<equiv> d mod day mod hour div minute"
    and "s \<equiv> d mod day mod hour mod minute div second"
    and "ms \<equiv> d mod day mod hour mod minute mod second div millisecond"
  shows "d div day * day + h * hour + m * minute + (s * second + ms * millisecond)
           = d div millisecond * millisecond" (is ?sum)
    and "0 \<le> d div day" "0 \<le> h" "h < 60" "0 \<le> m" "m < 60" "0 \<le> s" "s < 60" "0 \<le> ms" "ms < 1000"
    and "second dvd d \<Longrightarrow> ms = 0"
proof -
  define e where "e = d mod day mod hour mod minute mod second"
  define K where "K = d div day * 86400000 + h * 3600000 + m * 60000 + s * 1000"
  have e: "d = K * millisecond + e"
  proof -
    have "d = d div day * day + d mod day" by simp
    also have "d mod day = h * hour + d mod day mod hour" by (simp add: h_def)
    also have "d mod day mod hour = m * minute + d mod day mod hour mod minute" by (simp add: m_def)
    also have "d mod day mod hour mod minute = s * second + e" by (simp add: s_def e_def)
    finally show ?thesis by (simp add: K_def time_units)
  qed
  have eb: "0 \<le> e" "e < second" by (simp_all add: e_def second_def)
  have "d div millisecond = K + ms"
    unfolding ms_def e_def [symmetric] by (subst e) (simp add: millisecond_def)
  then show ?sum by (simp add: K_def time_units algebra_simps)
  have pos: "0 < day" "0 < hour" "0 < minute" "0 < second" by (simp_all add: time_units)
  show "0 \<le> d div day" using assms(1) pos by (simp add: pos_imp_zdiv_nonneg_iff)
  show "0 \<le> h" "0 \<le> m" "0 \<le> s" using pos by (simp_all add: h_def m_def s_def pos_imp_zdiv_nonneg_iff)
  show "0 \<le> ms" using eb by (simp add: ms_def e_def [symmetric] millisecond_def pos_imp_zdiv_nonneg_iff)
  show "ms < 1000" using eb
    by (simp add: ms_def e_def [symmetric] millisecond_def second_def div_less_iff_less_mult)
  have dl: "x div b < 60" if "x < 60 * b" "0 < b" for x b :: int
  proof -
    have "x div b * b \<le> x" using that(2) by (simp add: minus_mod_eq_div_mult [symmetric])
    then have "x div b * b < 60 * b" using that(1) by linarith
    then show ?thesis using that(2) by simp
  qed
  have md: "x mod b < b" if "0 < b" for x b :: int using that by simp
  show "h < 60" unfolding h_def using md [of day d] pos by (intro dl) (simp_all add: time_units)
  show "m < 60" unfolding m_def using md [of hour "d mod day"] pos by (intro dl) (simp_all add: time_units)
  show "s < 60" unfolding s_def using md [of minute "d mod day mod hour"] pos
    by (intro dl) (simp_all add: time_units)
  assume "second dvd d"
  moreover have "second dvd K * millisecond - s * second"
    by (simp add: K_def time_units)
  ultimately have "second dvd e"
    using e by (metis add_diff_cancel_left' diff_add_cancel dvd_add_right_iff dvd_triv_right)
  then have "e = 0" using eb by (metis zdvd_not_zless order_le_less)
  then show "ms = 0" by (simp add: ms_def e_def [symmetric])
qed

lemma plain_format_components: "list_all plain_byte (format_components n h m s ms)"
proof -
  have dec: "list_all plain_byte (dec n)" for n
    using dec_digits [of n] by (auto simp: list_all_iff is_digit_iff plain_byte_def)
  have pad: "list_all plain_byte (pad0 3 (dec n))" for n
    using list_all_pad0 [of 3 n] by (auto simp: list_all_iff is_digit_iff plain_byte_def)
  have lit: "list_all plain_byte ''PTDHMS.0''" by (simp add: plain_byte_def)
  show ?thesis using dec pad lit by (simp add: format_components_def part_def)
qed

lemma plain_format: "list_all plain_byte (FormatISO8601Duration d)"
  using plain_format_components by (simp add: FormatISO8601Duration_def plain_byte_def)

lemma trim_space_all_plain: "list_all plain_byte s \<Longrightarrow> trim_space s = s"
  by (cases "s = []") (auto intro!: trim_space_plain simp: list_all_iff)


definition iso_ok :: "string \<Rightarrow> string \<Rightarrow> duration \<Rightarrow> bool" where
  "iso_ok v body r \<longleftrightarrow> (\<exists>st. iso_loop v body iso_start = Inr st \<and> is_token st = [] \<and>
     is_total st = r \<and> 0 < is_count st \<and> (is_in_time st \<longrightarrow> 0 < is_time_components st))"

lemma parse_ok:
  assumes "iso_ok v body r" and "trim_space v = v" and "v = CHR ''P'' # body" and "body \<noteq> []"
  shows "ParseISO8601Duration v = Inr r"
proof -
  obtain st where "iso_loop v body iso_start = Inr st" "is_token st = []" "is_total st = r"
    "0 < is_count st" "is_in_time st \<longrightarrow> 0 < is_time_components st"
    using assms(1) by (auto simp: iso_ok_def)
  moreover have "drop 1 (trim_space v) = body" "has_prefix (trim_space v) ''P''" "2 \<le> length (trim_space v)"
    using assms(2-4) by (auto simp: Suc_le_eq)
  ultimately show ?thesis by (simp add: ParseISO8601Duration_def)
qed

lemmas component_units =
  unit_nanos.simps [of "CHR ''D''", simplified] unit_nanos.simps [of "CHR ''H''", simplified]
  unit_nanos.simps [of "CHR ''M''", simplified] unit_nanos.simps [of "CHR ''S''", simplified]

text \<open>The formatted days, time designator, hours and minutes, read from the initial state.\<close>

lemma iso_loop_prefix:
  assumes n: "0 \<le> n" and h: "0 \<le> h" "h < 60" and m: "0 \<le> m" "m < 60"
    and total: "n * day + h * hour + m * minute \<le> max_int64" and time: "0 < h \<or> 0 < m \<Longrightarrow> time"
  obtains st where
    "iso_loop v (part n ''D'' @ (if time then ''T'' else []) @ part h ''H'' @ part m ''M'' @ tail) iso_start
       = iso_loop v tail st"
    and "is_token st = []" "is_in_time st \<longleftrightarrow> time" "is_total st = n * day + h * hour + m * minute"
    and "0 < n \<or> 0 < h \<or> 0 < m \<Longrightarrow> 0 < is_count st"
    and "0 < h \<or> 0 < m \<Longrightarrow> 0 < is_time_components st"
proof
  define st1 where "st1 = (if 0 < n then iso_add (n * day) iso_start else iso_start)"
  define st2 where "st2 = (if time then st1\<lparr>is_in_time := True\<rparr> else st1)"
  define st3 where "st3 = (if 0 < h then iso_add (h * hour) st2 else st2)"
  define st4 where "st4 = (if 0 < m then iso_add (m * minute) st3 else st3)"
  have nn: "0 \<le> n * day" "0 \<le> h * hour" "0 \<le> m * minute"
    using n h m by (simp_all add: time_units)
  have start: "is_token iso_start = []" "is_total iso_start = 0" "\<not> is_in_time iso_start"
    by (simp_all add: iso_start_def)
  have pre: "iso_loop v (part n ''D'' @ rest) iso_start = iso_loop v rest st1" for rest
    unfolding st1_def using n nn total start by (intro iso_loop_part) (simp_all add: component_units)
  have st1: "is_token st1 = []" "\<not> is_in_time st1" "is_total st1 = n * day"
    "0 < n \<Longrightarrow> 0 < is_count st1"
    using start n by (simp_all add: st1_def)
  have desig: "iso_loop v ((if time then ''T'' else []) @ rest) st1 = iso_loop v rest st2" for rest
    using st1 by (simp add: st2_def iso_byte_def)
  have st2: "is_token st2 = []" "is_in_time st2 \<longleftrightarrow> time" "is_total st2 = n * day"
    "is_count st2 = is_count st1"
    using st1 by (simp_all add: st2_def)
  have hh: "iso_loop v (part h ''H'' @ rest) st2 = iso_loop v rest st3" for rest
  proof (cases "0 < h")
    case True
    then show ?thesis unfolding st3_def
      using h nn total st2 time by (intro iso_loop_part) (simp_all add: component_units)
  qed (simp add: part_def st3_def)
  have st3: "is_token st3 = []" "is_in_time st3 \<longleftrightarrow> time"
    "is_total st3 = n * day + h * hour" "0 < n \<or> 0 < h \<Longrightarrow> 0 < is_count st3"
    "0 < h \<Longrightarrow> 0 < is_time_components st3"
    using st2 st1(4) h time by (auto simp: st3_def)
  have mm: "iso_loop v (part m ''M'' @ rest) st3 = iso_loop v rest st4" for rest
  proof (cases "0 < m")
    case True
    then show ?thesis unfolding st4_def
      using m nn total st3 time by (intro iso_loop_part) (simp_all add: component_units)
  qed (simp add: part_def st4_def)
  show "iso_loop v (part n ''D'' @ (if time then ''T'' else []) @ part h ''H'' @ part m ''M'' @ tail)
      iso_start = iso_loop v tail st4"
    by (simp only: pre desig hh mm)
  show "is_token st4 = []" "is_in_time st4 \<longleftrightarrow> time"
    "is_total st4 = n * day + h * hour + m * minute" "0 < n \<or> 0 < h \<or> 0 < m \<Longrightarrow> 0 < is_count st4"
    "0 < h \<or> 0 < m \<Longrightarrow> 0 < is_time_components st4"
    using st3 m time by (auto simp: st4_def)
qed

lemma iso_ok_components:
  assumes n: "0 \<le> n" and h: "0 \<le> h" "h < 60" and m: "0 \<le> m" "m < 60"
    and s: "0 \<le> s" "s < 60" and ms: "0 \<le> ms" "ms < 1000"
    and fl: "n * day + h * hour + m * minute + (s * second + ms * millisecond) = fl"
    and bounds: "0 < fl" "fl \<le> max_int64"
  obtains r where "iso_ok v (format_components n h m s ms) r" "fl - 1 \<le> r" "r \<le> fl"
    and "ms = 0 \<longrightarrow> r = fl"
proof -
  let ?time = "0 < h \<or> 0 < m \<or> 0 < s \<or> 0 < ms"
  define tail where "tail = (if 0 < s \<or> 0 < ms then
      (if 0 < ms then dec (nat s) @ ''.'' @ pad0 3 (dec (nat ms)) @ ''S'' else dec (nat s) @ ''S'') else [])"
  have nn: "0 \<le> n * day" "0 \<le> h * hour" "0 \<le> m * minute" "0 \<le> s * second" "0 \<le> ms * millisecond"
    using assms(1-9) by (simp_all add: time_units)
  have tot: "n * day + h * hour + m * minute \<le> max_int64" using nn fl bounds by linarith
  obtain st where run: "iso_loop v (format_components n h m s ms) iso_start = iso_loop v tail st"
    and st: "is_token st = []" "is_in_time st \<longleftrightarrow> ?time"
      "is_total st = n * day + h * hour + m * minute" "0 < n \<or> 0 < h \<or> 0 < m \<Longrightarrow> 0 < is_count st"
      "0 < h \<or> 0 < m \<Longrightarrow> 0 < is_time_components st"
    using iso_loop_prefix [OF n h m tot, of ?time v tail]
    unfolding format_components_def tail_def by blast
  have st_total: "0 \<le> is_total st" using st(3) nn by simp
  consider (fraction) "0 < ms" | (seconds) "ms = 0" "0 < s" | (neither) "ms = 0" "s = 0"
    using s ms by linarith
  then show thesis
  proof cases
    case fraction
    have "is_total st + (s * second + ms * millisecond) \<le> max_int64" and t: "is_in_time st"
      using st fl bounds fraction by simp_all
    then obtain q where q: "s * second + ms * millisecond - 1 \<le> q" "q \<le> s * second + ms * millisecond"
      "iso_loop v (dec (nat s) @ ''.'' @ pad0 3 (dec (nat ms)) @ ''S'') st = Inr (iso_add q st)"
      using iso_loop_fraction [OF s ms st(1) _ st_total _ fraction] by metis
    show thesis
    proof (rule that)
      show "iso_ok v (format_components n h m s ms) (is_total st + q)"
        using q(3) run fraction t by (simp add: iso_ok_def tail_def)
      show "fl - 1 \<le> is_total st + q" "is_total st + q \<le> fl" using q fl st(3) by linarith+
      show "ms = 0 \<longrightarrow> is_total st + q = fl" using fraction by simp
    qed
  next
    case seconds
    have "iso_loop v (dec (nat s) @ CHR ''S'' # []) st = iso_loop v [] (iso_add (s * second) st)"
      using s nn fl bounds st seconds st_total
      by (intro iso_loop_component) (simp_all add: component_units)
    then have "iso_ok v (format_components n h m s ms) (is_total st + s * second)"
      using run seconds st(2) by (simp add: iso_ok_def tail_def)
    moreover have "is_total st + s * second = fl" using fl st(3) seconds by simp
    ultimately show thesis by (intro that [of fl]) simp_all
  next
    case neither
    then have "is_total st = fl" using fl st(3) by simp
    moreover from this have "0 < n \<or> 0 < h \<or> 0 < m"
      using bounds st(3) n h m by (cases "n = 0"; cases "h = 0"; cases "m = 0") auto
    ultimately have "iso_ok v (format_components n h m s ms) fl"
      using run neither st by (auto simp: iso_ok_def tail_def)
    then show thesis by (intro that [of fl]) simp_all
  qed
qed

lemma iso_ok_nonempty: "iso_ok v body r \<Longrightarrow> body \<noteq> []"
  by (auto simp: iso_ok_def iso_start_def)

lemma floor_millis:
  assumes "millisecond \<le> d"
  shows "0 < d div millisecond * millisecond" and "d div millisecond * millisecond \<le> d"
proof -
  have "0 < d div millisecond" using assms by (simp add: millisecond_def pos_imp_zdiv_pos_iff)
  then show "0 < d div millisecond * millisecond" by (simp add: millisecond_def)
  show "d div millisecond * millisecond \<le> d"
    by (simp add: minus_mod_eq_div_mult [symmetric] millisecond_def)
qed

lemma parse_format:
  assumes d: "millisecond \<le> d" "d \<le> max_int64"
  obtains r where "ParseISO8601Duration (FormatISO8601Duration d) = Inr r"
    and "d div millisecond * millisecond - 1 \<le> r" "r \<le> d div millisecond * millisecond"
    and "second dvd d \<Longrightarrow> r = d"
proof -
  define fl where "fl = d div millisecond * millisecond"
  have d0: "0 < d" "0 \<le> d" using d(1) by (simp_all add: millisecond_def)
  note digits = duration_digits [OF d0(2), folded fl_def]
  have fl: "0 < fl" "fl \<le> max_int64" using floor_millis [OF d(1)] d(2) by (simp_all add: fl_def)
  obtain r where r: "iso_ok (FormatISO8601Duration d) (format_components (d div day)
        (d mod day div hour) (d mod day mod hour div minute)
        (d mod day mod hour mod minute div second)
        (d mod day mod hour mod minute mod second div millisecond)) r"
    and bounds: "fl - 1 \<le> r" "r \<le> fl"
    and whole: "d mod day mod hour mod minute mod second div millisecond = 0 \<longrightarrow> r = fl"
    by (rule iso_ok_components [where v = "FormatISO8601Duration d", OF digits(2-10) digits(1) fl])
  have "ParseISO8601Duration (FormatISO8601Duration d) = Inr r"
  proof (rule parse_ok [OF r trim_space_all_plain [OF plain_format] _ iso_ok_nonempty [OF r]])
    show "FormatISO8601Duration d = CHR ''P'' # format_components (d div day)
        (d mod day div hour) (d mod day mod hour div minute)
        (d mod day mod hour mod minute div second)
        (d mod day mod hour mod minute mod second div millisecond)"
      unfolding FormatISO8601Duration_def using d0 by (simp only: append_Cons append_Nil) simp
  qed
  moreover have "r = d" if "second dvd d"
  proof -
    have "millisecond dvd d" using that by (rule dvd_trans [rotated]) (simp add: time_units)
    then have "fl = d" by (simp add: fl_def)
    with whole digits(11) [OF that] show ?thesis by simp
  qed
  ultimately show thesis using that bounds unfolding fl_def by blast
qed


section \<open>What the parser accepts\<close>

lemma iso_flush_cases:
  assumes "iso_flush v c st = Inr st'"
  obtains "is_token st \<noteq> []" "is_token st' = []" "is_in_time st' = is_in_time st"
    "is_count st' = is_count st + 1" "unit_nanos c \<noteq> None"
  using assms by (auto simp: iso_flush_def isoUnit_def split: if_splits option.splits sum.splits)

lemma iso_byte_cases:
  assumes "iso_byte v c st = Inr st'"
  obtains (designator) "c = CHR ''T''" "is_token st' = []" "is_count st' = is_count st" "is_in_time st'"
  | (digit) "is_digit c \<or> c = CHR ''.''" "is_token st' = is_token st @ [c]"
      "is_count st' = is_count st" "is_in_time st' = is_in_time st"
  | (unit) "unit_nanos c \<noteq> None" "is_token st' = []" "is_in_time st' = is_in_time st"
      "c \<notin> set ''HMS'' \<or> is_in_time st"
proof -
  consider "c = CHR ''T''" | "c \<noteq> CHR ''T''" "is_digit c \<or> c = CHR ''.''"
    | "c \<noteq> CHR ''T''" "\<not> (is_digit c \<or> c = CHR ''.'')" by blast
  then show thesis
  proof cases
    case 1
    with assms designator show thesis by (auto simp: iso_byte_def split: if_splits)
  next
    case 2
    with assms have "st' = st\<lparr>is_token := is_token st @ [c]\<rparr>" by (simp add: iso_byte_def)
    with 2(2) digit show thesis by simp
  next
    case 3
    with assms have "iso_flush v c st = Inr st'" "c \<notin> set ''HMS'' \<or> is_in_time st"
      by (auto simp: iso_byte_def split: if_splits)
    with unit show thesis by (auto elim!: iso_flush_cases)
  qed
qed

definition duration_char :: "char \<Rightarrow> bool" where
  "duration_char c \<longleftrightarrow> is_digit c \<or> c = CHR ''.'' \<or> c = CHR ''T'' \<or> unit_nanos c \<noteq> None"

definition before_clock :: "string \<Rightarrow> string" where
  "before_clock s = takeWhile (\<lambda>c. c \<noteq> CHR ''T'') s"

lemma iso_loop_chars: "iso_loop v s st = Inr st' \<Longrightarrow> list_all duration_char s"
proof (induction s arbitrary: st)
  case (Cons c s)
  then obtain st1 where "iso_byte v c st = Inr st1" "iso_loop v s st1 = Inr st'"
    by (auto split: sum.splits)
  with Cons.IH show ?case by (auto simp: duration_char_def elim!: iso_byte_cases)
qed simp

lemma iso_loop_clock:
  "iso_loop v s st = Inr st' \<Longrightarrow> \<not> is_in_time st \<Longrightarrow> set (before_clock s) \<inter> set ''HMS'' = {}"
proof (induction s arbitrary: st)
  case (Cons c s)
  then obtain st1 where "iso_byte v c st = Inr st1" "iso_loop v s st1 = Inr st'"
    by (auto split: sum.splits)
  with Cons.IH [of st1] Cons.prems(2) show ?case
    by (auto simp: before_clock_def is_digit_iff elim!: iso_byte_cases)
qed (simp add: before_clock_def)

lemma iso_loop_unit:
  "iso_loop v s st = Inr st' \<Longrightarrow> list_all (\<lambda>c. unit_nanos c = None) s \<Longrightarrow> is_count st' = is_count st"
proof (induction s arbitrary: st)
  case (Cons c s)
  then obtain st1 where "iso_byte v c st = Inr st1" "iso_loop v s st1 = Inr st'"
    by (auto split: sum.splits)
  with Cons.IH [of st1] Cons.prems(2) show ?case by (auto elim!: iso_byte_cases)
qed simp

section \<open>Properties\<close>

text \<open>
  A non-negative duration of whole seconds survives formatting and parsing unchanged, up
  to the largest int64: the float64 arithmetic of the parser is exact on what the formatter
  writes.
\<close>

theorem format_parse_whole:
  assumes "0 \<le> d" and "d \<le> max_int64" and "second dvd d"
  shows "ParseISO8601Duration (FormatISO8601Duration d) = Inr d"
proof (cases "d = 0")
  case True
  then show ?thesis by simp (code_simp)
next
  case False
  with assms have "millisecond \<le> d"
    using zdvd_imp_le [of second d] by (simp add: time_units)
  with assms show ?thesis by (metis parse_format)
qed

theorem format_parse_whole_witness:
  "ParseISO8601Duration (FormatISO8601Duration (90061 * second)) = Inr (90061 * second)"
  by (rule format_parse_whole) (simp_all add: second_def max_int64_def)

text \<open>
  A duration of at least a millisecond is written as a text the parser accepts, and what is
  read back is the duration truncated to milliseconds or one nanosecond less: the formatter
  drops what is below a millisecond and the parser's float64 product is truncated.
\<close>

theorem format_parse_close:
  assumes "millisecond \<le> d" and "d \<le> max_int64"
  shows "\<exists>r. ParseISO8601Duration (FormatISO8601Duration d) = Inr r \<and>
     (r = d div millisecond * millisecond \<or> r = d div millisecond * millisecond - 1)"
proof -
  obtain r where "ParseISO8601Duration (FormatISO8601Duration d) = Inr r"
    and "d div millisecond * millisecond - 1 \<le> r" "r \<le> d div millisecond * millisecond"
    by (rule parse_format [OF assms])
  moreover from this have "r = d div millisecond * millisecond \<or> r = d div millisecond * millisecond - 1"
    by linarith
  ultimately show ?thesis by blast
qed

theorem format_parse_close_witness:
  "\<exists>r. ParseISO8601Duration (FormatISO8601Duration 1001000007) = Inr r \<and> (r = 1001000000 \<or> r = 1000999999)"
  using format_parse_close [of 1001000007] by (simp add: millisecond_def max_int64_def)

text \<open>
  Two inputs the comment of the formatter does not foresee: a positive duration below a
  millisecond is written as a bare P, which the parser refuses, and 1.001 s is read back one
  nanosecond short.
\<close>

theorem format_parse_gaps:
  "(\<forall>d. 0 < d \<and> d < millisecond \<longrightarrow>
      FormatISO8601Duration d = ''P'' \<and> (\<exists>e. ParseISO8601Duration (FormatISO8601Duration d) = Inl e)) \<and>
   ParseISO8601Duration (FormatISO8601Duration 1001000000) = Inr 1000999999"
proof (intro conjI allI impI)
  fix d :: int
  assume d: "0 < d \<and> d < millisecond"
  then have "d mod day = d" "d mod hour = d" "d mod minute = d" "d mod second = d"
    "d div day = 0" "d div hour = 0" "d div minute = 0" "d div second = 0" "d div millisecond = 0"
    by (simp_all add: time_units)
  with d show P: "FormatISO8601Duration d = ''P''"
    by (simp add: FormatISO8601Duration_def format_components_def part_def)
  have "\<exists>e. ParseISO8601Duration ''P'' = Inl e"
    by (simp add: ParseISO8601Duration_def trim_simps plain_byte_def)
  with P show "\<exists>e. ParseISO8601Duration (FormatISO8601Duration d) = Inl e" by simp
next
  show "ParseISO8601Duration (FormatISO8601Duration 1001000000) = Inr 1000999999"
    by code_simp
qed

theorem format_parse_gaps_witness:
  "FormatISO8601Duration 7 = ''P''"
  using format_parse_gaps by (simp add: millisecond_def)

text \<open>
  The language the parser accepts: after the trimmed P come only digits, dots, time
  designators and the units D, W, H, M and S, at least one of them a unit, and none of H, M
  and S stands before the first time designator. A year or a month is never accepted.
\<close>

theorem parse_accepts:
  assumes "ParseISO8601Duration v = Inr d"
  shows "\<exists>body. trim_space v = CHR ''P'' # body \<and> list_all duration_char body \<and>
     \<not> list_all (\<lambda>c. unit_nanos c = None) body \<and> set (before_clock body) \<inter> set ''HMS'' = {}"
proof -
  define s where "s = trim_space v"
  from assms obtain st where p: "has_prefix s ''P''"
    and l: "iso_loop v (drop 1 s) iso_start = Inr st" and c: "is_count st \<noteq> 0"
    by (auto simp: ParseISO8601Duration_def Let_def s_def split: if_splits sum.splits)
  from p have s: "s = CHR ''P'' # drop 1 s" by (auto simp: has_prefix_iff)
  have "\<not> list_all (\<lambda>c. unit_nanos c = None) (drop 1 s)"
    using iso_loop_unit [OF l] c by (auto simp: iso_start_def)
  moreover have "set (before_clock (drop 1 s)) \<inter> set ''HMS'' = {}"
    using l by (rule iso_loop_clock) (simp add: iso_start_def)
  ultimately show ?thesis using s iso_loop_chars [OF l] unfolding s_def by blast
qed

theorem parse_accepts_witness:
  "\<exists>body. trim_space ''P1DT6H'' = CHR ''P'' # body \<and> list_all duration_char body \<and>
     \<not> list_all (\<lambda>c. unit_nanos c = None) body \<and> set (before_clock body) \<inter> set ''HMS'' = {}"
proof (rule parse_accepts)
  show "ParseISO8601Duration ''P1DT6H'' = Inr 108000000000000" by code_simp
qed

end
