(* ===== verification/Validation.thy ===== *)
theory Validation
  imports Duration
begin

text \<open>
  The conformance checks of pkg/protocol/validation.go. A pointer argument is an option
  (\<open>None\<close> is nil); a check returns the error listing every violated rule, or \<open>Inr ()\<close>.
\<close>

section \<open>Errors\<close>

definition conformance_text :: string where
  "conformance_text = ''protocol: document does not conform to '' @ Version"

text \<open>\<open>fmt.Errorf("%w: ...", ErrConformance)\<close>.\<close>

definition nonconformant :: "string \<Rightarrow> go_error" where
  "nonconformant msg = GoError [ErrConformance] (conformance_text @ '': '' @ msg)"

text \<open>ValidationErrors: the list of the violated rules as an error.\<close>

definition ValidationErrors :: "string list \<Rightarrow> go_error" where
  "ValidationErrors v = GoError [ErrConformance] (conformance_text @ '': '' @ join ''; '' v)"

definition require :: "bool \<Rightarrow> string \<Rightarrow> string list" where
  "require ok msg = (if ok then [] else [msg])"

definition conclude :: "string list \<Rightarrow> unit result" where
  "conclude errs = (if errs \<noteq> [] then Inl (ValidationErrors errs) else Inr ())"

section \<open>The checks\<close>

definition identity_violations :: "machine_identity \<Rightarrow> string list" where
  "identity_violations v =
     require (mi_id v \<noteq> []) ''id is required''
     @ require (mi_name v \<noteq> []) ''name is required''
     @ require (pb_provider (mi_provider v) \<noteq> []) ''provider.provider is required''
     @ require (pb_provider_id (mi_provider v) \<noteq> []) ''provider.provider_id is required''
     @ require (ow_team (mi_ownership v) \<noteq> []) ''ownership.team is required''
     @ require (ow_service (mi_ownership v) \<noteq> []) ''ownership.service is required''
     @ require (ow_purpose (mi_ownership v) \<noteq> []) ''ownership.purpose is required''
     @ require (ValidState (state_text (mi_state v)))
         (''state '' @ quoted (state_text (mi_state v)) @ '' is invalid'')
     @ require (ValidHealth (health_text (mi_health v)))
         (''health '' @ quoted (health_text (mi_health v)) @ '' is invalid'')
     @ (if lp_renewal_period (mi_policy v) \<noteq> [] then
          (case ParseISO8601Duration (lp_renewal_period (mi_policy v)) of
             Inl _ \<Rightarrow> [''policy.renewal_period is not a valid ISO-8601 duration'']
           | Inr _ \<Rightarrow> [])
        else [])"

definition ValidateIdentity :: "machine_identity option \<Rightarrow> unit result" where
  "ValidateIdentity p = (case p of
     None \<Rightarrow> Inl (nonconformant ''identity is nil'')
   | Some v \<Rightarrow> conclude (identity_violations v))"

definition ValidateEvent :: "lifecycle_event option \<Rightarrow> unit result" where
  "ValidateEvent p = (case p of
     None \<Rightarrow> Inl (nonconformant ''event is nil'')
   | Some v \<Rightarrow> conclude (
       require (ev_id v \<noteq> []) ''id is required''
       @ require (ev_identity_id v \<noteq> []) ''identity_id is required''
       @ require (event_type_text (ev_type v) \<noteq> []) ''type is required''
       @ require (ev_summary v \<noteq> []) ''summary is required''
       @ require (ev_actor v \<noteq> []) ''actor is required''
       @ require (\<not> (outcome_text (ev_outcome v) = [] \<or> \<not> ValidOutcome (outcome_text (ev_outcome v))))
           ''outcome is invalid''
       @ require (ev_at v \<noteq> 0) ''at is required''))"

definition ValidatePlannedOperation :: "planned_operation option \<Rightarrow> unit result" where
  "ValidatePlannedOperation p = (case p of
     None \<Rightarrow> Inl (nonconformant ''planned operation is nil'')
   | Some v \<Rightarrow> conclude (
       require (trim_space (po_op v) \<noteq> []) ''op is required''
       @ require (trim_space (po_identity v) \<noteq> []) ''identity is required''
       @ require (trim_space (po_detail v) \<noteq> []) ''detail is required''))"

text \<open>The loop over the operations, from index \<open>i\<close> on.\<close>

fun operation_violations :: "nat \<Rightarrow> planned_operation list \<Rightarrow> string list" where
  "operation_violations i [] = []"
| "operation_violations i (v # vs) =
     (case ValidatePlannedOperation (Some v) of
        Inl e \<Rightarrow> [''operations['' @ dec i @ '']: '' @ err_text e]
      | Inr _ \<Rightarrow> [])
     @ operation_violations (i + 1) vs"

definition ValidatePlan :: "plan option \<Rightarrow> unit result" where
  "ValidatePlan p = (case p of
     None \<Rightarrow> Inl (nonconformant ''plan is nil'')
   | Some v \<Rightarrow> conclude (
       require (pl_dry_run v) ''dry_run must be true''
       @ require (trim_space (pl_expires_hint v) \<noteq> []) ''expires_hint is required''
       @ require (pl_operations v \<noteq> None) ''operations is required''
       @ (case pl_operations v of None \<Rightarrow> [] | Some vs \<Rightarrow> operation_violations 0 vs)))"

definition ValidateRotateRequest :: "rotate_request option \<Rightarrow> unit result" where
  "ValidateRotateRequest p = (case p of
     None \<Rightarrow> Inl (nonconformant ''rotate request is nil'')
   | Some v \<Rightarrow> if trim_space (ro_id v) = [] then Inl (nonconformant ''id is required'') else Inr ())"

definition ValidateRetireRequest :: "retire_request option \<Rightarrow> unit result" where
  "ValidateRetireRequest p = (case p of
     None \<Rightarrow> Inl (nonconformant ''retire request is nil'')
   | Some v \<Rightarrow> if trim_space (rt_id v) = [] then Inl (nonconformant ''id is required'') else Inr ())"

definition ValidateRotationRun :: "rotation_run option \<Rightarrow> unit result" where
  "ValidateRotationRun p = (case p of
     None \<Rightarrow> Inl (nonconformant ''rotation run is nil'')
   | Some v \<Rightarrow> conclude (
       require (rr_id v \<noteq> []) ''id is required''
       @ require (rr_identity_id v \<noteq> []) ''identity_id is required''
       @ require (\<not> (rotation_status_text (rr_status v) = []
           \<or> \<not> ValidRotationStatus (rotation_status_text (rr_status v)))) ''status is invalid''))"

section \<open>Conformance as a specification\<close>

definition conformant_identity :: "machine_identity \<Rightarrow> bool" where
  "conformant_identity v \<longleftrightarrow>
     mi_id v \<noteq> [] \<and> mi_name v \<noteq> [] \<and>
     pb_provider (mi_provider v) \<noteq> [] \<and> pb_provider_id (mi_provider v) \<noteq> [] \<and>
     ow_team (mi_ownership v) \<noteq> [] \<and> ow_service (mi_ownership v) \<noteq> [] \<and>
     ow_purpose (mi_ownership v) \<noteq> [] \<and>
     mi_state v \<in> set KnownStates \<and> mi_health v \<in> {HealthHealthy, HealthAttention} \<and>
     (lp_renewal_period (mi_policy v) = [] \<or>
        (\<exists>d. ParseISO8601Duration (lp_renewal_period (mi_policy v)) = Inr d))"

definition conformant_operation :: "planned_operation \<Rightarrow> bool" where
  "conformant_operation v \<longleftrightarrow>
     trim_space (po_op v) \<noteq> [] \<and> trim_space (po_identity v) \<noteq> [] \<and> trim_space (po_detail v) \<noteq> []"

definition conformant_plan :: "plan \<Rightarrow> bool" where
  "conformant_plan v \<longleftrightarrow> pl_dry_run v \<and> trim_space (pl_expires_hint v) \<noteq> [] \<and>
     (\<exists>vs. pl_operations v = Some vs \<and> list_all conformant_operation vs)"

lemma require_Nil [simp]: "require ok msg = [] \<longleftrightarrow> ok"
  by (simp add: require_def)

lemma conclude_ok [simp]: "conclude errs = Inr () \<longleftrightarrow> errs = []"
  by (simp add: conclude_def)

lemma conclude_error: "conclude errs = Inl e \<Longrightarrow> errors_is e ErrConformance"
  by (auto simp: conclude_def ValidationErrors_def split: if_splits)

lemma nonconformant_is [simp]: "errors_is (nonconformant msg) ErrConformance"
  by (simp add: nonconformant_def)

lemma result_unit_cases: "r = Inr () \<or> (\<exists>e. r = Inl e)" for r :: "unit result"
  by (cases r) auto

lemma ValidState_known: "ValidState (state_text s) \<and> (\<forall>t. s = StateOther t \<longrightarrow> False) \<longleftrightarrow> s \<in> set KnownStates"
  by (cases s) (auto simp: KnownStates_def ValidState_def)

text \<open>
  A state or health that came in as text is read with \<^const>\<open>state_of\<close> and \<^const>\<open>health_of\<close>, so
  the catch-all constructors never hold a known word.
\<close>

definition canonical :: "machine_identity \<Rightarrow> bool" where
  "canonical v \<longleftrightarrow> mi_state v = state_of (state_text (mi_state v)) \<and>
     mi_health v = health_of (health_text (mi_health v))"

lemma identity_violations_iff:
  assumes "canonical v"
  shows "identity_violations v = [] \<longleftrightarrow> conformant_identity v"
proof -
  have "ValidState (state_text (mi_state v)) \<longleftrightarrow> mi_state v \<in> set KnownStates"
    using assms by (cases "mi_state v")
      (auto simp: canonical_def ValidState_def state_of_def KnownStates_def split: if_splits)
  moreover have "ValidHealth (health_text (mi_health v)) \<longleftrightarrow> mi_health v \<in> {HealthHealthy, HealthAttention}"
    using assms by (cases "mi_health v")
      (auto simp: canonical_def ValidHealth_def health_of_def split: if_splits)
  ultimately show ?thesis
    by (auto simp: identity_violations_def conformant_identity_def split: sum.splits)
qed

lemma operation_ok: "ValidatePlannedOperation (Some v) = Inr () \<longleftrightarrow> conformant_operation v"
  by (simp add: ValidatePlannedOperation_def conformant_operation_def)

lemma operation_violations_iff: "operation_violations i vs = [] \<longleftrightarrow> list_all conformant_operation vs"
proof (induction vs arbitrary: i)
  case (Cons v vs)
  then show ?case
    using operation_ok [of v] result_unit_cases [of "ValidatePlannedOperation (Some v)"] by auto
qed simp

section \<open>Properties\<close>

text \<open>
  Validation of an identity accepts exactly the conformant ones, and every refusal is a
  conformance error.
\<close>

theorem validate_identity_iff:
  assumes "canonical v"
  shows "(ValidateIdentity (Some v) = Inr () \<longleftrightarrow> conformant_identity v) \<and>
     (\<not> conformant_identity v \<longrightarrow>
        (\<exists>e. ValidateIdentity (Some v) = Inl e \<and> errors_is e ErrConformance)) \<and>
     (\<exists>e. ValidateIdentity None = Inl e \<and> errors_is e ErrConformance)"
  using identity_violations_iff [OF assms] result_unit_cases [of "ValidateIdentity (Some v)"]
  by (auto simp: ValidateIdentity_def dest: conclude_error)

definition sample_identity :: machine_identity where
  "sample_identity = zero_identity\<lparr>mi_id := ''svc'', mi_name := ''svc'',
     mi_provider := zero_binding\<lparr>pb_provider := ''aws'', pb_provider_id := ''iam/svc''\<rparr>,
     mi_ownership := zero_ownership\<lparr>ow_team := ''core'', ow_service := ''billing'', ow_purpose := ''nightly''\<rparr>,
     mi_policy := zero_policy\<lparr>lp_renewal_period := ''P90D''\<rparr>,
     mi_state := StateActive, mi_health := HealthHealthy\<rparr>"

theorem validate_identity_iff_witness:
  "ValidateIdentity (Some sample_identity) = Inr () \<and> conformant_identity sample_identity"
proof -
  have c: "canonical sample_identity"
    by (simp add: canonical_def sample_identity_def state_of_def health_of_def)
  have "ValidateIdentity (Some sample_identity) = Inr ()" by code_simp
  with validate_identity_iff [OF c] show ?thesis by blast
qed

text \<open>
  Validation of a dry-run plan accepts exactly the conformant ones: marked dry-run, with a
  hint about expiry, a list of operations (possibly empty, not nil) and every operation with a
  verb, an identity and a detail that are not blank; every refusal is a conformance error.
\<close>

theorem validate_plan_iff:
  "(ValidatePlan (Some v) = Inr () \<longleftrightarrow> conformant_plan v) \<and>
   (\<forall>e. ValidatePlan p = Inl e \<longrightarrow> errors_is e ErrConformance)"
proof (intro conjI allI impI)
  show "ValidatePlan (Some v) = Inr () \<longleftrightarrow> conformant_plan v"
    by (auto simp: ValidatePlan_def conformant_plan_def operation_violations_iff split: option.splits)
  show "errors_is e ErrConformance" if "ValidatePlan p = Inl e" for e
    using that by (auto simp: ValidatePlan_def split: option.splits dest: conclude_error)
qed

theorem validate_plan_iff_witness:
  "\<exists>e. ValidatePlan (Some \<lparr>pl_dry_run = True, pl_operations = None, pl_expires_hint = ''x''\<rparr>) = Inl e \<and>
     errors_is e ErrConformance"
proof -
  have "\<exists>e. ValidatePlan (Some \<lparr>pl_dry_run = True, pl_operations = None, pl_expires_hint = ''x''\<rparr>) = Inl e"
    by (simp add: ValidatePlan_def conclude_def)
  with validate_plan_iff show ?thesis by blast
qed

end
