(* ===== verification/Adapter.thy ===== *)
theory Adapter
  imports Validation
begin

text \<open>
  The boundaries of the control plane (internal/lifecycle: adapter.go, repository.go,
  audit_sink.go): the provider adapter with its optional capabilities, the vaults, the
  repository and the audit sink, and the translation of errors to protocol codes.

  An implementation of a Go interface is a record of functions. What lies behind it (a cloud,
  a Redis server, a file, the adapter's own memory) is a world of type \<open>'w\<close> that every call
  takes and returns, so the order and number of the calls is visible in the model. An optional
  interface, tested in the sources with a type assertion, is an option. The context argument
  of the Go methods is part of the world: a call may fail because its context is done.
\<close>

section \<open>Sentinel errors\<close>

fun sentinel_text :: "sentinel \<Rightarrow> string" where
  "sentinel_text ErrConformance = conformance_text"
| "sentinel_text ErrForbidden = ''protocol: operation is forbidden''"
| "sentinel_text ErrVaultUnsupported = ''vault delivery is not configured for this provider adapter''"
| "sentinel_text ErrAdapterRequired = ''provider adapter is required''"
| "sentinel_text ErrNotFound = ''identity not found''"
| "sentinel_text ErrInvalidTransition = ''invalid lifecycle transition''"
| "sentinel_text ErrAlreadyRetired = ''identity is retired''"
| "sentinel_text ErrNotRetired = ''identity must be retired before it can be deleted''"
| "sentinel_text ErrRotationInProgress = ''identity already has a rotation in progress''"
| "sentinel_text ErrProviderFailure = ''provider adapter failed''"
| "sentinel_text ErrConfirmationNeeded = ''retirement requires explicit confirmation''"
| "sentinel_text ErrNoSnapshot = ''lifecycle snapshot does not exist''"
| "sentinel_text ErrPersistenceFailure = ''lifecycle persistence failed''"
| "sentinel_text ErrLeaseNotHeld = ''lease is not held by this instance''"
| "sentinel_text ErrLeaseConfig = ''invalid lease configuration''"
| "sentinel_text ErrAuditSinkClosed = ''audit sink is closed''"
| "sentinel_text ErrCreateUnsupported = ''provisioning is not supported by this provider adapter''"
| "sentinel_text ErrIntegrationSessionNotFound = ''integration session not found or expired''"
| "sentinel_text ErrIntegrationCSRF = ''integration session CSRF token is invalid''"
| "sentinel_text ErrIntegrationRateLimited = ''too many integration connection attempts''"
| "sentinel_text ErrVaultSecretNotFound = ''hashicorp vault: secret not found''"
| "sentinel_text ErrCanceled = ''context canceled''"

text \<open>A sentinel returned as it is, and one wrapped with more text (\<open>fmt.Errorf("%w: ...")\<close>).\<close>

definition sentinel_error :: "sentinel \<Rightarrow> go_error" where
  "sentinel_error s = GoError [s] (sentinel_text s)"

definition wrap_error :: "sentinel \<Rightarrow> string \<Rightarrow> go_error" where
  "wrap_error s text = GoError [s] (sentinel_text s @ '': '' @ text)"

lemma errors_is_sentinel [simp]: "errors_is (sentinel_error s) t \<longleftrightarrow> s = t"
  by (auto simp: sentinel_error_def)

lemma errors_is_wrap [simp]: "errors_is (wrap_error s text) t \<longleftrightarrow> s = t"
  by (auto simp: wrap_error_def)

text \<open>errors.Join: the texts line by line, every error found.\<close>

definition join_errors :: "go_error list \<Rightarrow> unit result" where
  "join_errors es =
     (if es = [] then Inr ()
      else Inl (GoError (concat (map err_wraps es)) (join [CHR 0x0A] (map err_text es))))"

definition ErrorCode :: "go_error option \<Rightarrow> error_code" where
  "ErrorCode p = (case p of
     None \<Rightarrow> ErrCodeNone
   | Some err \<Rightarrow>
       if errors_is err ErrNotFound then ErrCodeNotFound
       else if errors_is err ErrInvalidTransition then ErrCodeInvalidTransition
       else if errors_is err ErrAlreadyRetired then ErrCodeAlreadyRetired
       else if errors_is err ErrNotRetired then ErrCodeConflict
       else if errors_is err ErrRotationInProgress then ErrCodeRotationInProgress
       else if errors_is err ErrProviderFailure then ErrCodeProviderFailure
       else if errors_is err ErrForbidden then ErrCodeForbidden
       else if errors_is err ErrConfirmationNeeded then ErrCodeConflict
       else if errors_is err ErrConformance then ErrCodeConformanceFailure
       else ErrCodeInternal)"

definition NewError :: "go_error \<Rightarrow> protocol_error" where
  "NewError err = NewProtocolError (ErrorCode (Some err)) (err_text err)"

definition providerOperationError :: "go_error \<Rightarrow> go_error" where
  "providerOperationError err =
     (if errors_is err ErrForbidden then err else wrap_error ErrProviderFailure (err_text err))"

lemma providerOperationError_code:
  "errors_is (providerOperationError e) ErrProviderFailure \<or> errors_is (providerOperationError e) ErrForbidden"
  by (simp add: providerOperationError_def)

section \<open>Interfaces\<close>

type_synonym ('a, 'w) act = "'w \<Rightarrow> 'a \<times> 'w"

text \<open>VaultStore and CommonVault: store, read (value and reference) and revoke.\<close>

record 'w vault =
  va_store :: "machine_identity \<Rightarrow> string \<Rightarrow> string \<Rightarrow> (vault_reference result, 'w) act"
  va_read :: "machine_identity \<Rightarrow> string \<Rightarrow> string \<Rightarrow> ((string \<times> vault_reference) result, 'w) act"
  va_revoke :: "machine_identity \<Rightarrow> string \<Rightarrow> (vault_reference result, 'w) act"

type_synonym operations = "planned_operation list option"

record ('a, 'w) planner =
  pn_rotate :: "'a \<Rightarrow> (operations result, 'w) act"
  pn_retire :: "'a \<Rightarrow> (operations result, 'w) act"

record 'w adapter =
  ad_kind :: string
  ad_discover :: "(machine_identity list result, 'w) act"
  ad_rotate :: "machine_identity \<Rightarrow> (machine_identity result, 'w) act"
  ad_retire :: "machine_identity \<Rightarrow> (machine_identity result, 'w) act"
  ad_identity_planner :: "(machine_identity, 'w) planner option"
  ad_planner :: "(string, 'w) planner option"
  ad_create :: "(string \<Rightarrow> string \<Rightarrow> (provision_response result, 'w) act) option"
  ad_vault :: "'w vault option"
  ad_secretor :: "(string \<Rightarrow> (string, 'w) act) option"

record snapshot =
  sn_identities :: "machine_identity list"
  sn_events :: "lifecycle_event list"
  sn_runs :: "rotation_run list"
  sn_next_event :: nat
  sn_next_run :: nat

record 'w repository =
  re_load :: "(snapshot result, 'w) act"
  re_save :: "snapshot \<Rightarrow> (unit result, 'w) act"
  re_changes :: "(unit result, 'w) act"
  re_close :: "(unit result, 'w) act"

record 'w audit_sink =
  as_append :: "lifecycle_event \<Rightarrow> (unit result, 'w) act"
  as_close :: "(unit result, 'w) act"

text \<open>
  What a Store is constructed with: the adapter and the optional collaborators (a nil
  interface is \<open>None\<close>). The logger receives a formatted line.
\<close>

record 'w env =
  en_adapter :: "'w adapter"
  en_common_vault :: "'w vault option"
  en_repository :: "'w repository option"
  en_audit :: "'w audit_sink option"
  en_logger :: "(string \<Rightarrow> 'w \<Rightarrow> 'w) option"

section \<open>Urgency\<close>

definition DashboardExpiryWindow :: duration where
  "DashboardExpiryWindow = 30 * 24 * hour"

definition ComputeUrgency :: "machine_identity \<Rightarrow> time \<Rightarrow> urgency" where
  "ComputeUrgency identity now =
     (if mi_state identity = StateRetired then UrgencyRetired
      else if \<not> now < mi_expires_at identity then UrgencyOverdue
      else if mi_expires_at identity < now + DashboardExpiryWindow then UrgencyExpiring
      else UrgencyHealthy)"

definition RenewalUrgency :: "machine_identity \<Rightarrow> time \<Rightarrow> urgency" where
  "RenewalUrgency identity now = ComputeUrgency identity now"

fun urgency_rank :: "urgency \<Rightarrow> nat" where
  "urgency_rank UrgencyHealthy = 0"
| "urgency_rank UrgencyExpiring = 1"
| "urgency_rank UrgencyOverdue = 2"
| "urgency_rank UrgencyRetired = 3"

text \<open>Urgencies ordered by how far the renewal has slipped.\<close>

instantiation urgency :: linorder
begin

definition less_eq_urgency :: "urgency \<Rightarrow> urgency \<Rightarrow> bool" where
  "less_eq_urgency a b \<longleftrightarrow> urgency_rank a \<le> urgency_rank b"

definition less_urgency :: "urgency \<Rightarrow> urgency \<Rightarrow> bool" where
  "less_urgency a b \<longleftrightarrow> urgency_rank a < urgency_rank b"

instance
proof
  fix a b c :: urgency
  show "(a < b) = (a \<le> b \<and> \<not> b \<le> a)"
    by (simp add: less_eq_urgency_def less_urgency_def less_le_not_le)
  show "a \<le> a" by (simp add: less_eq_urgency_def)
  show "a \<le> b \<Longrightarrow> b \<le> c \<Longrightarrow> a \<le> c" by (simp add: less_eq_urgency_def)
  show "a \<le> b \<Longrightarrow> b \<le> a \<Longrightarrow> a = b" by (cases a; cases b) (simp_all add: less_eq_urgency_def)
  show "a \<le> b \<or> b \<le> a" by (auto simp: less_eq_urgency_def)
qed

end

text \<open>
  The urgency of an identity that is left alone only ever grows as time passes: healthy,
  then expiring within the thirty days before expiry, then overdue from the instant of expiry
  on; and a retired identity is retired for every instant.
\<close>

theorem urgency_monotone:
  assumes "now \<le> later"
  shows "ComputeUrgency i now \<le> ComputeUrgency i later \<and>
     (ComputeUrgency i now = UrgencyRetired \<longleftrightarrow> mi_state i = StateRetired) \<and>
     (ComputeUrgency i now = UrgencyOverdue \<longleftrightarrow> mi_state i \<noteq> StateRetired \<and> mi_expires_at i \<le> now)"
  using assms by (auto simp: ComputeUrgency_def less_eq_urgency_def DashboardExpiryWindow_def time_units)

theorem urgency_monotone_witness:
  "ComputeUrgency (zero_identity\<lparr>mi_state := StateActive, mi_expires_at := 40 * day\<rparr>) 0
     \<le> ComputeUrgency (zero_identity\<lparr>mi_state := StateActive, mi_expires_at := 40 * day\<rparr>) (20 * day)"
  using urgency_monotone [of 0 "20 * day" "zero_identity\<lparr>mi_state := StateActive, mi_expires_at := 40 * day\<rparr>"]
  by (simp add: day_def)

end
