(* ===== verification/Scope.thy ===== *)
theory Scope
  imports Adapter
begin

text \<open>
  Provider scopes (internal/provider/scope.go and create.go): which identity names an adapter
  may govern. Patterns are those of Go's path.Match, transcribed here from the standard
  library: the byte loops over pattern chunks, character classes with UTF-8 runes, stars that
  do not cross a slash, and the check of the rest of the pattern before a mismatch is
  reported. A result \<open>None\<close> is ErrBadPattern.
\<close>

section \<open>Runes\<close>

text \<open>utf8.DecodeRuneInString: the rune and its width; an invalid encoding is U+FFFD of width 1.\<close>

definition cont :: "nat \<Rightarrow> nat \<Rightarrow> char \<Rightarrow> bool" where
  "cont lo hi c \<longleftrightarrow> lo \<le> (of_char c :: nat) \<and> (of_char c :: nat) \<le> hi"

definition second_range :: "nat \<Rightarrow> nat \<times> nat" where
  "second_range b = (if b = 0xE0 then (0xA0, 0xBF) else if b = 0xED then (0x80, 0x9F)
     else if b = 0xF0 then (0x90, 0xBF) else if b = 0xF4 then (0x80, 0x8F) else (0x80, 0xBF))"

definition low6 :: "char \<Rightarrow> nat" where "low6 c = of_char c mod 64"

definition decode_rune :: "string \<Rightarrow> nat \<times> nat" where
  "decode_rune s = (case s of
     [] \<Rightarrow> (0xFFFD, 0)
   | c # t \<Rightarrow>
       (let b = (of_char c :: nat); (lo, hi) = second_range b; bad = (0xFFFD, 1) in
        if b < 0x80 then (b, 1)
        else if 0xC2 \<le> b \<and> b \<le> 0xDF then
          (case t of d # _ \<Rightarrow> if cont lo hi d then (b mod 32 * 64 + low6 d, 2) else bad | [] \<Rightarrow> bad)
        else if 0xE0 \<le> b \<and> b \<le> 0xEF then
          (case t of d # e # _ \<Rightarrow>
             if cont lo hi d \<and> cont 0x80 0xBF e then (b mod 16 * 4096 + low6 d * 64 + low6 e, 3) else bad
           | _ \<Rightarrow> bad)
        else if 0xF0 \<le> b \<and> b \<le> 0xF4 then
          (case t of d # e # f # _ \<Rightarrow>
             if cont lo hi d \<and> cont 0x80 0xBF e \<and> cont 0x80 0xBF f
             then (b mod 8 * 262144 + low6 d * 4096 + low6 e * 64 + low6 f, 4) else bad
           | _ \<Rightarrow> bad)
        else bad))"

lemma decode_rune_width: "s \<noteq> [] \<Longrightarrow> 0 < snd (decode_rune s)"
  by (cases s) (auto simp: decode_rune_def Let_def split: prod.splits list.splits)

section \<open>path.Match\<close>

definition getEsc :: "string \<Rightarrow> (nat \<times> string) option" where
  "getEsc chunk0 =
     (if chunk0 = [] \<or> hd chunk0 = CHR ''-'' \<or> hd chunk0 = CHR '']'' then None
      else
        (let chunk = (if hd chunk0 = CHR 0x5C then tl chunk0 else chunk0) in
         if chunk = [] then None
         else
           (let (r, n) = decode_rune chunk; nchunk = drop n chunk in
            if r = 0xFFFD \<and> n = 1 \<or> nchunk = [] then None else Some (r, nchunk))))"

lemma getEsc_shorter: "getEsc c = Some (r, c') \<Longrightarrow> length c' < length c"
proof -
  assume g: "getEsc c = Some (r, c')"
  define d where "d = (if hd c = CHR 0x5C then tl c else c)"
  from g have d: "d \<noteq> []" "c' = drop (snd (decode_rune d)) d"
    by (auto simp: getEsc_def Let_def d_def split: if_splits prod.splits)
  have "length d \<le> length c" by (simp add: d_def)
  moreover have "0 < length d" using d(1) by simp
  moreover have "length c' = length d - snd (decode_rune d)" using d(2) by simp
  ultimately show ?thesis using decode_rune_width [OF d(1)] by linarith
qed

text \<open>The ranges of a character class up to its closing bracket: whether \<open>r\<close> was in one.\<close>

function class_ranges :: "string \<Rightarrow> nat \<Rightarrow> bool \<Rightarrow> nat \<Rightarrow> (bool \<times> string) option" where
  "class_ranges chunk r matched nrange =
     (if chunk \<noteq> [] \<and> hd chunk = CHR '']'' \<and> 0 < nrange then Some (matched, tl chunk)
      else case getEsc chunk of
        None \<Rightarrow> None
      | Some (lo, chunk1) \<Rightarrow>
          if hd chunk1 = CHR ''-'' then
            (case getEsc (tl chunk1) of
               None \<Rightarrow> None
             | Some (hi, chunk2) \<Rightarrow>
                 class_ranges chunk2 r (matched \<or> lo \<le> r \<and> r \<le> hi) (nrange + 1))
          else class_ranges chunk1 r (matched \<or> lo \<le> r \<and> r \<le> lo) (nrange + 1))"
  by pat_completeness auto
termination
proof (relation "measure (\<lambda>(chunk, _). length chunk)")
  fix chunk chunk1 chunk2 :: string and r lo hi nrange :: nat and matched :: bool and p q
  assume "getEsc chunk = Some p" "(lo, chunk1) = p" "getEsc (tl chunk1) = Some q" "(hi, chunk2) = q"
  then have "getEsc chunk = Some (lo, chunk1)" "getEsc (tl chunk1) = Some (hi, chunk2)" by simp_all
  then have "length chunk1 < length chunk" "length chunk2 < length (tl chunk1)"
    by (blast intro: getEsc_shorter)+
  then show "((chunk2, r, matched \<or> lo \<le> r \<and> r \<le> hi, nrange + 1), chunk, r, matched, nrange)
      \<in> measure (\<lambda>(chunk, _). length chunk)" by simp
qed (auto intro: getEsc_shorter)

declare class_ranges.simps [simp del]

lemma class_ranges_shorter: "class_ranges c r m n = Some (m', c') \<Longrightarrow> length c' < length c"
proof (induction c r m n rule: class_ranges.induct)
  case (1 c r m n)
  show ?case
  proof (cases "c \<noteq> [] \<and> hd c = CHR '']'' \<and> 0 < n")
    case True
    with "1.prems" show ?thesis by (subst (asm) class_ranges.simps) (cases c; simp)
  next
    case False
    with "1.prems" obtain lo c1 where g: "getEsc c = Some (lo, c1)"
      by (subst (asm) class_ranges.simps) (auto split: option.splits)
    show ?thesis
    proof (cases "hd c1 = CHR ''-''")
      case True
      with "1.prems" False g obtain hi c2 where h: "getEsc (tl c1) = Some (hi, c2)"
        and cr: "class_ranges c2 r (m \<or> lo \<le> r \<and> r \<le> hi) (n + 1) = Some (m', c')"
        by (subst (asm) class_ranges.simps) (auto split: option.splits)
      have "length c' < length c2" using "1.IH"(1) False g True h cr by blast
      with getEsc_shorter [OF g] getEsc_shorter [OF h] show ?thesis by simp
    next
      case no: False
      with "1.prems" False g have cr: "class_ranges c1 r (m \<or> lo \<le> r \<and> r \<le> lo) (n + 1) = Some (m', c')"
        by (subst (asm) class_ranges.simps) (auto split: option.splits)
      have "length c' < length c1" using "1.IH"(2) False g no cr by blast
      with getEsc_shorter [OF g] show ?thesis by simp
    qed
  qed
qed

text \<open>
  matchChunk: \<open>Some (Some rest)\<close> when the chunk matches the front of \<open>s\<close>, \<open>Some None\<close> when it
  does not; after a mismatch the loop only checks the syntax of the chunk.
\<close>

function matchChunk :: "string \<Rightarrow> string \<Rightarrow> bool \<Rightarrow> string option option" where
  "matchChunk chunk s failed0 =
     (if chunk = [] then Some (if failed0 then None else Some s)
      else
        (let failed = (failed0 \<or> s = []) in
         if hd chunk = CHR ''['' then
           (let (r, n) = (if failed then (0, 0) else decode_rune s);
                negated = (tl chunk \<noteq> [] \<and> hd (tl chunk) = CHR ''^'');
                body = (if negated then tl (tl chunk) else tl chunk)
            in case class_ranges body r False 0 of
                 None \<Rightarrow> None
               | Some (matched, rest) \<Rightarrow> matchChunk rest (drop n s) (failed \<or> matched = negated))
         else if hd chunk = CHR ''?'' then
           matchChunk (tl chunk) (if failed then s else drop (snd (decode_rune s)) s)
             (failed \<or> hd s = CHR ''/'')
         else if hd chunk = CHR 0x5C then
           (if tl chunk = [] then None
            else matchChunk (tl (tl chunk)) (if failed then s else tl s) (failed \<or> hd (tl chunk) \<noteq> hd s))
         else matchChunk (tl chunk) (if failed then s else tl s) (failed \<or> hd chunk \<noteq> hd s)))"
  by pat_completeness auto
termination
proof (relation "measure (\<lambda>(chunk, _). length chunk)")
  fix chunk s rest body :: string and failed0 failed negated matched :: bool and r n :: nat and x p
  assume a: "chunk \<noteq> []" "body = (if negated then tl (tl chunk) else tl chunk)"
    "class_ranges body r False 0 = Some p" "(matched, rest) = p"
  then have "length rest < length body" using class_ranges_shorter [of body r False 0 matched rest] by simp
  moreover have "length body \<le> length chunk" using a(2) by simp
  ultimately show "((rest, drop n s, failed \<or> matched = negated), chunk, s, failed0)
      \<in> measure (\<lambda>(chunk, _). length chunk)" by simp
qed auto

declare matchChunk.simps [simp del]

text \<open>scanChunk: the leading stars, the chunk up to the next star outside a class, the rest.\<close>

fun scan_body :: "string \<Rightarrow> bool \<Rightarrow> string \<times> string" where
  "scan_body [] inrange = ([], [])"
| "scan_body (c # p) inrange =
     (if c = CHR 0x5C then
        (case p of
           [] \<Rightarrow> ([c], [])
         | d # q \<Rightarrow> (case scan_body q inrange of (a, b) \<Rightarrow> (c # d # a, b)))
      else if c = CHR ''*'' \<and> \<not> inrange then ([], c # p)
      else
        (case scan_body p (if c = CHR ''['' then True else if c = CHR '']'' then False else inrange) of
           (a, b) \<Rightarrow> (c # a, b)))"

definition scanChunk :: "string \<Rightarrow> bool \<times> string \<times> string" where
  "scanChunk pattern =
     (let p = dropWhile (\<lambda>c. c = CHR ''*'') pattern in
      (p \<noteq> pattern, scan_body p False))"

lemma scan_body_append: "scan_body p b = (x, y) \<Longrightarrow> p = x @ y"
  by (induction p b arbitrary: x y rule: scan_body.induct) (auto split: if_splits list.splits prod.splits)

lemma dropWhile_shorter: "dropWhile P xs \<noteq> xs \<Longrightarrow> length (dropWhile P xs) < length xs"
proof (cases xs)
  case (Cons x ys)
  assume "dropWhile P xs \<noteq> xs"
  with Cons have "dropWhile P xs = dropWhile P ys" by (auto split: if_splits)
  then show ?thesis using length_dropWhile_le [of P ys] Cons by simp
qed simp

lemma scanChunk_shorter:
  assumes "scanChunk pattern = (star, chunk, rest)" and "pattern \<noteq> []"
  shows "length rest < length pattern"
proof -
  let ?p = "dropWhile (\<lambda>c. c = CHR ''*'') pattern"
  have sb: "scan_body ?p False = (chunk, rest)" and star: "star = (?p \<noteq> pattern)"
    using assms(1) by (auto simp: scanChunk_def Let_def)
  have p: "?p = chunk @ rest" by (rule scan_body_append [OF sb])
  show ?thesis
  proof (cases star)
    case True
    then have "length ?p < length pattern" using star dropWhile_shorter by blast
    with p show ?thesis by simp
  next
    case False
    then have pp: "?p = pattern" using star by simp
    obtain c q where c: "pattern = c # q" using assms(2) by (cases pattern) auto
    with pp have star: "c \<noteq> CHR ''*''" using length_dropWhile_le [of "\<lambda>c. c = CHR ''*''" q] by auto
    have "scan_body (c # q) False = (chunk, rest)" using sb pp c by metis
    with star have "chunk \<noteq> []" by (auto split: if_splits list.splits prod.splits)
    moreover have "length pattern = length chunk + length rest" using p unfolding pp by simp
    ultimately show ?thesis by (cases chunk) simp_all
  qed
qed


text \<open>The search for the chunk further on, past bytes that are not a slash.\<close>

fun star_search :: "string \<Rightarrow> bool \<Rightarrow> string \<Rightarrow> string option option" where
  "star_search chunk final [] = Some None"
| "star_search chunk final (c # name) =
     (if c = CHR ''/'' then Some None
      else case matchChunk chunk name False of
        None \<Rightarrow> None
      | Some (Some t) \<Rightarrow> if final \<and> t \<noteq> [] then star_search chunk final name else Some (Some t)
      | Some None \<Rightarrow> star_search chunk final name)"

text \<open>The syntax check of what is left of the pattern when the name does not match.\<close>

function check_rest :: "string \<Rightarrow> bool option" where
  "check_rest pattern =
     (if pattern = [] then Some False
      else case scanChunk pattern of
        (star, chunk, rest) \<Rightarrow>
          (case matchChunk chunk [] False of None \<Rightarrow> None | Some _ \<Rightarrow> check_rest rest))"
  by pat_completeness auto
termination
  by (relation "measure length") (auto intro: scanChunk_shorter [OF sym])

declare check_rest.simps [simp del]

function path_match :: "string \<Rightarrow> string \<Rightarrow> bool option" where
  "path_match pattern name =
     (if pattern = [] then Some (name = [])
      else case scanChunk pattern of
        (star, chunk, rest) \<Rightarrow>
          if star \<and> chunk = [] then Some (CHR ''/'' \<notin> set name)
          else case matchChunk chunk name False of
            None \<Rightarrow> None
          | Some r \<Rightarrow>
              if r \<noteq> None \<and> (the r = [] \<or> rest \<noteq> []) then path_match rest (the r)
              else if star then
                (case star_search chunk (rest = []) name of
                   None \<Rightarrow> None
                 | Some None \<Rightarrow> check_rest rest
                 | Some (Some t) \<Rightarrow> path_match rest t)
              else check_rest rest)"
  by pat_completeness auto
termination
  by (relation "measure (\<lambda>(pattern, _). length pattern)") (auto intro: scanChunk_shorter [OF sym])

declare path_match.simps [simp del]

section \<open>Scopes\<close>

definition DemoScopePattern :: string where "DemoScopePattern = ''mutandae-demo-*''"

record scope =
  sc_allow :: "string list"
  sc_deny :: "string list"

definition scopePatternMatch :: "string \<Rightarrow> string \<Rightarrow> bool" where
  "scopePatternMatch pattern name \<longleftrightarrow> path_match (trim_space pattern) name = Some True"

definition scope_match :: "scope \<Rightarrow> string \<Rightarrow> bool" where
  "scope_match s name =
     (if list_ex (\<lambda>pattern. scopePatternMatch pattern name) (sc_deny s) then False
      else if sc_allow s = [] then True
      else list_ex (\<lambda>pattern. scopePatternMatch pattern name) (sc_allow s))"

fun validate_patterns :: "string list \<Rightarrow> unit result" where
  "validate_patterns [] = Inr ()"
| "validate_patterns (p # ps) =
     (let pattern = trim_space p in
      if pattern = [] then Inl (plain_error ''provider scope pattern is empty'')
      else case path_match pattern [] of
        None \<Rightarrow> Inl (plain_error (''provider scope pattern '' @ quoted pattern @ '': syntax error in pattern''))
      | Some _ \<Rightarrow> validate_patterns ps)"

definition scope_validate :: "scope \<Rightarrow> unit result" where
  "scope_validate s = validate_patterns (sc_allow s @ sc_deny s)"

fun parse_items :: "string list \<Rightarrow> scope \<Rightarrow> scope result" where
  "parse_items [] s = Inr s"
| "parse_items (raw # items) s =
     (let item = trim_space raw in
      if item = [] then parse_items items s
      else if has_prefix item ''!'' then
        (let deny = trim_space (drop 1 item) in
         if deny = [] then Inl (plain_error ''provider scope deny pattern is empty'')
         else parse_items items (s\<lparr>sc_deny := sc_deny s @ [deny]\<rparr>))
      else parse_items items (s\<lparr>sc_allow := sc_allow s @ [item]\<rparr>))"

definition ParseScope :: "string \<Rightarrow> scope result" where
  "ParseScope v =
     (case parse_items (split_on CHR '','' v) \<lparr>sc_allow = [], sc_deny = []\<rparr> of
        Inl e \<Rightarrow> Inl e
      | Inr s \<Rightarrow>
          if sc_allow s = [] \<and> sc_deny s = [] then
            Inl (plain_error ''provider scope must contain at least one pattern'')
          else (case scope_validate s of Inl e \<Rightarrow> Inl e | Inr _ \<Rightarrow> Inr s))"

definition DemoScope :: scope where
  "DemoScope = \<lparr>sc_allow = [DemoScopePattern], sc_deny = []\<rparr>"

definition forbiddenScopeError :: "string \<Rightarrow> string \<Rightarrow> scope \<Rightarrow> go_error" where
  "forbiddenScopeError kind name s =
     (let joined = join '', '' (sc_allow s); patterns = (if joined = [] then ''<none>'' else joined)
      in wrap_error ErrForbidden (kind @ '' identity '' @ quoted name
           @ '' is outside the configured provider scope (allow: '' @ patterns @ '')''))"

definition validateRealScope :: "scope \<Rightarrow> bool \<Rightarrow> scope result" where
  "validateRealScope s0 legacyDemoOnly =
     (let s = (if legacyDemoOnly \<and> sc_allow s0 = [] then s0\<lparr>sc_allow := [DemoScopePattern]\<rparr> else s0) in
      case scope_validate s of
        Inl e \<Rightarrow> Inl e
      | Inr _ \<Rightarrow>
          if sc_allow s = [] then
            (if sc_deny s \<noteq> [] then
               Inl (plain_error ''real provider adapter requires a non-empty scope allow list'')
             else Inr \<lparr>sc_allow = [''*''], sc_deny = []\<rparr>)
          else Inr s)"

definition simulatorScope :: "scope \<Rightarrow> scope result" where
  "simulatorScope s0 =
     (let s = (if sc_allow s0 = [] \<and> sc_deny s0 = [] then DemoScope else s0) in
      case scope_validate s of Inl e \<Rightarrow> Inl e | Inr _ \<Rightarrow> Inr s)"

definition isDemoScope :: "scope \<Rightarrow> bool" where
  "isDemoScope s = list_ex (\<lambda>pattern. trim_space pattern = DemoScopePattern) (sc_allow s)"

definition simulatorConstructorScope :: "scope list \<Rightarrow> scope" where
  "simulatorConstructorScope scopes =
     (case scopes of
        [] \<Rightarrow> \<lparr>sc_allow = [''*''], sc_deny = []\<rparr>
      | s # _ \<Rightarrow> if sc_allow s = [] \<and> sc_deny s = [] then DemoScope else s)"

section \<open>Names for new identities\<close>

definition demoPrefix :: string where "demoPrefix = ''mutandae-demo-''"

definition isDemoName :: "string \<Rightarrow> bool" where
  "isDemoName name = has_prefix name demoPrefix"

definition hint_char :: "char \<Rightarrow> bool" where
  "hint_char c \<longleftrightarrow> CHR ''a'' \<le> c \<and> c \<le> CHR ''z'' \<or> CHR ''0'' \<le> c \<and> c \<le> CHR ''9'' \<or> c = CHR ''-''"

definition quote_mark :: string where "quote_mark = [CHR 0x27]"

text \<open>A draw is what the random source gives for one suffix: its hexadecimal text or an error.\<close>

definition buildDemoName :: "string \<Rightarrow> nat \<Rightarrow> string result \<Rightarrow> string result" where
  "buildDemoName hint0 suffixHex draw =
     (let hint = to_lower (trim_space hint0) in
      if \<not> list_all hint_char hint then
        Inl (plain_error (''demo identity hint may only contain a-z, 0-9 and '' @ quote_mark @ ''-'' @ quote_mark))
      else case draw of
        Inl e \<Rightarrow> Inl e
      | Inr raw \<Rightarrow>
          (let short = take 20 hint;
               name = (if short \<noteq> [] then demoPrefix @ short @ ''-'' else demoPrefix)
           in Inr (name @ take suffixHex raw)))"

definition pattern_prefix :: "string \<Rightarrow> string" where
  "pattern_prefix pattern =
     (let p = trim_space (takeWhile (\<lambda>c. c \<noteq> CHR ''*'' \<and> c \<noteq> CHR ''?'' \<and> c \<noteq> CHR ''['') pattern);
          q = (if p = [] then demoPrefix else p)
      in if last q = CHR ''*'' then butlast q else q)"

fun scoped_attempts :: "scope \<Rightarrow> string \<Rightarrow> nat \<Rightarrow> string \<Rightarrow> nat \<Rightarrow> (nat \<Rightarrow> string result) \<Rightarrow> string result" where
  "scoped_attempts s pattern suffixHex base 0 draw =
     Inl (plain_error (''could not generate an identity inside provider scope pattern '' @ quoted pattern))"
| "scoped_attempts s pattern suffixHex base (Suc k) draw =
     (case draw k of
        Inl e \<Rightarrow> Inl e
      | Inr raw \<Rightarrow>
          (let candidate = base @ take suffixHex raw in
           if scope_match s candidate then Inr candidate
           else scoped_attempts s pattern suffixHex base k draw))"

text \<open>\<open>draw k\<close> is the draw made when \<open>k\<close> attempts are left after it.\<close>

definition buildScopedName :: "scope \<Rightarrow> string \<Rightarrow> nat \<Rightarrow> (nat \<Rightarrow> string result) \<Rightarrow> string result" where
  "buildScopedName s hint suffixHex draw =
     (case sc_allow s of
        [] \<Rightarrow> Inl (plain_error ''provider scope has no allow pattern for provisioning'')
      | first # _ \<Rightarrow>
          (let pattern = trim_space first; prefix = pattern_prefix pattern;
               baseHint = to_lower (trim_space hint)
           in if \<not> list_all hint_char baseHint then
                Inl (plain_error (''identity hint may only contain a-z, 0-9 and '' @ quote_mark @ ''-'' @ quote_mark))
              else (let short = take 20 baseHint;
                        base = prefix @ (if short \<noteq> [] then short @ ''-'' else [])
                    in scoped_attempts s pattern suffixHex base 8 draw)))"

definition planned :: "string \<Rightarrow> string \<Rightarrow> string \<Rightarrow> bool \<Rightarrow> bool \<Rightarrow> planned_operation" where
  "planned op identity detail reversible destructive =
     \<lparr>po_op = op, po_identity = identity, po_detail = detail, po_reversible = reversible,
      po_destructive = destructive\<rparr>"

section \<open>Syntax errors do not depend on the name\<close>

lemma class_ranges_syntax:
  "map_option snd (class_ranges c r m n) = map_option snd (class_ranges c r' m' n)"
proof (induction c r m n arbitrary: m' rule: class_ranges.induct)
  case (1 c r m n)
  show ?case
  proof (cases "c \<noteq> [] \<and> hd c = CHR '']'' \<and> 0 < n")
    case True
    then show ?thesis by (subst (1 2) class_ranges.simps) simp
  next
    case outside: False
    show ?thesis
    proof (cases "getEsc c")
      case None
      with outside show ?thesis by (subst (1 2) class_ranges.simps) simp
    next
      case (Some p)
      obtain lo c1 where p: "p = (lo, c1)" by (cases p)
      show ?thesis
      proof (cases "hd c1 = CHR ''-''")
        case dash: True
        show ?thesis
        proof (cases "getEsc (tl c1)")
          case None
          with outside Some p dash show ?thesis by (subst (1 2) class_ranges.simps) simp
        next
          case hi: (Some q)
          obtain h c2 where q: "q = (h, c2)" by (cases q)
          have "map_option snd (class_ranges c2 r (m \<or> lo \<le> r \<and> r \<le> h) (n + 1)) =
              map_option snd (class_ranges c2 r' (m' \<or> lo \<le> r' \<and> r' \<le> h) (n + 1))"
            using "1.IH"(1) outside Some p dash hi q by simp
          with Some p dash hi q show ?thesis
            by (subst (1 2) class_ranges.simps) (simp add: if_not_P [OF outside] del: de_Morgan_conj)
        qed
      next
        case no: False
        have "map_option snd (class_ranges c1 r (m \<or> lo \<le> r \<and> r \<le> lo) (n + 1)) =
            map_option snd (class_ranges c1 r' (m' \<or> lo \<le> r' \<and> r' \<le> lo) (n + 1))"
          using "1.IH"(2) outside Some p no by simp
        with Some p no show ?thesis
          by (subst (1 2) class_ranges.simps) (simp add: if_not_P [OF outside] del: de_Morgan_conj)
      qed
    qed
  qed
qed

lemma class_ranges_syntax_cases:
  "class_ranges c r m n = None \<Longrightarrow> class_ranges c r' m' n = None"
  "class_ranges c r m n = Some (x, rest) \<Longrightarrow> \<exists>y. class_ranges c r' m' n = Some (y, rest)"
proof -
  have e: "map_option snd (class_ranges c r m n) = map_option snd (class_ranges c r' m' n)"
    by (rule class_ranges_syntax)
  show "class_ranges c r m n = None \<Longrightarrow> class_ranges c r' m' n = None"
    using e by (metis option.map_disc_iff)
  show "class_ranges c r m n = Some (x, rest) \<Longrightarrow> \<exists>y. class_ranges c r' m' n = Some (y, rest)"
  proof (cases "class_ranges c r' m' n")
    case (Some q)
    assume "class_ranges c r m n = Some (x, rest)"
    with e Some have "snd q = rest" by simp
    with Some show ?thesis by (cases q) simp
  qed (use e in simp)
qed

lemma class_ranges_none: "class_ranges c r m n = None \<longleftrightarrow> class_ranges c r' m' n = None"
  using class_ranges_syntax_cases(1) by blast

lemma matchChunk_class:
  assumes "c \<noteq> []" and "hd c = CHR ''[''"
  shows "\<exists>b neg. length b < length c \<and> (\<forall>s f. \<exists>r n g. matchChunk c s f =
      (case class_ranges b r False 0 of None \<Rightarrow> None
       | Some (m, rest) \<Rightarrow> matchChunk rest (drop n s) (g \<or> m = neg)))"
proof -
  let ?neg = "tl c \<noteq> [] \<and> hd (tl c) = CHR ''^''"
  let ?b = "if ?neg then tl (tl c) else tl c"
  have u: "\<exists>r n g. matchChunk c s f = (case class_ranges ?b r False 0 of None \<Rightarrow> None
       | Some (m, rest) \<Rightarrow> matchChunk rest (drop n s) (g \<or> m = ?neg))" for s f
  proof -
    obtain r n where q: "(if f \<or> s = [] then (0, 0) else decode_rune s) = (r, n)" by (rule prod.exhaust)
    have "matchChunk c s f = (case class_ranges ?b r False 0 of None \<Rightarrow> None
       | Some (m, rest) \<Rightarrow> matchChunk rest (drop n s) ((f \<or> s = []) \<or> m = ?neg))"
      by (subst matchChunk.simps) (simp only: assms q Let_def prod.case if_True if_False simp_thms)
    then show ?thesis by blast
  qed
  moreover have "length ?b < length c" using assms(1) by (cases c) auto
  ultimately show ?thesis by blast
qed

lemma matchChunk_syntax: "matchChunk c s f = None \<longleftrightarrow> matchChunk c s' f' = None"
proof (induction c arbitrary: s f s' f' rule: length_induct)
  case (1 c)
  then have IH: "\<And>d s f s' f'. length d < length c \<Longrightarrow>
    matchChunk d s f = None \<longleftrightarrow> matchChunk d s' f' = None" by blast
  show ?case
  proof (cases "c = []")
    case True
    then show ?thesis by (subst (1 2) matchChunk.simps) simp
  next
    case ne: False
    then have tl: "length (tl c) < length c" "length (tl (tl c)) < length c" by (cases c; simp)+
    show ?thesis
    proof (cases "hd c = CHR ''[''")
      case cls: True
      obtain b neg where b: "length b < length c"
        and u: "\<forall>s f. \<exists>r n g. matchChunk c s f = (case class_ranges b r False 0 of None \<Rightarrow> None
          | Some (m, rest) \<Rightarrow> matchChunk rest (drop n s) (g \<or> m = neg))"
        using matchChunk_class [OF ne cls] by blast
      obtain r n g where q: "matchChunk c s f = (case class_ranges b r False 0 of None \<Rightarrow> None
          | Some (m, rest) \<Rightarrow> matchChunk rest (drop n s) (g \<or> m = neg))" using u by blast
      obtain r' n' g' where q': "matchChunk c s' f' = (case class_ranges b r' False 0 of None \<Rightarrow> None
          | Some (m, rest) \<Rightarrow> matchChunk rest (drop n' s') (g' \<or> m = neg))" using u by blast
      show ?thesis
      proof (cases "class_ranges b r False 0")
        case None
        with class_ranges_none [of b r False 0 r' False] q q' show ?thesis by simp
      next
        case (Some p)
        obtain m rest where p: "p = (m, rest)" by (rule prod.exhaust)
        from class_ranges_syntax_cases(2) [of b r False 0 m rest r' False] Some p
        obtain m' where m': "class_ranges b r' False 0 = Some (m', rest)" by auto
        have "length rest < length c" using class_ranges_shorter [OF m'] b by simp
        then show ?thesis using IH q q' Some p m' by simp
      qed
    next
      case False
      show ?thesis
        by (subst (1 2) matchChunk.simps) (simp add: ne False Let_def IH [OF tl(1)] IH [OF tl(2)])
    qed
  qed
qed

lemma star_search_syntax:
  "matchChunk chunk [] False \<noteq> None \<Longrightarrow> star_search chunk final name \<noteq> None"
proof (induction name)
  case (Cons c name)
  have "matchChunk chunk name False \<noteq> None" using Cons.prems matchChunk_syntax [of chunk "[]" False name False] by simp
  with Cons show ?case by (auto split: option.splits)
qed simp

lemma star_search_malformed:
  "star_search chunk final name = None \<Longrightarrow> matchChunk chunk [] False = None"
  using star_search_syntax by blast

lemma scan_body_nil: "scan_body p False = ([], rest) \<Longrightarrow> p = [] \<or> hd p = CHR ''*''"
  by (cases p) (auto split: if_splits list.splits prod.splits)

lemma hd_dropWhile_star: "dropWhile (\<lambda>c. c = a) xs = [] \<or> hd (dropWhile (\<lambda>c. c = a) xs) \<noteq> a"
  by (induction xs) auto

lemma scanChunk_nil:
  assumes "scanChunk p = (star, [], rest)"
  shows "rest = []"
proof -
  have b: "scan_body (dropWhile (\<lambda>c. c = CHR ''*'') p) False = ([], rest)"
    using assms by (simp add: scanChunk_def Let_def)
  then have "dropWhile (\<lambda>c. c = CHR ''*'') p = []"
    using scan_body_nil [OF b] hd_dropWhile_star [of "CHR ''*''" p] by blast
  with b show ?thesis by simp
qed

lemma matchChunk_nil [simp]: "matchChunk [] s f = Some (if f then None else Some s)"
  by (subst matchChunk.simps) simp

lemma check_rest_nil [simp]: "check_rest [] = Some False"
  by (subst check_rest.simps) simp

lemma check_rest_chunk:
  assumes "p \<noteq> []" and "scanChunk p = (star, chunk, rest)"
  shows "check_rest p = (case matchChunk chunk [] False of None \<Rightarrow> None | Some _ \<Rightarrow> check_rest rest)"
  using assms by (subst check_rest.simps) simp

lemma path_match_nil [simp]: "path_match [] name = Some (name = [])"
  by (subst path_match.simps) simp

lemma path_match_chunk:
  assumes "p \<noteq> []" and "scanChunk p = (star, chunk, rest)"
  shows "path_match p name =
     (if star \<and> chunk = [] then Some (CHR ''/'' \<notin> set name)
      else case matchChunk chunk name False of
        None \<Rightarrow> None
      | Some r \<Rightarrow>
          if r \<noteq> None \<and> (the r = [] \<or> rest \<noteq> []) then path_match rest (the r)
          else if star then
            (case star_search chunk (rest = []) name of
               None \<Rightarrow> None
             | Some None \<Rightarrow> check_rest rest
             | Some (Some t) \<Rightarrow> path_match rest t)
          else check_rest rest)"
  using assms by (subst path_match.simps) simp

lemma path_match_check: "path_match p name = None \<longleftrightarrow> check_rest p = None"
proof (induction p arbitrary: name rule: length_induct)
  case (1 p)
  show ?case
  proof (cases "p = []")
    case True
    then show ?thesis by (subst path_match.simps) simp
  next
    case ne: False
    obtain star chunk rest where sc: "scanChunk p = (star, chunk, rest)" by (rule prod_cases3)
    have IH: "\<And>nm. path_match rest nm = None \<longleftrightarrow> check_rest rest = None"
      using 1 scanChunk_shorter [OF sc ne] by blast
    note eqs = check_rest_chunk [OF ne sc] path_match_chunk [OF ne sc]
    show ?thesis
    proof (cases "matchChunk chunk [] False")
      case None
      then have "chunk \<noteq> []" "matchChunk chunk name False = None"
        using matchChunk_syntax [of chunk "[]" False name False] by auto
      with None eqs show ?thesis by simp
    next
      case (Some x)
      then obtain r where r: "matchChunk chunk name False = Some r"
        using matchChunk_syntax [of chunk "[]" False name False] by auto
      have y: "star_search chunk b name \<noteq> None" for b using star_search_syntax Some by simp
      from y [of True] y [of False] obtain y1 y2
        where ys: "star_search chunk True name = Some y1" "star_search chunk False name = Some y2" by blast
      show ?thesis
      proof (cases "chunk = []")
        case True
        then have "rest = []" using sc scanChunk_nil by blast
        with True Some r eqs IH show ?thesis by (auto split: option.split)
      next
        case False
        with Some r ys eqs IH show ?thesis by (cases "rest = []") (auto split: option.split)
      qed
    qed
  qed
qed

lemma path_match_syntax: "path_match p name = None \<longleftrightarrow> path_match p name' = None"
  by (simp add: path_match_check)

section \<open>Literal prefixes\<close>

definition plain_char :: "char \<Rightarrow> bool" where
  "plain_char c \<longleftrightarrow> c \<notin> {CHR ''*'', CHR ''?'', CHR ''['', CHR 0x5C}"

lemma matchChunk_literal:
  "list_all plain_char lit \<Longrightarrow> matchChunk lit s f =
     Some (if \<not> f \<and> take (length lit) s = lit then Some (drop (length lit) s) else None)"
proof (induction lit arbitrary: s f)
  case (Cons c lit)
  then have c: "c \<noteq> CHR ''?''" "c \<noteq> CHR ''[''" "c \<noteq> CHR 0x5C" by (auto simp: plain_char_def)
  show ?case using c Cons by (subst matchChunk.simps) (cases s; auto simp: Let_def)
qed simp

lemma scan_body_literal:
  "list_all plain_char lit \<Longrightarrow> scan_body (lit @ CHR ''*'' # q) False = (lit, CHR ''*'' # q)"
  "list_all plain_char lit \<Longrightarrow> scan_body lit False = (lit, [])"
  by (induction lit) (auto simp: plain_char_def)

lemma dropWhile_literal:
  assumes "list_all plain_char lit" and "lit \<noteq> []"
  shows "dropWhile (\<lambda>c. c = CHR ''*'') (lit @ q) = lit @ q"
  using assms by (cases lit) (auto simp: plain_char_def)

lemma path_match_star: "path_match ''*'' name = Some (CHR ''/'' \<notin> set name)"
  by (subst path_match.simps) (simp add: scanChunk_def Let_def)

lemma path_match_prefix:
  assumes "list_all plain_char lit"
  shows "path_match (lit @ ''*'') name = Some (\<exists>t. name = lit @ t \<and> CHR ''/'' \<notin> set t)"
proof (cases "lit = []")
  case True
  then show ?thesis by (simp add: path_match_star)
next
  case False
  have sc: "scanChunk (lit @ ''*'') = (False, lit, ''*'')"
    unfolding scanChunk_def Let_def dropWhile_literal [OF assms False]
    using scan_body_literal(1) [OF assms, of "[]"] by simp
  have ck: "check_rest ''*'' = Some False" by code_simp
  have m: "take (length lit) name = lit \<longleftrightarrow> (\<exists>t. name = lit @ t)"
    by (metis append_eq_conv_conj append_take_drop_id)
  show ?thesis
    using False by (subst path_match_chunk [OF _ sc])
      (auto simp: matchChunk_literal [OF assms] path_match_star ck m)
qed

lemma path_match_exact:
  assumes "list_all plain_char lit"
  shows "path_match lit name = Some (name = lit)"
proof (cases "lit = []")
  case True
  then show ?thesis by (subst path_match.simps) simp
next
  case False
  have sc: "scanChunk lit = (False, lit, [])"
    using dropWhile_literal [OF assms False, of "[]"] scan_body_literal(2) [OF assms]
    by (simp add: scanChunk_def Let_def)
  have e: "path_match [] r = Some (r = [])" for r by (subst path_match.simps) simp
  show ?thesis
    using False by (subst path_match_chunk [OF _ sc])
      (auto simp: matchChunk_literal [OF assms] e intro: append_take_drop_id [symmetric] dest: arg_cong [of _ _ length])
qed

section \<open>Properties of scopes\<close>

definition scope_patterns :: "scope \<Rightarrow> string list" where
  "scope_patterns s = sc_allow s @ sc_deny s"

lemma validate_patterns_ok:
  "validate_patterns ps = Inr () \<longleftrightarrow>
     (\<forall>p\<in>set ps. trim_space p \<noteq> [] \<and> path_match (trim_space p) [] \<noteq> None)"
  by (induction ps) (auto simp: Let_def split: option.splits)

text \<open>
  Scope.Validate accepts a scope exactly when none of its patterns is blank or ever makes
  path.Match report a bad pattern, whatever the identity name: the one probe with the empty
  name that the code makes decides it for all names.
\<close>
theorem validated_scope_decides:
  "scope_validate s = Inr () \<longleftrightarrow>
     (\<forall>p\<in>set (scope_patterns s). trim_space p \<noteq> [] \<and> (\<forall>name. path_match (trim_space p) name \<noteq> None))"
  unfolding scope_validate_def validate_patterns_ok scope_patterns_def path_match_check by simp

definition sample_scope :: scope where
  "sample_scope = \<lparr>sc_allow = [''svc-*''], sc_deny = []\<rparr>"

theorem validated_scope_decides_witness:
  "\<forall>name. path_match (trim_space ''svc-*'') name \<noteq> None"
proof -
  have "scope_validate sample_scope = Inr ()" by code_simp
  moreover have "''svc-*'' \<in> set (scope_patterns sample_scope)"
    unfolding scope_patterns_def sample_scope_def by simp
  ultimately show ?thesis using validated_scope_decides [of sample_scope] by blast
qed

lemma demo_pattern_prefix: "DemoScopePattern = demoPrefix @ ''*''"
  by (simp add: DemoScopePattern_def demoPrefix_def)

lemma demo_pattern_trim [simp]: "trim_space DemoScopePattern = DemoScopePattern"
  by code_simp

text \<open>
  The demo scope governs exactly the names that begin with the demo prefix and have no slash
  after it, so no identity without the prefix is ever inside it.
\<close>
theorem demo_scope_exact:
  "scope_match DemoScope name \<longleftrightarrow> (\<exists>t. name = demoPrefix @ t \<and> CHR ''/'' \<notin> set t)"
proof -
  have "list_all plain_char demoPrefix" by code_simp
  from path_match_prefix [OF this, of name] show ?thesis
    by (simp add: scope_match_def DemoScope_def scopePatternMatch_def demo_pattern_prefix [symmetric])
qed

definition scope_items :: "string \<Rightarrow> string list" where
  "scope_items v = filter (\<lambda>i. i \<noteq> []) (map trim_space (split_on CHR '','' v))"

definition is_deny :: "string \<Rightarrow> bool" where
  "is_deny item \<longleftrightarrow> has_prefix item ''!''"

definition denied_pattern :: "string \<Rightarrow> string" where
  "denied_pattern item = trim_space (drop 1 item)"

lemma parse_items_ok:
  "parse_items raws s = Inr s' \<longleftrightarrow>
     (let items = filter (\<lambda>i. i \<noteq> []) (map trim_space raws);
          denies = map denied_pattern (filter is_deny items)
      in [] \<notin> set denies \<and>
         s' = s\<lparr>sc_allow := sc_allow s @ filter (\<lambda>i. \<not> is_deny i) items,
                sc_deny := sc_deny s @ denies\<rparr>)"
proof (induction raws arbitrary: s)
  case Nil
  then show ?case by auto
next
  case (Cons raw raws)
  define i where "i = trim_space raw"
  define items where "items = filter (\<lambda>i. i \<noteq> []) (map trim_space raws)"
  have step: "parse_items (raw # raws) s =
     (if i = [] then parse_items raws s
      else if is_deny i then
        (if denied_pattern i = [] then Inl (plain_error ''provider scope deny pattern is empty'')
         else parse_items raws (s\<lparr>sc_deny := sc_deny s @ [denied_pattern i]\<rparr>))
      else parse_items raws (s\<lparr>sc_allow := sc_allow s @ [i]\<rparr>))"
    by (simp add: i_def Let_def is_deny_def denied_pattern_def)
  have items: "filter (\<lambda>i. i \<noteq> []) (map trim_space (raw # raws)) = (if i = [] then items else i # items)"
    by (simp add: i_def items_def)
  note IH = Cons.IH [unfolded Let_def, folded items_def]
  consider (blank) "i = []" | (empty) "i \<noteq> []" "is_deny i" "denied_pattern i = []"
    | (denied) "i \<noteq> []" "is_deny i" "denied_pattern i \<noteq> []" | (allow) "i \<noteq> []" "\<not> is_deny i" by blast
  then show ?case
  proof cases
    case denied
    then have "[] \<notin> set (map denied_pattern (filter is_deny (i # items)))
        \<longleftrightarrow> [] \<notin> set (map denied_pattern (filter is_deny items))" by (auto simp del: set_filter)
    with denied show ?thesis unfolding step items Let_def by (simp add: IH del: set_map set_filter)
  qed (unfold step items Let_def, simp_all add: IH del: set_map set_filter)
qed

text \<open>
  ParseScope yields a scope exactly when that scope holds the non-blank items of the comma-separated
  text, the ones marked with an exclamation mark as deny patterns and the others as allow
  patterns, each in its order, and there is one at least and all of them are well formed.
\<close>
theorem parse_scope_iff:
  "ParseScope v = Inr s \<longleftrightarrow>
     s = \<lparr>sc_allow = filter (\<lambda>i. \<not> is_deny i) (scope_items v),
          sc_deny = map denied_pattern (filter is_deny (scope_items v))\<rparr> \<and>
     scope_items v \<noteq> [] \<and> scope_validate s = Inr ()"
proof -
  let ?items = "scope_items v"
  let ?denies = "map denied_pattern (filter is_deny ?items)"
  let ?t = "\<lparr>sc_allow = filter (\<lambda>i. \<not> is_deny i) ?items, sc_deny = ?denies\<rparr>"
  have empty: "[] \<in> set ?denies \<Longrightarrow> scope_validate ?t \<noteq> Inr ()"
  proof
    assume e: "[] \<in> set ?denies" and "scope_validate ?t = Inr ()"
    then have "\<forall>p\<in>set (sc_deny ?t). trim_space p \<noteq> []"
      unfolding scope_validate_def validate_patterns_ok by simp
    with e have "trim_space [] \<noteq> []" by (metis scope.select_convs(2))
    then show False by simp
  qed
  have none: "(sc_allow ?t = [] \<and> sc_deny ?t = []) \<longleftrightarrow> ?items = []"
    by (auto simp: filter_empty_conv)
  have parsed: "parse_items (split_on CHR '','' v) \<lparr>sc_allow = [], sc_deny = []\<rparr> = Inr r
      \<longleftrightarrow> [] \<notin> set ?denies \<and> r = ?t" for r
    by (simp add: parse_items_ok Let_def scope_items_def)
  show ?thesis
  proof (cases "[] \<in> set ?denies")
    case True
    with parsed obtain e where "parse_items (split_on CHR '','' v) \<lparr>sc_allow = [], sc_deny = []\<rparr> = Inl e"
      by (metis sum.exhaust)
    then have "ParseScope v \<noteq> Inr s" by (simp add: ParseScope_def)
    with empty True show ?thesis by blast
  next
    case False
    with parsed have p: "parse_items (split_on CHR '','' v) \<lparr>sc_allow = [], sc_deny = []\<rparr> = Inr ?t" by blast
    have "ParseScope v = (if ?items = [] then
            Inl (plain_error ''provider scope must contain at least one pattern'')
          else (case scope_validate ?t of Inl e \<Rightarrow> Inl e | Inr _ \<Rightarrow> Inr ?t))"
      unfolding ParseScope_def p sum.case none ..
    then show ?thesis by (auto split: sum.splits)
  qed
qed

lemma scoped_attempts_match:
  "scoped_attempts s pattern n base k draw = Inr name \<Longrightarrow>
     scope_match s name \<and> (\<exists>i raw. i < k \<and> draw i = Inr raw \<and> name = base @ take n raw)"
proof (induction k)
  case (Suc k)
  then obtain raw where raw: "draw k = Inr raw" by (auto split: sum.splits)
  show ?case
  proof (cases "scope_match s (base @ take n raw)")
    case True
    with Suc.prems raw have "name = base @ take n raw" by simp
    with True raw show ?thesis by blast
  next
    case False
    with Suc.prems raw have "scoped_attempts s pattern n base k draw = Inr name" by (simp add: Let_def)
    with Suc.IH show ?thesis using less_SucI by blast
  qed
qed simp

text \<open>
  A name generated for provisioning is inside the scope it is generated for, and ends in
  the text of one of the at most eight random draws.
\<close>
theorem scoped_name_in_scope:
  assumes "buildScopedName s hint n draw = Inr name"
  shows "scope_match s name \<and> (\<exists>i raw base. i < 8 \<and> draw i = Inr raw \<and> name = base @ take n raw)"
proof -
  from assms obtain p base where "scoped_attempts s p n base 8 draw = Inr name"
    by (auto simp: buildScopedName_def Let_def split: list.splits if_splits)
  from scoped_attempts_match [OF this] show ?thesis by blast
qed

theorem scoped_name_in_scope_witness:
  "scope_match \<lparr>sc_allow = [''svc-*''], sc_deny = [''svc-0*'']\<rparr> ''svc-1a2b''"
proof -
  have "buildScopedName \<lparr>sc_allow = [''svc-*''], sc_deny = [''svc-0*'']\<rparr> [] 4
      (\<lambda>k. Inr (if k = 7 then ''0f0f'' else ''1a2b'')) = Inr ''svc-1a2b''" by code_simp
  from scoped_name_in_scope [OF this] show ?thesis by blast
qed

lemma demo_name_matches:
  "CHR ''/'' \<notin> set base \<Longrightarrow> CHR ''/'' \<notin> set raw \<Longrightarrow> scope_match DemoScope (demoPrefix @ base @ take n raw)"
  by (subst demo_scope_exact) (auto dest: in_set_takeD)

lemma demo_pattern_base: "pattern_prefix DemoScopePattern = demoPrefix"
  by code_simp

lemma hint_no_slash: "list_all hint_char hint \<Longrightarrow> CHR ''/'' \<notin> set hint"
  by (auto simp: list_all_iff hint_char_def)

text \<open>
  For the demo scope the scoped generator and the legacy demo generator give the same name from
  the same draw (a hexadecimal text), and then it takes one draw only.
\<close>
theorem demo_names_agree:
  assumes "CHR ''/'' \<notin> set raw" and "list_all hint_char (to_lower (trim_space hint))"
  shows "buildScopedName DemoScope hint n (\<lambda>k. if k = 7 then Inr raw else other k)
       = buildDemoName hint n (Inr raw)"
proof -
  let ?hint = "to_lower (trim_space hint)"
  let ?tail = "if take 20 ?hint \<noteq> [] then take 20 ?hint @ ''-'' else []"
  have "CHR ''/'' \<notin> set ?tail"
    using hint_no_slash [OF assms(2)] by (auto dest: in_set_takeD)
  from demo_name_matches [OF this assms(1), of n]
  have "scoped_attempts DemoScope DemoScopePattern n (demoPrefix @ ?tail) 8
          (\<lambda>k. if k = 7 then Inr raw else other k) = Inr (demoPrefix @ ?tail @ take n raw)"
    by (simp add: numeral_eq_Suc Let_def)
  then show ?thesis using assms(2)
    by (simp add: buildScopedName_def buildDemoName_def DemoScope_def Let_def demo_pattern_base)
qed

theorem demo_names_agree_witness:
  "buildScopedName DemoScope ''Billing'' 4 (\<lambda>k. if k = 7 then Inr ''09af'' else Inl (plain_error []))
     = buildDemoName ''Billing'' 4 (Inr ''09af'')"
  by (rule demo_names_agree) code_simp+

end
