(* ===== verification/Simulators.thy ===== *)
theory Simulators
  imports Scope
begin

text \<open>
  The simulated clouds of the demo (internal/provider: awssimulator.go, azuresimulator.go,
  gcpsimulator.go). Each simulator is a record of its account data, its pinned clock, its scope,
  its map of records and its sequence counter; a method takes the state and returns the new one.
  The maps are association lists, so a loop over one visits the entries in the list's order
  where Go leaves the order open. The locale \<open>simulated_cloud\<close> is what the three have in common
  and what the control plane relies on: it is interpreted on each of them.
\<close>

section \<open>Parts the simulators share\<close>

text \<open>The rows of the seed tables.\<close>

record seed_item =
  sd_name :: string
  sd_environment :: string
  sd_team :: string
  sd_service :: string
  sd_purpose :: string
  sd_criticality :: string
  sd_policy_days :: int
  sd_health :: health
  sd_expires_in :: duration
  sd_last_rotated :: duration

definition policy_duration :: "int \<Rightarrow> duration" where
  "policy_duration days = wrap_int64 (days * 24 * hour)"

definition sha_label :: "nat \<Rightarrow> string" where
  "sha_label n = ''sha256:'' @ pad0 32 (hex n)"

definition simulated_state :: "bool \<Rightarrow> state" where
  "simulated_state disabled = (if disabled then StateRetired else StateActive)"

definition unknown_provider_id :: "string \<Rightarrow> string \<Rightarrow> go_error" where
  "unknown_provider_id kind pid = plain_error (kind @ '': unknown provider id '' @ quoted pid)"

definition disabled_error :: "string \<Rightarrow> string \<Rightarrow> go_error" where
  "disabled_error kind name = plain_error (kind @ '': '' @ name @ '' is disabled/retired and cannot rotate'')"

definition plan_needs_id :: "string \<Rightarrow> string \<Rightarrow> go_error" where
  "plan_needs_id kind what = plain_error (kind @ '': plan '' @ what @ '' requires an identity id'')"

section \<open>AWS IAM\<close>

definition awsKind :: string where "awsKind = ''aws-iam''"

record access_key =
  ak_key_id :: string
  ak_fingerprint :: string
  ak_location :: string
  ak_expires_at :: time

record iam_user =
  iu_name :: string
  iu_environment :: string
  iu_team :: string
  iu_service :: string
  iu_purpose :: string
  iu_criticality :: string
  iu_policy_days :: int
  iu_seed_health :: health
  iu_last_rotated :: time
  iu_disabled :: bool
  iu_key :: access_key

record aws_simulator =
  aw_account_id :: string
  aw_region :: string
  aw_now :: time
  aw_scope :: scope
  aw_users :: "iam_user gomap"
  aw_seq :: nat

definition aws_seed_items :: "seed_item list" where
  "aws_seed_items =
     [\<lparr>sd_name = ''orders-deployer'', sd_environment = ''production'', sd_team = ''Orders Platform'',
       sd_service = ''Order deployment'', sd_purpose = ''Deploys order processing workloads'',
       sd_criticality = ''high'', sd_policy_days = 90, sd_health = HealthAttention,
       sd_expires_in = 5 * 24 * hour, sd_last_rotated = 85 * 24 * hour\<rparr>,
      \<lparr>sd_name = ''data-exporting'', sd_environment = ''staging'', sd_team = ''Data Engineering'',
       sd_service = ''Export pipeline'', sd_purpose = ''Exports catalog data to downstream systems'',
       sd_criticality = ''high'', sd_policy_days = 90, sd_health = HealthHealthy,
       sd_expires_in = 18 * 24 * hour, sd_last_rotated = 72 * 24 * hour\<rparr>,
      \<lparr>sd_name = ''metrics-publisher'', sd_environment = ''production'', sd_team = ''Observability'',
       sd_service = ''Metrics publishing'', sd_purpose = ''Publishes application metrics'',
       sd_criticality = ''medium'', sd_policy_days = 90, sd_health = HealthHealthy,
       sd_expires_in = 75 * 24 * hour, sd_last_rotated = 15 * 24 * hour\<rparr>]"

definition aws_seed_user :: "aws_simulator \<Rightarrow> bool \<Rightarrow> nat \<Rightarrow> seed_item \<Rightarrow> iam_user" where
  "aws_seed_user s demoSeed i item =
     (let name = (if demoSeed then demoPrefix @ sd_name item else sd_name item) in
      \<lparr>iu_name = name, iu_environment = sd_environment item, iu_team = sd_team item,
       iu_service = sd_service item, iu_purpose = sd_purpose item,
       iu_criticality = sd_criticality item, iu_policy_days = sd_policy_days item,
       iu_seed_health = sd_health item, iu_last_rotated = aw_now s - sd_last_rotated item,
       iu_disabled = False,
       iu_key = \<lparr>ak_key_id = name @ ''-infra-key'', ak_fingerprint = sha_label (i + 1),
         ak_location = ''iam://'' @ aw_account_id s @ ''/user/'' @ name,
         ak_expires_at = aw_now s + sd_expires_in item\<rparr>\<rparr>)"

fun aws_seed_from :: "nat \<Rightarrow> seed_item list \<Rightarrow> aws_simulator \<Rightarrow> aws_simulator" where
  "aws_seed_from i [] s = s"
| "aws_seed_from i (item # items) s =
     (let user = aws_seed_user s (isDemoScope (aw_scope s)) i item in
      aws_seed_from (i + 1) items (s\<lparr>aw_users := put (iu_name user) user (aw_users s)\<rparr>))"

definition aws_seed :: "aws_simulator \<Rightarrow> aws_simulator" where
  "aws_seed s = aws_seed_from 0 aws_seed_items (s\<lparr>aw_seq := 1\<rparr>)"

definition NewAWSSimulator :: "string \<Rightarrow> string \<Rightarrow> time \<Rightarrow> scope list \<Rightarrow> aws_simulator" where
  "NewAWSSimulator accountID region now scopes =
     aws_seed \<lparr>aw_account_id = accountID, aw_region = region, aw_now = now,
       aw_scope = simulatorConstructorScope scopes, aw_users = [], aw_seq = 0\<rparr>"

definition NewAWSSimulatorWithScope :: "string \<Rightarrow> string \<Rightarrow> time \<Rightarrow> scope \<Rightarrow> aws_simulator" where
  "NewAWSSimulatorWithScope accountID region now s = NewAWSSimulator accountID region now [s]"

definition aws_identity :: "aws_simulator \<Rightarrow> iam_user \<Rightarrow> machine_identity" where
  "aws_identity s user = zero_identity\<lparr>mi_name := iu_name user, mi_display_name := iu_name user,
     mi_environment := iu_environment user,
     mi_provider := zero_binding\<lparr>pb_provider := awsKind, pb_provider_id := iu_name user,
       pb_account_id := aw_account_id s, pb_region := aw_region s\<rparr>,
     mi_ownership := zero_ownership\<lparr>ow_team := iu_team user, ow_service := iu_service user,
       ow_purpose := iu_purpose user, ow_criticality := iu_criticality user,
       ow_contacts := [iu_name user @ ''@aws.mutandae.example'']\<rparr>,
     mi_policy := zero_policy\<lparr>
       lp_renewal_period := FormatISO8601Duration (policy_duration (iu_policy_days user))\<rparr>,
     mi_credential := \<lparr>cr_kind = ''access_key'', cr_location = ak_location (iu_key user),
       cr_fingerprint = ak_fingerprint (iu_key user), cr_key_id = ak_key_id (iu_key user),
       cr_delivery = ''secret-manager''\<rparr>,
     mi_state := simulated_state (iu_disabled user), mi_health := iu_seed_health user,
     mi_expires_at := ak_expires_at (iu_key user), mi_last_rotated_at := iu_last_rotated user\<rparr>"

definition aws_live :: "aws_simulator \<Rightarrow> iam_user \<Rightarrow> bool" where
  "aws_live s user \<longleftrightarrow> \<not> (iu_disabled user \<or> \<not> scope_match (aw_scope s) (iu_name user))"

definition aws_discover :: "aws_simulator \<Rightarrow> machine_identity list result \<times> aws_simulator" where
  "aws_discover s = (Inr (map (aws_identity s) (filter (aws_live s) (map snd (aw_users s)))), s)"

definition aws_name :: "machine_identity \<Rightarrow> string" where
  "aws_name identity =
     (let name = trim_space (pb_provider_id (mi_provider identity)) in
      if name = [] then trim_space (mi_name identity) else name)"

definition aws_user_by_name :: "aws_simulator \<Rightarrow> string \<Rightarrow> iam_user result" where
  "aws_user_by_name s name =
     (case lookup (aw_users s) name of None \<Rightarrow> Inl (unknown_provider_id awsKind name) | Some user \<Rightarrow> Inr user)"

definition aws_rotated_user :: "aws_simulator \<Rightarrow> iam_user \<Rightarrow> iam_user" where
  "aws_rotated_user s user = user\<lparr>
     iu_key := (iu_key user)\<lparr>ak_key_id := iu_name user @ ''-access-key-'' @ dec (aw_seq s),
       ak_fingerprint := sha_label (aw_seq s + 200),
       ak_expires_at := aw_now s + policy_duration (iu_policy_days user)\<rparr>,
     iu_last_rotated := aw_now s, iu_seed_health := HealthHealthy\<rparr>"

definition aws_rotate :: "machine_identity \<Rightarrow> aws_simulator \<Rightarrow> machine_identity result \<times> aws_simulator" where
  "aws_rotate identity s =
     (let name = aws_name identity in
      if \<not> scope_match (aw_scope s) name then (Inl (forbiddenScopeError awsKind name (aw_scope s)), s)
      else case aws_user_by_name s name of
        Inl e \<Rightarrow> (Inl e, s)
      | Inr user \<Rightarrow>
          if iu_disabled user then (Inl (disabled_error awsKind (iu_name user)), s)
          else
            (let s1 = s\<lparr>aw_seq := aw_seq s + 1\<rparr>; user1 = aws_rotated_user s1 user;
                 s2 = s1\<lparr>aw_users := put (iu_name user) user1 (aw_users s)\<rparr>
             in (Inr (aws_identity s2 user1), s2)))"

definition aws_retire :: "machine_identity \<Rightarrow> aws_simulator \<Rightarrow> machine_identity result \<times> aws_simulator" where
  "aws_retire identity s =
     (let name = aws_name identity in
      if \<not> scope_match (aw_scope s) name then (Inl (forbiddenScopeError awsKind name (aw_scope s)), s)
      else case aws_user_by_name s name of
        Inl e \<Rightarrow> (Inl e, s)
      | Inr user \<Rightarrow>
          (let user1 = user\<lparr>iu_disabled := True\<rparr>;
               s1 = s\<lparr>aw_users := put (iu_name user) user1 (aw_users s)\<rparr>
           in (Inr (aws_identity s1 user1), s1)))"

definition aws_planned_name :: "string \<Rightarrow> string \<Rightarrow> aws_simulator \<Rightarrow> string result" where
  "aws_planned_name what i s =
     (let name = trim_space i in
      if name = [] then Inl (plan_needs_id awsKind what)
      else if \<not> scope_match (aw_scope s) name then Inl (forbiddenScopeError awsKind name (aw_scope s))
      else if lookup (aw_users s) name = None then Inl (unknown_provider_id awsKind name)
      else Inr name)"

definition aws_plan_rotate :: "string \<Rightarrow> aws_simulator \<Rightarrow> operations result \<times> aws_simulator" where
  "aws_plan_rotate i s =
     (case aws_planned_name ''rotate'' i s of
        Inl e \<Rightarrow> (Inl e, s)
      | Inr name \<Rightarrow>
          (Inr (Some
            [planned ''aws.create_access_key'' name
               ''Create a replacement access key and make it the active credential.'' True False,
             planned ''aws.revoke_old_access_key'' name
               ''Revoke the previous access key after the replacement is available.'' False True]), s))"

definition aws_plan_retire :: "string \<Rightarrow> aws_simulator \<Rightarrow> operations result \<times> aws_simulator" where
  "aws_plan_retire i s =
     (case aws_planned_name ''retire'' i s of
        Inl e \<Rightarrow> (Inl e, s)
      | Inr name \<Rightarrow>
          (Inr (Some
            [planned ''aws.disable_user'' name
               ''Disable the IAM user so it is no longer governed or discoverable.'' True True]), s))"

definition provider_id_or_name :: "machine_identity \<Rightarrow> string" where
  "provider_id_or_name identity =
     (if pb_provider_id (mi_provider identity) = [] then mi_name identity
      else pb_provider_id (mi_provider identity))"

definition aws_plan_rotate_identity ::
  "machine_identity \<Rightarrow> aws_simulator \<Rightarrow> operations result \<times> aws_simulator" where
  "aws_plan_rotate_identity identity = aws_plan_rotate (provider_id_or_name identity)"

definition aws_plan_retire_identity ::
  "machine_identity \<Rightarrow> aws_simulator \<Rightarrow> operations result \<times> aws_simulator" where
  "aws_plan_retire_identity identity = aws_plan_retire (provider_id_or_name identity)"

section \<open>Azure / Entra ID\<close>

definition azureKind :: string where "azureKind = ''azure-entra''"

record credential =
  cd_key_id :: string
  cd_fingerprint :: string
  cd_location :: string
  cd_expires_at :: time

record app_registration =
  ap_object_id :: string
  ap_name :: string
  ap_display_name :: string
  ap_environment :: string
  ap_team :: string
  ap_service :: string
  ap_purpose :: string
  ap_criticality :: string
  ap_policy_days :: int
  ap_seed_health :: health
  ap_last_rotated :: time
  ap_disabled :: bool
  ap_cred :: credential

record azure_simulator =
  az_tenant_id :: string
  az_now :: time
  az_scope :: scope
  az_apps :: "app_registration gomap"
  az_seq :: nat

definition objectID :: "nat \<Rightarrow> string" where
  "objectID n = ''00000000-0000-0000-0000-'' @ pad0 12 (dec n)"

text \<open>The display column of the seed table is never read.\<close>

definition azure_seed_items :: "seed_item list" where
  "azure_seed_items =
     [\<lparr>sd_name = ''payments-api'', sd_environment = ''production'', sd_team = ''Payments Platform'',
       sd_service = ''Payment authorization'', sd_purpose = ''Authorizes payment processing workloads'',
       sd_criticality = ''critical'', sd_policy_days = 90, sd_health = HealthAttention,
       sd_expires_in = 5 * 24 * hour, sd_last_rotated = 85 * 24 * hour\<rparr>,
      \<lparr>sd_name = ''data-pipeline'', sd_environment = ''staging'', sd_team = ''Data Engineering'',
       sd_service = ''Warehouse ingestion'', sd_purpose = ''Ingests catalog data into the warehouse'',
       sd_criticality = ''high'', sd_policy_days = 90, sd_health = HealthHealthy,
       sd_expires_in = 18 * 24 * hour, sd_last_rotated = 72 * 24 * hour\<rparr>,
      \<lparr>sd_name = ''inventory-sync'', sd_environment = ''production'', sd_team = ''Commerce Infrastructure'',
       sd_service = ''Stock reconciliation'', sd_purpose = ''Reconciles stock across storefronts'',
       sd_criticality = ''high'', sd_policy_days = 90, sd_health = HealthHealthy,
       sd_expires_in = 75 * 24 * hour, sd_last_rotated = 15 * 24 * hour\<rparr>,
      \<lparr>sd_name = ''legacy-reporting'', sd_environment = ''production'', sd_team = ''Finance Systems'',
       sd_service = ''Nightly reporting'', sd_purpose = ''Generates nightly finance reports'',
       sd_criticality = ''medium'', sd_policy_days = 90, sd_health = HealthAttention,
       sd_expires_in = - 3 * 24 * hour, sd_last_rotated = 93 * 24 * hour\<rparr>]"

definition azure_demo_seed :: "scope \<Rightarrow> bool" where
  "azure_demo_seed sc \<longleftrightarrow> sc_allow sc = [DemoScopePattern] \<and> sc_deny sc = []"

definition azure_seed_app :: "azure_simulator \<Rightarrow> bool \<Rightarrow> nat \<Rightarrow> seed_item \<Rightarrow> app_registration" where
  "azure_seed_app s demoSeed i item =
     (let name = (if demoSeed then demoPrefix @ sd_name item else sd_name item) in
      \<lparr>ap_object_id = objectID (i + 1), ap_name = name, ap_display_name = name,
       ap_environment = sd_environment item, ap_team = sd_team item,
       ap_service = sd_service item, ap_purpose = sd_purpose item,
       ap_criticality = sd_criticality item, ap_policy_days = sd_policy_days item,
       ap_seed_health = sd_health item, ap_last_rotated = az_now s - sd_last_rotated item,
       ap_disabled = False,
       ap_cred = \<lparr>cd_key_id = sd_name item @ ''-initial-secret'', cd_fingerprint = sha_label (i + 1),
         cd_location = ''keyvault://mutandae-vault/secrets/'' @ sd_name item,
         cd_expires_at = az_now s + sd_expires_in item\<rparr>\<rparr>)"

fun azure_seed_from :: "nat \<Rightarrow> seed_item list \<Rightarrow> azure_simulator \<Rightarrow> azure_simulator" where
  "azure_seed_from i [] s = s"
| "azure_seed_from i (item # items) s =
     (let app = azure_seed_app s (azure_demo_seed (az_scope s)) i item in
      azure_seed_from (i + 1) items (s\<lparr>az_apps := put (ap_object_id app) app (az_apps s)\<rparr>))"

definition azure_seed :: "azure_simulator \<Rightarrow> azure_simulator" where
  "azure_seed s = azure_seed_from 0 azure_seed_items (s\<lparr>az_seq := 1\<rparr>)"

definition NewSimulator :: "string \<Rightarrow> time \<Rightarrow> scope list \<Rightarrow> azure_simulator" where
  "NewSimulator tenantID now scopes =
     azure_seed \<lparr>az_tenant_id = tenantID, az_now = now,
       az_scope = simulatorConstructorScope scopes, az_apps = [], az_seq = 0\<rparr>"

definition NewSimulatorWithScope :: "string \<Rightarrow> time \<Rightarrow> scope \<Rightarrow> azure_simulator" where
  "NewSimulatorWithScope tenantID now s = NewSimulator tenantID now [s]"

definition azure_identity :: "azure_simulator \<Rightarrow> app_registration \<Rightarrow> machine_identity" where
  "azure_identity s app = zero_identity\<lparr>mi_name := ap_name app, mi_display_name := ap_display_name app,
     mi_environment := ap_environment app,
     mi_provider := zero_binding\<lparr>pb_provider := azureKind, pb_provider_id := ap_object_id app,
       pb_tenant_id := az_tenant_id s, pb_object_id := ap_object_id app, pb_region := ''westeurope''\<rparr>,
     mi_ownership := zero_ownership\<lparr>ow_team := ap_team app, ow_service := ap_service app,
       ow_purpose := ap_purpose app, ow_criticality := ap_criticality app,
       ow_contacts := [ap_name app @ ''@mutandae.example'']\<rparr>,
     mi_policy := zero_policy\<lparr>
       lp_renewal_period := FormatISO8601Duration (policy_duration (ap_policy_days app))\<rparr>,
     mi_credential := \<lparr>cr_kind = ''client_secret'', cr_location = cd_location (ap_cred app),
       cr_fingerprint = cd_fingerprint (ap_cred app), cr_key_id = cd_key_id (ap_cred app),
       cr_delivery = ''keyvault-ref''\<rparr>,
     mi_state := simulated_state (ap_disabled app), mi_health := ap_seed_health app,
     mi_expires_at := cd_expires_at (ap_cred app), mi_last_rotated_at := ap_last_rotated app\<rparr>"

definition azure_live :: "azure_simulator \<Rightarrow> app_registration \<Rightarrow> bool" where
  "azure_live s app \<longleftrightarrow> \<not> (ap_disabled app \<or> \<not> scope_match (az_scope s) (ap_display_name app))"

definition azure_discover :: "azure_simulator \<Rightarrow> machine_identity list result \<times> azure_simulator" where
  "azure_discover s = (Inr (map (azure_identity s) (filter (azure_live s) (map snd (az_apps s)))), s)"

text \<open>The name the Azure and GCP simulators hold against the scope first.\<close>

definition name_or_provider_id :: "machine_identity \<Rightarrow> string" where
  "name_or_provider_id identity =
     (let name = trim_space (mi_name identity) in
      if name = [] then trim_space (pb_provider_id (mi_provider identity)) else name)"

definition azure_app_by_id :: "azure_simulator \<Rightarrow> machine_identity \<Rightarrow> app_registration result" where
  "azure_app_by_id s identity =
     (let pid = pb_provider_id (mi_provider identity) in
      case lookup (az_apps s) pid of
        None \<Rightarrow> Inl (unknown_provider_id azureKind pid)
      | Some app \<Rightarrow> Inr app)"

definition azure_rotated_app :: "azure_simulator \<Rightarrow> app_registration \<Rightarrow> app_registration" where
  "azure_rotated_app s app = app\<lparr>
     ap_cred := (ap_cred app)\<lparr>cd_key_id := ap_name app @ ''-credential-'' @ dec (az_seq s),
       cd_fingerprint := sha_label (az_seq s + 100),
       cd_expires_at := az_now s + policy_duration (ap_policy_days app)\<rparr>,
     ap_last_rotated := az_now s, ap_seed_health := HealthHealthy\<rparr>"

definition azure_rotate :: "machine_identity \<Rightarrow> azure_simulator \<Rightarrow> machine_identity result \<times> azure_simulator" where
  "azure_rotate identity s =
     (let name = name_or_provider_id identity in
      if \<not> scope_match (az_scope s) name then (Inl (forbiddenScopeError azureKind name (az_scope s)), s)
      else case azure_app_by_id s identity of
        Inl e \<Rightarrow> (Inl e, s)
      | Inr app \<Rightarrow>
          if \<not> scope_match (az_scope s) (ap_display_name app) then
            (Inl (forbiddenScopeError azureKind (ap_display_name app) (az_scope s)), s)
          else if ap_disabled app then (Inl (disabled_error azureKind (ap_name app)), s)
          else
            (let s1 = s\<lparr>az_seq := az_seq s + 1\<rparr>; app1 = azure_rotated_app s1 app;
                 s2 = s1\<lparr>az_apps := put (ap_object_id app) app1 (az_apps s)\<rparr>
             in (Inr (azure_identity s2 app1), s2)))"

definition azure_retire :: "machine_identity \<Rightarrow> azure_simulator \<Rightarrow> machine_identity result \<times> azure_simulator" where
  "azure_retire identity s =
     (let name = name_or_provider_id identity in
      if \<not> scope_match (az_scope s) name then (Inl (forbiddenScopeError azureKind name (az_scope s)), s)
      else case azure_app_by_id s identity of
        Inl e \<Rightarrow> (Inl e, s)
      | Inr app \<Rightarrow>
          if \<not> scope_match (az_scope s) (ap_display_name app) then
            (Inl (forbiddenScopeError azureKind (ap_display_name app) (az_scope s)), s)
          else
            (let app1 = app\<lparr>ap_disabled := True\<rparr>;
                 s1 = s\<lparr>az_apps := put (ap_object_id app) app1 (az_apps s)\<rparr>
             in (Inr (azure_identity s1 app1), s1)))"

definition azure_app_by_name :: "azure_simulator \<Rightarrow> string \<Rightarrow> app_registration option" where
  "azure_app_by_name s name = find (\<lambda>app. ap_display_name app = name) (map snd (az_apps s))"

definition azure_planned_name :: "string \<Rightarrow> string \<Rightarrow> azure_simulator \<Rightarrow> string result" where
  "azure_planned_name what i s =
     (let name = trim_space i in
      if name = [] then Inl (plan_needs_id azureKind what)
      else if \<not> scope_match (az_scope s) name then Inl (forbiddenScopeError azureKind name (az_scope s))
      else if azure_app_by_name s name = None then
        Inl (plain_error (azureKind @ '': unknown application '' @ quoted name))
      else Inr name)"

definition azure_plan_rotate :: "string \<Rightarrow> azure_simulator \<Rightarrow> operations result \<times> azure_simulator" where
  "azure_plan_rotate i s =
     (case azure_planned_name ''rotate'' i s of
        Inl e \<Rightarrow> (Inl e, s)
      | Inr name \<Rightarrow>
          (Inr (Some
            [planned ''graph.addPassword'' name
               ''Add a replacement Microsoft Graph password credential.'' True False,
             planned ''graph.removePassword'' name
               ''Remove the rotated-out Graph password credential.'' False True]), s))"

definition azure_plan_retire :: "string \<Rightarrow> azure_simulator \<Rightarrow> operations result \<times> azure_simulator" where
  "azure_plan_retire i s =
     (case azure_planned_name ''retire'' i s of
        Inl e \<Rightarrow> (Inl e, s)
      | Inr name \<Rightarrow>
          (Inr (Some
            [planned ''graph.deleteApplication'' name
               ''Delete the application registration so its credentials can no longer authenticate.''
               False True]), s))"

definition azure_plan_id :: "machine_identity \<Rightarrow> string" where
  "azure_plan_id identity =
     (if trim_space (mi_name identity) = [] then pb_provider_id (mi_provider identity) else mi_name identity)"

definition azure_plan_rotate_identity ::
  "machine_identity \<Rightarrow> azure_simulator \<Rightarrow> operations result \<times> azure_simulator" where
  "azure_plan_rotate_identity identity = azure_plan_rotate (azure_plan_id identity)"

definition azure_plan_retire_identity ::
  "machine_identity \<Rightarrow> azure_simulator \<Rightarrow> operations result \<times> azure_simulator" where
  "azure_plan_retire_identity identity = azure_plan_retire (azure_plan_id identity)"

section \<open>Google Cloud IAM\<close>

definition gcpKind :: string where "gcpKind = ''gcp-iam''"

record service_account =
  sa_unique_id :: string
  sa_name :: string
  sa_email :: string
  sa_environment :: string
  sa_team :: string
  sa_service :: string
  sa_purpose :: string
  sa_criticality :: string
  sa_policy_days :: int
  sa_seed_health :: health
  sa_last_rotated :: time
  sa_disabled :: bool
  sa_key :: credential

record gcp_simulator =
  gc_project_id :: string
  gc_region :: string
  gc_now :: time
  gc_scope :: scope
  gc_accounts :: "service_account gomap"
  gc_seq :: nat

definition uniqueID :: "nat \<Rightarrow> string" where
  "uniqueID n = pad0 21 (dec n)"

definition gcp_email :: "gcp_simulator \<Rightarrow> string \<Rightarrow> string" where
  "gcp_email s name = name @ ''@'' @ gc_project_id s @ ''.iam.gserviceaccount.com''"

definition gcp_key_id :: "string \<Rightarrow> nat \<Rightarrow> string" where
  "gcp_key_id name n = name @ ''-service-key-'' @ dec n"

definition gcp_key_location :: "gcp_simulator \<Rightarrow> string \<Rightarrow> string \<Rightarrow> string" where
  "gcp_key_location s email keyID =
     ''iam://projects/'' @ gc_project_id s @ ''/serviceAccounts/'' @ email @ ''/keys/'' @ keyID"

definition gcp_seed_items :: "seed_item list" where
  "gcp_seed_items =
     [\<lparr>sd_name = ''inventory-broker'', sd_environment = ''production'',
       sd_team = ''Commerce Infrastructure'', sd_service = ''Stock reconciliation'',
       sd_purpose = ''Brokers inventory stock reconciliation events'',
       sd_criticality = ''high'', sd_policy_days = 90, sd_health = HealthAttention,
       sd_expires_in = 5 * 24 * hour, sd_last_rotated = 85 * 24 * hour\<rparr>,
      \<lparr>sd_name = ''ml-training-runtime'', sd_environment = ''staging'', sd_team = ''Data Engineering'',
       sd_service = ''ML training'', sd_purpose = ''Provisions model training runtimes'',
       sd_criticality = ''high'', sd_policy_days = 90, sd_health = HealthHealthy,
       sd_expires_in = 18 * 24 * hour, sd_last_rotated = 72 * 24 * hour\<rparr>,
      \<lparr>sd_name = ''catalog-replication'', sd_environment = ''production'',
       sd_team = ''Commerce Infrastructure'', sd_service = ''Catalog sync'',
       sd_purpose = ''Replicates catalog data across zones'',
       sd_criticality = ''medium'', sd_policy_days = 90, sd_health = HealthHealthy,
       sd_expires_in = 75 * 24 * hour, sd_last_rotated = 15 * 24 * hour\<rparr>]"

definition gcp_seed_account :: "gcp_simulator \<Rightarrow> bool \<Rightarrow> nat \<Rightarrow> seed_item \<Rightarrow> service_account" where
  "gcp_seed_account s demoSeed i item =
     (let name = (if demoSeed then demoPrefix @ sd_name item else sd_name item);
          email = gcp_email s name; keyID = gcp_key_id name (gc_seq s) in
      \<lparr>sa_unique_id = uniqueID (i + 1), sa_name = name, sa_email = email,
       sa_environment = sd_environment item, sa_team = sd_team item,
       sa_service = sd_service item, sa_purpose = sd_purpose item,
       sa_criticality = sd_criticality item, sa_policy_days = sd_policy_days item,
       sa_seed_health = sd_health item, sa_last_rotated = gc_now s - sd_last_rotated item,
       sa_disabled = False,
       sa_key = \<lparr>cd_key_id = keyID, cd_fingerprint = sha_label (i + 1),
         cd_location = gcp_key_location s email keyID, cd_expires_at = gc_now s + sd_expires_in item\<rparr>\<rparr>)"

fun gcp_seed_from :: "nat \<Rightarrow> seed_item list \<Rightarrow> gcp_simulator \<Rightarrow> gcp_simulator" where
  "gcp_seed_from i [] s = s"
| "gcp_seed_from i (item # items) s =
     (let acct = gcp_seed_account s (isDemoScope (gc_scope s)) i item in
      gcp_seed_from (i + 1) items
        (s\<lparr>gc_seq := gc_seq s + 1, gc_accounts := put (sa_unique_id acct) acct (gc_accounts s)\<rparr>))"

definition gcp_seed :: "gcp_simulator \<Rightarrow> gcp_simulator" where
  "gcp_seed s = gcp_seed_from 0 gcp_seed_items (s\<lparr>gc_seq := 1\<rparr>)"

definition NewGCPSimulator :: "string \<Rightarrow> string \<Rightarrow> time \<Rightarrow> scope list \<Rightarrow> gcp_simulator" where
  "NewGCPSimulator projectID region now scopes =
     gcp_seed \<lparr>gc_project_id = projectID, gc_region = region, gc_now = now,
       gc_scope = simulatorConstructorScope scopes, gc_accounts = [], gc_seq = 0\<rparr>"

definition NewGCPSimulatorWithScope :: "string \<Rightarrow> string \<Rightarrow> time \<Rightarrow> scope \<Rightarrow> gcp_simulator" where
  "NewGCPSimulatorWithScope projectID region now s = NewGCPSimulator projectID region now [s]"

definition gcp_identity :: "gcp_simulator \<Rightarrow> service_account \<Rightarrow> machine_identity" where
  "gcp_identity s acct = zero_identity\<lparr>mi_name := sa_name acct, mi_display_name := sa_name acct,
     mi_environment := sa_environment acct,
     mi_provider := zero_binding\<lparr>pb_provider := gcpKind, pb_provider_id := sa_unique_id acct,
       pb_project_id := gc_project_id s, pb_region := gc_region s\<rparr>,
     mi_ownership := zero_ownership\<lparr>ow_team := sa_team acct, ow_service := sa_service acct,
       ow_purpose := sa_purpose acct, ow_criticality := sa_criticality acct,
       ow_contacts := [sa_email acct]\<rparr>,
     mi_policy := zero_policy\<lparr>
       lp_renewal_period := FormatISO8601Duration (policy_duration (sa_policy_days acct))\<rparr>,
     mi_credential := \<lparr>cr_kind = ''service_account_key'', cr_location = cd_location (sa_key acct),
       cr_fingerprint = cd_fingerprint (sa_key acct), cr_key_id = cd_key_id (sa_key acct),
       cr_delivery = ''secret-manager''\<rparr>,
     mi_state := simulated_state (sa_disabled acct), mi_health := sa_seed_health acct,
     mi_expires_at := cd_expires_at (sa_key acct), mi_last_rotated_at := sa_last_rotated acct\<rparr>"

definition gcp_live :: "gcp_simulator \<Rightarrow> service_account \<Rightarrow> bool" where
  "gcp_live s acct \<longleftrightarrow> \<not> (sa_disabled acct \<or> \<not> scope_match (gc_scope s) (sa_email acct))"

definition gcp_discover :: "gcp_simulator \<Rightarrow> machine_identity list result \<times> gcp_simulator" where
  "gcp_discover s = (Inr (map (gcp_identity s) (filter (gcp_live s) (map snd (gc_accounts s)))), s)"

definition gcp_account_by_id :: "gcp_simulator \<Rightarrow> machine_identity \<Rightarrow> service_account result" where
  "gcp_account_by_id s identity =
     (let pid = pb_provider_id (mi_provider identity) in
      case lookup (gc_accounts s) pid of
        None \<Rightarrow> Inl (unknown_provider_id gcpKind pid)
      | Some acct \<Rightarrow> Inr acct)"

definition gcp_rotated_account :: "gcp_simulator \<Rightarrow> service_account \<Rightarrow> service_account" where
  "gcp_rotated_account s acct =
     (let keyID = gcp_key_id (sa_name acct) (gc_seq s) in
      acct\<lparr>sa_key := (sa_key acct)\<lparr>cd_key_id := keyID, cd_fingerprint := sha_label (gc_seq s + 100),
             cd_location := gcp_key_location s (sa_email acct) keyID,
             cd_expires_at := gc_now s + policy_duration (sa_policy_days acct)\<rparr>,
           sa_last_rotated := gc_now s, sa_seed_health := HealthHealthy\<rparr>)"

definition gcp_rotate :: "machine_identity \<Rightarrow> gcp_simulator \<Rightarrow> machine_identity result \<times> gcp_simulator" where
  "gcp_rotate identity s =
     (let name = name_or_provider_id identity in
      if \<not> scope_match (gc_scope s) name then (Inl (forbiddenScopeError gcpKind name (gc_scope s)), s)
      else case gcp_account_by_id s identity of
        Inl e \<Rightarrow> (Inl e, s)
      | Inr acct \<Rightarrow>
          if \<not> scope_match (gc_scope s) (sa_email acct) then
            (Inl (forbiddenScopeError gcpKind (sa_email acct) (gc_scope s)), s)
          else if sa_disabled acct then (Inl (disabled_error gcpKind (sa_name acct)), s)
          else
            (let s1 = s\<lparr>gc_seq := gc_seq s + 1\<rparr>; acct1 = gcp_rotated_account s1 acct;
                 s2 = s1\<lparr>gc_accounts := put (sa_unique_id acct) acct1 (gc_accounts s)\<rparr>
             in (Inr (gcp_identity s2 acct1), s2)))"

definition gcp_retire :: "machine_identity \<Rightarrow> gcp_simulator \<Rightarrow> machine_identity result \<times> gcp_simulator" where
  "gcp_retire identity s =
     (let name = name_or_provider_id identity in
      if \<not> scope_match (gc_scope s) name then (Inl (forbiddenScopeError gcpKind name (gc_scope s)), s)
      else case gcp_account_by_id s identity of
        Inl e \<Rightarrow> (Inl e, s)
      | Inr acct \<Rightarrow>
          if \<not> scope_match (gc_scope s) (sa_email acct) then
            (Inl (forbiddenScopeError gcpKind (sa_email acct) (gc_scope s)), s)
          else
            (let acct1 = acct\<lparr>sa_disabled := True\<rparr>;
                 s1 = s\<lparr>gc_accounts := put (sa_unique_id acct) acct1 (gc_accounts s)\<rparr>
             in (Inr (gcp_identity s1 acct1), s1)))"

definition gcp_account_for_plan :: "gcp_simulator \<Rightarrow> string \<Rightarrow> service_account option" where
  "gcp_account_for_plan s i =
     find (\<lambda>acct. sa_unique_id acct = i \<or> sa_name acct = i \<or> sa_email acct = i) (map snd (gc_accounts s))"

definition gcp_planned_email :: "string \<Rightarrow> string \<Rightarrow> gcp_simulator \<Rightarrow> string result" where
  "gcp_planned_email what i s =
     (let name = trim_space i in
      if name = [] then Inl (plan_needs_id gcpKind what)
      else case gcp_account_for_plan s name of
        None \<Rightarrow> Inl (plain_error (gcpKind @ '': unknown service account '' @ quoted name))
      | Some acct \<Rightarrow>
          if \<not> scope_match (gc_scope s) (sa_email acct) then
            Inl (forbiddenScopeError gcpKind (sa_email acct) (gc_scope s))
          else Inr (sa_email acct))"

definition gcp_plan_rotate :: "string \<Rightarrow> gcp_simulator \<Rightarrow> operations result \<times> gcp_simulator" where
  "gcp_plan_rotate i s =
     (case gcp_planned_email ''rotate'' i s of
        Inl e \<Rightarrow> (Inl e, s)
      | Inr email \<Rightarrow>
          (Inr (Some
            [planned ''gcp.create_service_account_key'' email
               ''Create a replacement user-managed service-account key.'' True False,
             planned ''gcp.delete_key'' email
               ''Delete the rotated-out user-managed key after the replacement is available.''
               False True]), s))"

definition gcp_plan_retire :: "string \<Rightarrow> gcp_simulator \<Rightarrow> operations result \<times> gcp_simulator" where
  "gcp_plan_retire i s =
     (case gcp_planned_email ''retire'' i s of
        Inl e \<Rightarrow> (Inl e, s)
      | Inr email \<Rightarrow>
          (Inr (Some
            [planned ''gcp.delete_key'' email
               ''Delete every user-managed key so the service account has no downloadable credential.''
               False True]), s))"

definition gcp_plan_rotate_identity ::
  "machine_identity \<Rightarrow> gcp_simulator \<Rightarrow> operations result \<times> gcp_simulator" where
  "gcp_plan_rotate_identity identity = gcp_plan_rotate (provider_id_or_name identity)"

definition gcp_plan_retire_identity ::
  "machine_identity \<Rightarrow> gcp_simulator \<Rightarrow> operations result \<times> gcp_simulator" where
  "gcp_plan_retire_identity identity = gcp_plan_retire (provider_id_or_name identity)"

end
