(* ===== verification/CloudFacts.thy ===== *)
theory CloudFacts
  imports Simulators
begin

text \<open>
  What the simulated clouds promise: a mutation touches one enabled or disabled record inside the
  scope, leaves everything as it was when it fails, and never enables a record again. The locale
  \<open>simulated_cloud\<close> states that contract and derives from it what any sequence of calls does; it
  is interpreted on the three simulators.
\<close>

datatype cloud_call = RotateCall machine_identity | RetireCall machine_identity

definition keyed :: "('r \<Rightarrow> string) \<Rightarrow> 'r gomap \<Rightarrow> bool" where
  "keyed ident m \<longleftrightarrow> (\<forall>k r. lookup m k = Some r \<longrightarrow> ident r = k)"

lemma keyedD: "keyed ident m \<Longrightarrow> lookup m k = Some r \<Longrightarrow> ident r = k"
  by (simp add: keyed_def)

lemma keyed_put [intro]: "keyed ident m \<Longrightarrow> ident r = k \<Longrightarrow> keyed ident (put k r m)"
  by (simp add: keyed_def)

lemma keyed_Nil [simp]: "keyed ident []"
  by (simp add: keyed_def)

text \<open>What a call that succeeds did: one record in scope replaced under its key.\<close>

definition replaced ::
  "('r \<Rightarrow> string) \<Rightarrow> ('r \<Rightarrow> string) \<Rightarrow> scope \<Rightarrow> 'r gomap \<Rightarrow> 'r gomap \<Rightarrow> 'r \<Rightarrow> 'r \<Rightarrow> bool" where
  "replaced ident scoped sc m m' r r' \<longleftrightarrow>
     lookup m (ident r) = Some r \<and> scope_match sc (scoped r) \<and>
     ident r' = ident r \<and> scoped r' = scoped r \<and> m' = put (ident r) r' m"

lemma replacedI:
  assumes "keyed ident m" and "lookup m k = Some r" and "scope_match sc (scoped r)"
    and "ident r' = ident r" and "scoped r' = scoped r" and "m' = put (ident r) r' m"
  shows "replaced ident scoped sc m m' r r'"
  using assms keyedD [OF assms(1,2)] by (simp add: replaced_def)

lemma replaced_lookup:
  assumes "replaced ident scoped sc m m' r r'" and "lookup m k = Some q"
  shows "lookup m' k = Some q \<or> q = r \<and> lookup m' k = Some r'"
  using assms by (auto simp: replaced_def)

lemma replaced_keyed: "replaced ident scoped sc m m' r r' \<Longrightarrow> keyed ident m \<Longrightarrow> keyed ident m'"
  by (auto simp: replaced_def keyed_def)

lemma replaced_scoped: "replaced ident scoped sc m m' r r' \<Longrightarrow> scope_match sc (scoped r) \<and> scoped r' = scoped r"
  by (simp add: replaced_def)

locale simulated_cloud =
  fixes rotate retire :: "machine_identity \<Rightarrow> 's \<Rightarrow> machine_identity result \<times> 's"
    and discover :: "'s \<Rightarrow> machine_identity list result \<times> 's"
    and accounts :: "'s \<Rightarrow> 'r gomap"
    and ident :: "'r \<Rightarrow> string"
    and scoped :: "'r \<Rightarrow> string"
    and disabled :: "'r \<Rightarrow> bool"
    and cloud_scope :: "'s \<Rightarrow> scope"
    and view :: "'s \<Rightarrow> 'r \<Rightarrow> machine_identity"
  assumes rotate_effect: "keyed ident (accounts s) \<Longrightarrow> rotate i s = (Inr m, s') \<Longrightarrow>
      cloud_scope s' = cloud_scope s \<and>
      (\<exists>r r'. replaced ident scoped (cloud_scope s) (accounts s) (accounts s') r r' \<and>
         \<not> disabled r \<and> \<not> disabled r' \<and> m = view s' r')"
    and retire_effect: "keyed ident (accounts s) \<Longrightarrow> retire i s = (Inr m, s') \<Longrightarrow>
      cloud_scope s' = cloud_scope s \<and>
      (\<exists>r r'. replaced ident scoped (cloud_scope s) (accounts s) (accounts s') r r' \<and>
         disabled r' \<and> m = view s' r')"
    and rotate_error: "rotate i s = (Inl e, s') \<Longrightarrow> s' = s"
    and retire_error: "retire i s = (Inl e, s') \<Longrightarrow> s' = s"
    and discover_view: "discover s = (Inr (map (view s)
      (filter (\<lambda>r. \<not> disabled r \<and> scope_match (cloud_scope s) (scoped r)) (map snd (accounts s)))), s)"
    and view_binding: "pb_provider_id (mi_provider (view s r)) = ident r"
begin

fun call :: "cloud_call \<Rightarrow> 's \<Rightarrow> 's" where
  "call (RotateCall i) s = snd (rotate i s)"
| "call (RetireCall i) s = snd (retire i s)"

definition run :: "cloud_call list \<Rightarrow> 's \<Rightarrow> 's" where
  "run calls s = fold call calls s"

lemma call_effect:
  assumes "keyed ident (accounts s)"
  shows "call c s = s \<or> (cloud_scope (call c s) = cloud_scope s \<and>
    (\<exists>r r'. replaced ident scoped (cloud_scope s) (accounts s) (accounts (call c s)) r r' \<and>
       (disabled r \<longrightarrow> disabled r')))"
proof (cases c)
  case (RotateCall i)
  obtain res s' where r: "rotate i s = (res, s')" by (rule prod.exhaust)
  show ?thesis
  proof (cases res)
    case (Inl e)
    with r RotateCall rotate_error show ?thesis by simp
  next
    case (Inr m)
    with r have "rotate i s = (Inr m, s')" by simp
    from rotate_effect [OF assms this] show ?thesis using RotateCall r by auto
  qed
next
  case (RetireCall i)
  obtain res s' where r: "retire i s = (res, s')" by (rule prod.exhaust)
  show ?thesis
  proof (cases res)
    case (Inl e)
    with r RetireCall retire_error show ?thesis by simp
  next
    case (Inr m)
    with r have "retire i s = (Inr m, s')" by simp
    from retire_effect [OF assms this] show ?thesis using RetireCall r by auto
  qed
qed

lemma call_keyed: "keyed ident (accounts s) \<Longrightarrow> keyed ident (accounts (call c s))"
  using call_effect [of s c] replaced_keyed by metis

lemma call_scope: "keyed ident (accounts s) \<Longrightarrow> cloud_scope (call c s) = cloud_scope s"
  using call_effect [of s c] by metis

lemma call_outside:
  assumes "keyed ident (accounts s)" and "lookup (accounts s) k = Some r"
    and "\<not> scope_match (cloud_scope s) (scoped r)"
  shows "lookup (accounts (call c s)) k = Some r"
  using call_effect [OF assms(1), of c] assms(2,3) replaced_lookup replaced_scoped by metis

lemma call_record:
  assumes "keyed ident (accounts s)" and "lookup (accounts s) k = Some r"
  shows "\<exists>r'. lookup (accounts (call c s)) k = Some r' \<and> scoped r' = scoped r \<and> (disabled r \<longrightarrow> disabled r')"
  using call_effect [OF assms(1), of c] assms(2) replaced_lookup replaced_scoped by metis

lemma run_keyed: "keyed ident (accounts s) \<Longrightarrow> keyed ident (accounts (run cs s))"
  unfolding run_def by (induction cs arbitrary: s) (simp_all add: call_keyed)

lemma call_distinct:
  assumes "keyed ident (accounts s)" and "distinct (keys (accounts s))"
  shows "distinct (keys (accounts (call c s)))"
  using call_effect [OF assms(1), of c] assms(2) by (auto simp: replaced_def)

lemma run_distinct:
  "keyed ident (accounts s) \<Longrightarrow> distinct (keys (accounts s)) \<Longrightarrow> distinct (keys (accounts (run cs s)))"
  unfolding run_def by (induction cs arbitrary: s) (simp_all add: call_keyed call_distinct)

lemma run_scope: "keyed ident (accounts s) \<Longrightarrow> cloud_scope (run cs s) = cloud_scope s"
  unfolding run_def by (induction cs arbitrary: s) (simp_all add: call_keyed call_scope)

text \<open>A record outside the scope survives every sequence of calls as it is.\<close>

lemma run_outside:
  assumes "keyed ident (accounts s)" and "lookup (accounts s) k = Some r"
    and "\<not> scope_match (cloud_scope s) (scoped r)"
  shows "lookup (accounts (run cs s)) k = Some r"
  using assms unfolding run_def
proof (induction cs arbitrary: s)
  case (Cons c cs)
  then show ?case using call_outside call_keyed call_scope by simp
qed simp

text \<open>A disabled record stays disabled, whatever is called.\<close>

lemma run_disabled:
  assumes "keyed ident (accounts s)" and "lookup (accounts s) k = Some r" and "disabled r"
  shows "\<exists>r'. lookup (accounts (run cs s)) k = Some r' \<and> scoped r' = scoped r \<and> disabled r'"
  using assms unfolding run_def
proof (induction cs arbitrary: s r)
  case (Cons c cs)
  obtain r1 where r1: "lookup (accounts (call c s)) k = Some r1" "scoped r1 = scoped r" "disabled r1"
    using call_record [OF Cons.prems(1,2), of c] Cons.prems(3) by blast
  from Cons.IH [OF call_keyed [OF Cons.prems(1)] r1(1) r1(3)] r1(2) show ?case by simp
qed simp

text \<open>What a call answers with was in scope and enabled, and is what the cloud now holds.\<close>

lemma rotate_returns:
  assumes "keyed ident (accounts s)" and "rotate i s = (Inr m, s')"
  shows "\<exists>k r. lookup (accounts s') k = Some r \<and> m = view s' r \<and>
    scope_match (cloud_scope s) (scoped r) \<and> \<not> disabled r"
  using rotate_effect [OF assms] by (auto simp: replaced_def)

lemma retire_returns:
  assumes "keyed ident (accounts s)" and "retire i s = (Inr m, s')"
  shows "\<exists>k r. lookup (accounts s') k = Some r \<and> m = view s' r \<and>
    scope_match (cloud_scope s) (scoped r) \<and> disabled r"
  using retire_effect [OF assms] by (auto simp: replaced_def)

lemma discovered:
  assumes "distinct (keys (accounts s))" and "discover s = (Inr ms, s')"
  shows "s' = s \<and> (m \<in> set ms \<longleftrightarrow> (\<exists>k r. lookup (accounts s) k = Some r \<and> \<not> disabled r \<and>
    scope_match (cloud_scope s) (scoped r) \<and> m = view s r))"
proof -
  let ?P = "\<lambda>r. \<not> disabled r \<and> scope_match (cloud_scope s) (scoped r)"
  from assms(2) have "s' = s \<and> ms = map (view s) (filter ?P (map snd (accounts s)))"
    by (auto simp: discover_view)
  then have s': "s' = s" and ms: "set ms = view s ` {r \<in> snd ` set (accounts s). ?P r}"
    by simp_all
  have "r \<in> snd ` set (accounts s) \<longleftrightarrow> (\<exists>k. lookup (accounts s) k = Some r)" for r
    using lookup_in_set [OF assms(1)] by force
  then show ?thesis unfolding ms s' by blast
qed

text \<open>Once retired, an identity is discovered by nobody, whatever is called in between.\<close>

lemma retired_undiscovered:
  assumes ok: "keyed ident (accounts s)" "distinct (keys (accounts s))"
    and ret: "retire i s = (Inr m, s')"
    and dis: "discover (run cs s') = (Inr ms, s'')" and m': "m' \<in> set ms"
  shows "pb_provider_id (mi_provider m') \<noteq> pb_provider_id (mi_provider m)"
proof
  assume eq: "pb_provider_id (mi_provider m') = pb_provider_id (mi_provider m)"
  have s': "s' = call (RetireCall i) s" using ret by simp
  have ok': "keyed ident (accounts s')" "distinct (keys (accounts s'))"
    unfolding s' by (rule call_keyed [OF ok(1)], rule call_distinct [OF ok])
  obtain k r where r: "lookup (accounts s') k = Some r" "m = view s' r" "disabled r"
    using retire_returns [OF ok(1) ret] by blast
  obtain r1 where r1: "lookup (accounts (run cs s')) k = Some r1" "disabled r1"
    using run_disabled [OF ok'(1) r(1,3)] by blast
  obtain k2 r2 where r2: "lookup (accounts (run cs s')) k2 = Some r2" "\<not> disabled r2" "m' = view (run cs s') r2"
    using discovered [OF run_distinct [OF ok'] dis] m' by blast
  have "k2 = k"
    using eq keyedD [OF ok'(1) r(1)] keyedD [OF run_keyed [OF ok'(1)] r2(1)]
    by (simp add: r(2) r2(3) view_binding)
  with r1 r2 show False by simp
qed

end

section \<open>The simulators keep the contract\<close>

lemma aws_name_lookup:
  "aws_user_by_name s name = Inr user \<longleftrightarrow> lookup (aw_users s) name = Some user"
  by (simp add: aws_user_by_name_def split: option.splits)

lemma azure_app_lookup:
  "azure_app_by_id s i = Inr app \<longleftrightarrow> lookup (az_apps s) (pb_provider_id (mi_provider i)) = Some app"
  by (simp add: azure_app_by_id_def Let_def split: option.splits)

lemma gcp_account_lookup:
  "gcp_account_by_id s i = Inr acct \<longleftrightarrow> lookup (gc_accounts s) (pb_provider_id (mi_provider i)) = Some acct"
  by (simp add: gcp_account_by_id_def Let_def split: option.splits)

lemma aws_rotated_fixed [simp]:
  "iu_name (aws_rotated_user s u) = iu_name u" "iu_disabled (aws_rotated_user s u) = iu_disabled u"
  by (simp_all add: aws_rotated_user_def)

lemma azure_rotated_fixed [simp]:
  "ap_object_id (azure_rotated_app s a) = ap_object_id a"
  "ap_display_name (azure_rotated_app s a) = ap_display_name a"
  "ap_disabled (azure_rotated_app s a) = ap_disabled a"
  by (simp_all add: azure_rotated_app_def)

lemma aws_disabled_fixed:
  "iu_name (u\<lparr>iu_disabled := True\<rparr>) = iu_name u" "iu_disabled (u\<lparr>iu_disabled := True\<rparr>)"
  by simp_all

lemma azure_disabled_fixed:
  "ap_object_id (a\<lparr>ap_disabled := True\<rparr>) = ap_object_id a"
  "ap_display_name (a\<lparr>ap_disabled := True\<rparr>) = ap_display_name a" "ap_disabled (a\<lparr>ap_disabled := True\<rparr>)"
  by simp_all

lemma gcp_disabled_fixed:
  "sa_unique_id (a\<lparr>sa_disabled := True\<rparr>) = sa_unique_id a"
  "sa_email (a\<lparr>sa_disabled := True\<rparr>) = sa_email a" "sa_disabled (a\<lparr>sa_disabled := True\<rparr>)"
  by simp_all

lemma gcp_rotated_fixed [simp]:
  "sa_unique_id (gcp_rotated_account s a) = sa_unique_id a" "sa_email (gcp_rotated_account s a) = sa_email a"
  "sa_disabled (gcp_rotated_account s a) = sa_disabled a"
  by (simp_all add: gcp_rotated_account_def Let_def)

lemma aws_rotate_ok:
  assumes "aws_rotate i s = (Inr m, s')"
  obtains u u' where "lookup (aw_users s) (aws_name i) = Some u" and "scope_match (aw_scope s) (aws_name i)"
    and "\<not> iu_disabled u"
    and "aw_users s' = put (iu_name u) u' (aw_users s)"
    and "aw_scope s' = aw_scope s" and "m = aws_identity s' u'"
    and "u' = aws_rotated_user (s\<lparr>aw_seq := aw_seq s + 1\<rparr>) u"
  using assms by (auto simp: aws_rotate_def Let_def aws_name_lookup split: if_splits sum.splits)

lemma aws_retire_ok:
  assumes "aws_retire i s = (Inr m, s')"
  obtains u u' where "lookup (aw_users s) (aws_name i) = Some u" and "scope_match (aw_scope s) (aws_name i)"
    and "aw_users s' = put (iu_name u) u' (aw_users s)"
    and "aw_scope s' = aw_scope s" and "m = aws_identity s' u'"
    and "u' = u\<lparr>iu_disabled := True\<rparr>"
  using assms by (auto simp: aws_retire_def Let_def aws_name_lookup split: if_splits sum.splits)

lemma azure_rotate_ok:
  assumes "azure_rotate i s = (Inr m, s')"
  obtains a a' where "lookup (az_apps s) (pb_provider_id (mi_provider i)) = Some a"
    and "scope_match (az_scope s) (ap_display_name a)" and "\<not> ap_disabled a"
    and "az_apps s' = put (ap_object_id a) a' (az_apps s)"
    and "az_scope s' = az_scope s" and "m = azure_identity s' a'"
    and "a' = azure_rotated_app (s\<lparr>az_seq := az_seq s + 1\<rparr>) a"
  using assms by (auto simp: azure_rotate_def Let_def azure_app_lookup split: if_splits sum.splits)

lemma azure_retire_ok:
  assumes "azure_retire i s = (Inr m, s')"
  obtains a a' where "lookup (az_apps s) (pb_provider_id (mi_provider i)) = Some a"
    and "scope_match (az_scope s) (ap_display_name a)"
    and "az_apps s' = put (ap_object_id a) a' (az_apps s)"
    and "az_scope s' = az_scope s" and "m = azure_identity s' a'"
    and "a' = a\<lparr>ap_disabled := True\<rparr>"
  using assms by (auto simp: azure_retire_def Let_def azure_app_lookup split: if_splits sum.splits)

lemma gcp_rotate_ok:
  assumes "gcp_rotate i s = (Inr m, s')"
  obtains a a' where "lookup (gc_accounts s) (pb_provider_id (mi_provider i)) = Some a"
    and "scope_match (gc_scope s) (sa_email a)" and "\<not> sa_disabled a"
    and "gc_accounts s' =
      put (sa_unique_id a) a' (gc_accounts s)"
    and "gc_scope s' = gc_scope s" and "m = gcp_identity s' a'"
    and "a' = gcp_rotated_account (s\<lparr>gc_seq := gc_seq s + 1\<rparr>) a"
  using assms by (auto simp: gcp_rotate_def Let_def gcp_account_lookup split: if_splits sum.splits)

lemma gcp_retire_ok:
  assumes "gcp_retire i s = (Inr m, s')"
  obtains a a' where "lookup (gc_accounts s) (pb_provider_id (mi_provider i)) = Some a"
    and "scope_match (gc_scope s) (sa_email a)"
    and "gc_accounts s' = put (sa_unique_id a) a' (gc_accounts s)"
    and "gc_scope s' = gc_scope s" and "m = gcp_identity s' a'"
    and "a' = a\<lparr>sa_disabled := True\<rparr>"
  using assms by (auto simp: gcp_retire_def Let_def gcp_account_lookup split: if_splits sum.splits)

lemma aws_live_fun:
  "aws_live s = (\<lambda>r. \<not> iu_disabled r \<and> scope_match (aw_scope s) (iu_name r))"
  by (auto simp: aws_live_def)

lemma azure_live_fun:
  "azure_live s = (\<lambda>r. \<not> ap_disabled r \<and> scope_match (az_scope s) (ap_display_name r))"
  by (auto simp: azure_live_def)

lemma gcp_live_fun:
  "gcp_live s = (\<lambda>r. \<not> sa_disabled r \<and> scope_match (gc_scope s) (sa_email r))"
  by (auto simp: gcp_live_def)

lemmas cloud_errors = aws_rotate_def aws_retire_def azure_rotate_def azure_retire_def
  gcp_rotate_def gcp_retire_def

lemma aws_replacedI:
  assumes "keyed iu_name (aw_users s)" and "lookup (aw_users s) (aws_name i) = Some u"
    and "scope_match (aw_scope s) (aws_name i)" and "iu_name u' = iu_name u"
    and "aw_users s' = put (iu_name u) u' (aw_users s)"
  shows "replaced iu_name iu_name (aw_scope s) (aw_users s) (aw_users s') u u'"
proof -
  have "scope_match (aw_scope s) (iu_name u)" using assms(3) keyedD [OF assms(1,2)] by simp
  then show ?thesis using assms by (auto intro: replacedI)
qed

interpretation aws_cloud: simulated_cloud aws_rotate aws_retire aws_discover aw_users iu_name iu_name
  iu_disabled aw_scope aws_identity
proof unfold_locales
  fix i s m s' e
  show "keyed iu_name (aw_users s) \<Longrightarrow> aws_rotate i s = (Inr m, s') \<Longrightarrow>
      aw_scope s' = aw_scope s \<and>
      (\<exists>r r'. replaced iu_name iu_name (aw_scope s) (aw_users s) (aw_users s') r r' \<and>
         \<not> iu_disabled r \<and> \<not> iu_disabled r' \<and> m = aws_identity s' r')"
    by (elim aws_rotate_ok) (metis (no_types, lifting) aws_replacedI aws_rotated_fixed)
  show "keyed iu_name (aw_users s) \<Longrightarrow> aws_retire i s = (Inr m, s') \<Longrightarrow>
      aw_scope s' = aw_scope s \<and>
      (\<exists>r r'. replaced iu_name iu_name (aw_scope s) (aw_users s) (aw_users s') r r' \<and>
         iu_disabled r' \<and> m = aws_identity s' r')"
    by (elim aws_retire_ok) (metis (no_types, lifting) aws_replacedI aws_disabled_fixed)
  show "aws_rotate i s = (Inl e, s') \<Longrightarrow> s' = s" "aws_retire i s = (Inl e, s') \<Longrightarrow> s' = s"
    by (auto simp: cloud_errors Let_def split: if_splits sum.splits)
qed (simp_all add: aws_discover_def aws_live_fun aws_identity_def)

interpretation azure_cloud: simulated_cloud azure_rotate azure_retire azure_discover az_apps ap_object_id
  ap_display_name ap_disabled az_scope azure_identity
proof unfold_locales
  fix i s m s' e
  show "keyed ap_object_id (az_apps s) \<Longrightarrow> azure_rotate i s = (Inr m, s') \<Longrightarrow>
      az_scope s' = az_scope s \<and>
      (\<exists>r r'. replaced ap_object_id ap_display_name (az_scope s) (az_apps s) (az_apps s') r r' \<and>
         \<not> ap_disabled r \<and> \<not> ap_disabled r' \<and> m = azure_identity s' r')"
    by (elim azure_rotate_ok) (metis (no_types, lifting) replacedI keyedD azure_rotated_fixed)
  show "keyed ap_object_id (az_apps s) \<Longrightarrow> azure_retire i s = (Inr m, s') \<Longrightarrow>
      az_scope s' = az_scope s \<and>
      (\<exists>r r'. replaced ap_object_id ap_display_name (az_scope s) (az_apps s) (az_apps s') r r' \<and>
         ap_disabled r' \<and> m = azure_identity s' r')"
    by (elim azure_retire_ok) (metis (no_types, lifting) replacedI keyedD azure_disabled_fixed)
  show "azure_rotate i s = (Inl e, s') \<Longrightarrow> s' = s" "azure_retire i s = (Inl e, s') \<Longrightarrow> s' = s"
    by (auto simp: cloud_errors Let_def split: if_splits sum.splits)
qed (simp_all add: azure_discover_def azure_live_fun azure_identity_def)

interpretation gcp_cloud: simulated_cloud gcp_rotate gcp_retire gcp_discover gc_accounts sa_unique_id
  sa_email sa_disabled gc_scope gcp_identity
proof unfold_locales
  fix i s m s' e
  show "keyed sa_unique_id (gc_accounts s) \<Longrightarrow> gcp_rotate i s = (Inr m, s') \<Longrightarrow>
      gc_scope s' = gc_scope s \<and>
      (\<exists>r r'. replaced sa_unique_id sa_email (gc_scope s) (gc_accounts s) (gc_accounts s') r r' \<and>
         \<not> sa_disabled r \<and> \<not> sa_disabled r' \<and> m = gcp_identity s' r')"
    by (elim gcp_rotate_ok) (metis (no_types, lifting) replacedI keyedD gcp_rotated_fixed)
  show "keyed sa_unique_id (gc_accounts s) \<Longrightarrow> gcp_retire i s = (Inr m, s') \<Longrightarrow>
      gc_scope s' = gc_scope s \<and>
      (\<exists>r r'. replaced sa_unique_id sa_email (gc_scope s) (gc_accounts s) (gc_accounts s') r r' \<and>
         sa_disabled r' \<and> m = gcp_identity s' r')"
    by (elim gcp_retire_ok) (metis (no_types, lifting) replacedI keyedD gcp_disabled_fixed)
  show "gcp_rotate i s = (Inl e, s') \<Longrightarrow> s' = s" "gcp_retire i s = (Inl e, s') \<Longrightarrow> s' = s"
    by (auto simp: cloud_errors Let_def split: if_splits sum.splits)
qed (simp_all add: gcp_discover_def gcp_live_fun gcp_identity_def)

end
