(* ===== verification/MultiCloud.thy ===== *)
theory MultiCloud
  imports CloudFacts
begin

text \<open>
  The composite provider (internal/provider: multicloud.go, vault.go): discovery fanned out over the
  sub-adapters, mutations, plans, provisioning and vault access routed by the provider an identity
  is bound to. A sub-adapter is a record of the CloudAdapter methods with an option for every
  interface the sources test with a type assertion. \<open>multi_adapter\<close> is the composite seen as the
  adapter of the control plane.
\<close>

section \<open>Sub-adapters\<close>

record 'w cloud_adapter =
  ca_kind :: string
  ca_discover :: "(machine_identity list result, 'w) act"
  ca_rotate :: "machine_identity \<Rightarrow> (machine_identity result, 'w) act"
  ca_retire :: "machine_identity \<Rightarrow> (machine_identity result, 'w) act"
  ca_plan_rotate :: "(string \<Rightarrow> (operations result, 'w) act) option"
  ca_plan_retire :: "(string \<Rightarrow> (operations result, 'w) act) option"
  ca_plan_rotate_identity :: "(machine_identity \<Rightarrow> (operations result, 'w) act) option"
  ca_plan_retire_identity :: "(machine_identity \<Rightarrow> (operations result, 'w) act) option"
  ca_create :: "(string \<Rightarrow> (provision_response result, 'w) act) option"
  ca_vault :: "'w vault option"
  ca_secret :: "(string, 'w) act option"

text \<open>\<open>None\<close> in the argument list is a nil adapter.\<close>

fun check_adapters :: "string list \<Rightarrow> 'w cloud_adapter option list \<Rightarrow> string list result" where
  "check_adapters seen [] = Inr seen"
| "check_adapters seen (None # as) = Inl (plain_error ''multi-cloud: a provider adapter is nil'')"
| "check_adapters seen (Some a # as) =
     (let kind = trim_space (ca_kind a) in
      if kind = [] then Inl (plain_error ''multi-cloud: a provider adapter has an empty Kind'')
      else if List.member seen kind then
        Inl (plain_error (''multi-cloud: duplicate provider kind '' @ quoted kind))
      else check_adapters (kind # seen) as)"

definition NewMultiProvider :: "'w cloud_adapter option list \<Rightarrow> 'w cloud_adapter list result" where
  "NewMultiProvider adapters =
     (case check_adapters [] adapters of
        Inl e \<Rightarrow> Inl e
      | Inr seen \<Rightarrow>
          if seen = [] then Inl (plain_error ''multi-cloud: at least one provider adapter is required'')
          else Inr (map the adapters))"

definition Kinds :: "'w cloud_adapter list \<Rightarrow> string list" where
  "Kinds m = sort (map ca_kind m)"

section \<open>Discovery\<close>

definition binding_key :: "machine_identity \<Rightarrow> string" where
  "binding_key i = pb_provider (mi_provider i) @ ''/'' @ pb_provider_id (mi_provider i)"

fun keep_unseen :: "string list \<Rightarrow> machine_identity list \<Rightarrow> string list \<times> machine_identity list" where
  "keep_unseen seen [] = (seen, [])"
| "keep_unseen seen (i # is) =
     (if List.member seen (binding_key i) then keep_unseen seen is
      else (case keep_unseen (binding_key i # seen) is of (seen', js) \<Rightarrow> (seen', i # js)))"

fun discover_from ::
  "string list \<Rightarrow> 'w cloud_adapter list \<Rightarrow> 'w \<Rightarrow> machine_identity list result \<times> 'w" where
  "discover_from seen [] w = (Inr [], w)"
| "discover_from seen (a # as) w =
     (case ca_discover a w of
        (Inl e, w1) \<Rightarrow> (Inl (GoError (err_wraps e) (ca_kind a @ '': discover: '' @ err_text e)), w1)
      | (Inr view, w1) \<Rightarrow>
          (case keep_unseen seen view of
             (seen', is) \<Rightarrow>
               (case discover_from seen' as w1 of
                  (Inl e, w2) \<Rightarrow> (Inl e, w2)
                | (Inr js, w2) \<Rightarrow> (Inr (is @ js), w2))))"

definition multi_discover :: "'w cloud_adapter list \<Rightarrow> 'w \<Rightarrow> machine_identity list result \<times> 'w" where
  "multi_discover m w = discover_from [] m w"

section \<open>Routing\<close>

definition adapterFor :: "'w cloud_adapter list \<Rightarrow> string \<Rightarrow> 'w cloud_adapter result" where
  "adapterFor m providerKind =
     (case find (\<lambda>a. ca_kind a = trim_space providerKind) m of
        None \<Rightarrow> Inl (plain_error (''multi-cloud: no adapter governs provider '' @ quoted providerKind))
      | Some a \<Rightarrow> Inr a)"

definition multi_rotate ::
  "'w cloud_adapter list \<Rightarrow> machine_identity \<Rightarrow> 'w \<Rightarrow> machine_identity result \<times> 'w" where
  "multi_rotate m identity w =
     (case adapterFor m (pb_provider (mi_provider identity)) of
        Inl e \<Rightarrow> (Inl e, w)
      | Inr a \<Rightarrow> ca_rotate a identity w)"

definition multi_retire ::
  "'w cloud_adapter list \<Rightarrow> machine_identity \<Rightarrow> 'w \<Rightarrow> machine_identity result \<times> 'w" where
  "multi_retire m identity w =
     (case adapterFor m (pb_provider (mi_provider identity)) of
        Inl e \<Rightarrow> (Inl e, w)
      | Inr a \<Rightarrow> ca_retire a identity w)"

definition genericPlan :: "string \<Rightarrow> bool \<Rightarrow> planned_operation list" where
  "genericPlan identity rotate' =
     (if rotate' then
        [planned ''lifecycle.create_credential'' identity
           ''Create a replacement credential without applying provider changes.'' True False,
         planned ''lifecycle.verify_credential'' identity
           ''Verify the replacement credential before it becomes current.'' True False,
         planned ''lifecycle.revoke_previous_credential'' identity
           ''Revoke the previous credential after successful verification.'' False True]
      else
        [planned ''lifecycle.revoke_credential'' identity
           ''Revoke the governed credential without applying provider changes.'' False True,
         planned ''lifecycle.mark_retired'' identity
           ''Mark the identity retired after provider decommissioning succeeds.'' False True])"

text \<open>The loop of PlanRotate and PlanRetire over the sub-adapters that can plan.\<close>

fun first_plan ::
  "go_error option \<Rightarrow> planned_operation list \<Rightarrow> (string \<Rightarrow> (operations result, 'w) act) option list
     \<Rightarrow> string \<Rightarrow> 'w \<Rightarrow> operations result \<times> 'w" where
  "first_plan lastErr generic [] i w =
     ((case lastErr of Some e \<Rightarrow> Inl e | None \<Rightarrow> Inr (Some generic)), w)"
| "first_plan lastErr generic (None # ps) i w = first_plan lastErr generic ps i w"
| "first_plan lastErr generic (Some p # ps) i w =
     (case p i w of
        (Inr operations, w1) \<Rightarrow> (Inr operations, w1)
      | (Inl e, w1) \<Rightarrow> first_plan (Some e) generic ps i w1)"

definition multi_plan_rotate :: "'w cloud_adapter list \<Rightarrow> string \<Rightarrow> 'w \<Rightarrow> operations result \<times> 'w" where
  "multi_plan_rotate m i = first_plan None (genericPlan i True) (map ca_plan_rotate m) i"

definition multi_plan_retire :: "'w cloud_adapter list \<Rightarrow> string \<Rightarrow> 'w \<Rightarrow> operations result \<times> 'w" where
  "multi_plan_retire m i = first_plan None (genericPlan i False) (map ca_plan_retire m) i"

definition multi_plan_rotate_identity ::
  "'w cloud_adapter list \<Rightarrow> machine_identity \<Rightarrow> 'w \<Rightarrow> operations result \<times> 'w" where
  "multi_plan_rotate_identity m identity w =
     (case adapterFor m (pb_provider (mi_provider identity)) of
        Inl e \<Rightarrow> (Inl e, w)
      | Inr a \<Rightarrow>
          (case ca_plan_rotate_identity a of
             Some p \<Rightarrow> p identity w
           | None \<Rightarrow>
               (case ca_plan_rotate a of
                  Some p \<Rightarrow> p (provider_id_or_name identity) w
                | None \<Rightarrow> (Inr (Some (genericPlan (mi_name identity) True)), w))))"

definition multi_plan_retire_identity ::
  "'w cloud_adapter list \<Rightarrow> machine_identity \<Rightarrow> 'w \<Rightarrow> operations result \<times> 'w" where
  "multi_plan_retire_identity m identity w =
     (case adapterFor m (pb_provider (mi_provider identity)) of
        Inl e \<Rightarrow> (Inl e, w)
      | Inr a \<Rightarrow>
          (case ca_plan_retire_identity a of
             Some p \<Rightarrow> p identity w
           | None \<Rightarrow>
               (case ca_plan_retire a of
                  Some p \<Rightarrow> p (provider_id_or_name identity) w
                | None \<Rightarrow> (Inr (Some (genericPlan (mi_name identity) False)), w))))"

definition multi_create ::
  "'w cloud_adapter list \<Rightarrow> string \<Rightarrow> string \<Rightarrow> 'w \<Rightarrow> provision_response result \<times> 'w" where
  "multi_create m providerKind name w =
     (case adapterFor m providerKind of
        Inl e \<Rightarrow> (Inl e, w)
      | Inr a \<Rightarrow>
          (case ca_create a of
             None \<Rightarrow> (Inl (sentinel_error ErrCreateUnsupported), w)
           | Some create \<Rightarrow> create name w))"

section \<open>Vaults\<close>

definition vaultFor :: "'w cloud_adapter list \<Rightarrow> machine_identity \<Rightarrow> 'w vault result" where
  "vaultFor m identity =
     (case find (\<lambda>a. ca_kind a = pb_provider (mi_provider identity)) m of
        None \<Rightarrow> Inl (sentinel_error ErrVaultUnsupported)
      | Some a \<Rightarrow>
          (case ca_vault a of
             None \<Rightarrow> Inl (sentinel_error ErrVaultUnsupported)
           | Some vault \<Rightarrow> Inr vault))"

definition multi_vault :: "'w cloud_adapter list \<Rightarrow> 'w vault" where
  "multi_vault m =
     \<lparr>va_store = (\<lambda>identity keyID secret w.
        (case vaultFor m identity of Inl e \<Rightarrow> (Inl e, w) | Inr v \<Rightarrow> va_store v identity keyID secret w)),
      va_read = (\<lambda>identity keyID version w.
        (case vaultFor m identity of Inl e \<Rightarrow> (Inl e, w) | Inr v \<Rightarrow> va_read v identity keyID version w)),
      va_revoke = (\<lambda>identity keyID w.
        (case vaultFor m identity of Inl e \<Rightarrow> (Inl e, w) | Inr v \<Rightarrow> va_revoke v identity keyID w))\<rparr>"

definition multi_secret :: "'w cloud_adapter list \<Rightarrow> string \<Rightarrow> (string, 'w) act" where
  "multi_secret m provider w =
     (case find (\<lambda>a. ca_kind a = provider) m of
        None \<Rightarrow> ([], w)
      | Some a \<Rightarrow> (case ca_secret a of None \<Rightarrow> ([], w) | Some consume \<Rightarrow> consume w))"

text \<open>The composite as the control plane's adapter: it has every optional method.\<close>

definition multi_adapter :: "'w cloud_adapter list \<Rightarrow> 'w adapter" where
  "multi_adapter m =
     \<lparr>ad_kind = ''multi-cloud'', ad_discover = multi_discover m, ad_rotate = multi_rotate m,
      ad_retire = multi_retire m,
      ad_identity_planner = Some \<lparr>pn_rotate = multi_plan_rotate_identity m,
        pn_retire = multi_plan_retire_identity m\<rparr>,
      ad_planner = Some \<lparr>pn_rotate = multi_plan_rotate m, pn_retire = multi_plan_retire m\<rparr>,
      ad_create = Some (multi_create m), ad_vault = Some (multi_vault m),
      ad_secretor = Some (multi_secret m)\<rparr>"

end
