(* ===== verification/DemoClouds.thy ===== *)
theory DemoClouds
  imports MultiCloud
begin

text \<open>
  Properties of the composite provider, and the demo composition of cmd/mutandae/main.go: the three
  simulators behind one composite. The world of the composite is the record of the three simulator
  states, and each simulator's methods act on its own field.
\<close>

section \<open>Routing\<close>

lemma check_adapters_ok:
  "check_adapters seen as = Inr seen' \<Longrightarrow> distinct seen \<Longrightarrow>
     None \<notin> set as \<and> distinct seen' \<and>
     seen' = rev (map (\<lambda>a. trim_space (ca_kind (the a))) as) @ seen"
proof (induction seen as rule: check_adapters.induct)
  case (3 seen a as)
  then show ?case by (auto simp: Let_def disjoint_iff split: if_splits)
qed auto

lemma NewMultiProvider_kinds:
  assumes "NewMultiProvider as = Inr m"
  shows "distinct (map (\<lambda>a. trim_space (ca_kind a)) m) \<and> m \<noteq> [] \<and> as = map Some m"
proof -
  obtain seen where s: "check_adapters [] as = Inr seen" "seen \<noteq> []" "m = map the as"
    using assms by (auto simp: NewMultiProvider_def split: sum.splits if_splits)
  have "distinct ([] :: string list)" by simp
  from check_adapters_ok [OF s(1) this] have *: "None \<notin> set as \<and> distinct seen \<and>
    seen = rev (map (\<lambda>a. trim_space (ca_kind (the a))) as)" unfolding append_Nil2 .
  then have n: "None \<notin> set as" and d: "distinct seen"
    and e: "seen = rev (map (\<lambda>a. trim_space (ca_kind (the a))) as)" by blast+
  have "map (\<lambda>a. trim_space (ca_kind a)) m = rev seen" by (simp add: s(3) e comp_def)
  moreover have "as = map Some m" using n unfolding s(3) by (induction as) auto
  moreover have "as \<noteq> []" using s(2) e by auto
  ultimately show ?thesis using d by auto
qed

lemma find_only:
  assumes "distinct (map f xs)" and "x \<in> set xs" and "\<And>y. P y \<Longrightarrow> f y = f x" and "P x"
  shows "find P xs = Some x"
  using assms
proof (induction xs)
  case (Cons y ys)
  show ?case
  proof (cases "P y")
    case True
    then have "f y = f x" by (rule Cons.prems(3))
    with Cons.prems(1,2) have "y = x" by (auto simp: image_iff)
    with True show ?thesis by simp
  next
    case False
    with Cons.prems(2,4) have "x \<in> set ys" by auto
    from Cons.IH [OF _ this Cons.prems(3,4)] Cons.prems(1) False show ?thesis by simp
  qed
qed simp

lemma trim_kind_find:
  assumes "distinct (map (\<lambda>a. trim_space (ca_kind a)) m)" and "a \<in> set m" and "ca_kind a = k"
  shows "find (\<lambda>a. ca_kind a = k) m = Some a"
  using find_only [OF assms(1,2), of "\<lambda>a. ca_kind a = k"] assms(3) by simp

text \<open>
  The composite that NewMultiProvider builds sends every mutation, plan and provisioning of an
  identity to the one sub-adapter whose kind is the identity's provider, and to it alone: the
  outcome and the change of the world are exactly that adapter's.
\<close>
theorem multi_routes:
  assumes "NewMultiProvider as = Inr m" and "a \<in> set m"
    and "ca_kind a = trim_space (pb_provider (mi_provider i))"
  shows "multi_rotate m i = ca_rotate a i \<and> multi_retire m i = ca_retire a i \<and>
     (\<forall>p. ca_plan_rotate_identity a = Some p \<longrightarrow> multi_plan_rotate_identity m i = p i) \<and>
     (\<forall>p. ca_plan_retire_identity a = Some p \<longrightarrow> multi_plan_retire_identity m i = p i) \<and>
     (\<forall>c name. ca_create a = Some c \<longrightarrow> multi_create m (pb_provider (mi_provider i)) name = c name)"
proof -
  have "find (\<lambda>a. ca_kind a = trim_space (pb_provider (mi_provider i))) m = Some a"
    using trim_kind_find NewMultiProvider_kinds [OF assms(1)] assms(2,3) by blast
  then have "adapterFor m (pb_provider (mi_provider i)) = Inr a" by (simp add: adapterFor_def)
  then show ?thesis
    by (auto simp: multi_rotate_def multi_retire_def multi_plan_rotate_identity_def
        multi_plan_retire_identity_def multi_create_def fun_eq_iff)
qed

text \<open>
  An identity whose provider no sub-adapter has as its kind is refused by every routed operation,
  and nothing is called; its vault is reported as unsupported.
\<close>
theorem multi_unrouted:
  assumes "trim_space (pb_provider (mi_provider i)) \<notin> set (map ca_kind m)"
  shows "(\<exists>e. multi_rotate m i w = (Inl e, w) \<and> multi_retire m i w = (Inl e, w) \<and>
           multi_plan_rotate_identity m i w = (Inl e, w) \<and> multi_plan_retire_identity m i w = (Inl e, w) \<and>
           multi_create m (pb_provider (mi_provider i)) name w = (Inl e, w) \<and>
           \<not> errors_is e ErrCreateUnsupported)"
proof -
  have "find (\<lambda>a. ca_kind a = trim_space (pb_provider (mi_provider i))) m = None"
    unfolding find_None_iff using assms by (force simp: image_iff)
  then show ?thesis
    by (simp add: adapterFor_def multi_rotate_def multi_retire_def multi_plan_rotate_identity_def
        multi_plan_retire_identity_def multi_create_def)
qed

section \<open>Discovery\<close>

text \<open>All the views, adapter after adapter, before any deduplication.\<close>

fun all_views :: "'w cloud_adapter list \<Rightarrow> 'w \<Rightarrow> machine_identity list result \<times> 'w" where
  "all_views [] w = (Inr [], w)"
| "all_views (a # as) w =
     (case ca_discover a w of
        (Inl e, w1) \<Rightarrow> (Inl e, w1)
      | (Inr view, w1) \<Rightarrow>
          (case all_views as w1 of (Inl e, w2) \<Rightarrow> (Inl e, w2) | (Inr js, w2) \<Rightarrow> (Inr (view @ js), w2)))"

text \<open>The first element of every key, in order: what the seen-map of Discover is to keep.\<close>

fun first_of_key :: "('a \<Rightarrow> 'k) \<Rightarrow> 'a list \<Rightarrow> 'a list" where
  "first_of_key f [] = []"
| "first_of_key f (x # xs) = x # first_of_key f (filter (\<lambda>y. f y \<noteq> f x) xs)"

lemma first_of_key_unseen:
  "keep_unseen seen xs =
     (rev (map binding_key (first_of_key binding_key (filter (\<lambda>i. binding_key i \<notin> set seen) xs))) @ seen,
      first_of_key binding_key (filter (\<lambda>i. binding_key i \<notin> set seen) xs))"
proof (induction seen xs rule: keep_unseen.induct)
  case (2 seen i xs)
  show ?case
  proof (cases "binding_key i \<in> set seen")
    case True
    with 2 show ?thesis by simp
  next
    case False
    have f: "filter (\<lambda>j. binding_key j \<noteq> binding_key i) (filter (\<lambda>j. binding_key j \<notin> set seen) xs) =
        filter (\<lambda>j. binding_key j \<notin> set (binding_key i # seen)) xs"
      unfolding filter_filter by (rule filter_cong) auto
    have "keep_unseen (binding_key i # seen) xs =
      (rev (map binding_key (first_of_key binding_key
          (filter (\<lambda>j. binding_key j \<notin> set (binding_key i # seen)) xs))) @ binding_key i # seen,
       first_of_key binding_key (filter (\<lambda>j. binding_key j \<notin> set (binding_key i # seen)) xs))"
      using "2.IH"(2) False by simp
    with False f show ?thesis by simp
  qed
qed simp

lemma first_of_key_keys: "f ` set (first_of_key f xs) = f ` set xs"
proof (induction f xs rule: first_of_key.induct)
  case (2 f x xs)
  have "f ` set (x # xs) = insert (f x) (f ` set (filter (\<lambda>y. f y \<noteq> f x) xs))" by auto
  with 2 show ?case by simp
qed simp

lemma first_of_key_subset: "set (first_of_key f xs) \<subseteq> set xs"
  by (induction f xs rule: first_of_key.induct) auto

lemma first_of_key_distinct: "distinct (map f (first_of_key f xs))"
proof (induction f xs rule: first_of_key.induct)
  case (2 f x xs)
  have "f x \<notin> f ` set (first_of_key f (filter (\<lambda>y. f y \<noteq> f x) xs))"
    unfolding first_of_key_keys by auto
  with 2 show ?case by simp
qed simp

lemma first_of_key_filter:
  "first_of_key f (filter (\<lambda>y. f y \<notin> K) xs) = filter (\<lambda>y. f y \<notin> K) (first_of_key f xs)"
proof (induction f xs arbitrary: K rule: first_of_key.induct)
  case (2 f x xs)
  show ?case
  proof (cases "f x \<in> K")
    case True
    have "filter (\<lambda>y. f y \<notin> K) (filter (\<lambda>y. f y \<noteq> f x) xs) = filter (\<lambda>y. f y \<notin> K) xs"
      unfolding filter_filter by (rule filter_cong) (use True in auto)
    with True 2 [of K] show ?thesis by simp
  next
    case False
    have "filter (\<lambda>y. f y \<noteq> f x) (filter (\<lambda>y. f y \<notin> K) xs) = filter (\<lambda>y. f y \<notin> K) (filter (\<lambda>y. f y \<noteq> f x) xs)"
      unfolding filter_filter by (rule filter_cong) auto
    with False 2 [of K] show ?thesis by simp
  qed
qed simp

lemma first_of_key_append:
  "first_of_key f (xs @ ys) = first_of_key f xs @ first_of_key f (filter (\<lambda>y. f y \<notin> f ` set xs) ys)"
proof (induction f xs arbitrary: ys rule: first_of_key.induct)
  case (2 f x xs)
  let ?rest = "filter (\<lambda>y. f y \<noteq> f x) xs"
  have "filter (\<lambda>y. f y \<notin> f ` set ?rest) (filter (\<lambda>y. f y \<noteq> f x) ys) =
      filter (\<lambda>y. f y \<notin> f ` set (x # xs)) ys"
    unfolding filter_filter by (rule filter_cong) auto
  with 2 [of "filter (\<lambda>y. f y \<noteq> f x) ys"] show ?case by simp
qed simp

lemma discover_from_views:
  "discover_from seen as w = (Inr ms, w') \<Longrightarrow> \<exists>vs. all_views as w = (Inr vs, w') \<and>
     ms = first_of_key binding_key (filter (\<lambda>i. binding_key i \<notin> set seen) vs)"
proof (induction seen as w arbitrary: ms w' rule: discover_from.induct)
  case (2 seen a as w)
  from 2(2) obtain view w1 where v: "ca_discover a w = (Inr view, w1)"
    by (auto split: prod.splits sum.splits)
  let ?fresh = "filter (\<lambda>i. binding_key i \<notin> set seen) view"
  let ?is = "first_of_key binding_key ?fresh"
  let ?seen = "rev (map binding_key ?is) @ seen"
  from 2(2) v obtain js where js: "discover_from ?seen as w1 = (Inr js, w')" and ms: "ms = ?is @ js"
    by (auto simp: first_of_key_unseen split: prod.splits sum.splits)
  have k: "(?seen, ?is) = keep_unseen seen view" by (simp add: first_of_key_unseen)
  from 2(1) [OF v [symmetric] refl k js]
  obtain vs where vs: "all_views as w1 = (Inr vs, w')"
    and jv: "js = first_of_key binding_key (filter (\<lambda>i. binding_key i \<notin> set ?seen) vs)" by blast
  have "filter (\<lambda>i. binding_key i \<notin> set ?seen) vs =
      filter (\<lambda>y. binding_key y \<notin> binding_key ` set ?fresh) (filter (\<lambda>i. binding_key i \<notin> set seen) vs)"
    unfolding filter_filter set_append set_rev set_map first_of_key_keys by (rule filter_cong) auto
  then have "ms = first_of_key binding_key (filter (\<lambda>i. binding_key i \<notin> set seen) (view @ vs))"
    unfolding ms jv by (simp add: first_of_key_append)
  with v vs show ?case by simp
qed simp

lemma multi_discover_views:
  assumes "multi_discover m w = (Inr ms, w')"
  obtains vs where "all_views m w = (Inr vs, w')" and "ms = first_of_key binding_key vs" and "set ms \<subseteq> set vs"
proof -
  from assms have "discover_from [] m w = (Inr ms, w')" by (simp add: multi_discover_def)
  from discover_from_views [OF this] obtain vs
    where v: "all_views m w = (Inr vs, w')" "ms = first_of_key binding_key vs" by auto
  show thesis by (rule that [OF v]) (simp only: v(2) first_of_key_subset)
qed

text \<open>
  Discovery of the composite is the concatenation of the sub-adapters' views, in their order, with
  only the first identity of every provider and provider id kept: nothing a sub-adapter reports is
  lost, and no two adopted identities share a binding.
\<close>
theorem multi_discover_first:
  assumes "multi_discover m w = (Inr ms, w')"
  shows "\<exists>vs. all_views m w = (Inr vs, w') \<and> ms = first_of_key binding_key vs \<and>
     distinct (map binding_key ms) \<and> binding_key ` set ms = binding_key ` set vs \<and> set ms \<subseteq> set vs"
proof -
  obtain vs where v: "all_views m w = (Inr vs, w')" "ms = first_of_key binding_key vs" "set ms \<subseteq> set vs"
    by (rule multi_discover_views [OF assms])
  have "distinct (map binding_key ms) \<and> binding_key ` set ms = binding_key ` set vs"
    unfolding v(2) by (simp only: first_of_key_distinct first_of_key_keys simp_thms)
  with v show ?thesis by (intro exI [of _ vs] conjI) simp_all
qed

section \<open>The demo composition\<close>

record clouds =
  cl_azure :: azure_simulator
  cl_aws :: aws_simulator
  cl_gcp :: gcp_simulator

definition on_part :: "('w \<Rightarrow> 's) \<Rightarrow> ('s \<Rightarrow> 'w \<Rightarrow> 'w) \<Rightarrow> ('a, 's) act \<Rightarrow> ('a, 'w) act" where
  "on_part get set' f w = (case f (get w) of (a, s) \<Rightarrow> (a, set' s w))"

abbreviation on_azure :: "('a, azure_simulator) act \<Rightarrow> ('a, clouds) act" where
  "on_azure \<equiv> on_part cl_azure (\<lambda>s. cl_azure_update (\<lambda>_. s))"

abbreviation on_aws :: "('a, aws_simulator) act \<Rightarrow> ('a, clouds) act" where
  "on_aws \<equiv> on_part cl_aws (\<lambda>s. cl_aws_update (\<lambda>_. s))"

abbreviation on_gcp :: "('a, gcp_simulator) act \<Rightarrow> ('a, clouds) act" where
  "on_gcp \<equiv> on_part cl_gcp (\<lambda>s. cl_gcp_update (\<lambda>_. s))"

text \<open>The simulators implement the planners, and neither provisioning nor a vault.\<close>

definition azure_adapter :: "clouds cloud_adapter" where
  "azure_adapter = \<lparr>ca_kind = azureKind, ca_discover = on_azure azure_discover,
     ca_rotate = (\<lambda>i. on_azure (azure_rotate i)), ca_retire = (\<lambda>i. on_azure (azure_retire i)),
     ca_plan_rotate = Some (\<lambda>i. on_azure (azure_plan_rotate i)),
     ca_plan_retire = Some (\<lambda>i. on_azure (azure_plan_retire i)),
     ca_plan_rotate_identity = Some (\<lambda>i. on_azure (azure_plan_rotate_identity i)),
     ca_plan_retire_identity = Some (\<lambda>i. on_azure (azure_plan_retire_identity i)),
     ca_create = None, ca_vault = None, ca_secret = None\<rparr>"

definition aws_adapter :: "clouds cloud_adapter" where
  "aws_adapter = \<lparr>ca_kind = awsKind, ca_discover = on_aws aws_discover,
     ca_rotate = (\<lambda>i. on_aws (aws_rotate i)), ca_retire = (\<lambda>i. on_aws (aws_retire i)),
     ca_plan_rotate = Some (\<lambda>i. on_aws (aws_plan_rotate i)),
     ca_plan_retire = Some (\<lambda>i. on_aws (aws_plan_retire i)),
     ca_plan_rotate_identity = Some (\<lambda>i. on_aws (aws_plan_rotate_identity i)),
     ca_plan_retire_identity = Some (\<lambda>i. on_aws (aws_plan_retire_identity i)),
     ca_create = None, ca_vault = None, ca_secret = None\<rparr>"

definition gcp_adapter :: "clouds cloud_adapter" where
  "gcp_adapter = \<lparr>ca_kind = gcpKind, ca_discover = on_gcp gcp_discover,
     ca_rotate = (\<lambda>i. on_gcp (gcp_rotate i)), ca_retire = (\<lambda>i. on_gcp (gcp_retire i)),
     ca_plan_rotate = Some (\<lambda>i. on_gcp (gcp_plan_rotate i)),
     ca_plan_retire = Some (\<lambda>i. on_gcp (gcp_plan_retire i)),
     ca_plan_rotate_identity = Some (\<lambda>i. on_gcp (gcp_plan_rotate_identity i)),
     ca_plan_retire_identity = Some (\<lambda>i. on_gcp (gcp_plan_retire_identity i)),
     ca_create = None, ca_vault = None, ca_secret = None\<rparr>"

definition demo_adapters :: "clouds cloud_adapter list" where
  "demo_adapters = [azure_adapter, aws_adapter, gcp_adapter]"

lemma demo_adapters_ok: "NewMultiProvider (map Some demo_adapters) = Inr demo_adapters"
proof -
  have t: "trim_space azureKind = azureKind" "trim_space awsKind = awsKind" "trim_space gcpKind = gcpKind"
    by code_simp+
  show ?thesis
    by (simp add: NewMultiProvider_def demo_adapters_def azure_adapter_def aws_adapter_def gcp_adapter_def
        t Let_def) (simp add: azureKind_def awsKind_def gcpKind_def)
qed

lemma kinds_differ [simp]:
  "azureKind \<noteq> awsKind" "azureKind \<noteq> gcpKind" "awsKind \<noteq> azureKind" "awsKind \<noteq> gcpKind"
  "gcpKind \<noteq> azureKind" "gcpKind \<noteq> awsKind"
  by (simp_all add: azureKind_def awsKind_def gcpKind_def)

subsection \<open>Sequences of calls through the composite\<close>

fun called_identity :: "cloud_call \<Rightarrow> machine_identity" where
  "called_identity (RotateCall i) = i"
| "called_identity (RetireCall i) = i"

definition bound_to :: "string \<Rightarrow> cloud_call \<Rightarrow> bool" where
  "bound_to kind c \<longleftrightarrow> trim_space (pb_provider (mi_provider (called_identity c))) = kind"

fun demo_call :: "cloud_call \<Rightarrow> clouds \<Rightarrow> clouds" where
  "demo_call (RotateCall i) w = snd (multi_rotate demo_adapters i w)"
| "demo_call (RetireCall i) w = snd (multi_retire demo_adapters i w)"

definition demo_run :: "cloud_call list \<Rightarrow> clouds \<Rightarrow> clouds" where
  "demo_run cs w = fold demo_call cs w"

lemma demo_find:
  "find (\<lambda>a. ca_kind a = k) demo_adapters =
     (if azureKind = k then Some azure_adapter else if awsKind = k then Some aws_adapter
      else if gcpKind = k then Some gcp_adapter else None)"
  by (simp add: demo_adapters_def azure_adapter_def aws_adapter_def gcp_adapter_def)

lemma snd_on_part: "snd (on_part get set' f w) = set' (snd (f (get w))) w"
  by (simp add: on_part_def split: prod.split)

lemma demo_call_parts:
  "cl_azure (demo_call c w) = (if bound_to azureKind c then azure_cloud.call c (cl_azure w) else cl_azure w)"
  "cl_aws (demo_call c w) = (if bound_to awsKind c then aws_cloud.call c (cl_aws w) else cl_aws w)"
  "cl_gcp (demo_call c w) = (if bound_to gcpKind c then gcp_cloud.call c (cl_gcp w) else cl_gcp w)"
  by (cases c; simp add: bound_to_def multi_rotate_def multi_retire_def adapterFor_def demo_find
      azure_adapter_def aws_adapter_def gcp_adapter_def snd_on_part; force)+

lemma demo_clouds_separate_parts:
  "cl_azure (demo_run cs w) = azure_cloud.run (filter (bound_to azureKind) cs) (cl_azure w)"
  "cl_aws (demo_run cs w) = aws_cloud.run (filter (bound_to awsKind) cs) (cl_aws w)"
  "cl_gcp (demo_run cs w) = gcp_cloud.run (filter (bound_to gcpKind) cs) (cl_gcp w)"
  unfolding demo_run_def azure_cloud.run_def aws_cloud.run_def gcp_cloud.run_def
  by (induction cs arbitrary: w) (simp_all add: demo_call_parts)

text \<open>
  Whatever sequence of rotations and retirements goes through the composite of the three simulated
  clouds, each cloud ends as if it alone had been given the calls for identities bound to it, in
  their order: the clouds do not interfere, and a call bound to none of them changes nothing.
\<close>
theorem demo_clouds_separate:
  "cl_azure (demo_run cs w) = azure_cloud.run (filter (bound_to azureKind) cs) (cl_azure w) \<and>
   cl_aws (demo_run cs w) = aws_cloud.run (filter (bound_to awsKind) cs) (cl_aws w) \<and>
   cl_gcp (demo_run cs w) = gcp_cloud.run (filter (bound_to gcpKind) cs) (cl_gcp w)"
  by (simp only: demo_clouds_separate_parts simp_thms)

subsection \<open>Retirement across the composition\<close>

definition clouds_ok :: "clouds \<Rightarrow> bool" where
  "clouds_ok w \<longleftrightarrow>
     keyed ap_object_id (az_apps (cl_azure w)) \<and> distinct (keys (az_apps (cl_azure w))) \<and>
     keyed iu_name (aw_users (cl_aws w)) \<and> distinct (keys (aw_users (cl_aws w))) \<and>
     keyed sa_unique_id (gc_accounts (cl_gcp w)) \<and> distinct (keys (gc_accounts (cl_gcp w)))"

lemma azure_seed_ok:
  "keyed ap_object_id (az_apps s) \<Longrightarrow> distinct (keys (az_apps s)) \<Longrightarrow>
     keyed ap_object_id (az_apps (azure_seed_from n items s)) \<and> distinct (keys (az_apps (azure_seed_from n items s)))"
  by (induction n items s rule: azure_seed_from.induct) (auto simp: Let_def)

lemma aws_seed_ok:
  "keyed iu_name (aw_users s) \<Longrightarrow> distinct (keys (aw_users s)) \<Longrightarrow>
     keyed iu_name (aw_users (aws_seed_from n items s)) \<and> distinct (keys (aw_users (aws_seed_from n items s)))"
  by (induction n items s rule: aws_seed_from.induct) (auto simp: Let_def)

lemma gcp_seed_ok:
  "keyed sa_unique_id (gc_accounts s) \<Longrightarrow> distinct (keys (gc_accounts s)) \<Longrightarrow>
     keyed sa_unique_id (gc_accounts (gcp_seed_from n items s)) \<and>
     distinct (keys (gc_accounts (gcp_seed_from n items s)))"
  by (induction n items s rule: gcp_seed_from.induct) (auto simp: Let_def)

text \<open>The three simulators as they are constructed.\<close>

definition new_clouds ::
  "string \<Rightarrow> string \<Rightarrow> string \<Rightarrow> string \<Rightarrow> string \<Rightarrow> time \<Rightarrow> scope \<Rightarrow> scope \<Rightarrow> scope \<Rightarrow> clouds" where
  "new_clouds tenant account aws_region project gcp_region now s1 s2 s3 =
     \<lparr>cl_azure = NewSimulatorWithScope tenant now s1,
      cl_aws = NewAWSSimulatorWithScope account aws_region now s2,
      cl_gcp = NewGCPSimulatorWithScope project gcp_region now s3\<rparr>"

lemma new_clouds_ok: "clouds_ok (new_clouds t a ar p gr now s1 s2 s3)"
  by (simp add: clouds_ok_def new_clouds_def NewSimulatorWithScope_def NewAWSSimulatorWithScope_def
      NewGCPSimulatorWithScope_def NewSimulator_def NewAWSSimulator_def NewGCPSimulator_def
      azure_seed_def aws_seed_def gcp_seed_def azure_seed_ok aws_seed_ok gcp_seed_ok)

lemma demo_call_ok: "clouds_ok w \<Longrightarrow> clouds_ok (demo_call c w)"
  by (simp add: clouds_ok_def demo_call_parts azure_cloud.call_keyed azure_cloud.call_distinct
      aws_cloud.call_keyed aws_cloud.call_distinct gcp_cloud.call_keyed gcp_cloud.call_distinct)

lemma demo_run_ok: "clouds_ok w \<Longrightarrow> clouds_ok (demo_run cs w)"
  unfolding demo_run_def by (induction cs arbitrary: w) (simp_all add: demo_call_ok)

lemma demo_discovered:
  assumes "multi_discover demo_adapters w = (Inr ms, w')"
  shows "w' = w \<and> (\<exists>xs ys zs. azure_discover (cl_azure w) = (Inr xs, cl_azure w) \<and>
     aws_discover (cl_aws w) = (Inr ys, cl_aws w) \<and> gcp_discover (cl_gcp w) = (Inr zs, cl_gcp w) \<and>
     set ms \<subseteq> set xs \<union> set ys \<union> set zs)"
proof -
  obtain vs where v: "all_views demo_adapters w = (Inr vs, w')" "set ms \<subseteq> set vs"
    using multi_discover_views [OF assms] by blast
  then show ?thesis
    by (auto simp: demo_adapters_def azure_adapter_def aws_adapter_def gcp_adapter_def on_part_def
        azure_discover_def aws_discover_def gcp_discover_def)
qed

lemma identity_kinds:
  "pb_provider (mi_provider (azure_identity s a)) = azureKind"
  "pb_provider (mi_provider (aws_identity s1 u)) = awsKind"
  "pb_provider (mi_provider (gcp_identity s2 g)) = gcpKind"
  by (simp_all add: azure_identity_def aws_identity_def gcp_identity_def)

lemma discovered_kinds:
  "azure_discover s = (Inr xs, s') \<Longrightarrow> x \<in> set xs \<Longrightarrow> pb_provider (mi_provider x) = azureKind"
  "aws_discover s1 = (Inr ys, s1') \<Longrightarrow> y \<in> set ys \<Longrightarrow> pb_provider (mi_provider y) = awsKind"
  "gcp_discover s2 = (Inr zs, s2') \<Longrightarrow> z \<in> set zs \<Longrightarrow> pb_provider (mi_provider z) = gcpKind"
  by (auto simp: azure_discover_def aws_discover_def gcp_discover_def identity_kinds)

lemma demo_adapterFor:
  "adapterFor demo_adapters k =
     (let t = trim_space k in
      if azureKind = t then Inr azure_adapter else if awsKind = t then Inr aws_adapter
      else if gcpKind = t then Inr gcp_adapter
      else Inl (plain_error (''multi-cloud: no adapter governs provider '' @ quoted k)))"
  by (simp add: adapterFor_def demo_find Let_def)

lemma demo_retire_cases:
  assumes "multi_retire demo_adapters i w = (Inr m, w')"
  obtains (azure) s where "azure_retire i (cl_azure w) = (Inr m, s)" and "w' = w\<lparr>cl_azure := s\<rparr>"
  | (aws) s where "aws_retire i (cl_aws w) = (Inr m, s)" and "w' = w\<lparr>cl_aws := s\<rparr>"
  | (gcp) s where "gcp_retire i (cl_gcp w) = (Inr m, s)" and "w' = w\<lparr>cl_gcp := s\<rparr>"
  using assms
  by (auto simp: multi_retire_def demo_adapterFor Let_def azure_adapter_def aws_adapter_def gcp_adapter_def
      on_part_def split: if_splits prod.splits)

lemma demo_retire_call: "multi_retire demo_adapters i w = (Inr m, w') \<Longrightarrow> w' = demo_call (RetireCall i) w"
  by simp

lemma retired_kind:
  "azure_retire i s = (Inr m, s') \<Longrightarrow> pb_provider (mi_provider m) = azureKind"
  "aws_retire i s1 = (Inr m, s1') \<Longrightarrow> pb_provider (mi_provider m) = awsKind"
  "gcp_retire i s2 = (Inr m, s2') \<Longrightarrow> pb_provider (mi_provider m) = gcpKind"
  by (auto elim!: azure_retire_ok aws_retire_ok gcp_retire_ok simp: identity_kinds)

text \<open>
  Retirement through the composite is final: an identity that one of the three simulated clouds
  retired is in no later discovery of the composite, whatever rotations and retirements come in
  between, so the control plane cannot adopt it again.
\<close>
theorem demo_retirement_final:
  assumes ok: "clouds_ok w" and ret: "multi_retire demo_adapters i w = (Inr m, w')"
    and dis: "multi_discover demo_adapters (demo_run cs w') = (Inr ms, w'')" and m': "m' \<in> set ms"
  shows "mi_provider m' \<noteq> mi_provider m"
proof
  assume eq: "mi_provider m' = mi_provider m"
  obtain xs ys zs where v: "azure_discover (cl_azure (demo_run cs w')) = (Inr xs, cl_azure (demo_run cs w'))"
      "aws_discover (cl_aws (demo_run cs w')) = (Inr ys, cl_aws (demo_run cs w'))"
      "gcp_discover (cl_gcp (demo_run cs w')) = (Inr zs, cl_gcp (demo_run cs w'))"
    and sub: "set ms \<subseteq> set xs \<union> set ys \<union> set zs"
    using demo_discovered [OF dis] by blast
  have from_part: "m' \<in> set xs \<or> m' \<in> set ys \<or> m' \<in> set zs" using m' sub by blast
  note sep = demo_clouds_separate_parts [of cs w']
  from ret show False
  proof (cases rule: demo_retire_cases)
    case (azure s)
    have "m' \<in> set xs" using from_part eq retired_kind(1) [OF azure(1)] discovered_kinds(2) [OF v(2)]
      discovered_kinds(3) [OF v(3)] kinds_differ by metis
    moreover have "azure_discover (azure_cloud.run (filter (bound_to azureKind) cs) s) =
        (Inr xs, cl_azure (demo_run cs w'))" using v(1) sep(1) azure(2) by simp
    ultimately show False
      using azure_cloud.retired_undiscovered [OF _ _ azure(1), of "filter (bound_to azureKind) cs" xs _ m'] ok eq
      by (simp add: clouds_ok_def)
  next
    case (aws s)
    have "m' \<in> set ys" using from_part eq retired_kind(2) [OF aws(1)] discovered_kinds(1) [OF v(1)]
      discovered_kinds(3) [OF v(3)] kinds_differ by metis
    moreover have "aws_discover (aws_cloud.run (filter (bound_to awsKind) cs) s) =
        (Inr ys, cl_aws (demo_run cs w'))" using v(2) sep(2) aws(2) by simp
    ultimately show False
      using aws_cloud.retired_undiscovered [OF _ _ aws(1), of "filter (bound_to awsKind) cs" ys _ m'] ok eq
      by (simp add: clouds_ok_def)
  next
    case (gcp s)
    have "m' \<in> set zs" using from_part eq retired_kind(3) [OF gcp(1)] discovered_kinds(1) [OF v(1)]
      discovered_kinds(2) [OF v(2)] kinds_differ by metis
    moreover have "gcp_discover (gcp_cloud.run (filter (bound_to gcpKind) cs) s) =
        (Inr zs, cl_gcp (demo_run cs w'))" using v(3) sep(3) gcp(2) by simp
    ultimately show False
      using gcp_cloud.retired_undiscovered [OF _ _ gcp(1), of "filter (bound_to gcpKind) cs" zs _ m'] ok eq
      by (simp add: clouds_ok_def)
  qed
qed

section \<open>Concrete clouds\<close>

definition sample_clouds :: clouds where
  "sample_clouds = new_clouds ''tenant'' ''123456789012'' ''eu-west-1'' ''demo-project'' ''europe-west1'' 0
     DemoScope DemoScope DemoScope"

definition sample_binding :: machine_identity where
  "sample_binding = zero_identity\<lparr>mi_name := ''mutandae-demo-orders-deployer'',
     mi_provider := zero_binding\<lparr>pb_provider := awsKind,
       pb_provider_id := ''mutandae-demo-orders-deployer''\<rparr>\<rparr>"

lemma sample_binding_kind: "trim_space (pb_provider (mi_provider sample_binding)) = awsKind"
  by code_simp

theorem multi_routes_witness:
  "multi_rotate demo_adapters sample_binding = ca_rotate aws_adapter sample_binding"
  using multi_routes [OF demo_adapters_ok, of aws_adapter sample_binding]
  by (simp add: sample_binding_kind demo_adapters_def aws_adapter_def)

theorem multi_unrouted_witness:
  "\<exists>e. multi_rotate [aws_adapter] (zero_identity\<lparr>mi_provider := zero_binding\<lparr>pb_provider := azureKind\<rparr>\<rparr>)
     sample_clouds = (Inl e, sample_clouds)"
proof -
  let ?i = "zero_identity\<lparr>mi_provider := zero_binding\<lparr>pb_provider := azureKind\<rparr>\<rparr>"
  have "trim_space azureKind = azureKind" by code_simp
  then have "trim_space (pb_provider (mi_provider ?i)) \<notin> set (map ca_kind [aws_adapter])"
    by (simp add: aws_adapter_def)
  from multi_unrouted [OF this, of sample_clouds] show ?thesis by blast
qed

lemma sample_clouds_ok: "clouds_ok sample_clouds"
  by (simp add: sample_clouds_def new_clouds_ok)

lemma discover_from_total:
  assumes "\<And>a w. a \<in> set as \<Longrightarrow> \<exists>v w'. ca_discover a w = (Inr v, w')"
  shows "\<exists>ms w'. discover_from seen as w = (Inr ms, w')"
  using assms
proof (induction as arbitrary: seen w)
  case (Cons a as)
  obtain v w1 where v: "ca_discover a w = (Inr v, w1)" using Cons.prems [of a w] by auto
  obtain seen' js0 where k: "keep_unseen seen v = (seen', js0)" by (rule prod.exhaust)
  obtain js w2 where "discover_from seen' as w1 = (Inr js, w2)"
    using Cons.IH [of seen' w1] Cons.prems by auto
  with v k show ?case by simp
qed simp

lemma demo_discover_ok: "\<exists>ms w'. multi_discover demo_adapters w = (Inr ms, w')"
  unfolding multi_discover_def
  by (rule discover_from_total) (auto simp: demo_adapters_def azure_adapter_def aws_adapter_def
      gcp_adapter_def on_part_def azure_discover_def aws_discover_def gcp_discover_def)

theorem multi_discover_first_witness:
  "\<exists>ms w'. multi_discover demo_adapters sample_clouds = (Inr ms, w') \<and> distinct (map binding_key ms)"
proof -
  obtain ms w' where d: "multi_discover demo_adapters sample_clouds = (Inr ms, w')"
    using demo_discover_ok by blast
  from multi_discover_first [OF d] d show ?thesis by blast
qed

lemmas new_cloud_defs = sample_clouds_def new_clouds_def NewSimulatorWithScope_def NewSimulator_def
  NewAWSSimulatorWithScope_def NewAWSSimulator_def simulatorConstructorScope_def azure_seed_def aws_seed_def
  azure_seed_items_def aws_seed_items_def azure_seed_app_def aws_seed_user_def

lemma aws_seed_scope: "aw_scope (aws_seed_from n items s) = aw_scope s"
  by (induction n items s rule: aws_seed_from.induct) (simp_all add: Let_def)

lemma azure_seed_scope: "az_scope (azure_seed_from n items s) = az_scope s"
  by (induction n items s rule: azure_seed_from.induct) (simp_all add: Let_def)

lemma demo_scope_fixed: "simulatorConstructorScope [DemoScope] = DemoScope"
  by code_simp

lemma sample_scopes: "az_scope (cl_azure sample_clouds) = DemoScope" "aw_scope (cl_aws sample_clouds) = DemoScope"
  by (simp_all add: sample_clouds_def new_clouds_def NewSimulatorWithScope_def NewSimulator_def
      NewAWSSimulatorWithScope_def NewAWSSimulator_def azure_seed_def aws_seed_def azure_seed_scope
      aws_seed_scope demo_scope_fixed)

lemma demo_seeds: "isDemoScope DemoScope" "azure_demo_seed DemoScope"
  by code_simp+

lemma sample_user: "\<exists>u. lookup (aw_users (cl_aws sample_clouds)) ''mutandae-demo-orders-deployer'' = Some u"
  by (simp add: sample_clouds_def new_clouds_def NewAWSSimulatorWithScope_def NewAWSSimulator_def
      aws_seed_def aws_seed_items_def aws_seed_user_def Let_def demo_scope_fixed demo_seeds demoPrefix_def)

lemma sample_retire: "\<exists>m s. aws_retire sample_binding (cl_aws sample_clouds) = (Inr m, s)"
proof -
  have "aws_name sample_binding = ''mutandae-demo-orders-deployer''"
    and "scope_match DemoScope ''mutandae-demo-orders-deployer''" by code_simp+
  with sample_user sample_scopes(2) show ?thesis
    by (auto simp: aws_retire_def aws_user_by_name_def Let_def)
qed

theorem demo_retirement_final_witness:
  "\<exists>m w' ms. multi_retire demo_adapters sample_binding sample_clouds = (Inr m, w') \<and>
     fst (multi_discover demo_adapters (demo_run [RetireCall sample_binding] w')) = Inr ms \<and>
     (\<forall>m'\<in>set ms. mi_provider m' \<noteq> mi_provider m)"
proof -
  obtain m s where "aws_retire sample_binding (cl_aws sample_clouds) = (Inr m, s)" using sample_retire by blast
  then have r: "multi_retire demo_adapters sample_binding sample_clouds = (Inr m, sample_clouds\<lparr>cl_aws := s\<rparr>)"
    by (simp add: multi_retire_def demo_adapterFor sample_binding_kind Let_def aws_adapter_def on_part_def)
  obtain ms w'' where d: "multi_discover demo_adapters
      (demo_run [RetireCall sample_binding] (sample_clouds\<lparr>cl_aws := s\<rparr>)) = (Inr ms, w'')"
    using demo_discover_ok by blast
  from demo_retirement_final [OF sample_clouds_ok r d] r d show ?thesis by fastforce
qed

end
