(* ===== verification/Ledger.thy ===== *)
theory Ledger
  imports Protocol "HOL-Library.Multiset"
begin

text \<open>
  Numbered records kept in per-identity slices: the audit events and the rotation runs of the
  store (internal/lifecycle) share this shape, their identifiers are a prefix and a counter
  padded to three digits, and the snapshot flattens the slices into one list ordered by
  identifier. The locale \<open>ledger\<close> states what the store's two ledgers have in common and
  proves the invariant and the snapshot round trip once.
\<close>

section \<open>Identifiers\<close>

definition event_label :: "nat \<Rightarrow> string" where
  "event_label n = ''evt-'' @ pad0 3 (dec n)"

definition run_label :: "nat \<Rightarrow> string" where
  "run_label n = ''run-'' @ pad0 3 (dec n)"

lemma event_label_inject [simp]: "event_label m = event_label n \<longleftrightarrow> m = n"
  by (simp add: event_label_def)

lemma run_label_inject [simp]: "run_label m = run_label n \<longleftrightarrow> m = n"
  by (simp add: run_label_def)

text \<open>Digit strings of one length are ordered by their values.\<close>

lemma dec_val_Cons: "dec_val (c # s) = digit_val c * 10 ^ length s + dec_val s"
proof (induction s rule: rev_induct)
  case Nil
  then show ?case by (simp add: dec_val_def)
next
  case (snoc d s)
  have "dec_val (c # s @ [d]) = dec_val ((c # s) @ [d])" by simp
  also have "\<dots> = dec_val (c # s) * 10 + digit_val d" by (rule dec_val_snoc)
  finally show ?case using snoc by (simp add: algebra_simps)
qed

lemma digit_val_order:
  assumes "is_digit c" and "is_digit d"
  shows "digit_val c = digit_val d \<longleftrightarrow> c = d" and "digit_val c < digit_val d \<longleftrightarrow> c < d"
proof -
  have r: "48 \<le> (of_char c :: nat)" "48 \<le> (of_char d :: nat)" using assms by (simp_all add: is_digit_iff)
  then have "digit_val c = digit_val d \<longleftrightarrow> (of_char c :: nat) = of_char d"
    unfolding digit_val_def by linarith
  then show "digit_val c = digit_val d \<longleftrightarrow> c = d" by simp
  show "digit_val c < digit_val d \<longleftrightarrow> c < d"
    using r unfolding digit_val_def less_char_def by linarith
qed

lemma dec_val_bound: "list_all is_digit s \<Longrightarrow> dec_val s < 10 ^ length s"
proof (induction s)
  case (Cons c s)
  then have "(of_char c :: nat) \<le> 57" by (simp add: is_digit_iff)
  then have "digit_val c \<le> 9" unfolding digit_val_def by linarith
  then have "digit_val c * 10 ^ length s \<le> 9 * 10 ^ length s" by (rule mult_right_mono) simp
  moreover have "dec_val s < 10 ^ length s" using Cons by simp
  ultimately have "digit_val c * 10 ^ length s + dec_val s < 10 * 10 ^ length s" by linarith
  then show ?case by (simp add: dec_val_Cons)
qed (simp add: dec_val_def)

lemma digits_less:
  assumes "length s = length t" and "list_all is_digit s" and "list_all is_digit t"
    and "dec_val s < dec_val t"
  shows "s < t"
  using assms
proof (induction s t rule: list_induct2)
  case (Cons c s d t)
  consider "c < d" | "c = d" | "d < c" by (rule linorder_cases)
  then show ?case
  proof cases
    case 2
    with Cons show ?thesis by (simp add: dec_val_Cons)
  next
    case 3
    then have "digit_val d < digit_val c"
      using Cons.prems(1,2) digit_val_order(2) [of d c] by simp
    then have "Suc (digit_val d) * 10 ^ length t \<le> digit_val c * 10 ^ length t"
      by (intro mult_right_mono) simp_all
    with Cons dec_val_bound [of t] show ?thesis by (simp add: dec_val_Cons)
  qed simp
qed simp


lemma pad0_less:
  assumes "m < n" and "n < 1000"
  shows "pad0 3 (dec m) < pad0 3 (dec n)"
proof (rule digits_less)
  from assms have "length (dec m) \<le> 3" "length (dec n) \<le> 3"
    using length_dec [of m 3] length_dec [of n 3] by simp_all
  then show "length (pad0 3 (dec m)) = length (pad0 3 (dec n))" by (simp add: pad0_def)
  have "list_all is_digit (pad0 3 (dec k))" for k
    using dec_digits [of k] by (auto simp: pad0_def list_all_iff is_digit_iff)
  then show "list_all is_digit (pad0 3 (dec m))" "list_all is_digit (pad0 3 (dec n))" by blast+
  show "dec_val (pad0 3 (dec m)) < dec_val (pad0 3 (dec n))" using assms by simp
qed

lemma event_label_less: "m < n \<Longrightarrow> n < 1000 \<Longrightarrow> event_label m < event_label n"
  using pad0_less by (simp add: event_label_def)

lemma run_label_less: "m < n \<Longrightarrow> n < 1000 \<Longrightarrow> run_label m < run_label n"
  using pad0_less by (simp add: run_label_def)

section \<open>Slices, their flat list, and back\<close>

text \<open>The loops of snapshotLocked and restoreLocked over one of the two ledgers.\<close>

definition flatten_slices :: "('e \<Rightarrow> string) \<Rightarrow> 'e list gomap \<Rightarrow> 'e list" where
  "flatten_slices ident m = sort_key ident (concat (map snd m))"

definition collect_slices :: "('e \<Rightarrow> string) \<Rightarrow> 'e list \<Rightarrow> 'e list gomap" where
  "collect_slices owner xs = fold (\<lambda>x m. push (owner x) x m) xs []"

lemma slice_at_fold_push:
  "slice_at (fold (\<lambda>x m. push (owner x) x m) xs m) k = slice_at m k @ filter (\<lambda>x. owner x = k) xs"
  by (induction xs arbitrary: m) auto

lemma slice_at_collect: "slice_at (collect_slices owner xs) k = filter (\<lambda>x. owner x = k) xs"
  by (simp add: collect_slices_def slice_at_fold_push)

lemma distinct_keys_fold_push:
  "distinct (keys m) \<Longrightarrow> distinct (keys (fold (\<lambda>x m. push (owner x) x m) xs m))"
  by (induction xs arbitrary: m) simp_all

lemma distinct_keys_collect [simp]: "distinct (keys (collect_slices owner xs))"
  by (simp add: collect_slices_def distinct_keys_fold_push)

text \<open>
  The invariant of a ledger: distinct keys; every record in the slice of its owner; the
  records of a slice numbered in increasing order by numbers the counter has given out; no
  number used twice.
\<close>

definition slice_numbers :: "(nat \<Rightarrow> string) \<Rightarrow> ('e \<Rightarrow> string) \<Rightarrow> 'e list \<Rightarrow> nat list \<Rightarrow> bool" where
  "slice_numbers label ident xs ns \<longleftrightarrow> map ident xs = map label ns \<and> sorted_wrt (<) ns"

definition ledger_ok ::
  "(nat \<Rightarrow> string) \<Rightarrow> ('e \<Rightarrow> string) \<Rightarrow> ('e \<Rightarrow> string) \<Rightarrow> nat \<Rightarrow> 'e list gomap \<Rightarrow> bool" where
  "ledger_ok label ident owner next m \<longleftrightarrow>
     distinct (keys m) \<and>
     (\<forall>k x. x \<in> set (slice_at m k) \<longrightarrow> owner x = k) \<and>
     (\<forall>k. \<exists>ns. slice_numbers label ident (slice_at m k) ns \<and> (\<forall>n\<in>set ns. 0 < n \<and> n \<le> next)) \<and>
     (\<forall>j k x y. x \<in> set (slice_at m j) \<longrightarrow> y \<in> set (slice_at m k) \<longrightarrow> ident x = ident y \<longrightarrow> j = k)"

lemma slice_at_in: "distinct (keys m) \<Longrightarrow> (k, xs) \<in> set m \<Longrightarrow> slice_at m k = xs"
  by (simp add: slice_at_def)

locale ledger =
  fixes label :: "nat \<Rightarrow> string" and ident :: "'e \<Rightarrow> string" and owner :: "'e \<Rightarrow> string"
  assumes label_inject: "label m = label n \<longleftrightarrow> m = n"
    and label_less: "m < n \<Longrightarrow> n < 1000 \<Longrightarrow> label m < label n"
begin

abbreviation ok :: "nat \<Rightarrow> 'e list gomap \<Rightarrow> bool" where
  "ok \<equiv> ledger_ok label ident owner"

lemma ok_empty [simp]: "ok n []"
  by (auto simp: ledger_ok_def slice_numbers_def intro: exI [of _ "[]"])

lemma ok_number:
  assumes "ok next m" and "x \<in> set (slice_at m k)"
  obtains n where "0 < n" "n \<le> next" "ident x = label n"
proof -
  from assms(1) obtain ns where ns: "map ident (slice_at m k) = map label ns"
    "\<forall>n\<in>set ns. 0 < n \<and> n \<le> next"
    unfolding ledger_ok_def slice_numbers_def by meson
  from assms(2) have "ident x \<in> set (map ident (slice_at m k))" by simp
  then obtain n where "n \<in> set ns" "ident x = label n" unfolding ns(1) by auto
  with ns(2) that show thesis by blast
qed

lemma ok_distinct:
  assumes "ok next m"
  shows "distinct (map ident (slice_at m k))"
proof -
  from assms obtain ns where ns: "map ident (slice_at m k) = map label ns" "sorted_wrt (<) ns"
    unfolding ledger_ok_def slice_numbers_def by meson
  then have "distinct ns" by (simp add: strict_sorted_iff)
  then show ?thesis unfolding ns(1) by (simp add: distinct_map inj_on_def label_inject)
qed

lemma ok_push:
  assumes ok: "ok next m" and x: "owner x = k" "ident x = label (Suc next)"
  shows "ok (Suc next) (push k x m)"
  unfolding ledger_ok_def
proof (intro conjI allI impI)
  have fresh: "ident y \<noteq> ident x" if "y \<in> set (slice_at m j)" for y j
    using ok_number [OF ok that] x(2) label_inject by (metis Suc_n_not_le_n)
  show "distinct (keys (push k x m))" using ok by (simp add: ledger_ok_def)
  show "owner y = j" if "y \<in> set (slice_at (push k x m) j)" for y j
    using that ok x(1) by (auto simp: ledger_ok_def split: if_splits)
  show "i = j" if "y \<in> set (slice_at (push k x m) i)" "z \<in> set (slice_at (push k x m) j)"
    "ident y = ident z" for i j y z
    using that ok fresh unfolding ledger_ok_def
    by (auto split: if_splits) (metis fresh)+
  show "\<exists>ns. slice_numbers label ident (slice_at (push k x m) j) ns \<and>
      (\<forall>n\<in>set ns. 0 < n \<and> n \<le> Suc next)" for j
  proof -
    from ok obtain ns where ns: "slice_numbers label ident (slice_at m j) ns"
      "\<forall>n\<in>set ns. 0 < n \<and> n \<le> next"
      unfolding ledger_ok_def by meson
    show ?thesis
    proof (cases "j = k")
      case True
      with ns x(2) have "slice_numbers label ident (slice_at (push k x m) j) (ns @ [Suc next])"
        by (auto simp: slice_numbers_def sorted_wrt_append)
      moreover have "\<forall>n\<in>set (ns @ [Suc next]). 0 < n \<and> n \<le> Suc next" using ns(2) by auto
      ultimately show ?thesis by blast
    next
      case False
      with ns show ?thesis by (auto intro!: exI [of _ ns])
    qed
  qed
qed

lemma ok_same_idents:
  assumes ok: "ok next m" and keys: "distinct (keys m')"
    and ids: "\<And>j. map ident (slice_at m' j) = map ident (slice_at m j)"
    and own: "\<And>j y. y \<in> set (slice_at m' j) \<Longrightarrow> owner y = j"
  shows "ok next m'"
proof -
  have mem: "\<exists>u\<in>set (slice_at m j). ident u = ident y" if "y \<in> set (slice_at m' j)" for j y
  proof -
    have "ident y \<in> set (map ident (slice_at m' j))" using that by simp
    then show ?thesis unfolding ids by auto
  qed
  have "i = j" if yz: "y \<in> set (slice_at m' i)" "z \<in> set (slice_at m' j)" "ident y = ident z" for i j y z
  proof -
    obtain u v where "u \<in> set (slice_at m i)" "ident u = ident y" "v \<in> set (slice_at m j)" "ident v = ident z"
      using mem yz(1,2) by metis
    with ok yz(3) show ?thesis unfolding ledger_ok_def by metis
  qed
  moreover have "\<exists>ns. slice_numbers label ident (slice_at m' j) ns \<and> (\<forall>n\<in>set ns. 0 < n \<and> n \<le> next)" for j
    using ok unfolding ledger_ok_def slice_numbers_def ids by meson
  ultimately show ?thesis using keys own unfolding ledger_ok_def by simp
qed

lemma ok_set_at:
  assumes ok: "ok next m" and i: "i < length (slice_at m k)"
    and x: "owner x = k" "ident x = ident (slice_at m k ! i)"
  shows "ok next (set_at k i x m)"
proof (rule ok_same_idents [OF ok])
  show "distinct (keys (set_at k i x m))" using ok by (simp add: ledger_ok_def)
  show "map ident (slice_at (set_at k i x m) j) = map ident (slice_at m j)" for j
    using i x(2) by (simp add: map_update list_update_same_conv)
  show "owner y = j" if "y \<in> set (slice_at (set_at k i x m) j)" for j y
    using that ok x(1) set_update_subset_insert [of "slice_at m k" i x]
    by (auto simp: ledger_ok_def split: if_splits)
qed

lemma ok_remove: "ok next m \<Longrightarrow> ok next (remove_key k m)"
  unfolding ledger_ok_def
proof (intro conjI allI impI; (elim conjE)?)
  fix j
  assume a: "\<forall>k. \<exists>ns. slice_numbers label ident (slice_at m k) ns \<and> (\<forall>n\<in>set ns. 0 < n \<and> n \<le> next)"
  show "\<exists>ns. slice_numbers label ident (slice_at (remove_key k m) j) ns \<and> (\<forall>n\<in>set ns. 0 < n \<and> n \<le> next)"
  proof (cases "j = k")
    case True
    then show ?thesis by (auto simp: slice_numbers_def intro: exI [of _ "[]"])
  next
    case False
    with a show ?thesis by simp
  qed
qed (auto split: if_splits)

text \<open>Writing the slices to one list and reading them back.\<close>

lemma filter_slices:
  assumes "distinct (keys m)" and "\<forall>k x. x \<in> set (slice_at m k) \<longrightarrow> owner x = k"
  shows "filter (\<lambda>x. owner x = k) (concat (map snd m)) = slice_at m k"
  using assms
proof (induction m)
  case (Cons a m)
  obtain j xs where a: "a = (j, xs)" by (cases a)
  have nj: "j \<notin> set (keys m)" using Cons.prems(1) a by simp
  have own: "\<forall>x\<in>set xs. owner x = j"
    using Cons.prems(2) a by (auto simp: slice_at_def)
  have rest: "\<forall>k x. x \<in> set (slice_at m k) \<longrightarrow> owner x = k"
  proof (intro allI impI)
    fix k x assume x: "x \<in> set (slice_at m k)"
    have "slice_at m j = []" using nj by (simp add: slice_at_def map_of_eq_None_iff [THEN iffD2])
    with x have "k \<noteq> j" by auto
    with x have "x \<in> set (slice_at (a # m) k)" by (simp add: slice_at_def a)
    with Cons.prems(2) show "owner x = k" by blast
  qed
  have IH: "filter (\<lambda>x. owner x = k) (concat (map snd m)) = slice_at m k"
    using Cons.IH Cons.prems(1) rest by simp
  show ?case
  proof (cases "k = j")
    case True
    then have "slice_at m k = []" using nj by (simp add: slice_at_def map_of_eq_None_iff [THEN iffD2])
    with IH True own show ?thesis by (simp add: a slice_at_def)
  next
    case False
    with IH own show ?thesis by (simp add: a slice_at_def filter_empty_conv)
  qed
qed simp

lemma slice_sorted:
  assumes "ok next m" and "next < 1000"
  shows "sorted (map ident (slice_at m k))"
proof -
  from assms(1) obtain ns where ns: "map ident (slice_at m k) = map label ns" "sorted_wrt (<) ns"
    and b: "\<forall>n\<in>set ns. 0 < n \<and> n \<le> next"
    unfolding ledger_ok_def slice_numbers_def by meson
  have le: "label i \<le> label j" if "j \<in> set ns" "i < j" for i j
  proof -
    have "j < 1000" using b that(1) assms(2) by (meson le_less_trans)
    from label_less [OF that(2) this] show ?thesis by simp
  qed
  have "sorted_wrt (\<lambda>i j. label i \<le> label j) ns"
    using ns(2) by (rule sorted_wrt_mono_rel [rotated]) (rule le)
  then show ?thesis unfolding ns(1) by (simp add: sorted_wrt_map)
qed

lemma snapshot_roundtrip:
  assumes "ok next m" and "next < 1000"
  shows "slice_at (collect_slices owner (flatten_slices ident m)) k = slice_at m k"
proof -
  have "slice_at (collect_slices owner (flatten_slices ident m)) k
      = sort_key ident (filter (\<lambda>x. owner x = k) (concat (map snd m)))"
    by (simp add: slice_at_collect flatten_slices_def filter_sort)
  also have "\<dots> = sort_key ident (slice_at m k)"
    by (rule arg_cong [where f = "sort_key ident"], rule filter_slices)
      (use assms(1) in \<open>auto simp: ledger_ok_def\<close>)
  also have "\<dots> = slice_at m k"
    using slice_sorted [OF assms] by (rule sort_key_id_if_sorted)
  finally show ?thesis .
qed

text \<open>Whatever the counter, no record is lost or moved to another owner.\<close>

lemma snapshot_keeps_records:
  assumes "ok next m"
  shows "mset (slice_at (collect_slices owner (flatten_slices ident m)) k) = mset (slice_at m k)"
proof -
  have "filter (\<lambda>x. owner x = k) (concat (map snd m)) = slice_at m k"
    by (rule filter_slices) (use assms in \<open>auto simp: ledger_ok_def\<close>)
  then show ?thesis by (simp add: slice_at_collect flatten_slices_def filter_sort)
qed

end

interpretation event_ledger: ledger event_label ev_id ev_identity_id
  by unfold_locales (simp_all add: event_label_less)

interpretation run_ledger: ledger run_label rr_id rr_identity_id
  by unfold_locales (simp_all add: run_label_less)

end
