(* ===== verification/Store.thy ===== *)
theory Store
  imports Adapter Ledger
begin

text \<open>
  The control-plane store of internal/lifecycle (lifecycle.go, persistence.go): its state, its
  queries and its operations, each composed of the same steps as the code, in the code's
  order, with every early return. The lifecycle operations return their result together with
  the new store and world. The mutex is not part of the state: this theory runs operations one
  after the other.

  Identifier counters are unbounded naturals (an int in Go).
\<close>

section \<open>State\<close>

record store =
  st_identities :: "machine_identity gomap"
  st_events :: "lifecycle_event list gomap"
  st_runs :: "rotation_run list gomap"
  st_next_event :: nat
  st_next_run :: nat

type_synonym 'w sys = "store \<times> 'w"
type_synonym ('a, 'w) op = "'w sys \<Rightarrow> 'a result \<times> 'w sys"

definition empty_store :: store where
  "empty_store = \<lparr>st_identities = [], st_events = [], st_runs = [], st_next_event = 0, st_next_run = 0\<rparr>"

definition set_identity :: "machine_identity \<Rightarrow> store \<Rightarrow> store" where
  "set_identity i st = st\<lparr>st_identities := put (mi_id i) i (st_identities st)\<rparr>"

text \<open>addEvent: number the event, file it under its identity, hand it to the sink.\<close>

definition make_event ::
  "nat \<Rightarrow> string \<Rightarrow> time \<Rightarrow> event_type \<Rightarrow> string \<Rightarrow> string \<Rightarrow> outcome \<Rightarrow> details \<Rightarrow> string \<Rightarrow> lifecycle_event" where
  "make_event n identity_id now ty summary actor outcome details run_id =
     \<lparr>ev_id = event_label n, ev_identity_id = identity_id, ev_type = ty, ev_summary = summary,
      ev_actor = actor, ev_outcome = outcome, ev_at = now,
      ev_correlation_id = run_id, ev_run_id = run_id, ev_details = details\<rparr>"

definition audit_append :: "'w env \<Rightarrow> lifecycle_event \<Rightarrow> 'w \<Rightarrow> 'w" where
  "audit_append env event w =
     (case en_audit env of
        None \<Rightarrow> w
      | Some sink \<Rightarrow>
          (case as_append sink event w of
             (Inl err, w') \<Rightarrow>
               (case en_logger env of
                  None \<Rightarrow> w'
                | Some logger \<Rightarrow> logger (''append lifecycle audit event '' @ ev_id event @ '': '' @ err_text err) w')
           | (Inr _, w') \<Rightarrow> w'))"

definition addEvent ::
  "'w env \<Rightarrow> string \<Rightarrow> time \<Rightarrow> event_type \<Rightarrow> string \<Rightarrow> string \<Rightarrow> outcome \<Rightarrow> details \<Rightarrow> string
     \<Rightarrow> 'w sys \<Rightarrow> 'w sys" where
  "addEvent env identity_id now ty summary actor outcome details run_id = (\<lambda>(st, w).
     let n = st_next_event st + 1;
         event = make_event n identity_id now ty summary actor outcome details run_id
     in (st\<lparr>st_next_event := n, st_events := push identity_id event (st_events st)\<rparr>,
         audit_append env event w))"

section \<open>Queries\<close>

definition list_identities :: "bool \<Rightarrow> store \<Rightarrow> machine_identity list" where
  "list_identities includeRetired st =
     sort_key (\<lambda>i. (mi_expires_at i, mi_name i))
       (filter (\<lambda>i. \<not> (\<not> includeRetired \<and> mi_state i = StateRetired)) (map snd (st_identities st)))"

definition List :: "store \<Rightarrow> machine_identity list" where
  "List st = list_identities False st"

definition ListIncludingRetired :: "store \<Rightarrow> machine_identity list" where
  "ListIncludingRetired st = list_identities True st"

definition Get :: "store \<Rightarrow> string \<Rightarrow> machine_identity option" where
  "Get st key = lookup (st_identities st) key"

definition Events :: "store \<Rightarrow> string \<Rightarrow> lifecycle_event list option" where
  "Events st key = (case lookup (st_identities st) key of
     None \<Rightarrow> None
   | Some _ \<Rightarrow> Some (sort_desc (\<lambda>e. (ev_at e, ev_id e)) (slice_at (st_events st) key)))"

definition Runs :: "store \<Rightarrow> string \<Rightarrow> rotation_run list option" where
  "Runs st key = (case lookup (st_identities st) key of
     None \<Rightarrow> None
   | Some _ \<Rightarrow> Some (sort_desc (\<lambda>r. (rr_requested_at r, rr_id r)) (slice_at (st_runs st) key)))"

definition eventsSnapshotLocked :: "store \<Rightarrow> string \<Rightarrow> lifecycle_event list" where
  "eventsSnapshotLocked st key = slice_at (st_events st) key"

section \<open>Persistence\<close>

definition snapshotLocked :: "store \<Rightarrow> snapshot" where
  "snapshotLocked st =
     \<lparr>sn_identities = sort_key mi_id (map snd (st_identities st)),
      sn_events = flatten_slices ev_id (st_events st),
      sn_runs = flatten_slices rr_id (st_runs st),
      sn_next_event = st_next_event st, sn_next_run = st_next_run st\<rparr>"

definition restoreLocked :: "snapshot \<Rightarrow> store" where
  "restoreLocked sn =
     \<lparr>st_identities = fold (\<lambda>i m. put (mi_id i) i m) (sn_identities sn) [],
      st_events = collect_slices ev_identity_id (sn_events sn),
      st_runs = collect_slices rr_identity_id (sn_runs sn),
      st_next_event = sn_next_event sn, st_next_run = sn_next_run sn\<rparr>"

definition persistLocked :: "'w env \<Rightarrow> (unit, 'w) op" where
  "persistLocked env = (\<lambda>(st, w).
     case en_repository env of
       None \<Rightarrow> (Inr (), st, w)
     | Some repo \<Rightarrow>
         (case re_save repo (snapshotLocked st) w of
            (Inl err, w') \<Rightarrow> (Inl (wrap_error ErrPersistenceFailure (err_text err)), st, w')
          | (Inr _, w') \<Rightarrow> (Inr (), st, w')))"

text \<open>startWatcher, and what its goroutine does for each change it is told of.\<close>

definition startWatcher :: "'w env \<Rightarrow> 'w \<Rightarrow> unit result \<times> 'w" where
  "startWatcher env w =
     (case en_repository env of
        None \<Rightarrow> (Inr (), w)
      | Some repo \<Rightarrow> re_changes repo w)"

definition watcher_reload :: "'w env \<Rightarrow> 'w sys \<Rightarrow> 'w sys" where
  "watcher_reload env = (\<lambda>(st, w).
     case en_repository env of
       None \<Rightarrow> (st, w)
     | Some repo \<Rightarrow>
         (case re_load repo w of
            (Inl _, w') \<Rightarrow> (st, w')
          | (Inr sn, w') \<Rightarrow> (restoreLocked sn, w')))"

definition Close :: "'w env \<Rightarrow> 'w \<Rightarrow> unit result \<times> 'w" where
  "Close env w =
     (let (e1, w1) = (case en_audit env of
            None \<Rightarrow> ([], w)
          | Some sink \<Rightarrow> (case as_close sink w of (Inl e, w') \<Rightarrow> ([e], w') | (Inr _, w') \<Rightarrow> ([], w')));
          (e2, w2) = (case en_repository env of
            None \<Rightarrow> ([], w1)
          | Some repo \<Rightarrow> (case re_close repo w1 of (Inl e, w') \<Rightarrow> ([e], w') | (Inr _, w') \<Rightarrow> ([], w')))
      in (join_errors (e1 @ e2), w2))"

section \<open>Construction\<close>

definition fixIdentity :: "machine_identity \<Rightarrow> machine_identity" where
  "fixIdentity i =
     (let j = (if mi_id i = [] then i\<lparr>mi_id := mi_name i\<rparr> else i)
      in if health_text (mi_health j) = [] then j\<lparr>mi_health := HealthHealthy\<rparr> else j)"

definition adopt :: "'w env \<Rightarrow> machine_identity \<Rightarrow> time \<Rightarrow> (unit, 'w) op" where
  "adopt env identity0 now s =
     (let identity = identity0\<lparr>mi_created_at := now, mi_updated_at := now, mi_state := StateActive\<rparr>
      in case ValidateIdentity (Some identity) of
           Inl err \<Rightarrow> (Inl (GoError (err_wraps err)
             (''adapter returned non-conformant identity '' @ quoted (mi_name identity) @ '': '' @ err_text err)), s)
         | Inr _ \<Rightarrow>
             let s1 = (set_identity identity (fst s), snd s);
                 s2 = addEvent env (mi_id identity) now EventIdentityDiscovered
                   (''Discovered '' @ mi_name identity @ '' in the '' @ pb_provider (mi_provider identity) @ '' tenant'')
                   ActorDiscovery OutcomeSuccess
                   [(''provider_id'', pb_provider_id (mi_provider identity))] [] s1;
                 s3 = addEvent env (mi_id identity) now EventIdentityRegistered
                   (''Registered '' @ mi_name identity @ '' into governance'')
                   ActorControlPlane OutcomeSuccess [] [] s2
             in (Inr (), s3))"

fun adopt_all :: "'w env \<Rightarrow> time \<Rightarrow> machine_identity list \<Rightarrow> (unit, 'w) op" where
  "adopt_all env now [] s = (Inr (), s)"
| "adopt_all env now (i # is) s =
     (case adopt env (fixIdentity i) now s of
        (Inl err, s') \<Rightarrow> (Inl err, s')
      | (Inr _, s') \<Rightarrow> adopt_all env now is s')"

text \<open>newStore after the check for a snapshot: discover, adopt, and save the first snapshot.\<close>

definition bootstrap :: "'w env \<Rightarrow> time \<Rightarrow> 'w \<Rightarrow> store result \<times> 'w" where
  "bootstrap env now w =
     (case ad_discover (en_adapter env) w of
        (Inl err, w1) \<Rightarrow> (Inl (wrap_error ErrProviderFailure (''discover: '' @ err_text err)), w1)
      | (Inr discovered, w1) \<Rightarrow>
          (case adopt_all env now discovered (empty_store, w1) of
             (Inl err, (_, w2)) \<Rightarrow> (Inl err, w2)
           | (Inr _, (st, w2)) \<Rightarrow>
               (case en_repository env of
                  None \<Rightarrow> (Inr st, w2)
                | Some repo \<Rightarrow>
                    (case re_save repo (snapshotLocked st) w2 of
                       (Inl err, w3) \<Rightarrow> (Inl err, w3)
                     | (Inr _, w3) \<Rightarrow>
                         (case startWatcher env w3 of
                            (Inl err, w4) \<Rightarrow> (Inl err, w4)
                          | (Inr _, w4) \<Rightarrow> (Inr st, w4))))))"

definition newStore :: "'w env option \<Rightarrow> time \<Rightarrow> 'w \<Rightarrow> store result \<times> 'w" where
  "newStore p now w =
     (case p of
        None \<Rightarrow> (Inl (sentinel_error ErrAdapterRequired), w)
      | Some env \<Rightarrow>
          (case en_repository env of
             None \<Rightarrow> bootstrap env now w
           | Some repo \<Rightarrow>
               (case re_load repo w of
                  (Inr sn, w1) \<Rightarrow>
                    (case startWatcher env w1 of
                       (Inl err, w2) \<Rightarrow> (Inl err, w2)
                     | (Inr _, w2) \<Rightarrow> (Inr (restoreLocked sn), w2))
                | (Inl err, w1) \<Rightarrow>
                    if errors_is err ErrNoSnapshot then bootstrap env now w1 else (Inl err, w1))))"

end
