(* ===== verification/Lifecycle.thy ===== *)
theory Lifecycle
  imports Store
begin

text \<open>
  The lifecycle operations of the store (internal/lifecycle/lifecycle.go): registering,
  provisioning, rotating, retiring, deleting and using an identity, with the vault deliveries
  and revocations they trigger. Each operation is split where the code takes and releases the
  store's lock.
\<close>

section \<open>Vault metadata and labels\<close>

text \<open>The Greek letter mu in UTF-8.\<close>

definition mu :: string where "mu = [CHR 0xCE, CHR 0xBC]"

definition metaCommonVaultURL :: string where "metaCommonVaultURL = ''common_vault_url''"
definition metaCommonVaultSecret :: string where "metaCommonVaultSecret = ''common_vault_secret''"
definition metaCommonVaultVersion :: string where "metaCommonVaultVersion = ''common_vault_version''"
definition commonVaultKind :: string where "commonVaultKind = ''cluster-mutandae-vault''"
definition metaVaultURL :: string where "metaVaultURL = ''vault_url''"
definition metaVaultSecret :: string where "metaVaultSecret = ''vault_secret''"
definition metaVaultVersion :: string where "metaVaultVersion = ''vault_version''"

lemmas meta_keys = metaCommonVaultURL_def metaCommonVaultSecret_def metaCommonVaultVersion_def
  metaVaultURL_def metaVaultSecret_def metaVaultVersion_def

definition put_if :: "bool \<Rightarrow> string \<Rightarrow> string \<Rightarrow> metadata \<Rightarrow> metadata" where
  "put_if b k v m = (if b then put k v m else m)"

definition withVaultMetadata :: "metadata \<Rightarrow> vault_reference option \<Rightarrow> metadata" where
  "withVaultMetadata m p = (case p of
     None \<Rightarrow> m
   | Some ref \<Rightarrow>
       put_if (vr_version ref \<noteq> []) metaVaultVersion (vr_version ref)
         (put metaVaultSecret (vr_secret_name ref)
           (put_if (vr_url ref \<noteq> []) metaVaultURL (vr_url ref) m)))"

definition withCommonVaultMetadata :: "metadata \<Rightarrow> vault_reference option \<Rightarrow> metadata" where
  "withCommonVaultMetadata m p = (case p of
     None \<Rightarrow> m
   | Some ref \<Rightarrow>
       put_if (vr_version ref \<noteq> []) metaCommonVaultVersion (vr_version ref)
         (put metaCommonVaultSecret (vr_secret_name ref)
           (put_if (vr_url ref \<noteq> []) metaCommonVaultURL (vr_url ref) m)))"

definition providerVaultLabel :: "string \<Rightarrow> string" where
  "providerVaultLabel provider =
     (if provider = ''azure-entra'' then ''Azure Key Vault''
      else if provider = ''aws-iam'' then ''AWS Secrets Manager''
      else if provider = ''gcp-iam'' then ''GCP Secret Manager''
      else ''provider vault'')"

definition Transition :: "state \<Rightarrow> state \<Rightarrow> unit result" where
  "Transition old new =
     (if \<not> CanTransition old new then
        Inl (wrap_error ErrInvalidTransition (state_text old @ '' -> '' @ state_text new))
      else Inr ())"

definition url_detail :: "string \<Rightarrow> vault_reference \<Rightarrow> details" where
  "url_detail k ref = (if vr_url ref \<noteq> [] then [(k, vr_url ref)] else [])"

section \<open>Delivery and revocation\<close>

definition deliverToVault ::
  "'w env \<Rightarrow> machine_identity \<Rightarrow> string \<Rightarrow> string \<Rightarrow> time \<Rightarrow> 'w sys \<Rightarrow> vault_reference option \<times> 'w sys" where
  "deliverToVault env identity keyID secret now = (\<lambda>(st, w).
     case ad_vault (en_adapter env) of
       None \<Rightarrow> (None, st, w)
     | Some vault \<Rightarrow>
         if trim_space secret = [] then (None, st, w)
         else
           (let provider = pb_provider (mi_provider identity) in
            case va_store vault identity keyID secret w of
              (Inl err, w') \<Rightarrow>
                if errors_is err ErrVaultUnsupported then (None, st, w')
                else (None, addEvent env (mi_id identity) now EventCredentialDelivered
                   (''Vault delivery failed: the credential was issued but not stored in the ''
                      @ providerVaultLabel provider)
                   ActorProviderAdapter OutcomeAttention
                   [(''key_id'', keyID), (''error'', err_text err), (''provider'', provider)] [] (st, w'))
            | (Inr ref, w') \<Rightarrow>
                (Some ref, addEvent env (mi_id identity) now EventCredentialDelivered
                   (''Credential stored in the '' @ providerVaultLabel provider
                      @ '' ('' @ vr_secret_name ref @ ''), retrievable on demand'')
                   ActorProviderAdapter OutcomeSuccess
                   ([(''key_id'', keyID), (''vault_secret'', vr_secret_name ref),
                     (''provider'', provider), (''vault_version'', vr_version ref)]
                    @ url_detail ''vault_url'' ref) [] (st, w'))))"

definition mirrorToCommonVault ::
  "'w env \<Rightarrow> machine_identity \<Rightarrow> string \<Rightarrow> string \<Rightarrow> time \<Rightarrow> 'w sys \<Rightarrow> vault_reference option \<times> 'w sys" where
  "mirrorToCommonVault env identity keyID secret now = (\<lambda>(st, w).
     case en_common_vault env of
       None \<Rightarrow> (None, st, w)
     | Some vault \<Rightarrow>
         if trim_space secret = [] then (None, st, w)
         else
           (case va_store vault identity keyID secret w of
              (Inl err, w') \<Rightarrow>
                if errors_is err ErrVaultUnsupported then (None, st, w')
                else (None, addEvent env (mi_id identity) now EventCredentialDelivered
                   (''Cluster vault delivery failed: the credential was issued but not stored in the cluster ''
                      @ mu @ ''Vault vault'')
                   ActorProviderAdapter OutcomeAttention
                   [(''key_id'', keyID), (''vault_kind'', commonVaultKind), (''error'', err_text err)]
                   [] (st, w'))
            | (Inr ref, w') \<Rightarrow>
                (Some ref, addEvent env (mi_id identity) now EventCredentialDelivered
                   (''Credential stored in the cluster '' @ mu @ ''Vault vault (''
                      @ vr_secret_name ref @ ''), retrievable on demand'')
                   ActorProviderAdapter OutcomeSuccess
                   ([(''key_id'', keyID), (''vault_kind'', commonVaultKind),
                     (''common_vault_secret'', vr_secret_name ref),
                     (''common_vault_version'', vr_version ref)]
                    @ url_detail ''common_vault_url'' ref) [] (st, w'))))"

definition revokeFromVault ::
  "'w env \<Rightarrow> machine_identity \<Rightarrow> time \<Rightarrow> 'w sys \<Rightarrow> 'w sys" where
  "revokeFromVault env identity now = (\<lambda>(st, w).
     case ad_vault (en_adapter env) of
       None \<Rightarrow> (st, w)
     | Some vault \<Rightarrow>
         (let key_id = cr_key_id (mi_credential identity) in
          case va_revoke vault identity key_id w of
            (Inl err, w') \<Rightarrow>
              if errors_is err ErrVaultUnsupported then (st, w')
              else addEvent env (mi_id identity) now EventCredentialRevoked
                (''Vault revocation failed: '' @ err_text err) ActorProviderAdapter OutcomeAttention
                [(''key_id'', key_id), (''error'', err_text err)] [] (st, w')
          | (Inr ref, w') \<Rightarrow>
              addEvent env (mi_id identity) now EventCredentialRevoked
                (''Vault copy disabled in the '' @ providerVaultLabel (pb_provider (mi_provider identity)))
                ActorProviderAdapter OutcomeSuccess
                ([(''key_id'', key_id), (''vault_secret'', vr_secret_name ref),
                  (''vault_version'', vr_version ref)] @ url_detail ''vault_url'' ref) [] (st, w')))"

definition revokeFromCommonVault ::
  "'w env \<Rightarrow> machine_identity \<Rightarrow> time \<Rightarrow> 'w sys \<Rightarrow> 'w sys" where
  "revokeFromCommonVault env identity now = (\<lambda>(st, w).
     case en_common_vault env of
       None \<Rightarrow> (st, w)
     | Some vault \<Rightarrow>
         (let key_id = cr_key_id (mi_credential identity) in
          case va_revoke vault identity key_id w of
            (Inl err, w') \<Rightarrow>
              if errors_is err ErrVaultUnsupported then (st, w')
              else addEvent env (mi_id identity) now EventCredentialRevoked
                (''Cluster vault revocation failed: '' @ err_text err) ActorProviderAdapter OutcomeAttention
                [(''key_id'', key_id), (''vault_kind'', commonVaultKind), (''error'', err_text err)]
                [] (st, w')
          | (Inr ref, w') \<Rightarrow>
              addEvent env (mi_id identity) now EventCredentialRevoked
                (''Cluster vault copy removed ('' @ mu @ ''Vault)'')
                ActorProviderAdapter OutcomeSuccess
                ([(''key_id'', key_id), (''vault_kind'', commonVaultKind),
                  (''common_vault_secret'', vr_secret_name ref),
                  (''common_vault_version'', vr_version ref)]
                 @ url_detail ''common_vault_url'' ref) [] (st, w')))"

section \<open>Register\<close>

definition register_violations :: "register_request \<Rightarrow> string list" where
  "register_violations req =
     require (rg_name req \<noteq> []) ''name is required''
     @ require (pb_provider (rg_provider req) \<noteq> []) ''provider.provider is required''
     @ require (pb_provider_id (rg_provider req) \<noteq> []) ''provider.provider_id is required''
     @ require (ow_team (rg_ownership req) \<noteq> []) ''ownership.team is required''
     @ (if lp_renewal_period (rg_policy req) = [] then [''policy.renewal_period is required'']
        else (case ParseISO8601Duration (lp_renewal_period (rg_policy req)) of
                Inl _ \<Rightarrow> [''policy.renewal_period is not a valid ISO-8601 duration'']
              | Inr _ \<Rightarrow> []))"

definition registerRequestConforms :: "register_request \<Rightarrow> unit result" where
  "registerRequestConforms req =
     (let errs = register_violations req in
      if errs \<noteq> [] then Inl (nonconformant (err_text (ValidationErrors errs))) else Inr ())"

definition registered_identity :: "register_request \<Rightarrow> time \<Rightarrow> duration \<Rightarrow> machine_identity" where
  "registered_identity req now policyDuration =
     \<lparr>mi_id = rg_id req, mi_name = rg_name req, mi_display_name = rg_display_name req,
      mi_namespace = rg_namespace req, mi_environment = rg_environment req,
      mi_provider = rg_provider req, mi_ownership = rg_ownership req, mi_policy = rg_policy req,
      mi_credential = rg_credential req, mi_state = StateActive, mi_health = HealthHealthy,
      mi_expires_at = now + policyDuration, mi_last_rotated_at = 0,
      mi_created_at = now, mi_updated_at = now, mi_metadata = []\<rparr>"

definition Register :: "'w env \<Rightarrow> register_request \<Rightarrow> time \<Rightarrow> (register_response, 'w) op" where
  "Register env req0 now s =
     (case registerRequestConforms req0 of
        Inl err \<Rightarrow> (Inl err, s)
      | Inr _ \<Rightarrow>
          (case ParseISO8601Duration (lp_renewal_period (rg_policy req0)) of
             Inl err \<Rightarrow> (Inl (nonconformant (''renewal_period: '' @ err_text err)), s)
           | Inr policyDuration \<Rightarrow>
               (let req = (if rg_id req0 = [] then req0\<lparr>rg_id := rg_name req0\<rparr> else req0) in
                case lookup (st_identities (fst s)) (rg_id req) of
                  Some _ \<Rightarrow> (Inl (plain_error (''identity '' @ quoted (rg_id req) @ '' already registered'')), s)
                | None \<Rightarrow>
                    (let identity = registered_identity req now policyDuration;
                         s1 = (set_identity identity (fst s), snd s);
                         s2 = addEvent env (mi_id identity) now EventIdentityRegistered
                           (''Registered '' @ mi_name identity @ '' into governance'')
                           (register_actor req) OutcomeSuccess [] [] s1
                     in case persistLocked env s2 of
                          (Inl err, s3) \<Rightarrow> (Inl err, s3)
                        | (Inr _, s3) \<Rightarrow>
                            (Inr \<lparr>rgr_api_version = Version, rgr_identity = identity,
                                rgr_events = eventsSnapshotLocked (fst s3) (mi_id identity)\<rparr>, s3)))))"

section \<open>Provision\<close>

definition provisioned_identity :: "machine_identity \<Rightarrow> time \<Rightarrow> machine_identity" where
  "provisioned_identity i now =
     (fixIdentity i)\<lparr>mi_state := StateActive, mi_health := HealthHealthy,
        mi_created_at := now, mi_updated_at := now\<rparr>"

text \<open>The first critical section: the identity enters governance.\<close>

definition provision_adopt ::
  "'w env \<Rightarrow> provision_request \<Rightarrow> string \<Rightarrow> machine_identity \<Rightarrow> time \<Rightarrow> 'w sys \<Rightarrow> 'w sys" where
  "provision_adopt env req provider identity now s =
     (let s1 = (set_identity identity (fst s), snd s);
          s2 = addEvent env (mi_id identity) now EventIdentityDiscovered
            (''Provisioned '' @ mi_name identity @ '' in the '' @ provider @ '' tenant'')
            ActorDiscovery OutcomeSuccess
            [(''provider_id'', pb_provider_id (mi_provider identity))] [] s1
      in addEvent env (mi_id identity) now EventIdentityRegistered
           (''Registered '' @ mi_name identity @ '' into governance'')
           (provision_actor req) OutcomeSuccess [] [] s2)"

text \<open>
  The two deliveries of a fresh credential, and the identity with the locations recorded
  (Provision stores it again under the lock when either exists, and so does Rotate).
\<close>

definition deliver_both ::
  "'w env \<Rightarrow> machine_identity \<Rightarrow> string \<Rightarrow> string \<Rightarrow> time \<Rightarrow> 'w sys
     \<Rightarrow> vault_reference option \<times> vault_reference option \<times> machine_identity \<times> 'w sys" where
  "deliver_both env identity keyID secret now s =
     (let (nativeRef, s1) = deliverToVault env identity keyID secret now s;
          (commonRef, s2) = mirrorToCommonVault env identity keyID secret now s1;
          i1 = (if nativeRef \<noteq> None
                then identity\<lparr>mi_metadata := withVaultMetadata (mi_metadata identity) nativeRef\<rparr> else identity);
          i2 = (if commonRef \<noteq> None
                then i1\<lparr>mi_metadata := withCommonVaultMetadata (mi_metadata i1) commonRef\<rparr> else i1)
      in if nativeRef \<noteq> None \<or> commonRef \<noteq> None
         then (let i3 = i2\<lparr>mi_updated_at := now\<rparr> in (nativeRef, commonRef, i3, (set_identity i3 (fst s2), snd s2)))
         else (nativeRef, commonRef, i2, s2))"

definition Provision :: "'w env \<Rightarrow> provision_request \<Rightarrow> time \<Rightarrow> (provision_response, 'w) op" where
  "Provision env req now s =
     (let provider = trim_space (pv_provider req) in
      if provider = [] then (Inl (nonconformant ''provider is required''), s)
      else case ad_create (en_adapter env) of
        None \<Rightarrow> (Inl (sentinel_error ErrProviderFailure), s)
      | Some create \<Rightarrow>
          (case create provider (pv_purpose req) (snd s) of
             (Inl err, w1) \<Rightarrow> (Inl (providerOperationError err), fst s, w1)
           | (Inr resp, w1) \<Rightarrow>
               if mi_name (pvr_identity resp) = [] then
                 (Inl (wrap_error ErrProviderFailure (provider @ '' adapter returned no identity'')), fst s, w1)
               else
                 (let identity = provisioned_identity (pvr_identity resp) now in
                  case ValidateIdentity (Some identity) of
                    Inl err \<Rightarrow>
                      (let (_, w2) = ad_retire (en_adapter env) identity w1
                       in (Inl (GoError (err_wraps err)
                            (''provisioned identity is not conformant: '' @ err_text err)), fst s, w2))
                  | Inr _ \<Rightarrow>
                      (let s1 = provision_adopt env req provider identity now (fst s, w1);
                           (nativeRef, commonRef, identity', s2) =
                             deliver_both env identity (pvr_key_id resp) (pvr_one_time_secret resp) now s1;
                           vault = (if nativeRef \<noteq> None then nativeRef
                                    else if commonRef \<noteq> None then commonRef else pvr_vault resp)
                       in case persistLocked env s2 of
                            (Inl err, s3) \<Rightarrow> (Inl err, s3)
                          | (Inr _, s3) \<Rightarrow>
                              (Inr (resp\<lparr>pvr_vault := vault, pvr_identity := identity',
                                   pvr_api_version := Version\<rparr>), s3)))))"

section \<open>Dry-run plans\<close>

definition fallback_operations :: "string \<Rightarrow> bool \<Rightarrow> planned_operation list" where
  "fallback_operations name rot =
     (if rot then
        [\<lparr>po_op = ''lifecycle.create_credential'', po_identity = name,
          po_detail = ''Create a replacement credential without applying provider changes.'',
          po_reversible = True, po_destructive = False\<rparr>,
         \<lparr>po_op = ''lifecycle.verify_credential'', po_identity = name,
          po_detail = ''Verify the replacement credential before it becomes current.'',
          po_reversible = True, po_destructive = False\<rparr>,
         \<lparr>po_op = ''lifecycle.revoke_previous_credential'', po_identity = name,
          po_detail = ''Revoke the previous credential after successful verification.'',
          po_reversible = False, po_destructive = True\<rparr>]
      else
        [\<lparr>po_op = ''lifecycle.revoke_credential'', po_identity = name,
          po_detail = ''Revoke the governed credential without applying provider changes.'',
          po_reversible = False, po_destructive = True\<rparr>,
         \<lparr>po_op = ''lifecycle.mark_retired'', po_identity = name,
          po_detail = ''Mark the identity retired after provider decommissioning succeeds.'',
          po_reversible = False, po_destructive = True\<rparr>])"

definition planned_operations ::
  "'w env \<Rightarrow> machine_identity \<Rightarrow> bool \<Rightarrow> 'w \<Rightarrow> operations result \<times> 'w" where
  "planned_operations env identity rot w =
     (case ad_identity_planner (en_adapter env) of
        Some planner \<Rightarrow>
          (if rot then pn_rotate planner identity w else pn_retire planner identity w)
      | None \<Rightarrow>
          (case ad_planner (en_adapter env) of
             Some planner \<Rightarrow>
               (let p = pb_provider_id (mi_provider identity);
                    key = (if trim_space p = [] then mi_name identity else p)
                in if rot then pn_rotate planner key w else pn_retire planner key w)
           | None \<Rightarrow> (Inr (Some (fallback_operations (mi_name identity) rot)), w)))"

definition make_plan ::
  "'w env \<Rightarrow> machine_identity \<Rightarrow> bool \<Rightarrow> 'w \<Rightarrow> plan result \<times> 'w" where
  "make_plan env identity rot w =
     (case planned_operations env identity rot w of
        (Inl err, w') \<Rightarrow> (Inl (providerOperationError err), w')
      | (Inr operations, w') \<Rightarrow>
          (let p = \<lparr>pl_dry_run = True, pl_operations = operations,
                 pl_expires_hint = ''Re-plan immediately before applying; provider state may change.''\<rparr>
           in case ValidatePlan (Some p) of
                Inl err \<Rightarrow> (Inl (nonconformant (''planner returned an invalid plan: '' @ err_text err)), w')
              | Inr _ \<Rightarrow> (Inr p, w')))"


section \<open>Rotate\<close>

definition sweeper_actor :: string where "sweeper_actor = ''system:sweeper''"

text \<open>The guards under the lock, in the code's order.\<close>

definition rotate_admit :: "rotate_request \<Rightarrow> store \<Rightarrow> machine_identity result" where
  "rotate_admit req st =
     (case ValidateRotateRequest (Some req) of
        Inl err \<Rightarrow> Inl err
      | Inr _ \<Rightarrow>
          (case lookup (st_identities st) (ro_id req) of
             None \<Rightarrow> Inl (sentinel_error ErrNotFound)
           | Some identity \<Rightarrow>
               if mi_state identity = StateRetired then Inl (sentinel_error ErrAlreadyRetired)
               else if mi_state identity = StateRenewing then Inl (sentinel_error ErrRotationInProgress)
               else if \<not> CanTransition (mi_state identity) StateRenewing then
                 Inl (wrap_error ErrInvalidTransition (state_text (mi_state identity) @ '' -> renewing''))
               else Inr identity))"

definition workflow_actor :: "string \<Rightarrow> string" where
  "workflow_actor operator = (if operator = sweeper_actor then operator else ActorControlPlane)"

definition terminal_actor :: "string \<Rightarrow> string" where
  "terminal_actor operator = (if operator = sweeper_actor then operator else ActorProviderAdapter)"

text \<open>Allocate the run, mark the identity renewing and audit the request and the dispatch.\<close>

definition started_run :: "nat \<Rightarrow> machine_identity \<Rightarrow> string \<Rightarrow> time \<Rightarrow> rotation_run" where
  "started_run n identity operator now =
     \<lparr>rr_id = run_label n, rr_identity_id = mi_id identity, rr_status = RotationRunning,
      rr_requested_by = operator, rr_requested_at = now, rr_started_at = now, rr_finished_at = 0,
      rr_outcome = OutcomeOther [], rr_evidence = zero_credential, rr_error = []\<rparr>"

definition rotate_begin ::
  "'w env \<Rightarrow> rotate_request \<Rightarrow> machine_identity \<Rightarrow> time \<Rightarrow> 'w sys
     \<Rightarrow> machine_identity \<times> rotation_run \<times> nat \<times> 'w sys" where
  "rotate_begin env req identity0 now s =
     (let st = fst s; n = st_next_run st + 1; operator = rotate_actor req;
          run = started_run n identity0 operator now;
          runIndex = length (slice_at (st_runs st) (mi_id identity0));
          identity = identity0\<lparr>mi_state := StateRenewing\<rparr>;
          s1 = (set_identity identity
                  (st\<lparr>st_next_run := n, st_runs := push (mi_id identity0) run (st_runs st)\<rparr>), snd s);
          s2 = addEvent env (mi_id identity) now EventRotationRequested
            (''Rotation requested by '' @ operator) operator OutcomeInProgress
            [(''reason'', ro_reason req)] (rr_id run) s1;
          s3 = addEvent env (mi_id identity) now EventRotationStarted
            (''Rotation dispatched to '' @ pb_provider (mi_provider identity))
            (workflow_actor operator) OutcomeInProgress [] (rr_id run) s2
      in (identity, run, runIndex, s3))"

text \<open>The provider refused: back to active with attention health, the run failed.\<close>

definition set_run :: "nat \<Rightarrow> rotation_run \<Rightarrow> store \<Rightarrow> store" where
  "set_run i run st = st\<lparr>st_runs := set_at (rr_identity_id run) i run (st_runs st)\<rparr>"

definition rotate_failed ::
  "'w env \<Rightarrow> rotate_request \<Rightarrow> machine_identity \<Rightarrow> rotation_run \<Rightarrow> nat \<Rightarrow> go_error \<Rightarrow> time
     \<Rightarrow> 'w sys \<Rightarrow> 'w sys" where
  "rotate_failed env req identity0 run0 runIndex err now s =
     (let identity = identity0\<lparr>mi_state := StateActive, mi_health := HealthAttention\<rparr>;
          run = run0\<lparr>rr_status := RotationFailed, rr_outcome := OutcomeFailure,
             rr_finished_at := now, rr_error := err_text err\<rparr>;
          s1 = (set_run runIndex run (set_identity identity (fst s)), snd s)
      in addEvent env (mi_id identity) now EventRotationFailed
           (''Rotation failed at the provider: '' @ err_text err)
           (terminal_actor (rotate_actor req)) OutcomeFailure [] (rr_id run) s1)"

text \<open>
  The provider rotated: its view replaces the identity, governance sets the identifier, the
  state and the expiry. The period is parsed from the policy the store held; a period that does
  not parse counts as zero.
\<close>

definition renewal_duration :: "machine_identity \<Rightarrow> duration" where
  "renewal_duration identity =
     (case ParseISO8601Duration (lp_renewal_period (mi_policy identity)) of Inl _ \<Rightarrow> 0 | Inr d \<Rightarrow> d)"

definition renewed_identity ::
  "string \<Rightarrow> machine_identity \<Rightarrow> machine_identity \<Rightarrow> time \<Rightarrow> machine_identity" where
  "renewed_identity key identity providerView now =
     providerView\<lparr>mi_id := key, mi_state := StateActive, mi_health := HealthHealthy,
       mi_expires_at := now + renewal_duration identity,
       mi_last_rotated_at := now, mi_updated_at := now\<rparr>"

definition rotate_completed ::
  "'w env \<Rightarrow> rotate_request \<Rightarrow> machine_identity \<Rightarrow> machine_identity \<Rightarrow> rotation_run \<Rightarrow> nat \<Rightarrow> time
     \<Rightarrow> 'w sys \<Rightarrow> machine_identity \<times> rotation_run \<times> 'w sys" where
  "rotate_completed env req identity0 providerView run0 runIndex now s =
     (let identity = renewed_identity (ro_id req) identity0 providerView now;
          run = run0\<lparr>rr_status := RotationSucceeded, rr_outcome := OutcomeSuccess,
             rr_finished_at := now, rr_evidence := mi_credential identity\<rparr>;
          s1 = (set_run runIndex run (set_identity identity (fst s)), snd s)
      in (identity, run,
          addEvent env (mi_id identity) now EventRotationCompleted
            ''New credential verified against provider state''
            (terminal_actor (rotate_actor req)) OutcomeSuccess
            [(''key_id'', cr_key_id (mi_credential identity)),
             (''fingerprint'', cr_fingerprint (mi_credential identity))] (rr_id run) s1))"

text \<open>After the lock is released: deliver the renewed secret, if the adapter kept one.\<close>

definition rotate_deliver ::
  "'w env \<Rightarrow> machine_identity \<Rightarrow> time \<Rightarrow> 'w sys \<Rightarrow> machine_identity \<times> 'w sys" where
  "rotate_deliver env identity now s =
     (case ad_secretor (en_adapter env) of
        None \<Rightarrow> (identity, s)
      | Some consume \<Rightarrow>
          (case consume (pb_provider (mi_provider identity)) (snd s) of
             (renewed, w') \<Rightarrow>
               if renewed \<noteq> [] then
                 (case deliver_both env identity (cr_key_id (mi_credential identity)) renewed now (fst s, w') of
                    (_, _, identity', s') \<Rightarrow> (identity', s'))
               else (identity, fst s, w')))"

definition Rotate :: "'w env \<Rightarrow> rotate_request \<Rightarrow> time \<Rightarrow> (rotate_response, 'w) op" where
  "Rotate env req now s =
     (case rotate_admit req (fst s) of
        Inl err \<Rightarrow> (Inl err, s)
      | Inr identity0 \<Rightarrow>
          if ro_dry_run req then
            (case make_plan env identity0 True (snd s) of
               (Inl err, w') \<Rightarrow> (Inl err, fst s, w')
             | (Inr p, w') \<Rightarrow>
                 (Inr \<lparr>ror_api_version = Version, ror_identity = identity0, ror_rotation = zero_run,
                    ror_events = [], ror_plan = Some p\<rparr>, fst s, w'))
          else
            (case rotate_begin env req identity0 now s of
               (identity1, run, runIndex, s1) \<Rightarrow>
                 (case ad_rotate (en_adapter env) identity1 (snd s1) of
                    (Inl err, w2) \<Rightarrow>
                      (case persistLocked env (rotate_failed env req identity1 run runIndex err now (fst s1, w2)) of
                         (Inl perr, s3) \<Rightarrow> (Inl perr, s3)
                       | (Inr _, s3) \<Rightarrow> (Inl (providerOperationError err), s3))
                  | (Inr providerView, w2) \<Rightarrow>
                      (case rotate_completed env req identity1 providerView run runIndex now (fst s1, w2) of
                         (identity2, run2, s3) \<Rightarrow>
                           (case rotate_deliver env identity2 now s3 of
                              (identity3, s4) \<Rightarrow>
                                (case persistLocked env s4 of
                                   (Inl perr, s5) \<Rightarrow> (Inl perr, s5)
                                 | (Inr _, s5) \<Rightarrow>
                                     (Inr \<lparr>ror_api_version = Version, ror_identity = identity3,
                                        ror_rotation = run2,
                                        ror_events = eventsSnapshotLocked (fst s5) (mi_id identity3),
                                        ror_plan = None\<rparr>, s5)))))))"

section \<open>Retire\<close>

definition retire_admit :: "retire_request \<Rightarrow> store \<Rightarrow> machine_identity result" where
  "retire_admit req st =
     (case ValidateRetireRequest (Some req) of
        Inl err \<Rightarrow> Inl err
      | Inr _ \<Rightarrow>
          if \<not> rt_dry_run req \<and> \<not> rt_confirm req then Inl (sentinel_error ErrConfirmationNeeded)
          else
            (case lookup (st_identities st) (rt_id req) of
               None \<Rightarrow> Inl (sentinel_error ErrNotFound)
             | Some identity \<Rightarrow>
                 if mi_state identity = StateRetired then Inl (sentinel_error ErrAlreadyRetired)
                 else if \<not> CanTransition (mi_state identity) StateRetired then
                   Inl (wrap_error ErrInvalidTransition (state_text (mi_state identity) @ '' -> retired''))
                 else Inr identity))"

definition retired_identity :: "string \<Rightarrow> machine_identity \<Rightarrow> time \<Rightarrow> machine_identity" where
  "retired_identity key providerView now =
     providerView\<lparr>mi_id := key, mi_state := StateRetired, mi_health := HealthAttention,
       mi_updated_at := now\<rparr>"

definition retire_completed ::
  "'w env \<Rightarrow> retire_request \<Rightarrow> machine_identity \<Rightarrow> time \<Rightarrow> 'w sys \<Rightarrow> 'w sys" where
  "retire_completed env req identity now s =
     addEvent env (mi_id identity) now EventIdentityRetired
       (''Retired '' @ mi_name identity @ '' ('' @ rt_reason req @ '')'')
       (retire_actor req) OutcomeSuccess [] [] (set_identity identity (fst s), snd s)"

definition Retire :: "'w env \<Rightarrow> retire_request \<Rightarrow> time \<Rightarrow> (retire_response, 'w) op" where
  "Retire env req now s =
     (case retire_admit req (fst s) of
        Inl err \<Rightarrow> (Inl err, s)
      | Inr identity0 \<Rightarrow>
          if rt_dry_run req then
            (case make_plan env identity0 False (snd s) of
               (Inl err, w') \<Rightarrow> (Inl err, fst s, w')
             | (Inr p, w') \<Rightarrow>
                 (Inr \<lparr>rtr_api_version = Version, rtr_identity = identity0, rtr_events = [],
                    rtr_plan = Some p\<rparr>, fst s, w'))
          else
            (case ad_retire (en_adapter env) identity0 (snd s) of
               (Inl err, w1) \<Rightarrow> (Inl (providerOperationError err), fst s, w1)
             | (Inr providerView, w1) \<Rightarrow>
                 (let identity = retired_identity (rt_id req) providerView now in
                  case persistLocked env (retire_completed env req identity now (fst s, w1)) of
                    (Inl err, s2) \<Rightarrow> (Inl err, s2)
                  | (Inr _, s2) \<Rightarrow>
                      (let s3 = revokeFromVault env identity now s2;
                           s4 = revokeFromCommonVault env identity now s3
                       in (Inr \<lparr>rtr_api_version = Version, rtr_identity = identity,
                             rtr_events = eventsSnapshotLocked (fst s4) (mi_id identity),
                             rtr_plan = None\<rparr>, s4)))))"

section \<open>Delete\<close>

definition delete_admit :: "delete_request \<Rightarrow> store \<Rightarrow> machine_identity result" where
  "delete_admit req st =
     (if \<not> de_confirm req then Inl (sentinel_error ErrConfirmationNeeded)
      else case lookup (st_identities st) (de_id req) of
        None \<Rightarrow> Inl (sentinel_error ErrNotFound)
      | Some identity \<Rightarrow>
          if mi_state identity \<noteq> StateRetired then
            Inl (wrap_error ErrNotRetired (state_text (mi_state identity)))
          else Inr identity)"

definition forget :: "string \<Rightarrow> store \<Rightarrow> store" where
  "forget key st = st\<lparr>st_identities := remove_key key (st_identities st),
     st_events := remove_key key (st_events st), st_runs := remove_key key (st_runs st)\<rparr>"

text \<open>The second critical section: the last event, the final snapshot and the purge.\<close>

definition delete_purge ::
  "'w env \<Rightarrow> delete_request \<Rightarrow> machine_identity \<Rightarrow> time \<Rightarrow> (delete_response, 'w) op" where
  "delete_purge env req identity now s =
     (case lookup (st_identities (fst s)) (de_id req) of
        None \<Rightarrow> (Inl (sentinel_error ErrNotFound), s)
      | Some _ \<Rightarrow>
          (let s1 = addEvent env (mi_id identity) now EventIdentityDeleted
                 (''Permanently deleted '' @ mi_name identity
                    @ '' and its audit trail from the control plane ('' @ de_reason req @ '')'')
                 (delete_actor req) OutcomeSuccess
                 [(''reason'', de_reason req), (''state'', state_text (mi_state identity))] [] s;
               events = eventsSnapshotLocked (fst s1) (mi_id identity)
           in case persistLocked env (forget (mi_id identity) (fst s1), snd s1) of
                (Inl err, s2) \<Rightarrow> (Inl err, s2)
              | (Inr _, s2) \<Rightarrow>
                  (Inr \<lparr>der_api_version = Version, der_deleted = True, der_identity = identity,
                     der_events = events\<rparr>, s2)))"

definition Delete :: "'w env \<Rightarrow> delete_request \<Rightarrow> time \<Rightarrow> (delete_response, 'w) op" where
  "Delete env req now s =
     (case delete_admit req (fst s) of
        Inl err \<Rightarrow> (Inl err, s)
      | Inr identity \<Rightarrow>
          delete_purge env req identity now
            (revokeFromCommonVault env identity now (revokeFromVault env identity now s)))"

section \<open>Use\<close>

text \<open>
  The read: the native vault, and the cluster vault only where there is no native one or it is
  intentionally unsupported. The flag says which one served.
\<close>

definition read_credential ::
  "'w env \<Rightarrow> machine_identity \<Rightarrow> string \<Rightarrow> 'w \<Rightarrow> (bool \<times> string \<times> vault_reference) result \<times> 'w" where
  "read_credential env identity version w =
     (let key_id = cr_key_id (mi_credential identity);
          cluster = (\<lambda>native_text w'. case en_common_vault env of
              None \<Rightarrow> (Inl (wrap_error ErrProviderFailure native_text), w')
            | Some common \<Rightarrow>
                (case va_read common identity key_id version w' of
                   (Inl err, w'') \<Rightarrow> (Inl (wrap_error ErrProviderFailure (err_text err)), w'')
                 | (Inr (value, ref), w'') \<Rightarrow> (Inr (True, value, ref), w'')))
      in case ad_vault (en_adapter env) of
           None \<Rightarrow>
             if en_common_vault env = None then (Inl (sentinel_error ErrVaultUnsupported), w)
             else cluster ''<nil>'' w
         | Some vault \<Rightarrow>
             (case va_read vault identity key_id version w of
                (Inr (value, ref), w') \<Rightarrow> (Inr (False, value, ref), w')
              | (Inl err, w') \<Rightarrow>
                  if \<not> errors_is err ErrVaultUnsupported then
                    (Inl (wrap_error ErrProviderFailure (err_text err)), w')
                  else cluster (err_text err) w'))"

definition use_event ::
  "'w env \<Rightarrow> use_request \<Rightarrow> machine_identity \<Rightarrow> bool \<Rightarrow> vault_reference \<Rightarrow> time \<Rightarrow> 'w sys \<Rightarrow> 'w sys" where
  "use_event env req identity fromClusterVault ref now =
     (let base = [(''key_id'', cr_key_id (mi_credential identity))] in
      addEvent env (mi_id identity) now EventCredentialUsed
        (if fromClusterVault then
           ''Credential retrieved from the cluster '' @ mu @ ''Vault vault by '' @ use_actor req
         else
           ''Credential retrieved from the '' @ providerVaultLabel (pb_provider (mi_provider identity))
             @ '' by '' @ use_actor req)
        (use_actor req) OutcomeSuccess
        (if fromClusterVault then
           base @ [(''vault_kind'', commonVaultKind), (''common_vault_secret'', vr_secret_name ref)]
             @ (if vr_version ref \<noteq> [] then [(''common_vault_version'', vr_version ref)] else [])
             @ url_detail ''common_vault_url'' ref
         else
           base @ [(''vault_secret'', vr_secret_name ref), (''vault_version'', vr_version ref)]
             @ url_detail ''vault_url'' ref) [])"

definition Use :: "'w env \<Rightarrow> use_request \<Rightarrow> time \<Rightarrow> (use_response, 'w) op" where
  "Use env req now s =
     (case Get (fst s) (us_id req) of
        None \<Rightarrow> (Inl (sentinel_error ErrNotFound), s)
      | Some identity \<Rightarrow>
          if mi_state identity = StateRetired then (Inl (sentinel_error ErrAlreadyRetired), s)
          else
            (case read_credential env identity (us_version req) (snd s) of
               (Inl err, w1) \<Rightarrow> (Inl err, fst s, w1)
             | (Inr (fromClusterVault, value, ref), w1) \<Rightarrow>
                 (case persistLocked env (use_event env req identity fromClusterVault ref now (fst s, w1)) of
                    (Inl err, s2) \<Rightarrow> (Inl err, s2)
                  | (Inr _, s2) \<Rightarrow>
                      (Inr \<lparr>usr_api_version = Version, usr_identity = identity,
                         usr_key_id = cr_key_id (mi_credential identity), usr_secret = value,
                         usr_vault = Some ref\<rparr>, s2))))"

end
