(* ===== verification/StoreFacts.thy ===== *)
theory StoreFacts
  imports Lifecycle
begin

text \<open>
  What the store keeps: the invariant \<open>store_ok\<close> of its maps and ledgers, and \<open>settled\<close>, which
  holds between operations: no identity is half-way through a rotation and every run is closed.
  Every operation keeps both; the steps the operations are made of are treated first.
\<close>

section \<open>The invariant\<close>

definition store_ok :: "store \<Rightarrow> bool" where
  "store_ok st \<longleftrightarrow>
     distinct (keys (st_identities st)) \<and>
     (\<forall>k i. lookup (st_identities st) k = Some i \<longrightarrow> mi_id i = k) \<and>
     ledger_ok event_label ev_id ev_identity_id (st_next_event st) (st_events st) \<and>
     ledger_ok run_label rr_id rr_identity_id (st_next_run st) (st_runs st) \<and>
     (\<forall>k. lookup (st_identities st) k = None \<longrightarrow>
        slice_at (st_events st) k = [] \<and> slice_at (st_runs st) k = [])"

definition governed_state :: "state \<Rightarrow> bool" where
  "governed_state s \<longleftrightarrow> s = StateActive \<or> s = StateRetired"

definition run_closed :: "rotation_run \<Rightarrow> bool" where
  "run_closed r \<longleftrightarrow>
     (rr_status r = RotationSucceeded \<and> rr_outcome r = OutcomeSuccess \<or>
      rr_status r = RotationFailed \<and> rr_outcome r = OutcomeFailure) \<and>
     rr_requested_at r = rr_finished_at r"

definition settled :: "store \<Rightarrow> bool" where
  "settled st \<longleftrightarrow>
     (\<forall>k i. lookup (st_identities st) k = Some i \<longrightarrow> governed_state (mi_state i)) \<and>
     (\<forall>k r. r \<in> set (slice_at (st_runs st) k) \<longrightarrow> run_closed r)"

lemma store_okD:
  assumes "store_ok st"
  shows "distinct (keys (st_identities st))"
    and "lookup (st_identities st) k = Some i \<Longrightarrow> mi_id i = k"
    and "ledger_ok event_label ev_id ev_identity_id (st_next_event st) (st_events st)"
    and "ledger_ok run_label rr_id rr_identity_id (st_next_run st) (st_runs st)"
    and "lookup (st_identities st) k = None \<Longrightarrow> slice_at (st_events st) k = []"
    and "lookup (st_identities st) k = None \<Longrightarrow> slice_at (st_runs st) k = []"
  using assms by (auto simp: store_ok_def)

lemma empty_store_ok [simp]: "store_ok empty_store" "settled empty_store"
  by (simp_all add: store_ok_def settled_def empty_store_def)

section \<open>Adding events\<close>

definition record_event :: "string \<Rightarrow> lifecycle_event \<Rightarrow> store \<Rightarrow> store" where
  "record_event k e st = st\<lparr>st_next_event := st_next_event st + 1, st_events := push k e (st_events st)\<rparr>"

lemma fst_addEvent:
  "fst (addEvent env k now ty su ac oc det run s) =
     record_event k (make_event (st_next_event (fst s) + 1) k now ty su ac oc det run) (fst s)"
  by (simp add: addEvent_def record_event_def Let_def split: prod.split)

lemma record_event_simps [simp]:
  "st_identities (record_event k e st) = st_identities st"
  "st_runs (record_event k e st) = st_runs st"
  "st_next_run (record_event k e st) = st_next_run st"
  "slice_at (st_events (record_event k e st)) j =
     (if j = k then slice_at (st_events st) k @ [e] else slice_at (st_events st) j)"
  by (simp_all add: record_event_def)

lemma record_event_ok:
  assumes "store_ok st" and "lookup (st_identities st) k \<noteq> None"
    and "ev_identity_id e = k" and "ev_id e = event_label (st_next_event st + 1)"
  shows "store_ok (record_event k e st)"
proof -
  have "ledger_ok event_label ev_id ev_identity_id (Suc (st_next_event st)) (push k e (st_events st))"
    using assms by (intro event_ledger.ok_push) (simp_all add: store_ok_def)
  with assms(1,2) show ?thesis by (auto simp: store_ok_def record_event_def)
qed

text \<open>
  A store that differs from an earlier one only by events filed under \<open>k\<close>: the effect of
  everything the operations do besides setting identities and runs.
\<close>

inductive audited :: "string \<Rightarrow> store \<Rightarrow> store \<Rightarrow> bool" for k where
  same [intro!, simp]: "audited k st st"
| event: "audited k st st' \<Longrightarrow> ev_identity_id e = k \<Longrightarrow> ev_id e = event_label (st_next_event st' + 1)
    \<Longrightarrow> audited k st (record_event k e st')"

inductive_simps audited_iff: "audited k st st'"

lemma audited_trans: "audited k b c \<Longrightarrow> audited k a b \<Longrightarrow> audited k a c"
  by (induction rule: audited.induct) (auto intro: audited.event)

lemma audited_addEvent [intro!]: "audited k (fst s) (fst (addEvent env k now ty su ac oc det run s))"
  unfolding fst_addEvent by (rule audited.event) (simp_all add: make_event_def)

lemma audited_frame:
  assumes "audited k st st'"
  shows "st_identities st' = st_identities st" and "st_runs st' = st_runs st"
    and "st_next_run st' = st_next_run st"
    and "j \<noteq> k \<Longrightarrow> slice_at (st_events st') j = slice_at (st_events st) j"
    and "\<exists>es. slice_at (st_events st') k = slice_at (st_events st) k @ es"
  using assms by (induction rule: audited.induct) auto

lemma audited_ok:
  assumes "audited k st st'" and "store_ok st" and "lookup (st_identities st) k \<noteq> None"
  shows "store_ok st'"
  using assms
proof (induction rule: audited.induct)
  case (event st st' e)
  then show ?case using audited_frame(1) [OF event(1)] by (intro record_event_ok) simp_all
qed simp

lemma audited_settled: "audited k st st' \<Longrightarrow> settled st \<Longrightarrow> settled st'"
  by (simp add: settled_def audited_frame)

section \<open>Setting identities\<close>

lemma set_identity_simps [simp]:
  "st_events (set_identity i st) = st_events st" "st_runs (set_identity i st) = st_runs st"
  "st_next_event (set_identity i st) = st_next_event st" "st_next_run (set_identity i st) = st_next_run st"
  "lookup (st_identities (set_identity i st)) k =
     (if k = mi_id i then Some i else lookup (st_identities st) k)"
  by (simp_all add: set_identity_def)

lemma set_identity_ok: "store_ok st \<Longrightarrow> store_ok (set_identity i st)"
  by (auto simp: store_ok_def) (simp add: set_identity_def)

lemma set_identity_settled: "settled st \<Longrightarrow> governed_state (mi_state i) \<Longrightarrow> settled (set_identity i st)"
  by (simp add: settled_def)

section \<open>Persistence and vaults\<close>

lemma persistLocked_store [simp]: "fst (snd (persistLocked env s)) = fst s"
  by (auto simp: persistLocked_def split: prod.splits option.splits sum.splits)

lemma persistLocked_error: "persistLocked env s = (Inl e, s') \<Longrightarrow> errors_is e ErrPersistenceFailure"
  by (auto simp: persistLocked_def split: prod.splits option.splits sum.splits)

lemma persistLocked_eq: "persistLocked env s = (r, s') \<Longrightarrow> fst s' = fst s"
  by (metis persistLocked_store snd_conv)

lemma audited_event_pair:
  "audited k st st' \<Longrightarrow> audited k st (fst (addEvent env k now ty su ac oc det run (st', w)))"
  using audited_addEvent [of k "(st', w)"] by (auto intro: audited_trans)

lemma deliverToVault_audited: "audited (mi_id i) (fst s) (fst (snd (deliverToVault env i k sec now s)))"
  by (cases s) (auto simp: deliverToVault_def Let_def intro: audited_event_pair
      split: option.splits prod.splits sum.splits)

lemma mirrorToCommonVault_audited:
  "audited (mi_id i) (fst s) (fst (snd (mirrorToCommonVault env i k sec now s)))"
  by (cases s) (auto simp: mirrorToCommonVault_def Let_def intro: audited_event_pair
      split: option.splits prod.splits sum.splits)

lemma revokeFromVault_audited: "audited (mi_id i) (fst s) (fst (revokeFromVault env i now s))"
  by (cases s) (auto simp: revokeFromVault_def Let_def intro: audited_event_pair
      split: option.splits prod.splits sum.splits)

lemma revokeFromCommonVault_audited: "audited (mi_id i) (fst s) (fst (revokeFromCommonVault env i now s))"
  by (cases s) (auto simp: revokeFromCommonVault_def Let_def intro: audited_event_pair
      split: option.splits prod.splits sum.splits)

text \<open>
  The two deliveries: events of the identity, then at most the identity itself with new
  metadata and a new time of update.
\<close>

definition same_governance :: "machine_identity \<Rightarrow> machine_identity \<Rightarrow> bool" where
  "same_governance i j \<longleftrightarrow> (\<exists>m t. j = i\<lparr>mi_metadata := m, mi_updated_at := t\<rparr>)"

lemma same_governance_refl [simp]: "same_governance i i"
  by (auto simp: same_governance_def intro!: exI [of _ "mi_metadata i"] exI [of _ "mi_updated_at i"])

lemma same_governanceD:
  assumes "same_governance i j"
  shows "mi_id j = mi_id i" "mi_name j = mi_name i" "mi_state j = mi_state i" "mi_health j = mi_health i"
    "mi_provider j = mi_provider i" "mi_credential j = mi_credential i" "mi_policy j = mi_policy i"
    "mi_ownership j = mi_ownership i" "mi_expires_at j = mi_expires_at i"
    "mi_last_rotated_at j = mi_last_rotated_at i" "mi_created_at j = mi_created_at i"
  using assms by (auto simp: same_governance_def)

lemma deliver_both_effect:
  assumes "deliver_both env i k sec now s = (n, c, j, s')"
  obtains st where "audited (mi_id i) (fst s) st" "same_governance i j"
    "fst s' = st \<and> j = i \<or> fst s' = set_identity j st"
proof -
  obtain n1 s1 where 1: "deliverToVault env i k sec now s = (n1, s1)" by (rule prod.exhaust)
  obtain c1 s2 where 2: "mirrorToCommonVault env i k sec now s1 = (c1, s2)" by (rule prod.exhaust)
  have "audited (mi_id i) (fst s) (fst s1)" "audited (mi_id i) (fst s1) (fst s2)"
    using deliverToVault_audited [of i s env k sec now] mirrorToCommonVault_audited [of i s1 env k sec now] 1 2
    by simp_all
  then have au: "audited (mi_id i) (fst s) (fst s2)" by (blast intro: audited_trans)
  from assms 1 2 have j: "same_governance i j \<and> (fst s' = fst s2 \<and> j = i \<or> fst s' = set_identity j (fst s2))"
    by (auto simp: deliver_both_def Let_def same_governance_def split: if_splits)
      (metis machine_identity.surjective machine_identity.update_convs(15,16))+
  with au that show thesis by blast
qed


section \<open>Runs\<close>

lemma add_run_ok:
  assumes ok: "store_ok st" and "lookup (st_identities st) k \<noteq> None"
    and r: "rr_identity_id r = k" "rr_id r = run_label (st_next_run st + 1)"
  shows "store_ok (st\<lparr>st_next_run := st_next_run st + 1, st_runs := push k r (st_runs st)\<rparr>)"
proof -
  have "ledger_ok run_label rr_id rr_identity_id (Suc (st_next_run st)) (push k r (st_runs st))"
    using ok r by (intro run_ledger.ok_push) (simp_all add: store_ok_def)
  with assms show ?thesis by (auto simp: store_ok_def)
qed

lemma set_run_simps [simp]:
  "st_identities (set_run n r st) = st_identities st" "st_events (set_run n r st) = st_events st"
  "st_next_event (set_run n r st) = st_next_event st" "st_next_run (set_run n r st) = st_next_run st"
  "slice_at (st_runs (set_run n r st)) k =
     (if k = rr_identity_id r then (slice_at (st_runs st) k)[n := r] else slice_at (st_runs st) k)"
  by (simp_all add: set_run_def)

lemma set_run_ok:
  assumes "store_ok st" and "n < length (slice_at (st_runs st) (rr_identity_id r))"
    and "rr_id r = rr_id (slice_at (st_runs st) (rr_identity_id r) ! n)"
  shows "store_ok (set_run n r st)"
proof -
  have "ledger_ok run_label rr_id rr_identity_id (st_next_run st)
      (set_at (rr_identity_id r) n r (st_runs st))"
    using assms by (intro run_ledger.ok_set_at) (simp_all add: store_ok_def)
  with assms(1,2) show ?thesis by (auto simp: store_ok_def set_run_def)
qed

section \<open>Rotation\<close>

lemma rotate_admitD:
  assumes "rotate_admit req st = Inr i"
  shows "lookup (st_identities st) (ro_id req) = Some i" and "mi_state i = StateActive"
    and "trim_space (ro_id req) \<noteq> []"
  using assms by (auto simp: rotate_admit_def ValidateRotateRequest_def
      split: sum.splits option.splits if_splits; cases "mi_state i"; simp)+

text \<open>
  The store after a rotation of \<open>k\<close> that ended with the identity \<open>i\<close> and the run \<open>r\<close>: the run is
  appended, the identity replaced, events of \<open>k\<close> appended, everything else as it was.
\<close>

definition rotated :: "string \<Rightarrow> machine_identity \<Rightarrow> rotation_run \<Rightarrow> store \<Rightarrow> store \<Rightarrow> bool" where
  "rotated k i r st st' \<longleftrightarrow>
     st_next_run st' = st_next_run st + 1 \<and>
     (\<forall>j. lookup (st_identities st') j = (if j = k then Some i else lookup (st_identities st) j)) \<and>
     (\<forall>j. slice_at (st_runs st') j =
        (if j = k then slice_at (st_runs st) k @ [r] else slice_at (st_runs st) j)) \<and>
     (\<forall>j. j \<noteq> k \<longrightarrow> slice_at (st_events st') j = slice_at (st_events st) j) \<and>
     (\<exists>es. slice_at (st_events st') k = slice_at (st_events st) k @ es) \<and>
     store_ok st'"

lemma rotated_audited:
  assumes "rotated k i r st st'" and "audited k st' st''"
  shows "rotated k i r st st''"
proof -
  have "lookup (st_identities st') k \<noteq> None" using assms(1) by (simp add: rotated_def)
  with assms have "store_ok st''" by (auto simp: rotated_def intro: audited_ok)
  moreover obtain es where "slice_at (st_events st'') k = slice_at (st_events st') k @ es"
    using audited_frame(5) [OF assms(2)] by blast
  ultimately show ?thesis using assms(1) audited_frame [OF assms(2)] by (auto simp: rotated_def)
qed

lemma rotated_set_identity:
  "rotated k i r st st' \<Longrightarrow> mi_id j = k \<Longrightarrow> rotated k j r st (set_identity j st')"
  by (auto simp: rotated_def set_identity_ok)

lemma rotated_set_run:
  assumes "rotated k i r st st'" and "rr_identity_id q = k" and "rr_id q = rr_id r"
  shows "rotated k i q st (set_run (length (slice_at (st_runs st) k)) q st')"
proof -
  have "store_ok (set_run (length (slice_at (st_runs st) k)) q st')"
    using assms by (intro set_run_ok) (simp_all add: rotated_def)
  with assms show ?thesis by (simp add: rotated_def)
qed

lemma rotate_begin_effect:
  assumes ok: "store_ok (fst s)" and k: "lookup (st_identities (fst s)) k = Some i0"
    and b: "rotate_begin env req i0 now s = (i1, run, n, s1)"
  shows "i1 = i0\<lparr>mi_state := StateRenewing\<rparr>"
    and "run = started_run (st_next_run (fst s) + 1) i0 (rotate_actor req) now"
    and "n = length (slice_at (st_runs (fst s)) k)" and "mi_id i0 = k"
    and "rotated k i1 run (fst s) (fst s1)"
proof -
  define st where "st = fst s"
  have id: "mi_id i0 = k" using store_okD(2) [OF ok k] .
  let ?run = "started_run (st_next_run st + 1) i0 (rotate_actor req) now"
  let ?i = "i0\<lparr>mi_state := StateRenewing\<rparr>"
  let ?base = "st\<lparr>st_next_run := st_next_run st + 1, st_runs := push k ?run (st_runs st)\<rparr>"
  from b id show i1: "i1 = ?i" and run: "run = ?run" and n: "n = length (slice_at (st_runs (fst s)) k)"
    by (simp_all add: rotate_begin_def Let_def st_def)
  have "audited k (set_identity ?i ?base) (fst s1)"
    using b id by (auto simp: rotate_begin_def Let_def st_def intro!: audited_event_pair
        intro: audited_trans [OF audited_addEvent])
  moreover have "store_ok ?base"
    using ok k id by (intro add_run_ok) (simp_all add: st_def started_run_def)
  then have "rotated k ?i ?run st (set_identity ?i ?base)"
    using k id by (simp add: rotated_def set_identity_ok)
  ultimately show "rotated k i1 run (fst s) (fst s1)"
    unfolding i1 run st_def [symmetric] by (rule rotated_audited [rotated])
  show "mi_id i0 = k" by (rule id)
qed

lemma rotate_failed_effect:
  assumes "rotated k i1 run st (fst s1)" and "mi_id i1 = k" and "rr_identity_id run = k"
    and "n = length (slice_at (st_runs st) k)"
  shows "rotated k (i1\<lparr>mi_state := StateActive, mi_health := HealthAttention\<rparr>)
     (run\<lparr>rr_status := RotationFailed, rr_outcome := OutcomeFailure, rr_finished_at := now,
        rr_error := err_text err\<rparr>) st (fst (rotate_failed env req i1 run n err now s1))"
proof -
  let ?i = "i1\<lparr>mi_state := StateActive, mi_health := HealthAttention\<rparr>"
  let ?r = "run\<lparr>rr_status := RotationFailed, rr_outcome := OutcomeFailure, rr_finished_at := now,
        rr_error := err_text err\<rparr>"
  have "rotated k ?i run st (set_identity ?i (fst s1))"
    by (rule rotated_set_identity [OF assms(1)]) (simp add: assms(2))
  then have "rotated k ?i ?r st (set_run n ?r (set_identity ?i (fst s1)))"
    unfolding assms(4) by (rule rotated_set_run) (simp_all add: assms(3))
  moreover have "audited k (set_run n ?r (set_identity ?i (fst s1)))
      (fst (rotate_failed env req i1 run n err now s1))"
    using assms(2) unfolding rotate_failed_def Let_def by (auto intro!: audited_event_pair)
  ultimately show ?thesis by (rule rotated_audited)
qed

lemma rotate_completed_effect:
  assumes "rotated k i1 run st (fst s1)" and "ro_id req = k" and "rr_identity_id run = k"
    and "n = length (slice_at (st_runs st) k)"
    and c: "rotate_completed env req i1 view run n now s1 = (i2, run2, s2)"
  shows "i2 = renewed_identity k i1 view now"
    and "run2 = run\<lparr>rr_status := RotationSucceeded, rr_outcome := OutcomeSuccess,
             rr_finished_at := now, rr_evidence := mi_credential i2\<rparr>"
    and "rotated k i2 run2 st (fst s2)"
proof -
  from c assms(2) show i2: "i2 = renewed_identity k i1 view now"
    and run2: "run2 = run\<lparr>rr_status := RotationSucceeded, rr_outcome := OutcomeSuccess,
             rr_finished_at := now, rr_evidence := mi_credential i2\<rparr>"
    by (auto simp: rotate_completed_def Let_def)
  have id: "mi_id i2 = k" by (simp add: i2 renewed_identity_def)
  have "rotated k i2 run st (set_identity i2 (fst s1))"
    using assms(1) id by (rule rotated_set_identity)
  then have "rotated k i2 run2 st (set_run n run2 (set_identity i2 (fst s1)))"
    unfolding assms(4) by (rule rotated_set_run) (simp_all add: assms(3) run2)
  moreover have "audited k (set_run n run2 (set_identity i2 (fst s1))) (fst s2)"
    using c id unfolding rotate_completed_def Let_def by (auto intro!: audited_event_pair)
  ultimately show "rotated k i2 run2 st (fst s2)" by (rule rotated_audited)
qed

lemma rotate_deliver_effect:
  assumes "rotated k i r st (fst s1)" and "mi_id i = k"
    and d: "rotate_deliver env i now s1 = (j, s2)"
  shows "rotated k j r st (fst s2)" and "same_governance i j"
proof -
  have "rotated k j r st (fst s2) \<and> same_governance i j"
  proof (cases "ad_secretor (en_adapter env)")
    case None
    with assms show ?thesis by (simp add: rotate_deliver_def)
  next
    case (Some consume)
    obtain sec w where c: "consume (pb_provider (mi_provider i)) (snd s1) = (sec, w)" by (rule prod.exhaust)
    show ?thesis
    proof (cases "sec = []")
      case True
      with assms Some c show ?thesis by (auto simp: rotate_deliver_def)
    next
      case False
      obtain a b where db: "deliver_both env i (cr_key_id (mi_credential i)) sec now (fst s1, w) = (a, b, j, s2)"
        using d Some c False by (auto simp: rotate_deliver_def split: prod.splits)
      obtain st1 where "audited (mi_id i) (fst s1) st1" "same_governance i j"
        "fst s2 = st1 \<and> j = i \<or> fst s2 = set_identity j st1"
        using deliver_both_effect [OF db] by auto
      with assms(1,2) show ?thesis
        by (metis rotated_audited rotated_set_identity same_governanceD(1))
    qed
  qed
  then show "rotated k j r st (fst s2)" and "same_governance i j" by simp_all
qed


definition failed_run :: "nat \<Rightarrow> machine_identity \<Rightarrow> string \<Rightarrow> time \<Rightarrow> go_error \<Rightarrow> rotation_run" where
  "failed_run n i operator now err = (started_run n i operator now)\<lparr>rr_status := RotationFailed,
     rr_outcome := OutcomeFailure, rr_finished_at := now, rr_error := err_text err\<rparr>"

definition succeeded_run ::
  "nat \<Rightarrow> machine_identity \<Rightarrow> string \<Rightarrow> time \<Rightarrow> credential_reference \<Rightarrow> rotation_run" where
  "succeeded_run n i operator now evidence = (started_run n i operator now)\<lparr>rr_status := RotationSucceeded,
     rr_outcome := OutcomeSuccess, rr_finished_at := now, rr_evidence := evidence\<rparr>"

lemma runs_closed [simp]:
  "run_closed (failed_run n i operator now err)" "run_closed (succeeded_run n i operator now ev)"
  by (simp_all add: run_closed_def failed_run_def succeeded_run_def started_run_def)

lemma Rotate_effect:
  assumes ok: "store_ok (fst s)" and r: "Rotate env req now s = (res, s')"
  obtains
    (refused) e where "rotate_admit req (fst s) = Inl e" "res = Inl e" "s' = s"
  | (dry) i where "rotate_admit req (fst s) = Inr i" "ro_dry_run req" "fst s' = fst s"
      "snd s' = snd (make_plan env i True (snd s))"
      "res = (case fst (make_plan env i True (snd s)) of Inl e \<Rightarrow> Inl e
         | Inr p \<Rightarrow> Inr \<lparr>ror_api_version = Version, ror_identity = i, ror_rotation = zero_run,
             ror_events = [], ror_plan = Some p\<rparr>)"
  | (failed) i e w where "rotate_admit req (fst s) = Inr i" "\<not> ro_dry_run req"
      "fst (ad_rotate (en_adapter env) (i\<lparr>mi_state := StateRenewing\<rparr>) w) = Inl e"
      "rotated (ro_id req) (i\<lparr>mi_state := StateActive, mi_health := HealthAttention\<rparr>)
         (failed_run (st_next_run (fst s) + 1) i (rotate_actor req) now e) (fst s) (fst s')"
      "res = Inl (providerOperationError e) \<or> (\<exists>pe. res = Inl pe \<and> errors_is pe ErrPersistenceFailure)"
  | (completed) i view j w where "rotate_admit req (fst s) = Inr i" "\<not> ro_dry_run req"
      "fst (ad_rotate (en_adapter env) (i\<lparr>mi_state := StateRenewing\<rparr>) w) = Inr view"
      "same_governance (renewed_identity (ro_id req) i view now) j"
      "rotated (ro_id req) j
         (succeeded_run (st_next_run (fst s) + 1) i (rotate_actor req) now (mi_credential j)) (fst s) (fst s')"
      "res = Inr \<lparr>ror_api_version = Version, ror_identity = j,
           ror_rotation = succeeded_run (st_next_run (fst s) + 1) i (rotate_actor req) now (mi_credential j),
           ror_events = slice_at (st_events (fst s')) (ro_id req), ror_plan = None\<rparr>
       \<or> (\<exists>pe. res = Inl pe \<and> errors_is pe ErrPersistenceFailure)"
proof (cases "rotate_admit req (fst s)")
  case (Inl e)
  have "res = Inl e" "s' = s" using r unfolding Rotate_def Inl by simp_all
  then show thesis by (rule refused [OF Inl])
next
  case (Inr i)
  note admit = Inr and look = rotate_admitD(1) [OF Inr]
  show thesis
  proof (cases "ro_dry_run req")
    case True
    with r admit show thesis
      by (cases "make_plan env i True (snd s)") (rule dry [OF admit True];
        auto simp: Rotate_def split: sum.splits)
  next
    case False
    obtain i1 run n s1 where b: "rotate_begin env req i now s = (i1, run, n, s1)" by (rule prod_cases4)
    note begun = rotate_begin_effect [OF ok look b]
    have id1: "mi_id i1 = ro_id req" and idr: "rr_identity_id run = ro_id req"
      using begun(1,2,4) by (simp_all add: started_run_def)
    have ren: "renewed_identity k i1 view now = renewed_identity k i view now" for k view
      by (simp add: begun(1) renewed_identity_def renewal_duration_def)
    obtain a w where rot: "ad_rotate (en_adapter env) i1 (snd s1) = (a, w)" by (rule prod.exhaust)
    show thesis
    proof (cases a)
      case (Inl e)
      have re: "rotated (ro_id req) i1 run (fst s) (fst (fst s1, w))" using begun(5) by simp
      note st = rotate_failed_effect [OF re id1 idr begun(3), where now = now and err = e and env = env and req = req, simplified fst_conv]
      obtain pr s3 where p: "persistLocked env (rotate_failed env req i1 run n e now (fst s1, w)) = (pr, s3)"
        by (rule prod.exhaust)
      have res: "res = (case pr of Inl pe \<Rightarrow> Inl pe | Inr _ \<Rightarrow> Inl (providerOperationError e))" and s3: "s3 = s'"
        using r admit False b rot Inl p by (simp_all add: Rotate_def split: sum.splits)
      show thesis
      proof (rule failed [OF admit False])
        show "fst (ad_rotate (en_adapter env) (i\<lparr>mi_state := StateRenewing\<rparr>) (snd s1)) = Inl e"
          using rot Inl begun(1) by simp
        show "rotated (ro_id req) (i\<lparr>mi_state := StateActive, mi_health := HealthAttention\<rparr>)
            (failed_run (st_next_run (fst s) + 1) i (rotate_actor req) now e) (fst s) (fst s')"
          using st persistLocked_eq [OF p] s3 begun(1,2) by (simp add: failed_run_def)
        show "res = Inl (providerOperationError e) \<or> (\<exists>pe. res = Inl pe \<and> errors_is pe ErrPersistenceFailure)"
          using res p by (cases pr) (auto dest!: persistLocked_error)
      qed
    next
      case (Inr view)
      obtain i2 run2 s2 where c: "rotate_completed env req i1 view run n now (fst s1, w) = (i2, run2, s2)"
        by (rule prod_cases3)
      have re: "rotated (ro_id req) i1 run (fst s) (fst (fst s1, w))" using begun(5) by simp
      note comp = rotate_completed_effect [OF re refl idr begun(3) c]
      obtain j s3 where d: "rotate_deliver env i2 now s2 = (j, s3)" by (rule prod.exhaust)
      have id2: "mi_id i2 = ro_id req" by (simp add: comp(1) renewed_identity_def)
      note del = rotate_deliver_effect [OF comp(3) id2 d]
      have ev: "mi_credential j = mi_credential i2" "mi_id j = ro_id req"
        using same_governanceD [OF del(2)] id2 by simp_all
      have run2: "run2 = succeeded_run (st_next_run (fst s) + 1) i (rotate_actor req) now (mi_credential j)"
        using comp(2) begun(2) ev(1) by (simp add: succeeded_run_def)
      obtain pr s4 where p: "persistLocked env s3 = (pr, s4)" by (rule prod.exhaust)
      have res: "res = (case pr of Inl pe \<Rightarrow> Inl pe | Inr _ \<Rightarrow> Inr \<lparr>ror_api_version = Version,
            ror_identity = j, ror_rotation = run2,
            ror_events = eventsSnapshotLocked (fst s4) (mi_id j), ror_plan = None\<rparr>)" and s4: "s4 = s'"
        using r admit False b rot Inr c d p by (auto simp: Rotate_def split: sum.splits)
      show thesis
      proof (rule completed [OF admit False])
        show "fst (ad_rotate (en_adapter env) (i\<lparr>mi_state := StateRenewing\<rparr>) (snd s1)) = Inr view"
          using rot Inr begun(1) by simp
        show "same_governance (renewed_identity (ro_id req) i view now) j"
          using del(2) comp(1) ren by simp
        show "rotated (ro_id req) j (succeeded_run (st_next_run (fst s) + 1) i (rotate_actor req) now
            (mi_credential j)) (fst s) (fst s')"
          using del(1) persistLocked_eq [OF p] s4 run2 by simp
        show "res = Inr \<lparr>ror_api_version = Version, ror_identity = j,
            ror_rotation = succeeded_run (st_next_run (fst s) + 1) i (rotate_actor req) now (mi_credential j),
            ror_events = slice_at (st_events (fst s')) (ro_id req), ror_plan = None\<rparr>
          \<or> (\<exists>pe. res = Inl pe \<and> errors_is pe ErrPersistenceFailure)"
          using res p run2 s4 ev(2) by (cases pr) (auto simp: eventsSnapshotLocked_def dest!: persistLocked_error)
      qed
    qed
  qed
qed

end
