(* ===== verification/Operations.thy ===== *)
theory Operations
  imports StoreFacts
begin

text \<open>
  The effect of each lifecycle operation on the store, outcome by outcome, and what follows:
  the store invariant is kept, operations are confined to their identity, retirement is
  terminal, and a dry run changes nothing.
\<close>

section \<open>Effects\<close>

text \<open>
  \<open>governed k i st st'\<close>: the identity \<open>k\<close> is now \<open>i\<close>, events of \<open>k\<close> were appended, nothing
  else of the store changed but the event counter.
\<close>

definition governed :: "string \<Rightarrow> machine_identity \<Rightarrow> store \<Rightarrow> store \<Rightarrow> bool" where
  "governed k i st st' \<longleftrightarrow>
     st_next_run st' = st_next_run st \<and> st_runs st' = st_runs st \<and>
     (\<forall>j. lookup (st_identities st') j = (if j = k then Some i else lookup (st_identities st) j)) \<and>
     (\<forall>j. j \<noteq> k \<longrightarrow> slice_at (st_events st') j = slice_at (st_events st) j) \<and>
     (\<exists>es. slice_at (st_events st') k = slice_at (st_events st) k @ es) \<and>
     store_ok st'"

lemma governed_set: "store_ok st \<Longrightarrow> mi_id i = k \<Longrightarrow> governed k i st (set_identity i st)"
  by (auto simp: governed_def set_identity_ok)

lemma governed_audited:
  assumes "governed k i st st'" and "audited k st' st''"
  shows "governed k i st st''"
proof -
  have "lookup (st_identities st') k \<noteq> None" using assms(1) by (simp add: governed_def)
  with assms have "store_ok st''" by (auto simp: governed_def intro: audited_ok)
  moreover obtain es where "slice_at (st_events st'') k = slice_at (st_events st') k @ es"
    using audited_frame(5) [OF assms(2)] by blast
  ultimately show ?thesis using assms(1) audited_frame [OF assms(2)] by (auto simp: governed_def)
qed

lemma governed_set_identity:
  "governed k i st st' \<Longrightarrow> mi_id j = k \<Longrightarrow> governed k j st (set_identity j st')"
  by (auto simp: governed_def set_identity_ok)

lemma audited_governed:
  assumes "audited k st st'" and "store_ok st" and "lookup (st_identities st) k = Some i"
  shows "governed k i st st'"
  using audited_ok [OF assms(1,2)] audited_frame [OF assms(1)] assms(3) by (auto simp: governed_def)

lemma Register_effect:
  assumes ok: "store_ok (fst s)" and r: "Register env req now s = (res, s')"
  obtains
    (refused) e where "res = Inl e" "s' = s"
      "errors_is e ErrConformance \<or>
       (\<exists>i. lookup (st_identities (fst s)) (if rg_id req = [] then rg_name req else rg_id req) = Some i)"
  | (registered) d i where
      "lookup (st_identities (fst s)) (if rg_id req = [] then rg_name req else rg_id req) = None"
      "ParseISO8601Duration (lp_renewal_period (rg_policy req)) = Inr d"
      "i = (registered_identity req now d)\<lparr>mi_id := (if rg_id req = [] then rg_name req else rg_id req)\<rparr>"
      "governed (mi_id i) i (fst s) (fst s')"
      "res = Inr \<lparr>rgr_api_version = Version, rgr_identity = i,
          rgr_events = slice_at (st_events (fst s')) (mi_id i)\<rparr>
       \<or> (\<exists>pe. res = Inl pe \<and> errors_is pe ErrPersistenceFailure)"
proof (cases "registerRequestConforms req")
  case (Inl e)
  then have "errors_is e ErrConformance" by (auto simp: registerRequestConforms_def Let_def split: if_splits)
  moreover have "res = Inl e" "s' = s" using r unfolding Register_def Inl by simp_all
  ultimately show thesis using refused by blast
next
  case (Inr u)
  then obtain d where d: "ParseISO8601Duration (lp_renewal_period (rg_policy req)) = Inr d"
    by (auto simp: registerRequestConforms_def register_violations_def Let_def split: if_splits sum.splits)
  let ?key = "if rg_id req = [] then rg_name req else rg_id req"
  define q where "q = (if rg_id req = [] then req\<lparr>rg_id := rg_name req\<rparr> else req)"
  have qid: "rg_id q = ?key" by (simp add: q_def)
  show thesis
  proof (cases "lookup (st_identities (fst s)) ?key")
    case (Some j)
    have "\<exists>e. res = Inl e" "s' = s"
      using r unfolding Register_def Inr d by (auto simp: q_def [symmetric] qid Some)
    with Some show thesis by (metis refused)
  next
    case None
    let ?i = "registered_identity q now d"
    have i: "?i = (registered_identity req now d)\<lparr>mi_id := ?key\<rparr>" and id: "mi_id ?i = ?key"
      by (simp_all add: registered_identity_def q_def)
    define s2 where "s2 = addEvent env (mi_id ?i) now EventIdentityRegistered
       (''Registered '' @ mi_name ?i @ '' into governance'') (register_actor q) OutcomeSuccess [] []
       (set_identity ?i (fst s), snd s)"
    obtain pr s3 where p: "persistLocked env s2 = (pr, s3)" by (rule prod.exhaust)
    have res: "res = (case pr of Inl pe \<Rightarrow> Inl pe | Inr _ \<Rightarrow> Inr \<lparr>rgr_api_version = Version,
        rgr_identity = ?i, rgr_events = eventsSnapshotLocked (fst s3) (mi_id ?i)\<rparr>)" and s3: "s3 = s'"
      using r p unfolding Register_def Inr d s2_def
      by (auto simp: q_def [symmetric] qid None Let_def split: sum.splits)
    have "governed (mi_id ?i) ?i (fst s) (fst s2)" unfolding s2_def
      by (rule governed_audited [OF governed_set [OF ok refl]]) (simp add: audited_event_pair)
    then have "governed (mi_id ?i) ?i (fst s) (fst s')" using persistLocked_eq [OF p] s3 by simp
    with res p s3 show thesis
      by (intro registered [OF None d i]) (cases pr; auto simp: eventsSnapshotLocked_def dest!: persistLocked_error)+
  qed
qed


text \<open>
  Provisioning: an error before adoption leaves the store alone (a non-conformant identity is
  retired at the provider again); otherwise the identity is governed, whatever the store held
  under that identifier before.
\<close>

lemma Provision_effect:
  assumes ok: "store_ok (fst s)" and r: "Provision env req now s = (res, s')"
  obtains
    (refused) e where "res = Inl e" "fst s' = fst s"
  | (provisioned) create resp w i j where
      "ad_create (en_adapter env) = Some create"
      "create (trim_space (pv_provider req)) (pv_purpose req) (snd s) = (Inr resp, w)"
      "i = provisioned_identity (pvr_identity resp) now" "ValidateIdentity (Some i) = Inr ()"
      "same_governance i j" "governed (mi_id i) j (fst s) (fst s')"
      "(\<exists>v. res = Inr (resp\<lparr>pvr_vault := v, pvr_identity := j, pvr_api_version := Version\<rparr>))
       \<or> (\<exists>pe. res = Inl pe \<and> errors_is pe ErrPersistenceFailure)"
proof -
  define provider where "provider = trim_space (pv_provider req)"
  have early: thesis if "fst s' = fst s" "\<exists>e. res = Inl e" using that refused by blast
  show thesis
  proof (cases "provider = [] \<or> ad_create (en_adapter env) = None")
    case True
    with r show thesis
      by (intro early) (auto simp: Provision_def Let_def provider_def split: option.splits if_splits)
  next
    case False
    then obtain create where c: "ad_create (en_adapter env) = Some create" and np: "provider \<noteq> []" by auto
    obtain cr w where cw: "create provider (pv_purpose req) (snd s) = (cr, w)" by (rule prod.exhaust)
    show thesis
    proof (cases cr)
      case (Inl e)
      with r c np cw show thesis by (intro early) (auto simp: Provision_def Let_def provider_def)
    next
      case (Inr resp)
      let ?i = "provisioned_identity (pvr_identity resp) now"
      show thesis
      proof (cases "mi_name (pvr_identity resp) = [] \<or> (\<exists>e. ValidateIdentity (Some ?i) = Inl e)")
        case True
        with r c np cw Inr show thesis
          by (intro early) (auto simp: Provision_def Let_def provider_def split: prod.splits if_splits sum.splits)
      next
        case False
        then have v: "ValidateIdentity (Some ?i) = Inr ()" using result_unit_cases by metis
        define s1 where "s1 = provision_adopt env req provider ?i now (fst s, w)"
        obtain n cm j s2 where d: "deliver_both env ?i (pvr_key_id resp) (pvr_one_time_secret resp) now s1
            = (n, cm, j, s2)" by (rule prod_cases4)
        obtain pr s3 where p: "persistLocked env s2 = (pr, s3)" by (rule prod.exhaust)
        have res: "(case pr of Inl pe \<Rightarrow> res = Inl pe | Inr _ \<Rightarrow>
            (\<exists>v. res = Inr (resp\<lparr>pvr_vault := v, pvr_identity := j, pvr_api_version := Version\<rparr>)))"
          and s3: "s3 = s'"
          using r c np cw Inr False v d p
          by (auto simp: Provision_def Let_def provider_def [symmetric] s1_def [symmetric] split: sum.splits)
        have "audited (mi_id ?i) (set_identity ?i (fst s)) (fst s1)"
          unfolding s1_def provision_adopt_def Let_def
          by (auto intro!: audited_event_pair intro: audited_trans [OF audited_addEvent])
        then have g1: "governed (mi_id ?i) ?i (fst s) (fst s1)"
          by (rule governed_audited [OF governed_set [OF ok refl]])
        obtain st where st: "audited (mi_id ?i) (fst s1) st" "same_governance ?i j"
          "fst s2 = st \<and> j = ?i \<or> fst s2 = set_identity j st"
          by (rule deliver_both_effect [OF d])
        then have "governed (mi_id ?i) j (fst s) (fst s2)"
          using governed_audited [OF g1 st(1)] governed_set_identity same_governanceD(1) [OF st(2)] by metis
        then have "governed (mi_id ?i) j (fst s) (fst s')" using persistLocked_eq [OF p] s3 by simp
        then show thesis
          using res p by (intro provisioned [OF c _ refl v st(2)])
            (use cw Inr provider_def in \<open>cases pr; auto dest!: persistLocked_error\<close>)+
      qed
    qed
  qed
qed

lemma retire_admitD:
  assumes "retire_admit req st = Inr i"
  shows "lookup (st_identities st) (rt_id req) = Some i" and "mi_state i = StateActive \<or> mi_state i = StateRenewing"
    and "rt_dry_run req \<or> rt_confirm req"
  using assms by (auto simp: retire_admit_def ValidateRetireRequest_def
      split: sum.splits option.splits if_splits; cases "mi_state i"; simp)+

lemma Retire_effect:
  assumes ok: "store_ok (fst s)" and r: "Retire env req now s = (res, s')"
  obtains
    (refused) e where "retire_admit req (fst s) = Inl e" "res = Inl e" "s' = s"
  | (dry) i where "retire_admit req (fst s) = Inr i" "rt_dry_run req" "fst s' = fst s"
      "snd s' = snd (make_plan env i False (snd s))"
      "res = (case fst (make_plan env i False (snd s)) of Inl e \<Rightarrow> Inl e
         | Inr p \<Rightarrow> Inr \<lparr>rtr_api_version = Version, rtr_identity = i, rtr_events = [], rtr_plan = Some p\<rparr>)"
  | (failed) i e where "retire_admit req (fst s) = Inr i" "\<not> rt_dry_run req"
      "fst (ad_retire (en_adapter env) i (snd s)) = Inl e" "fst s' = fst s" "res = Inl (providerOperationError e)"
  | (retired) i view j where "retire_admit req (fst s) = Inr i" "\<not> rt_dry_run req"
      "fst (ad_retire (en_adapter env) i (snd s)) = Inr view"
      "j = retired_identity (rt_id req) view now" "governed (rt_id req) j (fst s) (fst s')"
      "res = Inr \<lparr>rtr_api_version = Version, rtr_identity = j,
           rtr_events = slice_at (st_events (fst s')) (rt_id req), rtr_plan = None\<rparr>
       \<or> (\<exists>pe. res = Inl pe \<and> errors_is pe ErrPersistenceFailure)"
proof (cases "retire_admit req (fst s)")
  case (Inl e)
  have "res = Inl e" "s' = s" using r unfolding Retire_def Inl by simp_all
  then show thesis by (rule refused [OF Inl])
next
  case (Inr i)
  note admit = Inr
  show thesis
  proof (cases "rt_dry_run req")
    case True
    with r admit show thesis
      by (cases "make_plan env i False (snd s)") (rule dry [OF admit True];
        auto simp: Retire_def split: sum.splits)
  next
    case False
    obtain a w where ret: "ad_retire (en_adapter env) i (snd s) = (a, w)" by (rule prod.exhaust)
    show thesis
    proof (cases a)
      case (Inl e)
      with r admit False ret show thesis by (intro failed [OF admit False]) (auto simp: Retire_def)
    next
      case (Inr view)
      let ?j = "retired_identity (rt_id req) view now"
      have id: "mi_id ?j = rt_id req" by (simp add: retired_identity_def)
      define s1 where "s1 = retire_completed env req ?j now (fst s, w)"
      obtain pr s2 where p: "persistLocked env s1 = (pr, s2)" by (rule prod.exhaust)
      have g1: "governed (rt_id req) ?j (fst s) (fst s2)"
        unfolding persistLocked_eq [OF p] s1_def retire_completed_def
        by (rule governed_audited [OF governed_set [OF ok id]]) (simp add: audited_event_pair id)
      show thesis
      proof (cases pr)
        case (Inl pe)
        have "res = Inl pe" "s' = s2"
          using r admit False ret Inr p Inl by (simp_all add: Retire_def Let_def s1_def [symmetric])
        with g1 p Inl ret Inr show thesis
          by (intro retired [OF admit False _ refl]) (auto dest!: persistLocked_error)
      next
        case (Inr u)
        let ?s4 = "revokeFromCommonVault env ?j now (revokeFromVault env ?j now s2)"
        have res: "res = Inr \<lparr>rtr_api_version = Version, rtr_identity = ?j,
            rtr_events = eventsSnapshotLocked (fst s') (mi_id ?j), rtr_plan = None\<rparr>" and s': "s' = ?s4"
          using r admit False ret \<open>a = Inr view\<close> p Inr by (auto simp: Retire_def Let_def s1_def [symmetric])
        have "audited (mi_id ?j) (fst s2) (fst ?s4)"
          by (rule audited_trans [OF revokeFromCommonVault_audited revokeFromVault_audited])
        then have "governed (rt_id req) ?j (fst s) (fst s')" using g1 s' id governed_audited by metis
        with res id ret \<open>a = Inr view\<close> show thesis
          by (intro retired [OF admit False _ refl]) (auto simp: eventsSnapshotLocked_def)
      qed
    qed
  qed
qed


lemma delete_admitD:
  assumes "delete_admit req st = Inr i"
  shows "lookup (st_identities st) (de_id req) = Some i" and "mi_state i = StateRetired" and "de_confirm req"
  using assms by (auto simp: delete_admit_def split: option.splits if_splits)

lemma forget_simps [simp]:
  "lookup (st_identities (forget k st)) j = (if j = k then None else lookup (st_identities st) j)"
  "slice_at (st_events (forget k st)) j = (if j = k then [] else slice_at (st_events st) j)"
  "slice_at (st_runs (forget k st)) j = (if j = k then [] else slice_at (st_runs st) j)"
  "st_next_event (forget k st) = st_next_event st" "st_next_run (forget k st) = st_next_run st"
  by (simp_all add: forget_def)

lemma forget_ok: "store_ok st \<Longrightarrow> store_ok (forget k st)"
  by (auto simp: store_ok_def event_ledger.ok_remove run_ledger.ok_remove forget_def)

text \<open>\<open>forgotten k st st'\<close>: nothing of \<open>k\<close> is left and nothing else changed.\<close>

definition forgotten :: "string \<Rightarrow> store \<Rightarrow> store \<Rightarrow> bool" where
  "forgotten k st st' \<longleftrightarrow>
     st_next_run st' = st_next_run st \<and>
     (\<forall>j. lookup (st_identities st') j = (if j = k then None else lookup (st_identities st) j)) \<and>
     (\<forall>j. slice_at (st_runs st') j = (if j = k then [] else slice_at (st_runs st) j)) \<and>
     (\<forall>j. slice_at (st_events st') j = (if j = k then [] else slice_at (st_events st) j)) \<and>
     store_ok st'"

lemma forgotten_audited: "audited k st st' \<Longrightarrow> store_ok st' \<Longrightarrow> forgotten k st (forget k st')"
  by (simp add: forgotten_def forget_ok audited_frame)

lemma Delete_effect:
  assumes ok: "store_ok (fst s)" and r: "Delete env req now s = (res, s')"
  obtains
    (refused) e where "delete_admit req (fst s) = Inl e" "res = Inl e" "s' = s"
  | (deleted) i es ev where "delete_admit req (fst s) = Inr i" "forgotten (de_id req) (fst s) (fst s')"
      "ev_type ev = EventIdentityDeleted" "ev_identity_id ev = de_id req"
      "res = Inr \<lparr>der_api_version = Version, der_deleted = True, der_identity = i,
           der_events = slice_at (st_events (fst s)) (de_id req) @ es @ [ev]\<rparr>
       \<or> (\<exists>pe. res = Inl pe \<and> errors_is pe ErrPersistenceFailure)"
proof (cases "delete_admit req (fst s)")
  case (Inl e)
  have "res = Inl e" "s' = s" using r unfolding Delete_def Inl by simp_all
  then show thesis by (rule refused [OF Inl])
next
  case (Inr i)
  note look = delete_admitD(1) [OF Inr]
  have id: "mi_id i = de_id req" by (rule store_okD(2) [OF ok look])
  define s1 where "s1 = revokeFromCommonVault env i now (revokeFromVault env i now s)"
  have au: "audited (de_id req) (fst s) (fst s1)"
    unfolding s1_def id [symmetric] by (rule audited_trans [OF revokeFromCommonVault_audited revokeFromVault_audited])
  obtain es where es: "slice_at (st_events (fst s1)) (de_id req) = slice_at (st_events (fst s)) (de_id req) @ es"
    using audited_frame(5) [OF au] by blast
  have still: "lookup (st_identities (fst s1)) (de_id req) = Some i" using audited_frame(1) [OF au] look by simp
  define su where "su = ''Permanently deleted '' @ mi_name i
      @ '' and its audit trail from the control plane ('' @ de_reason req @ '')''"
  define dets where "dets = [(''reason'', de_reason req), (''state'', state_text (mi_state i))]"
  define s2 where "s2 = addEvent env (de_id req) now EventIdentityDeleted su (delete_actor req) OutcomeSuccess dets [] s1"
  define ev where "ev = make_event (st_next_event (fst s1) + 1) (de_id req) now EventIdentityDeleted su
      (delete_actor req) OutcomeSuccess dets []"
  have st2: "fst s2 = record_event (de_id req) ev (fst s1)" by (simp add: s2_def ev_def fst_addEvent)
  have au2: "audited (de_id req) (fst s) (fst s2)"
    unfolding s2_def by (rule audited_trans [OF audited_addEvent au])
  have "store_ok (fst s2)" using audited_ok [OF au2 ok] look by simp
  then have fg: "forgotten (de_id req) (fst s) (forget (de_id req) (fst s2))"
    using au2 by (intro forgotten_audited)
  obtain pr s3 where p: "persistLocked env (forget (de_id req) (fst s2), snd s2) = (pr, s3)" by (rule prod.exhaust)
  have purge: "(res, s') = (case pr of Inl pe \<Rightarrow> (Inl pe, s3) | Inr _ \<Rightarrow> (Inr \<lparr>der_api_version = Version,
      der_deleted = True, der_identity = i, der_events = eventsSnapshotLocked (fst s2) (de_id req)\<rparr>, s3))"
    using r p unfolding Delete_def Inr delete_purge_def s2_def su_def dets_def
    by (simp add: s1_def [symmetric] still id split: sum.splits)
  have "fst s' = forget (de_id req) (fst s2)"
    using purge persistLocked_eq [OF p] by (cases pr) simp_all
  moreover have "eventsSnapshotLocked (fst s2) (de_id req) = slice_at (st_events (fst s)) (de_id req) @ es @ [ev]"
    by (simp add: eventsSnapshotLocked_def st2 es)
  ultimately show thesis
    using fg purge p by (intro deleted [OF Inr, of ev es])
      (cases pr; auto simp: ev_def make_event_def dest!: persistLocked_error)+
qed

lemma Use_effect:
  assumes ok: "store_ok (fst s)" and r: "Use env req now s = (res, s')"
  obtains
    (refused) e where "res = Inl e" "fst s' = fst s"
  | (used) i cluster val ref where
      "lookup (st_identities (fst s)) (us_id req) = Some i" "mi_state i \<noteq> StateRetired"
      "fst (read_credential env i (us_version req) (snd s)) = Inr (cluster, val, ref)"
      "audited (us_id req) (fst s) (fst s')"
      "res = Inr \<lparr>usr_api_version = Version, usr_identity = i, usr_key_id = cr_key_id (mi_credential i),
            usr_secret = val, usr_vault = Some ref\<rparr>
       \<or> (\<exists>pe. res = Inl pe \<and> errors_is pe ErrPersistenceFailure)"
proof (cases "lookup (st_identities (fst s)) (us_id req)")
  case None
  with r show thesis by (intro refused) (auto simp: Use_def Get_def)
next
  case (Some i)
  have id: "mi_id i = us_id req" by (rule store_okD(2) [OF ok Some])
  obtain rd w where rd: "read_credential env i (us_version req) (snd s) = (rd, w)" by (rule prod.exhaust)
  show thesis
  proof (cases "mi_state i = StateRetired \<or> (\<exists>e. rd = Inl e)")
    case True
    with r Some rd have "\<exists>e. res = Inl e" "fst s' = fst s" by (auto simp: Use_def Get_def split: if_splits)
    then show thesis using refused by blast
  next
    case False
    then obtain c v ref where v: "rd = Inr (c, v, ref)" and ns: "mi_state i \<noteq> StateRetired"
      by (metis prod_cases3 sum.exhaust)
    define s1 where "s1 = use_event env req i c ref now (fst s, w)"
    obtain pr s2 where p: "persistLocked env s1 = (pr, s2)" by (rule prod.exhaust)
    have au: "audited (us_id req) (fst s) (fst s1)"
      unfolding s1_def use_event_def Let_def id [symmetric] by (rule audited_event_pair) simp
    have "(res, s') = (case pr of Inl pe \<Rightarrow> (Inl pe, s2) | Inr _ \<Rightarrow> (Inr \<lparr>usr_api_version = Version,
        usr_identity = i, usr_key_id = cr_key_id (mi_credential i), usr_secret = v, usr_vault = Some ref\<rparr>, s2))"
      using r Some ns rd v p by (simp add: Use_def Get_def s1_def [symmetric] split: sum.splits)
    then show thesis using p au persistLocked_eq [OF p] rd v
      by (intro used [OF Some ns]) (cases pr; auto dest!: persistLocked_error)+
  qed
qed


section \<open>Between operations\<close>

definition store_inv :: "store \<Rightarrow> bool" where
  "store_inv st \<longleftrightarrow> store_ok st \<and> settled st"

lemma store_inv_ok: "store_inv st \<Longrightarrow> store_ok st"
  by (simp add: store_inv_def)

lemma store_inv_empty [simp]: "store_inv empty_store"
  by (simp add: store_inv_def)

lemma governed_inv:
  "governed k i st st' \<Longrightarrow> store_inv st \<Longrightarrow> governed_state (mi_state i) \<Longrightarrow> store_inv st'"
  by (simp add: governed_def settled_def store_inv_def)

lemma rotated_inv:
  "rotated k i r st st' \<Longrightarrow> store_inv st \<Longrightarrow> governed_state (mi_state i) \<Longrightarrow> run_closed r \<Longrightarrow> store_inv st'"
  by (auto simp: rotated_def settled_def store_inv_def split: if_splits)

lemma forgotten_inv: "forgotten k st st' \<Longrightarrow> store_inv st \<Longrightarrow> store_inv st'"
  by (auto simp: forgotten_def settled_def store_inv_def split: if_splits)

lemma audited_inv:
  "audited k st st' \<Longrightarrow> store_inv st \<Longrightarrow> lookup (st_identities st) k \<noteq> None \<Longrightarrow> store_inv st'"
  by (simp add: store_inv_def audited_ok audited_settled)

lemmas effect_invs = governed_inv rotated_inv forgotten_inv audited_inv

lemma governed_active [simp]: "governed_state StateActive" "governed_state StateRetired"
  by (simp_all add: governed_state_def)

text \<open>One request to the store, its error if it had one, and the new state.\<close>

datatype request =
    is_Register: OpRegister register_request
  | is_Provision: OpProvision provision_request
  | is_Rotate: OpRotate rotate_request
  | is_Retire: OpRetire retire_request
  | is_Delete: OpDelete delete_request
  | is_Use: OpUse use_request

definition outcome_of :: "'a result \<times> 'w sys \<Rightarrow> go_error option \<times> 'w sys" where
  "outcome_of p = (case fst p of Inl e \<Rightarrow> (Some e, snd p) | Inr _ \<Rightarrow> (None, snd p))"

fun perform :: "'w env \<Rightarrow> request \<Rightarrow> time \<Rightarrow> 'w sys \<Rightarrow> go_error option \<times> 'w sys" where
  "perform env (OpRegister q) now s = outcome_of (Register env q now s)"
| "perform env (OpProvision q) now s = outcome_of (Provision env q now s)"
| "perform env (OpRotate q) now s = outcome_of (Rotate env q now s)"
| "perform env (OpRetire q) now s = outcome_of (Retire env q now s)"
| "perform env (OpDelete q) now s = outcome_of (Delete env q now s)"
| "perform env (OpUse q) now s = outcome_of (Use env q now s)"

fun_cases perform_cases: "perform env q now s = y"

lemma outcome_of_eq: "snd (outcome_of p) = snd p" "fst (outcome_of p) = (case fst p of Inl e \<Rightarrow> Some e | Inr _ \<Rightarrow> None)"
  by (simp_all add: outcome_of_def split: sum.splits)

lemma Register_inv:
  assumes "store_inv (fst s)" shows "store_inv (fst (snd (Register env q now s)))"
proof -
  obtain res s' where r: "Register env q now s = (res, s')" by (rule prod.exhaust)
  have ok: "store_ok (fst s)" using assms by (rule store_inv_ok)
  from ok r show ?thesis
  proof (cases rule: Register_effect)
    case (registered d i)
    have "governed_state (mi_state i)" by (simp add: registered(3) registered_identity_def)
    with assms registered(4) r show ?thesis by (simp add: governed_inv)
  qed (use assms r in simp_all)
qed

lemma Provision_inv:
  assumes "store_inv (fst s)" shows "store_inv (fst (snd (Provision env q now s)))"
proof -
  obtain res s' where r: "Provision env q now s = (res, s')" by (rule prod.exhaust)
  have ok: "store_ok (fst s)" using assms by (rule store_inv_ok)
  from ok r show ?thesis
  proof (cases rule: Provision_effect)
    case (provisioned create resp w i j)
    have "governed_state (mi_state j)"
      using same_governanceD(3) [OF provisioned(5)] by (simp add: provisioned(3) provisioned_identity_def)
    with assms provisioned(6) r show ?thesis by (simp add: governed_inv)
  qed (use assms r in simp_all)
qed

lemma Rotate_inv:
  assumes "store_inv (fst s)" shows "store_inv (fst (snd (Rotate env q now s)))"
proof -
  obtain res s' where r: "Rotate env q now s = (res, s')" by (rule prod.exhaust)
  have ok: "store_ok (fst s)" using assms by (rule store_inv_ok)
  from ok r show ?thesis
  proof (cases rule: Rotate_effect)
    case (failed i e w)
    with assms r show ?thesis by (simp add: rotated_inv [OF failed(4)])
  next
    case (completed i view j w)
    have "governed_state (mi_state j)"
      using same_governanceD(3) [OF completed(4)] by (simp add: renewed_identity_def)
    with assms r show ?thesis by (simp add: rotated_inv [OF completed(5)])
  qed (use assms r in simp_all)
qed

lemma Retire_inv:
  assumes "store_inv (fst s)" shows "store_inv (fst (snd (Retire env q now s)))"
proof -
  obtain res s' where r: "Retire env q now s = (res, s')" by (rule prod.exhaust)
  have ok: "store_ok (fst s)" using assms by (rule store_inv_ok)
  from ok r show ?thesis
  proof (cases rule: Retire_effect)
    case (retired i view j)
    with assms r show ?thesis
      by (simp add: governed_inv [OF retired(5)] retired_identity_def)
  qed (use assms r in simp_all)
qed

lemma Delete_inv:
  assumes "store_inv (fst s)" shows "store_inv (fst (snd (Delete env q now s)))"
proof -
  obtain res s' where r: "Delete env q now s = (res, s')" by (rule prod.exhaust)
  have ok: "store_ok (fst s)" using assms by (rule store_inv_ok)
  from ok r show ?thesis
  proof (cases rule: Delete_effect)
    case (deleted i es ev)
    with assms r show ?thesis by (simp add: forgotten_inv [OF deleted(2)])
  qed (use assms r in simp_all)
qed

lemma Use_inv:
  assumes "store_inv (fst s)" shows "store_inv (fst (snd (Use env q now s)))"
proof -
  obtain res s' where r: "Use env q now s = (res, s')" by (rule prod.exhaust)
  have ok: "store_ok (fst s)" using assms by (rule store_inv_ok)
  from ok r show ?thesis
  proof (cases rule: Use_effect)
    case (used i c v ref)
    with assms r show ?thesis by (simp add: audited_inv [OF used(4)])
  qed (use assms r in simp_all)
qed

lemma perform_inv: "store_inv (fst s) \<Longrightarrow> store_inv (fst (snd (perform env q now s)))"
  by (cases q) (simp_all add: outcome_of_eq Register_inv Provision_inv Rotate_inv Retire_inv Delete_inv Use_inv)

text \<open>Construction from the provider's inventory.\<close>

lemma adopt_inv:
  assumes "store_inv (fst s)" and "adopt env i now s = (res, s')"
  shows "store_inv (fst s')"
proof -
  let ?i = "i\<lparr>mi_created_at := now, mi_updated_at := now, mi_state := StateActive\<rparr>"
  have "fst s' = fst s \<or> audited (mi_id ?i) (set_identity ?i (fst s)) (fst s')"
    using assms(2) by (auto simp: adopt_def Let_def split: sum.splits
        intro!: audited_event_pair intro: audited_trans [OF audited_addEvent])
  then show ?thesis
  proof
    assume "audited (mi_id ?i) (set_identity ?i (fst s)) (fst s')"
    then have "governed (mi_id ?i) ?i (fst s) (fst s')"
      using assms(1) by (intro governed_audited [OF governed_set]) (simp_all add: store_inv_def)
    then show ?thesis using assms(1) by (simp add: governed_inv)
  qed (use assms(1) in simp)
qed

lemma adopt_all_inv: "store_inv (fst s) \<Longrightarrow> store_inv (fst (snd (adopt_all env now is s)))"
proof (induction "is" arbitrary: s)
  case (Cons i "is")
  obtain res s' where a: "adopt env (fixIdentity i) now s = (res, s')" by (rule prod.exhaust)
  with Cons.prems have "store_inv (fst s')" by (rule adopt_inv)
  with Cons.IH a show ?case by (auto split: sum.splits)
qed simp

lemma bootstrap_inv: "bootstrap env now w = (Inr st, w') \<Longrightarrow> store_inv st"
  using adopt_all_inv [of "(empty_store, snd (ad_discover (en_adapter env) w))" env now]
  by (auto simp: bootstrap_def split: prod.splits sum.splits option.splits) (metis fst_conv snd_conv)+

section \<open>Reachable stores\<close>

text \<open>
  The states the control plane goes through from its first start: the world may change on its
  own between any two operations.
\<close>

inductive reachable :: "'w env \<Rightarrow> 'w sys \<Rightarrow> bool" for env where
  boot: "bootstrap env now w = (Inr st, w') \<Longrightarrow> reachable env (st, w')"
| operation: "reachable env s \<Longrightarrow> reachable env (snd (perform env q now s))"
| world: "reachable env (st, w) \<Longrightarrow> reachable env (st, w')"

inductive_cases reachable_elim: "reachable env (st, w)"

lemma reachable_inv: "reachable env s \<Longrightarrow> store_inv (fst s)"
  by (induction rule: reachable.induct) (auto intro: bootstrap_inv perform_inv)

end
