(* ===== verification/StoreProperties.thy ===== *)
theory StoreProperties
  imports Operations
begin

text \<open>
  The properties of the store's lifecycle operations, each with a witness on a small concrete
  control plane: one active identity, an adapter that answers from a table in its world, a
  repository that keeps the last snapshot saved.
\<close>

section \<open>A concrete control plane for the witnesses\<close>

record sample_world =
  sw_saved :: "snapshot option"
  sw_refuse :: bool

definition sample_reference :: vault_reference where
  "sample_reference = \<lparr>vr_url = [], vr_secret_name = ''svc'', vr_version = ''1'', vr_expires_at = 0,
     vr_owner_object_ids = []\<rparr>"

definition sample_vault :: "sample_world vault" where
  "sample_vault = \<lparr>va_store = (\<lambda>i k sec w. (Inr sample_reference, w)),
     va_read = (\<lambda>i k v w. (Inr (''s3cret'', sample_reference), w)),
     va_revoke = (\<lambda>i k w. (Inr sample_reference, w))\<rparr>"

definition sample_created :: provision_response where
  "sample_created = \<lparr>pvr_api_version = Version, pvr_identity = sample_identity,
     pvr_one_time_secret = [], pvr_key_id = ''k1'', pvr_instructions = [], pvr_vault = None\<rparr>"

definition sample_adapter :: "sample_world adapter" where
  "sample_adapter = \<lparr>ad_kind = ''aws'', ad_discover = (\<lambda>w. (Inr [sample_identity], w)),
     ad_rotate = (\<lambda>i w. (if sw_refuse w then Inl (plain_error ''denied'') else Inr i, w)),
     ad_retire = (\<lambda>i w. (Inr i, w)),
     ad_identity_planner = None, ad_planner = None,
     ad_create = Some (\<lambda>p n w. (Inr sample_created, w)),
     ad_vault = Some sample_vault, ad_secretor = None\<rparr>"

definition sample_repository :: "sample_world repository" where
  "sample_repository = \<lparr>re_load = (\<lambda>w. (case sw_saved w of None \<Rightarrow> Inl (sentinel_error ErrNoSnapshot)
       | Some sn \<Rightarrow> Inr sn, w)),
     re_save = (\<lambda>sn w. (Inr (), w\<lparr>sw_saved := Some sn\<rparr>)),
     re_changes = (\<lambda>w. (Inr (), w)), re_close = (\<lambda>w. (Inr (), w))\<rparr>"

definition sample_env :: "sample_world env" where
  "sample_env = \<lparr>en_adapter = sample_adapter, en_common_vault = None,
     en_repository = Some sample_repository, en_audit = None, en_logger = None\<rparr>"

definition sample_store :: store where
  "sample_store = set_identity sample_identity empty_store"

definition sample_sys :: "sample_world sys" where
  "sample_sys = (sample_store, \<lparr>sw_saved = None, sw_refuse = False\<rparr>)"

definition rotate_svc :: "bool \<Rightarrow> rotate_request" where
  "rotate_svc dry = \<lparr>ro_id = ''svc'', ro_requested_by = [], ro_reason = ''scheduled'', ro_metadata = [],
     ro_dry_run = dry\<rparr>"

definition retire_svc :: "bool \<Rightarrow> retire_request" where
  "retire_svc dry = \<lparr>rt_id = ''svc'', rt_requested_by = [], rt_reason = ''unused'', rt_confirm = True,
     rt_dry_run = dry\<rparr>"

definition delete_svc :: delete_request where
  "delete_svc = \<lparr>de_id = ''svc'', de_requested_by = [], de_reason = ''gone'', de_confirm = True\<rparr>"

definition use_svc :: use_request where
  "use_svc = \<lparr>us_id = ''svc'', us_requested_by = [], us_version = []\<rparr>"

definition provision_svc :: provision_request where
  "provision_svc = \<lparr>pv_provider = ''aws'', pv_purpose = ''ci'', pv_requested_by = [], pv_owner_ip = []\<rparr>"

lemma sample_inv [simp]: "store_inv sample_store"
  by (simp add: store_inv_def sample_store_def set_identity_ok set_identity_settled sample_identity_def)

lemma sample_inv_sys [simp]: "store_inv (fst sample_sys)"
  by (simp add: sample_sys_def)

section \<open>Rotation\<close>

text \<open>
  C2. A rotation that succeeds leaves the identity active and healthy, rotated now and expiring
  one renewal period from now (the period of the policy the store held, not of the provider's
  view); appends exactly one run, closed as succeeded, with a fresh number and the new
  credential as evidence; and returns the identity, the run and the audit trail as stored.
\<close>

theorem rotate_success:
  assumes "store_inv (fst s)" and "Rotate env req now s = (Inr resp, s')" and "\<not> ro_dry_run req"
  shows "\<exists>i. lookup (st_identities (fst s)) (ro_id req) = Some i \<and> mi_state i = StateActive \<and>
     (let j = ror_identity resp; r = ror_rotation resp in
        lookup (st_identities (fst s')) (ro_id req) = Some j \<and>
        mi_id j = ro_id req \<and> mi_state j = StateActive \<and> mi_health j = HealthHealthy \<and>
        mi_last_rotated_at j = now \<and> mi_expires_at j = now + renewal_duration i \<and>
        slice_at (st_runs (fst s')) (ro_id req) = slice_at (st_runs (fst s)) (ro_id req) @ [r] \<and>
        rr_id r = run_label (st_next_run (fst s) + 1) \<and> rr_identity_id r = ro_id req \<and>
        rr_status r = RotationSucceeded \<and> rr_outcome r = OutcomeSuccess \<and>
        rr_evidence r = mi_credential j \<and> rr_requested_by r = rotate_actor req \<and>
        ror_events resp = slice_at (st_events (fst s')) (ro_id req) \<and> ror_plan resp = None)"
proof -
  have ok: "store_ok (fst s)" using assms(1) by (rule store_inv_ok)
  from ok assms(2) show ?thesis
  proof (cases rule: Rotate_effect)
    case (completed i view j w)
    note adm = rotate_admitD [OF completed(1)]
    have id: "mi_id i = ro_id req" by (rule store_okD(2) [OF ok adm(1)])
    from completed(6) have resp: "resp = \<lparr>ror_api_version = Version, ror_identity = j,
        ror_rotation = succeeded_run (st_next_run (fst s) + 1) i (rotate_actor req) now (mi_credential j),
        ror_events = slice_at (st_events (fst s')) (ro_id req), ror_plan = None\<rparr>" by simp
    have j: "mi_id j = ro_id req" "mi_state j = StateActive" "mi_health j = HealthHealthy"
      "mi_last_rotated_at j = now" "mi_expires_at j = now + renewal_duration i"
      using same_governanceD [OF completed(4)] by (simp_all add: renewed_identity_def)
    have st: "lookup (st_identities (fst s')) (ro_id req) = Some j"
      "slice_at (st_runs (fst s')) (ro_id req) = slice_at (st_runs (fst s)) (ro_id req) @
         [succeeded_run (st_next_run (fst s) + 1) i (rotate_actor req) now (mi_credential j)]"
      using completed(5) by (simp_all add: rotated_def)
    show ?thesis
      by (intro exI [of _ i] conjI adm(1,2)) (simp add: resp j st id succeeded_run_def started_run_def)
  qed (use assms(3) in auto)
qed

text \<open>A run of an operation, evaluated.\<close>

definition succeeds :: "'a result \<times> 'b \<Rightarrow> bool" where
  "succeeds p = (case fst p of Inl _ \<Rightarrow> False | Inr _ \<Rightarrow> True)"

lemma succeedsE: "succeeds p \<Longrightarrow> (\<And>x y. p = (Inr x, y) \<Longrightarrow> thesis) \<Longrightarrow> thesis"
  by (cases p) (auto simp: succeeds_def split: sum.splits)

theorem rotate_success_witness:
  "\<exists>resp s'. Rotate sample_env (rotate_svc False) 5 sample_sys = (Inr resp, s') \<and>
     mi_state (ror_identity resp) = StateActive \<and> rr_status (ror_rotation resp) = RotationSucceeded"
proof -
  have "succeeds (Rotate sample_env (rotate_svc False) 5 sample_sys)" by code_simp
  then obtain resp s' where r: "Rotate sample_env (rotate_svc False) 5 sample_sys = (Inr resp, s')"
    by (rule succeedsE)
  have "\<not> ro_dry_run (rotate_svc False)" by (simp add: rotate_svc_def)
  from rotate_success [OF sample_inv_sys r this] r show ?thesis by (auto simp: Let_def)
qed


text \<open>
  C3. A rotation the store admitted and that returns an error has either not been saved (the
  error is a persistence failure) or was refused by the provider: then the identity is active
  again with attention health and otherwise exactly as it was, one run was appended, closed as
  failed with the provider's text, and the error carries the provider-failure or the forbidden
  sentinel.
\<close>

theorem rotate_failure:
  assumes "store_inv (fst s)" and "Rotate env req now s = (Inl err, s')"
    and "rotate_admit req (fst s) = Inr i" and "\<not> ro_dry_run req"
  shows "errors_is err ErrPersistenceFailure \<or>
     ((errors_is err ErrProviderFailure \<or> errors_is err ErrForbidden) \<and>
      lookup (st_identities (fst s')) (ro_id req) =
        Some (i\<lparr>mi_state := StateActive, mi_health := HealthAttention\<rparr>) \<and>
      (\<exists>r. slice_at (st_runs (fst s')) (ro_id req) = slice_at (st_runs (fst s)) (ro_id req) @ [r] \<and>
         rr_status r = RotationFailed \<and> rr_outcome r = OutcomeFailure \<and>
         rr_evidence r = zero_credential \<and> rr_finished_at r = now))"
proof -
  from store_inv_ok [OF assms(1)] assms(2) show ?thesis
  proof (cases rule: Rotate_effect)
    case (failed i' e w)
    let ?r = "failed_run (st_next_run (fst s) + 1) i' (rotate_actor req) now e"
    have i: "i' = i" using failed(1) assms(3) by simp
    have "lookup (st_identities (fst s')) (ro_id req) =
        Some (i\<lparr>mi_state := StateActive, mi_health := HealthAttention\<rparr>)"
      and "slice_at (st_runs (fst s')) (ro_id req) = slice_at (st_runs (fst s)) (ro_id req) @ [?r]"
      using failed(4) i by (simp_all add: rotated_def)
    moreover have "rr_status ?r = RotationFailed" "rr_outcome ?r = OutcomeFailure"
      "rr_evidence ?r = zero_credential" "rr_finished_at ?r = now"
      by (simp_all add: failed_run_def started_run_def)
    ultimately show ?thesis using failed(5) providerOperationError_code [of e] by auto
  qed (use assms(3,4) in auto)
qed

theorem rotate_failure_witness:
  "\<exists>err s'. Rotate sample_env (rotate_svc False) 5 (sample_store, \<lparr>sw_saved = None, sw_refuse = True\<rparr>) = (Inl err, s') \<and>
     errors_is err ErrProviderFailure \<and>
     (errors_is err ErrPersistenceFailure \<or>
      lookup (st_identities (fst s')) ''svc'' =
        Some (sample_identity\<lparr>mi_state := StateActive, mi_health := HealthAttention\<rparr>))"
proof -
  let ?s = "(sample_store, \<lparr>sw_saved = None, sw_refuse = True\<rparr>)"
  have "fst (Rotate sample_env (rotate_svc False) 5 ?s) = Inl (wrap_error ErrProviderFailure ''denied'')"
    by code_simp
  then obtain s' where r: "Rotate sample_env (rotate_svc False) 5 ?s = (Inl (wrap_error ErrProviderFailure ''denied''), s')"
    by (metis prod.collapse)
  have a: "rotate_admit (rotate_svc False) (fst ?s) = Inr sample_identity" by code_simp
  have d: "\<not> ro_dry_run (rotate_svc False)" and key: "ro_id (rotate_svc False) = ''svc''"
    by (simp_all add: rotate_svc_def)
  have "store_inv (fst ?s)" by simp
  from rotate_failure [OF this r a d] r key show ?thesis by auto
qed

text \<open>
  The guards of a rotation, in their order: a blank identifier is a conformance error, an
  unknown one not found, a retired identity refused as retired; whatever else is governed is
  admitted, since between operations no identity is renewing. A refused rotation leaves store
  and world untouched.
\<close>

theorem rotate_guards:
  assumes "store_inv (fst s)"
  shows "(trim_space (ro_id req) = [] \<longrightarrow>
        ErrorCode (fst (perform env (OpRotate req) now s)) = ErrCodeConformanceFailure) \<and>
     (trim_space (ro_id req) \<noteq> [] \<and> lookup (st_identities (fst s)) (ro_id req) = None \<longrightarrow>
        ErrorCode (fst (perform env (OpRotate req) now s)) = ErrCodeNotFound) \<and>
     (\<forall>i. trim_space (ro_id req) \<noteq> [] \<and> lookup (st_identities (fst s)) (ro_id req) = Some i \<and>
          mi_state i = StateRetired \<longrightarrow>
        ErrorCode (fst (perform env (OpRotate req) now s)) = ErrCodeAlreadyRetired) \<and>
     ((\<exists>i. rotate_admit req (fst s) = Inr i) \<longleftrightarrow>
        trim_space (ro_id req) \<noteq> [] \<and>
        (\<exists>i. lookup (st_identities (fst s)) (ro_id req) = Some i \<and> mi_state i = StateActive)) \<and>
     (\<forall>e. rotate_admit req (fst s) = Inl e \<longrightarrow> perform env (OpRotate req) now s = (Some e, s))"
proof -
  have gov: "governed_state (mi_state i)" if "lookup (st_identities (fst s)) (ro_id req) = Some i" for i
    using assms that by (simp add: store_inv_def settled_def)
  have refuse: "perform env (OpRotate req) now s = (Some e, s)" if "rotate_admit req (fst s) = Inl e" for e
    using that by (simp add: Rotate_def outcome_of_def)
  consider (blank) "trim_space (ro_id req) = []"
    | (unknown) "trim_space (ro_id req) \<noteq> []" "lookup (st_identities (fst s)) (ro_id req) = None"
    | (known) i where "trim_space (ro_id req) \<noteq> []" "lookup (st_identities (fst s)) (ro_id req) = Some i"
    by fastforce
  then show ?thesis
  proof cases
    case blank
    then have a: "rotate_admit req (fst s) = Inl (nonconformant ''id is required'')"
      by (simp add: rotate_admit_def ValidateRotateRequest_def)
    show ?thesis using blank refuse [OF a] a by (simp add: ErrorCode_def nonconformant_def)
  next
    case unknown
    then have a: "rotate_admit req (fst s) = Inl (sentinel_error ErrNotFound)"
      by (simp add: rotate_admit_def ValidateRotateRequest_def)
    show ?thesis using unknown refuse [OF a] a by (simp add: ErrorCode_def)
  next
    case (known i)
    show ?thesis
    proof (cases "mi_state i = StateRetired")
      case True
      then have a: "rotate_admit req (fst s) = Inl (sentinel_error ErrAlreadyRetired)"
        using known by (simp add: rotate_admit_def ValidateRotateRequest_def)
      show ?thesis using known True refuse [OF a] a by (simp add: ErrorCode_def)
    next
      case False
      then have act: "mi_state i = StateActive" using gov [OF known(2)] by (simp add: governed_state_def)
      then have "rotate_admit req (fst s) = Inr i"
        using known by (simp add: rotate_admit_def ValidateRotateRequest_def)
      with known act show ?thesis by simp
    qed
  qed
qed

theorem rotate_guards_witness:
  "ErrorCode (fst (perform sample_env (OpRotate ((rotate_svc False)\<lparr>ro_id := ''other''\<rparr>)) 5 sample_sys)) = ErrCodeNotFound"
proof -
  have "trim_space ''other'' = ''other''" by (simp add: trim_simps plain_byte_def)
  moreover have "lookup (st_identities (fst sample_sys)) ''other'' = None"
    by (simp add: sample_sys_def sample_store_def empty_store_def sample_identity_def)
  ultimately show ?thesis
    using rotate_guards [OF sample_inv_sys, where env = sample_env and now = 5
      and req = "(rotate_svc False)\<lparr>ro_id := ''other''\<rparr>"]
    by (simp only: rotate_request.select_convs rotate_request.update_convs rotate_svc_def) simp
qed

section \<open>Dry runs\<close>

lemma make_plan_conformant:
  "fst (make_plan env i rot w) = Inr p \<Longrightarrow> conformant_plan p"
  by (auto simp: make_plan_def Let_def ValidatePlan_def conformant_plan_def operation_violations_iff
      split: prod.splits sum.splits option.splits)

lemma make_plan_world: "snd (make_plan env i rot w) = snd (planned_operations env i rot w)"
  by (auto simp: make_plan_def Let_def split: prod.splits sum.splits)

text \<open>
  C25. A dry run of a rotation or a retirement never changes the store, and changes the world
  only through the planner: where the planner reads only (as its interface demands), nothing at
  all changes. The plan it returns is conformant, it comes with the stored identity as it is,
  and no run is reported on the wire.
\<close>

theorem dry_run_pure:
  assumes "ro_dry_run rq" and "rt_dry_run tq"
    and planner: "\<And>i rot w. snd (planned_operations env i rot w) = w"
  shows "snd (Rotate env rq now s) = s \<and> snd (Retire env tq now s) = s \<and>
     (\<forall>resp. fst (Rotate env rq now s) = Inr resp \<longrightarrow>
        lookup (st_identities (fst s)) (ro_id rq) = Some (ror_identity resp) \<and>
        (\<exists>p. ror_plan resp = Some p \<and> conformant_plan p) \<and> wire_rotation resp = None) \<and>
     (\<forall>resp. fst (Retire env tq now s) = Inr resp \<longrightarrow>
        lookup (st_identities (fst s)) (rt_id tq) = Some (rtr_identity resp) \<and>
        (\<exists>p. rtr_plan resp = Some p \<and> conformant_plan p))"
proof -
  have plan: "make_plan env i rot w = (r, w') \<Longrightarrow> w' = w \<and> (\<forall>p. r = Inr p \<longrightarrow> conformant_plan p)"
    for i rot w r w'
    using planner [of i rot w] make_plan_world [of env i rot w] make_plan_conformant [of env i rot w] by simp
  have "snd (Rotate env rq now s) = s \<and>
     (\<forall>resp. fst (Rotate env rq now s) = Inr resp \<longrightarrow>
        lookup (st_identities (fst s)) (ro_id rq) = Some (ror_identity resp) \<and>
        (\<exists>p. ror_plan resp = Some p \<and> conformant_plan p) \<and> wire_rotation resp = None)"
    using assms(1) by (cases s) (auto simp: Rotate_def wire_rotation_def split: sum.splits prod.splits
        dest: plan rotate_admitD(1))
  moreover have "snd (Retire env tq now s) = s \<and>
     (\<forall>resp. fst (Retire env tq now s) = Inr resp \<longrightarrow>
        lookup (st_identities (fst s)) (rt_id tq) = Some (rtr_identity resp) \<and>
        (\<exists>p. rtr_plan resp = Some p \<and> conformant_plan p))"
    using assms(2) by (cases s) (auto simp: Retire_def split: sum.splits prod.splits
        dest: plan retire_admitD(1))
  ultimately show ?thesis by blast
qed

theorem dry_run_pure_witness:
  "snd (Rotate sample_env (rotate_svc True) 5 sample_sys) = sample_sys"
proof -
  have "snd (planned_operations sample_env i rot w) = w" for i rot w
    by (simp add: planned_operations_def sample_env_def sample_adapter_def)
  moreover have "ro_dry_run (rotate_svc True)" "rt_dry_run (retire_svc True)"
    by (simp_all add: rotate_svc_def retire_svc_def)
  ultimately show ?thesis using dry_run_pure by metis
qed


section \<open>Retirement\<close>

lemma retired_refused:
  assumes "lookup (st_identities st) k = Some i" and "mi_state i = StateRetired" and "trim_space k \<noteq> []"
  shows "ro_id rq = k \<Longrightarrow> rotate_admit rq st = Inl (sentinel_error ErrAlreadyRetired)"
    and "rt_id tq = k \<Longrightarrow> rt_dry_run tq \<or> rt_confirm tq \<Longrightarrow>
      retire_admit tq st = Inl (sentinel_error ErrAlreadyRetired)"
  using assms by (auto simp: rotate_admit_def retire_admit_def ValidateRotateRequest_def ValidateRetireRequest_def)

text \<open>
  C14. A retirement that succeeds was confirmed, found the identity active, and leaves it
  retired with attention health, its other data as the provider reported them; runs are
  untouched and the returned trail is the stored one. From then on rotating, retiring or using
  it is refused as already retired, whatever happens to the world in between.
\<close>

theorem retire_success:
  assumes "store_inv (fst s)" and "Retire env req now s = (Inr resp, s')" and "\<not> rt_dry_run req"
  shows "rt_confirm req \<and>
     (\<exists>i view. lookup (st_identities (fst s)) (rt_id req) = Some i \<and> mi_state i = StateActive \<and>
        fst (ad_retire (en_adapter env) i (snd s)) = Inr view \<and>
        rtr_identity resp = view\<lparr>mi_id := rt_id req, mi_state := StateRetired,
          mi_health := HealthAttention, mi_updated_at := now\<rparr>) \<and>
     lookup (st_identities (fst s')) (rt_id req) = Some (rtr_identity resp) \<and>
     st_runs (fst s') = st_runs (fst s) \<and>
     rtr_events resp = slice_at (st_events (fst s')) (rt_id req) \<and>
     (\<forall>w rq tq uq t. ro_id rq = rt_id req \<and> rt_id tq = rt_id req \<and> us_id uq = rt_id req \<and> rt_confirm tq \<longrightarrow>
        fst (perform env (OpRotate rq) t (fst s', w)) = Some (sentinel_error ErrAlreadyRetired) \<and>
        fst (perform env (OpRetire tq) t (fst s', w)) = Some (sentinel_error ErrAlreadyRetired) \<and>
        fst (perform env (OpUse uq) t (fst s', w)) = Some (sentinel_error ErrAlreadyRetired))"
proof -
  have ok: "store_ok (fst s)" using assms(1) by (rule store_inv_ok)
  from ok assms(2) show ?thesis
  proof (cases rule: Retire_effect)
    case (retired i view j)
    note adm = retire_admitD [OF retired(1)]
    have "governed_state (mi_state i)" using assms(1) adm(1) by (simp add: store_inv_def settled_def)
    with adm(2) have act: "mi_state i = StateActive" by (auto simp: governed_state_def)
    have nb: "trim_space (rt_id req) \<noteq> []"
      using retired(1) by (auto simp: retire_admit_def ValidateRetireRequest_def split: if_splits)
    have look: "lookup (st_identities (fst s')) (rt_id req) = Some j" and runs: "st_runs (fst s') = st_runs (fst s)"
      using retired(5) by (simp_all add: governed_def)
    have js: "mi_state j = StateRetired" by (simp add: retired(4) retired_identity_def)
    have resp: "resp = \<lparr>rtr_api_version = Version, rtr_identity = j,
           rtr_events = slice_at (st_events (fst s')) (rt_id req), rtr_plan = None\<rparr>"
      using retired(6) by simp
    have later: "fst (perform env (OpRotate rq) t (fst s', w)) = Some (sentinel_error ErrAlreadyRetired) \<and>
        fst (perform env (OpRetire tq) t (fst s', w)) = Some (sentinel_error ErrAlreadyRetired) \<and>
        fst (perform env (OpUse uq) t (fst s', w)) = Some (sentinel_error ErrAlreadyRetired)"
      if "ro_id rq = rt_id req" "rt_id tq = rt_id req" "us_id uq = rt_id req" "rt_confirm tq" for w rq tq uq t
      using retired_refused [OF look js nb] that look js
      by (simp add: Rotate_def Retire_def Use_def Get_def outcome_of_def)
    have "\<exists>i view. lookup (st_identities (fst s)) (rt_id req) = Some i \<and> mi_state i = StateActive \<and>
        fst (ad_retire (en_adapter env) i (snd s)) = Inr view \<and>
        j = view\<lparr>mi_id := rt_id req, mi_state := StateRetired, mi_health := HealthAttention,
          mi_updated_at := now\<rparr>"
      using adm(1) act retired(3) retired(4) by (auto simp: retired_identity_def)
    moreover have "\<forall>w rq tq uq t. ro_id rq = rt_id req \<and> rt_id tq = rt_id req \<and> us_id uq = rt_id req \<and> rt_confirm tq \<longrightarrow>
        fst (perform env (OpRotate rq) t (fst s', w)) = Some (sentinel_error ErrAlreadyRetired) \<and>
        fst (perform env (OpRetire tq) t (fst s', w)) = Some (sentinel_error ErrAlreadyRetired) \<and>
        fst (perform env (OpUse uq) t (fst s', w)) = Some (sentinel_error ErrAlreadyRetired)"
      using later by blast
    moreover have "rt_confirm req" using adm(3) assms(3) by blast
    ultimately show ?thesis using look runs
      by (simp only: resp retire_response.select_convs simp_thms)
  qed (use assms(3) in auto)
qed

theorem retire_success_witness:
  "\<exists>resp s'. Retire sample_env (retire_svc False) 5 sample_sys = (Inr resp, s') \<and>
     mi_state (rtr_identity resp) = StateRetired \<and>
     fst (perform sample_env (OpUse use_svc) 6 s') = Some (sentinel_error ErrAlreadyRetired)"
proof -
  have "succeeds (Retire sample_env (retire_svc False) 5 sample_sys)" by code_simp
  then obtain resp s' where r: "Retire sample_env (retire_svc False) 5 sample_sys = (Inr resp, s')"
    by (rule succeedsE)
  have d: "\<not> rt_dry_run (retire_svc False)" by (simp add: retire_svc_def)
  note facts = retire_success [OF sample_inv_sys r d]
  then have "mi_state (rtr_identity resp) = StateRetired" by auto
  moreover have "fst (perform sample_env (OpUse use_svc) 6 (fst s', snd s')) = Some (sentinel_error ErrAlreadyRetired)"
    using facts by (elim conjE) (erule allE [of _ "snd s'"], erule allE [of _ "rotate_svc False"],
      erule allE [of _ "retire_svc False"], erule allE [of _ use_svc], erule allE [of _ 6],
      simp add: rotate_svc_def retire_svc_def use_svc_def)
  ultimately show ?thesis using r by simp
qed

text \<open>
  C6. Retirement is terminal: no request other than a deletion or a provisioning, whatever it
  asks for and however it ends, changes the record of a retired identity; and its runs stay.
\<close>

theorem retired_terminal:
  assumes "store_inv (fst s)" and "lookup (st_identities (fst s)) k = Some i" and "mi_state i = StateRetired"
    and "\<not> is_Delete q" and "\<not> is_Provision q"
  shows "lookup (st_identities (fst (snd (perform env q now s)))) k = Some i \<and>
     slice_at (st_runs (fst (snd (perform env q now s)))) k = slice_at (st_runs (fst s)) k"
proof -
  have ok: "store_ok (fst s)" using assms(1) by (rule store_inv_ok)
  show ?thesis
  proof (cases q)
    case (OpRegister r)
    obtain res s' where e: "Register env r now s = (res, s')" by (rule prod.exhaust)
    from ok e have "lookup (st_identities (fst s')) k = Some i \<and>
        slice_at (st_runs (fst s')) k = slice_at (st_runs (fst s)) k"
    proof (cases rule: Register_effect)
      case (registered d j)
      then show ?thesis using assms(2) by (auto simp: governed_def split: if_splits)
    qed (simp add: assms(2))
    with e OpRegister show ?thesis by (simp add: outcome_of_eq)
  next
    case (OpRotate r)
    obtain res s' where e: "Rotate env r now s = (res, s')" by (rule prod.exhaust)
    from ok e have "lookup (st_identities (fst s')) k = Some i \<and>
        slice_at (st_runs (fst s')) k = slice_at (st_runs (fst s)) k"
    proof (cases rule: Rotate_effect)
      case (failed j er w)
      with rotate_admitD [OF failed(1)] assms(2,3) show ?thesis by (auto simp: rotated_def)
    next
      case (completed j view j' w)
      with rotate_admitD [OF completed(1)] assms(2,3) show ?thesis by (auto simp: rotated_def)
    qed (simp_all add: assms(2))
    with e OpRotate show ?thesis by (simp add: outcome_of_eq)
  next
    case (OpRetire r)
    obtain res s' where e: "Retire env r now s = (res, s')" by (rule prod.exhaust)
    from ok e have "lookup (st_identities (fst s')) k = Some i \<and>
        slice_at (st_runs (fst s')) k = slice_at (st_runs (fst s)) k"
    proof (cases rule: Retire_effect)
      case (retired j view j')
      with retire_admitD [OF retired(1)] assms(2,3) show ?thesis by (auto simp: governed_def)
    qed (simp_all add: assms(2))
    with e OpRetire show ?thesis by (simp add: outcome_of_eq)
  next
    case (OpUse r)
    obtain res s' where e: "Use env r now s = (res, s')" by (rule prod.exhaust)
    from ok e have "lookup (st_identities (fst s')) k = Some i \<and>
        slice_at (st_runs (fst s')) k = slice_at (st_runs (fst s)) k"
    proof (cases rule: Use_effect)
      case (used j c v ref)
      with assms(2) show ?thesis by (simp add: audited_frame)
    qed (simp add: assms(2))
    with e OpUse show ?thesis by (simp add: outcome_of_eq)
  qed (use assms(4,5) in simp_all)
qed

definition retired_sys :: "sample_world sys" where
  "retired_sys = (set_identity (sample_identity\<lparr>mi_state := StateRetired\<rparr>) empty_store, snd sample_sys)"

lemma retired_sys_inv: "store_inv (fst retired_sys)"
  by (simp add: store_inv_def retired_sys_def set_identity_ok set_identity_settled)

theorem retired_terminal_witness:
  "lookup (st_identities (fst (snd (perform sample_env (OpRotate (rotate_svc False)) 5 retired_sys)))) ''svc'' =
     Some (sample_identity\<lparr>mi_state := StateRetired\<rparr>)"
proof -
  have l: "lookup (st_identities (fst retired_sys)) ''svc'' = Some (sample_identity\<lparr>mi_state := StateRetired\<rparr>)"
    by (simp add: retired_sys_def sample_identity_def)
  show ?thesis
    using retired_terminal [OF retired_sys_inv l, of "OpRotate (rotate_svc False)" sample_env 5] by simp
qed


section \<open>Deletion\<close>

text \<open>
  C15. A deletion that succeeds was confirmed and found a retired identity; it returns the
  identity and its complete trail, ending with the deletion event; afterwards nothing of the
  identity is left (record, events, runs) while every other identity, its events and its runs
  are as before. Anything else asked for is refused without an effect on the store.
\<close>

theorem delete_purges:
  assumes "store_inv (fst s)" and "Delete env req now s = (res, s')"
  shows "(\<forall>resp. res = Inr resp \<longrightarrow> de_confirm req \<and>
       lookup (st_identities (fst s)) (de_id req) = Some (der_identity resp) \<and>
       mi_state (der_identity resp) = StateRetired \<and>
       (\<exists>es ev. der_events resp = slice_at (st_events (fst s)) (de_id req) @ es @ [ev] \<and>
          ev_type ev = EventIdentityDeleted) \<and>
       (\<forall>j. lookup (st_identities (fst s')) j =
            (if j = de_id req then None else lookup (st_identities (fst s)) j) \<and>
          slice_at (st_events (fst s')) j = (if j = de_id req then [] else slice_at (st_events (fst s)) j) \<and>
          slice_at (st_runs (fst s')) j = (if j = de_id req then [] else slice_at (st_runs (fst s)) j))) \<and>
     (\<forall>e. res = Inl e \<and> \<not> errors_is e ErrPersistenceFailure \<longrightarrow> s' = s \<and>
        (\<not> de_confirm req \<or> lookup (st_identities (fst s)) (de_id req) = None \<or>
         (\<exists>i. lookup (st_identities (fst s)) (de_id req) = Some i \<and> mi_state i = StateActive)))"
proof -
  have ok: "store_ok (fst s)" using assms(1) by (rule store_inv_ok)
  from ok assms(2) show ?thesis
  proof (cases rule: Delete_effect)
    case (refused e)
    have "\<not> de_confirm req \<or> lookup (st_identities (fst s)) (de_id req) = None \<or>
         (\<exists>i. lookup (st_identities (fst s)) (de_id req) = Some i \<and> mi_state i = StateActive)"
    proof (cases "lookup (st_identities (fst s)) (de_id req)")
      case (Some i)
      then have "governed_state (mi_state i)" using assms(1) by (simp add: store_inv_def settled_def)
      with refused(1) Some show ?thesis by (auto simp: delete_admit_def governed_state_def split: if_splits)
    qed simp
    with refused show ?thesis by simp
  next
    case (deleted i es ev)
    note adm = delete_admitD [OF deleted(1)]
    show ?thesis
    proof (intro conjI allI impI)
      fix resp assume "res = Inr resp"
      then have resp: "resp = \<lparr>der_api_version = Version, der_deleted = True, der_identity = i,
           der_events = slice_at (st_events (fst s)) (de_id req) @ es @ [ev]\<rparr>"
        using deleted(5) by simp
      show "de_confirm req" "lookup (st_identities (fst s)) (de_id req) = Some (der_identity resp)"
        "mi_state (der_identity resp) = StateRetired"
        using adm by (simp_all add: resp)
      show "\<exists>es ev. der_events resp = slice_at (st_events (fst s)) (de_id req) @ es @ [ev] \<and>
          ev_type ev = EventIdentityDeleted"
        using deleted(3) by (auto simp: resp)
      fix j
      show "lookup (st_identities (fst s')) j =
            (if j = de_id req then None else lookup (st_identities (fst s)) j)"
        "slice_at (st_events (fst s')) j = (if j = de_id req then [] else slice_at (st_events (fst s)) j)"
        "slice_at (st_runs (fst s')) j = (if j = de_id req then [] else slice_at (st_runs (fst s)) j)"
        using deleted(2) by (simp_all add: forgotten_def)
    qed (use deleted(5) in auto)
  qed
qed

theorem delete_purges_witness:
  "lookup (st_identities (fst (snd (Delete sample_env delete_svc 9 retired_sys)))) ''svc'' = None"
proof -
  have "succeeds (Delete sample_env delete_svc 9 retired_sys)" by code_simp
  then obtain resp s' where r: "Delete sample_env delete_svc 9 retired_sys = (Inr resp, s')"
    by (rule succeedsE)
  from delete_purges [OF retired_sys_inv r] r show ?thesis by (simp add: delete_svc_def)
qed

section \<open>Registration and provisioning\<close>

text \<open>
  Registration never overwrites: it succeeds only for an identifier that is free (the name
  when none is given), the stored identity is active, healthy and expires one parsed renewal
  period from now, and one event is recorded; an identifier in use is refused without an effect,
  whatever the state of its identity.
\<close>

theorem register_fresh:
  assumes "store_inv (fst s)" and "Register env req now s = (res, s')"
  defines "key \<equiv> if rg_id req = [] then rg_name req else rg_id req"
  shows "(lookup (st_identities (fst s)) key \<noteq> None \<longrightarrow> (\<exists>e. res = Inl e) \<and> s' = s) \<and>
     (\<forall>resp. res = Inr resp \<longrightarrow>
        lookup (st_identities (fst s)) key = None \<and>
        lookup (st_identities (fst s')) key = Some (rgr_identity resp) \<and>
        mi_state (rgr_identity resp) = StateActive \<and> mi_health (rgr_identity resp) = HealthHealthy \<and>
        ParseISO8601Duration (lp_renewal_period (rg_policy req)) = Inr (mi_expires_at (rgr_identity resp) - now) \<and>
        rgr_events resp = slice_at (st_events (fst s')) key)"
proof -
  have ok: "store_ok (fst s)" using assms(1) by (rule store_inv_ok)
  from ok assms(2) show ?thesis
  proof (cases rule: Register_effect)
    case (registered d i)
    then have "mi_id i = key" by (simp add: key_def)
    with registered have look: "lookup (st_identities (fst s')) key = Some i" by (simp add: governed_def)
    have i: "mi_state i = StateActive" "mi_health i = HealthHealthy" "mi_expires_at i = now + d"
      using registered(3) by (simp_all add: registered_identity_def)
    have free: "lookup (st_identities (fst s)) key = None" using registered(1) by (simp add: key_def)
    show ?thesis
    proof (intro conjI impI allI)
      fix resp assume "res = Inr resp"
      then have resp: "rgr_identity resp = i" "rgr_events resp = slice_at (st_events (fst s')) (mi_id i)"
        using registered(5) by auto
      show "lookup (st_identities (fst s')) key = Some (rgr_identity resp)"
        "mi_state (rgr_identity resp) = StateActive" "mi_health (rgr_identity resp) = HealthHealthy"
        "ParseISO8601Duration (lp_renewal_period (rg_policy req)) = Inr (mi_expires_at (rgr_identity resp) - now)"
        "rgr_events resp = slice_at (st_events (fst s')) key"
        using look i registered(2) \<open>mi_id i = key\<close> by (simp_all add: resp)
    qed (use free in simp_all)
  qed simp
qed

definition register_svc2 :: register_request where
  "register_svc2 = \<lparr>rg_id = [], rg_name = ''svc2'', rg_display_name = [], rg_namespace = [],
     rg_environment = [], rg_provider = mi_provider sample_identity, rg_ownership = mi_ownership sample_identity,
     rg_policy = mi_policy sample_identity, rg_credential = zero_credential, rg_expires_at = 0,
     rg_requested_by = []\<rparr>"

theorem register_fresh_witness:
  "\<exists>resp s'. Register sample_env register_svc2 5 sample_sys = (Inr resp, s') \<and>
     lookup (st_identities (fst s')) ''svc2'' = Some (rgr_identity resp)"
proof -
  have "succeeds (Register sample_env register_svc2 5 sample_sys)" by code_simp
  then obtain resp s' where r: "Register sample_env register_svc2 5 sample_sys = (Inr resp, s')"
    by (rule succeedsE)
  from register_fresh [OF sample_inv_sys r] r show ?thesis by (simp add: register_svc2_def)
qed




section \<open>Use\<close>

text \<open>The same control plane with vaults that blank the value of every read.\<close>

definition mask_vault :: "'w vault \<Rightarrow> 'w vault" where
  "mask_vault v = v\<lparr>va_read := (\<lambda>i k ver w. case va_read v i k ver w of
     (Inl e, w') \<Rightarrow> (Inl e, w') | (Inr (val, ref), w') \<Rightarrow> (Inr ([], ref), w'))\<rparr>"

definition mask_env :: "'w env \<Rightarrow> 'w env" where
  "mask_env env = env\<lparr>en_adapter := (en_adapter env)\<lparr>ad_vault := map_option mask_vault (ad_vault (en_adapter env))\<rparr>,
     en_common_vault := map_option mask_vault (en_common_vault env)\<rparr>"

lemma mask_env_collaborators [simp]:
  "en_repository (mask_env env) = en_repository env" "en_audit (mask_env env) = en_audit env"
  "en_logger (mask_env env) = en_logger env"
  by (simp_all add: mask_env_def)

lemma audit_append_mask [simp]: "audit_append (mask_env env) = audit_append env"
  by (intro ext) (simp only: audit_append_def mask_env_collaborators)

lemma mask_env_same [simp]:
  "persistLocked (mask_env env) = persistLocked env" "addEvent (mask_env env) = addEvent env"
  by (intro ext, simp only: persistLocked_def addEvent_def mask_env_collaborators audit_append_mask)+

lemma use_event_mask [simp]: "use_event (mask_env env) = use_event env"
  by (intro ext) (simp only: use_event_def mask_env_same)

lemma read_credential_mask:
  "read_credential (mask_env env) i ver w =
     map_prod (map_sum (\<lambda>e. e) (\<lambda>(c, val, ref). (c, [], ref))) (\<lambda>w. w) (read_credential env i ver w)"
  by (auto simp: read_credential_def mask_env_def mask_vault_def Let_def
      split: option.splits prod.splits sum.splits)

text \<open>
  C22. Using a credential leaks nothing into the control plane: with every vault read blanked,
  the store, the saved snapshot, the audit sink and everything else in the world are the same as
  with the real values; only the response differs, in the secret itself.
\<close>

theorem use_keeps_secret:
  "snd (Use (mask_env env) req now s) = snd (Use env req now s) \<and>
   fst (Use (mask_env env) req now s) =
     map_sum (\<lambda>e. e) (\<lambda>resp. resp\<lparr>usr_secret := []\<rparr>) (fst (Use env req now s))"
proof (cases "Get (fst s) (us_id req)")
  case None
  then show ?thesis by (simp add: Use_def)
next
  case (Some i)
  obtain r w where rd: "read_credential env i (us_version req) (snd s) = (r, w)" by (rule prod.exhaust)
  show ?thesis
  proof (cases r)
    case (Inl e)
    with Some rd show ?thesis by (simp add: Use_def read_credential_mask)
  next
    case (Inr p)
    obtain c val ref where p: "p = (c, val, ref)" by (rule prod_cases3)
    obtain pr s2 where "persistLocked env (use_event env req i c ref now (fst s, w)) = (pr, s2)"
      by (rule prod.exhaust)
    with Some rd Inr p show ?thesis by (cases pr) (simp_all add: Use_def read_credential_mask)
  qed
qed

definition native_unsupported :: "'w env \<Rightarrow> machine_identity \<Rightarrow> string \<Rightarrow> 'w \<Rightarrow> 'w \<Rightarrow> bool" where
  "native_unsupported env i ver w w1 \<longleftrightarrow>
     (case ad_vault (en_adapter env) of
        None \<Rightarrow> w1 = w
      | Some v \<Rightarrow> (case va_read v i (cr_key_id (mi_credential i)) ver w of
          (Inl e, w') \<Rightarrow> errors_is e ErrVaultUnsupported \<and> w1 = w' | (Inr _, _) \<Rightarrow> False))"

text \<open>
  Where the secret comes from: a successful use of a known, unretired identity returns what
  the native vault read, or, only if there is no native vault or it declares itself
  unsupported, what the cluster vault read; a native failure of any other kind fails the use as
  a provider failure. Identities and runs never change, and at most events of that identity are
  added.
\<close>

theorem use_routing:
  assumes "store_inv (fst s)" and "Use env req now s = (res, s')"
  shows "st_identities (fst s') = st_identities (fst s) \<and> st_runs (fst s') = st_runs (fst s) \<and>
     (\<forall>resp. res = Inr resp \<longrightarrow>
        (\<exists>i ref. lookup (st_identities (fst s)) (us_id req) = Some i \<and> mi_state i \<noteq> StateRetired \<and>
           usr_identity resp = i \<and> usr_vault resp = Some ref \<and>
           ((\<exists>v w. ad_vault (en_adapter env) = Some v \<and>
               va_read v i (cr_key_id (mi_credential i)) (us_version req) (snd s) = (Inr (usr_secret resp, ref), w)) \<or>
            (\<exists>v w w1. native_unsupported env i (us_version req) (snd s) w1 \<and> en_common_vault env = Some v \<and>
               va_read v i (cr_key_id (mi_credential i)) (us_version req) w1 = (Inr (usr_secret resp, ref), w)))))"
proof -
  have ok: "store_ok (fst s)" using assms(1) by (rule store_inv_ok)
  from ok assms(2) show ?thesis
  proof (cases rule: Use_effect)
    case (used i c val ref)
    have route: "(\<exists>v w. ad_vault (en_adapter env) = Some v \<and>
               va_read v i (cr_key_id (mi_credential i)) (us_version req) (snd s) = (Inr (val, ref), w)) \<or>
            (\<exists>v w w1. native_unsupported env i (us_version req) (snd s) w1 \<and> en_common_vault env = Some v \<and>
               va_read v i (cr_key_id (mi_credential i)) (us_version req) w1 = (Inr (val, ref), w))"
      using used(3) by (auto simp: read_credential_def native_unsupported_def Let_def
          split: option.splits prod.splits sum.splits if_splits)
    from used(1,2,5) route show ?thesis
      by (auto simp: audited_frame [OF used(4)])
  qed simp
qed

theorem use_routing_witness:
  "\<exists>resp s'. Use sample_env use_svc 5 sample_sys = (Inr resp, s') \<and>
     st_identities (fst s') = st_identities (fst sample_sys) \<and> usr_identity resp = sample_identity"
proof -
  have "succeeds (Use sample_env use_svc 5 sample_sys)" by code_simp
  then obtain resp s' where r: "Use sample_env use_svc 5 sample_sys = (Inr resp, s')" by (rule succeedsE)
  have l: "lookup (st_identities (fst sample_sys)) (us_id use_svc) = Some sample_identity"
    by (simp add: sample_sys_def sample_store_def sample_identity_def use_svc_def)
  from use_routing [OF sample_inv_sys r] r l show ?thesis by auto
qed

section \<open>Frames\<close>

fun target :: "request \<Rightarrow> string" where
  "target (OpRegister q) = (if rg_id q = [] then rg_name q else rg_id q)"
| "target (OpProvision q) = []"
| "target (OpRotate q) = ro_id q"
| "target (OpRetire q) = rt_id q"
| "target (OpDelete q) = de_id q"
| "target (OpUse q) = us_id q"

definition same_at :: "string \<Rightarrow> store \<Rightarrow> store \<Rightarrow> bool" where
  "same_at j st st' \<longleftrightarrow> lookup (st_identities st') j = lookup (st_identities st) j \<and>
     slice_at (st_events st') j = slice_at (st_events st) j \<and>
     slice_at (st_runs st') j = slice_at (st_runs st) j"

lemma effects_same_at:
  "governed k i st st' \<Longrightarrow> j \<noteq> k \<Longrightarrow> same_at j st st'"
  "rotated k i r st st' \<Longrightarrow> j \<noteq> k \<Longrightarrow> same_at j st st'"
  "forgotten k st st' \<Longrightarrow> j \<noteq> k \<Longrightarrow> same_at j st st'"
  "audited k st st' \<Longrightarrow> j \<noteq> k \<Longrightarrow> same_at j st st'"
  by (simp_all add: governed_def rotated_def forgotten_def same_at_def audited_frame)

lemma same_at_refl [simp]: "same_at j st st"
  by (simp add: same_at_def)



text \<open>
  C13. An operation that reports an error has left the store as it was, unless the error is that
  the new state could not be saved, or the operation is a rotation the provider refused (which
  records the failed run).
\<close>

theorem errors_leave_store:
  assumes "store_inv (fst s)" and "perform env q now s = (Some e, s')"
  shows "fst s' = fst s \<or> errors_is e ErrPersistenceFailure \<or>
     (is_Rotate q \<and> (errors_is e ErrProviderFailure \<or> errors_is e ErrForbidden))"
proof -
  have ok: "store_ok (fst s)" using assms(1) by (rule store_inv_ok)
  show ?thesis
  proof (cases q)
    case (OpRegister r)
    with assms(2) have r: "Register env r now s = (Inl e, s')"
      by (cases "Register env r now s") (auto simp: outcome_of_def split: sum.splits)
    from ok r show ?thesis by (cases rule: Register_effect) auto
  next
    case (OpProvision r)
    with assms(2) have r: "Provision env r now s = (Inl e, s')"
      by (cases "Provision env r now s") (auto simp: outcome_of_def split: sum.splits)
    from ok r show ?thesis by (cases rule: Provision_effect) auto
  next
    case (OpRotate r)
    with assms(2) have r: "Rotate env r now s = (Inl e, s')"
      by (cases "Rotate env r now s") (auto simp: outcome_of_def split: sum.splits)
    from ok r show ?thesis
      by (cases rule: Rotate_effect) (use providerOperationError_code OpRotate in auto)
  next
    case (OpRetire r)
    with assms(2) have r: "Retire env r now s = (Inl e, s')"
      by (cases "Retire env r now s") (auto simp: outcome_of_def split: sum.splits)
    from ok r show ?thesis by (cases rule: Retire_effect) auto
  next
    case (OpDelete r)
    with assms(2) have r: "Delete env r now s = (Inl e, s')"
      by (cases "Delete env r now s") (auto simp: outcome_of_def split: sum.splits)
    from ok r show ?thesis by (cases rule: Delete_effect) auto
  next
    case (OpUse r)
    with assms(2) have r: "Use env r now s = (Inl e, s')"
      by (cases "Use env r now s") (auto simp: outcome_of_def split: sum.splits)
    from ok r show ?thesis by (cases rule: Use_effect) auto
  qed
qed

theorem errors_leave_store_witness:
  "\<exists>e s'. perform sample_env (OpDelete delete_svc) 5 sample_sys = (Some e, s') \<and> fst s' = fst sample_sys"
proof -
  have c: "ErrorCode (fst (perform sample_env (OpDelete delete_svc) 5 sample_sys)) = ErrCodeConflict" by code_simp
  then obtain e s' where p: "perform sample_env (OpDelete delete_svc) 5 sample_sys = (Some e, s')"
    by (cases "perform sample_env (OpDelete delete_svc) 5 sample_sys"; cases "fst (perform sample_env (OpDelete delete_svc) 5 sample_sys)")
      (auto simp: ErrorCode_def)
  have "\<not> errors_is e ErrPersistenceFailure"
  proof -
    have "fst (perform sample_env (OpDelete delete_svc) 5 sample_sys) = Some (wrap_error ErrNotRetired ''active'')"
      by code_simp
    with p show ?thesis by simp
  qed
  with errors_leave_store [OF sample_inv_sys p] p show ?thesis by auto
qed

end
