(* ===== verification/Lease.thy ===== *)
theory Lease
  imports Adapter
begin

text \<open>
  Leader election (internal/lifecycle/lease.go): the in-memory lease and the lease kept in one
  Redis key. The Redis server and its client are a parameter, a record of the commands the sources
  use; \<open>redis_documented\<close> states what the Redis documentation promises of them. The two Lua
  scripts are part of the sources and are transcribed over these commands.
\<close>

section \<open>Managers\<close>

text \<open>
  \<open>rd_eval\<close> runs a script in one piece; inside a script a command cannot fail, the call as a whole
  can. A key that is not set reads as \<open>None\<close>.
\<close>

record 'w redis =
  rd_setnx :: "string \<Rightarrow> string \<Rightarrow> duration \<Rightarrow> (bool result, 'w) act"
  rd_eval :: "('w \<Rightarrow> int \<times> 'w) \<Rightarrow> (int result, 'w) act"
  rd_get :: "string \<Rightarrow> 'w \<Rightarrow> string option"
  rd_pexpire :: "string \<Rightarrow> int \<Rightarrow> 'w \<Rightarrow> int \<times> 'w"
  rd_del :: "string \<Rightarrow> 'w \<Rightarrow> int \<times> 'w"

record 'w lease_manager =
  lm_try_acquire :: "(bool result, 'w) act"
  lm_renew :: "(unit result, 'w) act"
  lm_release :: "(unit result, 'w) act"
  lm_renew_interval :: "duration option"

definition InMemoryLeaseManager :: "'w lease_manager" where
  "InMemoryLeaseManager = \<lparr>lm_try_acquire = (\<lambda>w. (Inr True, w)), lm_renew = (\<lambda>w. (Inr (), w)),
     lm_release = (\<lambda>w. (Inr (), w)), lm_renew_interval = Some 0\<rparr>"

record redis_lease =
  rl_key :: string
  rl_value :: string
  rl_ttl :: duration

definition lease_space :: "char \<Rightarrow> bool" where
  "lease_space c \<longleftrightarrow> c = CHR '' '' \<or> c = CHR 0x09 \<or> c = CHR 0x0D \<or> c = CHR 0x0A"

definition milliseconds :: "duration \<Rightarrow> int" where
  "milliseconds d = (if 0 \<le> d then d div millisecond else - ((- d) div millisecond))"

definition NewRedisLeaseManager :: "bool \<Rightarrow> string \<Rightarrow> string \<Rightarrow> duration \<Rightarrow> redis_lease result" where
  "NewRedisLeaseManager has_client key0 instance0 ttl =
     (if \<not> has_client then Inl (wrap_error ErrLeaseConfig ''redis client is required'')
      else
        (let key = trim_space key0; instanceID = trim_space instance0 in
         if key = [] \<or> instanceID = [] \<or> list_ex lease_space (key @ instanceID) then
           Inl (wrap_error ErrLeaseConfig
             ''lease key and instance id are required and cannot contain whitespace'')
         else if ttl \<le> 0 then Inl (wrap_error ErrLeaseConfig ''lease TTL must be positive'')
         else if milliseconds ttl \<le> 0 then
           Inl (wrap_error ErrLeaseConfig ''lease TTL must be at least one millisecond'')
         else Inr \<lparr>rl_key = key, rl_value = instanceID, rl_ttl = ttl\<rparr>))"

definition lease_error :: "string \<Rightarrow> go_error \<Rightarrow> go_error" where
  "lease_error what e = GoError (err_wraps e) (what @ '' Redis lease: '' @ err_text e)"

definition redis_try_acquire :: "'w redis \<Rightarrow> redis_lease \<Rightarrow> 'w \<Rightarrow> bool result \<times> 'w" where
  "redis_try_acquire r m w =
     (case rd_setnx r (rl_key m) (rl_value m) (rl_ttl m) w of
        (Inl e, w') \<Rightarrow> (Inl (lease_error ''acquire'' e), w')
      | (Inr acquired, w') \<Rightarrow> (Inr acquired, w'))"

definition renewLeaseScript :: "'w redis \<Rightarrow> string \<Rightarrow> string \<Rightarrow> int \<Rightarrow> 'w \<Rightarrow> int \<times> 'w" where
  "renewLeaseScript r key val ms w =
     (if rd_get r key w = Some val then rd_pexpire r key ms w else (0, w))"

definition releaseLeaseScript :: "'w redis \<Rightarrow> string \<Rightarrow> string \<Rightarrow> 'w \<Rightarrow> int \<times> 'w" where
  "releaseLeaseScript r key val w =
     (if rd_get r key w = Some val then rd_del r key w else (0, w))"

definition redis_renew :: "'w redis \<Rightarrow> redis_lease \<Rightarrow> 'w \<Rightarrow> unit result \<times> 'w" where
  "redis_renew r m w =
     (case rd_eval r (renewLeaseScript r (rl_key m) (rl_value m) (milliseconds (rl_ttl m))) w of
        (Inl e, w') \<Rightarrow> (Inl (lease_error ''renew'' e), w')
      | (Inr result, w') \<Rightarrow> (if result \<noteq> 1 then Inl (sentinel_error ErrLeaseNotHeld) else Inr (), w'))"

definition redis_release :: "'w redis \<Rightarrow> redis_lease \<Rightarrow> 'w \<Rightarrow> unit result \<times> 'w" where
  "redis_release r m w =
     (case rd_eval r (releaseLeaseScript r (rl_key m) (rl_value m)) w of
        (Inl e, w') \<Rightarrow> (Inl (lease_error ''release'' e), w')
      | (Inr result, w') \<Rightarrow> (if result \<noteq> 1 then Inl (sentinel_error ErrLeaseNotHeld) else Inr (), w'))"

definition LeaseRenewInterval :: "redis_lease \<Rightarrow> duration" where
  "LeaseRenewInterval m = (let interval = rl_ttl m div 3 in if interval \<le> 0 then millisecond else interval)"

definition RedisLeaseManager :: "'w redis \<Rightarrow> redis_lease \<Rightarrow> 'w lease_manager" where
  "RedisLeaseManager r m = \<lparr>lm_try_acquire = redis_try_acquire r m, lm_renew = redis_renew r m,
     lm_release = redis_release r m, lm_renew_interval = Some (LeaseRenewInterval m)\<rparr>"

lemma NewRedisLeaseManager_ok:
  assumes "NewRedisLeaseManager c key i ttl = Inr m"
  shows "rl_ttl m = ttl \<and> 0 < milliseconds ttl \<and> rl_key m \<noteq> [] \<and> rl_value m = trim_space i \<and> rl_value m \<noteq> []"
  using assms by (auto simp: NewRedisLeaseManager_def Let_def split: if_splits)

section \<open>What Redis promises\<close>

text \<open>
  The keys that are set, each with its value and the instant at which it expires, and the
  server's clock, as functions of the world. A client error leaves open whether the command took
  effect. Time passes between commands: an expired key is gone, nothing else changes.
\<close>

record 'w redis_view =
  rv_keys :: "'w \<Rightarrow> string \<Rightarrow> (string \<times> time) option"
  rv_clock :: "'w \<Rightarrow> time"

definition same_keys :: "'w redis_view \<Rightarrow> 'w \<Rightarrow> 'w \<Rightarrow> bool" where
  "same_keys v w w' \<longleftrightarrow> rv_keys v w' = rv_keys v w \<and> rv_clock v w' = rv_clock v w"

definition key_written :: "'w redis_view \<Rightarrow> string \<Rightarrow> (string \<times> time) option \<Rightarrow> 'w \<Rightarrow> 'w \<Rightarrow> bool" where
  "key_written v key entry w w' \<longleftrightarrow>
     rv_keys v w' = (rv_keys v w)(key := entry) \<and> rv_clock v w' = rv_clock v w"

definition setnx_documented :: "'w redis \<Rightarrow> 'w redis_view \<Rightarrow> bool" where
  "setnx_documented r v \<longleftrightarrow> (\<forall>key val ttl w res w'. rd_setnx r key val ttl w = (res, w') \<longrightarrow>
     (let written = rv_keys v w key = None \<and>
        key_written v key (Some (val, rv_clock v w + millisecond * milliseconds ttl)) w w'
      in case res of Inr True \<Rightarrow> written
         | Inr False \<Rightarrow> rv_keys v w key \<noteq> None \<and> same_keys v w w'
         | Inl _ \<Rightarrow> written \<or> same_keys v w w'))"

definition script_documented :: "'w redis \<Rightarrow> 'w redis_view \<Rightarrow> bool" where
  "script_documented r v \<longleftrightarrow>
     (\<forall>f w res w'. rd_eval r f w = (res, w') \<longrightarrow>
        (case res of Inr n \<Rightarrow> f w = (n, w') | Inl _ \<Rightarrow> w' = w \<or> w' = snd (f w))) \<and>
     (\<forall>key w. rd_get r key w = map_option fst (rv_keys v w key)) \<and>
     (\<forall>key ms w n w' val d. rd_pexpire r key ms w = (n, w') \<longrightarrow> rv_keys v w key = Some (val, d) \<longrightarrow>
        n = 1 \<and> key_written v key (Some (val, rv_clock v w + millisecond * ms)) w w') \<and>
     (\<forall>key w n w'. rd_del r key w = (n, w') \<longrightarrow> rv_keys v w key \<noteq> None \<longrightarrow>
        n = 1 \<and> key_written v key None w w')"

definition redis_documented :: "'w redis \<Rightarrow> 'w redis_view \<Rightarrow> bool" where
  "redis_documented r v \<longleftrightarrow> setnx_documented r v \<and> script_documented r v"

definition time_passes :: "'w redis_view \<Rightarrow> 'w \<Rightarrow> 'w \<Rightarrow> bool" where
  "time_passes v w w' \<longleftrightarrow> rv_clock v w \<le> rv_clock v w' \<and>
     (\<forall>key. rv_keys v w' key =
        (case rv_keys v w key of
           Some (val, d) \<Rightarrow> if rv_clock v w' < d then Some (val, d) else None
         | None \<Rightarrow> None))"

section \<open>Several instances and one lease\<close>

text \<open>
  Instances that share the key, each with its own manager. What an instance may rely on is the
  instant until which its last successful acquisition or renewal lasts; a failed renewal and a
  release end it.
\<close>

type_synonym ('i, 'w) election = "'w \<times> ('i \<Rightarrow> time option)"

inductive lease_step ::
  "'w redis \<Rightarrow> 'w redis_view \<Rightarrow> ('i \<Rightarrow> redis_lease) \<Rightarrow> ('i, 'w) election \<Rightarrow> ('i, 'w) election \<Rightarrow> bool"
  for r v ms where
  won: "redis_try_acquire r (ms i) w = (Inr True, w') \<Longrightarrow> lease_step r v ms (w, b)
    (w', b(i \<mapsto> rv_clock v w + millisecond * milliseconds (rl_ttl (ms i))))"
| not_won: "redis_try_acquire r (ms i) w = (res, w') \<Longrightarrow> res \<noteq> Inr True \<Longrightarrow> lease_step r v ms (w, b) (w', b)"
| renewed: "redis_renew r (ms i) w = (Inr u, w') \<Longrightarrow> lease_step r v ms (w, b)
    (w', b(i \<mapsto> rv_clock v w + millisecond * milliseconds (rl_ttl (ms i))))"
| not_renewed: "redis_renew r (ms i) w = (Inl e, w') \<Longrightarrow> lease_step r v ms (w, b) (w', b(i := None))"
| released: "redis_release r (ms i) w = (res, w') \<Longrightarrow> lease_step r v ms (w, b) (w', b(i := None))"
| waited: "time_passes v w w' \<Longrightarrow> lease_step r v ms (w, b) (w', b)"

inductive lease_reachable ::
  "'w redis \<Rightarrow> 'w redis_view \<Rightarrow> ('i \<Rightarrow> redis_lease) \<Rightarrow> ('i, 'w) election \<Rightarrow> bool"
  for r v ms where
  init: "lease_reachable r v ms (w, \<lambda>_. None)"
| step: "lease_reachable r v ms c \<Longrightarrow> lease_step r v ms c c' \<Longrightarrow> lease_reachable r v ms c'"

text \<open>Instances of one deployment: one key, and an instance identifier each.\<close>

definition one_lease :: "string \<Rightarrow> ('i \<Rightarrow> redis_lease) \<Rightarrow> bool" where
  "one_lease key ms \<longleftrightarrow> (\<forall>i. rl_key (ms i) = key) \<and> inj (\<lambda>i. rl_value (ms i))"

definition relies :: "'w redis_view \<Rightarrow> ('i, 'w) election \<Rightarrow> 'i \<Rightarrow> bool" where
  "relies v c i \<longleftrightarrow> (\<exists>d. snd c i = Some d \<and> rv_clock v (fst c) < d)"

definition lease_held ::
  "'w redis_view \<Rightarrow> string \<Rightarrow> ('i \<Rightarrow> redis_lease) \<Rightarrow> ('i, 'w) election \<Rightarrow> bool" where
  "lease_held v key ms = (\<lambda>(w, b). \<forall>i d. b i = Some d \<longrightarrow> rv_clock v w < d \<longrightarrow>
     (\<exists>d'. d \<le> d' \<and> rv_keys v w key = Some (rl_value (ms i), d')))"

lemma lease_heldI:
  assumes "\<And>i d. b i = Some d \<Longrightarrow> rv_clock v w < d \<Longrightarrow>
    \<exists>d'. d \<le> d' \<and> rv_keys v w key = Some (rl_value (ms i), d')"
  shows "lease_held v key ms (w, b)"
  using assms by (simp add: lease_held_def)

lemma lease_heldD:
  "lease_held v key ms (w, b) \<Longrightarrow> b i = Some d \<Longrightarrow> rv_clock v w < d \<Longrightarrow>
     \<exists>d'. d \<le> d' \<and> rv_keys v w key = Some (rl_value (ms i), d')"
  by (simp add: lease_held_def)

lemma same_keys_held: "same_keys v w w' \<Longrightarrow> lease_held v key ms (w, b) \<Longrightarrow> lease_held v key ms (w', b)"
  by (simp add: same_keys_def lease_held_def)

lemma held_forget: "lease_held v key ms (w, b) \<Longrightarrow> lease_held v key ms (w, b(i := None))"
  by (simp add: lease_held_def)

text \<open>The key written for an instance while nobody else relied on it.\<close>

lemma written_held:
  assumes "key_written v key (Some (rl_value (ms i), d)) w w'"
    and "\<And>j e. j \<noteq> i \<Longrightarrow> b j = Some e \<Longrightarrow> \<not> rv_clock v w < e"
  shows "lease_held v key ms (w', b(i \<mapsto> d))" and "lease_held v key ms (w', b(i := None))"
  using assms by (auto intro!: lease_heldI simp: key_written_def split: if_splits)

text \<open>While the key holds the value of one instance, or nothing, no other instance relies on it.\<close>

lemma held_others:
  assumes "lease_held v key ms (w, b)" and "one_lease key ms"
    and "rv_keys v w key = None \<or> (\<exists>d. rv_keys v w key = Some (rl_value (ms i), d))"
    and "j \<noteq> i" and "b j = Some e"
  shows "\<not> rv_clock v w < e"
proof
  assume "rv_clock v w < e"
  from lease_heldD [where b = b, OF assms(1,5) this] assms(3)
  have "rl_value (ms j) = rl_value (ms i)" by auto
  with assms(2,4) show False by (auto simp: one_lease_def dest: injD)
qed

lemma held_acquire:
  assumes doc: "redis_documented r v" and one: "one_lease key ms" and held: "lease_held v key ms (w, b)"
    and acq: "redis_try_acquire r (ms i) w = (res, w')"
  shows "res = Inr True \<Longrightarrow>
      lease_held v key ms (w', b(i \<mapsto> rv_clock v w + millisecond * milliseconds (rl_ttl (ms i))))"
    and "res \<noteq> Inr True \<Longrightarrow> lease_held v key ms (w', b)"
proof -
  let ?d = "rv_clock v w + millisecond * milliseconds (rl_ttl (ms i))"
  have key: "rl_key (ms i) = key" using one by (simp add: one_lease_def)
  obtain res0 where s: "rd_setnx r key (rl_value (ms i)) (rl_ttl (ms i)) w = (res0, w')"
    and res: "res = (case res0 of Inl e \<Rightarrow> Inl (lease_error ''acquire'' e) | Inr a \<Rightarrow> Inr a)"
    using acq by (auto simp: redis_try_acquire_def key split: prod.splits sum.splits)
  define written where "written \<longleftrightarrow> rv_keys v w key = None \<and> key_written v key (Some (rl_value (ms i), ?d)) w w'"
  have d: "case res0 of Inr True \<Rightarrow> written | Inr False \<Rightarrow> rv_keys v w key \<noteq> None \<and> same_keys v w w'
      | Inl _ \<Rightarrow> written \<or> same_keys v w w'"
    using doc s unfolding redis_documented_def setnx_documented_def written_def Let_def by blast
  have w: "lease_held v key ms (w', b(i \<mapsto> ?d)) \<and> (lease_held v key ms (w', b))" if "written"
  proof -
    from that have none: "rv_keys v w key = None"
      and kw: "key_written v key (Some (rl_value (ms i), ?d)) w w'" by (simp_all add: written_def)
    have "\<not> rv_clock v w < e" if "b j = Some e" for j e
      using lease_heldD [where b = b, OF held that] none by auto
    moreover have "rv_clock v w' = rv_clock v w" using kw by (simp add: key_written_def)
    ultimately show ?thesis using written_held(1) [where ms = ms and i = i and b = b, OF kw] by (auto simp: lease_held_def)
  qed
  show "res = Inr True \<Longrightarrow> lease_held v key ms (w', b(i \<mapsto> ?d))"
    using d w res by (auto split: sum.splits bool.splits)
  show "res \<noteq> Inr True \<Longrightarrow> lease_held v key ms (w', b)"
    using d w res same_keys_held [OF _ held] by (auto split: sum.splits bool.splits)
qed

text \<open>What the scripts can have done, whether or not the client saw the answer.\<close>

lemma renew_effect:
  assumes "redis_documented r v" and "redis_renew r m w = (res, w')"
  defines "entry \<equiv> Some (rl_value m, rv_clock v w + millisecond * milliseconds (rl_ttl m))"
  shows "same_keys v w w' \<and> (\<forall>u. res \<noteq> Inr u) \<or>
    (\<exists>d. rv_keys v w (rl_key m) = Some (rl_value m, d)) \<and> key_written v (rl_key m) entry w w'"
proof -
  let ?f = "renewLeaseScript r (rl_key m) (rl_value m) (milliseconds (rl_ttl m))"
  obtain res0 where e: "rd_eval r ?f w = (res0, w')"
    and res: "res = (case res0 of Inl e \<Rightarrow> Inl (lease_error ''renew'' e)
      | Inr n \<Rightarrow> if n \<noteq> 1 then Inl (sentinel_error ErrLeaseNotHeld) else Inr ())"
    using assms(2) by (auto simp: redis_renew_def split: prod.splits sum.splits)
  have sd: "script_documented r v" using assms(1) by (simp add: redis_documented_def)
  have out: "case res0 of Inr n \<Rightarrow> ?f w = (n, w') | Inl _ \<Rightarrow> w' = w \<or> w' = snd (?f w)"
    using sd e unfolding script_documented_def by blast
  show ?thesis
  proof (cases "rd_get r (rl_key m) w = Some (rl_value m)")
    case False
    then have "?f w = (0, w)" by (simp add: renewLeaseScript_def)
    with out res show ?thesis by (cases res0) (auto simp: same_keys_def)
  next
    case True
    then obtain d where d: "rv_keys v w (rl_key m) = Some (rl_value m, d)"
      using sd unfolding script_documented_def by auto
    obtain n w1 where p: "rd_pexpire r (rl_key m) (milliseconds (rl_ttl m)) w = (n, w1)" by (rule prod.exhaust)
    have n: "n = 1 \<and> key_written v (rl_key m) entry w w1"
      using sd p d unfolding script_documented_def entry_def by blast
    have f: "?f w = (1, w1)" using True p n by (simp add: renewLeaseScript_def)
    show ?thesis
    proof (cases "w' = w1")
      case True
      with n d show ?thesis by blast
    next
      case False
      with out f res show ?thesis by (cases res0) (auto simp: same_keys_def)
    qed
  qed
qed

lemma release_effect:
  assumes "redis_documented r v" and "redis_release r m w = (res, w')"
  shows "same_keys v w w' \<or>
    (\<exists>d. rv_keys v w (rl_key m) = Some (rl_value m, d)) \<and> key_written v (rl_key m) None w w'"
proof -
  let ?f = "releaseLeaseScript r (rl_key m) (rl_value m)"
  obtain res0 where e: "rd_eval r ?f w = (res0, w')"
    using assms(2) by (auto simp: redis_release_def split: prod.splits sum.splits)
  have sd: "script_documented r v" using assms(1) by (simp add: redis_documented_def)
  have "case res0 of Inr n \<Rightarrow> ?f w = (n, w') | Inl _ \<Rightarrow> w' = w \<or> w' = snd (?f w)"
    using sd e unfolding script_documented_def by blast
  then have out: "w' = w \<or> w' = snd (?f w)" by (auto split: sum.splits)
  show ?thesis
  proof (cases "rd_get r (rl_key m) w = Some (rl_value m)")
    case False
    with out show ?thesis by (auto simp: releaseLeaseScript_def same_keys_def)
  next
    case True
    then obtain d where d: "rv_keys v w (rl_key m) = Some (rl_value m, d)"
      using sd unfolding script_documented_def by auto
    obtain n w1 where p: "rd_del r (rl_key m) w = (n, w1)" by (rule prod.exhaust)
    have "key_written v (rl_key m) None w w1"
      using sd p d unfolding script_documented_def by (metis option.distinct(1))
    with out True p d show ?thesis by (auto simp: releaseLeaseScript_def same_keys_def)
  qed
qed

lemma written_clock: "key_written v key e w w' \<Longrightarrow> rv_clock v w' = rv_clock v w"
  by (simp add: key_written_def)

lemma step_held:
  assumes "lease_step r v ms c c'" and doc: "redis_documented r v" and one: "one_lease key ms"
    and "lease_held v key ms c"
  shows "lease_held v key ms c'"
  using assms(1,4)
proof (cases rule: lease_step.cases)
  case (won i w w' b)
  with assms(4) held_acquire(1) [OF doc one] show ?thesis by blast
next
  case (not_won i w res w' b)
  with assms(4) held_acquire(2) [OF doc one] show ?thesis by blast
next
  case (renewed i w u w' b)
  have key: "rl_key (ms i) = key" using one by (simp add: one_lease_def)
  have held: "lease_held v key ms (w, b)" using renewed assms(4) by simp
  from renew_effect [OF doc renewed(3)] key
  have kw: "key_written v key (Some (rl_value (ms i), rv_clock v w + millisecond * milliseconds (rl_ttl (ms i)))) w w'"
    and mine: "\<exists>d. rv_keys v w key = Some (rl_value (ms i), d)" by auto
  from held_others [OF held one disjI2 [OF mine]] written_held(1) [where ms = ms and i = i and b = b, OF kw]
  show ?thesis unfolding renewed(2) by blast
next
  case (not_renewed i w e w' b)
  have key: "rl_key (ms i) = key" using one by (simp add: one_lease_def)
  have held: "lease_held v key ms (w, b)" using not_renewed assms(4) by simp
  from renew_effect [OF doc not_renewed(3)] show ?thesis
  proof
    assume "same_keys v w w' \<and> (\<forall>u. Inl e \<noteq> Inr u)"
    then have "lease_held v key ms (w', b)" using same_keys_held [OF _ held] by simp
    then show ?thesis unfolding not_renewed(2) by (rule held_forget)
  next
    let ?e = "Some (rl_value (ms i), rv_clock v w + millisecond * milliseconds (rl_ttl (ms i)))"
    assume a: "(\<exists>d. rv_keys v w (rl_key (ms i)) = Some (rl_value (ms i), d)) \<and>
      key_written v (rl_key (ms i)) ?e w w'"
    then have kw: "key_written v key ?e w w'" and mine: "\<exists>d. rv_keys v w key = Some (rl_value (ms i), d)"
      unfolding key by blast+
    from held_others [OF held one disjI2 [OF mine]] written_held(2) [where ms = ms and i = i and b = b, OF kw]
    show ?thesis unfolding not_renewed(2) by blast
  qed
next
  case (released i w res w' b)
  have key: "rl_key (ms i) = key" using one by (simp add: one_lease_def)
  have held: "lease_held v key ms (w, b)" using released assms(4) by simp
  from release_effect [OF doc released(3)] show ?thesis
  proof
    assume "same_keys v w w'"
    then have "lease_held v key ms (w', b)" using same_keys_held [OF _ held] by simp
    then show ?thesis unfolding released(2) by (rule held_forget)
  next
    assume a: "(\<exists>d. rv_keys v w (rl_key (ms i)) = Some (rl_value (ms i), d)) \<and>
      key_written v (rl_key (ms i)) None w w'"
    with held_others [OF held one disjI2] key
    have "\<And>j e. j \<noteq> i \<Longrightarrow> b j = Some e \<Longrightarrow> \<not> rv_clock v w < e" by metis
    moreover have "rv_clock v w' = rv_clock v w" using a by (simp add: key_written_def)
    ultimately show ?thesis unfolding released(2) by (fastforce intro!: lease_heldI split: if_splits)
  qed
next
  case (waited w w' b)
  show ?thesis unfolding waited(2)
  proof (rule lease_heldI)
    fix i d
    assume b: "b i = Some d" and d: "rv_clock v w' < d"
    from waited(3) d have lt: "rv_clock v w < d" by (simp add: time_passes_def)
    have "lease_held v key ms (w, b)" using waited(1) assms(4) by simp
    from lease_heldD [where b = b, OF this b lt]
    obtain d' where "d \<le> d'" "rv_keys v w key = Some (rl_value (ms i), d')" by blast
    with waited(3) d show "\<exists>d'. d \<le> d' \<and> rv_keys v w' key = Some (rl_value (ms i), d')"
      by (auto simp: time_passes_def)
  qed
qed

lemma reachable_held:
  assumes "lease_reachable r v ms c" and "redis_documented r v" and "one_lease key ms"
  shows "lease_held v key ms c"
  using assms(1)
proof (induction rule: lease_reachable.induct)
  case (init w)
  then show ?case by (simp add: lease_held_def)
next
  case (step c c')
  then show ?case using step_held assms(2,3) by blast
qed

lemma setnx_true:
  assumes "setnx_documented r v" and "rd_setnx r key val ttl w = (Inr True, w')"
  shows "rv_keys v w key = None"
  using assms(1) [unfolded setnx_documented_def, rule_format, OF assms(2)] by (simp add: Let_def)

text \<open>
  C8. At most one instance of a deployment can rely on the lease at any time: whatever the instances
  do and however client errors and waiting are interleaved, while an acquisition or renewal of one
  instance lasts, no other instance relies on the lease, none can acquire it, and neither a renewal nor
  a release by another instance changes the key.
\<close>
theorem lease_exclusive:
  assumes "redis_documented r v" and "one_lease key ms" and "lease_reachable r v ms c" and "relies v c i"
    and "j \<noteq> i"
  shows "\<not> relies v c j \<and> fst (redis_try_acquire r (ms j) (fst c)) \<noteq> Inr True \<and>
     same_keys v (fst c) (snd (redis_renew r (ms j) (fst c))) \<and>
     same_keys v (fst c) (snd (redis_release r (ms j) (fst c)))"
proof -
  obtain w b where c: "c = (w, b)" by (rule prod.exhaust)
  have held: "lease_held v key ms (w, b)" using reachable_held [OF assms(3,1,2)] unfolding c .
  obtain d where d: "b i = Some d" "rv_clock v w < d" using assms(4) by (auto simp: relies_def c)
  from lease_heldD [where b = b, OF held d] obtain d' where k: "rv_keys v w key = Some (rl_value (ms i), d')" by blast
  have other: "rl_value (ms j) \<noteq> rl_value (ms i)" and key: "rl_key (ms j) = key"
    using assms(2,5) by (auto simp: one_lease_def dest: injD)
  have "\<not> relies v c j"
    using held_others [OF held assms(2) disjI2 [OF exI [of _ d']] assms(5)] k by (auto simp: relies_def c)
  moreover have "fst (redis_try_acquire r (ms j) w) \<noteq> Inr True"
  proof
    obtain res w' where s: "rd_setnx r key (rl_value (ms j)) (rl_ttl (ms j)) w = (res, w')" by (rule prod.exhaust)
    assume "fst (redis_try_acquire r (ms j) w) = Inr True"
    with s key have "res = Inr True" by (auto simp: redis_try_acquire_def split: sum.splits)
    with s assms(1) have "rv_keys v w key = None" using setnx_true by (auto simp: redis_documented_def)
    with k show False by simp
  qed
  moreover have "same_keys v w (snd (redis_renew r (ms j) w))"
    using renew_effect [OF assms(1), of "ms j" w "fst (redis_renew r (ms j) w)" "snd (redis_renew r (ms j) w)"]
      k other key by auto
  moreover have "same_keys v w (snd (redis_release r (ms j) w))"
    using release_effect [OF assms(1), of "ms j" w "fst (redis_release r (ms j) w)" "snd (redis_release r (ms j) w)"]
      k other key by auto
  ultimately show ?thesis by (simp add: c)
qed

section \<open>A server that keeps the promises\<close>

record kv_server =
  kv_keys :: "string \<Rightarrow> (string \<times> time) option"
  kv_now :: time

definition kv_redis :: "kv_server redis" where
  "kv_redis =
     \<lparr>rd_setnx = (\<lambda>key val ttl w.
        if kv_keys w key = None then
          (Inr True, w\<lparr>kv_keys := (kv_keys w)(key \<mapsto> (val, kv_now w + millisecond * milliseconds ttl))\<rparr>)
        else (Inr False, w)),
      rd_eval = (\<lambda>f w. (case f w of (n, w') \<Rightarrow> (Inr n, w'))),
      rd_get = (\<lambda>key w. map_option fst (kv_keys w key)),
      rd_pexpire = (\<lambda>key ms w. case kv_keys w key of
         None \<Rightarrow> (0, w)
       | Some (val, d) \<Rightarrow> (1, w\<lparr>kv_keys := (kv_keys w)(key \<mapsto> (val, kv_now w + millisecond * ms))\<rparr>)),
      rd_del = (\<lambda>key w. if kv_keys w key = None then (0, w) else (1, w\<lparr>kv_keys := (kv_keys w)(key := None)\<rparr>))\<rparr>"

definition kv_view :: "kv_server redis_view" where
  "kv_view = \<lparr>rv_keys = kv_keys, rv_clock = kv_now\<rparr>"

lemma kv_documented: "redis_documented kv_redis kv_view"
  by (auto simp: redis_documented_def setnx_documented_def script_documented_def kv_redis_def kv_view_def
      same_keys_def key_written_def Let_def split: option.splits if_splits prod.splits)

definition two_instances :: "bool \<Rightarrow> redis_lease" where
  "two_instances i = \<lparr>rl_key = ''sweep'', rl_value = (if i then ''a'' else ''b''), rl_ttl = 30 * second\<rparr>"

lemma two_instances_lease: "one_lease ''sweep'' two_instances"
  by (auto simp: one_lease_def two_instances_def inj_def)

theorem lease_exclusive_witness:
  "\<exists>c. lease_reachable kv_redis kv_view two_instances c \<and> relies kv_view c True \<and> \<not> relies kv_view c False"
proof -
  let ?w = "\<lparr>kv_keys = \<lambda>_. None, kv_now = 0\<rparr>"
  let ?w' = "?w\<lparr>kv_keys := [''sweep'' \<mapsto> (''a'', millisecond * milliseconds (30 * second))]\<rparr>"
  let ?c = "(?w', (\<lambda>_. None)(True \<mapsto> rv_clock kv_view ?w + millisecond * milliseconds (rl_ttl (two_instances True))))"
  have "redis_try_acquire kv_redis (two_instances True) ?w = (Inr True, ?w')"
    by (simp add: redis_try_acquire_def kv_redis_def two_instances_def)
  then have "lease_step kv_redis kv_view two_instances (?w, \<lambda>_. None) ?c"
    by (rule lease_step.won [where ms = two_instances and i = True])
  then have reach: "lease_reachable kv_redis kv_view two_instances ?c"
    by (rule lease_reachable.step [OF lease_reachable.init])
  have "relies kv_view ?c True"
    by (simp add: relies_def kv_view_def two_instances_def milliseconds_def second_def millisecond_def)
  with lease_exclusive [OF kv_documented two_instances_lease reach, of True False] reach show ?thesis by blast
qed

end
