(* ===== verification/AuditTrail.thy ===== *)
theory AuditTrail
  imports Adapter
begin

text \<open>
  The audit trail's way out of the process (internal/lifecycle/audit_sink.go and
  event_publisher.go): redaction of events, the append-only file sink, the fan-out sink and the
  publishers of integration events. A line of the audit file is the redacted event it encodes;
  the JSON text itself is not modelled. The locale \<open>redacting_log\<close> is the contract of a
  destination that keeps only redacted events.
\<close>

section \<open>Redaction\<close>

definition sensitiveAuditKey :: "string \<Rightarrow> bool" where
  "sensitiveAuditKey key =
     (let normalized = to_lower (filter (\<lambda>c. c \<noteq> CHR ''_'' \<and> c \<noteq> CHR ''-'' \<and> c \<noteq> CHR '' '') key) in
      contains normalized ''secrettext'' \<or> contains normalized ''clientsecret'' \<or>
      contains normalized ''privatekey'' \<or> contains normalized ''awssecretaccesskey'' \<or>
      contains normalized ''password'' \<or> contains normalized ''accesstoken'' \<or>
      normalized = ''token'' \<or> normalized = ''secret'')"

definition audit_markers :: "string list" where
  "audit_markers = [''bearer '', ''client_secret'', ''clientsecret'', ''secret_text'', ''secrettext'',
     ''private_key'', ''privatekey'', ''aws_secret_access_key'', ''awssecretaccesskey'',
     ''password'', ''access_token'']"

definition has_marker :: "string \<Rightarrow> bool" where
  "has_marker t \<longleftrightarrow> list_ex (contains (to_lower t)) audit_markers"

definition redactAuditText :: "string \<Rightarrow> string" where
  "redactAuditText t = (if has_marker t then ''[REDACTED]'' else t)"

definition redactAuditDetails :: "details \<Rightarrow> details" where
  "redactAuditDetails details =
     map (\<lambda>(key, val). (key, redactAuditText val)) (filter (\<lambda>(key, val). \<not> sensitiveAuditKey key) details)"

definition redactLifecycleEvent :: "lifecycle_event \<Rightarrow> lifecycle_event" where
  "redactLifecycleEvent event = event\<lparr>ev_summary := redactAuditText (ev_summary event),
     ev_details := redactAuditDetails (ev_details event)\<rparr>"

definition redactIntegrationEvent :: "azure_integration_event \<Rightarrow> azure_integration_event" where
  "redactIntegrationEvent event = event\<lparr>ie_details := redactAuditDetails (ie_details event)\<rparr>"

lemma redacted_no_marker [simp]: "\<not> has_marker (redactAuditText t)"
  by (simp add: redactAuditText_def) code_simp

lemma redactAuditText_idem [simp]: "redactAuditText (redactAuditText t) = redactAuditText t"
  using redacted_no_marker [of t] by (simp add: redactAuditText_def [of "redactAuditText t"])

lemma redactAuditDetails_idem [simp]: "redactAuditDetails (redactAuditDetails d) = redactAuditDetails d"
  by (induction d) (auto simp: redactAuditDetails_def)

lemma redactLifecycleEvent_idem [simp]: "redactLifecycleEvent (redactLifecycleEvent e) = redactLifecycleEvent e"
  by (simp add: redactLifecycleEvent_def)

lemma redactIntegrationEvent_idem [simp]:
  "redactIntegrationEvent (redactIntegrationEvent e) = redactIntegrationEvent e"
  by (simp add: redactIntegrationEvent_def)

text \<open>Details that are safe to serialise.\<close>

definition safe_details :: "details \<Rightarrow> bool" where
  "safe_details d \<longleftrightarrow> list_all (\<lambda>(key, val). \<not> sensitiveAuditKey key \<and> \<not> has_marker val) d"

lemma safe_redacted [simp]: "safe_details (redactAuditDetails d)"
  by (auto simp: safe_details_def redactAuditDetails_def list_all_iff)

definition safe_event :: "lifecycle_event \<Rightarrow> bool" where
  "safe_event e \<longleftrightarrow> \<not> has_marker (ev_summary e) \<and> safe_details (ev_details e)"

lemma redact_safe_details: "safe_details d \<Longrightarrow> redactAuditDetails d = d"
  by (induction d) (auto simp: safe_details_def redactAuditDetails_def redactAuditText_def)

lemma redact_safe_id: "safe_event e \<Longrightarrow> redactLifecycleEvent e = e"
  by (simp add: redactLifecycleEvent_def safe_event_def redactAuditText_def redact_safe_details)

lemma safe_event_redacted [simp]: "safe_event (redactLifecycleEvent e)"
  by (simp add: safe_event_def redactLifecycleEvent_def)

section \<open>Destinations that keep only redacted events\<close>

locale redacting_log =
  fixes redact :: "'e \<Rightarrow> 'e" and append :: "'i \<Rightarrow> 'e \<Rightarrow> 's \<Rightarrow> unit result \<times> 's" and stored :: "'s \<Rightarrow> 'e list"
  assumes redact_idem: "redact (redact e) = redact e"
    and append_stored: "stored (snd (append i e s)) = stored s \<or> stored (snd (append i e s)) = stored s @ [redact e]"
    and append_ok: "fst (append i e s) = Inr () \<Longrightarrow> stored (snd (append i e s)) = stored s @ [redact e]"
begin

fun append_all :: "('i \<times> 'e) list \<Rightarrow> 's \<Rightarrow> 's" where
  "append_all [] s = s"
| "append_all ((i, e) # ies) s = append_all ies (snd (append i e s))"

lemma stored_redacted:
  assumes "\<forall>e \<in> set (stored s). redact e = e"
  shows "\<forall>e \<in> set (stored (append_all ies s)). redact e = e"
  using assms
proof (induction ies arbitrary: s)
  case (Cons p ies)
  obtain i e where p: "p = (i, e)" by (cases p)
  have "\<forall>x \<in> set (stored (snd (append i e s))). redact x = x"
    using append_stored [of i e s] Cons.prems redact_idem by auto
  with Cons.IH p show ?case by simp
qed simp

lemma stored_prefix: "\<exists>es. stored (append_all ies s) = stored s @ es \<and> length es \<le> length ies"
proof (induction ies arbitrary: s)
  case (Cons p ies)
  obtain i e where p: "p = (i, e)" by (cases p)
  from Cons.IH obtain es where "stored (append_all ies (snd (append i e s))) = stored (snd (append i e s)) @ es"
    "length es \<le> length ies" by blast
  then show ?case using append_stored [of i e s] by (auto simp: p)
qed simp

end

section \<open>The file sink\<close>

text \<open>
  The content of the file by the writes that made it: the encoding of a whole event with its line
  feed, or the part of one that a failed write left behind. The outcomes of the system calls of one
  append are its input.
\<close>

datatype audit_chunk = Whole lifecycle_event | Torn

fun whole_events :: "audit_chunk list \<Rightarrow> lifecycle_event list" where
  "whole_events [] = []"
| "whole_events (Whole e # cs) = e # whole_events cs"
| "whole_events (Torn # cs) = whole_events cs"

lemma whole_events_append [simp]: "whole_events (cs @ ds) = whole_events cs @ whole_events ds"
  by (induction cs rule: whole_events.induct) simp_all

text \<open>
  The events a reader finds line by line: a torn chunk has no line feed, so the whole event written
  after it is on the torn chunk's line and that line does not parse.
\<close>

fun readable_from :: "bool \<Rightarrow> audit_chunk list \<Rightarrow> lifecycle_event list" where
  "readable_from torn [] = []"
| "readable_from torn (Whole e # cs) = (if torn then readable_from False cs else e # readable_from False cs)"
| "readable_from torn (Torn # cs) = readable_from True cs"

record syscalls =
  sc_canceled :: bool
  sc_write :: "(string \<times> bool) option"
  sc_sync :: "string option"
  sc_close :: "string option"

record file_sink =
  fs_chunks :: "audit_chunk list"
  fs_fsync_each :: bool
  fs_closed :: bool
  fs_file :: bool

definition NewFileAuditSinkWithConfig ::
  "string \<Rightarrow> bool \<Rightarrow> unit result \<Rightarrow> audit_chunk list result \<Rightarrow> unit result \<Rightarrow> file_sink result" where
  "NewFileAuditSinkWithConfig path0 fsync mkdir opened chmod =
     (let path = trim_space path0 in
      if path = [] then Inl (plain_error ''audit file path is required'')
      else case mkdir of
        Inl e \<Rightarrow> Inl (GoError (err_wraps e) (''create audit file directory: '' @ err_text e))
      | Inr _ \<Rightarrow>
          (case opened of
             Inl e \<Rightarrow> Inl (GoError (err_wraps e) (''open audit file: '' @ err_text e))
           | Inr content \<Rightarrow>
               (case chmod of
                  Inl e \<Rightarrow> Inl (GoError (err_wraps e) (''protect audit file: '' @ err_text e))
                | Inr _ \<Rightarrow> Inr \<lparr>fs_chunks = content, fs_fsync_each = fsync, fs_closed = False, fs_file = True\<rparr>)))"

definition FileAuditSink_Append :: "syscalls \<Rightarrow> lifecycle_event \<Rightarrow> file_sink \<Rightarrow> unit result \<times> file_sink" where
  "FileAuditSink_Append sys event s =
     (if sc_canceled sys then (Inl (sentinel_error ErrCanceled), s)
      else if fs_closed s \<or> \<not> fs_file s then (Inl (sentinel_error ErrAuditSinkClosed), s)
      else case sc_write sys of
        Some (err, torn) \<Rightarrow>
          (Inl (plain_error (''append lifecycle audit event: '' @ err)),
           if torn then s\<lparr>fs_chunks := fs_chunks s @ [Torn]\<rparr> else s)
      | None \<Rightarrow>
          (let s1 = s\<lparr>fs_chunks := fs_chunks s @ [Whole (redactLifecycleEvent event)]\<rparr> in
           if fs_fsync_each s then
             (case sc_sync sys of
                Some err \<Rightarrow> (Inl (plain_error (''sync lifecycle audit event: '' @ err)), s1)
              | None \<Rightarrow> (Inr (), s1))
           else (Inr (), s1)))"

definition FileAuditSink_Close :: "syscalls \<Rightarrow> file_sink \<Rightarrow> unit result \<times> file_sink" where
  "FileAuditSink_Close sys s =
     (if fs_closed s then (Inr (), s)
      else
        (let s1 = s\<lparr>fs_closed := True\<rparr> in
         if \<not> fs_file s1 then (Inr (), s1)
         else (join_errors
             ((case sc_sync sys of None \<Rightarrow> [] | Some e \<Rightarrow> [plain_error (''sync audit file: '' @ e)])
              @ (case sc_close sys of None \<Rightarrow> [] | Some e \<Rightarrow> [plain_error (''close audit file: '' @ e)])),
           s1\<lparr>fs_file := False\<rparr>)))"

definition file_events :: "file_sink \<Rightarrow> lifecycle_event list" where
  "file_events s = whole_events (fs_chunks s)"

definition readable_events :: "file_sink \<Rightarrow> lifecycle_event list" where
  "readable_events s = readable_from False (fs_chunks s)"

lemma readable_subset: "set (readable_from torn cs) \<subseteq> set (whole_events cs)"
  by (induction torn cs rule: readable_from.induct) auto

lemma readable_whole: "Torn \<notin> set cs \<Longrightarrow> readable_from False cs = whole_events cs"
  by (induction cs rule: whole_events.induct) auto

interpretation file_log: redacting_log redactLifecycleEvent FileAuditSink_Append file_events
  by unfold_locales
    (auto simp: FileAuditSink_Append_def file_events_def Let_def split: option.splits if_splits)

section \<open>The fan-out sink\<close>

record 'w multi_sink =
  ms_sinks :: "'w audit_sink list"
  ms_logger :: "(string \<Rightarrow> 'w \<Rightarrow> 'w) option"
  ms_closed :: bool

definition NewMultiAuditSink ::
  "(string \<Rightarrow> 'w \<Rightarrow> 'w) option \<Rightarrow> 'w audit_sink option list \<Rightarrow> 'w multi_sink result" where
  "NewMultiAuditSink logger sinks =
     (let filtered = List.map_filter (\<lambda>s. s) sinks in
      if filtered = [] then Inl (plain_error ''at least one audit sink is required'')
      else Inr \<lparr>ms_sinks = filtered, ms_logger = logger, ms_closed = False\<rparr>)"

definition log_line :: "(string \<Rightarrow> 'w \<Rightarrow> 'w) option \<Rightarrow> string \<Rightarrow> 'w \<Rightarrow> 'w" where
  "log_line logger line w = (case logger of None \<Rightarrow> w | Some f \<Rightarrow> f line w)"

fun fan_out :: "(string \<Rightarrow> 'w \<Rightarrow> 'w) option \<Rightarrow> lifecycle_event \<Rightarrow> 'w audit_sink list \<Rightarrow> 'w \<Rightarrow> 'w" where
  "fan_out logger event [] w = w"
| "fan_out logger event (sink # sinks) w =
     (case as_append sink event w of
        (Inl err, w') \<Rightarrow> fan_out logger event sinks
           (log_line logger (''append audit event '' @ ev_id event @ '' to sink: '' @ err_text err) w')
      | (Inr _, w') \<Rightarrow> fan_out logger event sinks w')"

definition MultiAuditSink_Append :: "'w multi_sink \<Rightarrow> lifecycle_event \<Rightarrow> 'w \<Rightarrow> unit result \<times> 'w" where
  "MultiAuditSink_Append m event w =
     (if ms_closed m then (Inl (sentinel_error ErrAuditSinkClosed), w)
      else (Inr (), fan_out (ms_logger m) event (ms_sinks m) w))"

fun close_all :: "(string \<Rightarrow> 'w \<Rightarrow> 'w) option \<Rightarrow> 'w audit_sink list \<Rightarrow> 'w \<Rightarrow> go_error list \<times> 'w" where
  "close_all logger [] w = ([], w)"
| "close_all logger (sink # sinks) w =
     (case as_close sink w of
        (Inl err, w') \<Rightarrow>
          (case close_all logger sinks (log_line logger (''close audit sink: '' @ err_text err) w') of
             (errs, w'') \<Rightarrow> (err # errs, w''))
      | (Inr _, w') \<Rightarrow> close_all logger sinks w')"

definition MultiAuditSink_Close :: "'w multi_sink \<Rightarrow> 'w \<Rightarrow> unit result \<times> 'w multi_sink \<times> 'w" where
  "MultiAuditSink_Close m w =
     (if ms_closed m then (Inr (), m, w)
      else (case close_all (ms_logger m) (ms_sinks m) w of
              (errs, w') \<Rightarrow> (join_errors errs, m\<lparr>ms_closed := True\<rparr>, w')))"

section \<open>Publishers of integration events\<close>

record redis_publisher =
  rp_prefix :: string
  rp_channel :: string
  rp_ttl :: duration

text \<open>strings.TrimSuffix of a one-character suffix.\<close>

definition trim_suffix1 :: "char \<Rightarrow> string \<Rightarrow> string" where
  "trim_suffix1 c s = (if s \<noteq> [] \<and> last s = c then butlast s else s)"

definition NewRedisEventPublisher :: "bool \<Rightarrow> string \<Rightarrow> duration \<Rightarrow> redis_publisher result" where
  "NewRedisEventPublisher has_client prefix0 ttl0 =
     (if \<not> has_client then Inl (plain_error ''redis client is required'')
      else
        (let prefix = trim_suffix1 CHR '':'' (trim_space prefix0) in
         if prefix = [] \<or> list_ex (\<lambda>c. c = CHR '' '' \<or> c = CHR 0x09 \<or> c = CHR 0x0D \<or> c = CHR 0x0A) prefix then
           Inl (plain_error ''event prefix is required and must not contain whitespace'')
         else Inr \<lparr>rp_prefix = prefix, rp_channel = prefix @ '':integration:changes'',
                rp_ttl = (if ttl0 \<le> 0 then 24 * hour else ttl0)\<rparr>))"

text \<open>
  Publish: \<open>transact\<close> is the Redis transaction that sets the key for the time to live and
  publishes the event's identifier on the channel.
\<close>

definition RedisEventPublisher_Publish ::
  "(string \<Rightarrow> azure_integration_event \<Rightarrow> duration \<Rightarrow> string \<Rightarrow> string \<Rightarrow> 'w \<Rightarrow> unit result \<times> 'w)
     \<Rightarrow> redis_publisher \<Rightarrow> azure_integration_event \<Rightarrow> 'w \<Rightarrow> unit result \<times> 'w" where
  "RedisEventPublisher_Publish transact p event w =
     (if ie_id event = [] \<or> ie_correlation_id event = [] \<or> ie_type event = [] then
        (Inl (plain_error ''event id, type, and correlation id are required''), w)
      else case transact (rp_prefix p @ '':integration:event:'' @ ie_id event)
             (redactIntegrationEvent event) (rp_ttl p) (rp_channel p) (ie_id event) w of
        (Inl err, w') \<Rightarrow>
          (Inl (GoError (err_wraps err) (''publish integration event atomically: '' @ err_text err)), w')
      | (Inr _, w') \<Rightarrow> (Inr (), w'))"

definition MemoryEventPublisher_Publish ::
  "unit \<Rightarrow> azure_integration_event \<Rightarrow> azure_integration_event list
     \<Rightarrow> unit result \<times> azure_integration_event list" where
  "MemoryEventPublisher_Publish ctx event events = (Inr (), events @ [redactIntegrationEvent event])"

interpretation memory_log: redacting_log redactIntegrationEvent MemoryEventPublisher_Publish "\<lambda>es. es"
  by unfold_locales (simp_all add: MemoryEventPublisher_Publish_def)


section \<open>Properties\<close>

text \<open>
  A redacted event carries no marker of a secret in its summary or in any detail and no
  detail under a sensitive key; it differs from the event only in summary and details;
  redacting again changes nothing, and an event that was safe is not touched.
\<close>

theorem redaction_safe:
  "safe_event (redactLifecycleEvent e) \<and>
   (\<exists>su det. redactLifecycleEvent e = e\<lparr>ev_summary := su, ev_details := det\<rparr> \<and>
      set (map fst det) \<subseteq> set (map fst (ev_details e))) \<and>
   redactLifecycleEvent (redactLifecycleEvent e) = redactLifecycleEvent e \<and>
   (safe_event e \<longrightarrow> redactLifecycleEvent e = e)"
proof -
  have "set (map fst (redactAuditDetails (ev_details e))) \<subseteq> set (map fst (ev_details e))"
    by (force simp: redactAuditDetails_def)
  then have "\<exists>su det. redactLifecycleEvent e = e\<lparr>ev_summary := su, ev_details := det\<rparr> \<and>
      set (map fst det) \<subseteq> set (map fst (ev_details e))"
    using redactLifecycleEvent_def by blast
  then show ?thesis using redact_safe_id [of e] by simp
qed

definition leaky_event :: lifecycle_event where
  "leaky_event = \<lparr>ev_id = ''evt-001'', ev_identity_id = ''svc'', ev_type = EventCredentialUsed,
     ev_summary = ''sent Bearer abc'', ev_actor = ''operator'', ev_outcome = OutcomeSuccess, ev_at = 1,
     ev_correlation_id = [], ev_run_id = [],
     ev_details = [(''Client-Secret'', ''x''), (''key_id'', ''k1'')]\<rparr>"

theorem redaction_safe_witness:
  "safe_event (redactLifecycleEvent leaky_event) \<and>
   redactLifecycleEvent leaky_event \<noteq> leaky_event \<and>
   redactLifecycleEvent (redactLifecycleEvent leaky_event) = redactLifecycleEvent leaky_event"
proof -
  have "ev_summary (redactLifecycleEvent leaky_event) \<noteq> ev_summary leaky_event" by code_simp
  then have "redactLifecycleEvent leaky_event \<noteq> leaky_event" by (metis (no_types))
  with redaction_safe [of leaky_event] show ?thesis by blast
qed

text \<open>
  The audit file is append-only and holds only redacted events: whatever events are
  appended, whatever system calls fail or are cut short, the events that were written stay in
  front, and if those were safe so is every one after them, written or read back; an append that
  reports success has written its redacted event at the end; and without a torn write a reader
  finds exactly the events written.
\<close>

theorem audit_file_redacted:
  assumes "\<forall>e \<in> set (file_events s). redactLifecycleEvent e = e"
  shows "(\<forall>e \<in> set (file_events (file_log.append_all calls s)). safe_event e) \<and>
     set (readable_events (file_log.append_all calls s)) \<subseteq> set (file_events (file_log.append_all calls s)) \<and>
     (\<exists>es. file_events (file_log.append_all calls s) = file_events s @ es \<and> length es \<le> length calls) \<and>
     (\<forall>sys e. fst (FileAuditSink_Append sys e s) = Inr () \<longrightarrow>
        file_events (snd (FileAuditSink_Append sys e s)) = file_events s @ [redactLifecycleEvent e]) \<and>
     (Torn \<notin> set (fs_chunks s) \<longrightarrow> readable_events s = file_events s)"
proof (intro conjI)
  show "\<forall>e \<in> set (file_events (file_log.append_all calls s)). safe_event e"
    using file_log.stored_redacted [OF assms, of calls] by (metis safe_event_redacted)
  show "set (readable_events (file_log.append_all calls s)) \<subseteq> set (file_events (file_log.append_all calls s))"
    by (simp add: readable_events_def file_events_def readable_subset)
  show "Torn \<notin> set (fs_chunks s) \<longrightarrow> readable_events s = file_events s"
    by (simp add: readable_events_def file_events_def readable_whole)
qed (use file_log.stored_prefix file_log.append_ok in blast)+

theorem audit_file_redacted_witness:
  "let s = \<lparr>fs_chunks = [], fs_fsync_each = True, fs_closed = False, fs_file = True\<rparr>;
       sys = \<lparr>sc_canceled = False, sc_write = None, sc_sync = None, sc_close = None\<rparr>
   in file_events (snd (FileAuditSink_Append sys leaky_event s)) = [redactLifecycleEvent leaky_event] \<and>
      (\<forall>e \<in> set (file_events (file_log.append_all [(sys, leaky_event)] s)). safe_event e)"
proof -
  let ?s = "\<lparr>fs_chunks = [], fs_fsync_each = True, fs_closed = False, fs_file = True\<rparr>"
  let ?sys = "\<lparr>sc_canceled = False, sc_write = None, sc_sync = None, sc_close = None\<rparr>"
  have "\<forall>e \<in> set (file_events ?s). redactLifecycleEvent e = e" by (simp add: file_events_def)
  note f = audit_file_redacted [OF this]
  have "fst (FileAuditSink_Append ?sys leaky_event ?s) = Inr ()" by (simp add: FileAuditSink_Append_def)
  then have "file_events (snd (FileAuditSink_Append ?sys leaky_event ?s)) = [redactLifecycleEvent leaky_event]"
    using f by (simp add: file_events_def)
  then show ?thesis using f [of "[(?sys, leaky_event)]"] by (simp add: Let_def)
qed

definition open_sink :: file_sink where
  "open_sink = \<lparr>fs_chunks = [], fs_fsync_each = True, fs_closed = False, fs_file = True\<rparr>"

definition good_calls :: syscalls where
  "good_calls = \<lparr>sc_canceled = False, sc_write = None, sc_sync = None, sc_close = None\<rparr>"

text \<open>
  After a write that was cut short, the next append reports success, write and sync having
  succeeded, and yet a reader of the file does not find its event: it stands on the line of the
  torn write. Only the append after that one is readable again.
\<close>

theorem torn_write_hides_next:
  "let torn = good_calls\<lparr>sc_write := Some (''no space left on device'', True)\<rparr>;
       s1 = snd (FileAuditSink_Append torn e1 open_sink);
       (r2, s2) = FileAuditSink_Append good_calls e2 s1;
       (r3, s3) = FileAuditSink_Append good_calls e3 s2
   in r2 = Inr () \<and> readable_events s2 = [] \<and> r3 = Inr () \<and> readable_events s3 = [redactLifecycleEvent e3]"
  by (simp add: FileAuditSink_Append_def open_sink_def good_calls_def readable_events_def Let_def)

end
