(* ===== verification/Worker.thy ===== *)
theory Worker
  imports StoreProperties Lease AuditTrail "HOL-Library.Multiset"
begin

text \<open>
  The renewal sweeper (internal/lifecycle/worker.go): construction, the choice of the identities to
  rotate, a sweep under the lease, the delay of the next one, and the loop of Run as a state machine
  over ticker signals. The rotations of one sweep are run one after the other, in an order the
  parameter \<open>schedule\<close> gives (the goroutines of the source take them from a channel); \<open>quit\<close> is the
  number of rotations after which the context is cancelled, if it is. \<open>clk n\<close> is what the injected
  clock reads for the n-th rotation.
\<close>

section \<open>Construction and delays\<close>

record 'w sweeper =
  sw_env :: "'w env"
  sw_interval :: duration
  sw_jitter :: duration
  sw_lease :: "'w lease_manager"
  sw_logger :: "(string \<Rightarrow> 'w \<Rightarrow> 'w) option"
  sw_concurrency :: int

text \<open>A missing dependency is \<open>None\<close>; the clock, ticker and random source are not part of the record.\<close>

record 'w sweeper_config =
  sg_store :: "'w env option"
  sg_has_clock :: bool
  sg_interval :: duration
  sg_jitter :: duration
  sg_lease :: "'w lease_manager option"
  sg_logger :: "(string \<Rightarrow> 'w \<Rightarrow> 'w) option"
  sg_concurrency :: int

definition NewSweeper :: "'w sweeper_config \<Rightarrow> 'w sweeper result" where
  "NewSweeper c =
     (case sg_store c of
        None \<Rightarrow> Inl (plain_error ''sweeper store is required'')
      | Some env \<Rightarrow>
          if \<not> sg_has_clock c then Inl (plain_error ''sweeper clock is required'')
          else if sg_interval c \<le> 0 then Inl (plain_error ''sweeper interval must be positive'')
          else if sg_jitter c < 0 then Inl (plain_error ''sweeper jitter cannot be negative'')
          else if max_int64 - sg_interval c < sg_jitter c then
            Inl (plain_error ''sweeper interval and jitter exceed the maximum duration'')
          else Inr \<lparr>sw_env = env, sw_interval = sg_interval c, sw_jitter = sg_jitter c,
             sw_lease = (case sg_lease c of None \<Rightarrow> InMemoryLeaseManager | Some l \<Rightarrow> l),
             sw_logger = sg_logger c,
             sw_concurrency = (if sg_concurrency c \<le> 0 then 2 else sg_concurrency c)\<rparr>)"

definition nextDelay :: "'w sweeper \<Rightarrow> rat \<Rightarrow> duration" where
  "nextDelay s random0 =
     (let extra = (if 0 < sw_jitter s then
          (let r1 = (if random0 < 0 then 0 else random0); r2 = (if 1 < r1 then 1 else r1)
           in float_to_int64 (f64 (f64 (of_int (sw_jitter s)) * r2)))
        else 0)
      in wrap_int64 (sw_interval s + extra))"

definition retry_window :: "duration \<Rightarrow> duration" where
  "retry_window interval = (let w = interval div 4 in if w \<le> 0 then nanosecond else w)"

definition renewal_period :: "'w sweeper \<Rightarrow> duration option" where
  "renewal_period s =
     (case lm_renew_interval (sw_lease s) of
        Some d \<Rightarrow> if d \<le> 0 then None else Some d
      | None \<Rightarrow> (let d = sw_interval s div 3 in Some (if d \<le> 0 then nanosecond else d)))"

section \<open>One sweep\<close>

record sweep_failure =
  sf_identity_id :: string
  sf_error :: go_error

record sweep_result =
  sr_leader :: bool
  sr_considered :: nat
  sr_rotated :: nat
  sr_skipped :: nat
  sr_failures :: "sweep_failure list"

definition no_sweep :: sweep_result where
  "no_sweep = \<lparr>sr_leader = False, sr_considered = 0, sr_rotated = 0, sr_skipped = 0, sr_failures = []\<rparr>"

record sweep_state =
  ss_last_attempt :: "time gomap"
  ss_seq :: nat

definition too_soon :: "time \<Rightarrow> duration \<Rightarrow> time gomap \<Rightarrow> string \<Rightarrow> bool" where
  "too_soon now window attempts k =
     (case lookup attempts k of
        Some prev \<Rightarrow> now < prev \<or> time_sub now prev < window
      | None \<Rightarrow> False)"

definition sweep_due :: "time \<Rightarrow> duration \<Rightarrow> time gomap \<Rightarrow> machine_identity \<Rightarrow> bool" where
  "sweep_due now window attempts i =
     (if mi_state i \<noteq> StateActive then False
      else if RenewalUrgency i now \<noteq> UrgencyOverdue then False
      else \<not> too_soon now window attempts (mi_id i))"

fun select_candidates ::
  "time \<Rightarrow> duration \<Rightarrow> machine_identity list \<Rightarrow> time gomap \<Rightarrow> machine_identity list \<times> nat \<times> time gomap" where
  "select_candidates now window [] attempts = ([], 0, attempts)"
| "select_candidates now window (i # is) attempts =
     (if sweep_due now window attempts i then
        (case select_candidates now window is (put (mi_id i) now attempts) of
           (cs, n, attempts') \<Rightarrow> (i # cs, n, attempts'))
      else
        (case select_candidates now window is attempts of
           (cs, n, attempts') \<Rightarrow> (cs, n + 1, attempts')))"

definition sweep_request :: "nat \<Rightarrow> machine_identity \<Rightarrow> rotate_request" where
  "sweep_request seq i = \<lparr>ro_id = mi_id i, ro_requested_by = ''system:sweeper'',
     ro_reason = ''scheduled renewal sweep '' @ dec seq, ro_metadata = [], ro_dry_run = False\<rparr>"

text \<open>The jobs: rotations done, failures, and the sequence number, store and world they leave.\<close>

fun rotate_all ::
  "'w sweeper \<Rightarrow> (nat \<Rightarrow> time) \<Rightarrow> nat \<Rightarrow> machine_identity list \<Rightarrow> nat \<Rightarrow> 'w sys
     \<Rightarrow> nat \<times> sweep_failure list \<times> nat \<times> 'w sys" where
  "rotate_all s clk n [] seq sys = (0, [], seq, sys)"
| "rotate_all s clk n (i # is) seq sys =
     (case Rotate (sw_env s) (sweep_request (seq + 1) i) (clk n) sys of
        (Inl err, (st, w)) \<Rightarrow>
          (let w1 = log_line (sw_logger s)
             (''rotate overdue identity '' @ mi_id i @ '': '' @ err_text err) w
           in (case rotate_all s clk (n + 1) is (seq + 1) (st, w1) of
                 (k, fs, seq', sys') \<Rightarrow> (k, \<lparr>sf_identity_id = mi_id i, sf_error = err\<rparr> # fs, seq', sys')))
      | (Inr _, sys1) \<Rightarrow>
          (case rotate_all s clk (n + 1) is (seq + 1) sys1 of
             (k, fs, seq', sys') \<Rightarrow> (k + 1, fs, seq', sys')))"

definition sweepLeader ::
  "'w sweeper \<Rightarrow> time \<Rightarrow> (nat \<Rightarrow> time) \<Rightarrow> (machine_identity list \<Rightarrow> machine_identity list) \<Rightarrow> nat option
     \<Rightarrow> sweep_state \<Rightarrow> 'w sys \<Rightarrow> sweep_result \<times> go_error option \<times> sweep_state \<times> 'w sys" where
  "sweepLeader s now clk schedule quit ss sys =
     (case select_candidates now (retry_window (sw_interval s)) (List (fst sys)) (ss_last_attempt ss) of
        (candidates, skipped, attempts) \<Rightarrow>
          (let result = \<lparr>sr_leader = True, sr_considered = length candidates, sr_rotated = 0,
                 sr_skipped = skipped, sr_failures = []\<rparr>
           in if candidates = [] then (result, None, ss\<lparr>ss_last_attempt := attempts\<rparr>, sys)
              else
                (let jobs = (case quit of None \<Rightarrow> schedule candidates | Some k \<Rightarrow> take k (schedule candidates))
                 in (case rotate_all s clk 0 jobs (ss_seq ss) sys of
                       (k, fs, seq, sys') \<Rightarrow>
                         (result\<lparr>sr_rotated := k, sr_failures := fs\<rparr>,
                          (case quit of None \<Rightarrow> None | Some _ \<Rightarrow> Some (sentinel_error ErrCanceled)),
                          \<lparr>ss_last_attempt = attempts, ss_seq = seq\<rparr>, sys')))))"

definition opt_error :: "unit result \<Rightarrow> go_error list" where
  "opt_error r = (case r of Inl e \<Rightarrow> [e] | Inr _ \<Rightarrow> [])"

definition Sweep ::
  "'w sweeper \<Rightarrow> time \<Rightarrow> (nat \<Rightarrow> time) \<Rightarrow> (machine_identity list \<Rightarrow> machine_identity list) \<Rightarrow> nat option
     \<Rightarrow> sweep_state \<Rightarrow> 'w sys \<Rightarrow> sweep_result \<times> unit result \<times> sweep_state \<times> 'w sys" where
  "Sweep s now clk schedule quit ss sys =
     (case lm_try_acquire (sw_lease s) (snd sys) of
        (Inl e, w1) \<Rightarrow> (no_sweep, Inl e, ss, (fst sys, w1))
      | (Inr acquired, w1) \<Rightarrow>
          if \<not> acquired then (no_sweep, Inr (), ss, (fst sys, w1))
          else
            (case sweepLeader s now clk schedule quit ss (fst sys, w1) of
               (result, err, ss', (st, w2)) \<Rightarrow>
                 (case lm_release (sw_lease s) w2 of
                    (rel, w3) \<Rightarrow>
                      (result, join_errors ((case err of None \<Rightarrow> [] | Some e \<Rightarrow> [e]) @ opt_error rel),
                       ss', (st, w3)))))"

section \<open>The loop of Run\<close>

text \<open>
  \<open>rn_renewing\<close>: a renewal goroutine runs, whose loss of the lease the loop can be told of. A tick
  finds the signal already there (\<open>lost1\<close>) or there after its sweep (\<open>lost2\<close>), or not.
\<close>

record run_state =
  rn_leader :: bool
  rn_renewing :: bool

definition run_start :: run_state where
  "run_start = \<lparr>rn_leader = False, rn_renewing = False\<rparr>"

record run_input =
  ri_lost1 :: bool
  ri_lost2 :: bool
  ri_now :: time
  ri_clk :: "nat \<Rightarrow> time"
  ri_quit :: "nat option"

definition note_loss :: "bool \<Rightarrow> run_state \<Rightarrow> run_state" where
  "note_loss lost rs = (if rn_renewing rs \<and> lost then \<lparr>rn_leader = False, rn_renewing = False\<rparr> else rs)"

definition lead_sweep ::
  "'w sweeper \<Rightarrow> (machine_identity list \<Rightarrow> machine_identity list) \<Rightarrow> run_input
     \<Rightarrow> run_state \<Rightarrow> sweep_state \<Rightarrow> 'w sys \<Rightarrow> run_state \<times> sweep_state \<times> 'w sys" where
  "lead_sweep s schedule inp rs ss sys =
     (case sweepLeader s (ri_now inp) (ri_clk inp) schedule (ri_quit inp) ss sys of
        (_, err, ss', (st, w)) \<Rightarrow>
          (note_loss (ri_lost2 inp) rs, ss',
           (st, case err of
              Some e \<Rightarrow> if errors_is e ErrCanceled then w
                else log_line (sw_logger s) (''lifecycle sweep: '' @ err_text e) w
            | None \<Rightarrow> w)))"

definition run_tick ::
  "'w sweeper \<Rightarrow> (machine_identity list \<Rightarrow> machine_identity list) \<Rightarrow> run_input
     \<Rightarrow> run_state \<Rightarrow> sweep_state \<Rightarrow> 'w sys \<Rightarrow> run_state \<times> sweep_state \<times> 'w sys" where
  "run_tick s schedule inp rs0 ss sys =
     (let rs = note_loss (ri_lost1 inp) rs0 in
      if rn_leader rs then lead_sweep s schedule inp rs ss sys
      else case lm_try_acquire (sw_lease s) (snd sys) of
        (Inl e, w) \<Rightarrow>
          (rs, ss, (fst sys, log_line (sw_logger s) (''acquire lifecycle sweep lease: '' @ err_text e) w))
      | (Inr acquired, w) \<Rightarrow>
          if \<not> acquired then (rs, ss, (fst sys, w))
          else lead_sweep s schedule inp
            \<lparr>rn_leader = True, rn_renewing = (renewal_period s \<noteq> None)\<rparr> ss (fst sys, w))"

definition run_stop :: "'w sweeper \<Rightarrow> run_state \<Rightarrow> 'w \<Rightarrow> 'w" where
  "run_stop s rs w =
     (if rn_leader rs then
        (case lm_release (sw_lease s) w of
           (Inl e, w') \<Rightarrow> if errors_is e ErrLeaseNotHeld then w'
             else log_line (sw_logger s) (''release lifecycle sweep lease: '' @ err_text e) w'
         | (Inr _, w') \<Rightarrow> w')
      else w)"

fun run_ticks ::
  "'w sweeper \<Rightarrow> (machine_identity list \<Rightarrow> machine_identity list) \<Rightarrow> run_input list
     \<Rightarrow> run_state \<Rightarrow> sweep_state \<Rightarrow> 'w sys \<Rightarrow> run_state \<times> sweep_state \<times> 'w sys" where
  "run_ticks s schedule [] rs ss sys = (rs, ss, sys)"
| "run_ticks s schedule (inp # inps) rs ss sys =
     (case run_tick s schedule inp rs ss sys of
        (rs', ss', sys') \<Rightarrow> run_ticks s schedule inps rs' ss' sys')"

text \<open>Run: the ticks until the context is done, then the deferred release.\<close>

definition Run ::
  "'w sweeper \<Rightarrow> (machine_identity list \<Rightarrow> machine_identity list) \<Rightarrow> run_input list \<Rightarrow> sweep_state
     \<Rightarrow> 'w sys \<Rightarrow> sweep_state \<times> 'w sys" where
  "Run s schedule inps ss sys =
     (case run_ticks s schedule inps run_start ss sys of
        (rs, ss', (st, w)) \<Rightarrow> (ss', (st, run_stop s rs w)))"

section \<open>What a sweep selects\<close>

lemma sweep_due_put:
  "mi_id j \<noteq> k \<Longrightarrow> sweep_due now window (put k t la) j = sweep_due now window la j"
  by (simp add: sweep_due_def too_soon_def)

lemma select_candidates_eq:
  assumes "distinct (map mi_id is)" and "select_candidates now window is la = (cs, n, la')"
  shows "cs = filter (sweep_due now window la) is \<and> n + length cs = length is \<and>
    (\<forall>k. lookup la' k = (if k \<in> mi_id ` set cs then Some now else lookup la k))"
  using assms
proof (induction "is" arbitrary: la cs n la')
  case (Cons i xs)
  show ?case
  proof (cases "sweep_due now window la i")
    case True
    with Cons.prems(2) obtain cs1 where s: "select_candidates now window xs (put (mi_id i) now la) = (cs1, n, la')"
      and cs: "cs = i # cs1" by (auto split: prod.splits)
    have "filter (sweep_due now window (put (mi_id i) now la)) xs = filter (sweep_due now window la) xs"
    proof (rule filter_cong [OF refl])
      fix x assume "x \<in> set xs"
      then have "mi_id x \<noteq> mi_id i" using Cons.prems(1) by (force simp: image_iff)
      then show "sweep_due now window (put (mi_id i) now la) x = sweep_due now window la x"
        by (rule sweep_due_put)
    qed
    with Cons.IH [OF _ s] Cons.prems(1) True cs show ?thesis by auto
  next
    case False
    with Cons.prems(2) obtain n1 where s: "select_candidates now window xs la = (cs, n1, la')"
      and n: "n = n1 + 1" by (auto split: prod.splits)
    with Cons.IH [OF _ s] Cons.prems(1) False show ?thesis by auto
  qed
qed simp

lemma store_ids_distinct:
  assumes "store_ok st"
  shows "distinct (map mi_id (map snd (st_identities st)))"
proof -
  have d: "distinct (keys (st_identities st))" and k: "\<And>x i. lookup (st_identities st) x = Some i \<Longrightarrow> mi_id i = x"
    using assms by (simp_all add: store_ok_def)
  have "map mi_id (map snd (st_identities st)) = keys (st_identities st)"
    using k lookup_in_set [OF d] by auto
  with d show ?thesis by (simp only:)
qed

lemma List_distinct:
  assumes "store_ok st"
  shows "distinct (map mi_id (List st))"
proof -
  have "distinct (map mi_id (filter P (map snd (st_identities st))))" for P
    using store_ids_distinct [OF assms] distinct_map_filter by blast
  moreover have "mset (map mi_id (sort_key f xs)) = mset (map mi_id xs)" for f :: "machine_identity \<Rightarrow> time \<times> string" and xs
    by simp
  ultimately show ?thesis unfolding List_def list_identities_def
    by (metis (no_types, lifting) mset_eq_imp_distinct_iff)
qed

text \<open>
  A sweep takes exactly the listed identities that are active, past their expiry, and were not
  attempted within the retry window before; it counts all others as skipped; and it notes the instant
  of the attempt for the ones it takes and for no other.
\<close>
theorem sweep_selection:
  assumes "store_inv st" and "select_candidates now window (List st) la = (cs, n, la')"
  shows "cs = filter (\<lambda>i. mi_state i = StateActive \<and> mi_expires_at i \<le> now \<and>
             \<not> too_soon now window la (mi_id i)) (List st) \<and>
     n + length cs = length (List st) \<and>
     (\<forall>k. lookup la' k = (if k \<in> mi_id ` set cs then Some now else lookup la k))"
proof -
  have "sweep_due now window la i \<longleftrightarrow> mi_state i = StateActive \<and> mi_expires_at i \<le> now \<and>
      \<not> too_soon now window la (mi_id i)" for i
    by (auto simp: sweep_due_def RenewalUrgency_def ComputeUrgency_def)
  then have due: "sweep_due now window la = (\<lambda>i. mi_state i = StateActive \<and> mi_expires_at i \<le> now \<and>
      \<not> too_soon now window la (mi_id i))" by blast
  show ?thesis
    using select_candidates_eq [OF List_distinct [OF store_inv_ok [OF assms(1)]] assms(2)] unfolding due .
qed

section \<open>What a sweep does\<close>

definition untouched :: "string \<Rightarrow> store \<Rightarrow> store \<Rightarrow> bool" where
  "untouched k st st' \<longleftrightarrow> lookup (st_identities st') k = lookup (st_identities st) k \<and>
     slice_at (st_events st') k = slice_at (st_events st) k \<and>
     slice_at (st_runs st') k = slice_at (st_runs st) k"

definition kept_active :: "string \<Rightarrow> store \<Rightarrow> store \<Rightarrow> bool" where
  "kept_active k st st' \<longleftrightarrow> (\<forall>i. lookup (st_identities st) k = Some i \<longrightarrow> mi_state i = StateActive \<longrightarrow>
     (\<exists>j. lookup (st_identities st') k = Some j \<and> mi_state j = StateActive))"

lemma untouched_refl [simp]: "untouched k st st" by (simp add: untouched_def)
lemma untouched_trans: "untouched k a b \<Longrightarrow> untouched k b c \<Longrightarrow> untouched k a c" by (simp add: untouched_def)
lemma kept_active_refl [simp]: "kept_active k st st" by (simp add: kept_active_def)
lemma kept_active_trans: "kept_active k a b \<Longrightarrow> kept_active k b c \<Longrightarrow> kept_active k a c"
  by (fastforce simp: kept_active_def)

lemma rotated_confined:
  assumes "rotated k i r st st'" and "mi_state i = StateActive"
  shows "(j \<noteq> k \<longrightarrow> untouched j st st') \<and> kept_active j st st'"
  using assms by (auto simp: rotated_def untouched_def kept_active_def)

lemma Rotate_confined:
  assumes "store_inv (fst s)" and r: "Rotate env req now s = (res, s')"
  shows "(j \<noteq> ro_id req \<longrightarrow> untouched j (fst s) (fst s')) \<and> kept_active j (fst s) (fst s')"
  using store_inv_ok [OF assms(1)] r
proof (cases rule: Rotate_effect)
  case (failed i e w)
  from rotated_confined [OF failed(4)] show ?thesis by simp
next
  case (completed i view x w)
  have "mi_state x = StateActive"
    using same_governanceD(3) [OF completed(4)] by (simp add: renewed_identity_def)
  from rotated_confined [OF completed(5) this] show ?thesis .
qed simp_all

lemma rotate_all_facts:
  assumes "rotate_all s clk n jobs seq sys = (k, fs, seq', sys')" and "store_inv (fst sys)"
  shows "k + length fs = length jobs \<and> seq' = seq + length jobs \<and> store_inv (fst sys') \<and>
    set (map sf_identity_id fs) \<subseteq> mi_id ` set jobs \<and>
    (\<forall>j. j \<notin> mi_id ` set jobs \<longrightarrow> untouched j (fst sys) (fst sys')) \<and>
    (\<forall>j. kept_active j (fst sys) (fst sys'))"
  using assms
proof (induction jobs arbitrary: n seq sys k fs seq' sys')
  case (Cons i jobs)
  let ?req = "sweep_request (seq + 1) i"
  obtain res st w where r: "Rotate (sw_env s) ?req (clk n) sys = (res, (st, w))" by (rule prod_cases3)
  define w1 where "w1 = (case res of Inl err \<Rightarrow> log_line (sw_logger s)
    (''rotate overdue identity '' @ mi_id i @ '': '' @ err_text err) w | Inr _ \<Rightarrow> w)"
  obtain k1 fs1 seq1 sys1 where a: "rotate_all s clk (n + 1) jobs (seq + 1) (st, w1) = (k1, fs1, seq1, sys1)"
    by (rule prod_cases4)
  have res: "k + length fs = Suc (k1 + length fs1)" "seq' = seq1" "sys' = sys1"
    and ids: "set (map sf_identity_id fs) \<subseteq> insert (mi_id i) (set (map sf_identity_id fs1))"
    using Cons.prems(1) r a by (auto simp: w1_def Let_def split: sum.splits)
  have inv: "store_inv st" using Rotate_inv [OF Cons.prems(2), of "sw_env s" ?req "clk n"] r by simp
  from Cons.IH [OF a, simplified, OF inv]
  have ih: "k1 + length fs1 = length jobs" "seq1 = seq + 1 + length jobs" "store_inv (fst sys1)"
    "set (map sf_identity_id fs1) \<subseteq> mi_id ` set jobs"
    and un: "\<And>j. j \<notin> mi_id ` set jobs \<Longrightarrow> untouched j st (fst sys1)"
    and ka: "\<And>j. kept_active j st (fst sys1)" by simp_all
  have id: "ro_id ?req = mi_id i" by (simp add: sweep_request_def)
  note c = Rotate_confined [OF Cons.prems(2) r, unfolded id, simplified]
  have "untouched j (fst sys) (fst sys')" if "j \<notin> mi_id ` set (i # jobs)" for j
  proof (rule untouched_trans)
    show "untouched j (fst sys) st" using c [of j] that by simp
    show "untouched j st (fst sys')" using un [of j] that res(3) by simp
  qed
  moreover have "kept_active j (fst sys) (fst sys')" for j
    using c [of j] ka [of j] res(3) by (blast intro: kept_active_trans)
  moreover have "set (map sf_identity_id fs) \<subseteq> mi_id ` set (i # jobs)"
    by (rule subset_trans [OF ids]) (use ih(4) in auto)
  ultimately show ?case using ih res by simp
qed simp

text \<open>A schedule runs every job it is given, once, in some order.\<close>

definition runs_all :: "(machine_identity list \<Rightarrow> machine_identity list) \<Rightarrow> bool" where
  "runs_all schedule \<longleftrightarrow> (\<forall>cs. mset (schedule cs) = mset cs)"


text \<open>
  Within the retry window after a sweep no identity it attempted is attempted again, whether or not
  its rotation succeeded, so a provider that keeps refusing is not called in a loop.
\<close>
theorem sweep_backs_off:
  assumes "store_inv (fst sys)" and "store_inv (fst sys2)"
    and "sweepLeader s now clk schedule quit ss sys = (res, err, ss', sys')"
    and "select_candidates now (retry_window (sw_interval s)) (List (fst sys)) (ss_last_attempt ss) = (cs, n, la)"
    and "select_candidates later (retry_window (sw_interval s)) (List (fst sys2)) (ss_last_attempt ss') = (cs2, n2, la2)"
    and "i \<in> set cs" and "later < now + retry_window (sw_interval s)" and "sw_interval s \<le> max_int64"
  shows "mi_id i \<notin> mi_id ` set cs2"
proof
  let ?w = "retry_window (sw_interval s)"
  note distinct = List_distinct [OF store_inv_ok]
  have "lookup la (mi_id i) = Some now"
    using select_candidates_eq [OF distinct [OF assms(1)] assms(4)] assms(6) by auto
  moreover have "ss_last_attempt ss' = la"
  proof -
    have "cs \<noteq> []" using assms(6) by auto
    with assms(3,4) show ?thesis by (auto simp: sweepLeader_def Let_def split: prod.splits option.splits)
  qed
  ultimately have at: "lookup (ss_last_attempt ss') (mi_id i) = Some now" by simp
  have w: "?w \<le> max_int64" "0 < ?w"
    using assms(8) by (auto simp: retry_window_def Let_def nanosecond_def max_int64_def)
  have soon: "too_soon later ?w (ss_last_attempt ss') (mi_id i)"
    using at assms(7) w by (auto simp: too_soon_def time_sub_def max_int64_def min_int64_def)
  assume "mi_id i \<in> mi_id ` set cs2"
  then obtain j where j: "j \<in> set cs2" "mi_id j = mi_id i" by auto
  have "\<not> too_soon later ?w (ss_last_attempt ss') (mi_id j)"
    using select_candidates_eq [OF distinct [OF assms(2)] assms(5)] j(1) by (auto simp: sweep_due_def split: if_splits)
  with soon j(2) show False by simp
qed

text \<open>
  The delay before the next sweep lies between the interval and the interval plus the jitter, for
  every number the random source may give, as long as the jitter is at most 2 to the 53 nanoseconds
  (about 104 days), the integers a float64 holds exactly.
\<close>
theorem next_delay_bounds:
  assumes "NewSweeper c = Inr s" and "sg_jitter c \<le> 2 ^ 53"
  shows "sg_interval c \<le> nextDelay s r \<and> nextDelay s r \<le> sg_interval c + sg_jitter c"
proof -
  from assms(1) have s: "sw_interval s = sg_interval c" "sw_jitter s = sg_jitter c" "0 < sg_interval c"
    "0 \<le> sg_jitter c" "sg_interval c + sg_jitter c \<le> max_int64"
    by (auto simp: NewSweeper_def split: option.splits if_splits)
  let ?j = "sg_jitter c"
  define r2 where "r2 = (let r1 = (if r < 0 then 0 else r) in if 1 < r1 then 1 else r1)"
  have r2: "0 \<le> r2" "r2 \<le> 1" by (auto simp: r2_def Let_def)
  let ?p = "f64 (f64 (of_int ?j) * r2)"
  have exact: "f64 (of_int ?j) = (of_int ?j :: rat)" using f64_int_exact [of ?j] s(4) assms(2) by simp
  have prod: "0 \<le> of_int ?j * r2" "of_int ?j * r2 \<le> of_int ?j"
    using r2 s(4) by (auto intro: mult_left_le)
  then have p: "0 \<le> ?p" "?p \<le> of_int ?j"
    using f64_nonneg f64_le_int [OF prod] assms(2) by (auto simp: exact)
  have t: "0 \<le> trunc_rat ?p" "trunc_rat ?p \<le> ?j" using p by (auto simp: trunc_rat_def floor_le_iff)
  then have "float_to_int64 ?p = trunc_rat ?p"
    using s(3,5) by (auto simp: float_to_int64_def Let_def min_int64_def max_int64_def)
  with t s show ?thesis
    by (auto simp: nextDelay_def Let_def r2_def max_int64_def)
qed

section \<open>What Run does\<close>

definition retired_kept :: "store \<Rightarrow> store \<Rightarrow> bool" where
  "retired_kept st st' \<longleftrightarrow> (\<forall>k i. lookup (st_identities st) k = Some i \<longrightarrow> mi_state i = StateRetired \<longrightarrow>
     untouched k st st')"

lemma retired_kept_refl [simp]: "retired_kept st st" by (simp add: retired_kept_def)

lemma retired_kept_trans: "retired_kept a b \<Longrightarrow> retired_kept b c \<Longrightarrow> retired_kept a c"
  by (simp add: retired_kept_def untouched_def)

definition swept :: "store \<Rightarrow> store \<Rightarrow> bool" where
  "swept st st' \<longleftrightarrow> store_inv st' \<and> retired_kept st st' \<and> (\<forall>k. kept_active k st st')"

lemma swept_refl: "store_inv st \<Longrightarrow> swept st st" by (simp add: swept_def)

lemma swept_trans: "swept a b \<Longrightarrow> swept b c \<Longrightarrow> swept a c"
  unfolding swept_def using retired_kept_trans kept_active_trans by blast

lemma sweepLeader_swept:
  assumes inv: "store_inv (fst sys)" and sched: "\<And>cs. set (schedule cs) \<subseteq> set cs"
    and r: "sweepLeader s now clk schedule quit ss sys = (res, err, ss', sys')"
  shows "swept (fst sys) (fst sys')"
proof -
  obtain cs n la where sel: "select_candidates now (retry_window (sw_interval s)) (List (fst sys))
      (ss_last_attempt ss) = (cs, n, la)" by (rule prod_cases3)
  show ?thesis
  proof (cases "cs = []")
    case True
    with r sel inv show ?thesis by (auto simp: sweepLeader_def swept_refl)
  next
    case False
    define jobs where "jobs = (case quit of None \<Rightarrow> schedule cs | Some k \<Rightarrow> take k (schedule cs))"
    obtain k fs seq sys1 where a: "rotate_all s clk 0 jobs (ss_seq ss) sys = (k, fs, seq, sys1)"
      by (rule prod_cases4)
    have sys1: "sys1 = sys'" using r sel False a by (auto simp: sweepLeader_def jobs_def Let_def)
    note facts = rotate_all_facts [OF a inv, unfolded sys1]
    have sub: "set jobs \<subseteq> set cs" using sched [of cs] by (auto simp: jobs_def split: option.splits dest: in_set_takeD)
    have "untouched j (fst sys) (fst sys')"
      if "lookup (st_identities (fst sys)) j = Some i" "mi_state i = StateRetired" for j i
    proof -
      have "j \<notin> mi_id ` set jobs"
      proof
        assume "j \<in> mi_id ` set jobs"
        then obtain x where x: "x \<in> set cs" "mi_id x = j" using sub by auto
        have cs: "cs = filter (sweep_due now (retry_window (sw_interval s)) (ss_last_attempt ss)) (List (fst sys))"
          using select_candidates_eq [OF List_distinct [OF store_inv_ok [OF inv]] sel] by (rule conjunct1)
        from x(1) have "x \<in> set (List (fst sys))" "mi_state x = StateActive"
          unfolding cs by (simp_all add: sweep_due_def split: if_splits)
        then have "lookup (st_identities (fst sys)) (mi_id x) = Some x"
          using store_inv_ok [OF inv] by (auto simp: List_def list_identities_def store_ok_def lookup_in_set)
        with x(2) that \<open>mi_state x = StateActive\<close> show False by simp
      qed
      with facts show ?thesis by blast
    qed
    with facts show ?thesis by (simp add: swept_def retired_kept_def)
  qed
qed

lemma run_tick_swept:
  assumes inv: "store_inv (fst sys)" and sched: "\<And>cs. set (schedule cs) \<subseteq> set cs"
    and r: "run_tick s schedule inp rs ss sys = (rs', ss', sys')"
  shows "swept (fst sys) (fst sys')"
proof -
  have lead: "swept (fst sys) (fst sys')"
    if "lead_sweep s schedule inp rs1 ss (fst sys, w) = (rs', ss', sys')" for rs1 w
  proof -
    obtain res err ss1 st1 w1 where l: "sweepLeader s (ri_now inp) (ri_clk inp) schedule (ri_quit inp) ss (fst sys, w)
        = (res, err, ss1, (st1, w1))" by (rule prod_cases5)
    have "fst sys' = st1" using that l by (auto simp: lead_sweep_def)
    with sweepLeader_swept [OF _ sched l] inv show ?thesis by simp
  qed
  show ?thesis
  proof (cases "rn_leader (note_loss (ri_lost1 inp) rs)")
    case True
    with r lead [of _ "snd sys"] show ?thesis by (simp add: run_tick_def)
  next
    case False
    obtain acq w where a: "lm_try_acquire (sw_lease s) (snd sys) = (acq, w)" by (rule prod.exhaust)
    show ?thesis
    proof (cases "acq = Inr True")
      case True
      with r a False lead show ?thesis by (simp add: run_tick_def)
    next
      case no: False
      with r a False inv show ?thesis
        by (cases acq) (auto simp: run_tick_def Let_def swept_refl split: if_splits)
    qed
  qed
qed

lemma run_ticks_swept:
  assumes sched: "\<And>cs. set (schedule cs) \<subseteq> set cs"
    and "store_inv (fst sys)" and "run_ticks s schedule inps rs ss sys = (rs', ss', sys')"
  shows "swept (fst sys) (fst sys')"
  using assms(2,3)
proof (induction inps arbitrary: rs ss sys)
  case (Cons inp inps)
  obtain rs1 ss1 sys1 where t: "run_tick s schedule inp rs ss sys = (rs1, ss1, sys1)" by (rule prod_cases3)
  from run_tick_swept [OF Cons.prems(1) sched t] have sw: "swept (fst sys) (fst sys1)" .
  moreover have "swept (fst sys1) (fst sys')"
    using Cons.IH [of sys1 rs1 ss1] Cons.prems(2) t sw by (simp add: swept_def)
  ultimately show ?case by (rule swept_trans)
qed (simp add: swept_refl)

lemma follower_tick:
  assumes "\<And>w. fst (lm_try_acquire (sw_lease s) w) \<noteq> Inr True" and "rs = run_start"
    and "run_tick s schedule inp rs ss sys = (rs', ss', sys')"
  shows "rs' = run_start \<and> ss' = ss \<and> fst sys' = fst sys"
proof -
  obtain acq w where a: "lm_try_acquire (sw_lease s) (snd sys) = (acq, w)" by (rule prod.exhaust)
  with assms(1) [of "snd sys"] have "acq \<noteq> Inr True" by simp
  with a assms(2,3) show ?thesis
    by (cases acq) (auto simp: run_tick_def run_start_def note_loss_def Let_def split: if_splits)
qed

text \<open>
  C23. Whatever ticker signals, lost leases, clock readings and cancellations a running worker sees, it
  keeps the store invariant, never touches a retired identity and never leaves an active one in
  another state; and a worker that never acquires the lease changes nothing at all.
\<close>
theorem run_safe:
  assumes "store_inv (fst sys)" and "\<And>cs. set (schedule cs) \<subseteq> set cs"
    and "Run s schedule inps ss sys = (ss', sys')"
  shows "store_inv (fst sys') \<and> retired_kept (fst sys) (fst sys') \<and> (\<forall>k. kept_active k (fst sys) (fst sys')) \<and>
     ((\<forall>w. fst (lm_try_acquire (sw_lease s) w) \<noteq> Inr True) \<longrightarrow> ss' = ss \<and> fst sys' = fst sys)"
proof -
  obtain rs st w where r: "run_ticks s schedule inps run_start ss sys = (rs, ss', (st, w))"
    and st: "fst sys' = st" using assms(3) by (auto simp: Run_def split: prod.splits)
  have "run_ticks s schedule inps run_start ss sys = (rs, ss', (st, w)) \<Longrightarrow> ss' = ss \<and> st = fst sys"
    if f: "\<And>w. fst (lm_try_acquire (sw_lease s) w) \<noteq> Inr True"
  proof (induction inps arbitrary: sys)
    case (Cons inp inps)
    obtain rs1 ss1 sys1 where t: "run_tick s schedule inp run_start ss sys = (rs1, ss1, sys1)" by (rule prod_cases3)
    with follower_tick [OF f refl t] Cons show ?case by simp
  qed simp
  with r st run_ticks_swept [OF assms(2,1) r] show ?thesis by (auto simp: swept_def)
qed

section \<open>A concrete worker\<close>

definition sample_sweeper :: "sample_world sweeper" where
  "sample_sweeper = \<lparr>sw_env = sample_env, sw_interval = hour, sw_jitter = minute,
     sw_lease = InMemoryLeaseManager, sw_logger = None, sw_concurrency = 2\<rparr>"

definition sample_sweeps :: sweep_state where
  "sample_sweeps = \<lparr>ss_last_attempt = [], ss_seq = 0\<rparr>"

lemma sample_select:
  "select_candidates 5 (retry_window hour) (List (fst sample_sys)) [] = ([sample_identity], 0, [(''svc'', 5)])"
  by (simp add: sample_sys_def sample_store_def set_identity_def empty_store_def List_def list_identities_def
      sample_identity_def sweep_due_def too_soon_def RenewalUrgency_def ComputeUrgency_def zero_identity_def)

theorem sweep_selection_witness:
  "sample_identity \<in> set (List (fst sample_sys)) \<and> mi_expires_at sample_identity \<le> 5"
proof -
  have "sample_identity \<in> set [sample_identity]" by simp
  then show ?thesis unfolding conjunct1 [OF sweep_selection [OF sample_inv_sys sample_select]] by simp
qed


theorem sweep_backs_off_witness:
  "\<exists>ss'. (\<exists>res err sys'. sweepLeader sample_sweeper 5 (\<lambda>_. 6) rev None sample_sweeps sample_sys = (res, err, ss', sys')) \<and>
     ''svc'' \<notin> mi_id ` set (fst (select_candidates 7 (retry_window hour) (List (fst sample_sys)) (ss_last_attempt ss')))"
proof -
  obtain res err ss' sys' where s:
    "sweepLeader sample_sweeper 5 (\<lambda>_. 6) rev None sample_sweeps sample_sys = (res, err, ss', sys')"
    by (rule prod_cases4)
  obtain cs n la where c: "select_candidates 7 (retry_window hour) (List (fst sample_sys)) (ss_last_attempt ss') = (cs, n, la)"
    by (rule prod_cases3)
  have "mi_id sample_identity \<notin> mi_id ` set cs"
    using sweep_backs_off [OF sample_inv_sys sample_inv_sys s] sample_select c
    by (simp add: sample_sweeper_def sample_sweeps_def retry_window_def hour_def max_int64_def)
  with s c show ?thesis by (auto simp: sample_identity_def)
qed

theorem next_delay_bounds_witness:
  "hour \<le> nextDelay sample_sweeper (1 / 2) \<and> nextDelay sample_sweeper (1 / 2) \<le> hour + minute"
proof -
  let ?c = "\<lparr>sg_store = Some sample_env, sg_has_clock = True, sg_interval = hour, sg_jitter = minute,
     sg_lease = None, sg_logger = None, sg_concurrency = 0\<rparr>"
  have "NewSweeper ?c = Inr sample_sweeper"
    by (simp add: NewSweeper_def sample_sweeper_def hour_def minute_def max_int64_def)
  from next_delay_bounds [OF this, of "1 / 2"] show ?thesis by (simp add: minute_def)
qed

theorem run_safe_witness:
  "\<exists>ss' sys'. Run sample_sweeper rev [\<lparr>ri_lost1 = False, ri_lost2 = True, ri_now = 5, ri_clk = \<lambda>_. 6, ri_quit = None\<rparr>]
     sample_sweeps sample_sys = (ss', sys') \<and> store_inv (fst sys')"
proof -
  let ?i = "\<lparr>ri_lost1 = False, ri_lost2 = True, ri_now = 5, ri_clk = \<lambda>_. 6, ri_quit = None\<rparr>"
  obtain ss' sys' where r: "Run sample_sweeper rev [?i] sample_sweeps sample_sys = (ss', sys')" by (rule prod.exhaust)
  have "set (rev cs) \<subseteq> set cs" for cs :: "machine_identity list" by simp
  from run_safe [OF sample_inv_sys this r] r show ?thesis by blast
qed

end
