(* ===== verification/Encoding.thy ===== *)
theory Encoding
  imports Prelude "HOL-Library.Word"
begin

text \<open>
  The parts of Go's standard library that the web layer signs and encodes with: unpadded URL-safe
  base64 (encoding/base64), hexadecimal (encoding/hex), SHA-256 (crypto/sha256), HMAC (crypto/hmac),
  query escaping (net/url) and strings.Fields. A byte sequence is a string.
\<close>

unbundle bit_operations_syntax

section \<open>Unpadded URL-safe base64\<close>

definition b64_char :: "nat \<Rightarrow> char" where
  "b64_char n =
     (if n < 26 then char_of (n + 65) else if n < 52 then char_of (n + 71)
      else if n < 62 then char_of (n - 4) else if n = 62 then CHR ''-'' else CHR ''_'')"

definition b64_val :: "char \<Rightarrow> nat option" where
  "b64_val c = (let n = (of_char c :: nat) in
     if 65 \<le> n \<and> n \<le> 90 then Some (n - 65) else if 97 \<le> n \<and> n \<le> 122 then Some (n - 71)
     else if 48 \<le> n \<and> n \<le> 57 then Some (n + 4)
     else if c = CHR ''-'' then Some 62 else if c = CHR ''_'' then Some 63 else None)"

fun b64_groups :: "nat list \<Rightarrow> nat list" where
  "b64_groups (a # b # c # bs) =
     (a div 4) # (a mod 4 * 16 + b div 16) # (b mod 16 * 4 + c div 64) # (c mod 64) # b64_groups bs"
| "b64_groups [a, b] = [a div 4, a mod 4 * 16 + b div 16, b mod 16 * 4]"
| "b64_groups [a] = [a div 4, a mod 4 * 16]"
| "b64_groups [] = []"

definition b64_encode :: "string \<Rightarrow> string" where
  "b64_encode s = map b64_char (b64_groups (map of_char s))"

text \<open>
  DecodeString of an encoding that is not Strict: carriage returns and line feeds are skipped and
  the unused bits of the last digit are ignored. One digit alone cannot end the text.
\<close>

fun b64_bytes :: "nat list \<Rightarrow> nat list option" where
  "b64_bytes (a # b # c # d # vs) =
     (case b64_bytes vs of
        None \<Rightarrow> None
      | Some bs \<Rightarrow> Some ((a * 4 + b div 16) # (b mod 16 * 16 + c div 4) # (c mod 4 * 64 + d) # bs))"
| "b64_bytes [a, b, c] = Some [a * 4 + b div 16, b mod 16 * 16 + c div 4]"
| "b64_bytes [a, b] = Some [a * 4 + b div 16]"
| "b64_bytes [a] = None"
| "b64_bytes [] = Some []"

definition b64_digits :: "string \<Rightarrow> nat list option" where
  "b64_digits s =
     (let vs = map b64_val (filter (\<lambda>c. c \<noteq> CHR 0x0A \<and> c \<noteq> CHR 0x0D) s)
      in if None \<in> set vs then None else Some (map the vs))"

definition b64_decode :: "string \<Rightarrow> string option" where
  "b64_decode s = (case b64_digits s of
     None \<Rightarrow> None | Some vs \<Rightarrow> map_option (map char_of) (b64_bytes vs))"

lemma b64_groups_bound: "list_all (\<lambda>n. n < 256) bs \<Longrightarrow> v \<in> set (b64_groups bs) \<Longrightarrow> v < 64"
  by (induction bs rule: b64_groups.induct) auto

lemma glue:
  "y < n \<Longrightarrow> (x * n + y) div n = (x :: nat)" "y < n \<Longrightarrow> (x * n + y) mod n = (y :: nat)"
  by simp_all

lemma b64_bytes_groups: "list_all (\<lambda>n. n < 256) bs \<Longrightarrow> b64_bytes (b64_groups bs) = Some bs"
proof (induction bs rule: b64_groups.induct)
  case (1 a b c bs)
  then have ih: "b64_bytes (b64_groups bs) = Some bs" and "b div 16 < 16" "c div 64 < 4"
    by (simp_all add: less_mult_imp_div_less)
  then show ?case by (simp add: glue [of "b div 16" 16] glue [of "c div 64" 4])
next
  case (2 a b)
  then have "b div 16 < 16" by (simp add: less_mult_imp_div_less)
  then show ?case by (simp add: glue [of "b div 16" 16])
qed simp_all

lemma of_b64_char: "n < 64 \<Longrightarrow> (of_char (b64_char n) :: nat) =
  (if n < 26 then n + 65 else if n < 52 then n + 71 else if n < 62 then n - 4 else if n = 62 then 45 else 95)"
  by (simp add: b64_char_def)

lemma b64_val_char: "n < 64 \<Longrightarrow> b64_val (b64_char n) = Some n"
proof -
  assume n: "n < 64"
  consider "n < 62" | "n = 62" | "n = 63" using n by linarith
  then show "b64_val (b64_char n) = Some n"
  proof cases
    case 1
    then show ?thesis using of_b64_char [OF n] by (auto simp: b64_val_def Let_def split: if_splits)
  qed (simp_all add: b64_val_def b64_char_def)
qed

lemma b64_char_plain: "n < 64 \<Longrightarrow> b64_char n \<noteq> CHR 0x0A \<and> b64_char n \<noteq> CHR 0x0D \<and> b64_char n \<noteq> CHR ''.''"
  using of_b64_char [of n] by (auto split: if_splits)

lemma bytes_of_string: "list_all (\<lambda>n. n < (256 :: nat)) (map of_char (s :: string))"
  by (induction s) simp_all

theorem b64_decode_encode [simp]: "b64_decode (b64_encode s) = Some s"
proof -
  let ?vs = "b64_groups (map of_char s)"
  have lt: "v < 64" if "v \<in> set ?vs" for v using b64_groups_bound [OF bytes_of_string that] .
  have "filter (\<lambda>c. c \<noteq> CHR 0x0A \<and> c \<noteq> CHR 0x0D) (map b64_char ?vs) = map b64_char ?vs"
    using lt b64_char_plain by (simp add: filter_id_conv)
  moreover have val: "b64_val (b64_char v) = Some v" if "v \<in> set ?vs" for v
    using b64_val_char [OF lt [OF that]] .
  moreover have "None \<notin> (\<lambda>v. b64_val (b64_char v)) ` set ?vs" using val by force
  moreover have "map (\<lambda>v. the (b64_val (b64_char v))) ?vs = ?vs" using val by (simp add: map_idI)
  ultimately have "b64_digits (b64_encode s) = Some ?vs"
    by (simp add: b64_digits_def b64_encode_def Let_def comp_def map_idI)
  then show ?thesis
    using b64_bytes_groups [OF bytes_of_string [of s]] by (simp add: b64_decode_def comp_def)
qed

lemma b64_encode_no_dot: "CHR ''.'' \<notin> set (b64_encode s)"
  using b64_groups_bound [OF bytes_of_string [of s]] b64_char_plain by (fastforce simp: b64_encode_def)

section \<open>SHA-256 and HMAC\<close>

type_synonym u32 = "32 word"

text \<open>
  The constants of SHA-256 are the first 32 bits of the fractional parts of roots of the first primes:
  cube roots for the rounds, square roots for the initial state. \<open>root_bits k n i\<close> is the k-th root of
  n, rounded down, found from bit i - 1 downwards.
\<close>

fun root_bits :: "nat \<Rightarrow> nat \<Rightarrow> nat \<Rightarrow> nat \<Rightarrow> nat" where
  "root_bits k n 0 r = r"
| "root_bits k n (Suc i) r = root_bits k n i (if (r + 2 ^ i) ^ k \<le> n then r + 2 ^ i else r)"

definition primes_below :: "nat \<Rightarrow> nat list" where
  "primes_below m = filter (\<lambda>p. list_all (\<lambda>d. p mod d \<noteq> 0) [2..<p]) [2..<m]"

definition sha_k :: "u32 list" where
  "sha_k = map (\<lambda>p. word_of_nat (root_bits 3 (p * 2 ^ 96) 36 0)) (primes_below 312)"

definition sha_init :: "u32 list" where
  "sha_init = map (\<lambda>p. word_of_nat (root_bits 2 (p * 2 ^ 64) 36 0)) [2, 3, 5, 7, 11, 13, 17, 19]"

definition sha_next :: "u32 list \<Rightarrow> u32" where
  "sha_next ws =
     (let n = length ws; w15 = ws ! (n - 15); w2 = ws ! (n - 2) in
      ws ! (n - 16) + (word_rotr 7 w15 XOR word_rotr 18 w15 XOR drop_bit 3 w15)
      + ws ! (n - 7) + (word_rotr 17 w2 XOR word_rotr 19 w2 XOR drop_bit 10 w2))"

fun sha_schedule :: "nat \<Rightarrow> u32 list \<Rightarrow> u32 list" where
  "sha_schedule 0 ws = ws"
| "sha_schedule (Suc n) ws = sha_schedule n (ws @ [sha_next ws])"

fun sha_round :: "u32 list \<Rightarrow> u32 \<times> u32 \<Rightarrow> u32 list" where
  "sha_round [a, b, c, d, e, f, g, h] (k, w) =
     (let t1 = h + (word_rotr 6 e XOR word_rotr 11 e XOR word_rotr 25 e)
                 + ((e AND f) XOR (NOT e AND g)) + k + w;
          t2 = (word_rotr 2 a XOR word_rotr 13 a XOR word_rotr 22 a)
                 + ((a AND b) XOR (a AND c) XOR (b AND c))
      in [t1 + t2, a, b, c, d + t1, e, f, g])"
| "sha_round st _ = st"

definition sha_block :: "u32 list \<Rightarrow> u32 list \<Rightarrow> u32 list" where
  "sha_block st ws = map2 (+) st (foldl sha_round st (zip sha_k (sha_schedule 48 ws)))"

fun be_words :: "nat list \<Rightarrow> u32 list" where
  "be_words (a # b # c # d # bs) = word_of_nat (a * 0x1000000 + b * 0x10000 + c * 0x100 + d) # be_words bs"
| "be_words _ = []"

fun sha_blocks :: "nat \<Rightarrow> u32 list \<Rightarrow> u32 list \<Rightarrow> u32 list" where
  "sha_blocks 0 st ws = st"
| "sha_blocks (Suc n) st ws = sha_blocks n (sha_block st (take 16 ws)) (drop 16 ws)"

definition sha_pad :: "nat list \<Rightarrow> nat list" where
  "sha_pad bs = bs @ [0x80] @ replicate ((119 - length bs mod 64) mod 64) 0
     @ map (\<lambda>i. (8 * length bs) div 256 ^ i mod 256) [7, 6, 5, 4, 3, 2, 1, 0]"

definition word_bytes :: "u32 \<Rightarrow> nat list" where
  "word_bytes w = map (\<lambda>i. unat w div 256 ^ i mod 256) [3, 2, 1, 0]"

definition sha256 :: "string \<Rightarrow> string" where
  "sha256 s =
     (let bs = sha_pad (map of_char s)
      in map char_of (concat (map word_bytes (sha_blocks (length bs div 64) sha_init (be_words bs)))))"

definition hmac_block :: "string \<Rightarrow> nat list" where
  "hmac_block key =
     (let k = map of_char (if 64 < length key then sha256 key else key) in k @ replicate (64 - length k) 0)"

definition hmac_sha256 :: "string \<Rightarrow> string \<Rightarrow> string" where
  "hmac_sha256 key msg =
     (let k = hmac_block key;
          inner = sha256 (map (\<lambda>b. char_of (b XOR 0x36)) k @ msg)
      in sha256 (map (\<lambda>b. char_of (b XOR 0x5C)) k @ inner))"

text \<open>A digest has 32 bytes.\<close>

lemma length_sha_round [simp]: "length (sha_round st kw) = length st"
  by (induction st kw rule: sha_round.induct) (simp_all add: Let_def)

lemma length_foldl_round [simp]: "length (foldl sha_round st kws) = length st"
  by (induction kws arbitrary: st) simp_all

lemma length_sha_blocks [simp]: "length (sha_blocks n st ws) = length st"
  by (induction n arbitrary: st ws) (simp_all add: sha_block_def)

lemma length_sha256 [simp]: "length (sha256 s) = 32"
proof -
  have "length (concat (map word_bytes ws)) = 4 * length ws" for ws
    by (induction ws) (simp_all add: word_bytes_def)
  then show ?thesis by (simp add: sha256_def Let_def sha_init_def)
qed

section \<open>Hexadecimal, query escaping and fields\<close>

definition hex_val :: "char \<Rightarrow> nat option" where
  "hex_val c = (let n = (of_char c :: nat) in
     if 48 \<le> n \<and> n \<le> 57 then Some (n - 48) else if 97 \<le> n \<and> n \<le> 102 then Some (n - 87)
     else if 65 \<le> n \<and> n \<le> 70 then Some (n - 55) else None)"

fun hex_decode :: "string \<Rightarrow> string option" where
  "hex_decode (a # b # s) =
     (case (hex_val a, hex_val b, hex_decode s) of
        (Some x, Some y, Some t) \<Rightarrow> Some (char_of (x * 16 + y) # t)
      | _ \<Rightarrow> None)"
| "hex_decode [a] = None"
| "hex_decode [] = Some []"

definition hex_byte :: "char \<Rightarrow> string" where
  "hex_byte c = (let n = (of_char c :: nat) in [digit (n div 16), digit (n mod 16)])"

definition hex_encode :: "string \<Rightarrow> string" where
  "hex_encode s = concat (map hex_byte s)"

lemma hex_val_digit: "n < 16 \<Longrightarrow> hex_val (digit n) = Some n"
  by (auto simp: hex_val_def digit_def Let_def)

lemma hex_decode_encode [simp]: "hex_decode (hex_encode s) = Some s"
proof (induction s)
  case (Cons c s)
  have "(of_char c :: nat) < 256" by simp
  then have "(of_char c :: nat) div 16 < 16" by linarith
  with Cons show ?case by (simp add: hex_encode_def hex_byte_def hex_val_digit Let_def)
qed (simp add: hex_encode_def)

definition upper_hex :: "nat \<Rightarrow> char" where
  "upper_hex n = char_of (n + (if n < 10 then 48 else 55))"

definition query_escape :: "string \<Rightarrow> string" where
  "query_escape s = concat (map (\<lambda>c. let n = (of_char c :: nat) in
     if 48 \<le> n \<and> n \<le> 57 \<or> 65 \<le> n \<and> n \<le> 90 \<or> 97 \<le> n \<and> n \<le> 122 \<or> c \<in> set ''-_.~'' then [c]
     else if c = CHR '' '' then ''+''
     else [CHR ''%'', upper_hex (n div 16), upper_hex (n mod 16)]) s)"

text \<open>strings.Fields: the maximal runs of bytes between white-space runes.\<close>

definition starts_space :: "string \<Rightarrow> bool" where
  "starts_space s \<longleftrightarrow> list_ex (\<lambda>w. has_prefix s w) space_runes"

fun first_field :: "string \<Rightarrow> string" where
  "first_field [] = []"
| "first_field (c # s) = (if starts_space (c # s) then [] else c # first_field s)"

lemma strip_front_not_space:
  "[] \<notin> set ws \<Longrightarrow> \<not> list_ex (\<lambda>w. has_prefix (strip_front ws s) w) ws"
proof (induction ws s rule: strip_front.induct)
  case (1 ws s)
  show ?case
  proof (cases "find (\<lambda>w. w \<noteq> [] \<and> has_prefix s w) ws")
    case None
    then have "strip_front ws s = s" by (subst strip_front.simps) simp
    moreover have "\<not> has_prefix s w" if "w \<in> set ws" for w
      using None that 1(2) by (auto simp: find_None_iff)
    ultimately show ?thesis by (simp add: list_ex_iff)
  next
    case (Some w)
    with 1 show ?thesis by (subst strip_front.simps) simp
  qed
qed

lemma first_field_nonempty:
  assumes "strip_front space_runes s \<noteq> []"
  shows "first_field (strip_front space_runes s) \<noteq> []"
proof -
  have "\<not> starts_space (strip_front space_runes s)"
    unfolding starts_space_def by (rule strip_front_not_space) (simp add: space_runes_def)
  with assms show ?thesis by (cases "strip_front space_runes s") simp_all
qed

function go_fields :: "string \<Rightarrow> string list" where
  "go_fields s =
     (let t = strip_front space_runes s in
      if t = [] then [] else first_field t # go_fields (drop (length (first_field t)) t))"
  by pat_completeness auto
termination
proof (relation "measure length")
  fix s t :: string
  assume t: "t = strip_front space_runes s" "t \<noteq> []"
  then have "0 < length (first_field t)" "0 < length t" using first_field_nonempty [of s] by auto
  moreover have "length t \<le> length s" using length_strip_front t(1) by simp
  ultimately have "length t - length (first_field t) < length s" by linarith
  then show "(drop (length (first_field t)) t, s) \<in> measure length" by simp
qed simp

declare go_fields.simps [simp del]

section \<open>Lowering and trimming\<close>

text \<open>A byte that is no ASCII letter: lowering neither makes nor removes one.\<close>

definition no_letter :: "char \<Rightarrow> bool" where
  "no_letter c \<longleftrightarrow> \<not> (0x41 \<le> (of_char c :: nat) \<and> of_char c \<le> (0x5A :: nat)) \<and>
     \<not> (0x61 \<le> (of_char c :: nat) \<and> of_char c \<le> (0x7A :: nat))"

lemma lower_byte_no_letter: "lower_byte a = h \<Longrightarrow> no_letter h \<Longrightarrow> a = h"
  by (auto simp: lower_byte_def no_letter_def Let_def split: if_splits)

lemma lower_byte_idem [simp]: "lower_byte (lower_byte a) = lower_byte a"
  by (auto simp: lower_byte_def Let_def)

lemma to_lower_Cons:
  assumes "to_lower s = h # t" "no_letter h"
  shows "\<exists>s'. s = h # s' \<and> t = to_lower s'"
proof -
  have "\<not> no_letter CHR ''k''" "\<not> no_letter CHR ''i''" by (simp_all add: no_letter_def)
  then show ?thesis using assms lower_byte_no_letter
    by (cases s rule: to_lower.cases) (auto split: if_splits)
qed

lemma to_lower_no_letters: "to_lower s = w @ t \<Longrightarrow> list_all no_letter w \<Longrightarrow> \<exists>s'. s = w @ s' \<and> t = to_lower s'"
proof (induction w arbitrary: s)
  case (Cons h w)
  then obtain s' where "s = h # s'" "w @ t = to_lower s'" using to_lower_Cons [of s h "w @ t"] by auto
  with Cons.IH [of s'] Cons.prems(2) show ?case by auto
qed auto

lemma to_lower_split: "to_lower s = p @ w \<Longrightarrow> \<exists>q s'. s = q @ s' \<and> to_lower s' = w"
proof (induction s arbitrary: p rule: to_lower.induct)
  case (1 a b c s)
  show ?case
  proof (cases p)
    case Nil
    then show ?thesis using "1.prems" by (metis append_Nil)
  next
    case (Cons x p')
    consider "[a, b, c] = [CHR 0xE2, CHR 0x84, CHR 0xAA]"
      | "[a, b, c] \<noteq> [CHR 0xE2, CHR 0x84, CHR 0xAA]" "[a, b] = [CHR 0xC4, CHR 0xB0]"
      | "[a, b, c] \<noteq> [CHR 0xE2, CHR 0x84, CHR 0xAA]" "[a, b] \<noteq> [CHR 0xC4, CHR 0xB0]" by blast
    then show ?thesis
    proof cases
      case 1
      then obtain q s' where "s = q @ s'" "to_lower s' = w" using "1.IH"(1) "1.prems" Cons by fastforce
      then show ?thesis by (intro exI [of _ "a # b # c # q"] exI [of _ s']) simp
    next
      case 2
      then obtain q s' where "c # s = q @ s'" "to_lower s' = w" using "1.IH"(2) "1.prems" Cons by fastforce
      then show ?thesis by (intro exI [of _ "a # b # q"] exI [of _ s']) simp
    next
      case 3
      then have "to_lower (a # b # c # s) = lower_byte a # to_lower (b # c # s)"
        unfolding to_lower.simps(1) by (simp only: if_False)
      then have "to_lower (b # c # s) = p' @ w" using "1.prems" Cons by simp
      then obtain q s' where "b # c # s = q @ s'" "to_lower s' = w" using "1.IH"(3) [OF 3] by blast
      then show ?thesis by (intro exI [of _ "a # q"] exI [of _ s']) simp
    qed
  qed
next
  case (2 a b)
  show ?case
  proof (cases "w = []")
    case True
    then show ?thesis by (intro exI [of _ "[a, b]"] exI [of _ "[]"]) simp
  next
    case False
    show ?thesis
    proof (cases p)
      case Nil
      then show ?thesis using 2 by (metis append_Nil)
    next
      case (Cons x p')
      then have "w = [lower_byte b]" using 2 False by (cases p') (auto split: if_splits)
      then show ?thesis by (intro exI [of _ "[a]"] exI [of _ "[b]"]) simp
    qed
  qed
next
  case (3 a)
  show ?case
  proof (cases p)
    case Nil
    then show ?thesis using 3 by (metis append_Nil)
  next
    case (Cons x p')
    then show ?thesis using 3 by (intro exI [of _ "[a]"] exI [of _ "[]"]) auto
  qed
qed auto

lemma to_lower_step:
  "\<not> has_prefix (x # u) [CHR 0xE2, CHR 0x84, CHR 0xAA] \<Longrightarrow> \<not> has_prefix (x # u) [CHR 0xC4, CHR 0xB0] \<Longrightarrow>
   to_lower (x # u) = lower_byte x # to_lower u"
  by (cases "x # u" rule: to_lower.cases) auto

lemma lower_byte_letter: "lower_byte CHR ''i'' = CHR ''i''"
  by (simp add: lower_byte_def)

lemma to_lower_idem [simp]: "to_lower (to_lower s) = to_lower s"
proof (induction s rule: to_lower.induct)
  case (1 a b c s)
  consider "[a, b, c] = [CHR 0xE2, CHR 0x84, CHR 0xAA]"
    | "[a, b, c] \<noteq> [CHR 0xE2, CHR 0x84, CHR 0xAA]" "[a, b] = [CHR 0xC4, CHR 0xB0]"
    | "[a, b, c] \<noteq> [CHR 0xE2, CHR 0x84, CHR 0xAA]" "[a, b] \<noteq> [CHR 0xC4, CHR 0xB0]" by blast
  then show ?case
  proof cases
    case 3
    have eq: "to_lower (a # b # c # s) = lower_byte a # to_lower (b # c # s)"
      using 3 unfolding to_lower.simps(1) by (simp only: if_False)
    have ih: "to_lower (to_lower (b # c # s)) = to_lower (b # c # s)" by (rule "1.IH"(3) [OF 3])
    have "\<not> has_prefix (lower_byte a # to_lower (b # c # s)) [CHR 0xE2, CHR 0x84, CHR 0xAA]"
      "\<not> has_prefix (lower_byte a # to_lower (b # c # s)) [CHR 0xC4, CHR 0xB0]"
      using 3 to_lower_no_letters [of "b # c # s" "[CHR 0x84, CHR 0xAA]"]
        to_lower_no_letters [of "b # c # s" "[CHR 0xB0]"] lower_byte_no_letter [of a]
      by (auto simp: has_prefix_iff no_letter_def)
    from to_lower_step [OF this] show ?thesis unfolding eq using ih by simp
  qed (use "1.IH" in \<open>simp_all add: to_lower_step lower_byte_def\<close>)
next
  case (2 a b)
  show ?case using lower_byte_no_letter [of a "CHR 0xC4"] lower_byte_no_letter [of b "CHR 0xB0"]
    by (auto simp: no_letter_def lower_byte_letter)
qed simp_all

lemma to_lower_Nil_iff [simp]: "to_lower s = [] \<longleftrightarrow> s = []"
  by (cases s rule: to_lower.cases) simp_all

text \<open>Trimming, lowering and trimming again is trimming and lowering.\<close>

lemma strip_front_fixed: "list_all (\<lambda>w. \<not> has_prefix s w) ws \<Longrightarrow> strip_front ws s = s"
proof -
  assume "list_all (\<lambda>w. \<not> has_prefix s w) ws"
  then have "find (\<lambda>w. w \<noteq> [] \<and> has_prefix s w) ws = None" by (auto simp: find_None_iff list_all_iff)
  then show "strip_front ws s = s" by (subst strip_front.simps) simp
qed

lemma space_runes_no_letters: "w \<in> set space_runes \<Longrightarrow> w \<noteq> [] \<and> list_all no_letter w"
  by (auto simp: space_runes_def no_letter_def)

lemma trimmed_ends:
  assumes "w \<in> set space_runes"
  shows "\<not> has_prefix (trim_space s) w" "\<not> has_prefix (rev (trim_space s)) (rev w)"
proof -
  let ?z = "strip_front space_runes s"
  have ne: "[] \<notin> set space_runes" "[] \<notin> set (map rev space_runes)"
    using space_runes_no_letters by auto
  have r: "rev (trim_space s) = strip_front (map rev space_runes) (rev ?z)" by (simp add: trim_space_def)
  have "\<not> list_ex (has_prefix (rev (trim_space s))) (map rev space_runes)"
    unfolding r using strip_front_not_space [OF ne(2)] by simp
  with assms show "\<not> has_prefix (rev (trim_space s)) (rev w)" by (auto simp: list_ex_iff)
  obtain p where "rev ?z = p @ rev (trim_space s)" using strip_front_suffix [of "rev ?z"] r by metis
  then have z: "?z = trim_space s @ rev p" by (metis rev_append rev_rev_ident)
  show "\<not> has_prefix (trim_space s) w"
  proof
    assume "has_prefix (trim_space s) w"
    then have "has_prefix ?z w" unfolding z by (auto simp: has_prefix_iff)
    with strip_front_not_space [OF ne(1), of s] assms show False by (auto simp: list_ex_iff)
  qed
qed

lemma trim_lower_trim [simp]: "trim_space (to_lower (trim_space s)) = to_lower (trim_space s)"
proof -
  let ?y = "trim_space s"
  have front: "\<not> has_prefix (to_lower ?y) w" if w: "w \<in> set space_runes" for w
    using to_lower_no_letters [of ?y w] trimmed_ends(1) [OF w, of s] space_runes_no_letters [OF w]
    by (auto simp: has_prefix_iff)
  have rear: "\<not> has_prefix (rev (to_lower ?y)) (rev w)" if w: "w \<in> set space_runes" for w
  proof
    assume "has_prefix (rev (to_lower ?y)) (rev w)"
    then obtain p where "to_lower ?y = p @ w" by (auto simp: has_prefix_iff) (metis rev_append rev_rev_ident)
    then obtain q s' where y: "?y = q @ s'" "to_lower s' = w" using to_lower_split by blast
    then obtain t where "s' = w @ t" "[] = to_lower t"
      using to_lower_no_letters [of s' w "[]"] space_runes_no_letters [OF w] by auto
    moreover from this have "t = []" by (metis to_lower_Nil_iff)
    ultimately have "?y = q @ w" using y by simp
    then have "has_prefix (rev ?y) (rev w)" by (simp add: has_prefix_iff)
    with trimmed_ends(2) [OF w] show False by simp
  qed
  have "strip_front space_runes (to_lower ?y) = to_lower ?y"
    using front by (intro strip_front_fixed) (simp add: list_all_iff)
  moreover have "strip_front (map rev space_runes) (rev (to_lower ?y)) = rev (to_lower ?y)"
    using rear by (intro strip_front_fixed) (auto simp: list_all_iff)
  ultimately show ?thesis by (simp add: trim_space_def)
qed
end
