(* ===== verification/Request.thy ===== *)
theory Request
  imports Scope AuditTrail Encoding
begin

text \<open>
  An HTTP request as the handlers and the middleware of internal/web read it: its line, its headers,
  its cookies, its form and what the authentication put into its context; and the helpers every handler
  uses: the client address, the actor, the cross-site request forgery check. Header names are
  canonical, a header or form field that is absent reads as the empty string, and the cookies are
  in the order in which they were sent.
\<close>

section \<open>Requests\<close>

record auth_identity =
  ai_principal :: string
  ai_subject :: string
  ai_email :: string
  ai_name :: string
  ai_role :: string

record web_request =
  wr_method :: string
  wr_path :: string
  wr_uri :: string
  wr_host :: string
  wr_tls :: bool
  wr_remote_addr :: string
  wr_headers :: "string gomap"
  wr_cookies :: "(string \<times> string) list"
  wr_query :: "string gomap"
  wr_form :: "string gomap"
  wr_identity :: "auth_identity option"
  wr_bearer :: bool

abbreviation text_at :: "string gomap \<Rightarrow> string \<Rightarrow> string" where
  "text_at m k \<equiv> (case lookup m k of None \<Rightarrow> [] | Some v \<Rightarrow> v)"

abbreviation header :: "web_request \<Rightarrow> string \<Rightarrow> string" where
  "header r h \<equiv> text_at (wr_headers r) h"

text \<open>Request.Cookie: the first cookie of that name.\<close>

abbreviation cookie :: "web_request \<Rightarrow> string \<Rightarrow> string option" where
  "cookie r c \<equiv> map_of (wr_cookies r) c"

definition requestCookie :: "web_request \<Rightarrow> string \<Rightarrow> string option" where
  "requestCookie r c = (case cookie r c of None \<Rightarrow> None | Some v \<Rightarrow> if v = [] then None else Some v)"

definition requestIsSecure :: "web_request \<Rightarrow> bool" where
  "requestIsSecure r \<longleftrightarrow> wr_tls r \<or> equal_fold (header r ''X-Forwarded-Proto'') ''https''"

definition operatorOrDefault :: "web_request \<Rightarrow> string" where
  "operatorOrDefault r =
     (if header r ''X-Mutandae-Operator'' \<noteq> [] then header r ''X-Mutandae-Operator'' else ''demo-operator'')"

section \<open>The client's address\<close>

text \<open>net.SplitHostPort: the host, or nothing when the address is malformed.\<close>

definition last_colon :: "string \<Rightarrow> nat option" where
  "last_colon s = (if CHR '':'' \<in> set s
     then Some (length s - 1 - length (takeWhile (\<lambda>c. c \<noteq> CHR '':'') (rev s))) else None)"

definition split_host :: "string \<Rightarrow> string option" where
  "split_host s =
     (case last_colon s of
        None \<Rightarrow> None
      | Some i \<Rightarrow>
          if hd s = CHR ''['' then
            (let e = length (takeWhile (\<lambda>c. c \<noteq> CHR '']'') s) in
             if e = length s \<or> e + 1 = length s \<or> e + 1 \<noteq> i then None
             else if CHR ''['' \<in> set (drop 1 s) \<or> CHR '']'' \<in> set (drop (e + 1) s) then None
             else Some (take (e - 1) (drop 1 s)))
          else if CHR '':'' \<in> set (take i s) then None
          else if CHR ''['' \<in> set s \<or> CHR '']'' \<in> set s then None
          else Some (take i s))"

definition clientIP :: "web_request \<Rightarrow> string" where
  "clientIP r =
     (let forwarded = header r ''X-Forwarded-For'';
          first = trim_space (hd (split_on CHR '','' forwarded)) in
      if forwarded \<noteq> [] \<and> first \<noteq> [] then first
      else case split_host (wr_remote_addr r) of
        None \<Rightarrow> wr_remote_addr r
      | Some host \<Rightarrow> host)"

definition integrationRateKey :: "web_request \<Rightarrow> string" where
  "integrationRateKey r =
     (let forwarded = trim_space (hd (split_on CHR '','' (header r ''X-Forwarded-For''))) in
      if forwarded \<noteq> [] then forwarded else wr_remote_addr r)"

section \<open>Comparing secrets\<close>

text \<open>
  The positions a range loop over a string visits: the starts of its runes, not every byte.
  secureEqual and secureStringEqual, one text in two packages, compare the bytes at
  those positions of the first argument.
\<close>

function rune_starts :: "nat \<Rightarrow> string \<Rightarrow> nat list" where
  "rune_starts i s = (if s = [] then [] else
     i # rune_starts (i + snd (decode_rune s)) (drop (snd (decode_rune s)) s))"
  by pat_completeness auto
termination
proof (relation "measure (\<lambda>(i, s). length s)")
  fix i and s :: string
  assume "s \<noteq> []"
  then show "((i + snd (decode_rune s), drop (snd (decode_rune s)) s), i, s) \<in> measure (\<lambda>(i, s). length s)"
    using decode_rune_width [of s] by (cases s) auto
qed simp

declare rune_starts.simps [simp del]

definition secureEqual :: "string \<Rightarrow> string \<Rightarrow> bool" where
  "secureEqual a b \<longleftrightarrow> length a = length b \<and> list_all (\<lambda>i. a ! i = b ! i) (rune_starts 0 a)"

lemma rune_starts_ascii: "is_ascii s \<Longrightarrow> rune_starts i s = [i..<i + length s]"
proof (induction s arbitrary: i)
  case (Cons c s)
  then have "decode_rune (c # s) = (of_char c, 1)"
    by (simp add: is_ascii_def decode_rune_def Let_def case_prod_beta)
  moreover have "rune_starts (i + 1) s = [i + 1..<i + 1 + length s]"
    using Cons by (simp add: is_ascii_def)
  ultimately show ?case by (subst rune_starts.simps) (simp add: upt_conv_Cons del: upt_Suc)
qed (simp add: rune_starts.simps)

lemma secureEqual_refl [simp]: "secureEqual a a"
  by (simp add: secureEqual_def list_all_iff)

lemma secureEqual_ascii:
  assumes "is_ascii a"
  shows "secureEqual a b \<longleftrightarrow> a = b"
proof
  assume eq: "secureEqual a b"
  then have "length a = length b" "\<forall>i < length a. a ! i = b ! i"
    using rune_starts_ascii [OF assms, of 0] by (simp_all add: secureEqual_def list_all_iff)
  then show "a = b" by (simp add: list_eq_iff_nth_eq)
qed simp

section \<open>The CSRF check\<close>

definition csrfCookieName :: string where "csrfCookieName = ''mutandae_csrf''"

definition csrfCookie :: "web_request \<Rightarrow> string" where
  "csrfCookie r = (case cookie r csrfCookieName of None \<Rightarrow> [] | Some v \<Rightarrow> v)"

definition validateCSRF :: "web_request \<Rightarrow> bool \<Rightarrow> unit result" where
  "validateCSRF r requireHeader =
     (if wr_bearer r then Inr ()
      else if csrfCookie r = [] then Inl (sentinel_error ErrIntegrationCSRF)
      else if requireHeader \<and> \<not> secureEqual (csrfCookie r) (header r ''X-Mutandae-Csrf'') then
        Inl (sentinel_error ErrIntegrationCSRF)
      else Inr ())"

definition validateAuthCSRF :: "web_request \<Rightarrow> unit result" where
  "validateAuthCSRF r =
     (if wr_bearer r then Inr ()
      else if csrfCookie r = [] then Inl (sentinel_error ErrIntegrationCSRF)
      else
        (let h = header r ''X-Mutandae-Csrf'';
             provided = (if h = [] then text_at (wr_form r) ''csrf_token'' else h) in
         if secureEqual (csrfCookie r) provided then Inr ()
         else Inl (sentinel_error ErrIntegrationCSRF)))"

text \<open>
  ensureCSRFCookie: the token in use and the cookie that is set, if any; \<open>fresh\<close> is what
  randomToken returns.
\<close>

definition ensureCSRFCookie :: "string \<Rightarrow> web_request \<Rightarrow> string \<times> string option" where
  "ensureCSRFCookie fresh r =
     (if csrfCookie r \<noteq> [] then (csrfCookie r, None) else (fresh, Some fresh))"

lemma validateCSRF_ok: "validateCSRF r rh = Inr () \<longleftrightarrow>
    wr_bearer r \<or> csrfCookie r \<noteq> [] \<and> (rh \<longrightarrow> secureEqual (csrfCookie r) (header r ''X-Mutandae-Csrf''))"
  by (simp add: validateCSRF_def)

text \<open>Two tokens that differ in a continuation byte only pass as equal.\<close>

lemma secureEqual_not_exact: "secureEqual [CHR 0xC3, CHR 0xA9] [CHR 0xC3, CHR 0xA8]"
  by (simp add: secureEqual_def rune_starts.simps decode_rune_def second_range_def cont_def)

end
