(* ===== verification/RateLimit.thy ===== *)
theory RateLimit
  imports Float64 Request
begin

text \<open>
  The per-client throttle of the web layer (internal/web/rate.go): token buckets keyed by the client
  address and the choice of the limiter. Numbers of tokens are float64
  values, written as rationals with the rounding of every operation.
\<close>

section \<open>Configuration\<close>

record rate_config =
  rc_read_rate :: rat
  rc_read_burst :: int
  rc_write_rate :: rat
  rc_write_burst :: int
  rc_create_rate :: rat
  rc_create_burst :: int

definition rate_defaults :: "rate_config \<Rightarrow> rate_config" where
  "rate_defaults c =
     \<lparr>rc_read_rate = (if rc_read_rate c \<le> 0 then 10 else rc_read_rate c),
      rc_read_burst = (if rc_read_burst c \<le> 0 then 60 else rc_read_burst c),
      rc_write_rate = (if rc_write_rate c \<le> 0 then 1 else rc_write_rate c),
      rc_write_burst = (if rc_write_burst c \<le> 0 then 10 else rc_write_burst c),
      rc_create_rate = (if rc_create_rate c \<le> 0 then f64 (1 / 10) else rc_create_rate c),
      rc_create_burst = (if rc_create_burst c \<le> 0 then 2 else rc_create_burst c)\<rparr>"

section \<open>Token buckets\<close>

record bucket =
  bk_tokens :: rat
  bk_last :: time

record rate_limiter =
  rl_buckets :: "bucket gomap"
  rl_rate :: rat
  rl_burst :: rat
  rl_max_clients :: int

definition newRateLimiter :: "rat \<Rightarrow> int \<Rightarrow> int \<Rightarrow> rate_limiter" where
  "newRateLimiter rate burst maxClients =
     \<lparr>rl_buckets = [], rl_rate = rate, rl_burst = f64 (of_int burst),
      rl_max_clients = (if maxClients \<le> 0 then 10000 else maxClients)\<rparr>"

text \<open>time.Duration.Seconds: whole seconds and the rest, each converted and then added.\<close>

definition seconds :: "duration \<Rightarrow> rat" where
  "seconds d =
     (let (q, r) = (if 0 \<le> d then (d div second, d mod second)
                    else (- ((- d) div second), - ((- d) mod second)))
      in f64 (f64 (of_int q) + f64 (f64 (of_int r) / of_int second)))"

definition bucket_full :: "rate_limiter \<Rightarrow> bool" where
  "bucket_full rl \<longleftrightarrow> \<not> int (length (rl_buckets rl)) < rl_max_clients rl"

definition prune :: "time \<Rightarrow> rate_limiter \<Rightarrow> rate_limiter" where
  "prune now rl =
     (if int (length (rl_buckets rl)) < rl_max_clients rl then rl
      else rl\<lparr>rl_buckets := filter (\<lambda>(k, b). \<not> 5 * minute < time_sub now (bk_last b)) (rl_buckets rl)\<rparr>)"

definition refill :: "rate_limiter \<Rightarrow> time \<Rightarrow> bucket \<Rightarrow> bucket" where
  "refill rl now b =
     (let elapsed = seconds (time_sub now (bk_last b)) in
      if 0 < elapsed then
        (let t = f64 (bk_tokens b + f64 (elapsed * rl_rate rl))
         in b\<lparr>bk_tokens := (if rl_burst rl < t then rl_burst rl else t)\<rparr>)
      else if now < bk_last b then b\<lparr>bk_last := now\<rparr>
      else b)"

definition allow :: "time \<Rightarrow> string \<Rightarrow> rate_limiter \<Rightarrow> bool \<times> rate_limiter" where
  "allow now key rl =
     (let known = lookup (rl_buckets rl) key in
      if known = None \<and> bucket_full rl then (False, rl)
      else
        (let b0 = (case known of None \<Rightarrow> \<lparr>bk_tokens = rl_burst rl, bk_last = now\<rparr> | Some b \<Rightarrow> b);
             b = refill rl now b0
         in if bk_tokens b < 1 then (False, prune now (rl\<lparr>rl_buckets := put key b (rl_buckets rl)\<rparr>))
            else (True, rl\<lparr>rl_buckets :=
              put key (b\<lparr>bk_tokens := f64 (bk_tokens b - 1)\<rparr>) (rl_buckets rl)\<rparr>)))"

section \<open>Requests\<close>

definition isProvisionRequest :: "web_request \<Rightarrow> bool" where
  "isProvisionRequest r \<longleftrightarrow> wr_method r = ''POST'' \<and> wr_path r = ''/api/v1/demo/identities''"

record limiters =
  lt_reads :: rate_limiter
  lt_writes :: rate_limiter
  lt_creates :: rate_limiter

definition loopback :: "string \<Rightarrow> bool" where
  "loopback ip \<longleftrightarrow> ip = ''127.0.0.1'' \<or> ip = ''::1'' \<or> ip = ''localhost''"

text \<open>Whether the next handler is called; otherwise the answer is 429.\<close>

definition throttle :: "time \<Rightarrow> web_request \<Rightarrow> limiters \<Rightarrow> bool \<times> limiters" where
  "throttle now r ls =
     (let ip = clientIP r in
      if loopback ip then (True, ls)
      else if wr_method r = ''GET'' \<or> wr_method r = ''HEAD'' \<or> wr_method r = ''OPTIONS'' then
        (case allow now ip (lt_reads ls) of (ok, rl) \<Rightarrow> (ok, ls\<lparr>lt_reads := rl\<rparr>))
      else if isProvisionRequest r then
        (case allow now ip (lt_creates ls) of (ok, rl) \<Rightarrow> (ok, ls\<lparr>lt_creates := rl\<rparr>))
      else
        (case allow now ip (lt_writes ls) of (ok, rl) \<Rightarrow> (ok, ls\<lparr>lt_writes := rl\<rparr>)))"

section \<open>Bounds\<close>

definition limiter_ok :: "rate_limiter \<Rightarrow> bool" where
  "limiter_ok rl \<longleftrightarrow> 0 \<le> rl_rate rl \<and> 1 \<le> rl_burst rl \<and> f64 (rl_burst rl) = rl_burst rl \<and> 0 < rl_max_clients rl \<and>
     distinct (keys (rl_buckets rl)) \<and> int (length (rl_buckets rl)) \<le> rl_max_clients rl \<and>
     (\<forall>k b. lookup (rl_buckets rl) k = Some b \<longrightarrow> 0 \<le> bk_tokens b \<and> bk_tokens b \<le> rl_burst rl)"

lemma newRateLimiter_ok: "0 \<le> rate \<Longrightarrow> 1 \<le> burst \<Longrightarrow> burst \<le> 2 ^ 53 \<Longrightarrow> limiter_ok (newRateLimiter rate burst n)"
  by (auto simp: limiter_ok_def newRateLimiter_def f64_int_exact)

lemma refill_tokens:
  assumes "0 \<le> bk_tokens b" "bk_tokens b \<le> rl_burst rl" "0 \<le> rl_rate rl" "1 \<le> rl_burst rl"
  shows "0 \<le> bk_tokens (refill rl now b) \<and> bk_tokens (refill rl now b) \<le> rl_burst rl"
  using assms f64_nonneg by (auto simp: refill_def Let_def)

lemma filter_map_of:
  assumes "distinct (keys m)" "lookup (filter P m) k = Some v"
  shows "lookup m k = Some v"
proof -
  have "(k, v) \<in> set m" using map_of_SomeD [OF assms(2)] by simp
  then show ?thesis using assms(1) by (simp add: map_of_eq_Some_iff)
qed

lemma prune_keeps:
  assumes "limiter_ok rl"
  shows "limiter_ok (prune now rl)"
proof (cases "int (length (rl_buckets rl)) < rl_max_clients rl")
  case True
  then show ?thesis using assms by (simp add: prune_def)
next
  case False
  define f where "f = filter (\<lambda>(k, b). \<not> 5 * minute < time_sub now (bk_last b)) (rl_buckets rl)"
  have d: "distinct (keys f)" using assms by (simp add: f_def limiter_ok_def distinct_map_filter)
  have "length f \<le> length (rl_buckets rl)" unfolding f_def by (rule length_filter_le)
  then have l: "int (length f) \<le> rl_max_clients rl"
    using assms unfolding limiter_ok_def by linarith
  have t: "0 \<le> bk_tokens b \<and> bk_tokens b \<le> rl_burst rl" if "lookup f k = Some b" for k b
    using filter_map_of [OF _ that [unfolded f_def]] assms unfolding limiter_ok_def by metis
  have p: "prune now rl = rl\<lparr>rl_buckets := f\<rparr>" using False by (simp add: prune_def f_def)
  show ?thesis using assms d l t unfolding p limiter_ok_def
    by (simp del: distinct_map map_of_eq_Some_iff)
qed

lemma put_keeps:
  assumes "limiter_ok rl" "lookup (rl_buckets rl) k \<noteq> None \<or> \<not> bucket_full rl"
    "0 \<le> bk_tokens b" "bk_tokens b \<le> rl_burst rl"
  shows "limiter_ok (rl\<lparr>rl_buckets := put k b (rl_buckets rl)\<rparr>)"
  using assms by (auto simp: limiter_ok_def bucket_full_def length_put)

lemma refill_fields [simp]:
  "\<not> now < bk_last b \<Longrightarrow> bk_last (refill rl now b) = bk_last b"
  by (simp add: refill_def Let_def)

lemma taken_bounds:
  assumes "limiter_ok rl" "1 \<le> t" "t \<le> rl_burst rl"
  shows "0 \<le> f64 (t - 1) \<and> f64 (t - 1) \<le> rl_burst rl"
  using assms f64_nonneg [of "t - 1"] f64_mono [of "t - 1" "rl_burst rl"] by (simp add: limiter_ok_def)

lemma allow_keeps:
  assumes "limiter_ok rl"
  shows "limiter_ok (snd (allow now k rl))"
proof -
  define b0 where "b0 = (case lookup (rl_buckets rl) k of None \<Rightarrow> \<lparr>bk_tokens = rl_burst rl, bk_last = now\<rparr> | Some b \<Rightarrow> b)"
  define b where "b = refill rl now b0"
  have "0 \<le> bk_tokens b0 \<and> bk_tokens b0 \<le> rl_burst rl"
    using assms by (auto simp: b0_def limiter_ok_def split: option.split)
  then have b: "0 \<le> bk_tokens b" "bk_tokens b \<le> rl_burst rl"
    using refill_tokens [of b0 rl now] assms by (simp_all add: b_def limiter_ok_def)
  show ?thesis
  proof (cases "lookup (rl_buckets rl) k = None \<and> bucket_full rl")
    case True
    then show ?thesis using assms by (simp add: allow_def)
  next
    case False
    then have c: "lookup (rl_buckets rl) k \<noteq> None \<or> \<not> bucket_full rl" by (simp only: de_Morgan_conj)
    have "allow now k rl =
      (if bk_tokens b < 1 then (False, prune now (rl\<lparr>rl_buckets := put k b (rl_buckets rl)\<rparr>))
       else (True, rl\<lparr>rl_buckets := put k (b\<lparr>bk_tokens := f64 (bk_tokens b - 1)\<rparr>) (rl_buckets rl)\<rparr>))"
      using False unfolding allow_def Let_def b_def b0_def by (simp only: if_False)
    then show ?thesis
      using prune_keeps [OF put_keeps [OF assms c b]] taken_bounds [OF assms _ b(2)]
        put_keeps [OF assms c, of "b\<lparr>bk_tokens := f64 (bk_tokens b - 1)\<rparr>"] by simp
  qed
qed

text \<open>A client that was not known starts with a full bucket.\<close>

lemma seconds_0 [simp]: "seconds 0 = 0"
  by (simp add: seconds_def second_def)

lemma time_sub_self [simp]: "time_sub t t = 0"
  by (simp add: time_sub_def min_int64_def max_int64_def)

lemma allow_fresh:
  assumes "lookup (rl_buckets rl) k = None" "\<not> bucket_full rl" "1 \<le> rl_burst rl"
  shows "allow now k rl =
    (True, rl\<lparr>rl_buckets := put k \<lparr>bk_tokens = f64 (rl_burst rl - 1), bk_last = now\<rparr> (rl_buckets rl)\<rparr>)"
  using assms by (simp add: allow_def refill_def Let_def)

section \<open>Sequences of calls\<close>

text \<open>The answers of a limiter to a sequence of calls at given times.\<close>

primrec allow_all :: "(time \<times> string) list \<Rightarrow> rate_limiter \<Rightarrow> bool list \<times> rate_limiter" where
  "allow_all [] rl = ([], rl)"
| "allow_all (c # cs) rl =
     (case allow (fst c) (snd c) rl of (ok, rl1) \<Rightarrow>
      case allow_all cs rl1 of (oks, rl2) \<Rightarrow> (ok # oks, rl2))"

lemma allow_all_keeps: "limiter_ok rl \<Longrightarrow> limiter_ok (snd (allow_all cs rl))"
proof (induction cs arbitrary: rl)
  case (Cons c cs)
  show ?case using Cons.IH [OF allow_keeps [OF Cons.prems]] by (simp add: case_prod_beta)
qed simp

lemma allow_limits [simp]:
  "rl_rate (snd (allow t k rl)) = rl_rate rl" "rl_burst (snd (allow t k rl)) = rl_burst rl"
  "rl_max_clients (snd (allow t k rl)) = rl_max_clients rl"
  by (simp_all add: allow_def Let_def prune_def)

text \<open>A bucket that is old enough to earn one token is never exhausted.\<close>

definition stale :: "rate_limiter \<Rightarrow> time \<Rightarrow> bucket \<Rightarrow> bool" where
  "stale rl now b \<longleftrightarrow> 1 \<le> f64 (seconds (time_sub now (bk_last b)) * rl_rate rl)"

lemma f64_nonpos:
  assumes "x \<le> 0"
  shows "f64 x \<le> 0"
proof (cases "x = 0")
  case False
  then have n: "x < 0" using assms by simp
  then have "0 \<le> f64 (- x)" by (intro f64_nonneg) simp
  with n show ?thesis by (simp add: f64_def)
qed simp

lemma stale_allowed:
  assumes "limiter_ok rl" "lookup (rl_buckets rl) k = Some b" "stale rl now b"
  shows "fst (allow now k rl)"
    and "\<exists>b'. lookup (rl_buckets (snd (allow now k rl))) k = Some b' \<and> bk_last b' = bk_last b"
proof -
  let ?e = "seconds (time_sub now (bk_last b))"
  have r: "0 \<le> rl_rate rl" "1 \<le> rl_burst rl" and t: "0 \<le> bk_tokens b"
    using assms(1,2) by (simp_all add: limiter_ok_def)
  have e: "0 < ?e"
  proof (rule ccontr)
    assume "\<not> 0 < ?e"
    then have "?e * rl_rate rl \<le> 0" using r(1) by (simp add: mult_nonpos_nonneg)
    then have "f64 (?e * rl_rate rl) \<le> 0" by (rule f64_nonpos)
    with assms(3) show False by (simp add: stale_def)
  qed
  have "1 \<le> f64 (bk_tokens b + f64 (?e * rl_rate rl))"
    using assms(3) t by (intro f64_ge_1) (simp add: stale_def)
  with r e have full: "\<not> bk_tokens (refill rl now b) < 1" and last: "bk_last (refill rl now b) = bk_last b"
    by (simp_all add: refill_def Let_def)
  show "fst (allow now k rl)" using assms(2) full by (simp add: allow_def Let_def)
  show "\<exists>b'. lookup (rl_buckets (snd (allow now k rl))) k = Some b' \<and> bk_last b' = bk_last b"
    using assms(2) full last by (simp add: allow_def Let_def)
qed

text \<open>The memory of a rate limiter is bounded: whatever calls it serves, from whichever
  clients and at whichever times (the clock may go back), it keeps at most maxClients buckets, one
  per client, each with a number of tokens between 0 and the burst, and it never changes its
  limits.\<close>

theorem limiter_bounded:
  assumes "0 \<le> rate" "1 \<le> burst" "burst \<le> 2 ^ 53"
    and "rl = snd (allow_all calls (newRateLimiter rate burst maxClients))"
  shows "distinct (keys (rl_buckets rl)) \<and>
    int (length (rl_buckets rl)) \<le> (if maxClients \<le> 0 then 10000 else maxClients) \<and>
    (lookup (rl_buckets rl) k = Some b \<longrightarrow> 0 \<le> bk_tokens b \<and> bk_tokens b \<le> of_int burst)"
proof -
  have ok: "limiter_ok rl"
    unfolding assms(4) by (rule allow_all_keeps, rule newRateLimiter_ok) (use assms in simp_all)
  have same: "rl_burst (snd (allow_all cs r)) = rl_burst r \<and> rl_max_clients (snd (allow_all cs r)) = rl_max_clients r"
    for cs r by (induction cs arbitrary: r) (simp_all add: case_prod_beta)
  have limits: "rl_burst rl = of_int burst" "rl_max_clients rl = (if maxClients \<le> 0 then 10000 else maxClients)"
    unfolding assms(4) using same assms(2,3) by (simp_all add: newRateLimiter_def f64_int_exact)
  show ?thesis using ok unfolding limiter_ok_def limits by blast
qed

lemma limiter_bounded_witness:
  "let rl = snd (allow_all [(1000000000, ''a''), (1000000001, ''b''), (1000000002, ''a'')]
               (newRateLimiter 1 2 1)) in
   distinct (keys (rl_buckets rl)) \<and> int (length (rl_buckets rl)) \<le> 1"
  using limiter_bounded [where rate = 1 and burst = 2 and maxClients = 1 and
    calls = "[(1000000000, ''a''), (1000000001, ''b''), (1000000002, ''a'')]", OF _ _ _ HOL.refl]
  by (simp add: Let_def)

text \<open>The limiter stops limiting: the time of a bucket is never moved forward, so every call
  is credited with the whole time since the client was first seen. As soon as that time is worth one
  token, every further call of the client is admitted, however many there are and however
  close together.\<close>

theorem limiter_forgets:
  assumes "limiter_ok rl" "lookup (rl_buckets rl) client = Some b"
    and "\<forall>t \<in> set ts. stale rl t b"
  shows "fst (allow_all (map (\<lambda>t. (t, client)) ts) rl) = replicate (length ts) True"
  using assms
proof (induction ts arbitrary: rl b)
  case (Cons t ts)
  have st: "stale rl t b" using Cons.prems(3) by simp
  note s = stale_allowed [OF Cons.prems(1,2) st]
  obtain b' where b': "lookup (rl_buckets (snd (allow t client rl))) client = Some b'" "bk_last b' = bk_last b"
    using s(2) by blast
  have "\<forall>u \<in> set ts. stale (snd (allow t client rl)) u b'"
    using Cons.prems(3) b'(2) by (simp add: stale_def)
  from Cons.IH [OF allow_keeps [OF Cons.prems(1)] b'(1) this] s(1)
  show ?case by (simp add: case_prod_beta)
qed simp

lemma seconds_exact: "0 \<le> d \<Longrightarrow> d mod second = 0 \<Longrightarrow> d div second \<le> 2 ^ 53 \<Longrightarrow> seconds d = of_int (d div second)"
  by (simp add: seconds_def Let_def f64_int_exact pos_imp_zdiv_nonneg_iff second_def)

text \<open>One token per second and a burst of one: a thousand calls in the fifth second pass.\<close>

lemma limiter_forgets_witness:
  "fst (allow_all (map (\<lambda>t. (t, ''1.2.3.4'')) (replicate 1000 5000000000))
     (snd (allow 0 ''1.2.3.4'' (newRateLimiter 1 1 0)))) = replicate 1000 True"
proof -
  let ?rl = "snd (allow 0 ''1.2.3.4'' (newRateLimiter 1 1 0))"
  have ok: "limiter_ok ?rl" by (intro allow_keeps newRateLimiter_ok) simp_all
  have b: "lookup (rl_buckets ?rl) ''1.2.3.4'' = Some \<lparr>bk_tokens = 0, bk_last = 0\<rparr>"
    by (subst allow_fresh) (simp_all add: newRateLimiter_def bucket_full_def)
  have r: "rl_rate ?rl = 1" by (simp add: newRateLimiter_def)
  have "seconds (time_sub 5000000000 0) = 5"
    using seconds_exact [of 5000000000] by (simp add: time_sub_def min_int64_def max_int64_def second_def)
  then have "stale ?rl 5000000000 \<lparr>bk_tokens = 0, bk_last = 0\<rparr>"
    using f64_int_exact [of 5] r by (simp add: stale_def)
  then have "\<forall>t \<in> set (replicate 1000 5000000000). stale ?rl t \<lparr>bk_tokens = 0, bk_last = 0\<rparr>"
    by (simp only: set_replicate [of 1000, OF zero_neq_numeral [symmetric]] ball_simps)
  from limiter_forgets [OF ok b this] show ?thesis by (simp only: length_replicate)
qed

lemma throttled_client:
  "clientIP r = ip \<Longrightarrow> loopback ip \<Longrightarrow> throttle now r ls = (True, ls)"
  by (simp add: throttle_def Let_def)

text \<open>Whoever sends a loopback address in X-Forwarded-For is never throttled, whatever
  the address of the connection, and leaves no trace in the limiters.\<close>

theorem forwarded_loopback_exempt:
  assumes "hd (split_on CHR '','' (header r ''X-Forwarded-For'')) = ''127.0.0.1''"
  shows "throttle now r ls = (True, ls)"
proof -
  have "trim_space ''127.0.0.1'' = ''127.0.0.1''" by code_simp
  moreover have "header r ''X-Forwarded-For'' \<noteq> []"
    using assms by (cases "header r ''X-Forwarded-For''") auto
  ultimately have "clientIP r = ''127.0.0.1''" using assms by (simp add: clientIP_def Let_def)
  then show ?thesis by (rule throttled_client) (simp add: loopback_def)
qed

definition spoofed_request :: web_request where
  "spoofed_request = \<lparr>wr_method = ''POST'', wr_path = ''/api/v1/demo/identities'',
     wr_uri = ''/api/v1/demo/identities'', wr_host = ''demo'', wr_tls = True,
     wr_remote_addr = ''10.0.0.7:4711'', wr_headers = [(''X-Forwarded-For'', ''127.0.0.1, 203.0.113.9'')],
     wr_cookies = [], wr_query = [], wr_form = [], wr_identity = None, wr_bearer = False\<rparr>"

lemma forwarded_loopback_exempt_witness: "throttle 0 spoofed_request ls = (True, ls)"
  by (rule forwarded_loopback_exempt) code_simp

end
