(* ===== verification/Auth.thy ===== *)
theory Auth
  imports Request
begin

text \<open>
  Authentication and authorisation of the web layer (internal/web/auth.go): API tokens, signed session
  cookies, the in-memory session store, roles, and the middleware that guards every handler. The locale
  \<open>sessions\<close> is the contract of a session store.

  What the code does not define is an argument: the file system and the JSON decoder behind the API tokens
  file (\<open>token_files\<close>), the URL parser, the random tokens.
\<close>

section \<open>Modes and roles\<close>

definition AuthModeNone :: string where "AuthModeNone = ''none''"
definition AuthModeOIDC :: string where "AuthModeOIDC = ''oidc''"
definition AuthModeToken :: string where "AuthModeToken = ''token''"
definition RoleAdmin :: string where "RoleAdmin = ''admin''"
definition RoleOperator :: string where "RoleOperator = ''operator''"
definition RoleViewer :: string where "RoleViewer = ''viewer''"

lemmas role_defs = RoleAdmin_def RoleOperator_def RoleViewer_def

definition authMode :: "string \<Rightarrow> string" where
  "authMode m = (let mode = to_lower (trim_space m) in if mode = [] then AuthModeNone else mode)"

definition validRole :: "string \<Rightarrow> bool" where
  "validRole role \<longleftrightarrow> to_lower (trim_space role) \<in> {RoleAdmin, RoleOperator, RoleViewer}"

definition normalizeRole :: "string \<Rightarrow> string" where
  "normalizeRole role0 = (let role = to_lower (trim_space role0) in if validRole role then role else [])"

definition allRoles :: "string list" where
  "allRoles = [RoleAdmin, RoleOperator, RoleViewer]"

definition roleAllows :: "string \<Rightarrow> string \<Rightarrow> bool" where
  "roleAllows actual required =
     (if required = RoleViewer then validRole actual
      else if required = RoleOperator then actual = RoleOperator \<or> actual = RoleAdmin
      else if required = RoleAdmin then actual = RoleAdmin
      else False)"

definition requiredRole :: "web_request \<Rightarrow> string" where
  "requiredRole r =
     (if wr_method r = ''GET'' \<or> wr_method r = ''HEAD'' then RoleViewer
      else if wr_method r = ''DELETE'' then RoleAdmin
      else if wr_method r = ''POST'' \<or> wr_method r = ''PUT'' \<or> wr_method r = ''PATCH'' then
        (if wr_path r = ''/identities/provision'' \<or> wr_path r = ''/api/v1/demo/identities'' then RoleAdmin
         else RoleOperator)
      else RoleOperator)"

definition RoleFromContext :: "web_request \<Rightarrow> string" where
  "RoleFromContext r = (case wr_identity r of None \<Rightarrow> [] | Some i \<Rightarrow> ai_role i)"

section \<open>API tokens\<close>

record api_token_config =
  tk_name :: string
  tk_sha256 :: string
  tk_role :: string

record token_entry =
  te_name :: string
  te_digest :: string
  te_role :: string

text \<open>The digest of a configured token: 32 bytes in hexadecimal.\<close>

definition digest_of :: "string \<Rightarrow> string option" where
  "digest_of h = (case hex_decode h of None \<Rightarrow> None | Some d \<Rightarrow> if length d = 32 then Some d else None)"

primrec validate_entries :: "nat \<Rightarrow> api_token_config list \<Rightarrow> api_token_config list result" where
  "validate_entries n [] = Inr []"
| "validate_entries n (e # es) =
     (let entry = \<lparr>tk_name = trim_space (tk_name e), tk_sha256 = to_lower (trim_space (tk_sha256 e)),
                   tk_role = normalizeRole (tk_role e)\<rparr> in
      if tk_name entry = [] then Inl (plain_error (''API token '' @ dec n @ '' has no name''))
      else if digest_of (tk_sha256 entry) = None then
        Inl (plain_error (''API token '' @ quoted (tk_name entry) @ '' has an invalid SHA-256 digest''))
      else if tk_role entry = [] then
        Inl (plain_error (''API token '' @ quoted (tk_name entry) @ '' has an invalid role''))
      else case validate_entries (Suc n) es of Inl err \<Rightarrow> Inl err | Inr rest \<Rightarrow> Inr (entry # rest))"

definition validateTokenEntries :: "api_token_config list \<Rightarrow> api_token_config list result" where
  "validateTokenEntries es = validate_entries 0 es"

definition makeTokenEntries :: "api_token_config list \<Rightarrow> token_entry list" where
  "makeTokenEntries es = concat (map (\<lambda>e. case digest_of (tk_sha256 e) of
      None \<Rightarrow> [] | Some d \<Rightarrow> [\<lparr>te_name = tk_name e, te_digest = d, te_role = tk_role e\<rparr>]) es)"

definition tokenEntries :: "string \<Rightarrow> api_token_config list \<Rightarrow> token_entry list result" where
  "tokenEntries raw0 es =
     (case validateTokenEntries es of
        Inl err \<Rightarrow> Inl err
      | Inr validated \<Rightarrow>
          (let raw = trim_space raw0 in
           Inr (makeTokenEntries validated
             @ (if raw \<noteq> [] then [\<lparr>te_name = ''env'', te_digest = sha256 raw, te_role = RoleAdmin\<rparr>] else []))))"

record token_files =
  tf_read :: "string \<Rightarrow> string result"
  tf_decode :: "string \<Rightarrow> api_token_config list result"

definition prefix_error :: "string \<Rightarrow> go_error \<Rightarrow> go_error" where
  "prefix_error text err = GoError (err_wraps err) (text @ err_text err)"

definition LoadAPITokensFile :: "token_files \<Rightarrow> string \<Rightarrow> api_token_config list result" where
  "LoadAPITokensFile fs path0 =
     (let path = trim_space path0 in
      if path = [] then Inl (plain_error ''API tokens file path is empty'')
      else case tf_read fs path of
        Inl err \<Rightarrow> Inl (prefix_error ''read API tokens file: '' err)
      | Inr data \<Rightarrow>
          (case tf_decode fs data of
             Inl err \<Rightarrow> Inl (prefix_error ''decode API tokens file: '' err)
           | Inr entries \<Rightarrow> validateTokenEntries entries))"

section \<open>Sessions\<close>

record session =
  se_principal :: string
  se_subject :: string
  se_email :: string
  se_name :: string
  se_role :: string
  se_expires_at :: time

record 's session_store =
  ss_get :: "string \<Rightarrow> time \<Rightarrow> 's \<Rightarrow> session option result \<times> 's"
  ss_put :: "string \<Rightarrow> session \<Rightarrow> 's \<Rightarrow> unit result \<times> 's"
  ss_delete :: "string \<Rightarrow> 's \<Rightarrow> unit result \<times> 's"

text \<open>The in-memory store; \<open>ctx\<close> is the error of the request's context, if it is done.\<close>

definition MemorySessionStore_Get ::
  "go_error option \<Rightarrow> string \<Rightarrow> time \<Rightarrow> session gomap \<Rightarrow> session option result \<times> session gomap" where
  "MemorySessionStore_Get ctx k now m =
     (case ctx of Some err \<Rightarrow> (Inl err, m)
      | None \<Rightarrow>
          (case lookup m k of
             None \<Rightarrow> (Inr None, m)
           | Some s \<Rightarrow> if \<not> now < se_expires_at s then (Inr None, remove_key k m) else (Inr (Some s), m)))"

definition MemorySessionStore_Put ::
  "go_error option \<Rightarrow> string \<Rightarrow> session \<Rightarrow> session gomap \<Rightarrow> unit result \<times> session gomap" where
  "MemorySessionStore_Put ctx k s m =
     (case ctx of Some err \<Rightarrow> (Inl err, m)
      | None \<Rightarrow>
          if k = [] \<or> se_role s = [] \<or> se_expires_at s = 0 then
            (Inl (plain_error ''session id, role, and expiry are required''), m)
          else (Inr (), put k s m))"

definition MemorySessionStore_Delete ::
  "go_error option \<Rightarrow> string \<Rightarrow> session gomap \<Rightarrow> unit result \<times> session gomap" where
  "MemorySessionStore_Delete ctx k m =
     (case ctx of Some err \<Rightarrow> (Inl err, m) | None \<Rightarrow> (Inr (), remove_key k m))"

definition MemorySessionStore :: "go_error option \<Rightarrow> session gomap session_store" where
  "MemorySessionStore ctx = \<lparr>ss_get = MemorySessionStore_Get ctx, ss_put = MemorySessionStore_Put ctx,
     ss_delete = MemorySessionStore_Delete ctx\<rparr>"

section \<open>Signed cookies\<close>

definition sessionCookieName :: string where "sessionCookieName = ''mutandae_session''"
definition oidcStateCookie :: string where "oidcStateCookie = ''mutandae_oidc_state''"

definition signPayload :: "string \<Rightarrow> string \<Rightarrow> string result" where
  "signPayload payload key =
     (if key = [] then Inl (plain_error ''signing key is empty'')
      else (let encoded = b64_encode payload
            in Inr (encoded @ ''.'' @ b64_encode (hmac_sha256 key encoded))))"

definition signValue :: "string \<Rightarrow> string \<Rightarrow> string result" where
  "signValue v key = signPayload v key"

definition verifyPayload :: "string \<Rightarrow> string \<Rightarrow> string option" where
  "verifyPayload v key =
     (case split_on CHR ''.'' v of
        [encoded, signature] \<Rightarrow>
          if key = [] then None
          else (case b64_decode signature of
             None \<Rightarrow> None
           | Some expected \<Rightarrow>
               if expected = hmac_sha256 key encoded then b64_decode encoded else None)
      | _ \<Rightarrow> None)"

definition verifySignedValue :: "string \<Rightarrow> string \<Rightarrow> string option" where
  "verifySignedValue v key = verifyPayload v key"

section \<open>The authenticator\<close>

record oidc_config =
  oc_issuer :: string
  oc_client_id :: string
  oc_client_secret :: string
  oc_redirect_url :: string
  oc_scopes :: string

record authenticator =
  au_mode :: string
  au_key :: string
  au_tokens :: "token_entry list"
  au_token_file :: string
  au_session_ttl :: duration
  au_oidc :: "oidc_config option"

definition all_entries :: "token_files \<Rightarrow> authenticator \<Rightarrow> token_entry list" where
  "all_entries fs a =
     (if au_token_file a = [] then au_tokens a
      else case LoadAPITokensFile fs (au_token_file a) of
        Inl err \<Rightarrow> au_tokens a
      | Inr es \<Rightarrow> au_tokens a @ makeTokenEntries es)"

text \<open>The loop over the entries: it never stops early and keeps the first match.\<close>

fun match_entries :: "string \<Rightarrow> token_entry list \<Rightarrow> (string \<times> string) option \<Rightarrow> (string \<times> string) option" where
  "match_entries digest [] found = found"
| "match_entries digest (e # es) found =
     (if length (te_digest e) \<noteq> length digest then match_entries digest es found
      else match_entries digest es
        (if digest = te_digest e \<and> found = None
         then Some (if te_name e \<noteq> [] then te_name e else ''api-token'', te_role e) else found))"

definition bearerIdentity :: "token_files \<Rightarrow> authenticator \<Rightarrow> string \<Rightarrow> auth_identity option" where
  "bearerIdentity fs a v =
     (case go_fields v of
        [scheme, token] \<Rightarrow>
          if equal_fold scheme ''Bearer'' then
            (case match_entries (sha256 token) (all_entries fs a) None of
               None \<Rightarrow> None
             | Some (name, role) \<Rightarrow>
                 Some \<lparr>ai_principal = name, ai_subject = name, ai_email = [], ai_name = name, ai_role = role\<rparr>)
          else None
      | _ \<Rightarrow> None)"

definition sessionIdentity ::
  "authenticator \<Rightarrow> 's session_store \<Rightarrow> time \<Rightarrow> web_request \<Rightarrow> 's \<Rightarrow> auth_identity option \<times> 's" where
  "sessionIdentity a st now r w =
     (case requestCookie r sessionCookieName of
        None \<Rightarrow> (None, w)
      | Some v \<Rightarrow>
          (case verifySignedValue v (au_key a) of
             None \<Rightarrow> (None, w)
           | Some k \<Rightarrow>
               (case ss_get st k now w of
                  (Inr (Some s), w1) \<Rightarrow>
                    (if validRole (se_role s) then
                       Some \<lparr>ai_principal = se_principal s, ai_subject = se_subject s, ai_email = se_email s,
                             ai_name = se_name s, ai_role = se_role s\<rparr>
                     else None, w1)
                | (_, w1) \<Rightarrow> (None, w1))))"

section \<open>Construction\<close>

record auth_config =
  ac_mode :: string
  ac_issuer_url :: string
  ac_client_id :: string
  ac_client_secret :: string
  ac_redirect_url :: string
  ac_scopes :: string
  ac_api_token :: string
  ac_api_tokens :: "api_token_config list"
  ac_api_tokens_file :: string
  ac_session_key :: string

text \<open>The parts of a parsed URL that are looked at; parsing is an argument, \<open>None\<close> an error.\<close>

record url_parts =
  up_scheme :: string
  up_host :: string
  up_path :: string
  up_raw_query :: string
  up_fragment :: string

definition absolute_http :: "url_parts option \<Rightarrow> bool" where
  "absolute_http u = (case u of None \<Rightarrow> False
     | Some p \<Rightarrow> up_host p \<noteq> [] \<and> (up_scheme p = ''https'' \<or> up_scheme p = ''http''))"

text \<open>strings.TrimRight with one character.\<close>

definition trim_right :: "char \<Rightarrow> string \<Rightarrow> string" where
  "trim_right c s = rev (dropWhile (\<lambda>x. x = c) (rev s))"

definition oidc_setup :: "(string \<Rightarrow> url_parts option) \<Rightarrow> auth_config \<Rightarrow> oidc_config result" where
  "oidc_setup parse cfg =
     (let issuer = trim_right CHR ''/'' (trim_space (ac_issuer_url cfg)); parsed = parse issuer;
          redirect = trim_space (ac_redirect_url cfg); scopes = trim_space (ac_scopes cfg) in
      if issuer = [] then Inl (plain_error ''OIDC issuer URL is required'')
      else if \<not> absolute_http parsed \<or> up_path (the parsed) \<notin> {[], ''/''} \<or>
              up_raw_query (the parsed) \<noteq> [] \<or> up_fragment (the parsed) \<noteq> [] then
        Inl (plain_error ''OIDC issuer URL must be an absolute HTTP(S) URL without a path or query'')
      else if trim_space (ac_client_id cfg) = [] then Inl (plain_error ''OIDC client ID is required'')
      else if trim_space (ac_client_secret cfg) = [] then Inl (plain_error ''OIDC client secret is required'')
      else if redirect \<noteq> [] \<and> \<not> absolute_http (parse redirect) then
        Inl (plain_error ''OIDC redirect URL must be an absolute HTTP(S) URL'')
      else Inr \<lparr>oc_issuer = issuer, oc_client_id = trim_space (ac_client_id cfg),
                oc_client_secret = ac_client_secret cfg, oc_redirect_url = redirect,
                oc_scopes = (if scopes = [] then ''openid profile email'' else scopes)\<rparr>)"

text \<open>\<open>random_key\<close> is the outcome of randomBytes(32), asked for when no key is configured.\<close>

definition newAuthenticator ::
  "token_files \<Rightarrow> (string \<Rightarrow> url_parts option) \<Rightarrow> string result \<Rightarrow> auth_config \<Rightarrow> authenticator result" where
  "newAuthenticator fs parse random_key cfg =
     (let mode = authMode (ac_mode cfg); file = trim_space (ac_api_tokens_file cfg);
          bare = \<lparr>au_mode = mode, au_key = [], au_tokens = [], au_token_file = file,
                  au_session_ttl = 8 * hour, au_oidc = None\<rparr> in
      if mode \<notin> {AuthModeNone, AuthModeOIDC, AuthModeToken} then
        Inl (plain_error (''unsupported auth mode '' @ quoted (ac_mode cfg)))
      else if mode = AuthModeNone then Inr bare
      else case (if ac_session_key cfg = [] then random_key else Inr (ac_session_key cfg)) of
        Inl err \<Rightarrow> Inl (prefix_error ''generate session signing key: '' err)
      | Inr key \<Rightarrow>
          if length key < 16 then Inl (plain_error ''session signing key must contain at least 16 bytes'')
          else case tokenEntries (ac_api_token cfg) (ac_api_tokens cfg) of
            Inl err \<Rightarrow> Inl err
          | Inr tokens \<Rightarrow>
              (case (if file = [] then Inr [] else LoadAPITokensFile fs file) of
                 Inl err \<Rightarrow> Inl err
               | Inr file_entries \<Rightarrow>
                   if mode = AuthModeToken \<and> tokens = [] \<and> file_entries = [] then
                     Inl (plain_error ''token auth mode requires at least one API token'')
                   else if mode = AuthModeOIDC then
                     (case oidc_setup parse cfg of
                        Inl err \<Rightarrow> Inl err
                      | Inr oc \<Rightarrow> Inr (bare\<lparr>au_key := key, au_tokens := tokens, au_oidc := Some oc\<rparr>))
                   else Inr (bare\<lparr>au_key := key, au_tokens := tokens\<rparr>)))"

record auth_metadata =
  am_auth_mode :: string
  am_roles :: "string list"
  am_tokens_configured :: bool

definition metadata_of :: "authenticator option \<Rightarrow> auth_metadata" where
  "metadata_of p = (case p of
     None \<Rightarrow> \<lparr>am_auth_mode = AuthModeNone, am_roles = allRoles, am_tokens_configured = False\<rparr>
   | Some a \<Rightarrow> \<lparr>am_auth_mode = au_mode a, am_roles = allRoles,
                am_tokens_configured = au_tokens a \<noteq> [] \<or> au_token_file a \<noteq> []\<rparr>)"

section \<open>The middleware\<close>

definition isAPIRequest :: "web_request \<Rightarrow> bool" where
  "isAPIRequest r \<longleftrightarrow> has_prefix (wr_path r) ''/api/''"

definition isMutation :: "web_request \<Rightarrow> bool" where
  "isMutation r \<longleftrightarrow> wr_method r \<in> {''POST'', ''PUT'', ''PATCH'', ''DELETE''}"

definition publicRequest :: "web_request \<Rightarrow> bool" where
  "publicRequest r \<longleftrightarrow> wr_method r = ''GET'' \<and>
     (wr_path r \<in> {''/livez'', ''/readyz'', ''/metrics'', ''/favicon.ico'', ''/favicon.svg''} \<or>
      has_prefix (wr_path r) ''/static/'')"

definition authRoute :: "authenticator \<Rightarrow> web_request \<Rightarrow> bool" where
  "authRoute a r \<longleftrightarrow> au_mode a = AuthModeOIDC \<and>
     wr_path r \<in> {''/auth/login'', ''/auth/callback'', ''/auth/logout''}"

text \<open>
  What the middleware does with a request: pass it on (as changed), answer 401, answer 403 with
  a message, or redirect. The answers 401 and 403 are JSON when \<open>wants_json\<close> holds.
\<close>

datatype verdict = Next web_request | Unauthorized | Forbidden string | Redirect string

definition wants_json :: "web_request \<Rightarrow> bool" where
  "wants_json r \<longleftrightarrow> isAPIRequest r \<or> contains (to_lower (header r ''Accept'')) ''json''"

text \<open>authorize: the verdict and the CSRF cookie that is set.\<close>

definition authorize :: "string \<Rightarrow> web_request \<Rightarrow> verdict \<times> string option" where
  "authorize fresh r0 =
     (let (r, set) =
        (if wr_bearer r0 \<or> csrfCookie r0 \<noteq> [] then (r0, None)
         else (r0\<lparr>wr_cookies := wr_cookies r0 @ [(csrfCookieName, fst (ensureCSRFCookie fresh r0))]\<rparr>,
               snd (ensureCSRFCookie fresh r0)))
      in (if \<not> wr_bearer r0 \<and> isMutation r \<and> validateCSRF r True \<noteq> Inr () then
            Forbidden ''csrf validation failed''
          else if \<not> roleAllows (RoleFromContext r) (requiredRole r) then Forbidden ''insufficient role''
          else Next r, set))"

definition auth_serve ::
  "token_files \<Rightarrow> 's session_store \<Rightarrow> authenticator \<Rightarrow> time \<Rightarrow> string \<Rightarrow> web_request \<Rightarrow> 's
     \<Rightarrow> (verdict \<times> string option) \<times> 's" where
  "auth_serve fs st a now fresh r w =
     (if publicRequest r \<or> authRoute a r then ((Next r, None), w)
      else if header r ''Authorization'' \<noteq> [] then
        (case bearerIdentity fs a (header r ''Authorization'') of
           None \<Rightarrow> ((Unauthorized, None), w)
         | Some i \<Rightarrow> (authorize fresh (r\<lparr>wr_identity := Some i, wr_bearer := True\<rparr>), w))
      else if au_mode a = AuthModeToken then ((Unauthorized, None), w)
      else
        (case sessionIdentity a st now r w of
           (None, w1) \<Rightarrow>
             ((if isAPIRequest r then Unauthorized
               else Redirect (''/auth/login?return_to='' @ query_escape (wr_uri r)), None), w1)
         | (Some i, w1) \<Rightarrow> (authorize fresh (r\<lparr>wr_identity := Some i\<rparr>), w1)))"

end
