(* ===== verification/Oidc.thy ===== *)
theory Oidc
  imports Auth
begin

text \<open>
  The OpenID Connect login of internal/web/auth.go: discovery and key caches, verification of the ID token and
  its claims, and the handlers login, callback and logout. The network, the JSON decoder and the RSA
  check are arguments: fetching a document takes and returns a world, and the RSA check is a predicate of
  the key, the digest and the signature.
\<close>

section \<open>Claims\<close>

text \<open>Decoded JSON; numbers keep their text (the decoder is told UseNumber).\<close>

datatype json = JText string | JNumber string | JArray "json list" | JOther

fun claimAudience :: "json option \<Rightarrow> string list" where
  "claimAudience (Some (JText t)) = [t]"
| "claimAudience (Some (JArray js)) = concat (map (\<lambda>j. case j of JText t \<Rightarrow> [t] | _ \<Rightarrow> []) js)"
| "claimAudience _ = []"

text \<open>strconv.ParseInt of base 10 and 64 bits.\<close>

definition parse_int64 :: "string \<Rightarrow> int option" where
  "parse_int64 s =
     (let neg = s \<noteq> [] \<and> hd s = CHR ''-'';
          ds = (if s \<noteq> [] \<and> (hd s = CHR ''-'' \<or> hd s = CHR ''+'') then tl s else s);
          n = (if neg then - int (dec_val ds) else int (dec_val ds))
      in if ds \<noteq> [] \<and> list_all is_digit ds \<and> min_int64 \<le> n \<and> n \<le> max_int64 then Some n else None)"

fun claimInt64 :: "json option \<Rightarrow> int option" where
  "claimInt64 (Some (JNumber t)) = parse_int64 t"
| "claimInt64 _ = None"

fun text_claim :: "json option \<Rightarrow> string" where
  "text_claim (Some (JText t)) = t"
| "text_claim _ = []"

definition stringClaim :: "json gomap \<Rightarrow> string \<Rightarrow> string" where
  "stringClaim raw k = trim_space (text_claim (lookup raw k))"

fun roles_claim :: "json option \<Rightarrow> string list" where
  "roles_claim (Some (JText t)) = go_fields t"
| "roles_claim (Some (JArray js)) = concat (map (\<lambda>j. case j of JText t \<Rightarrow> [t] | _ \<Rightarrow> []) js)"
| "roles_claim _ = []"

definition stringSliceClaim :: "json gomap \<Rightarrow> string \<Rightarrow> string list" where
  "stringSliceClaim raw k = roles_claim (lookup raw k)"

record id_claims =
  ic_issuer :: string
  ic_audience :: "string list"
  ic_expires_at :: int
  ic_nonce :: string
  ic_subject :: string
  ic_email :: string
  ic_name :: string
  ic_preferred_username :: string
  ic_role :: string
  ic_roles :: "string list"

text \<open>The loop over the roles claim keeps the strongest role named so far.\<close>

definition stronger :: "string \<Rightarrow> string \<Rightarrow> string" where
  "stronger role candidate =
     (let normalized = normalizeRole candidate in
      if normalized \<noteq> [] \<and> (role = [] \<or> normalized = RoleAdmin \<or> normalized = RoleOperator \<and> role = RoleViewer)
      then normalized else role)"

definition claims_role :: "id_claims \<Rightarrow> string" where
  "claims_role c =
     (let r0 = normalizeRole (ic_role c); r1 = (if r0 = [] then foldl stronger [] (ic_roles c) else r0)
      in if r1 = [] then RoleViewer else r1)"

definition claims_identity :: "id_claims \<Rightarrow> auth_identity" where
  "claims_identity c =
     \<lparr>ai_principal = (if ic_email c \<noteq> [] then ic_email c
                      else if ic_preferred_username c \<noteq> [] then ic_preferred_username c
                      else if ic_name c \<noteq> [] then ic_name c else ic_subject c),
      ai_subject = ic_subject c, ai_email = ic_email c, ai_name = ic_name c, ai_role = claims_role c\<rparr>"

text \<open>time.Unix(exp, 0) as an instant: seconds since 1970 moved to year 1, on 64 bits.\<close>

definition unix_time :: "int \<Rightarrow> time" where
  "unix_time ex = wrap_int64 (ex + 62135596800) * second"

text \<open>The checks on the decoded payload, in their order.\<close>

definition check_claims :: "oidc_config \<Rightarrow> string \<Rightarrow> time \<Rightarrow> json gomap \<Rightarrow> id_claims result" where
  "check_claims o1 expectedNonce now raw =
     (let issuer = text_claim (lookup raw ''iss''); audience = claimAudience (lookup raw ''aud'');
          nonce = text_claim (lookup raw ''nonce''); subject = text_claim (lookup raw ''sub'') in
      if trim_right CHR ''/'' issuer \<noteq> oc_issuer o1 then Inl (plain_error ''ID token issuer is invalid'')
      else if oc_client_id o1 \<notin> set audience then Inl (plain_error ''ID token audience is invalid'')
      else case claimInt64 (lookup raw ''exp'') of
        None \<Rightarrow> Inl (plain_error ''ID token is expired'')
      | Some ex \<Rightarrow>
          if \<not> now < unix_time ex then Inl (plain_error ''ID token is expired'')
          else if nonce \<noteq> expectedNonce then Inl (plain_error ''ID token nonce is invalid'')
          else if subject = [] then Inl (plain_error ''ID token subject is missing'')
          else Inr \<lparr>ic_issuer = issuer, ic_audience = audience, ic_expires_at = ex, ic_nonce = nonce,
                    ic_subject = subject, ic_email = stringClaim raw ''email'', ic_name = stringClaim raw ''name'',
                    ic_preferred_username = stringClaim raw ''preferred_username'',
                    ic_role = stringClaim raw ''role'', ic_roles = stringSliceClaim raw ''roles''\<rparr>)"

section \<open>Discovery and keys\<close>

record oidc_discovery =
  od_issuer :: string
  od_authorization :: string
  od_token :: string
  od_jwks_uri :: string

definition no_discovery :: oidc_discovery where
  "no_discovery = \<lparr>od_issuer = [], od_authorization = [], od_token = [], od_jwks_uri = []\<rparr>"

record jwk =
  jk_kty :: string
  jk_alg :: string
  jk_kid :: string
  jk_n :: string
  jk_e :: string

record rsa_key =
  rk_modulus :: string
  rk_exponent :: nat

record oidc_cache =
  oa_discovery :: oidc_discovery
  oa_discovered :: time
  oa_jwks :: "rsa_key gomap"
  oa_jwks_fetched :: time

text \<open>The login in progress, kept by the browser in a signed cookie.\<close>

record oidc_state =
  os_state :: string
  os_nonce :: string
  os_verifier :: string
  os_return_to :: string
  os_redirect_url :: string
  os_expires_at :: time

text \<open>What is outside the program, and the JSON texts it reads and writes.\<close>

record 'w oidc_net =
  on_discovery :: "string \<Rightarrow> 'w \<Rightarrow> oidc_discovery result \<times> 'w"
  on_jwks :: "string \<Rightarrow> 'w \<Rightarrow> jwk list result \<times> 'w"
  on_exchange :: "oidc_discovery \<Rightarrow> string \<Rightarrow> string \<Rightarrow> string \<Rightarrow> 'w \<Rightarrow> string result \<times> 'w"
  on_parse_url :: "string \<Rightarrow> url_parts option"
  on_header :: "string \<Rightarrow> (string \<times> string) option"
  on_claims :: "string \<Rightarrow> json gomap result"
  on_encode_state :: "oidc_state \<Rightarrow> string"
  on_decode_state :: "string \<Rightarrow> oidc_state option"
  on_rsa_ok :: "rsa_key \<Rightarrow> string \<Rightarrow> string \<Rightarrow> bool"

definition cacheFresh :: "time \<Rightarrow> time \<Rightarrow> duration \<Rightarrow> bool" where
  "cacheFresh now fetched ttl \<longleftrightarrow> \<not> (fetched = 0 \<or> now < fetched) \<and> time_sub now fetched < ttl"

definition getDiscovery ::
  "'w oidc_net \<Rightarrow> oidc_config \<Rightarrow> bool \<Rightarrow> time \<Rightarrow> oidc_cache \<times> 'w \<Rightarrow> oidc_discovery result \<times> oidc_cache \<times> 'w" where
  "getDiscovery net o1 force now cw =
     (let (ca, w) = cw in
      if \<not> force \<and> od_authorization (oa_discovery ca) \<noteq> [] \<and> cacheFresh now (oa_discovered ca) (10 * minute) then
        (Inr (oa_discovery ca), ca, w)
      else case on_discovery net (trim_right CHR ''/'' (oc_issuer o1) @ ''/.well-known/openid-configuration'') w of
        (Inl err, w1) \<Rightarrow> (Inl err, ca, w1)
      | (Inr d, w1) \<Rightarrow>
          if trim_right CHR ''/'' (od_issuer d) \<noteq> oc_issuer o1 \<or> od_authorization d = [] \<or> od_token d = [] \<or>
             od_jwks_uri d = [] then
            (Inl (plain_error ''OIDC discovery document is incomplete or has the wrong issuer''), ca, w1)
          else case find (\<lambda>(n, u). \<not> absolute_http (on_parse_url net u))
              [(''authorization'', od_authorization d), (''token'', od_token d), (''JWKS'', od_jwks_uri d)] of
            Some (n, u) \<Rightarrow>
              (Inl (plain_error (''OIDC '' @ n @ '' endpoint is not an absolute HTTP(S) URL'')), ca, w1)
          | None \<Rightarrow> (Inr d, ca\<lparr>oa_discovery := d, oa_discovered := now\<rparr>, w1))"

text \<open>The keys of a JWKS document that can be used; the last one of a kid wins.\<close>

definition big_endian :: "string \<Rightarrow> nat" where
  "big_endian bs = foldl (\<lambda>e b. e * 256 + of_char b) 0 bs"

definition usable_key :: "jwk \<Rightarrow> (string \<times> rsa_key) option" where
  "usable_key k =
     (if jk_kty k \<noteq> ''RSA'' \<or> jk_kid k = [] \<or> (jk_alg k \<noteq> [] \<and> jk_alg k \<noteq> ''RS256'') \<or> jk_n k = [] \<or> jk_e k = []
      then None
      else case (b64_decode (jk_n k), b64_decode (jk_e k)) of
        (Some n, Some e) \<Rightarrow>
          if e = [] \<or> 4 < length e \<or> big_endian e < 2 then None
          else Some (jk_kid k, \<lparr>rk_modulus = n, rk_exponent = big_endian e\<rparr>)
      | _ \<Rightarrow> None)"

definition usable_keys :: "jwk list \<Rightarrow> rsa_key gomap" where
  "usable_keys ks = foldl (\<lambda>m k. case usable_key k of None \<Rightarrow> m | Some (kid, v) \<Rightarrow> put kid v m) [] ks"

definition fetchJWKS ::
  "'w oidc_net \<Rightarrow> oidc_discovery \<Rightarrow> bool \<Rightarrow> time \<Rightarrow> oidc_cache \<times> 'w \<Rightarrow> rsa_key gomap result \<times> oidc_cache \<times> 'w" where
  "fetchJWKS net d force now cw =
     (let (ca, w) = cw in
      if \<not> force \<and> oa_jwks ca \<noteq> [] \<and> cacheFresh now (oa_jwks_fetched ca) (10 * minute) then (Inr (oa_jwks ca), ca, w)
      else case on_jwks net (od_jwks_uri d) w of
        (Inl err, w1) \<Rightarrow> (Inl err, ca, w1)
      | (Inr ks, w1) \<Rightarrow>
          (let ring = usable_keys ks in
           if ring = [] then (Inl (plain_error ''OIDC JWKS contains no RSA keys''), ca, w1)
           else (Inr ring, ca\<lparr>oa_jwks := ring, oa_jwks_fetched := now\<rparr>, w1)))"

text \<open>The key of a kid: from the cache first, then from a forced fetch.\<close>

definition signing_key ::
  "'w oidc_net \<Rightarrow> oidc_discovery \<Rightarrow> string \<Rightarrow> time \<Rightarrow> oidc_cache \<times> 'w \<Rightarrow> rsa_key result \<times> oidc_cache \<times> 'w" where
  "signing_key net d kid now cw =
     (case fetchJWKS net d False now cw of
        (Inl err, cw1) \<Rightarrow> (Inl err, cw1)
      | (Inr ring, cw1) \<Rightarrow>
          (case lookup ring kid of
             Some k \<Rightarrow> (Inr k, cw1)
           | None \<Rightarrow>
               (case fetchJWKS net d True now cw1 of
                  (Inl err, cw2) \<Rightarrow> (Inl err, cw2)
                | (Inr ring2, cw2) \<Rightarrow>
                    (case lookup ring2 kid of
                       Some k \<Rightarrow> (Inr k, cw2)
                     | None \<Rightarrow> (Inl (plain_error ''ID token signing key is unknown''), cw2)))))"

text \<open>The header: algorithm and kid; both must be usable.\<close>

definition token_header :: "'w oidc_net \<Rightarrow> string \<Rightarrow> string option" where
  "token_header net p0 =
     (case b64_decode p0 of None \<Rightarrow> None
      | Some t \<Rightarrow> (case on_header net t of None \<Rightarrow> None
          | Some (alg, kid) \<Rightarrow> if alg = ''RS256'' \<and> kid \<noteq> [] then Some kid else None))"

definition verifyIDToken ::
  "'w oidc_net \<Rightarrow> oidc_config \<Rightarrow> oidc_discovery \<Rightarrow> string \<Rightarrow> string \<Rightarrow> time \<Rightarrow> oidc_cache \<times> 'w
     \<Rightarrow> id_claims result \<times> oidc_cache \<times> 'w" where
  "verifyIDToken net o1 d token expectedNonce now cw =
     (case split_on CHR ''.'' token of
        [p0, p1, p2] \<Rightarrow>
          (case token_header net p0 of
             None \<Rightarrow> (Inl (plain_error ''ID token has an unsupported header''), cw)
           | Some kid \<Rightarrow>
               (case b64_decode p1 of
                  None \<Rightarrow> (Inl (plain_error ''ID token payload is invalid''), cw)
                | Some payload \<Rightarrow>
                    (case b64_decode p2 of
                       None \<Rightarrow> (Inl (plain_error ''ID token signature is invalid''), cw)
                     | Some signature \<Rightarrow>
                         (case signing_key net d kid now cw of
                            (Inl err, cw1) \<Rightarrow> (Inl err, cw1)
                          | (Inr k, cw1) \<Rightarrow>
                              (if \<not> on_rsa_ok net k (sha256 (p0 @ ''.'' @ p1)) signature then
                                 Inl (plain_error ''ID token signature is invalid'')
                               else case on_claims net payload of
                                 Inl err \<Rightarrow> Inl err
                               | Inr raw \<Rightarrow> check_claims o1 expectedNonce now raw, cw1)))))
      | _ \<Rightarrow> (Inl (plain_error ''ID token is not a JWT''), cw))"

section \<open>The handlers\<close>

text \<open>
  An answer: status, location or message, and the cookies it sets; a cookie that is cleared is set
  to the empty value.
\<close>

record http_answer =
  ha_status :: nat
  ha_text :: string
  ha_cookies :: "(string \<times> string) list"

definition http_error :: "nat \<Rightarrow> string \<Rightarrow> (string \<times> string) list \<Rightarrow> http_answer" where
  "http_error status text cookies = \<lparr>ha_status = status, ha_text = text, ha_cookies = cookies\<rparr>"

text \<open>The path a login returns to: a path of this host, or the root.\<close>

definition local_path :: "string \<Rightarrow> string" where
  "local_path p = (if \<not> has_prefix p ''/'' \<or> has_prefix p ''//'' then ''/'' else p)"

definition redirectURLFor :: "oidc_config \<Rightarrow> web_request \<Rightarrow> string" where
  "redirectURLFor o1 r =
     (if oc_redirect_url o1 \<noteq> [] then oc_redirect_url o1
      else (if requestIsSecure r then ''https'' else ''http'') @ ''://'' @ wr_host r @ ''/auth/callback'')"

text \<open>url.Values.Encode: the pairs in the order of their keys.\<close>

definition query_text :: "(string \<times> string) list \<Rightarrow> string" where
  "query_text kvs = join ''&'' (map (\<lambda>(k, v). query_escape k @ ''='' @ query_escape v) kvs)"

text \<open>\<open>rnd\<close> gives the outcome of each randomURLToken in turn.\<close>

definition login ::
  "'w oidc_net \<Rightarrow> authenticator \<Rightarrow> time \<Rightarrow> (nat \<Rightarrow> string result) \<Rightarrow> web_request \<Rightarrow> oidc_cache \<times> 'w
     \<Rightarrow> http_answer \<times> oidc_cache \<times> 'w" where
  "login net a now rnd r cw =
     (case au_oidc a of
        None \<Rightarrow> (http_error 501 ''OIDC is not configured'' [], cw)
      | Some o1 \<Rightarrow>
          (case getDiscovery net o1 False now cw of
             (Inl _, cw1) \<Rightarrow> (http_error 502 ''OIDC discovery failed'' [], cw1)
           | (Inr d, cw1) \<Rightarrow>
               (case (rnd 0, rnd 1, rnd 2) of
                  (Inr st, Inr nonce, Inr verifier) \<Rightarrow>
                    (let back = local_path (text_at (wr_query r) ''return_to'');
                         redirect = redirectURLFor o1 r;
                         pending = \<lparr>os_state = st, os_nonce = nonce, os_verifier = verifier,
                           os_return_to = back, os_redirect_url = redirect, os_expires_at = now + 10 * minute\<rparr> in
                     case signPayload (on_encode_state net pending) (au_key a) of
                       Inl _ \<Rightarrow> (http_error 500 ''unable to start login'' [], cw1)
                     | Inr c \<Rightarrow>
                         (\<lparr>ha_status = 302,
                           ha_text = od_authorization d @ ''?'' @ query_text
                             [(''client_id'', oc_client_id o1),
                              (''code_challenge'', b64_encode (sha256 verifier)),
                              (''code_challenge_method'', ''S256''), (''nonce'', nonce),
                              (''redirect_uri'', redirect), (''response_type'', ''code''),
                              (''scope'', oc_scopes o1), (''state'', st)],
                           ha_cookies = [(oidcStateCookie, c)]\<rparr>, cw1))
                | _ \<Rightarrow> (http_error 500 ''unable to start login'' [], cw1))))"

text \<open>The state of the cookie when it can still be used.\<close>

definition pending_login :: "'w oidc_net \<Rightarrow> string \<Rightarrow> time \<Rightarrow> oidc_state option" where
  "pending_login net payload now =
     (case on_decode_state net payload of
        None \<Rightarrow> None
      | Some p \<Rightarrow>
          if os_state p = [] \<or> os_nonce p = [] \<or> os_verifier p = [] \<or> os_redirect_url p = [] \<or>
             \<not> now < os_expires_at p then None
          else Some p)"

text \<open>The end of a login whose identity is verified: a session, its cookie, and the way back.\<close>

definition start_session ::
  "'s session_store \<Rightarrow> authenticator \<Rightarrow> time \<Rightarrow> string result \<Rightarrow> auth_identity \<Rightarrow> string \<Rightarrow> 's \<Rightarrow> http_answer \<times> 's" where
  "start_session st a now rnd i back s =
     (let cleared = (oidcStateCookie, []); refused = http_error 500 ''unable to create session'' [cleared] in
      case rnd of
        Inl _ \<Rightarrow> (refused, s)
      | Inr k \<Rightarrow>
          (case ss_put st k \<lparr>se_principal = ai_principal i, se_subject = ai_subject i, se_email = ai_email i,
                se_name = ai_name i, se_role = ai_role i, se_expires_at = now + au_session_ttl a\<rparr> s of
             (Inl _, s1) \<Rightarrow> (refused, s1)
           | (Inr _, s1) \<Rightarrow>
               (case signValue k (au_key a) of
                  Inl _ \<Rightarrow> (refused, s1)
                | Inr c \<Rightarrow>
                    (\<lparr>ha_status = 302, ha_text = local_path back,
                      ha_cookies = [cleared, (sessionCookieName, c)]\<rparr>, s1))))"

definition callback ::
  "'w oidc_net \<Rightarrow> 's session_store \<Rightarrow> authenticator \<Rightarrow> oidc_config \<Rightarrow> time \<Rightarrow> string result \<Rightarrow> web_request
     \<Rightarrow> (oidc_cache \<times> 'w) \<times> 's \<Rightarrow> http_answer \<times> (oidc_cache \<times> 'w) \<times> 's" where
  "callback net st a o1 now rnd r cws =
     (let (cw, s) = cws; cleared = [(oidcStateCookie, [])]; failed = (\<lambda>n t. http_error n t cleared) in
      case requestCookie r oidcStateCookie of
        None \<Rightarrow> (http_error 400 ''OIDC state is missing'' [], cw, s)
      | Some v \<Rightarrow>
          (case verifyPayload v (au_key a) of
             None \<Rightarrow> (failed 400 ''OIDC state is invalid'', cw, s)
           | Some payload \<Rightarrow>
               (case pending_login net payload now of
                  None \<Rightarrow> (failed 400 ''OIDC state has expired'', cw, s)
                | Some p \<Rightarrow>
                    if os_state p \<noteq> text_at (wr_query r) ''state'' then (failed 400 ''OIDC state mismatch'', cw, s)
                    else if trim_space (text_at (wr_query r) ''code'') = [] then
                      (failed 400 ''OIDC authorization code is missing'', cw, s)
                    else case getDiscovery net o1 False now cw of
                      (Inl _, cw1) \<Rightarrow> (failed 502 ''OIDC discovery failed'', cw1, s)
                    | (Inr d, ca1, w1) \<Rightarrow>
                        (case on_exchange net d (trim_space (text_at (wr_query r) ''code'')) (os_verifier p)
                                (os_redirect_url p) w1 of
                           (Inl _, w2) \<Rightarrow> (failed 502 ''OIDC token exchange failed'', (ca1, w2), s)
                         | (Inr token, w2) \<Rightarrow>
                             (case verifyIDToken net o1 d token (os_nonce p) now (ca1, w2) of
                                (Inl _, cw3) \<Rightarrow> (failed 401 ''OIDC identity verification failed'', cw3, s)
                              | (Inr claims, cw3) \<Rightarrow>
                                  (case start_session st a now rnd (claims_identity claims) (os_return_to p) s of
                                     (answer, s1) \<Rightarrow> (answer, cw3, s1)))))))"

definition logout ::
  "'s session_store \<Rightarrow> authenticator \<Rightarrow> string \<Rightarrow> web_request \<Rightarrow> 's \<Rightarrow> http_answer \<times> 's" where
  "logout st a fresh r0 s =
     (let (r, set) =
        (if validateAuthCSRF r0 = Inr () \<or> csrfCookie r0 \<noteq> [] then (r0, [])
         else (r0\<lparr>wr_cookies := wr_cookies r0 @ [(csrfCookieName, fresh)]\<rparr>, [(csrfCookieName, fresh)])) in
      if validateAuthCSRF r \<noteq> Inr () then (http_error 403 ''csrf validation failed'' set, s)
      else
        (let s1 = (case cookie r sessionCookieName of
             None \<Rightarrow> s
           | Some v \<Rightarrow> (case verifySignedValue v (au_key a) of None \<Rightarrow> s | Some k \<Rightarrow> snd (ss_delete st k s)))
         in (\<lparr>ha_status = 302, ha_text = ''/'', ha_cookies = set @ [(sessionCookieName, [])]\<rparr>, s1)))"

end
