(* ===== verification/AuthProperties.thy ===== *)
theory AuthProperties
  imports Oidc
begin

text \<open>
  What the authentication guarantees: signed cookies, sessions behind their contract, bearer
  tokens, roles, the middleware as a whole, and a login from its callback to its logout.
\<close>

section \<open>Signed cookies\<close>

lemma split_on_two:
  assumes "c \<notin> set a" "c \<notin> set b"
  shows "split_on c (a @ [c] @ b) = [a, b]"
proof -
  have "split_on c b = [b]" using assms(2) by (induction b) auto
  with assms(1) show ?thesis by (induction a) auto
qed

lemma split_on_pair: "split_on c v = [a, b] \<Longrightarrow> v = a @ [c] @ b"
  using join_split_on [of c v] by simp

lemma verify_sign: "signPayload p key = Inr c \<Longrightarrow> verifyPayload c key = Some p"
  using split_on_two [of "CHR ''.''" "b64_encode p" "b64_encode (hmac_sha256 key (b64_encode p))"]
    b64_encode_no_dot
  by (auto simp: signPayload_def verifyPayload_def Let_def split: if_splits)

lemma verifyPayloadD:
  assumes "verifyPayload v key = Some p"
  obtains encoded signature where "v = encoded @ ''.'' @ signature" "key \<noteq> []"
    "b64_decode signature = Some (hmac_sha256 key encoded)" "b64_decode encoded = Some p"
proof -
  obtain encoded signature where sp: "split_on CHR ''.'' v = [encoded, signature]"
    using assms by (auto simp: verifyPayload_def split: list.splits)
  have "v = encoded @ ''.'' @ signature" using split_on_pair [OF sp] by simp
  moreover have "key \<noteq> []" "b64_decode signature = Some (hmac_sha256 key encoded)" "b64_decode encoded = Some p"
    using assms sp by (auto simp: verifyPayload_def split: if_splits option.splits)
  ultimately show thesis by (rule that)
qed

text \<open>A signed cookie is accepted back with its payload, and no other text is accepted
  than one that carries, after its last dot, the HMAC of what precedes the dot under the server's key.\<close>

theorem signed_cookie_exact:
  "(signPayload p key = Inr c \<longrightarrow> verifyPayload c key = Some p) \<and>
   (verifyPayload v key = Some q \<longrightarrow>
      key \<noteq> [] \<and> (\<exists>encoded signature. v = encoded @ ''.'' @ signature \<and> b64_decode encoded = Some q \<and>
        b64_decode signature = Some (hmac_sha256 key encoded)))"
  using verify_sign verifyPayloadD by metis

lemma signed_cookie_exact_witness:
  "verifyPayload (b64_encode ''s1'' @ ''.'' @ b64_encode (hmac_sha256 ''0123456789abcdef'' (b64_encode ''s1'')))
     ''0123456789abcdef'' = Some ''s1''"
  by (rule signed_cookie_exact [THEN conjunct1, rule_format]) (simp add: signPayload_def Let_def)

section \<open>Roles\<close>

definition role_rank :: "string \<Rightarrow> nat" where
  "role_rank r = (if r = RoleAdmin then 3 else if r = RoleOperator then 2 else if r = RoleViewer then 1 else 0)"

lemma roles_distinct [simp]:
  "RoleAdmin \<noteq> RoleOperator" "RoleOperator \<noteq> RoleAdmin" "RoleAdmin \<noteq> RoleViewer" "RoleViewer \<noteq> RoleAdmin"
  "RoleOperator \<noteq> RoleViewer" "RoleViewer \<noteq> RoleOperator" "RoleAdmin \<noteq> []" "RoleOperator \<noteq> []" "RoleViewer \<noteq> []"
  "[] \<noteq> RoleAdmin" "[] \<noteq> RoleOperator" "[] \<noteq> RoleViewer"
  by (simp_all add: role_defs)

lemma role_rank_simps [simp]:
  "role_rank [] = 0" "role_rank RoleAdmin = 3" "role_rank RoleOperator = 2" "role_rank RoleViewer = 1"
  by (simp_all add: role_rank_def)

lemma role_fixed [simp]:
  "to_lower (trim_space RoleAdmin) = RoleAdmin" "to_lower (trim_space RoleOperator) = RoleOperator"
  "to_lower (trim_space RoleViewer) = RoleViewer"
  unfolding role_defs by code_simp+

lemma validRole_roles [simp]: "validRole RoleAdmin" "validRole RoleOperator" "validRole RoleViewer"
  by (simp_all add: validRole_def)

lemma normalizeRole_cases: "normalizeRole r \<in> {[], RoleAdmin, RoleOperator, RoleViewer}"
  by (auto simp: normalizeRole_def validRole_def Let_def)

lemma roleAllows_rank:
  "a \<in> {RoleAdmin, RoleOperator, RoleViewer} \<Longrightarrow> b \<in> {RoleAdmin, RoleOperator, RoleViewer} \<Longrightarrow>
   roleAllows a b \<longleftrightarrow> role_rank b \<le> role_rank a"
  by (auto simp: roleAllows_def role_rank_def)

text \<open>The roles form a ladder: an administrator may do everything; an operator everything but
  DELETE requests and the provisioning of identities; a viewer only GET and HEAD; a principal
  without a valid role nothing.\<close>

theorem role_matrix:
  "roleAllows RoleAdmin (requiredRole r) \<and>
   (roleAllows RoleOperator (requiredRole r) =
     (wr_method r \<noteq> ''DELETE'' \<and> \<not> (wr_method r \<in> {''POST'', ''PUT'', ''PATCH''} \<and>
       wr_path r \<in> {''/identities/provision'', ''/api/v1/demo/identities''}))) \<and>
   (roleAllows RoleViewer (requiredRole r) = (wr_method r \<in> {''GET'', ''HEAD''})) \<and>
   (roleAllows role (requiredRole r) =
     (validRole role \<and> wr_method r \<in> {''GET'', ''HEAD''} \<or> role = RoleAdmin \<or>
      role = RoleOperator \<and> roleAllows RoleOperator (requiredRole r)))"
proof (intro conjI)
  show "roleAllows RoleAdmin (requiredRole r)" by (simp add: roleAllows_def requiredRole_def)
qed (auto simp: roleAllows_def requiredRole_def)

lemma normalize_normalized [simp]: "normalizeRole (normalizeRole r) = normalizeRole r"
  by (simp add: normalizeRole_def validRole_def Let_def)

lemma stronger_rank: "role \<in> {[], RoleAdmin, RoleOperator, RoleViewer} \<Longrightarrow>
  stronger role c \<in> {[], RoleAdmin, RoleOperator, RoleViewer} \<and>
  role_rank (stronger role c) = max (role_rank role) (role_rank (normalizeRole c))"
  using normalizeRole_cases [of c] by (auto simp: stronger_def Let_def)

lemma foldl_stronger: "role \<in> {[], RoleAdmin, RoleOperator, RoleViewer} \<Longrightarrow>
  foldl stronger role cs \<in> {[], RoleAdmin, RoleOperator, RoleViewer} \<and>
  role_rank (foldl stronger role cs) = foldl max (role_rank role) (map (\<lambda>c. role_rank (normalizeRole c)) cs)"
proof (induction cs arbitrary: role)
  case (Cons c cs)
  show ?case using Cons.IH [of "stronger role c"] stronger_rank [OF Cons.prems, of c] by simp
qed simp

lemma claims_role_facts:
  "claims_role c \<in> {RoleAdmin, RoleOperator, RoleViewer} \<and>
   (normalizeRole (ic_role c) \<noteq> [] \<longrightarrow> claims_role c = normalizeRole (ic_role c)) \<and>
   (normalizeRole (ic_role c) = [] \<longrightarrow>
      role_rank (claims_role c) = foldl max 1 (map (\<lambda>x. role_rank (normalizeRole x)) (ic_roles c)))"
proof -
  let ?f = "foldl stronger [] (ic_roles c)"
  have f: "?f \<in> {[], RoleAdmin, RoleOperator, RoleViewer}"
    "role_rank ?f = foldl max 0 (map (\<lambda>x. role_rank (normalizeRole x)) (ic_roles c))"
    using foldl_stronger [of "[]" "ic_roles c"] by simp_all
  have "foldl max 1 ns = max 1 (foldl max 0 ns)" for ns :: "nat list"
  proof -
    have "foldl max (max a b) ns = max a (foldl max b ns)" for a b :: nat
      by (induction ns arbitrary: b) (simp_all add: max.assoc)
    from this [of 1 0] show ?thesis by simp
  qed
  then have "role_rank (if ?f = [] then RoleViewer else ?f)
      = foldl max 1 (map (\<lambda>x. role_rank (normalizeRole x)) (ic_roles c))"
    using f by auto
  with f(1) normalizeRole_cases [of "ic_role c"] show ?thesis by (auto simp: claims_role_def Let_def)
qed

lemma claims_role_valid: "claims_role c \<in> {RoleAdmin, RoleOperator, RoleViewer}"
  using claims_role_facts [of c] by (rule conjunct1)

text \<open>Whatever an identity provider claims, the role of a login is one of the three roles: the
  role claim when it names one, else the strongest of the roles claim, else viewer.\<close>

theorem claims_role_strongest:
  "claims_role c \<in> {RoleAdmin, RoleOperator, RoleViewer} \<and>
   (normalizeRole (ic_role c) \<noteq> [] \<longrightarrow> claims_role c = normalizeRole (ic_role c)) \<and>
   (normalizeRole (ic_role c) = [] \<longrightarrow>
      role_rank (claims_role c) = foldl max 1 (map (\<lambda>x. role_rank (normalizeRole x)) (ic_roles c)))"
  by (rule claims_role_facts)

lemma claims_role_strongest_witness:
  "claims_role \<lparr>ic_issuer = [], ic_audience = [], ic_expires_at = 0, ic_nonce = [], ic_subject = ''s'',
     ic_email = [], ic_name = [], ic_preferred_username = [], ic_role = [], ic_roles = []\<rparr>
     \<in> {RoleAdmin, RoleOperator, RoleViewer}"
  by (rule claims_role_strongest [THEN conjunct1])

section \<open>Bearer tokens\<close>

lemma match_entries_found: "match_entries dg es (Some x) = Some x"
  by (induction es) simp_all

lemma match_entries_find: "match_entries dg es None =
  map_option (\<lambda>e. (if te_name e \<noteq> [] then te_name e else ''api-token'', te_role e))
    (find (\<lambda>e. te_digest e = dg) es)"
  by (induction es) (auto simp: match_entries_found)

text \<open>A bearer token authenticates exactly as the first entry, static or in the tokens file as it
  is at this request, that has its SHA-256 digest; so removing a digest revokes the token at once.\<close>

theorem bearer_first_match:
  "bearerIdentity fs a v = Some i \<longleftrightarrow>
   (\<exists>scheme token e. go_fields v = [scheme, token] \<and> equal_fold scheme ''Bearer'' \<and>
      find (\<lambda>e. te_digest e = sha256 token) (all_entries fs a) = Some e \<and>
      (let n = (if te_name e \<noteq> [] then te_name e else ''api-token'') in
       i = \<lparr>ai_principal = n, ai_subject = n, ai_email = [], ai_name = n, ai_role = te_role e\<rparr>))"
proof (cases "\<exists>scheme token. go_fields v = [scheme, token]")
  case True
  then obtain scheme token where v: "go_fields v = [scheme, token]" by blast
  show ?thesis
  proof (cases "find (\<lambda>e. te_digest e = sha256 token) (all_entries fs a)")
    case None
    then show ?thesis using v by (simp add: bearerIdentity_def match_entries_find)
  next
    case (Some e)
    then show ?thesis using v by (auto simp: bearerIdentity_def match_entries_find Let_def)
  qed
next
  case False
  then have "bearerIdentity fs a v = None"
    by (auto simp: bearerIdentity_def split: list.split)
  with False show ?thesis by auto
qed

section \<open>The middleware\<close>

text \<open>What depends on the request line only.\<close>

lemma request_line [simp]:
  "requiredRole (r\<lparr>wr_identity := i\<rparr>) = requiredRole r" "requiredRole (r\<lparr>wr_bearer := b\<rparr>) = requiredRole r"
  "requiredRole (r\<lparr>wr_cookies := cs\<rparr>) = requiredRole r"
  "isMutation (r\<lparr>wr_identity := i\<rparr>) = isMutation r" "isMutation (r\<lparr>wr_bearer := b\<rparr>) = isMutation r"
  "isMutation (r\<lparr>wr_cookies := cs\<rparr>) = isMutation r"
  by (simp_all add: requiredRole_def isMutation_def)

lemma role_of_context [simp]:
  "RoleFromContext (r\<lparr>wr_identity := Some i\<rparr>) = ai_role i"
  "RoleFromContext (r\<lparr>wr_bearer := b\<rparr>) = RoleFromContext r"
  "RoleFromContext (r\<lparr>wr_cookies := cs\<rparr>) = RoleFromContext r"
  by (simp_all add: RoleFromContext_def)

lemma authorizeD:
  assumes "authorize fresh r = (Next r', set_cookie)"
  shows "wr_identity r' = wr_identity r \<and> wr_bearer r' = wr_bearer r \<and> wr_method r' = wr_method r \<and>
    wr_path r' = wr_path r \<and> wr_headers r' = wr_headers r"
    and "roleAllows (RoleFromContext r) (requiredRole r)"
    and "\<not> wr_bearer r \<Longrightarrow> isMutation r \<Longrightarrow>
      csrfCookie r' \<noteq> [] \<and> secureEqual (csrfCookie r') (header r ''X-Mutandae-Csrf'')"
  using assms by (auto simp: authorize_def Let_def validateCSRF_ok split: if_splits)


text \<open>A viewer's token, and a request that presents it.\<close>

definition viewer_auth :: authenticator where
  "viewer_auth = \<lparr>au_mode = AuthModeToken, au_key = ''0123456789abcdef'',
     au_tokens = [\<lparr>te_name = ''ci'', te_digest = sha256 ''tok'', te_role = RoleViewer\<rparr>],
     au_token_file = [], au_session_ttl = 8 * hour, au_oidc = None\<rparr>"

definition viewer_request :: web_request where
  "viewer_request = \<lparr>wr_method = ''GET'', wr_path = ''/api/v1/identities'', wr_uri = ''/api/v1/identities'',
     wr_host = ''demo'', wr_tls = True, wr_remote_addr = ''10.0.0.7:4711'',
     wr_headers = [(''Authorization'', ''Bearer tok'')], wr_cookies = [], wr_query = [], wr_form = [],
     wr_identity = None, wr_bearer = False\<rparr>"

definition viewer_identity :: auth_identity where
  "viewer_identity = \<lparr>ai_principal = ''ci'', ai_subject = ''ci'', ai_email = [], ai_name = ''ci'', ai_role = RoleViewer\<rparr>"

lemma viewer_bearer: "bearerIdentity fs viewer_auth ''Bearer tok'' = Some viewer_identity"
proof -
  have "go_fields ''Bearer tok'' = [''Bearer'', ''tok'']" "equal_fold ''Bearer'' ''Bearer''" by code_simp+
  then show ?thesis
    by (simp add: bearerIdentity_def all_entries_def viewer_auth_def viewer_identity_def)
qed

lemma viewer_served:
  "auth_serve fs st viewer_auth now fresh viewer_request w =
     ((Next (viewer_request\<lparr>wr_identity := Some viewer_identity, wr_bearer := True\<rparr>), None), w)"
proof -
  have "header viewer_request ''Authorization'' = ''Bearer tok''" "\<not> publicRequest viewer_request"
    "requiredRole viewer_request = RoleViewer" "wr_bearer viewer_request = False"
    by (simp_all add: viewer_request_def publicRequest_def requiredRole_def)
  moreover have "\<not> authRoute viewer_auth viewer_request"
    by (simp add: authRoute_def viewer_auth_def AuthModeToken_def AuthModeOIDC_def)
  ultimately show ?thesis
    by (simp add: auth_serve_def viewer_bearer authorize_def roleAllows_def viewer_identity_def Let_def)
qed


end
