(* ===== verification/Login.thy ===== *)
theory Login
  imports AuthProperties
begin

text \<open>
  From a login to a logout: the contract of a session store (locale \<open>sessions\<close>, interpreted on the
  in-memory store), the verification of an ID token, and what a session cookie is worth.
\<close>

section \<open>The contract of a session store\<close>

locale sessions =
  fixes st :: "'s session_store" and live :: "'s \<Rightarrow> string \<Rightarrow> session option"
  assumes put_live: "k \<noteq> [] \<Longrightarrow> se_role x \<noteq> [] \<Longrightarrow> se_expires_at x \<noteq> 0 \<Longrightarrow>
      fst (ss_put st k x s) = Inr () \<and> live (snd (ss_put st k x s)) = (live s)(k \<mapsto> x)"
    and put_refused: "fst (ss_put st k x s) = Inr () \<Longrightarrow> k \<noteq> [] \<and> se_role x \<noteq> [] \<and> se_expires_at x \<noteq> 0"
    and get_live: "live s k = Some x \<Longrightarrow> now < se_expires_at x \<Longrightarrow> fst (ss_get st k now s) = Inr (Some x)"
    and get_expired: "live s k = Some x \<Longrightarrow> \<not> now < se_expires_at x \<Longrightarrow> fst (ss_get st k now s) = Inr None"
    and get_absent: "live s k = None \<Longrightarrow> fst (ss_get st k now s) = Inr None"
    and delete_live: "live (snd (ss_delete st k s)) = (live s)(k := None)"
begin

lemma identity_of_session:
  assumes "requestCookie r sessionCookieName = Some c" "verifySignedValue c (au_key a) = Some k"
    and "live s k = Some x" "validRole (se_role x)"
  shows "fst (sessionIdentity a st t r s) = (if t < se_expires_at x
    then Some \<lparr>ai_principal = se_principal x, ai_subject = se_subject x, ai_email = se_email x,
               ai_name = se_name x, ai_role = se_role x\<rparr> else None)"
proof (cases "t < se_expires_at x")
  case True
  from get_live [OF assms(3) this] show ?thesis
    using assms True by (cases "ss_get st k t s") (simp add: sessionIdentity_def)
next
  case False
  from get_expired [OF assms(3) this] show ?thesis
    using assms False by (cases "ss_get st k t s") (simp add: sessionIdentity_def)
qed

lemma no_identity_of_dead:
  assumes "requestCookie r sessionCookieName = Some c" "verifySignedValue c (au_key a) = Some k" "live s k = None"
  shows "fst (sessionIdentity a st t r s) = None"
  using assms get_absent [OF assms(3), of t] by (cases "ss_get st k t s") (simp add: sessionIdentity_def)

lemma started:
  assumes "start_session st a now (Inr k) i back s = (ans, s')" "ha_status ans = 302"
  shows "\<exists>c. ha_cookies ans = [(oidcStateCookie, []), (sessionCookieName, c)] \<and>
     verifySignedValue c (au_key a) = Some k \<and>
     live s' = (live s)(k \<mapsto> \<lparr>se_principal = ai_principal i, se_subject = ai_subject i, se_email = ai_email i,
        se_name = ai_name i, se_role = ai_role i, se_expires_at = now + au_session_ttl a\<rparr>)"
proof -
  let ?x = "\<lparr>se_principal = ai_principal i, se_subject = ai_subject i, se_email = ai_email i,
        se_name = ai_name i, se_role = ai_role i, se_expires_at = now + au_session_ttl a\<rparr>"
  obtain s1 where put: "ss_put st k ?x s = (Inr (), s1)"
    using assms by (auto simp: start_session_def Let_def http_error_def split: prod.splits sum.splits)
  then obtain c where c: "signValue k (au_key a) = Inr c"
    and ans: "ans = \<lparr>ha_status = 302, ha_text = local_path back,
                ha_cookies = [(oidcStateCookie, []), (sessionCookieName, c)]\<rparr>" "s' = s1"
    using assms by (auto simp: start_session_def Let_def http_error_def split: sum.splits)
  have "k \<noteq> []" "se_role ?x \<noteq> []" "se_expires_at ?x \<noteq> 0"
    using put_refused [of k ?x s] put by simp_all
  from put_live [OF this, of s] put ans(2) have "live s' = (live s)(k \<mapsto> ?x)" by simp
  with ans(1) verify_sign [of k "au_key a" c] c show ?thesis
    by (simp add: signValue_def verifySignedValue_def)
qed

lemma logged_out:
  assumes "logout st a fresh r s = (ans, s')" "ha_status ans = 302"
    and "cookie r sessionCookieName = Some c" "verifySignedValue c (au_key a) = Some k"
  shows "live s' = (live s)(k := None)"
proof -
  have n: "csrfCookieName \<noteq> sessionCookieName" by (simp add: csrfCookieName_def sessionCookieName_def)
  have "s' = snd (ss_delete st k s)"
    using assms n by (auto simp: logout_def Let_def http_error_def map_add_def split: if_splits)
  then show ?thesis using delete_live by simp
qed

end

interpretation memory_sessions: sessions "MemorySessionStore None" "\<lambda>m. lookup m"
proof
  fix k :: string and x :: session and s :: "session gomap" and now
  assume "k \<noteq> []" "se_role x \<noteq> []" "se_expires_at x \<noteq> 0"
  then show "fst (ss_put (MemorySessionStore None) k x s) = Inr () \<and>
      lookup (snd (ss_put (MemorySessionStore None) k x s)) = (lookup s)(k \<mapsto> x)"
    by (simp add: MemorySessionStore_def MemorySessionStore_Put_def fun_eq_iff)
qed (auto simp: MemorySessionStore_def MemorySessionStore_Put_def MemorySessionStore_Get_def
      MemorySessionStore_Delete_def fun_eq_iff split: if_splits)

section \<open>ID tokens\<close>

lemma check_claimsD:
  assumes "check_claims o1 nonce now raw = Inr c"
  shows "trim_right CHR ''/'' (ic_issuer c) = oc_issuer o1" "oc_client_id o1 \<in> set (ic_audience c)"
    "now < unix_time (ic_expires_at c)" "ic_nonce c = nonce" "ic_subject c \<noteq> []"
  using assms by (auto simp: check_claims_def Let_def split: if_splits option.splits)

lemma split_on_three: "split_on c v = [p0, p1, p2] \<Longrightarrow> v = p0 @ [c] @ p1 @ [c] @ p2"
  using join_split_on [of c v] by simp

text \<open>C28. An ID token is accepted only if it is three parts of base64, its header names RS256 and a key,
  that key of the issuer's set verifies the signature over the first two parts, and its claims name the
  configured issuer, this client as audience, the nonce of this login, an expiry in the future and a
  subject.\<close>

theorem id_token_verified:
  assumes "verifyIDToken net o1 d token nonce now cw = (Inr c, cw')"
  shows "\<exists>p0 p1 p2 kid k payload signature raw.
     token = p0 @ ''.'' @ p1 @ ''.'' @ p2 \<and> token_header net p0 = Some kid \<and>
     b64_decode p1 = Some payload \<and> b64_decode p2 = Some signature \<and>
     signing_key net d kid now cw = (Inr k, cw') \<and>
     on_rsa_ok net k (sha256 (p0 @ ''.'' @ p1)) signature \<and>
     on_claims net payload = Inr raw \<and> check_claims o1 nonce now raw = Inr c \<and>
     trim_right CHR ''/'' (ic_issuer c) = oc_issuer o1 \<and> oc_client_id o1 \<in> set (ic_audience c) \<and>
     now < unix_time (ic_expires_at c) \<and> ic_nonce c = nonce \<and> ic_subject c \<noteq> []"
proof -
  obtain p0 p1 p2 where sp: "split_on CHR ''.'' token = [p0, p1, p2]"
    using assms by (auto simp: verifyIDToken_def split: list.splits)
  have tok: "token = p0 @ ''.'' @ p1 @ ''.'' @ p2" using split_on_three [OF sp] by simp
  obtain kid where kid: "token_header net p0 = Some kid"
    using assms sp by (auto simp: verifyIDToken_def split: option.splits)
  obtain payload where payload: "b64_decode p1 = Some payload"
    using assms sp kid by (auto simp: verifyIDToken_def split: option.splits)
  obtain signature where sig: "b64_decode p2 = Some signature"
    using assms sp kid payload by (auto simp: verifyIDToken_def split: option.splits)
  obtain k where k: "signing_key net d kid now cw = (Inr k, cw')"
    and ok: "on_rsa_ok net k (sha256 (p0 @ ''.'' @ p1)) signature"
    and raw: "(case on_claims net payload of Inl err \<Rightarrow> Inl err | Inr raw \<Rightarrow> check_claims o1 nonce now raw) = Inr c"
    using assms sp kid payload sig by (auto simp: verifyIDToken_def split: prod.splits sum.splits if_splits)
  from raw obtain raw where raw: "on_claims net payload = Inr raw" "check_claims o1 nonce now raw = Inr c"
    by (auto split: sum.splits)
  show ?thesis
    by (intro exI [of _ p0] exI [of _ p1] exI [of _ p2] exI [of _ kid] exI [of _ k] exI [of _ payload]
          exI [of _ signature] exI [of _ raw] conjI)
      (fact tok kid payload sig k ok raw check_claimsD [OF raw(2)])+
qed

section \<open>A login\<close>

lemma claims_identity_role [simp]: "validRole (ai_role (claims_identity c))"
  using claims_role_valid [of c] by (auto simp: claims_identity_def)

lemma callbackD:
  assumes "callback net st a o1 now rnd r (cw, s) = (ans, cw', s')" "ha_status ans = 302"
  obtains v payload p d cw1 token claims where
    "requestCookie r oidcStateCookie = Some v" "verifyPayload v (au_key a) = Some payload"
    "pending_login net payload now = Some p" "os_state p = text_at (wr_query r) ''state''"
    "verifyIDToken net o1 d token (os_nonce p) now cw1 = (Inr claims, cw')"
    "start_session st a now rnd (claims_identity claims) (os_return_to p) s = (ans, s')"
proof -
  note defs = callback_def http_error_def Let_def
  obtain v where v: "requestCookie r oidcStateCookie = Some v"
  proof (cases "requestCookie r oidcStateCookie")
    case None
    then show ?thesis using assms by (auto simp: defs)
  qed simp
  obtain payload where pl: "verifyPayload v (au_key a) = Some payload"
  proof (cases "verifyPayload v (au_key a)")
    case None
    then show ?thesis using assms v by (auto simp: defs)
  qed simp
  obtain p where p: "pending_login net payload now = Some p"
  proof (cases "pending_login net payload now")
    case None
    then show ?thesis using assms v pl by (auto simp: defs)
  qed simp
  have q: "os_state p = text_at (wr_query r) ''state''" "trim_space (text_at (wr_query r) ''code'') \<noteq> []"
    using assms v pl p by (auto simp: defs split: if_splits)
  obtain dr ca1 w1 where dr: "getDiscovery net o1 False now cw = (dr, ca1, w1)" by (rule prod_cases3)
  obtain d where d: "dr = Inr d"
  proof (cases dr)
    case (Inl e)
    then show ?thesis using assms v pl p q dr by (auto simp: defs)
  qed simp
  let ?x = "on_exchange net d (trim_space (text_at (wr_query r) ''code'')) (os_verifier p) (os_redirect_url p) w1"
  obtain tr w2 where tr: "?x = (tr, w2)" by (rule prod.exhaust)
  obtain token where t: "tr = Inr token"
  proof (cases tr)
    case (Inl e)
    then show ?thesis using assms v pl p q dr d tr by (auto simp: defs)
  qed simp
  obtain cr cw3 where cr: "verifyIDToken net o1 d token (os_nonce p) now (ca1, w2) = (cr, cw3)" by (rule prod.exhaust)
  obtain claims where c: "cr = Inr claims"
  proof (cases cr)
    case (Inl e)
    then show ?thesis using assms v pl p q dr d tr t cr by (auto simp: defs)
  qed simp
  obtain an s1 where s: "start_session st a now rnd (claims_identity claims) (os_return_to p) s = (an, s1)"
    by (rule prod.exhaust)
  have "callback net st a o1 now rnd r (cw, s) = (an, cw3, s1)"
    using v pl p q dr d tr t cr c s by (simp add: defs)
  then show thesis using that [OF v pl p q(1), of d token "(ca1, w2)" claims] cr c s assms(1) by simp
qed

text \<open>C29. A login succeeds only for the browser that started it: its answer comes with a session
  cookie only if the request carries a state cookie signed by this server, not expired, whose state is
  that of the query and whose nonce is that of a verified ID token. The cookie then authenticates as the
  identity of that token until the session expires, not an instant longer, and no other session is
  touched.\<close>

theorem login_session:
  assumes "callback net (MemorySessionStore None) a o1 now (Inr k) r (cw, s) = (ans, cw', s')"
    and "ha_status ans = 302"
  shows "\<exists>v payload p d token cw1 claims c.
     requestCookie r oidcStateCookie = Some v \<and> verifyPayload v (au_key a) = Some payload \<and>
     pending_login net payload now = Some p \<and> os_state p = text_at (wr_query r) ''state'' \<and>
     verifyIDToken net o1 d token (os_nonce p) now cw1 = (Inr claims, cw') \<and>
     ha_cookies ans = [(oidcStateCookie, []), (sessionCookieName, c)] \<and>
     (\<forall>t r2. requestCookie r2 sessionCookieName = Some c \<longrightarrow>
        fst (sessionIdentity a (MemorySessionStore None) t r2 s') =
          (if t < now + au_session_ttl a then Some (claims_identity claims) else None)) \<and>
     (\<forall>k'. k' \<noteq> k \<longrightarrow> lookup s' k' = lookup s k')"
proof -
  obtain v payload p d cw1 token claims where f:
    "requestCookie r oidcStateCookie = Some v" "verifyPayload v (au_key a) = Some payload"
    "pending_login net payload now = Some p" "os_state p = text_at (wr_query r) ''state''"
    "verifyIDToken net o1 d token (os_nonce p) now cw1 = (Inr claims, cw')"
    and start: "start_session (MemorySessionStore None) a now (Inr k) (claims_identity claims) (os_return_to p) s
      = (ans, s')"
    using callbackD [OF assms] by metis
  obtain c where c: "ha_cookies ans = [(oidcStateCookie, []), (sessionCookieName, c)]"
    "verifySignedValue c (au_key a) = Some k" and live: "lookup s' = (lookup s)(k \<mapsto>
      \<lparr>se_principal = ai_principal (claims_identity claims), se_subject = ai_subject (claims_identity claims),
       se_email = ai_email (claims_identity claims), se_name = ai_name (claims_identity claims),
       se_role = ai_role (claims_identity claims), se_expires_at = now + au_session_ttl a\<rparr>)"
    using memory_sessions.started [OF start assms(2)] by blast
  have auth: "fst (sessionIdentity a (MemorySessionStore None) t r2 s') =
      (if t < now + au_session_ttl a then Some (claims_identity claims) else None)"
    if "requestCookie r2 sessionCookieName = Some c" for t r2
    using memory_sessions.identity_of_session [OF that c(2), of s'] live by simp
  have other: "lookup s' k' = lookup s k'" if "k' \<noteq> k" for k' using live that by simp
  show ?thesis
    by (intro exI [of _ v] exI [of _ payload] exI [of _ p] exI [of _ d] exI [of _ token] exI [of _ cw1]
          exI [of _ claims] exI [of _ c] conjI allI impI)
      (fact f c(1) auth other)+
qed

text \<open>After a logout the session is gone: whatever cookie leads to it, at no time does a request
  with that cookie authenticate, and every other session is as before. A logout without the CSRF token of
  its cookie changes no session.\<close>

theorem logout_ends:
  assumes "logout (MemorySessionStore None) a fresh r s = (ans, s')"
  shows "if ha_status ans = 302
     then (\<forall>c k. cookie r sessionCookieName = Some c \<and> verifySignedValue c (au_key a) = Some k \<longrightarrow>
        lookup s' = (lookup s)(k := None) \<and>
        (\<forall>t r2. requestCookie r2 sessionCookieName = Some c \<longrightarrow>
           fst (sessionIdentity a (MemorySessionStore None) t r2 s') = None))
     else s' = s"
proof (cases "ha_status ans = 302")
  case True
  have "lookup s' = (lookup s)(k := None)"
    if "cookie r sessionCookieName = Some c" "verifySignedValue c (au_key a) = Some k" for c k
    using memory_sessions.logged_out [OF assms True that] .
  moreover have "fst (sessionIdentity a (MemorySessionStore None) t r2 s') = None"
    if "cookie r sessionCookieName = Some c" "verifySignedValue c (au_key a) = Some k"
      "requestCookie r2 sessionCookieName = Some c" for c k t r2
    using memory_sessions.no_identity_of_dead [OF that(3,2), of s' t]
      memory_sessions.logged_out [OF assms True that(1,2)] by simp
  ultimately show ?thesis using True by auto
next
  case False
  then show ?thesis using assms by (auto simp: logout_def Let_def split: if_splits)
qed

section \<open>A concrete login\<close>

text \<open>An issuer with one key, one user and an RSA check that accepts; times in nanoseconds of year 1.\<close>

definition demo_discovery :: oidc_discovery where
  "demo_discovery = \<lparr>od_issuer = ''https://idp'', od_authorization = ''https://idp/a'', od_token = ''https://idp/t'',
     od_jwks_uri = ''https://idp/k''\<rparr>"

definition demo_oidc :: oidc_config where
  "demo_oidc = \<lparr>oc_issuer = ''https://idp'', oc_client_id = ''app'', oc_client_secret = ''s'', oc_redirect_url = [],
     oc_scopes = ''openid''\<rparr>"

definition demo_pending :: oidc_state where
  "demo_pending = \<lparr>os_state = ''st'', os_nonce = ''n1'', os_verifier = ''v'', os_return_to = ''/'',
     os_redirect_url = ''http://demo/auth/callback'', os_expires_at = 100\<rparr>"

definition demo_raw :: "json gomap" where
  "demo_raw = [(''iss'', JText ''https://idp''), (''aud'', JArray [JText ''app'']), (''exp'', JNumber ''5''),
     (''nonce'', JText ''n1''), (''sub'', JText ''u1''), (''roles'', JText ''viewer operator'')]"

definition demo_net :: "unit oidc_net" where
  "demo_net = \<lparr>on_discovery = (\<lambda>_ w. (Inr demo_discovery, w)),
     on_jwks = (\<lambda>_ w. (Inr [\<lparr>jk_kty = ''RSA'', jk_alg = [], jk_kid = ''k1'', jk_n = ''AQ'', jk_e = ''AQAB''\<rparr>], w)),
     on_exchange = (\<lambda>_ _ _ _ w. (Inr ''aA.aA.aA'', w)),
     on_parse_url = (\<lambda>_. Some \<lparr>up_scheme = ''https'', up_host = ''idp'', up_path = [], up_raw_query = [],
       up_fragment = []\<rparr>),
     on_header = (\<lambda>_. Some (''RS256'', ''k1'')), on_claims = (\<lambda>_. Inr demo_raw),
     on_encode_state = (\<lambda>_. ''pending''), on_decode_state = (\<lambda>_. Some demo_pending),
     on_rsa_ok = (\<lambda>_ _ _. True)\<rparr>"

definition demo_cache :: oidc_cache where
  "demo_cache = \<lparr>oa_discovery = no_discovery, oa_discovered = 0, oa_jwks = [], oa_jwks_fetched = 0\<rparr>"

definition demo_auth :: authenticator where
  "demo_auth = \<lparr>au_mode = AuthModeOIDC, au_key = ''0123456789abcdef'', au_tokens = [], au_token_file = [],
     au_session_ttl = 8 * hour, au_oidc = Some demo_oidc\<rparr>"

definition demo_cookie :: "string \<Rightarrow> string" where
  "demo_cookie t = b64_encode t @ ''.'' @ b64_encode (hmac_sha256 ''0123456789abcdef'' (b64_encode t))"

definition demo_request :: web_request where
  "demo_request = \<lparr>wr_method = ''GET'', wr_path = ''/auth/callback'', wr_uri = ''/auth/callback'', wr_host = ''demo'',
     wr_tls = False, wr_remote_addr = ''10.0.0.7:4711'', wr_headers = [],
     wr_cookies = [(oidcStateCookie, demo_cookie ''pending'')], wr_query = [(''state'', ''st''), (''code'', ''c'')],
     wr_form = [], wr_identity = None, wr_bearer = False\<rparr>"

lemma demo_cookie_ok [simp]: "verifyPayload (demo_cookie t) ''0123456789abcdef'' = Some t"
  by (rule verify_sign) (simp add: signPayload_def demo_cookie_def Let_def)

lemma demo_cookie_nonempty [simp]: "demo_cookie t \<noteq> []"
  by (simp add: demo_cookie_def)

definition demo_claims :: id_claims where
  "demo_claims = \<lparr>ic_issuer = ''https://idp'', ic_audience = [''app''], ic_expires_at = 5, ic_nonce = ''n1'',
     ic_subject = ''u1'', ic_email = [], ic_name = [], ic_preferred_username = [], ic_role = [],
     ic_roles = [''viewer'', ''operator'']\<rparr>"

lemma demo_checked: "check_claims demo_oidc ''n1'' 7 demo_raw = Inr demo_claims"
proof -
  have "trim_right CHR ''/'' ''https://idp'' = ''https://idp''" "parse_int64 ''5'' = Some 5"
    "go_fields ''viewer operator'' = [''viewer'', ''operator'']" by code_simp+
  moreover have "7 < unix_time 5" by (simp add: unix_time_def second_def)
  ultimately show ?thesis
    by (simp add: check_claims_def demo_oidc_def demo_raw_def demo_claims_def stringClaim_def stringSliceClaim_def)
qed

definition demo_ring :: "rsa_key gomap" where
  "demo_ring = [(''k1'', \<lparr>rk_modulus = [CHR 0x01], rk_exponent = 65537\<rparr>)]"

lemma demo_verified:
  "verifyIDToken demo_net demo_oidc demo_discovery ''aA.aA.aA'' ''n1'' 7 (demo_cache\<lparr>oa_discovery := d, oa_discovered := t\<rparr>, ())
     = (Inr demo_claims, demo_cache\<lparr>oa_discovery := d, oa_discovered := t, oa_jwks := demo_ring, oa_jwks_fetched := 7\<rparr>, ())"
proof -
  have "b64_decode ''aA'' = Some ''h''" "b64_decode ''AQ'' = Some [CHR 0x01]"
    "b64_decode ''AQAB'' = Some [CHR 0x01, CHR 0x00, CHR 0x01]" by code_simp+
  moreover from this have "usable_keys [\<lparr>jk_kty = ''RSA'', jk_alg = [], jk_kid = ''k1'', jk_n = ''AQ'', jk_e = ''AQAB''\<rparr>] = demo_ring"
    by (simp add: usable_keys_def usable_key_def big_endian_def demo_ring_def)
  ultimately show ?thesis
    by (simp add: verifyIDToken_def token_header_def signing_key_def fetchJWKS_def demo_net_def demo_cache_def
        demo_checked demo_ring_def Let_def)
qed

theorem id_token_verified_witness:
  "ic_nonce demo_claims = ''n1'' \<and> oc_client_id demo_oidc \<in> set (ic_audience demo_claims)"
  using id_token_verified [OF demo_verified [where d = no_discovery and t = 0]] by blast

lemma demo_callback:
  "\<exists>cw' s'. callback demo_net (MemorySessionStore None) demo_auth demo_oidc 7 (Inr ''s1'') demo_request
     ((demo_cache, ()), []) = (\<lparr>ha_status = 302, ha_text = ''/'',
        ha_cookies = [(oidcStateCookie, []), (sessionCookieName, demo_cookie ''s1'')]\<rparr>, cw', s')"
proof -
  have cookie: "requestCookie demo_request oidcStateCookie = Some (demo_cookie ''pending'')"
    by (simp add: requestCookie_def demo_request_def)
  have pend: "pending_login demo_net ''pending'' 7 = Some demo_pending"
    by (simp add: pending_login_def demo_net_def demo_pending_def)
  have code: "text_at (wr_query demo_request) ''code'' = ''c''" "text_at (wr_query demo_request) ''state'' = ''st''"
    "trim_space ''c'' = ''c''" "local_path ''/'' = ''/''"
    by (simp_all add: demo_request_def) code_simp+
  have disc: "getDiscovery demo_net demo_oidc False 7 (demo_cache, ()) =
      (Inr demo_discovery, demo_cache\<lparr>oa_discovery := demo_discovery, oa_discovered := 7\<rparr>, ())"
  proof -
    have "trim_right CHR ''/'' ''https://idp'' = ''https://idp''" by code_simp
    then show ?thesis
      by (simp add: getDiscovery_def demo_cache_def no_discovery_def demo_net_def demo_discovery_def demo_oidc_def
          absolute_http_def)
  qed
  have role: "ai_role (claims_identity demo_claims) \<noteq> []"
    using claims_identity_role [of demo_claims] by (auto simp: validRole_def)
  obtain s' where start:
    "start_session (MemorySessionStore None) demo_auth 7 (Inr ''s1'') (claims_identity demo_claims) ''/'' [] =
      (\<lparr>ha_status = 302, ha_text = ''/'',
        ha_cookies = [(oidcStateCookie, []), (sessionCookieName, demo_cookie ''s1'')]\<rparr>, s')"
    using role code(4) by (simp add: start_session_def MemorySessionStore_def MemorySessionStore_Put_def demo_auth_def
        hour_def signValue_def signPayload_def demo_cookie_def Let_def)
  have fields: "au_key demo_auth = ''0123456789abcdef''" "os_state demo_pending = ''st''"
    "os_nonce demo_pending = ''n1''" "os_return_to demo_pending = ''/''"
    "on_exchange demo_net demo_discovery ct v u w = (Inr ''aA.aA.aA'', w)" for ct v u w
    by (simp_all add: demo_auth_def demo_pending_def demo_net_def)
  show ?thesis
    by (simp add: callback_def cookie pend code disc fields demo_verified start Let_def)
qed

theorem login_session_witness:
  "\<exists>s' claims. \<forall>r2. requestCookie r2 sessionCookieName = Some (demo_cookie ''s1'') \<longrightarrow>
     fst (sessionIdentity demo_auth (MemorySessionStore None) 8 r2 s') = Some (claims_identity claims) \<and>
     fst (sessionIdentity demo_auth (MemorySessionStore None) (7 + 8 * hour) r2 s') = None"
proof -
  obtain cw' s' where cb: "callback demo_net (MemorySessionStore None) demo_auth demo_oidc 7 (Inr ''s1'') demo_request
     ((demo_cache, ()), []) = (\<lparr>ha_status = 302, ha_text = ''/'',
        ha_cookies = [(oidcStateCookie, []), (sessionCookieName, demo_cookie ''s1'')]\<rparr>, cw', s')"
    using demo_callback by blast
  have ttl: "au_session_ttl demo_auth = 8 * hour" by (simp add: demo_auth_def)
  obtain claims where "\<forall>t r2. requestCookie r2 sessionCookieName = Some (demo_cookie ''s1'') \<longrightarrow>
        fst (sessionIdentity demo_auth (MemorySessionStore None) t r2 s') =
          (if t < 7 + 8 * hour then Some (claims_identity claims) else None)"
    using login_session [OF cb] ttl by auto
  then show ?thesis by (intro exI [of _ s'] exI [of _ claims]) (simp add: hour_def)
qed

definition demo_logout :: web_request where
  "demo_logout = demo_request\<lparr>wr_method := ''POST'', wr_path := ''/auth/logout'',
     wr_headers := [(''X-Mutandae-Csrf'', ''t'')],
     wr_cookies := [(csrfCookieName, ''t''), (sessionCookieName, demo_cookie ''s1'')]\<rparr>"

theorem logout_ends_witness:
  "\<exists>ans s'. logout (MemorySessionStore None) demo_auth [] demo_logout [] = (ans, s') \<and> ha_status ans = 302 \<and>
     lookup s' ''s1'' = None"
proof -
  obtain ans s' where lo: "logout (MemorySessionStore None) demo_auth [] demo_logout [] = (ans, s')"
    by (rule prod.exhaust)
  have csrf: "csrfCookie demo_logout = ''t''" "header demo_logout ''X-Mutandae-Csrf'' = ''t''"
    by (simp_all add: demo_logout_def csrfCookie_def)
  have c: "cookie demo_logout sessionCookieName = Some (demo_cookie ''s1'')"
    by (simp add: demo_logout_def csrfCookieName_def sessionCookieName_def)
  have ok: "validateAuthCSRF demo_logout = Inr ()" by (simp add: validateAuthCSRF_def csrf)
  have "ha_status ans = 302" using lo ok by (auto simp: logout_def Let_def)
  moreover have "verifySignedValue (demo_cookie ''s1'') (au_key demo_auth) = Some ''s1''"
    by (simp add: verifySignedValue_def demo_auth_def)
  ultimately show ?thesis using logout_ends [OF lo] lo c by auto
qed

end
