(* ===== verification/AzureModels.thy ===== *)
theory AzureModels
  imports Protocol
begin

text \<open>
  The objects of the interactive Azure integration: the safe views and messages of pkg/protocol
  (models.go, messages.go), and the shapes of Microsoft Graph and Key Vault documents that
  internal/provider (azure.go, keyvault.go) decodes.
\<close>

section \<open>Protocol objects\<close>

record vault_configuration =
  vc_url :: string
  vc_secret_prefix :: string
  vc_owner_object_ids :: "string list"

record azure_integration_request =
  ar_tenant_id :: string
  ar_client_id :: string
  ar_client_secret :: string
  ar_vault :: "vault_configuration option"
  ar_requested_by :: string

record azure_integration_session =
  as_id :: string
  as_provider :: string
  as_tenant_hint :: string
  as_client_hint :: string
  as_expires_at :: time
  as_vault_configured :: bool
  as_capabilities :: "string list"

record azure_integration_requirements =
  aq_graph_application_permission :: string
  aq_graph_operations :: "string list"
  aq_vault_optional :: bool
  aq_vault_write_role :: string
  aq_vault_read_role :: string
  aq_owner_enforcement :: string
  aq_warnings :: "string list"

record operation_receipt =
  rc_id :: string
  rc_correlation_id :: string
  rc_event_published :: bool
  rc_event :: azure_integration_event

record azure_credential =
  acr_key_id :: string
  acr_display_name :: string
  acr_start_at :: time
  acr_expires_at :: time
  acr_hint :: string
  acr_vault :: "vault_reference option"

record azure_application =
  aa_object_id :: string
  aa_application_id :: string
  aa_display_name :: string
  aa_created_at :: time
  aa_owned_by_calling_client :: bool
  aa_credentials :: "azure_credential list"

record azure_secret_result =
  asr_credential :: azure_credential
  asr_secret_text :: string
  asr_one_time :: bool
  asr_vault :: "vault_reference option"

record azure_application_create_request =
  apc_display_name :: string

record azure_secret_create_request =
  asc_application_object_id :: string
  asc_display_name :: string
  asc_expires_at :: time
  asc_store_in_vault :: bool

text \<open>AzureSecretReadRequest and AzureSecretInvalidateRequest have the same fields.\<close>

record azure_secret_read_request =
  arr_application_object_id :: string
  arr_key_id :: string
  arr_version :: string

record azure_secret_invalidate_request =
  air_application_object_id :: string
  air_key_id :: string
  air_version :: string

definition no_credential :: azure_credential where
  "no_credential = \<lparr>acr_key_id = [], acr_display_name = [], acr_start_at = 0, acr_expires_at = 0,
     acr_hint = [], acr_vault = None\<rparr>"

definition no_application :: azure_application where
  "no_application = \<lparr>aa_object_id = [], aa_application_id = [], aa_display_name = [], aa_created_at = 0,
     aa_owned_by_calling_client = False, aa_credentials = []\<rparr>"

definition no_secret :: azure_secret_result where
  "no_secret = \<lparr>asr_credential = no_credential, asr_secret_text = [], asr_one_time = False, asr_vault = None\<rparr>"

section \<open>Microsoft Graph and Key Vault documents\<close>

record graph_password_credential =
  gp_key_id :: string
  gp_display_name :: string
  gp_secret_text :: string
  gp_start_date_time :: time
  gp_end_date_time :: time
  gp_hint :: string

record graph_application =
  ga_id :: string
  ga_app_id :: string
  ga_display_name :: string
  ga_created_date_time :: time
  ga_password_credentials :: "graph_password_credential list"

record key_vault_secret =
  kvs_id :: string
  kvs_version :: string
  kvs_value :: string
  kvs_tags :: "string gomap"

definition zero_graph_application :: graph_application where
  "zero_graph_application = \<lparr>ga_id = [], ga_app_id = [], ga_display_name = [], ga_created_date_time = 0,
     ga_password_credentials = []\<rparr>"

definition zero_graph_credential :: graph_password_credential where
  "zero_graph_credential = \<lparr>gp_key_id = [], gp_display_name = [], gp_secret_text = [], gp_start_date_time = 0,
     gp_end_date_time = 0, gp_hint = []\<rparr>"

definition zero_vault_secret :: key_vault_secret where
  "zero_vault_secret = \<lparr>kvs_id = [], kvs_version = [], kvs_value = [], kvs_tags = []\<rparr>"

definition credential_view :: "graph_password_credential \<Rightarrow> azure_credential" where
  "credential_view c = \<lparr>acr_key_id = gp_key_id c, acr_display_name = gp_display_name c,
     acr_start_at = gp_start_date_time c, acr_expires_at = gp_end_date_time c, acr_hint = gp_hint c, acr_vault = None\<rparr>"

definition application_view :: "graph_application \<Rightarrow> bool \<Rightarrow> azure_application" where
  "application_view a owned = \<lparr>aa_object_id = ga_id a, aa_application_id = ga_app_id a,
     aa_display_name = ga_display_name a, aa_created_at = ga_created_date_time a,
     aa_owned_by_calling_client = owned, aa_credentials = map credential_view (ga_password_credentials a)\<rparr>"

section \<open>GUIDs\<close>

definition is_hex :: "char \<Rightarrow> bool" where
  "is_hex c \<longleftrightarrow> c \<in> set ''0123456789abcdefABCDEF''"

text \<open>The regular expression guidPattern, one class of bytes per position.\<close>

definition guid_shape :: "(char \<Rightarrow> bool) list" where
  "guid_shape =
     (let dash = (\<lambda>c. c = CHR ''-'') in
      replicate 8 is_hex @ [dash] @ replicate 4 is_hex @ [dash] @
      [\<lambda>c. c \<in> set ''12345''] @ replicate 3 is_hex @ [dash] @
      [\<lambda>c. c \<in> set ''89abAB''] @ replicate 3 is_hex @ [dash] @ replicate 12 is_hex)"

definition is_guid :: "string \<Rightarrow> bool" where
  "is_guid s \<longleftrightarrow> list_all2 (\<lambda>p c. p c) guid_shape s"

lemma length_guid: "is_guid s \<Longrightarrow> length s = 36"
  by (auto simp: is_guid_def guid_shape_def Let_def dest!: list_all2_lengthD)

definition guid_byte :: "char \<Rightarrow> bool" where
  "guid_byte c \<longleftrightarrow> c \<in> set ''0123456789abcdefABCDEF-''"

lemma guid_bytes:
  assumes "is_guid s" "c \<in> set s"
  shows "guid_byte c"
proof -
  have shape: "list_all (\<lambda>p. \<forall>c. p c \<longrightarrow> guid_byte c) guid_shape"
    by (simp add: guid_shape_def Let_def list_all_iff is_hex_def guid_byte_def)
  obtain i where i: "i < length s" "s ! i = c" using assms(2) by (auto simp: in_set_conv_nth)
  then have "guid_shape ! i \<in> set guid_shape" "(guid_shape ! i) c"
    using assms(1) by (auto simp: is_guid_def list_all2_conv_all_nth)
  then show ?thesis using shape by (auto simp: list_all_iff)
qed

end
