(* ===== verification/Rest.thy ===== *)
theory Rest
  imports Encoding
begin

text \<open>
  What the clients of remote services share (internal/provider): requests and replies, the idiom of
  passing an error on, escaping of path segments, the redaction of secrets in error texts
  (redactError of azure.go), and the layouts of package time they print instants in. The JSON text of
  a body is not modelled: a request carries the value, a reply the bytes that a decoder
  given as an argument reads.
\<close>

section \<open>Passing an error on\<close>

text \<open>
  \<open>x, err := m(); if err != nil { return err }\<close>, the state being passed from call to call, and
  operations that keep a predicate of the state whatever they answer.
\<close>

definition try_then :: "('s \<Rightarrow> ('e + 'a) \<times> 's) \<Rightarrow> ('a \<Rightarrow> 's \<Rightarrow> ('e + 'b) \<times> 's) \<Rightarrow> 's \<Rightarrow> ('e + 'b) \<times> 's" where
  "try_then m f s = (case m s of (Inl e, s') \<Rightarrow> (Inl e, s') | (Inr a, s') \<Rightarrow> f a s')"

definition succeed :: "'a \<Rightarrow> 's \<Rightarrow> ('e + 'a) \<times> 's" where
  "succeed a s = (Inr a, s)"

definition fail :: "'e \<Rightarrow> 's \<Rightarrow> ('e + 'a) \<times> 's" where
  "fail e s = (Inl e, s)"

definition on_error :: "('e \<Rightarrow> 'f) \<Rightarrow> ('s \<Rightarrow> ('e + 'a) \<times> 's) \<Rightarrow> 's \<Rightarrow> ('f + 'a) \<times> 's" where
  "on_error g m s = (case m s of (Inl e, s') \<Rightarrow> (Inl (g e), s') | (Inr a, s') \<Rightarrow> (Inr a, s'))"

definition prefixed :: "string \<Rightarrow> go_error \<Rightarrow> go_error" where
  "prefixed t e = GoError (err_wraps e) (t @ err_text e)"

definition keeps :: "('s \<Rightarrow> bool) \<Rightarrow> ('s \<Rightarrow> 'a \<times> 's) \<Rightarrow> bool" where
  "keeps I m \<longleftrightarrow> (\<forall>s. I s \<longrightarrow> I (snd (m s)))"

named_theorems keeps_intros \<open>operations that keep a predicate\<close>

lemma keepsI [intro]: "(\<And>s. I s \<Longrightarrow> I (snd (m s))) \<Longrightarrow> keeps I m"
  by (simp add: keeps_def)

lemma keepsD: "keeps I m \<Longrightarrow> I s \<Longrightarrow> I (snd (m s))"
  by (simp add: keeps_def)

lemma keeps_succeed [keeps_intros]: "keeps I (succeed a)"
  by (simp add: keeps_def succeed_def)

lemma keeps_fail [keeps_intros]: "keeps I (fail e)"
  by (simp add: keeps_def fail_def)

lemma keeps_try [keeps_intros]:
  assumes "keeps I m" "\<And>a. keeps I (f a)"
  shows "keeps I (try_then m f)"
proof
  fix s
  assume "I s"
  obtain r s' where m: "m s = (r, s')" by (rule prod.exhaust)
  with assms(1) \<open>I s\<close> have "I s'" by (metis keepsD snd_conv)
  with m assms(2) show "I (snd (try_then m f s))"
    by (cases r) (auto simp: try_then_def dest: keepsD)
qed

lemma keeps_on_error [keeps_intros]: "keeps I m \<Longrightarrow> keeps I (on_error g m)"
  by (auto simp: keeps_def on_error_def split: prod.splits sum.splits)

lemma keeps_if [keeps_intros]: "keeps I m \<Longrightarrow> keeps I n \<Longrightarrow> keeps I (if b then m else n)"
  by simp

lemma try_then_ok [simp]: "m s = (Inr a, s') \<Longrightarrow> try_then m f s = f a s'"
  by (simp add: try_then_def)

lemma try_then_err [simp]: "m s = (Inl e, s') \<Longrightarrow> try_then m f s = (Inl e, s')"
  by (simp add: try_then_def)

lemma keeps_try_post:
  assumes "keeps I m" "\<And>s a s'. I s \<Longrightarrow> m s = (Inr a, s') \<Longrightarrow> J a s'"
    and "\<And>a. keeps (J a) (f a)" "\<And>a s. J a s \<Longrightarrow> I s"
  shows "keeps I (try_then m f)"
proof
  fix s
  assume "I s"
  obtain r s' where m: "m s = (r, s')" by (rule prod.exhaust)
  show "I (snd (try_then m f s))"
  proof (cases r)
    case (Inl e)
    moreover have "I s'" using keepsD [OF assms(1) \<open>I s\<close>] m by simp
    ultimately show ?thesis using m by simp
  next
    case (Inr a)
    then have "J a s'" using m \<open>I s\<close> assms(2) by simp
    with assms(3) have "J a (snd (f a s'))" by (rule keepsD)
    then show ?thesis using m Inr assms(4) by simp
  qed
qed

lemma try_then_kept:
  assumes "keeps I m" "I s" "try_then m f s = (r, s')"
  shows "(\<exists>e. r = Inl e \<and> I s') \<or> (\<exists>a s1. I s1 \<and> f a s1 = (r, s'))"
proof -
  obtain r1 s1 where m: "m s = (r1, s1)" by (rule prod.exhaust)
  with keepsD [OF assms(1,2)] have "I s1" by simp
  then show ?thesis using assms(3) m by (cases r1) (auto simp: try_then_def)
qed

lemma try_then_Inr:
  assumes "try_then m f s = (Inr b, s')"
  obtains a s1 where "m s = (Inr a, s1)" "f a s1 = (Inr b, s')"
  using assms by (auto simp: try_then_def split: prod.splits sum.splits)

section \<open>Requests and replies\<close>

datatype json_value = JString string | JInt int | JBool bool | JArray "json_value list" | JObject "(string \<times> json_value) list"

datatype request_body = NoBody | JsonBody json_value | FormBody "(string \<times> string) list"

record http_request =
  hq_method :: string
  hq_url :: string
  hq_headers :: "(string \<times> string) list"
  hq_body :: request_body

record http_reply =
  hr_status :: int
  hr_data :: string

definition success_status :: "int \<Rightarrow> bool" where
  "success_status n \<longleftrightarrow> 200 \<le> n \<and> n < 300"

text \<open>url.PathEscape.\<close>

definition path_escape :: "string \<Rightarrow> string" where
  "path_escape s = concat (map (\<lambda>c. let n = (of_char c :: nat) in
     if (48 \<le> n \<and> n \<le> 57) \<or> (65 \<le> n \<and> n \<le> 90) \<or> (97 \<le> n \<and> n \<le> 122) \<or> c \<in> set ''-_.~$&+:=@'' then [c]
     else [CHR ''%'', upper_hex (n div 16), upper_hex (n mod 16)]) s)"

lemma upper_hex_inject:
  assumes "m < 16" "n < 16" "upper_hex m = upper_hex n"
  shows "m = n"
proof -
  have v: "(of_char (upper_hex k) :: nat) = k + (if k < 10 then 48 else 55)" if "k < 16" for k
    using that by (simp add: upper_hex_def)
  have "m + (if m < 10 then 48 else 55) = n + (if n < 10 then 48 else (55 :: nat))"
    unfolding v [OF assms(1), symmetric] v [OF assms(2), symmetric] assms(3) ..
  then show ?thesis using assms(1,2) by (simp split: if_splits)
qed

lemma path_escape_Cons:
  "path_escape (c # s) = c # path_escape s \<and> c \<noteq> CHR ''%'' \<or>
   path_escape (c # s) = CHR ''%'' # upper_hex (of_char c div 16) # upper_hex (of_char c mod 16) # path_escape s"
  by (auto simp: path_escape_def Let_def)

lemma escaped_char_inject:
  assumes "upper_hex (of_char c div 16) = upper_hex (of_char d div 16)"
    and "upper_hex (of_char c mod 16) = upper_hex (of_char d mod 16)"
  shows "c = (d :: char)"
proof -
  have lt: "(of_char x :: nat) div 16 < 16" for x :: char
  proof -
    have "(of_char x :: nat) < 256" by simp
    then show ?thesis by linarith
  qed
  have "(of_char c :: nat) div 16 = of_char d div 16" "(of_char c :: nat) mod 16 = of_char d mod 16"
    using assms lt upper_hex_inject by simp_all
  then have "(of_char c :: nat) = of_char d" by (metis div_mult_mod_eq)
  then show ?thesis by simp
qed

lemma path_escape_Nil [simp]: "path_escape [] = []"
  by (simp add: path_escape_def)

lemma path_escape_nonempty: "path_escape (c # s) \<noteq> []"
  using path_escape_Cons [of c s] by (elim disjE) simp_all

lemma path_escape_inject: "path_escape s = path_escape t \<Longrightarrow> s = t"
proof (induction s arbitrary: t)
  case Nil
  then show ?case using path_escape_nonempty [symmetric] by (cases t) simp_all
next
  case (Cons c s)
  obtain d t' where t: "t = d # t'" using Cons.prems path_escape_nonempty [of c s] by (cases t) auto
  show ?case
    using path_escape_Cons [of c s] path_escape_Cons [of d t']
  proof (elim disjE conjE)
    assume "path_escape (c # s) = CHR ''%'' # upper_hex (of_char c div 16) # upper_hex (of_char c mod 16) # path_escape s"
      "path_escape (d # t') = CHR ''%'' # upper_hex (of_char d div 16) # upper_hex (of_char d mod 16) # path_escape t'"
    then have "upper_hex (of_char c div 16) = upper_hex (of_char d div 16)"
      "upper_hex (of_char c mod 16) = upper_hex (of_char d mod 16)" "path_escape s = path_escape t'"
      using Cons.prems t by simp_all
    then show ?thesis using escaped_char_inject Cons.IH t by blast
  qed (use Cons t in auto)
qed

section \<open>Redaction of error texts\<close>

text \<open>strings.ReplaceAll for a text that is not empty.\<close>

function replace_all :: "string \<Rightarrow> string \<Rightarrow> string \<Rightarrow> string" where
  "replace_all p q s =
     (if p = [] \<or> s = [] then s
      else if has_prefix s p then q @ replace_all p q (drop (length p) s)
      else hd s # replace_all p q (tl s))"
  by pat_completeness auto
termination
  by (relation "measure (\<lambda>(p, q, s). length s)") auto

declare replace_all.simps [simp del]

lemma replace_all_steps:
  "replace_all p q [] = []"
  "p \<noteq> [] \<Longrightarrow> has_prefix (c # t) p \<Longrightarrow>
     replace_all p q (c # t) = q @ replace_all p q (drop (length p) (c # t))"
  "p \<noteq> [] \<Longrightarrow> \<not> has_prefix (c # t) p \<Longrightarrow> replace_all p q (c # t) = c # replace_all p q t"
  by (simp_all add: replace_all.simps)

definition redacted_mark :: string where "redacted_mark = ''[redacted]''"

fun redact_text :: "string list \<Rightarrow> string \<Rightarrow> string" where
  "redact_text [] t = t"
| "redact_text (s # ss) t = redact_text ss (if s = [] then t else replace_all s redacted_mark t)"

definition redactError :: "string \<Rightarrow> string list \<Rightarrow> go_error" where
  "redactError t secrets = plain_error (redact_text secrets t)"

text \<open>A secret that the mark itself cannot spell out.\<close>

definition maskable :: "string \<Rightarrow> bool" where
  "maskable s \<longleftrightarrow> s \<noteq> [] \<and> CHR ''['' \<notin> set s \<and> CHR '']'' \<notin> set s \<and> \<not> contains ''redacted'' s"

lemma replace_prefix:
  assumes "has_prefix (replace_all p redacted_mark t) w" "CHR ''['' \<notin> set w"
  shows "has_prefix t w"
  using assms
proof (induction w arbitrary: t)
  case (Cons c w)
  have ne: "p \<noteq> [] \<and> \<not> has_prefix t p \<and> t \<noteq> [] \<or> p = [] \<or> t = []"
    using Cons.prems by (auto simp: replace_all.simps [of p _ t] redacted_mark_def split: if_splits)
  show ?case
  proof (cases "p = [] \<or> t = []")
    case True
    then show ?thesis using Cons.prems by (simp add: replace_all.simps [of p _ t])
  next
    case False
    with ne have r: "replace_all p redacted_mark t = hd t # replace_all p redacted_mark (tl t)"
      by (simp add: replace_all.simps [of p _ t])
    then have "hd t = c" "has_prefix (tl t) w" using Cons by simp_all
    then show ?thesis using False by (cases t) auto
  qed
qed simp

lemma split_at_char:
  assumes "u @ [x] @ r = a @ w @ b" "x \<notin> set w"
  shows "(\<exists>c. u = a @ w @ c) \<or> (\<exists>c. r = c @ w @ b)"
proof (cases "length u < length (a @ w)")
  case False
  then have "take (length (a @ w)) u = a @ w"
    using arg_cong [OF assms(1), of "take (length (a @ w))"] by simp
  then have "u = a @ w @ drop (length (a @ w)) u" by (metis append.assoc append_take_drop_id)
  then show ?thesis by blast
next
  case True
  show ?thesis
  proof (cases "length u < length a")
    case False
    have "(u @ [x] @ r) ! length u = x" by simp
    then have "(a @ w @ b) ! length u = x" by (simp only: assms(1))
    moreover have l: "length u - length a < length w" using True False by simp
    ultimately have "w ! (length u - length a) = x" using True False by (simp add: nth_append)
    then show ?thesis using l assms(2) by (metis nth_mem)
  next
    case True
    then have "drop (length u + 1) (u @ [x] @ r) = r" "drop (length u + 1) (a @ w @ b) = drop (length u + 1) a @ w @ b"
      by simp_all
    then show ?thesis using assms(1) by metis
  qed
qed

lemma mark_apart:
  assumes "contains (redacted_mark @ r) w" "maskable w"
  shows "contains r w"
proof -
  obtain a b where ab: "redacted_mark @ r = a @ w @ b" using assms(1) by (auto simp: contains_iff)
  have w: "CHR '']'' \<notin> set w" "CHR ''['' \<notin> set w" "\<not> contains ''redacted'' w" "w \<noteq> []"
    using assms(2) by (simp_all add: maskable_def)
  have "''[redacted'' @ [CHR '']''] @ r = a @ w @ b" using ab by (simp add: redacted_mark_def)
  then consider c where "''[redacted'' = a @ w @ c" | c where "r = c @ w @ b"
    using split_at_char [OF _ w(1)] by blast
  then show ?thesis
  proof cases
    case 1
    then have "[] @ [CHR ''[''] @ ''redacted'' = a @ w @ c" by simp
    then have "(\<exists>d. [] = a @ w @ d) \<or> (\<exists>d. ''redacted'' = d @ w @ c)" by (rule split_at_char [OF _ w(2)])
    then have "contains ''redacted'' w" using w(4) by (auto simp: contains_iff)
    then show ?thesis using w(3) by simp
  next
    case 2
    then show ?thesis by (auto simp: contains_iff)
  qed
qed

lemma contains_drop: "contains (drop n s) w \<Longrightarrow> contains s w"
  by (metis append_take_drop_id contains_iff append.assoc)

lemma contains_Cons_iff: "contains (c # s) w \<longleftrightarrow> has_prefix (c # s) w \<or> contains s w"
  by simp

lemma replace_adds_none:
  assumes "maskable w" "contains (replace_all p redacted_mark s) w"
  shows "contains s w"
  using assms(2)
proof (induction "length s" arbitrary: s rule: less_induct)
  case less
  show ?case
  proof (cases "p = [] \<or> s = []")
    case True
    then show ?thesis using less.prems by (simp add: replace_all.simps [of p _ s])
  next
    case False
    then obtain c t where s: "s = c # t" by (cases s) auto
    show ?thesis
    proof (cases "has_prefix s p")
      case True
      then have "contains (redacted_mark @ replace_all p redacted_mark (drop (length p) s)) w"
        using less.prems False by (simp add: replace_all.simps [of p _ s])
      then have "contains (replace_all p redacted_mark (drop (length p) s)) w" using mark_apart assms(1) by blast
      moreover have "length (drop (length p) s) < length s" using False by (cases p) auto
      ultimately have "contains (drop (length p) s) w" using less.hyps by blast
      then show ?thesis by (rule contains_drop)
    next
      case np: False
      then have r: "replace_all p redacted_mark s = c # replace_all p redacted_mark t"
        using False s replace_all_steps(3) by metis
      show ?thesis
      proof (cases "has_prefix (replace_all p redacted_mark s) w")
        case True
        then have "has_prefix s w" using replace_prefix assms(1) by (simp add: maskable_def)
        then show ?thesis by (simp add: s)
      next
        case False
        then show ?thesis using r less.prems less.hyps [of t] s by simp
      qed
    qed
  qed
qed

lemma replace_removes:
  assumes "maskable p"
  shows "\<not> contains (replace_all p redacted_mark s) p"
proof (induction "length s" arbitrary: s rule: less_induct)
  case less
  have p: "p \<noteq> []" "CHR ''['' \<notin> set p" using assms by (simp_all add: maskable_def)
  show ?case
  proof (cases s)
    case Nil
    then show ?thesis using p(1) by (cases p) (simp_all add: replace_all_steps)
  next
    case (Cons c t)
    show ?thesis
    proof (cases "has_prefix s p")
      case True
      then have "replace_all p redacted_mark s = redacted_mark @ replace_all p redacted_mark (drop (length p) s)"
        using p Cons replace_all_steps(2,3) by metis
      moreover have "length (drop (length p) s) < length s" using p Cons by (cases p) auto
      ultimately show ?thesis using mark_apart [OF _ assms] less [of "drop (length p) s"] by metis
    next
      case False
      then have r: "replace_all p redacted_mark s = c # replace_all p redacted_mark t"
        using p Cons replace_all_steps(2,3) by metis
      have "\<not> has_prefix (replace_all p redacted_mark s) p" using replace_prefix p(2) False by blast
      then show ?thesis using r less [of t] Cons by simp
    qed
  qed
qed

lemma redact_text_keeps: "\<not> contains t w \<Longrightarrow> maskable w \<Longrightarrow> \<not> contains (redact_text ss t) w"
  by (induction ss arbitrary: t) (auto dest: replace_adds_none)

lemma redact_text_clean: "s \<in> set ss \<Longrightarrow> maskable s \<Longrightarrow> \<not> contains (redact_text ss t) s"
proof (induction ss arbitrary: t)
  case (Cons x ss)
  show ?case
  proof (cases "s = x")
    case True
    then show ?thesis using Cons.prems(2) replace_removes redact_text_keeps by (simp add: maskable_def)
  next
    case False
    then show ?thesis using Cons by simp
  qed
qed simp

end
