(* ===== verification/Calendar.thy ===== *)
theory Calendar
  imports Prelude
begin

text \<open>
  The layouts of package time in which the program prints instants in UTC: the civil date of a number of
  days since 1 January of year 1, by the calendar's cycles of 400 years, and the layouts RFC 3339 and
  "Jan 02, 2006". Fractions of a second are cut off.
\<close>

section \<open>Civil dates\<close>

definition civil_date :: "int \<Rightarrow> int \<times> int \<times> int" where
  "civil_date days =
     (let z = days + 306; era = z div 146097; doe = z mod 146097;
          yoe = (doe - doe div 1460 + doe div 36524 - doe div 146096) div 365;
          doy = doe - (365 * yoe + yoe div 4 - yoe div 100);
          mp = (5 * doy + 2) div 153;
          d = doy - (153 * mp + 2) div 5 + 1;
          mo = (if mp < 10 then mp + 3 else mp - 9)
      in (yoe + era * 400 + (if mo \<le> 2 then 1 else 0), mo, d))"

definition two_digits :: "int \<Rightarrow> string" where
  "two_digits n = pad0 2 (dec (nat n))"

definition four_digits :: "int \<Rightarrow> string" where
  "four_digits n = pad0 4 (dec (nat n))"

text \<open>\<open>t.UTC().Format(time.RFC3339)\<close>.\<close>

definition rfc3339 :: "time \<Rightarrow> string" where
  "rfc3339 t =
     (case civil_date (t div day) of (y, mo, d) \<Rightarrow>
        (let s = (t mod day) div second in
         four_digits y @ ''-'' @ two_digits mo @ ''-'' @ two_digits d @ ''T'' @
         two_digits (s div 3600) @ '':'' @ two_digits (s div 60 mod 60) @ '':'' @ two_digits (s mod 60) @ ''Z''))"

definition month_names :: "string list" where
  "month_names = [''Jan'', ''Feb'', ''Mar'', ''Apr'', ''May'', ''Jun'', ''Jul'', ''Aug'', ''Sep'', ''Oct'', ''Nov'', ''Dec'']"

text \<open>\<open>t.Format("Jan 02, 2006")\<close>.\<close>

definition date_label :: "time \<Rightarrow> string" where
  "date_label t = (case civil_date (t div day) of (y, mo, d) \<Rightarrow>
     month_names ! nat (mo - 1) @ '' '' @ two_digits d @ '', '' @ four_digits y)"

end
