(* ===== verification/AzureClient.thy ===== *)
theory AzureClient
  imports AzureModels Rest Calendar
begin

text \<open>
  The ephemeral Microsoft Graph client and its Key Vault client (internal/provider: azure.go,
  keyvault.go). What lies outside is the record \<open>azure_net\<close>: the clock, sending a request, the pause
  between two attempts, the JSON decoders, parsing a URL or an RFC 3339 instant. The state of an
  operation is the client together with the outside world. A client holds secrets, so \<open>azure_close\<close>
  and what is left after it matter.
\<close>

section \<open>The client and what it talks to\<close>

record access_token =
  at_value :: string
  at_expires_at :: time

record key_vault_client =
  kv_base_url :: string
  kv_secret_prefix :: string

record azure_client =
  az_tenant_id :: string
  az_client_id :: string
  az_client_secret :: string
  az_graph_base_url :: string
  az_login_base_url :: string
  az_closed :: bool
  az_tokens :: "access_token gomap"
  az_calling_object_ids :: "string list"
  az_calling_sp_id :: string
  az_created_objects :: "string list"
  az_vault :: "key_vault_client option"

record token_payload =
  tp_access_token :: string
  tp_expires_in :: int
  tp_description :: string

record vault_url =
  vu_scheme :: string
  vu_host :: string
  vu_hostname :: string
  vu_has_user :: bool
  vu_raw_query :: string
  vu_fragment :: string
  vu_text :: string

text \<open>A pause is over when its time has passed or, with an error, when the context has ended.\<close>

record 'w azure_net =
  an_clock :: "'w \<Rightarrow> time \<times> 'w"
  an_send :: "http_request \<Rightarrow> 'w \<Rightarrow> http_reply result \<times> 'w"
  an_pause :: "duration \<Rightarrow> 'w \<Rightarrow> go_error option \<times> 'w"
  an_token_payload :: "string \<Rightarrow> token_payload result"
  an_service_principal :: "string \<Rightarrow> string result"
  an_application :: "string \<Rightarrow> graph_application result"
  an_applications :: "string \<Rightarrow> graph_application list result"
  an_owners :: "string \<Rightarrow> string list result"
  an_credential :: "string \<Rightarrow> graph_password_credential result"
  an_vault_secret :: "string \<Rightarrow> key_vault_secret result"
  an_parse_url :: "string \<Rightarrow> vault_url option"
  an_parse_time :: "string \<Rightarrow> time option"

type_synonym 'w az = "azure_client \<times> 'w"

definition azure_now :: "'w azure_net \<Rightarrow> 'w az \<Rightarrow> ('e + time) \<times> 'w az" where
  "azure_now net s = (case an_clock net (snd s) of (t, w) \<Rightarrow> (Inr t, (fst s, w)))"

section \<open>Construction and closing\<close>

definition is_prefix_text :: "string \<Rightarrow> bool" where
  "is_prefix_text s \<longleftrightarrow> 1 \<le> length s \<and> length s \<le> 40 \<and> list_all (\<lambda>c. let n = (of_char c :: nat) in
     48 \<le> n \<and> n \<le> 57 \<or> 65 \<le> n \<and> n \<le> 90 \<or> 97 \<le> n \<and> n \<le> 122 \<or> c = CHR ''-'') s"

text \<open>strings.Trim and strings.TrimRight with a set of one-byte characters.\<close>

definition trim_set :: "char list \<Rightarrow> string \<Rightarrow> string" where
  "trim_set cs s = rev (dropWhile (\<lambda>c. c \<in> set cs) (rev (dropWhile (\<lambda>c. c \<in> set cs) s)))"

definition trim_right_set :: "char list \<Rightarrow> string \<Rightarrow> string" where
  "trim_right_set cs s = rev (dropWhile (\<lambda>c. c \<in> set cs) (rev s))"

definition has_suffix :: "string \<Rightarrow> string \<Rightarrow> bool" where
  "has_suffix s p \<longleftrightarrow> has_prefix (rev s) (rev p)"

definition NewKeyVaultClient :: "'w azure_net \<Rightarrow> vault_configuration \<Rightarrow> key_vault_client result" where
  "NewKeyVaultClient net config =
     (case an_parse_url net (trim_right_set ''/'' (trim_space (vc_url config))) of
        None \<Rightarrow> Inl (plain_error ''vault.url must be an HTTPS Azure Key Vault URL'')
      | Some parsed \<Rightarrow>
          if vu_scheme parsed \<noteq> ''https'' \<or> vu_host parsed = [] then
            Inl (plain_error ''vault.url must be an HTTPS Azure Key Vault URL'')
          else if vu_has_user parsed \<or> vu_raw_query parsed \<noteq> [] \<or> vu_fragment parsed \<noteq> [] \<or>
                  \<not> has_suffix (to_lower (vu_hostname parsed)) ''.vault.azure.net'' then
            Inl (plain_error (''vault.url must use an Azure Key Vault host ending in .vault.azure.net '' @
              ''without credentials, query, or fragment''))
          else
            (let prefix0 = trim_set ''-/ '' (vc_secret_prefix config);
                 prefix = (if prefix0 = [] then ''mutandae'' else prefix0) in
             if \<not> is_prefix_text prefix then
               Inl (plain_error ''vault.secret_prefix must contain only letters, numbers, and hyphens'')
             else if \<not> list_all is_guid (vc_owner_object_ids config) then
               Inl (plain_error ''vault.owner_object_ids must contain only GUIDs'')
             else Inr \<lparr>kv_base_url = vu_text parsed, kv_secret_prefix = prefix\<rparr>))"

definition NewAzureClient :: "'w azure_net \<Rightarrow> azure_integration_request \<Rightarrow> azure_client result" where
  "NewAzureClient net req =
     (let tenantID = trim_space (ar_tenant_id req); clientID = trim_space (ar_client_id req) in
      if tenantID = [] \<or> list_ex (\<lambda>c. c \<in> set [CHR ''/'', CHR ''?'', CHR ''#'', CHR 0x0D, CHR 0x0A]) tenantID \<or>
         256 < length tenantID then
        Inl (plain_error ''tenant_id must be a valid tenant identifier'')
      else if \<not> is_guid clientID then Inl (plain_error ''client_id must be a GUID'')
      else if trim_space (ar_client_secret req) = [] \<or> 4096 < length (ar_client_secret req) then
        Inl (plain_error ''client_secret is required'')
      else
        (let client = \<lparr>az_tenant_id = tenantID, az_client_id = clientID,
               az_client_secret = ar_client_secret req,
               az_graph_base_url = ''https://graph.microsoft.com/v1.0'',
               az_login_base_url = ''https://login.microsoftonline.com'', az_closed = False,
               az_tokens = [], az_calling_object_ids = [], az_calling_sp_id = [],
               az_created_objects = [], az_vault = None\<rparr> in
         case ar_vault req of
           None \<Rightarrow> Inr client
         | Some config \<Rightarrow>
             (case NewKeyVaultClient net config of
                Inl err \<Rightarrow> Inl err
              | Inr vault \<Rightarrow> Inr (client\<lparr>az_vault := Some vault\<rparr>))))"

definition azure_close :: "azure_client \<Rightarrow> azure_client" where
  "azure_close c = c\<lparr>az_closed := True, az_client_secret := [], az_tokens := [], az_vault := None\<rparr>"

section \<open>Tokens\<close>

text \<open>
  The code looks at \<open>closed\<close> once more after the request, for a client closed meanwhile; operations run
  one after the other here.
\<close>

definition session_over :: go_error where
  "session_over = plain_error ''Azure integration session has expired''"

definition token_endpoint :: "azure_client \<Rightarrow> string" where
  "token_endpoint c = (let base = az_login_base_url c in
     (if base \<noteq> [] \<and> last base = CHR ''/'' then butlast base else base) @ ''/'' @
     path_escape (az_tenant_id c) @ ''/oauth2/v2.0/token'')"

definition token_request :: "azure_client \<Rightarrow> string \<Rightarrow> http_request" where
  "token_request c scope = \<lparr>hq_method = ''POST'', hq_url = token_endpoint c,
     hq_headers = [(''Content-Type'', ''application/x-www-form-urlencoded'')],
     hq_body = FormBody [(''client_id'', az_client_id c), (''client_secret'', az_client_secret c),
       (''scope'', scope), (''grant_type'', ''client_credentials'')]\<rparr>"

definition token_of_reply :: "'w azure_net \<Rightarrow> string \<Rightarrow> time \<Rightarrow> http_reply \<Rightarrow> access_token result" where
  "token_of_reply net secret now reply =
     (if \<not> success_status (hr_status reply) then
        Inl (prefixed (''Azure token endpoint returned HTTP '' @ dec_int (hr_status reply) @ '': '')
          (redactError (trim_space (hr_data reply)) [secret]))
      else case an_token_payload net (hr_data reply) of
        Inl err \<Rightarrow> Inl (prefixed ''decode Azure token response: '' err)
      | Inr payload \<Rightarrow>
          if tp_access_token payload = [] then
            Inl (prefixed ''Azure token endpoint returned no access token: ''
              (redactError (tp_description payload) [secret]))
          else Inr \<lparr>at_value = tp_access_token payload,
                    at_expires_at = now + wrap_int64 (tp_expires_in payload * second)\<rparr>)"

definition azure_token :: "'w azure_net \<Rightarrow> string \<Rightarrow> 'w az \<Rightarrow> string result \<times> 'w az" where
  "azure_token net scope s =
     (case s of (c, w) \<Rightarrow>
      (case an_clock net w of (now, w1) \<Rightarrow>
        if az_closed c then (Inl session_over, (c, w1))
        else
          (let fresh = (case lookup (az_tokens c) scope of
                 Some t \<Rightarrow> if now + 30 * second < at_expires_at t then Some t else None
               | None \<Rightarrow> None) in
           case fresh of
             Some t \<Rightarrow> (Inr (at_value t), (c, w1))
           | None \<Rightarrow>
               if az_client_secret c = [] then (Inl session_over, (c, w1))
               else
                 (case an_send net (token_request c scope) w1 of
                    (Inl err, w2) \<Rightarrow> (Inl (redactError (err_text err) [az_client_secret c]), (c, w2))
                  | (Inr reply, w2) \<Rightarrow>
                      (case token_of_reply net (az_client_secret c) now reply of
                         Inl err \<Rightarrow> (Inl err, (c, w2))
                       | Inr t \<Rightarrow> (Inr (at_value t), (c\<lparr>az_tokens := put scope t (az_tokens c)\<rparr>, w2)))))))"

section \<open>Graph requests\<close>

datatype graph_error = GraphAPIError int string string string | OtherError go_error

fun graph_error_value :: "graph_error \<Rightarrow> go_error" where
  "graph_error_value (GraphAPIError status method path detail) =
     plain_error (''Microsoft Graph '' @ method @ '' '' @ path @ '' returned HTTP '' @ dec_int status @ '': '' @ detail)"
| "graph_error_value (OtherError e) = e"

definition transientGraph404 :: "graph_error \<Rightarrow> bool" where
  "transientGraph404 e = (case e of GraphAPIError status _ _ _ \<Rightarrow> status = 404 | OtherError _ \<Rightarrow> False)"

definition transientPasswordReplication :: "graph_error \<Rightarrow> bool" where
  "transientPasswordReplication e =
     (if transientGraph404 e then True
      else case e of
        OtherError _ \<Rightarrow> False
      | GraphAPIError status _ _ detail \<Rightarrow>
          if status = 400 \<and> contains detail ''No password credential found with keyId'' then True
          else status = 409 \<and> (contains detail ''ConcurrencyViolation'' \<or> contains detail ''concurrent requests''))"

definition bearer_request :: "string \<Rightarrow> string \<Rightarrow> string \<Rightarrow> request_body \<Rightarrow> http_request" where
  "bearer_request method url token body = \<lparr>hq_method = method, hq_url = url,
     hq_headers = (''Authorization'', ''Bearer '' @ token) #
       (if body = NoBody then [] else [(''Content-Type'', ''application/json'')]),
     hq_body = body\<rparr>"

definition graph_scope :: string where "graph_scope = ''https://graph.microsoft.com/.default''"

text \<open>\<open>zero\<close> is what the caller's variable holds when nothing is decoded into it.\<close>

definition graph_send ::
  "'w azure_net \<Rightarrow> (string \<Rightarrow> 'a result) \<Rightarrow> 'a \<Rightarrow> string \<Rightarrow> string \<Rightarrow> request_body \<Rightarrow> string
     \<Rightarrow> 'w az \<Rightarrow> (graph_error + 'a) \<times> 'w az" where
  "graph_send net decode zero method path body token s =
     (case s of (c, w) \<Rightarrow>
       (let secrets = [az_client_secret c, token] in
        case an_send net (bearer_request method (az_graph_base_url c @ path) token body) w of
          (Inl err, w') \<Rightarrow> (Inl (OtherError (redactError (err_text err) secrets)), (c, w'))
        | (Inr reply, w') \<Rightarrow>
            ((if \<not> success_status (hr_status reply) then
                Inl (GraphAPIError (hr_status reply) method path
                  (redact_text secrets (trim_space (hr_data reply))))
              else if hr_status reply = 204 \<or> hr_data reply = [] then Inr zero
              else case decode (hr_data reply) of
                Inl err \<Rightarrow> Inl (OtherError (prefixed ''decode Microsoft Graph response: '' err))
              | Inr a \<Rightarrow> Inr a), (c, w'))))"

definition graphJSON ::
  "'w azure_net \<Rightarrow> (string \<Rightarrow> 'a result) \<Rightarrow> 'a \<Rightarrow> string \<Rightarrow> string \<Rightarrow> request_body
     \<Rightarrow> 'w az \<Rightarrow> (graph_error + 'a) \<times> 'w az" where
  "graphJSON net decode zero method path body =
     try_then (on_error OtherError (azure_token net graph_scope)) (graph_send net decode zero method path body)"

definition graph_call ::
  "'w azure_net \<Rightarrow> (string \<Rightarrow> 'a result) \<Rightarrow> 'a \<Rightarrow> string \<Rightarrow> string \<Rightarrow> request_body
     \<Rightarrow> 'w az \<Rightarrow> 'a result \<times> 'w az" where
  "graph_call net decode zero method path body =
     on_error graph_error_value (graphJSON net decode zero method path body)"

text \<open>A reply that nobody decodes.\<close>

definition ignore_reply :: "string \<Rightarrow> unit result" where
  "ignore_reply t = Inr ()"

definition azure_pause :: "'w azure_net \<Rightarrow> duration \<Rightarrow> 'w az \<Rightarrow> go_error option \<times> 'w az" where
  "azure_pause net d s = (case an_pause net d (snd s) of (e, w) \<Rightarrow> (e, (fst s, w)))"

text \<open>The loop of graphJSONRetry with \<open>n\<close> attempts left; \<open>last_error\<close> is that of the attempt before.\<close>

fun retry_loop ::
  "'w azure_net \<Rightarrow> nat \<Rightarrow> ('w az \<Rightarrow> (graph_error + 'a) \<times> 'w az) \<Rightarrow> go_error \<Rightarrow> 'w az \<Rightarrow> 'a result \<times> 'w az" where
  "retry_loop net 0 m last_error s = (Inl last_error, s)"
| "retry_loop net (Suc n) m last_error s =
     (case m s of
        (Inr a, s1) \<Rightarrow> (Inr a, s1)
      | (Inl e, s1) \<Rightarrow>
          if \<not> transientPasswordReplication e then (Inl (graph_error_value e), s1)
          else (case azure_pause net (700 * millisecond) s1 of
                  (Some ended, s2) \<Rightarrow> (Inl ended, s2)
                | (None, s2) \<Rightarrow> retry_loop net n m (graph_error_value e) s2))"

definition graphJSONRetry ::
  "'w azure_net \<Rightarrow> nat \<Rightarrow> (string \<Rightarrow> 'a result) \<Rightarrow> 'a \<Rightarrow> string \<Rightarrow> string \<Rightarrow> request_body
     \<Rightarrow> 'w az \<Rightarrow> 'a result \<times> 'w az" where
  "graphJSONRetry net attempts decode zero method path body =
     retry_loop net (if attempts < 1 then 1 else attempts) (graphJSON net decode zero method path body) (plain_error [])"

section \<open>Ownership\<close>

definition applications_path :: "string \<Rightarrow> string" where
  "applications_path objectID = ''/applications/'' @ path_escape objectID"

definition isOwned :: "'w azure_net \<Rightarrow> string \<Rightarrow> 'w az \<Rightarrow> bool result \<times> 'w az" where
  "isOwned net objectID s =
     (if objectID \<in> set (az_created_objects (fst s)) then (Inr True, s)
      else try_then
        (graph_call net (an_owners net) [] ''GET'' (applications_path objectID @ ''/owners?$select=id'') NoBody)
        (\<lambda>owners s1. (Inr (list_ex (\<lambda>i. i \<in> set (az_calling_object_ids (fst s1))) owners), s1)) s)"

definition not_owned :: go_error where
  "not_owned = plain_error (''application is not owned by the calling client; '' @
     ''Application.ReadWrite.OwnedBy forbids this operation'')"

definition bad_object_id :: go_error where
  "bad_object_id = plain_error ''application_object_id must be a GUID''"

definition ensureOwned :: "'w azure_net \<Rightarrow> string \<Rightarrow> 'w az \<Rightarrow> unit result \<times> 'w az" where
  "ensureOwned net objectID =
     (if \<not> is_guid objectID then fail bad_object_id
      else try_then (isOwned net objectID) (\<lambda>owned. if owned then succeed () else fail not_owned))"

section \<open>Verification and applications\<close>

definition learn_calling :: "string \<Rightarrow> 'w az \<Rightarrow> 'w az" where
  "learn_calling i s = ((fst s)\<lparr>az_calling_object_ids := List.insert i (az_calling_object_ids (fst s))\<rparr>, snd s)"

definition note_principal :: "string \<Rightarrow> 'w az \<Rightarrow> 'w az" where
  "note_principal sp s =
     (if sp \<noteq> [] then (case learn_calling sp s of (c, w) \<Rightarrow> (c\<lparr>az_calling_sp_id := sp\<rparr>, w)) else s)"

definition by_app_id :: "string \<Rightarrow> string \<Rightarrow> string" where
  "by_app_id collection clientID =
     collection @ ''(appId='' @ [CHR 0x27] @ clientID @ [CHR 0x27] @ '')?$select=id,appId''"

text \<open>The registration of the calling client is learnt when Graph shows it; an error is passed over.\<close>

definition note_application :: "'w azure_net \<Rightarrow> 'w az \<Rightarrow> unit result \<times> 'w az" where
  "note_application net s =
     (case graph_call net (an_application net) zero_graph_application ''GET''
             (by_app_id ''/applications'' (az_client_id (fst s))) NoBody s of
        (Inr app, s1) \<Rightarrow> (Inr (), if ga_id app \<noteq> [] then learn_calling (ga_id app) s1 else s1)
      | (Inl _, s1) \<Rightarrow> (Inr (), s1))"

definition azure_Verify :: "'w azure_net \<Rightarrow> 'w az \<Rightarrow> unit result \<times> 'w az" where
  "azure_Verify net s =
     try_then (on_error (prefixed ''verify Microsoft Graph access: '') (azure_token net graph_scope)) (\<lambda>_.
     try_then (on_error (prefixed ''resolve calling service principal: '')
       (graph_call net (an_service_principal net) [] ''GET''
         (by_app_id ''/servicePrincipals'' (az_client_id (fst s))) NoBody))
     (\<lambda>sp s1. note_application net (note_principal sp s1))) s"

fun list_owned ::
  "'w azure_net \<Rightarrow> graph_application list \<Rightarrow> 'w az \<Rightarrow> azure_application list result \<times> 'w az" where
  "list_owned net [] s = (Inr [], s)"
| "list_owned net (a # as) s =
     try_then (isOwned net (ga_id a)) (\<lambda>owned.
       try_then (list_owned net as) (\<lambda>rest.
         (let converted = application_view a owned in
          succeed (converted\<lparr>aa_credentials := sort_key acr_key_id (aa_credentials converted)\<rparr> # rest)))) s"

definition azure_ListApplications :: "'w azure_net \<Rightarrow> 'w az \<Rightarrow> azure_application list result \<times> 'w az" where
  "azure_ListApplications net =
     try_then (graph_call net (an_applications net) [] ''GET''
       ''/applications?$select=id,appId,displayName,createdDateTime,passwordCredentials&$top=100'' NoBody)
     (\<lambda>apps. try_then (list_owned net apps) (\<lambda>as.
       succeed (sort_key (\<lambda>a. (\<not> aa_owned_by_calling_client a, aa_display_name a)) as)))"

fun waitForApplication :: "'w azure_net \<Rightarrow> nat \<Rightarrow> string \<Rightarrow> 'w az \<Rightarrow> 'w az" where
  "waitForApplication net 0 objectID s = s"
| "waitForApplication net (Suc n) objectID s =
     (case graphJSON net (an_application net) zero_graph_application ''GET''
             (applications_path objectID @ ''?$select=id'') NoBody s of
        (Inr _, s1) \<Rightarrow> s1
      | (Inl _, s1) \<Rightarrow>
          (case azure_pause net (750 * millisecond) s1 of
             (Some _, s2) \<Rightarrow> s2
           | (None, s2) \<Rightarrow> waitForApplication net n objectID s2))"

definition bad_display_name :: go_error where
  "bad_display_name = plain_error ''display_name is required and must be at most 120 characters''"

definition azure_CreateApplication ::
  "'w azure_net \<Rightarrow> azure_application_create_request \<Rightarrow> 'w az \<Rightarrow> azure_application result \<times> 'w az" where
  "azure_CreateApplication net req =
     (let name = trim_space (apc_display_name req) in
      if name = [] \<or> 120 < length name then fail bad_display_name
      else try_then
        (graph_call net (an_application net) zero_graph_application ''POST'' ''/applications''
          (JsonBody (JObject [(''displayName'', JString name)])))
        (\<lambda>application s.
          (case waitForApplication net 12 (ga_id application) s of (c, w) \<Rightarrow>
            (Inr (application_view application True),
             (c\<lparr>az_created_objects := List.insert (ga_id application) (az_created_objects c)\<rparr>, w)))))"

definition azure_ListApplicationsByPrefix ::
  "'w azure_net \<Rightarrow> string \<Rightarrow> 'w az \<Rightarrow> azure_application list result \<times> 'w az" where
  "azure_ListApplicationsByPrefix net pre =
     try_then (graph_call net (an_applications net) [] ''GET''
       (''/applications?$select=id,appId,displayName,createdDateTime,passwordCredentials'' @
        ''&$filter=startswith(displayName,'' @ [CHR 0x27] @ path_escape pre @ [CHR 0x27] @ '')&$top=100'') NoBody)
     (\<lambda>apps. succeed (map (\<lambda>a. application_view a True) apps))"

section \<open>Key Vault\<close>

definition vault_scope :: string where "vault_scope = ''https://vault.azure.net/.default''"

definition secretName :: "key_vault_client \<Rightarrow> string \<Rightarrow> string \<Rightarrow> string" where
  "secretName v applicationObjectID keyID =
     take 127 (kv_secret_prefix v @ ''-'' @ to_lower applicationObjectID @ ''-'' @ to_lower keyID)"

definition versionFromID :: "string \<Rightarrow> string" where
  "versionFromID i =
     (let candidate = last (split_on CHR ''/'' (trim_right_set ''/'' i)) in
      if length candidate = 32 \<and> list_all is_hex candidate then candidate else [])"

definition splitOwners :: "string \<Rightarrow> string list" where
  "splitOwners v = (if v = [] then [] else filter is_guid (map trim_space (split_on CHR '','' v)))"

definition vault_send ::
  "'w azure_net \<Rightarrow> key_vault_client \<Rightarrow> (string \<Rightarrow> 'a result) \<Rightarrow> 'a \<Rightarrow> string \<Rightarrow> string \<Rightarrow> request_body \<Rightarrow> string
     \<Rightarrow> 'w az \<Rightarrow> 'a result \<times> 'w az" where
  "vault_send net v decode zero method path body token s =
     (case s of (c, w) \<Rightarrow>
       (let secrets = [az_client_secret c, token] in
        case an_send net (bearer_request method (kv_base_url v @ path @ ''?api-version=2025-07-01'') token body) w of
          (Inl err, w') \<Rightarrow> (Inl (redactError (err_text err) secrets), (c, w'))
        | (Inr reply, w') \<Rightarrow>
            ((if \<not> success_status (hr_status reply) then
                Inl (prefixed (''Azure Key Vault '' @ method @ '' '' @ path @ '' returned HTTP '' @
                    dec_int (hr_status reply) @ '': '')
                  (redactError (trim_space (hr_data reply)) secrets))
              else if hr_data reply = [] then Inr zero
              else case decode (hr_data reply) of
                Inl err \<Rightarrow> Inl (prefixed ''decode Azure Key Vault response: '' err)
              | Inr a \<Rightarrow> Inr a), (c, w'))))"

definition vault_request ::
  "'w azure_net \<Rightarrow> key_vault_client \<Rightarrow> (string \<Rightarrow> 'a result) \<Rightarrow> 'a \<Rightarrow> string \<Rightarrow> string \<Rightarrow> request_body
     \<Rightarrow> 'w az \<Rightarrow> 'a result \<times> 'w az" where
  "vault_request net v decode zero method path body =
     try_then (azure_token net vault_scope) (vault_send net v decode zero method path body)"

definition bad_identifiers :: go_error where
  "bad_identifiers = plain_error ''application and credential identifiers must be GUIDs''"

definition valid_version :: "string \<Rightarrow> bool" where
  "valid_version v \<longleftrightarrow> 1 \<le> length v \<and> length v \<le> 64 \<and> list_all (\<lambda>c. is_prefix_text [c]) v"

definition tag :: "key_vault_secret \<Rightarrow> string \<Rightarrow> string" where
  "tag k name = (case lookup (kvs_tags k) name of None \<Rightarrow> [] | Some v \<Rightarrow> v)"

text \<open>The instant of a tag; a tag that is absent or does not parse is the zero time.\<close>

definition tag_time :: "'w azure_net \<Rightarrow> key_vault_secret \<Rightarrow> time" where
  "tag_time net k =
     (let raw = tag k ''mutandaeExpiresAt'' in
      if raw = [] then 0 else case an_parse_time net raw of None \<Rightarrow> 0 | Some t \<Rightarrow> t)"

definition secret_path :: "string \<Rightarrow> string" where
  "secret_path name = ''/secrets/'' @ path_escape name"

text \<open>Seconds of the Unix epoch (time.Time.Unix).\<close>

definition unix_seconds :: "time \<Rightarrow> int" where
  "unix_seconds t = (t - 719162 * day) div second"

definition vault_Store ::
  "'w azure_net \<Rightarrow> key_vault_client \<Rightarrow> string \<Rightarrow> string \<Rightarrow> string \<Rightarrow> time \<Rightarrow> string list
     \<Rightarrow> 'w az \<Rightarrow> vault_reference result \<times> 'w az" where
  "vault_Store net v applicationObjectID keyID secret expiresAt owners =
     (if \<not> is_guid applicationObjectID \<or> \<not> is_guid keyID then fail bad_identifiers
      else if secret = [] then fail (plain_error ''cannot store an empty secret'')
      else
        (let name = secretName v applicationObjectID keyID;
             tags = [(''mutandaeApplicationObjectId'', JString applicationObjectID),
                     (''mutandaeKeyId'', JString keyID),
                     (''mutandaeExpiresAt'', JString (rfc3339 expiresAt))] @
                    (if owners = [] then [] else [(''mutandaeOwnerObjectIds'', JString (join '','' owners))]);
             body = JObject [(''value'', JString secret), (''contentType'', JString ''mutandae-client-secret''),
               (''attributes'', JObject [(''enabled'', JBool True), (''exp'', JInt (unix_seconds expiresAt))]),
               (''tags'', JObject tags)]
         in try_then (vault_request net v (an_vault_secret net) zero_vault_secret ''PUT'' (secret_path name) (JsonBody body))
              (\<lambda>response.
                (let version = (if kvs_version response = [] then versionFromID (kvs_id response)
                                else kvs_version response) in
                 succeed \<lparr>vr_url = kv_base_url v, vr_secret_name = name, vr_version = version,
                          vr_expires_at = expiresAt, vr_owner_object_ids = owners\<rparr>))))"

definition vault_Disable ::
  "'w azure_net \<Rightarrow> key_vault_client \<Rightarrow> string \<Rightarrow> string \<Rightarrow> string \<Rightarrow> 'w az \<Rightarrow> vault_reference result \<times> 'w az" where
  "vault_Disable net v applicationObjectID keyID version =
     (let name = secretName v applicationObjectID keyID in
      if \<not> is_guid applicationObjectID \<or> \<not> is_guid keyID then fail bad_identifiers
      else if version \<noteq> [] \<and> \<not> valid_version version then fail (plain_error ''vault version is invalid'')
      else try_then
        (if version \<noteq> [] then succeed (zero_vault_secret\<lparr>kvs_version := version\<rparr>)
         else try_then (vault_request net v (an_vault_secret net) zero_vault_secret ''GET'' (secret_path name) NoBody)
           (\<lambda>k. succeed (if kvs_version k = [] then k\<lparr>kvs_version := versionFromID (kvs_id k)\<rparr> else k)))
        (\<lambda>current.
          if kvs_version current = [] then fail (plain_error ''Key Vault did not return a secret version'')
          else try_then
            (vault_request net v ignore_reply () ''PATCH''
              (secret_path name @ ''/'' @ path_escape (kvs_version current))
              (JsonBody (JObject [(''attributes'', JObject [(''enabled'', JBool False)])])))
            (\<lambda>_. succeed \<lparr>vr_url = kv_base_url v, vr_secret_name = name, vr_version = kvs_version current,
               vr_expires_at = tag_time net current,
               vr_owner_object_ids = splitOwners (tag current ''mutandaeOwnerObjectIds'')\<rparr>)))"

definition vault_Read ::
  "'w azure_net \<Rightarrow> key_vault_client \<Rightarrow> string \<Rightarrow> string \<Rightarrow> string
     \<Rightarrow> 'w az \<Rightarrow> (string \<times> vault_reference) result \<times> 'w az" where
  "vault_Read net v applicationObjectID keyID version =
     (let name = secretName v applicationObjectID keyID in
      if \<not> is_guid applicationObjectID \<or> \<not> is_guid keyID then fail bad_identifiers
      else if version \<noteq> [] \<and> \<not> valid_version version then fail (plain_error ''vault version is invalid'')
      else try_then
        (vault_request net v (an_vault_secret net) zero_vault_secret ''GET''
          (secret_path name @ (if version = [] then [] else ''/'' @ path_escape version)) NoBody)
        (\<lambda>response.
          if kvs_value response = [] then fail (plain_error ''Key Vault returned an empty secret'')
          else succeed (kvs_value response,
            \<lparr>vr_url = kv_base_url v, vr_secret_name = name, vr_version = kvs_version response,
             vr_expires_at = tag_time net response,
             vr_owner_object_ids = splitOwners (tag response ''mutandaeOwnerObjectIds'')\<rparr>)))"

section \<open>Secrets of an application\<close>

definition password_body :: "string \<Rightarrow> time \<Rightarrow> request_body" where
  "password_body name expiresAt = JsonBody (JObject [(''passwordCredential'',
     JObject [(''displayName'', JString name), (''endDateTime'', JString (rfc3339 expiresAt))])])"

definition add_password :: "'w azure_net \<Rightarrow> string \<Rightarrow> string \<Rightarrow> time \<Rightarrow> 'w az \<Rightarrow> graph_password_credential result \<times> 'w az" where
  "add_password net objectID name expiresAt =
     graphJSONRetry net 8 (an_credential net) zero_graph_credential ''POST''
       (applications_path objectID @ ''/addPassword'') (password_body name expiresAt)"

definition remove_password :: "'w azure_net \<Rightarrow> string \<Rightarrow> string \<Rightarrow> 'w az \<Rightarrow> unit result \<times> 'w az" where
  "remove_password net objectID keyID =
     graphJSONRetry net 8 ignore_reply () ''POST'' (applications_path objectID @ ''/removePassword'')
       (JsonBody (JObject [(''keyId'', JString keyID)]))"

definition bad_key_id :: go_error where
  "bad_key_id = plain_error ''key_id must be a GUID''"

definition azure_RemoveSecret :: "'w azure_net \<Rightarrow> string \<Rightarrow> string \<Rightarrow> 'w az \<Rightarrow> unit result \<times> 'w az" where
  "azure_RemoveSecret net objectID keyID =
     try_then (ensureOwned net objectID) (\<lambda>_.
       if \<not> is_guid keyID then fail bad_key_id else remove_password net objectID keyID)"

text \<open>A call whose result is dropped before an error is returned.\<close>

definition after_trying :: "('s \<Rightarrow> 'a \<times> 's) \<Rightarrow> go_error \<Rightarrow> 's \<Rightarrow> 'b result \<times> 's" where
  "after_trying m e s = (Inl e, snd (m s))"

definition expiry_of :: "'w azure_net \<Rightarrow> time \<Rightarrow> 'w az \<Rightarrow> time result \<times> 'w az" where
  "expiry_of net requested =
     try_then (if requested = 0 then try_then (azure_now net) (\<lambda>t. succeed (t + 90 * day)) else succeed requested)
       (\<lambda>expiresAt. try_then (azure_now net) (\<lambda>t.
         if expiresAt \<le> t then fail (plain_error ''expires_at must be in the future'') else succeed expiresAt))"

definition store_created ::
  "'w azure_net \<Rightarrow> azure_secret_create_request \<Rightarrow> vault_configuration \<Rightarrow> graph_password_credential
     \<Rightarrow> azure_secret_result \<Rightarrow> 'w az \<Rightarrow> azure_secret_result result \<times> 'w az" where
  "store_created net req config credential res s =
     (case az_vault (fst s) of
        None \<Rightarrow> fail (plain_error ''vault configuration was supplied but the vault client is unavailable'') s
      | Some vault \<Rightarrow>
          (case vault_Store net vault (asc_application_object_id req) (gp_key_id credential)
                  (gp_secret_text credential) (gp_end_date_time credential) (vc_owner_object_ids config) s of
             (Inl err, s1) \<Rightarrow>
               after_trying (azure_RemoveSecret net (asc_application_object_id req) (gp_key_id credential))
                 (prefixed ''store credential in Key Vault (Graph credential was rolled back when possible): '' err) s1
           | (Inr ref, s1) \<Rightarrow>
               (Inr (res\<lparr>asr_secret_text := [], asr_one_time := False, asr_vault := Some ref\<rparr>), s1)))"

definition deliver_created ::
  "'w azure_net \<Rightarrow> azure_secret_create_request \<Rightarrow> vault_configuration option \<Rightarrow> graph_password_credential
     \<Rightarrow> 'w az \<Rightarrow> azure_secret_result result \<times> 'w az" where
  "deliver_created net req vaultConfig credential =
     (if gp_secret_text credential = [] then
        after_trying (azure_RemoveSecret net (asc_application_object_id req) (gp_key_id credential))
          (plain_error (''Microsoft Graph returned no one-time secretText; '' @
            ''credential was rolled back when possible''))
      else
        (let res = \<lparr>asr_credential = credential_view credential,
               asr_secret_text = gp_secret_text credential, asr_one_time = True, asr_vault = None\<rparr> in
         case vaultConfig of
           None \<Rightarrow> succeed res
         | Some config \<Rightarrow> store_created net req config credential res))"

definition azure_CreateSecret ::
  "'w azure_net \<Rightarrow> azure_secret_create_request \<Rightarrow> vault_configuration option
     \<Rightarrow> 'w az \<Rightarrow> azure_secret_result result \<times> 'w az" where
  "azure_CreateSecret net req vaultConfig =
     try_then (ensureOwned net (asc_application_object_id req)) (\<lambda>_.
       (let name = trim_space (asc_display_name req) in
        if name = [] \<or> 120 < length name then fail bad_display_name
        else try_then (expiry_of net (asc_expires_at req)) (\<lambda>expiresAt.
          try_then (add_password net (asc_application_object_id req) name expiresAt)
            (deliver_created net req vaultConfig))))"

definition azure_ReadSecret ::
  "'w azure_net \<Rightarrow> azure_secret_read_request \<Rightarrow> 'w az \<Rightarrow> azure_secret_result result \<times> 'w az" where
  "azure_ReadSecret net req =
     try_then (ensureOwned net (arr_application_object_id req)) (\<lambda>_ s.
       (case az_vault (fst s) of
          None \<Rightarrow> fail (plain_error ''no Key Vault was configured for this session'') s
        | Some vault \<Rightarrow>
            try_then (vault_Read net vault (arr_application_object_id req) (arr_key_id req) (arr_version req))
              (\<lambda>(secret, ref). succeed
                \<lparr>asr_credential = no_credential\<lparr>acr_key_id := arr_key_id req, acr_vault := Some ref\<rparr>,
                 asr_secret_text = secret, asr_one_time = True, asr_vault = Some ref\<rparr>) s))"

text \<open>InvalidateSecret answers with the credential also when the vault could not be updated.\<close>

definition azure_InvalidateSecret ::
  "'w azure_net \<Rightarrow> azure_secret_invalidate_request \<Rightarrow> 'w az \<Rightarrow> (azure_credential \<times> unit result) \<times> 'w az" where
  "azure_InvalidateSecret net req s =
     (case azure_RemoveSecret net (air_application_object_id req) (air_key_id req) s of
        (Inl err, s1) \<Rightarrow> ((no_credential, Inl err), s1)
      | (Inr _, s1) \<Rightarrow>
          (let credential = no_credential\<lparr>acr_key_id := air_key_id req\<rparr> in
           case az_vault (fst s1) of
             None \<Rightarrow> ((credential, Inr ()), s1)
           | Some vault \<Rightarrow>
               (case vault_Disable net vault (air_application_object_id req) (air_key_id req) (air_version req) s1 of
                  (Inl err, s2) \<Rightarrow>
                    ((credential, Inl (prefixed
                       ''Graph credential invalidated but Key Vault version could not be disabled: '' err)), s2)
                | (Inr ref, s2) \<Rightarrow> ((credential\<lparr>acr_vault := Some ref\<rparr>, Inr ()), s2))))"

section \<open>Operations without the ownership check\<close>

definition azure_AddPassword ::
  "'w azure_net \<Rightarrow> string \<Rightarrow> string \<Rightarrow> time \<Rightarrow> 'w az \<Rightarrow> azure_secret_result result \<times> 'w az" where
  "azure_AddPassword net objectID displayName expires =
     (if \<not> is_guid objectID then fail bad_object_id
      else try_then (expiry_of net expires) (\<lambda>expiresAt.
        try_then (add_password net objectID (if trim_space displayName = [] then ''demo-rotation'' else displayName) expiresAt)
          (\<lambda>credential.
            if gp_secret_text credential = [] \<or> gp_key_id credential = [] then
              fail (plain_error ''Microsoft Graph returned no one-time secretText'')
            else succeed \<lparr>asr_credential = credential_view credential, asr_secret_text = gp_secret_text credential,
                          asr_one_time = True, asr_vault = None\<rparr>)))"

definition azure_RemovePassword :: "'w azure_net \<Rightarrow> string \<Rightarrow> string \<Rightarrow> 'w az \<Rightarrow> unit result \<times> 'w az" where
  "azure_RemovePassword net objectID keyID =
     (if \<not> is_guid objectID then fail bad_object_id
      else if \<not> is_guid keyID then fail bad_key_id
      else remove_password net objectID keyID)"

definition azure_DeleteApplication :: "'w azure_net \<Rightarrow> string \<Rightarrow> 'w az \<Rightarrow> unit result \<times> 'w az" where
  "azure_DeleteApplication net objectID =
     (if \<not> is_guid objectID then fail bad_object_id
      else graphJSONRetry net 4 ignore_reply () ''DELETE'' (applications_path objectID) NoBody)"

end
