(* ===== verification/AzureFacts.thy ===== *)
theory AzureFacts
  imports AzureClient
begin

text \<open>
  What the Graph client guarantees: error texts without secrets, a closed client that talks to nobody,
  bounded retries, names of vault secrets, and that a credential is only ever added to or
  removed from an application the session created or was told it owns. The locale \<open>request_log\<close> is an
  outside world in which every request sent can be read back with its answer; any world can be recorded so.
\<close>

lemma keeps_after_trying [keeps_intros]: "keeps I m \<Longrightarrow> keeps I (after_trying m e)"
  by (auto simp: keeps_def after_trying_def)

section \<open>Recording the requests\<close>

type_synonym exchange = "http_request \<times> http_reply result"

definition recorded :: "'w azure_net \<Rightarrow> ('w \<times> exchange list) azure_net" where
  "recorded net =
     \<lparr>an_clock = (\<lambda>(w, l). case an_clock net w of (t, w') \<Rightarrow> (t, (w', l))),
      an_send = (\<lambda>q (w, l). case an_send net q w of (r, w') \<Rightarrow> (r, (w', l @ [(q, r)]))),
      an_pause = (\<lambda>d (w, l). case an_pause net d w of (e, w') \<Rightarrow> (e, (w', l))),
      an_token_payload = an_token_payload net, an_service_principal = an_service_principal net,
      an_application = an_application net, an_applications = an_applications net,
      an_owners = an_owners net, an_credential = an_credential net,
      an_vault_secret = an_vault_secret net, an_parse_url = an_parse_url net, an_parse_time = an_parse_time net\<rparr>"

text \<open>A request that changes the credentials of the application \<open>x\<close>.\<close>

definition changes_secrets :: "string \<Rightarrow> string \<Rightarrow> http_request \<Rightarrow> bool" where
  "changes_secrets base x q \<longleftrightarrow> hq_method q = ''POST'' \<and>
     (hq_url q = base @ applications_path x @ ''/addPassword'' \<or>
      hq_url q = base @ applications_path x @ ''/removePassword'')"

definition created_by :: "(string \<Rightarrow> graph_application result) \<Rightarrow> string \<Rightarrow> string \<Rightarrow> exchange \<Rightarrow> bool" where
  "created_by decode base x e \<longleftrightarrow> hq_method (fst e) = ''POST'' \<and> hq_url (fst e) = base @ ''/applications'' \<and>
     (\<exists>reply a. snd e = Inr reply \<and> success_status (hr_status reply) \<and>
        (decode (hr_data reply) = Inr a \<or> a = zero_graph_application) \<and> ga_id a = x)"

definition owner_shown :: "(string \<Rightarrow> string list result) \<Rightarrow> string \<Rightarrow> string set \<Rightarrow> string \<Rightarrow> exchange \<Rightarrow> bool" where
  "owner_shown decode base me x e \<longleftrightarrow> hq_method (fst e) = ''GET'' \<and>
     hq_url (fst e) = base @ applications_path x @ ''/owners?$select=id'' \<and>
     (\<exists>reply owners. snd e = Inr reply \<and> success_status (hr_status reply) \<and>
        decode (hr_data reply) = Inr owners \<and> set owners \<inter> me \<noteq> {})"

locale request_log =
  fixes net :: "'w azure_net" and sent :: "'w \<Rightarrow> exchange list"
  assumes sent_clock: "sent (snd (an_clock net w)) = sent w"
    and sent_pause: "sent (snd (an_pause net d w)) = sent w"
    and sent_send: "sent (snd (an_send net q w)) = sent w @ [(q, fst (an_send net q w))]"
begin

definition may_change :: "azure_client \<Rightarrow> exchange list \<Rightarrow> string \<Rightarrow> bool" where
  "may_change c l x \<longleftrightarrow> (\<exists>e \<in> set l. created_by (an_application net) (az_graph_base_url c) x e \<or>
     owner_shown (an_owners net) (az_graph_base_url c) (set (az_calling_object_ids c)) x e)"

definition lawful :: "'w az \<Rightarrow> bool" where
  "lawful s \<longleftrightarrow>
     (\<forall>i < length (sent (snd s)). \<forall>x. changes_secrets (az_graph_base_url (fst s)) x (fst (sent (snd s) ! i)) \<longrightarrow>
        may_change (fst s) (take i (sent (snd s))) x) \<and>
     (\<forall>x \<in> set (az_created_objects (fst s)). may_change (fst s) (sent (snd s)) x)"

text \<open>Lawful so far, and the applications of \<open>X\<close> may be changed.\<close>

definition knows :: "string set \<Rightarrow> 'w az \<Rightarrow> bool" where
  "knows X s \<longleftrightarrow> lawful s \<and> (\<forall>x \<in> X. may_change (fst s) (sent (snd s)) x)"

text \<open>How the state moves: the log grows, and the client keeps its base and what it knows.\<close>

definition same_client :: "azure_client \<Rightarrow> azure_client \<Rightarrow> bool" where
  "same_client c c' \<longleftrightarrow> az_graph_base_url c' = az_graph_base_url c \<and>
     set (az_calling_object_ids c) \<subseteq> set (az_calling_object_ids c')"

lemma may_change_mono:
  "may_change c l x \<Longrightarrow> same_client c c' \<Longrightarrow> set l \<subseteq> set l' \<Longrightarrow> may_change c' l' x"
  by (fastforce simp: may_change_def same_client_def owner_shown_def)

text \<open>One more exchange, which is no change of secrets or is a permitted one.\<close>

lemma lawful_step:
  assumes "lawful (c, w)" "sent w' = sent w @ [e]" "same_client c c'"
    and "az_created_objects c' = az_created_objects c"
    and "\<And>x. changes_secrets (az_graph_base_url c) x (fst e) \<Longrightarrow> may_change c (sent w) x"
  shows "lawful (c', w')"
proof -
  have base: "az_graph_base_url c' = az_graph_base_url c" using assms(3) by (simp add: same_client_def)
  have "may_change c' (take i (sent w')) x"
    if "i < length (sent w')" "changes_secrets (az_graph_base_url c') x (fst (sent w' ! i))" for i x
  proof (cases "i < length (sent w)")
    case True
    then have "may_change c (take i (sent w)) x"
      using that assms(1,2) base by (simp add: lawful_def nth_append)
    then show ?thesis using True assms(2) may_change_mono [OF _ assms(3)] by simp
  next
    case False
    then have "i = length (sent w)" using that(1) assms(2) by simp
    then show ?thesis
      using that(2) assms(2,5) base may_change_mono [OF _ assms(3), of "sent w" x "sent w"] by simp
  qed
  moreover have "may_change c' (sent w') x" if "x \<in> set (az_created_objects c')" for x
    using that assms may_change_mono [OF _ assms(3), of "sent w" x "sent w'"]
    by (simp add: lawful_def subset_insertI)
  ultimately show ?thesis by (simp add: lawful_def)
qed

lemma lawful_same:
  assumes "lawful (c, w)" "sent w' = sent w" "same_client c c'" "az_created_objects c' = az_created_objects c"
  shows "lawful (c', w')"
  using assms may_change_mono [OF _ assms(3)] by (fastforce simp: lawful_def same_client_def)

lemma same_client_refl [simp]: "same_client c c"
  by (simp add: same_client_def)

lemma same_client_fields [simp]:
  "same_client c (c\<lparr>az_tokens := t\<rparr>)" "same_client c (c\<lparr>az_calling_sp_id := i\<rparr>)"
  "same_client c (c\<lparr>az_calling_object_ids := List.insert i (az_calling_object_ids c)\<rparr>)"
  by (auto simp: same_client_def)

lemma knows_step:
  assumes "knows X (c, w)" "sent w' = sent w @ [e]" "same_client c c'"
    and "az_created_objects c' = az_created_objects c"
    and "\<And>x. changes_secrets (az_graph_base_url c) x (fst e) \<Longrightarrow> x \<in> X"
  shows "knows X (c', w')"
  using assms lawful_step [of c w w' e c'] may_change_mono [OF _ assms(3), of "sent w" _ "sent w'"]
  by (auto simp: knows_def)

lemma knows_same:
  assumes "knows X (c, w)" "sent w' = sent w" "same_client c c'" "az_created_objects c' = az_created_objects c"
  shows "knows X (c', w')"
  using assms lawful_same [of c w w' c'] may_change_mono [OF _ assms(3), of "sent w" _ "sent w'"]
  by (auto simp: knows_def)

lemma knows_clock: "knows X (c, w) \<Longrightarrow> an_clock net w = (t, w') \<Longrightarrow> knows X (c, w')"
  using sent_clock [of w] by (intro knows_same [of X c w w' c]) simp_all

lemma token_harmless: "\<not> changes_secrets base x (token_request c scope)"
proof
  assume "changes_secrets base x (token_request c scope)"
  then have "last (token_endpoint c) = CHR ''d''" by (auto simp: changes_secrets_def token_request_def)
  then show False by (simp add: token_endpoint_def Let_def)
qed

lemma knows_token [keeps_intros]: "keeps (knows X) (azure_token net scope)"
proof
  fix s
  assume kn: "knows X s"
  obtain c w where s: "s = (c, w)" by (rule prod.exhaust)
  obtain now w1 where clock: "an_clock net w = (now, w1)" by (rule prod.exhaust)
  have k1: "knows X (c, w1)" using kn s clock knows_clock by blast
  obtain r w2 where send: "an_send net (token_request c scope) w1 = (r, w2)" by (rule prod.exhaust)
  have "sent w2 = sent w1 @ [(token_request c scope, r)]"
    using sent_send [of "token_request c scope" w1] send by simp
  then have "knows X (c', w2)" if "c' = c \<or> c' = c\<lparr>az_tokens := t\<rparr>" for c' t
    using that token_harmless by (intro knows_step [OF k1, of w2 "(token_request c scope, r)"]) auto
  then show "knows X (snd (azure_token net scope s))"
    using k1 by (auto simp: azure_token_def s clock send Let_def split: option.splits sum.splits)
qed

lemma knows_send:
  assumes "\<And>base t x. changes_secrets base x (bearer_request method (base @ path) t body) \<Longrightarrow> x \<in> X"
  shows "keeps (knows X) (graph_send net decode zero method path body token)"
proof
  fix s
  assume kn: "knows X s"
  obtain c w where s: "s = (c, w)" by (rule prod.exhaust)
  let ?q = "bearer_request method (az_graph_base_url c @ path) token body"
  obtain r w' where send: "an_send net ?q w = (r, w')" by (rule prod.exhaust)
  have "sent w' = sent w @ [(?q, r)]" using sent_send [of ?q w] send by simp
  then have "knows X (c, w')" using kn s assms by (intro knows_step [of X c w w' "(?q, r)" c]) auto
  then show "knows X (snd (graph_send net decode zero method path body token s))"
    by (simp add: graph_send_def s send Let_def split: sum.splits)
qed

lemma knows_graphJSON:
  assumes "\<And>base t x. changes_secrets base x (bearer_request method (base @ path) t body) \<Longrightarrow> x \<in> X"
  shows "keeps (knows X) (graphJSON net decode zero method path body)"
  unfolding graphJSON_def by (intro keeps_intros knows_send assms)

lemma knows_read [keeps_intros]: "keeps (knows X) (graphJSON net decode zero ''GET'' path body)"
  by (rule knows_graphJSON) (simp add: changes_secrets_def bearer_request_def)

lemma knows_call [keeps_intros]:
  "keeps (knows X) (graphJSON net decode zero method path body) \<Longrightarrow>
   keeps (knows X) (graph_call net decode zero method path body)"
  unfolding graph_call_def by (rule keeps_on_error)

lemma knows_vault [keeps_intros]:
  assumes "method \<noteq> ''POST''"
  shows "keeps (knows X) (vault_request net v decode zero method path body)"
  unfolding vault_request_def
proof (intro keeps_intros keepsI)
  fix token s
  assume kn: "knows X s"
  obtain c w where s: "s = (c, w)" by (rule prod.exhaust)
  let ?q = "bearer_request method (kv_base_url v @ path @ ''?api-version=2025-07-01'') token body"
  obtain r w' where send: "an_send net ?q w = (r, w')" by (rule prod.exhaust)
  have "sent w' = sent w @ [(?q, r)]" using sent_send [of ?q w] send by simp
  then have "knows X (c, w')" using kn s assms
    by (intro knows_step [of X c w w' "(?q, r)" c]) (simp_all add: changes_secrets_def bearer_request_def)
  then show "knows X (snd (vault_send net v decode zero method path body token s))"
    by (simp add: vault_send_def s send Let_def split: sum.splits)
qed

text \<open>What a successful Graph request leaves in the log.\<close>

lemma graph_sent:
  assumes "graphJSON net decode zero method path body s = (Inr a, (c', w'))"
  shows "\<exists>l t reply. sent w' = l @ [(bearer_request method (az_graph_base_url c' @ path) t body, Inr reply)] \<and>
     success_status (hr_status reply) \<and> (decode (hr_data reply) = Inr a \<or> a = zero)"
proof -
  obtain t s1 where t: "on_error OtherError (azure_token net graph_scope) s = (Inr t, s1)"
    and sd: "graph_send net decode zero method path body t s1 = (Inr a, (c', w'))"
    using assms unfolding graphJSON_def by (rule try_then_Inr)
  obtain c w where s1: "s1 = (c, w)" by (rule prod.exhaust)
  let ?q = "bearer_request method (az_graph_base_url c @ path) t body"
  obtain r w2 where send: "an_send net ?q w = (r, w2)" by (rule prod.exhaust)
  obtain reply where "r = Inr reply" "success_status (hr_status reply)" "c' = c" "w' = w2"
    "decode (hr_data reply) = Inr a \<or> a = zero"
    using sd send by (auto simp: graph_send_def s1 Let_def split: sum.splits if_splits)
  then show ?thesis using sent_send [of ?q w] send by auto
qed

lemma graph_call_Inr: "graph_call net decode zero method path body s = (Inr a, s') \<longleftrightarrow>
  graphJSON net decode zero method path body s = (Inr a, s')"
  by (auto simp: graph_call_def on_error_def split: prod.splits sum.splits)

lemma knows_insert:
  "knows X (c, w) \<Longrightarrow> may_change c (sent w) x \<Longrightarrow> knows (insert x X) (c, w)"
  by (simp add: knows_def)

lemma knows_isOwned [keeps_intros]: "keeps (knows X) (isOwned net x)"
proof
  fix s
  assume kn: "knows X s"
  let ?m = "try_then (graph_call net (an_owners net) [] ''GET'' (applications_path x @ ''/owners?$select=id'') NoBody)
        (\<lambda>owners s1. (Inr (list_ex (\<lambda>i. i \<in> set (az_calling_object_ids (fst s1))) owners), s1))"
  have "keeps (knows X) ?m" by (intro keeps_intros keepsI) simp
  then have "knows X (snd (?m s))" using kn by (rule keepsD)
  then show "knows X (snd (isOwned net x s))" using kn by (simp add: isOwned_def)
qed

lemma learned_owner:
  assumes "knows X s" "isOwned net x s = (Inr True, s')"
  shows "knows (insert x X) s'"
proof -
  obtain c' w' where s': "s' = (c', w')" by (rule prod.exhaust)
  have kn: "knows X s'" using keepsD [OF knows_isOwned assms(1), of x] assms(2) by simp
  have "may_change c' (sent w') x"
  proof (cases "x \<in> set (az_created_objects (fst s))")
    case True
    then show ?thesis using assms s' by (auto simp: isOwned_def knows_def lawful_def)
  next
    case False
    with assms(2) have m: "try_then (graph_call net (an_owners net) [] ''GET''
        (applications_path x @ ''/owners?$select=id'') NoBody)
        (\<lambda>owners s1. (Inr (list_ex (\<lambda>i. i \<in> set (az_calling_object_ids (fst s1))) owners), s1)) s = (Inr True, s')"
      by (simp add: isOwned_def)
    obtain owners s1 where call: "graph_call net (an_owners net) [] ''GET''
        (applications_path x @ ''/owners?$select=id'') NoBody s = (Inr owners, s1)"
      and r: "(Inr (list_ex (\<lambda>i. i \<in> set (az_calling_object_ids (fst s1))) owners), s1) = (Inr True, s')"
      by (rule try_then_Inr [OF m]) blast
    then have hit: "set owners \<inter> set (az_calling_object_ids c') \<noteq> {}" "s1 = (c', w')"
      using s' by (auto simp: list_ex_iff)
    then obtain l t reply where e: "sent w' = l @ [(bearer_request ''GET'' (az_graph_base_url c' @
        applications_path x @ ''/owners?$select=id'') t NoBody, Inr reply)]" "success_status (hr_status reply)"
      "an_owners net (hr_data reply) = Inr owners"
      using graph_sent [OF call [unfolded graph_call_Inr hit(2)]] by auto
    then show ?thesis using hit
      by (fastforce simp: may_change_def owner_shown_def bearer_request_def)
  qed
  then show ?thesis using kn s' knows_insert by blast
qed

lemma knows_ensureOwned [keeps_intros]: "keeps (knows X) (ensureOwned net x)"
  by (auto simp: ensureOwned_def intro!: keeps_intros)

lemma ensured_owner:
  assumes "knows X s" "ensureOwned net x s = (Inr u, s')"
  shows "knows (insert x X) s'"
proof -
  from assms(2) have "try_then (isOwned net x) (\<lambda>owned. if owned then succeed () else fail not_owned) s = (Inr u, s')"
    by (simp add: ensureOwned_def fail_def split: if_splits)
  then obtain b s1 where "isOwned net x s = (Inr b, s1)"
    "(if b then succeed () else fail not_owned) s1 = (Inr u, s')"
    by (rule try_then_Inr)
  then show ?thesis using assms(1) learned_owner by (auto simp: succeed_def fail_def split: if_splits)
qed

text \<open>The retries, the changes of secrets, and the operations that make them.\<close>

lemma knows_pause: "knows X s \<Longrightarrow> azure_pause net d s = (e, s') \<Longrightarrow> knows X s'"
  using sent_pause [of d "snd s"] knows_same [of X "fst s" "snd s" "snd s'" "fst s'"]
  by (cases s; cases s') (auto simp: azure_pause_def split: prod.splits)

lemma knows_retry_loop: "keeps (knows X) m \<Longrightarrow> keeps (knows X) (retry_loop net n m e)"
proof (induction n arbitrary: e)
  case 0
  then show ?case by (simp add: keeps_def)
next
  case (Suc n)
  show ?case
  proof
    fix s
    assume kn: "knows X s"
    obtain r s1 where m: "m s = (r, s1)" by (rule prod.exhaust)
    then have k1: "knows X s1" using keepsD [OF Suc.prems kn] by simp
    obtain p s2 where p: "azure_pause net (700 * millisecond) s1 = (p, s2)" by (rule prod.exhaust)
    have k2: "knows X s2" using k1 p by (rule knows_pause)
    have "knows X (snd (retry_loop net n m e' s2))" for e'
      by (rule keepsD [OF Suc.IH [OF Suc.prems] k2])
    then show "knows X (snd (retry_loop net (Suc n) m e s))"
      using k1 k2 by (simp add: m p split: sum.splits option.splits)
  qed
qed

lemma password_paths: "a @ ''/addPassword'' \<noteq> b @ ''/removePassword''"
proof
  assume "a @ ''/addPassword'' = b @ ''/removePassword''"
  then have "rev (a @ ''/addPassword'') ! 9 = rev (b @ ''/removePassword'') ! 9" by (simp only:)
  then show False by simp
qed

lemma changes_own_path:
  assumes "changes_secrets base y (bearer_request ''POST'' (base @ applications_path x @ u) t body)"
    and "u = ''/addPassword'' \<or> u = ''/removePassword''"
  shows "y = x"
proof -
  have "applications_path x @ u = applications_path y @ ''/addPassword'' \<or>
        applications_path x @ u = applications_path y @ ''/removePassword''"
    using assms(1) by (simp add: changes_secrets_def bearer_request_def)
  then have "applications_path x = applications_path y"
    using assms(2) password_paths [of "applications_path x" "applications_path y"]
      password_paths [of "applications_path y" "applications_path x"]
    by (metis append_same_eq)
  then show ?thesis by (simp add: applications_path_def path_escape_inject)
qed

lemma knows_change:
  assumes "x \<in> X" "u = ''/addPassword'' \<or> u = ''/removePassword''"
  shows "keeps (knows X) (graphJSONRetry net n decode zero ''POST'' (applications_path x @ u) body)"
  unfolding graphJSONRetry_def
proof (intro knows_retry_loop knows_graphJSON)
  fix base t y
  assume "changes_secrets base y (bearer_request ''POST'' (base @ applications_path x @ u) t body)"
  then show "y \<in> X" using changes_own_path assms by blast
qed

lemma knows_passwords [keeps_intros]:
  "x \<in> X \<Longrightarrow> keeps (knows X) (add_password net x name e)"
  "x \<in> X \<Longrightarrow> keeps (knows X) (remove_password net x k)"
  by (simp_all add: add_password_def remove_password_def knows_change)

lemma knows_insertD: "knows (insert x X) s \<Longrightarrow> knows X s"
  by (simp add: knows_def)

text \<open>After the ownership check the rest may change the secrets of the application.\<close>

lemma knows_owned:
  assumes "\<And>u. keeps (knows (insert x X)) (f u)"
  shows "keeps (knows X) (try_then (ensureOwned net x) f)"
  by (rule keeps_try_post [of _ _ "\<lambda>_. knows (insert x X)"])
    (auto intro: keeps_intros ensured_owner assms dest: knows_insertD)

lemma knows_RemoveSecret [keeps_intros]: "keeps (knows X) (azure_RemoveSecret net x k)"
  unfolding azure_RemoveSecret_def by (intro knows_owned keeps_intros) simp

lemma knows_now [keeps_intros]: "keeps (knows X) (azure_now net)"
  by (rule keepsI) (auto simp: azure_now_def intro: knows_clock split: prod.splits)

lemma knows_expiry_of [keeps_intros]: "keeps (knows X) (expiry_of net e)"
  unfolding expiry_of_def by (intro keeps_intros)

lemma knows_vault_ops [keeps_intros]:
  "keeps (knows X) (vault_Store net v a k secret e owners)"
  "keeps (knows X) (vault_Disable net v a k version)"
  "keeps (knows X) (vault_Read net v a k version)"
  unfolding vault_Store_def vault_Disable_def vault_Read_def Let_def
  by (intro keeps_intros; simp)+

lemma knows_store_created [keeps_intros]: "keeps (knows X) (store_created net req config credential res)"
proof
  fix s
  assume kn: "knows X s"
  show "knows X (snd (store_created net req config credential res s))"
  proof (cases "az_vault (fst s)")
    case None
    then show ?thesis using kn by (simp add: store_created_def fail_def)
  next
    case (Some v)
    let ?st = "vault_Store net v (asc_application_object_id req) (gp_key_id credential)
                  (gp_secret_text credential) (gp_end_date_time credential) (vc_owner_object_ids config)"
    obtain r s1 where st: "?st s = (r, s1)" by (rule prod.exhaust)
    have k1: "knows X s1" using keepsD [OF knows_vault_ops(1) kn] st by (metis snd_conv)
    show ?thesis
    proof (cases r)
      case (Inl e)
      have "knows X (snd (after_trying (azure_RemoveSecret net (asc_application_object_id req) (gp_key_id credential)) e' s1))" for e'
        by (rule keepsD [OF keeps_after_trying [OF knows_RemoveSecret] k1])
      then show ?thesis using Inl Some st by (simp add: store_created_def)
    next
      case (Inr ref)
      then show ?thesis using Some st k1 by (simp add: store_created_def)
    qed
  qed
qed

lemma knows_deliver [keeps_intros]: "keeps (knows X) (deliver_created net req config credential)"
  by (cases config) (simp_all add: deliver_created_def Let_def keeps_intros)

lemma knows_CreateSecret [keeps_intros]: "keeps (knows X) (azure_CreateSecret net req config)"
  unfolding azure_CreateSecret_def Let_def by (intro knows_owned keeps_intros) simp

lemma knows_ReadSecret [keeps_intros]: "keeps (knows X) (azure_ReadSecret net req)"
  unfolding azure_ReadSecret_def
proof (intro knows_owned keepsI)
  fix s
  let ?Y = "insert (arr_application_object_id req) X"
  assume kn: "knows ?Y s"
  have "keeps (knows ?Y) (try_then (vault_Read net v a k version) (\<lambda>(secret, ref). succeed (g secret ref)))" for v a k version g
    by (intro keeps_intros) (simp add: case_prod_beta keeps_intros)
  from keepsD [OF this kn] kn show "knows ?Y (snd (case az_vault (fst s) of
          None \<Rightarrow> fail (plain_error ''no Key Vault was configured for this session'') s
        | Some vault \<Rightarrow>
            try_then (vault_Read net vault (arr_application_object_id req) (arr_key_id req) (arr_version req))
              (\<lambda>(secret, ref). succeed
                \<lparr>asr_credential = no_credential\<lparr>acr_key_id := arr_key_id req, acr_vault := Some ref\<rparr>,
                 asr_secret_text = secret, asr_one_time = True, asr_vault = Some ref\<rparr>) s))"
    by (auto simp: fail_def split: option.splits)
qed

lemma knows_InvalidateSecret [keeps_intros]: "keeps (knows X) (azure_InvalidateSecret net req)"
proof
  fix s
  assume kn: "knows X s"
  obtain r s1 where rm: "azure_RemoveSecret net (air_application_object_id req) (air_key_id req) s = (r, s1)"
    by (rule prod.exhaust)
  have k1: "knows X s1" using keepsD [OF knows_RemoveSecret kn] rm by (metis snd_conv)
  have "knows X (snd (vault_Disable net v a k version s1))" for v a k version
    by (rule keepsD [OF knows_vault_ops(2) k1])
  then show "knows X (snd (azure_InvalidateSecret net req s))"
    using k1 rm by (auto simp: azure_InvalidateSecret_def Let_def split: sum.splits option.splits prod.splits)
      (metis snd_conv)+
qed

lemma knows_client:
  "knows X (c, w) \<Longrightarrow> same_client c c' \<Longrightarrow> az_created_objects c' = az_created_objects c \<Longrightarrow> knows X (c', w)"
  by (rule knows_same [of X c w w c']) simp_all

lemma knows_learn: "knows X s \<Longrightarrow> knows X (learn_calling i s)"
  by (cases s) (auto simp: learn_calling_def intro: knows_client)

lemma knows_note_principal: "knows X s \<Longrightarrow> knows X (note_principal sp s)"
proof -
  assume kn: "knows X s"
  obtain c w where l: "learn_calling sp s = (c, w)" by (rule prod.exhaust)
  have "knows X (c, w)" using knows_learn [OF kn, of sp] l by simp
  then have "knows X (c\<lparr>az_calling_sp_id := sp\<rparr>, w)" by (rule knows_client) simp_all
  then show ?thesis using kn l by (simp add: note_principal_def)
qed

lemma knows_note_application: "keeps (knows X) (note_application net)"
proof
  fix s
  assume kn: "knows X s"
  let ?m = "graph_call net (an_application net) zero_graph_application ''GET''
             (by_app_id ''/applications'' (az_client_id (fst s))) NoBody"
  obtain r s1 where c: "?m s = (r, s1)" by (rule prod.exhaust)
  have "keeps (knows X) ?m" by (intro keeps_intros)
  from keepsD [OF this kn] c have "knows X s1" by simp
  then show "knows X (snd (note_application net s))"
    using c by (auto simp: note_application_def knows_learn split: sum.splits)
qed

lemma knows_Verify [keeps_intros]: "keeps (knows X) (azure_Verify net)"
proof
  fix s
  assume kn: "knows X s"
  have "keeps (knows X) (\<lambda>s1. note_application net (note_principal sp s1))" for sp
    using keepsD [OF knows_note_application knows_note_principal] by (auto simp: keeps_def)
  then have "keeps (knows X) (try_then (on_error (prefixed ''verify Microsoft Graph access: '') (azure_token net graph_scope)) (\<lambda>_.
     try_then (on_error (prefixed ''resolve calling service principal: '')
       (graph_call net (an_service_principal net) [] ''GET'' p NoBody))
     (\<lambda>sp s1. note_application net (note_principal sp s1))))" for p
    by (intro keeps_intros)
  from keepsD [OF this kn] show "knows X (snd (azure_Verify net s))" unfolding azure_Verify_def .
qed

lemma knows_list_owned [keeps_intros]: "keeps (knows X) (list_owned net as)"
proof (induction as)
  case Nil
  then show ?case by (simp add: keeps_def)
next
  case (Cons a as)
  have "keeps (knows X) (try_then (isOwned net (ga_id a)) (\<lambda>owned.
       try_then (list_owned net as) (\<lambda>rest. succeed (g owned rest))))" for g :: "bool \<Rightarrow> azure_application list \<Rightarrow> azure_application list"
    by (intro keeps_intros Cons)
  then show ?case by (auto simp: keeps_def Let_def)
qed

lemma knows_ListApplications [keeps_intros]: "keeps (knows X) (azure_ListApplications net)"
  unfolding azure_ListApplications_def by (intro keeps_intros)

lemma knows_wait: "knows X s \<Longrightarrow> knows X (waitForApplication net n x s)"
proof (induction n arbitrary: s)
  case (Suc n)
  let ?g = "graphJSON net (an_application net) zero_graph_application ''GET'' (applications_path x @ ''?$select=id'') NoBody"
  obtain r s1 where g: "?g s = (r, s1)" by (rule prod.exhaust)
  have k1: "knows X s1" using keepsD [OF knows_read Suc.prems] g by (metis snd_conv)
  obtain p s2 where p: "azure_pause net (750 * millisecond) s1 = (p, s2)" by (rule prod.exhaust)
  have "knows X s2" using k1 p by (rule knows_pause)
  then show ?case using g p k1 Suc.IH by (auto split: sum.splits option.splits)
qed simp

lemma knows_CreateApplication [keeps_intros]: "keeps (knows X) (azure_CreateApplication net req)"
proof -
  let ?post = "\<lambda>name. graph_call net (an_application net) zero_graph_application ''POST'' ''/applications''
          (JsonBody (JObject [(''displayName'', JString name)]))"
  have no_change: "\<not> changes_secrets base x (bearer_request ''POST'' (base @ ''/applications'') t body)" for base x t body
  proof
    assume "changes_secrets base x (bearer_request ''POST'' (base @ ''/applications'') t body)"
    then have "last ''/applications'' = last (applications_path x @ ''/addPassword'') \<or>
      last ''/applications'' = last (applications_path x @ ''/removePassword'')"
      by (auto simp: changes_secrets_def bearer_request_def)
    then show False by simp
  qed
  have post: "keeps (knows X) (?post name)" for name
    by (intro keeps_intros knows_graphJSON) (simp add: no_change)
  have "knows (insert (ga_id a) X) s'" if "knows X s" "?post name s = (Inr a, s')" for name s a s'
  proof -
    obtain c' w' where s': "s' = (c', w')" by (rule prod.exhaust)
    have kn: "knows X (c', w')" using keepsD [OF post that(1), of name] that(2) s' by simp
    note sent = graph_sent [OF that(2) [unfolded graph_call_Inr s']]
    obtain l t reply where "sent w' = l @ [(bearer_request ''POST'' (az_graph_base_url c' @ ''/applications'') t
        (JsonBody (JObject [(''displayName'', JString name)])), Inr reply)]" "success_status (hr_status reply)"
      "an_application net (hr_data reply) = Inr a \<or> a = zero_graph_application"
      using sent by blast
    then have "may_change c' (sent w') (ga_id a)"
      by (auto simp: may_change_def created_by_def bearer_request_def)
    then show ?thesis using kn s' knows_insert by simp
  qed
  moreover have "keeps (knows (insert (ga_id a) X)) (\<lambda>s. (case waitForApplication net 12 (ga_id a) s of (c, w) \<Rightarrow>
            (Inr (application_view a True),
             (c\<lparr>az_created_objects := List.insert (ga_id a) (az_created_objects c)\<rparr>, w))))" for a
  proof
    fix s
    assume "knows (insert (ga_id a) X) s"
    then have kn: "knows (insert (ga_id a) X) (waitForApplication net 12 (ga_id a) s)" by (rule knows_wait)
    obtain c w where cw: "waitForApplication net 12 (ga_id a) s = (c, w)" by (rule prod.exhaust)
    have mc: "may_change (c\<lparr>az_created_objects := cs\<rparr>) l x \<longleftrightarrow> may_change c l x" for cs l x
      by (simp add: may_change_def)
    show "knows (insert (ga_id a) X) (snd (case waitForApplication net 12 (ga_id a) s of (c, w) \<Rightarrow>
            (Inr (application_view a True),
             (c\<lparr>az_created_objects := List.insert (ga_id a) (az_created_objects c)\<rparr>, w))))"
      using kn unfolding cw by (auto simp: knows_def lawful_def mc)
  qed
  ultimately have "keeps (knows X) (try_then (?post name) (\<lambda>application s.
          (case waitForApplication net 12 (ga_id application) s of (c, w) \<Rightarrow>
            (Inr (application_view application True),
             (c\<lparr>az_created_objects := List.insert (ga_id application) (az_created_objects c)\<rparr>, w)))))" for name
    by (intro keeps_try_post [of _ _ "\<lambda>a. knows (insert (ga_id a) X)"]) (auto intro: post dest: knows_insertD)
  note rest = this
  show ?thesis unfolding azure_CreateApplication_def Let_def by (rule keeps_if [OF keeps_fail rest])
qed

lemma knows_close: "knows X s \<Longrightarrow> knows X (azure_close (fst s), snd s)"
  using knows_client [of X "fst s" "snd s" "azure_close (fst s)"] by (simp add: azure_close_def same_client_def)

end

section \<open>Sequences of calls\<close>

datatype azure_call =
    CallVerify | CallList
  | CallCreateApplication azure_application_create_request
  | CallCreateSecret azure_secret_create_request "vault_configuration option"
  | CallReadSecret azure_secret_read_request
  | CallRemoveSecret string string
  | CallInvalidateSecret azure_secret_invalidate_request
  | CallClose

fun azure_step :: "'w azure_net \<Rightarrow> azure_call \<Rightarrow> 'w az \<Rightarrow> 'w az" where
  "azure_step net CallVerify s = snd (azure_Verify net s)"
| "azure_step net CallList s = snd (azure_ListApplications net s)"
| "azure_step net (CallCreateApplication req) s = snd (azure_CreateApplication net req s)"
| "azure_step net (CallCreateSecret req config) s = snd (azure_CreateSecret net req config s)"
| "azure_step net (CallReadSecret req) s = snd (azure_ReadSecret net req s)"
| "azure_step net (CallRemoveSecret x k) s = snd (azure_RemoveSecret net x k s)"
| "azure_step net (CallInvalidateSecret req) s = snd (azure_InvalidateSecret net req s)"
| "azure_step net CallClose s = (azure_close (fst s), snd s)"

context request_log begin

lemma knows_steps: "knows X s \<Longrightarrow> knows X (fold (azure_step net) calls s)"
proof (induction calls arbitrary: s)
  case (Cons call calls)
  note kept = keepsD [of "knows X", OF _ Cons.prems]
  have "knows X (azure_step net call s)"
    using knows_close [OF Cons.prems] by (cases call) (auto intro!: kept keeps_intros)
  then show ?case using Cons.IH by simp
qed simp

lemma fresh_knows: "sent w = [] \<Longrightarrow> az_created_objects c = [] \<Longrightarrow> knows {} (c, w)"
  by (simp add: knows_def lawful_def)

end

interpretation recorded: request_log "recorded net" snd for net :: "'w azure_net"
  by unfold_locales (auto simp: recorded_def split: prod.splits)

text \<open>
  C9. A session only changes the secrets of its own applications: whatever the remote services answer
  and in whatever order a new client is used, every addPassword and removePassword request it sends
  names an application that an answer before it showed to be created by this client or owned by a
  principal that Graph reported as the calling client.
\<close>

theorem secrets_changed_only_if_owned:
  assumes "NewAzureClient net req = Inr c0"
    and "fold (azure_step (recorded net)) calls (c0, (w, [])) = (c, (w', l))"
    and "i < length l" and "changes_secrets (az_graph_base_url c) x (fst (l ! i))"
  shows "\<exists>e \<in> set (take i l). created_by (an_application net) (az_graph_base_url c) x e \<or>
     owner_shown (an_owners net) (az_graph_base_url c) (set (az_calling_object_ids c)) x e"
proof -
  have "az_created_objects c0 = []"
    using assms(1) by (auto simp: NewAzureClient_def Let_def split: if_splits option.splits sum.splits)
  then have "request_log.knows (recorded net) snd {} (c0, (w, []))" by (intro recorded.fresh_knows) simp_all
  then have "request_log.knows (recorded net) snd {} (c, (w', l))"
    using recorded.knows_steps [of net "{}" "(c0, (w, []))" calls] assms(2) by simp
  then have "request_log.may_change (recorded net) c (take i l) x"
    using assms(3,4) by (simp add: recorded.knows_def recorded.lawful_def)
  moreover have "an_application (recorded net) = an_application net" "an_owners (recorded net) = an_owners net"
    by (simp_all add: recorded_def)
  ultimately show ?thesis by (simp add: recorded.may_change_def)
qed

text \<open>A tenant that answers every request, in which the session creates one application.\<close>

definition demo_guid :: string where "demo_guid = ''11111111-1111-1111-8111-111111111111''"

definition any_tenant :: "'w azure_net" where
  "any_tenant =
     \<lparr>an_clock = (\<lambda>w. (0, w)), an_send = (\<lambda>q w. (Inr \<lparr>hr_status = 200, hr_data = ''x''\<rparr>, w)),
      an_pause = (\<lambda>d w. (None, w)),
      an_token_payload = (\<lambda>t. Inr \<lparr>tp_access_token = ''t'', tp_expires_in = 3600, tp_description = []\<rparr>),
      an_service_principal = (\<lambda>t. Inr demo_guid),
      an_application = (\<lambda>t. Inr (zero_graph_application\<lparr>ga_id := demo_guid\<rparr>)),
      an_applications = (\<lambda>t. Inr []), an_owners = (\<lambda>t. Inr []),
      an_credential = (\<lambda>t. Inr (zero_graph_credential\<lparr>gp_key_id := demo_guid, gp_secret_text := ''s''\<rparr>)),
      an_vault_secret = (\<lambda>t. Inr (zero_vault_secret\<lparr>kvs_value := ''s''\<rparr>)),
      an_parse_url = (\<lambda>t. None), an_parse_time = (\<lambda>t. None)\<rparr>"

abbreviation demo_tenant :: "unit azure_net" where
  "demo_tenant \<equiv> any_tenant"

definition demo_connect :: azure_integration_request where
  "demo_connect = \<lparr>ar_tenant_id = ''t'', ar_client_id = demo_guid, ar_client_secret = ''topsecret'',
     ar_vault = None, ar_requested_by = []\<rparr>"

definition demo_client :: azure_client where
  "demo_client = \<lparr>az_tenant_id = ''t'', az_client_id = demo_guid, az_client_secret = ''topsecret'',
     az_graph_base_url = ''https://graph.microsoft.com/v1.0'',
     az_login_base_url = ''https://login.microsoftonline.com'', az_closed = False,
     az_tokens = [], az_calling_object_ids = [], az_calling_sp_id = [], az_created_objects = [], az_vault = None\<rparr>"

lemma demo_new: "NewAzureClient any_tenant demo_connect = Inr demo_client"
proof -
  have "trim_space ''t'' = ''t''" "trim_space demo_guid = demo_guid" "is_guid demo_guid"
    "trim_space ''topsecret'' = ''topsecret''"
    by code_simp+
  then show ?thesis by (simp add: NewAzureClient_def demo_connect_def demo_client_def Let_def)
qed

definition demo_calls :: "azure_call list" where
  "demo_calls = [CallCreateApplication \<lparr>apc_display_name = ''app''\<rparr>,
     CallCreateSecret \<lparr>asc_application_object_id = demo_guid, asc_display_name = ''key'', asc_expires_at = 0,
       asc_store_in_vault = False\<rparr> None]"

lemma demo_log: "map (\<lambda>e. (hq_method (fst e), hq_url (fst e)))
   (snd (snd (fold (azure_step (recorded demo_tenant)) demo_calls (demo_client, ((), []))))) =
   [(''POST'', ''https://login.microsoftonline.com/t/oauth2/v2.0/token''),
    (''POST'', ''https://graph.microsoft.com/v1.0/applications''),
    (''GET'', ''https://graph.microsoft.com/v1.0/applications/'' @ demo_guid @ ''?$select=id''),
    (''POST'', ''https://graph.microsoft.com/v1.0/applications/'' @ demo_guid @ ''/addPassword'')]"
  by code_simp

theorem secrets_changed_only_if_owned_witness:
  "\<exists>c w' l. fold (azure_step (recorded demo_tenant)) demo_calls (demo_client, ((), [])) = (c, (w', l)) \<and>
     (\<exists>e \<in> set (take 3 l). created_by (an_application demo_tenant) (az_graph_base_url c) demo_guid e \<or>
       owner_shown (an_owners demo_tenant) (az_graph_base_url c) (set (az_calling_object_ids c)) demo_guid e)"
proof -
  obtain c w' l where run: "fold (azure_step (recorded demo_tenant)) demo_calls (demo_client, ((), [])) = (c, (w', l))"
    by (rule prod_cases3)
  have log: "map (\<lambda>e. (hq_method (fst e), hq_url (fst e))) l =
   [(''POST'', ''https://login.microsoftonline.com/t/oauth2/v2.0/token''),
    (''POST'', ''https://graph.microsoft.com/v1.0/applications''),
    (''GET'', ''https://graph.microsoft.com/v1.0/applications/'' @ demo_guid @ ''?$select=id''),
    (''POST'', ''https://graph.microsoft.com/v1.0/applications/'' @ demo_guid @ ''/addPassword'')]"
    using demo_log run by simp
  have "length (map (\<lambda>e. (hq_method (fst e), hq_url (fst e))) l) = 4" unfolding log by simp
  then have len: "3 < length l" by simp
  have base: "az_graph_base_url (fst (fold (azure_step (recorded demo_tenant)) demo_calls (demo_client, ((), []))))
      = ''https://graph.microsoft.com/v1.0''"
    by code_simp
  have "path_escape demo_guid = demo_guid" by code_simp
  moreover have "(hq_method (fst (l ! 3)), hq_url (fst (l ! 3))) =
      (''POST'', ''https://graph.microsoft.com/v1.0/applications/'' @ demo_guid @ ''/addPassword'')"
  proof -
    have "map (\<lambda>e. (hq_method (fst e), hq_url (fst e))) l ! 3 =
      (''POST'', ''https://graph.microsoft.com/v1.0/applications/'' @ demo_guid @ ''/addPassword'')"
      unfolding log by simp
    then show ?thesis using len by simp
  qed
  ultimately have "changes_secrets (az_graph_base_url c) demo_guid (fst (l ! 3))"
    using base run by (simp add: changes_secrets_def applications_path_def)
  from secrets_changed_only_if_owned [OF demo_new run len this] run show ?thesis by blast
qed

end
