(* ===== verification/AzureProperties.thy ===== *)
theory AzureProperties
  imports AzureFacts
begin

text \<open>
  More about the Graph and Key Vault clients. The locale \<open>client_invariant\<close> is the contract by which every
  operation keeps a predicate of client and world; it is interpreted on what an operation never
  touches and on the silence of a closed client. The properties are about error texts, closed clients,
  bounded retries, the names of vault secrets and what becomes of a created secret.
\<close>

section \<open>Invariants of a client\<close>

locale client_invariant =
  fixes net :: "'w azure_net" and I :: "'w az \<Rightarrow> bool"
  assumes inv_clock: "I (c, w) \<Longrightarrow> I (c, snd (an_clock net w))"
    and inv_pause: "I (c, w) \<Longrightarrow> I (c, snd (an_pause net d w))"
    and inv_send: "I (c, w) \<Longrightarrow> \<not> az_closed c \<Longrightarrow> I (c, snd (an_send net q w))"
    and inv_learn: "I (c, w) \<Longrightarrow> \<not> az_closed c \<or> t = az_tokens c \<Longrightarrow> I (c\<lparr>az_tokens := t, az_calling_object_ids := ids, az_calling_sp_id := sp,
      az_created_objects := cs\<rparr>, w)"
begin

lemma inv_fields:
  "I (c, w) \<Longrightarrow> \<not> az_closed c \<Longrightarrow> I (c\<lparr>az_tokens := t\<rparr>, w)"
  "I (c, w) \<Longrightarrow> I (c\<lparr>az_calling_object_ids := ids\<rparr>, w)"
  "I (c, w) \<Longrightarrow> I (c\<lparr>az_calling_sp_id := sp\<rparr>, w)"
  "I (c, w) \<Longrightarrow> I (c\<lparr>az_created_objects := cs\<rparr>, w)"
proof -
  assume "I (c, w)"
  note learn = inv_learn [OF this]
  show "I (c\<lparr>az_tokens := t\<rparr>, w)" if "\<not> az_closed c"
    using that learn [where t = t and ids = "az_calling_object_ids c" and sp = "az_calling_sp_id c" and cs = "az_created_objects c"] by simp
  show "I (c\<lparr>az_calling_object_ids := ids\<rparr>, w)"
    using learn [where t = "az_tokens c" and ids = ids and sp = "az_calling_sp_id c" and cs = "az_created_objects c"] by simp
  show "I (c\<lparr>az_calling_sp_id := sp\<rparr>, w)"
    using learn [where t = "az_tokens c" and ids = "az_calling_object_ids c" and sp = sp and cs = "az_created_objects c"] by simp
  show "I (c\<lparr>az_created_objects := cs\<rparr>, w)"
    using learn [where t = "az_tokens c" and ids = "az_calling_object_ids c" and sp = "az_calling_sp_id c" and cs = cs] by simp
qed

lemma token_kept:
  assumes "I s" "azure_token net scope s = (r, s')"
  shows "I s' \<and> (\<forall>t. r = Inr t \<longrightarrow> \<not> az_closed (fst s'))"
proof -
  obtain c w where s: "s = (c, w)" by (rule prod.exhaust)
  obtain now w1 where clock: "an_clock net w = (now, w1)" by (rule prod.exhaust)
  have I1: "I (c, w1)" using assms(1) s inv_clock [of c w] clock by simp
  obtain r2 w2 where send: "an_send net (token_request c scope) w1 = (r2, w2)" by (rule prod.exhaust)
  have I2: "I (c, w2)" if "\<not> az_closed c" using inv_send [OF I1 that, of "token_request c scope"] send by simp
  show ?thesis
    using assms(2) I1 I2 inv_fields(1) [of c w2]
    by (auto simp: azure_token_def s clock send Let_def split: option.splits sum.splits if_splits)
qed

lemma keeps_token [keeps_intros]: "keeps I (azure_token net scope)"
  using token_kept by (metis keepsI prod.exhaust_sel)

lemma kept_after_token:
  assumes "\<And>t. keeps (\<lambda>s. I s \<and> \<not> az_closed (fst s)) (f t)"
  shows "keeps I (try_then (on_error g (azure_token net scope)) f)"
proof
  fix s
  assume "I s"
  obtain r s1 where t: "azure_token net scope s = (r, s1)" by (rule prod.exhaust)
  from token_kept [OF \<open>I s\<close> t] show "I (snd (try_then (on_error g (azure_token net scope)) f s))"
    using keepsD [OF assms, of s1] t by (cases r) (auto simp: try_then_def on_error_def)
qed

lemma kept_after_plain_token:
  assumes "\<And>t. keeps (\<lambda>s. I s \<and> \<not> az_closed (fst s)) (f t)"
  shows "keeps I (try_then (azure_token net scope) f)"
proof
  fix s
  assume "I s"
  obtain r s1 where t: "azure_token net scope s = (r, s1)" by (rule prod.exhaust)
  from token_kept [OF \<open>I s\<close> t] show "I (snd (try_then (azure_token net scope) f s))"
    using keepsD [OF assms, of s1] t by (cases r) (auto simp: try_then_def)
qed

lemma send_kept: "keeps (\<lambda>s. I s \<and> \<not> az_closed (fst s)) (graph_send net decode zero method path body t)"
proof
  fix s
  assume a: "I s \<and> \<not> az_closed (fst s)"
  obtain c w where s: "s = (c, w)" by (rule prod.exhaust)
  have "I (c, snd (an_send net q w))" for q using a s inv_send by simp
  then show "I (snd (graph_send net decode zero method path body t s)) \<and>
      \<not> az_closed (fst (snd (graph_send net decode zero method path body t s)))"
    using a by (auto simp: graph_send_def s Let_def split: prod.splits sum.splits) (metis snd_conv)+
qed

lemma vault_send_kept: "keeps (\<lambda>s. I s \<and> \<not> az_closed (fst s)) (vault_send net v decode zero method path body t)"
proof
  fix s
  assume a: "I s \<and> \<not> az_closed (fst s)"
  obtain c w where s: "s = (c, w)" by (rule prod.exhaust)
  have "I (c, snd (an_send net q w))" for q using a s inv_send by simp
  then show "I (snd (vault_send net v decode zero method path body t s)) \<and>
      \<not> az_closed (fst (snd (vault_send net v decode zero method path body t s)))"
    using a by (auto simp: vault_send_def s Let_def split: prod.splits sum.splits) (metis snd_conv)+
qed

lemma keeps_graph [keeps_intros]:
  "keeps I (graphJSON net decode zero method path body)"
  "keeps I (graph_call net decode zero method path body)"
proof -
  show g: "keeps I (graphJSON net decode zero method path body)"
    unfolding graphJSON_def by (intro kept_after_token send_kept)
  then show "keeps I (graph_call net decode zero method path body)"
    unfolding graph_call_def by (rule keeps_on_error)
qed

lemma keeps_vault [keeps_intros]: "keeps I (vault_request net v decode zero method path body)"
  unfolding vault_request_def by (intro kept_after_plain_token vault_send_kept)

lemma pause_kept: "I s \<Longrightarrow> I (snd (azure_pause net d s))"
  using inv_pause [of "fst s" "snd s" d] by (auto simp: azure_pause_def split: prod.splits)

lemma keeps_retry [keeps_intros]: "keeps I m \<Longrightarrow> keeps I (retry_loop net n m e)"
proof (induction n arbitrary: e)
  case 0
  then show ?case by (simp add: keeps_def)
next
  case (Suc n)
  show ?case
  proof
    fix s
    assume "I s"
    obtain r s1 where m: "m s = (r, s1)" by (rule prod.exhaust)
    then have I1: "I s1" using keepsD [OF Suc.prems \<open>I s\<close>] by simp
    obtain p s2 where p: "azure_pause net (700 * millisecond) s1 = (p, s2)" by (rule prod.exhaust)
    then have I2: "I s2" using pause_kept [OF I1, of "700 * millisecond"] by simp
    have "I (snd (retry_loop net n m e' s2))" for e' by (rule keepsD [OF Suc.IH [OF Suc.prems] I2])
    then show "I (snd (retry_loop net (Suc n) m e s))"
      using I1 I2 by (simp add: m p split: sum.splits option.splits)
  qed
qed

lemma keeps_graph_retry [keeps_intros]: "keeps I (graphJSONRetry net n decode zero method path body)"
  unfolding graphJSONRetry_def by (intro keeps_intros)

lemma wait_kept: "I s \<Longrightarrow> I (waitForApplication net n x s)"
proof (induction n arbitrary: s)
  case (Suc n)
  let ?g = "graphJSON net (an_application net) zero_graph_application ''GET'' (applications_path x @ ''?$select=id'') NoBody"
  obtain r s1 where g: "?g s = (r, s1)" by (rule prod.exhaust)
  have I1: "I s1" using keepsD [OF keeps_graph(1) Suc.prems] g by (metis snd_conv)
  obtain p s2 where p: "azure_pause net (750 * millisecond) s1 = (p, s2)" by (rule prod.exhaust)
  have "I s2" using pause_kept [OF I1, of "750 * millisecond"] p by simp
  then show ?case using g p I1 Suc.IH by (auto split: sum.splits option.splits)
qed simp

lemma keeps_now [keeps_intros]: "keeps I (azure_now net)"
  using inv_clock by (auto simp: azure_now_def keeps_def split: prod.splits) (metis snd_conv)

lemma learn_kept: "I s \<Longrightarrow> I (learn_calling i s)"
  by (cases s) (auto simp: learn_calling_def intro: inv_fields)

lemma keeps_isOwned [keeps_intros]: "keeps I (isOwned net x)"
proof
  fix s
  assume "I s"
  have "keeps I (try_then (graph_call net (an_owners net) [] ''GET'' (applications_path x @ ''/owners?$select=id'') NoBody)
        (\<lambda>owners s1. (Inr (list_ex (\<lambda>i. i \<in> set (az_calling_object_ids (fst s1))) owners), s1)))"
    by (intro keeps_intros keepsI) simp
  from keepsD [OF this \<open>I s\<close>] \<open>I s\<close> show "I (snd (isOwned net x s))" by (simp add: isOwned_def)
qed

lemma keeps_ensureOwned [keeps_intros]: "keeps I (ensureOwned net x)"
  by (auto simp: ensureOwned_def intro!: keeps_intros)

lemma keeps_RemoveSecret [keeps_intros]: "keeps I (azure_RemoveSecret net x k)"
  unfolding azure_RemoveSecret_def remove_password_def by (intro keeps_intros)

lemma keeps_expiry_of [keeps_intros]: "keeps I (expiry_of net e)"
  unfolding expiry_of_def by (intro keeps_intros)

lemma keeps_vault_ops [keeps_intros]:
  "keeps I (vault_Store net v a k secret e owners)"
  "keeps I (vault_Disable net v a k version)"
  "keeps I (vault_Read net v a k version)"
  unfolding vault_Store_def vault_Disable_def vault_Read_def Let_def
  by (intro keeps_intros)+

lemma keeps_store_created [keeps_intros]: "keeps I (store_created net req config credential res)"
proof
  fix s
  assume "I s"
  note store = keepsD [OF keeps_vault_ops(1) \<open>I s\<close>]
  have rolled: "I (snd (after_trying (azure_RemoveSecret net x k) e s1))" if "I s1" for x k e s1
    by (rule keepsD [OF keeps_after_trying [OF keeps_RemoveSecret] that])
  show "I (snd (store_created net req config credential res s))"
    using \<open>I s\<close> store
    by (auto simp: store_created_def fail_def intro!: rolled split: option.splits prod.splits sum.splits)
      (metis snd_conv)+
qed

lemma keeps_deliver [keeps_intros]: "keeps I (deliver_created net req config credential)"
  by (cases config) (simp_all add: deliver_created_def Let_def keeps_intros)

lemma keeps_CreateSecret [keeps_intros]: "keeps I (azure_CreateSecret net req config)"
  unfolding azure_CreateSecret_def add_password_def Let_def by (intro keeps_intros)

lemma keeps_ReadSecret [keeps_intros]: "keeps I (azure_ReadSecret net req)"
  unfolding azure_ReadSecret_def
proof (intro keeps_intros keepsI)
  fix s
  assume "I s"
  have "keeps I (try_then (vault_Read net v a k version) (\<lambda>(secret, ref). succeed (g secret ref)))" for v a k version g
    by (intro keeps_intros) (simp add: case_prod_beta keeps_intros)
  from keepsD [OF this \<open>I s\<close>] \<open>I s\<close> show "I (snd (case az_vault (fst s) of
          None \<Rightarrow> fail (plain_error ''no Key Vault was configured for this session'') s
        | Some vault \<Rightarrow>
            try_then (vault_Read net vault (arr_application_object_id req) (arr_key_id req) (arr_version req))
              (\<lambda>(secret, ref). succeed
                \<lparr>asr_credential = no_credential\<lparr>acr_key_id := arr_key_id req, acr_vault := Some ref\<rparr>,
                 asr_secret_text = secret, asr_one_time = True, asr_vault = Some ref\<rparr>) s))"
    by (auto simp: fail_def split: option.splits)
qed

lemma keeps_InvalidateSecret [keeps_intros]: "keeps I (azure_InvalidateSecret net req)"
proof
  fix s
  assume "I s"
  obtain r s1 where rm: "azure_RemoveSecret net (air_application_object_id req) (air_key_id req) s = (r, s1)"
    by (rule prod.exhaust)
  have I1: "I s1" using keepsD [OF keeps_RemoveSecret \<open>I s\<close>] rm by (metis snd_conv)
  have "I (snd (vault_Disable net v a k version s1))" for v a k version
    by (rule keepsD [OF keeps_vault_ops(2) I1])
  then show "I (snd (azure_InvalidateSecret net req s))"
    using I1 rm by (auto simp: azure_InvalidateSecret_def Let_def split: sum.splits option.splits prod.splits)
      (metis snd_conv)+
qed

lemma keeps_Verify [keeps_intros]: "keeps I (azure_Verify net)"
proof -
  have "I (snd (note_application net s))" if "I s" for s
  proof -
    let ?m = "graph_call net (an_application net) zero_graph_application ''GET''
             (by_app_id ''/applications'' (az_client_id (fst s))) NoBody"
    obtain r s1 where c: "?m s = (r, s1)" by (rule prod.exhaust)
    have "keeps I ?m" by (intro keeps_intros)
    from keepsD [OF this that] c have "I s1" by simp
    then show ?thesis using c by (auto simp: note_application_def learn_kept split: sum.splits)
  qed
  moreover have "I (note_principal sp s)" if "I s" for sp s
    using learn_kept [OF that, of sp] that by (auto simp: note_principal_def intro: inv_fields split: prod.splits)
  ultimately have "keeps I (\<lambda>s1. note_application net (note_principal sp s1))" for sp
    by (simp add: keeps_def)
  then have "keeps I (\<lambda>s. try_then (on_error (prefixed ''verify Microsoft Graph access: '') (azure_token net graph_scope)) (\<lambda>_.
     try_then (on_error (prefixed ''resolve calling service principal: '')
       (graph_call net (an_service_principal net) [] ''GET'' p NoBody))
     (\<lambda>sp s1. note_application net (note_principal sp s1))) s)" for p
    by (intro keeps_intros)
  then show ?thesis by (simp add: keeps_def azure_Verify_def)
qed

lemma keeps_list_owned [keeps_intros]: "keeps I (list_owned net as)"
proof (induction as)
  case Nil
  then show ?case by (simp add: keeps_def)
next
  case (Cons a as)
  have "keeps I (try_then (isOwned net (ga_id a)) (\<lambda>owned.
       try_then (list_owned net as) (\<lambda>rest. succeed (g owned rest))))" for g :: "bool \<Rightarrow> azure_application list \<Rightarrow> azure_application list"
    by (intro keeps_intros Cons)
  then show ?case by (auto simp: keeps_def Let_def)
qed

lemma keeps_ListApplications [keeps_intros]: "keeps I (azure_ListApplications net)"
  unfolding azure_ListApplications_def by (intro keeps_intros)

lemma keeps_CreateApplication [keeps_intros]: "keeps I (azure_CreateApplication net req)"
proof -
  have "keeps I (\<lambda>s. (case waitForApplication net 12 (ga_id a) s of (c, w) \<Rightarrow>
            (Inr (application_view a True),
             (c\<lparr>az_created_objects := List.insert (ga_id a) (az_created_objects c)\<rparr>, w))))" for a
    using wait_kept by (auto simp: keeps_def intro: inv_fields split: prod.splits) (metis inv_fields(4))
  then show ?thesis unfolding azure_CreateApplication_def Let_def by (intro keeps_intros)
qed

end

text \<open>What no operation but Close touches, whatever the network answers.\<close>

definition fixed_part :: "azure_client \<Rightarrow> azure_client" where
  "fixed_part c = c\<lparr>az_tokens := [], az_calling_object_ids := [], az_calling_sp_id := [], az_created_objects := []\<rparr>"

interpretation fixed_client: client_invariant net "\<lambda>s. fixed_part (fst s) = c0" for net :: "'w azure_net" and c0
  by unfold_locales (simp_all add: fixed_part_def)

lemma fixed_part_eqD:
  assumes "fixed_part c' = fixed_part c"
  shows "az_closed c' = az_closed c" "az_vault c' = az_vault c" "az_client_secret c' = az_client_secret c"
  using arg_cong [OF assms, of az_closed] arg_cong [OF assms, of az_vault] arg_cong [OF assms, of az_client_secret]
  by (simp_all add: fixed_part_def)

text \<open>A closed client: nothing is sent and nothing comes back to it.\<close>

definition cleared :: "azure_client \<Rightarrow> bool" where
  "cleared c \<longleftrightarrow> az_closed c \<and> az_client_secret c = [] \<and> az_tokens c = [] \<and> az_vault c = None"

interpretation silent: client_invariant "recorded net" "\<lambda>s. cleared (fst s) \<and> snd (snd s) = l"
  for net :: "'w azure_net" and l
  by unfold_locales (auto simp: recorded_def cleared_def split: prod.splits)

lemma cleared_close [simp]: "cleared (azure_close c)"
  by (simp add: cleared_def azure_close_def)

section \<open>Properties\<close>

text \<open>
  After Close a client is dead: whatever is called afterwards, in whatever order, it sends no
  request, and neither the client secret nor a token nor the vault comes back.
\<close>

theorem closed_client_silent:
  assumes "fold (azure_step (recorded net)) calls (azure_close c, (w, l)) = (c', (w', l'))"
  shows "l' = l \<and> cleared c'"
proof -
  have step: "cleared (fst (azure_step (recorded net) call s)) \<and> snd (snd (azure_step (recorded net) call s)) = l"
    if "cleared (fst s) \<and> snd (snd s) = l" for call s
  proof -
    note kept = keepsD [of "\<lambda>s. cleared (fst s) \<and> snd (snd s) = l", OF _ that]
    show ?thesis
      using that kept [OF silent.keeps_Verify] kept [OF silent.keeps_ListApplications]
        kept [OF silent.keeps_CreateApplication] kept [OF silent.keeps_CreateSecret]
        kept [OF silent.keeps_ReadSecret] kept [OF silent.keeps_RemoveSecret] kept [OF silent.keeps_InvalidateSecret]
      by (cases call) simp_all
  qed
  have "cleared (fst (fold (azure_step (recorded net)) calls s)) \<and> snd (snd (fold (azure_step (recorded net)) calls s)) = l"
    if "cleared (fst s) \<and> snd (snd s) = l" for s
    using that
  proof (induction calls arbitrary: s)
    case (Cons call calls)
    show ?case using Cons.IH [OF step [OF Cons.prems, of call]] by simp
  qed simp
  from this [of "(azure_close c, (w, l))"] assms show ?thesis by simp
qed

theorem closed_client_silent_witness:
  "\<exists>c' w' l'. fold (azure_step (recorded demo_tenant)) demo_calls (azure_close demo_client, ((), [])) = (c', (w', l')) \<and>
     l' = [] \<and> cleared c'"
proof -
  obtain c' w' l' where run:
    "fold (azure_step (recorded demo_tenant)) demo_calls (azure_close demo_client, ((), [])) = (c', (w', l'))"
    by (rule prod_cases3)
  from closed_client_silent [OF run] run show ?thesis by blast
qed

text \<open>
  C32. What Graph answers, or why it cannot be reached, never reaches a caller with the client secret or
  the bearer token in it, however the answer quotes them; only the text of a decoding error is
  passed on as it is.
\<close>

theorem graph_errors_masked:
  assumes "azure_token net graph_scope s = (Inr token, s1)"
    and "graphJSON net decode zero method path body s = (Inl e, s')"
    and "t = az_client_secret (fst s1) \<or> t = token" and "maskable t"
  shows "case e of GraphAPIError status m p detail \<Rightarrow> \<not> contains detail t
     | OtherError g \<Rightarrow> \<not> contains (err_text g) t \<or> (\<exists>d. g = prefixed ''decode Microsoft Graph response: '' d)"
proof -
  let ?secrets = "[az_client_secret (fst s1), token]"
  have "t \<in> set ?secrets" using assms(3) by auto
  then have clean: "\<not> contains (redact_text ?secrets x) t" for x
    using assms(4) by (rule redact_text_clean)
  have "graph_send net decode zero method path body token s1 = (Inl e, s')"
    using assms(1,2) by (simp add: graphJSON_def try_then_def on_error_def)
  then show ?thesis
    using clean by (auto simp: graph_send_def redactError_def plain_error_def Let_def
        split: prod.splits sum.splits if_splits)
qed

definition log_length :: "('w \<times> exchange list) az \<Rightarrow> nat" where
  "log_length s = length (snd (snd s))"

lemma token_sends: "log_length (snd (azure_token (recorded net) scope s)) \<le> log_length s + 1"
  by (auto simp: log_length_def azure_token_def recorded_def Let_def split: prod.splits option.splits sum.splits)

lemma attempt_sends: "log_length (snd (graphJSON (recorded net) decode zero method path body s)) \<le> log_length s + 2"
proof -
  obtain tr s1 where t: "azure_token (recorded net) graph_scope s = (tr, s1)" by (rule prod.exhaust)
  have "log_length s1 \<le> log_length s + 1" using token_sends [of net graph_scope s] t by simp
  moreover have "log_length (snd (graph_send (recorded net) decode zero method path body tk s1)) = log_length s1 + 1" for tk
    by (auto simp: log_length_def graph_send_def recorded_def Let_def split: prod.splits sum.splits)
  ultimately show ?thesis using t by (cases tr) (auto simp: graphJSON_def try_then_def on_error_def)
qed

lemma pause_sends: "log_length (snd (azure_pause (recorded net) d s)) = log_length s"
  by (auto simp: log_length_def azure_pause_def recorded_def split: prod.splits)

lemma loop_sends:
  assumes "\<And>s. log_length (snd (m s)) \<le> log_length s + 2"
  shows "log_length (snd (retry_loop (recorded net) k m e s)) \<le> log_length s + 2 * k"
proof (induction k arbitrary: e s)
  case (Suc k)
  obtain r s1 where g: "m s = (r, s1)" by (rule prod.exhaust)
  obtain p s2 where p: "azure_pause (recorded net) (700 * millisecond) s1 = (p, s2)" by (rule prod.exhaust)
  have "log_length s1 \<le> log_length s + 2" using assms [of s] g by simp
  moreover have "log_length s2 = log_length s1" using pause_sends [of net "700 * millisecond" s1] p by simp
  moreover have "log_length (snd (retry_loop (recorded net) k m e' s2)) \<le> log_length s2 + 2 * k" for e'
    by (rule Suc.IH)
  ultimately have "log_length (snd (retry_loop (recorded net) k m e' s2)) \<le> log_length s + 2 * Suc k"
    "log_length s1 \<le> log_length s + 2 * Suc k" "log_length s2 \<le> log_length s + 2 * Suc k" for e'
    by (force intro: le_trans)+
  then show ?case using g p by (auto split: sum.splits option.splits)
qed simp

text \<open>
  A change that meets the replication delay of the directory is tried a bounded number of times:
  with \<open>n\<close> attempts at most \<open>2 n\<close> requests go out, an attempt and perhaps a token each.
\<close>

theorem retries_bounded:
  "log_length (snd (graphJSONRetry (recorded net) n decode zero method path body s)) \<le> log_length s + 2 * max 1 n"
  using loop_sends [where net = net and k = "if n < 1 then 1 else n" and e = "plain_error []" and s = s,
      OF attempt_sends [of net decode zero "method" "path" "body"]]
  by (auto simp: graphJSONRetry_def max_def split: if_splits)

section \<open>Secrets and their copies in the vault\<close>

lemma ascii_guid: "is_guid s \<Longrightarrow> is_ascii s"
proof -
  assume "is_guid s"
  moreover have "(of_char c :: nat) < 0x80" if "guid_byte c" for c using that by (auto simp: guid_byte_def)
  ultimately show ?thesis using guid_bytes by (auto simp: is_ascii_def list_all_iff)
qed

lemma length_lower_guid [simp]: "is_guid s \<Longrightarrow> length (to_lower s) = 36"
  by (simp add: to_lower_ascii ascii_guid length_guid)

lemma vault_prefix:
  assumes "NewKeyVaultClient net config = Inr v"
  shows "length (kv_secret_prefix v) \<le> 40"
  using assms by (auto simp: NewKeyVaultClient_def is_prefix_text_def Let_def split: option.splits if_splits)

text \<open>
  The name of a vault secret is never cut: it has at most 114 bytes, and two pairs of application and
  key share a name only if they are the same GUIDs up to case.
\<close>

theorem vault_names_distinct:
  assumes "NewKeyVaultClient net config = Inr v"
    and "is_guid a" "is_guid k" "is_guid a'" "is_guid k'"
  shows "length (secretName v a k) \<le> 114 \<and>
     (secretName v a k = secretName v a' k' \<longleftrightarrow> to_lower a = to_lower a' \<and> to_lower k = to_lower k')"
proof -
  have full: "secretName v x y = kv_secret_prefix v @ ''-'' @ to_lower x @ ''-'' @ to_lower y"
    if "is_guid x" "is_guid y" for x y
    using vault_prefix [OF assms(1)] that by (simp add: secretName_def)
  have "length (secretName v a k) \<le> 114" using vault_prefix [OF assms(1)] assms(2,3) by (simp add: full)
  moreover have "secretName v a k = secretName v a' k' \<longleftrightarrow> to_lower a = to_lower a' \<and> to_lower k = to_lower k'"
    using assms(2-) by (simp add: full)
  ultimately show ?thesis by blast
qed


section \<open>Witnesses\<close>

definition failing_tenant :: "unit azure_net" where
  "failing_tenant = demo_tenant\<lparr>an_send := (\<lambda>q w. (Inr \<lparr>hr_status =
     (if hq_method q = ''POST'' then 200 else 500), hr_data = ''bad topsecret''\<rparr>, w))\<rparr>"

theorem graph_errors_masked_witness:
  "\<exists>detail s'. graphJSON failing_tenant (an_applications failing_tenant) [] ''GET'' ''/applications'' NoBody (demo_client, ())
     = (Inl (GraphAPIError 500 ''GET'' ''/applications'' detail), s') \<and> \<not> contains detail ''topsecret''"
proof -
  have token: "azure_token failing_tenant graph_scope (demo_client, ()) = (Inr ''t'', (demo_client\<lparr>az_tokens :=
      [(graph_scope, \<lparr>at_value = ''t'', at_expires_at = 3600 * 1000000000\<rparr>)]\<rparr>, ()))"
    by code_simp
  let ?c = "demo_client\<lparr>az_tokens := [(graph_scope, \<lparr>at_value = ''t'', at_expires_at = 3600 * 1000000000\<rparr>)]\<rparr>"
  obtain detail where run: "graphJSON failing_tenant (an_applications failing_tenant) [] ''GET'' ''/applications'' NoBody (demo_client, ())
     = (Inl (GraphAPIError 500 ''GET'' ''/applications'' detail), (?c, ()))"
    using token by (simp add: graphJSON_def on_error_def try_then_def graph_send_def failing_tenant_def
        bearer_request_def success_status_def Let_def)
  have "maskable ''topsecret''" by code_simp
  with graph_errors_masked [OF token run, of "''topsecret''"] have "\<not> contains detail ''topsecret''"
    by (simp add: demo_client_def)
  with run show ?thesis by blast
qed

definition vault_tenant :: "unit azure_net" where
  "vault_tenant = demo_tenant\<lparr>an_parse_url := (\<lambda>u. Some \<lparr>vu_scheme = ''https'', vu_host = ''v.vault.azure.net'',
     vu_hostname = ''v.vault.azure.net'', vu_has_user = False, vu_raw_query = [], vu_fragment = [], vu_text = u\<rparr>)\<rparr>"

definition demo_vault :: vault_configuration where
  "demo_vault = \<lparr>vc_url = ''https://v.vault.azure.net/'', vc_secret_prefix = [], vc_owner_object_ids = []\<rparr>"

lemma demo_vault_client: "NewKeyVaultClient vault_tenant demo_vault =
  Inr \<lparr>kv_base_url = ''https://v.vault.azure.net'', kv_secret_prefix = ''mutandae''\<rparr>"
  by code_simp

theorem vault_names_distinct_witness:
  "secretName \<lparr>kv_base_url = ''https://v.vault.azure.net'', kv_secret_prefix = ''mutandae''\<rparr> demo_guid demo_guid \<noteq>
   secretName \<lparr>kv_base_url = ''https://v.vault.azure.net'', kv_secret_prefix = ''mutandae''\<rparr> demo_guid
     ''22222222-2222-2222-8222-222222222222''"
proof -
  have g: "is_guid demo_guid" "is_guid ''22222222-2222-2222-8222-222222222222''"
    "to_lower demo_guid \<noteq> to_lower ''22222222-2222-2222-8222-222222222222''"
    by code_simp+
  from vault_names_distinct [OF demo_vault_client g(1) g(1) g(1) g(2)] g(3) show ?thesis by blast
qed

definition demo_secret_request :: azure_secret_create_request where
  "demo_secret_request = \<lparr>asc_application_object_id = demo_guid, asc_display_name = ''key'', asc_expires_at = 0,
     asc_store_in_vault = False\<rparr>"

definition demo_owner :: azure_client where
  "demo_owner = demo_client\<lparr>az_created_objects := [demo_guid]\<rparr>"


end
