(* ===== verification/Integration.thy ===== *)
theory Integration
  imports AzureProperties AuditTrail Request
begin

text \<open>
  The interactive Azure integration (internal/lifecycle/integration.go): short-lived sessions that own a
  Graph client each, the limit on connection attempts, and the operations, each with its redacted
  event and receipt. The clients live in a heap (a list, a session holds an address), so that
  a client outlives the session that drops it and one can ask whether it was closed. Operations run one
  after the other; the cleanup goroutine is the operation \<open>expireSessions\<close>. Random
  bytes and the publisher are arguments, functions of the world.
\<close>

section \<open>State\<close>

record integration_session =
  in_id :: string
  in_csrf :: string
  in_expires_at :: time
  in_client :: nat
  in_vault :: "vault_configuration option"
  in_vault_refs :: "vault_reference gomap"
  in_public :: azure_integration_session

record 'w integration_manager =
  im_net :: "'w azure_net"
  im_publish :: "azure_integration_event \<Rightarrow> 'w \<Rightarrow> unit result \<times> 'w"
  im_rand :: "'w \<Rightarrow> string result \<times> 'w"
  im_ttl :: duration
  im_max_connections :: nat
  im_max_sessions :: nat

record integration_state =
  is_sessions :: "integration_session gomap"
  is_connections :: "time list gomap"
  is_clients :: "azure_client list"

type_synonym 'w im = "integration_state \<times> 'w"

definition no_sessions :: integration_state where
  "no_sessions = \<lparr>is_sessions = [], is_connections = [], is_clients = []\<rparr>"

definition NewIntegrationManager ::
  "'w azure_net \<Rightarrow> (azure_integration_event \<Rightarrow> 'w \<Rightarrow> unit result \<times> 'w) option \<Rightarrow> ('w \<Rightarrow> string result \<times> 'w)
     \<Rightarrow> duration \<Rightarrow> 'w integration_manager result" where
  "NewIntegrationManager net publisher rnd ttl =
     (case publisher of
        None \<Rightarrow> Inl (plain_error ''integration event publisher is required'')
      | Some p \<Rightarrow> Inr \<lparr>im_net = net, im_publish = p, im_rand = rnd,
          im_ttl = (if ttl \<le> 0 \<or> 30 * minute < ttl then 10 * minute else ttl),
          im_max_connections = 5, im_max_sessions = 50\<rparr>)"

text \<open>An operation of the client at an address, and closing it.\<close>

definition on_client :: "nat \<Rightarrow> ('w az \<Rightarrow> 'a \<times> 'w az) \<Rightarrow> 'w im \<Rightarrow> 'a \<times> 'w im" where
  "on_client i m s =
     (case m (is_clients (fst s) ! i, snd s) of
        (r, (c, w)) \<Rightarrow> (r, ((fst s)\<lparr>is_clients := (is_clients (fst s))[i := c]\<rparr>, w)))"

definition close_client :: "nat \<Rightarrow> 'w im \<Rightarrow> 'w im" where
  "close_client i s = ((fst s)\<lparr>is_clients := (is_clients (fst s))[i := azure_close (is_clients (fst s) ! i)]\<rparr>, snd s)"

definition set_session :: "string \<Rightarrow> integration_session \<Rightarrow> 'w im \<Rightarrow> 'w im" where
  "set_session k x s = ((fst s)\<lparr>is_sessions := put k x (is_sessions (fst s))\<rparr>, snd s)"

definition drop_session :: "string \<Rightarrow> 'w im \<Rightarrow> 'w im" where
  "drop_session k s = ((fst s)\<lparr>is_sessions := remove_key k (is_sessions (fst s))\<rparr>, snd s)"

section \<open>Helpers\<close>

definition randomID :: "'w integration_manager \<Rightarrow> string \<Rightarrow> 'w im \<Rightarrow> string result \<times> 'w im" where
  "randomID m prefix0 s =
     (case im_rand m (snd s) of
        (Inl err, w) \<Rightarrow> (Inl err, (fst s, w))
      | (Inr raw, w) \<Rightarrow> (Inr (prefix0 @ ''-'' @ hex_encode raw), (fst s, w)))"

definition redactIdentifier :: "string \<Rightarrow> string" where
  "redactIdentifier v0 =
     (let v = trim_space v0 in
      if length v \<le> 8 then ''********''
      else take 4 v @ [CHR 0xE2, CHR 0x80, CHR 0xA6] @ drop (length v - 4) v)"

definition vaultRefKey :: "string \<Rightarrow> string \<Rightarrow> string" where
  "vaultRefKey applicationObjectID keyID = applicationObjectID @ '':'' @ keyID"

definition allowConnection :: "'w integration_manager \<Rightarrow> string \<Rightarrow> time \<Rightarrow> 'w im \<Rightarrow> unit result \<times> 'w im" where
  "allowConnection m key now s =
     (let st = fst s; cutoff = now - hour;
          kept = filter (\<lambda>attempt. cutoff < attempt) (slice_at (is_connections st) key) in
      if im_max_connections m \<le> length kept then
        (Inl (sentinel_error ErrIntegrationRateLimited), (st\<lparr>is_connections := put key kept (is_connections st)\<rparr>, snd s))
      else (Inr (), (st\<lparr>is_connections := put key (kept @ [now]) (is_connections st)\<rparr>, snd s)))"

definition bool_text :: "bool \<Rightarrow> string" where
  "bool_text b = (if b then ''true'' else ''false'')"

definition validateIntegrationEvent :: "azure_integration_event \<Rightarrow> unit result" where
  "validateIntegrationEvent event =
     (case find (\<lambda>(key, val). sensitiveAuditKey key \<or> redactAuditText val \<noteq> val) (ie_details event) of
        None \<Rightarrow> Inr ()
      | Some (key, val) \<Rightarrow>
          if sensitiveAuditKey key then Inl (plain_error ''integration event contains a forbidden secret-bearing detail'')
          else Inl (plain_error ''integration event contains secret-bearing text''))"

definition zero_event :: azure_integration_event where
  "zero_event = \<lparr>ie_id = [], ie_type = [], ie_correlation_id = [], ie_at = 0, ie_outcome = OutcomeOther [],
     ie_provider = [], ie_application_id = [], ie_details = []\<rparr>"

definition zero_receipt :: operation_receipt where
  "zero_receipt = \<lparr>rc_id = [], rc_correlation_id = [], rc_event_published = False, rc_event = zero_event\<rparr>"

text \<open>The receipt comes back also when the publisher failed.\<close>

definition publish_receipt ::
  "'w integration_manager \<Rightarrow> azure_integration_event \<Rightarrow> 'w im \<Rightarrow> (operation_receipt \<times> unit result) \<times> 'w im" where
  "publish_receipt m event s =
     (let done = (\<lambda>ok. \<lparr>rc_id = ie_id event, rc_correlation_id = ie_correlation_id event,
                       rc_event_published = ok, rc_event = event\<rparr>) in
      case im_publish m event (snd s) of
        (Inl err, w) \<Rightarrow> ((done False,
          Inl (prefixed ''Azure operation succeeded but redacted event publication failed: '' err)), (fst s, w))
      | (Inr _, w) \<Rightarrow> ((done True, Inr ()), (fst s, w)))"

definition receipt ::
  "'w integration_manager \<Rightarrow> event_type \<Rightarrow> string \<Rightarrow> details \<Rightarrow> time
     \<Rightarrow> 'w im \<Rightarrow> (operation_receipt \<times> unit result) \<times> 'w im" where
  "receipt m eventType applicationID details now s =
     (case randomID m ''evt'' s of
        (Inl err, s1) \<Rightarrow> ((zero_receipt, Inl err), s1)
      | (Inr i, s1) \<Rightarrow>
          (case randomID m ''op'' s1 of
             (Inl err, s2) \<Rightarrow> ((zero_receipt, Inl err), s2)
           | (Inr correlation, s2) \<Rightarrow>
               (let event = \<lparr>ie_id = i, ie_type = event_type_text eventType, ie_correlation_id = correlation,
                      ie_at = now, ie_outcome = OutcomeSuccess, ie_provider = ''azure-entra'',
                      ie_application_id = applicationID, ie_details = details\<rparr> in
                case validateIntegrationEvent event of
                  Inl err \<Rightarrow> ((zero_receipt, Inl err), s2)
                | Inr _ \<Rightarrow> publish_receipt m event s2)))"

section \<open>Sessions\<close>

definition capabilities :: "string list" where
  "capabilities = [''list applications'', ''create applications'', ''create one-time client secrets'',
     ''invalidate owned secrets'', ''Redis redacted event publication'']"

definition public_view :: "string \<Rightarrow> azure_integration_request \<Rightarrow> time \<Rightarrow> azure_integration_session" where
  "public_view i req expires = \<lparr>as_id = i, as_provider = ''azure-entra'',
     as_tenant_hint = redactIdentifier (ar_tenant_id req), as_client_hint = redactIdentifier (ar_client_id req),
     as_expires_at = expires, as_vault_configured = (ar_vault req \<noteq> None), as_capabilities = capabilities\<rparr>"

text \<open>A new client gets the next address.\<close>

definition new_client :: "azure_client \<Rightarrow> 'w im \<Rightarrow> 'w im" where
  "new_client c s = ((fst s)\<lparr>is_clients := is_clients (fst s) @ [c]\<rparr>, snd s)"

text \<open>An error after the client exists closes it.\<close>

definition or_close :: "nat \<Rightarrow> ('w im \<Rightarrow> 'a result \<times> 'w im) \<Rightarrow> 'w im \<Rightarrow> 'a result \<times> 'w im" where
  "or_close i m s = (case m s of (Inl e, s') \<Rightarrow> (Inl e, close_client i s') | (Inr a, s') \<Rightarrow> (Inr a, s'))"

definition register_session ::
  "'w integration_manager \<Rightarrow> azure_integration_request \<Rightarrow> time \<Rightarrow> nat \<Rightarrow> string \<Rightarrow> string
     \<Rightarrow> 'w im \<Rightarrow> (azure_integration_session \<times> string) result \<times> 'w im" where
  "register_session m req now i sid csrf s =
     (let public = public_view sid req (now + im_ttl m);
          session = \<lparr>in_id = sid, in_csrf = csrf, in_expires_at = now + im_ttl m, in_client = i,
            in_vault = ar_vault req, in_vault_refs = [], in_public = public\<rparr> in
      if im_max_sessions m \<le> length (is_sessions (fst s)) then
        (Inl (sentinel_error ErrIntegrationRateLimited), s)
      else (Inr (public, csrf), set_session sid session s))"

definition Connect ::
  "'w integration_manager \<Rightarrow> azure_integration_request \<Rightarrow> string \<Rightarrow> string \<Rightarrow> time
     \<Rightarrow> 'w im \<Rightarrow> (azure_integration_session \<times> string) result \<times> 'w im" where
  "Connect m req csrf rateKey now =
     (if trim_space csrf = [] then fail (sentinel_error ErrIntegrationCSRF)
      else try_then (allowConnection m rateKey now) (\<lambda>_ s.
        (case NewAzureClient (im_net m) req of
           Inl err \<Rightarrow> (Inl err, s)
         | Inr client \<Rightarrow>
             (let i = length (is_clients (fst s)) in
              or_close i
                (try_then (on_client i (azure_Verify (im_net m))) (\<lambda>_.
                 try_then (randomID m ''int'') (\<lambda>sid.
                 try_then (randomID m ''csrf'') (\<lambda>sessionCSRF.
                   register_session m req now i sid sessionCSRF))))
                (new_client client s)))))"

text \<open>Closing the clients of sessions already taken out of the map.\<close>

fun close_all_clients :: "integration_session list \<Rightarrow> 'w im \<Rightarrow> 'w im" where
  "close_all_clients [] s = s"
| "close_all_clients (x # xs) s = close_all_clients xs (close_client (in_client x) s)"

definition keep_sessions :: "(integration_session \<Rightarrow> bool) \<Rightarrow> 'w im \<Rightarrow> 'w im" where
  "keep_sessions P s = ((fst s)\<lparr>is_sessions := filter (\<lambda>(k, x). P x) (is_sessions (fst s))\<rparr>, snd s)"

definition expireSessions :: "time \<Rightarrow> 'w im \<Rightarrow> 'w im" where
  "expireSessions now s =
     (let expired = filter (\<lambda>x. \<not> now < in_expires_at x) (map snd (is_sessions (fst s))) in
      close_all_clients expired (keep_sessions (\<lambda>x. now < in_expires_at x) s))"

definition integration_Close :: "'w im \<Rightarrow> 'w im" where
  "integration_Close s =
     close_all_clients (map snd (is_sessions (fst s))) (keep_sessions (\<lambda>x. False) s)"

definition Disconnect :: "string \<Rightarrow> 'w im \<Rightarrow> 'w im" where
  "Disconnect sessionID s =
     (case lookup (is_sessions (fst s)) sessionID of
        None \<Rightarrow> drop_session sessionID s
      | Some x \<Rightarrow> close_client (in_client x) (drop_session sessionID s))"

definition live_session :: "string \<Rightarrow> string \<Rightarrow> time \<Rightarrow> 'w im \<Rightarrow> integration_session result \<times> 'w im" where
  "live_session sessionID csrf now s =
     (case lookup (is_sessions (fst s)) sessionID of
        None \<Rightarrow> (Inl (sentinel_error ErrIntegrationSessionNotFound), s)
      | Some x \<Rightarrow>
          if \<not> now < in_expires_at x then
            (Inl (sentinel_error ErrIntegrationSessionNotFound), close_client (in_client x) (drop_session sessionID s))
          else if \<not> secureEqual (in_csrf x) csrf then (Inl (sentinel_error ErrIntegrationCSRF), s)
          else (Inr x, s))"

definition SessionView :: "string \<Rightarrow> string \<Rightarrow> time \<Rightarrow> 'w im \<Rightarrow> azure_integration_session result \<times> 'w im" where
  "SessionView sessionID csrf now = try_then (live_session sessionID csrf now) (\<lambda>x. succeed (in_public x))"

section \<open>What a user is told before connecting\<close>

definition Requirements :: azure_integration_requirements where
  "Requirements =
     \<lparr>aq_graph_application_permission = ''Application.ReadWrite.OwnedBy'',
      aq_graph_operations =
        [''list applications and owners'',
         ''create applications (the creating client becomes owner where supported)'',
         ''addPassword and removePassword only on applications owned by the calling client''],
      aq_vault_optional = True,
      aq_vault_write_role = ''Key Vault Secrets Officer (existing vault, data plane)'',
      aq_vault_read_role = ''Key Vault Secrets User (read only) or Secrets Officer'',
      aq_owner_enforcement = ''Graph ownership is checked before mutation. In app-only (client credentials) sessions, '' @
        ''Microsoft Graph cannot attach the calling service principal as an application owner, so applications '' @
        ''created by the session are recorded as owned by the session; pre-existing applications must list the '' @
        ''calling client as a Graph owner. Vault owner-only access must be enforced by Azure RBAC/delegated identity.'',
      aq_warnings =
        [''The client secret is accepted only over HTTPS and held in memory for a short session.'',
         ''Microsoft Graph returns a generated secret only once; without a vault you must copy it immediately.'',
         ''Invalidate this integration client secret in Entra ID after the demo and remove its consent if no longer needed.'',
         ''App-only (client credentials) sessions cannot create brand-new applications with '' @
         ''Application.ReadWrite.OwnedBy alone; Microsoft Graph requires Application.ReadWrite.All for POST '' @
         ''/applications under app-only authentication. OwnedBy covers listing and managing applications the '' @
         ''calling client already owns.'',
         ''Mutandae never stores customer credentials, Graph tokens, or secret plaintext in Redis, snapshots, events, logs, or HTML.'']\<rparr>"

section \<open>Operations\<close>

text \<open>
  What an operation answers: a value and a receipt, zero values where the code returns none, and the
  error. \<open>vault_refs\<close> reads the references a session has recorded, \<open>change_refs\<close> records or forgets one.
\<close>

definition vault_refs :: "string \<Rightarrow> 'w im \<Rightarrow> vault_reference gomap" where
  "vault_refs k s = (case lookup (is_sessions (fst s)) k of None \<Rightarrow> [] | Some x \<Rightarrow> in_vault_refs x)"

definition change_refs :: "string \<Rightarrow> (vault_reference gomap \<Rightarrow> vault_reference gomap) \<Rightarrow> 'w im \<Rightarrow> 'w im" where
  "change_refs k f s =
     (case lookup (is_sessions (fst s)) k of
        None \<Rightarrow> s
      | Some x \<Rightarrow> set_session k (x\<lparr>in_vault_refs := f (in_vault_refs x)\<rparr>) s)"

definition record_ref :: "string \<Rightarrow> string \<Rightarrow> vault_reference option \<Rightarrow> 'w im \<Rightarrow> 'w im" where
  "record_ref k key ref s = (case ref of None \<Rightarrow> s | Some r \<Rightarrow> change_refs k (put key r) s)"

definition recorded_version :: "string \<Rightarrow> string \<Rightarrow> string \<Rightarrow> 'w im \<Rightarrow> string" where
  "recorded_version k key version s =
     (if version = [] then (case lookup (vault_refs k s) key of None \<Rightarrow> [] | Some r \<Rightarrow> vr_version r) else version)"

definition with_receipt :: "'a \<Rightarrow> (operation_receipt \<times> unit result) \<times> 'w im \<Rightarrow> ('a \<times> operation_receipt \<times> unit result) \<times> 'w im" where
  "with_receipt a r = (case r of ((rc, e), s) \<Rightarrow> ((a, rc, e), s))"

definition annotate :: "vault_reference gomap \<Rightarrow> azure_application \<Rightarrow> azure_application" where
  "annotate refs a = a\<lparr>aa_credentials := map (\<lambda>c.
     case lookup refs (vaultRefKey (aa_object_id a) (acr_key_id c)) of
       None \<Rightarrow> c | Some r \<Rightarrow> c\<lparr>acr_vault := Some r\<rparr>) (aa_credentials a)\<rparr>"

text \<open>ListApplications gives no receipt at all on an error before its event.\<close>

definition integration_ListApplications ::
  "'w integration_manager \<Rightarrow> string \<Rightarrow> string \<Rightarrow> time
     \<Rightarrow> 'w im \<Rightarrow> (azure_application list \<times> operation_receipt option \<times> unit result) \<times> 'w im" where
  "integration_ListApplications m k csrf now s =
     (case live_session k csrf now s of
        (Inl err, s1) \<Rightarrow> (([], None, Inl err), s1)
      | (Inr x, s1) \<Rightarrow>
          (case on_client (in_client x) (azure_ListApplications (im_net m)) s1 of
             (Inl err, s2) \<Rightarrow> (([], None, Inl err), s2)
           | (Inr apps, s2) \<Rightarrow>
               (case receipt m EventIntegrationConnected [] [(''operation'', ''list_applications'')] now s2 of
                  ((rc, e), s3) \<Rightarrow> ((map (annotate (vault_refs k s2)) apps, Some rc, e), s3))))"

definition integration_CreateApplication ::
  "'w integration_manager \<Rightarrow> string \<Rightarrow> string \<Rightarrow> azure_application_create_request \<Rightarrow> time
     \<Rightarrow> 'w im \<Rightarrow> (azure_application \<times> operation_receipt \<times> unit result) \<times> 'w im" where
  "integration_CreateApplication m k csrf req now s =
     (case live_session k csrf now s of
        (Inl err, s1) \<Rightarrow> ((no_application, zero_receipt, Inl err), s1)
      | (Inr x, s1) \<Rightarrow>
          (case on_client (in_client x) (azure_CreateApplication (im_net m) req) s1 of
             (Inl err, s2) \<Rightarrow> ((no_application, zero_receipt, Inl err), s2)
           | (Inr a, s2) \<Rightarrow> with_receipt a
               (receipt m EventApplicationCreated (aa_object_id a) [(''display_name'', aa_display_name a)] now s2)))"

definition ref_details :: "vault_reference option \<Rightarrow> details" where
  "ref_details ref = (case ref of None \<Rightarrow> []
     | Some r \<Rightarrow> [(''vault_secret_name'', vr_secret_name r), (''vault_version'', vr_version r)])"

definition integration_CreateSecret ::
  "'w integration_manager \<Rightarrow> string \<Rightarrow> string \<Rightarrow> azure_secret_create_request \<Rightarrow> time
     \<Rightarrow> 'w im \<Rightarrow> (azure_secret_result \<times> operation_receipt \<times> unit result) \<times> 'w im" where
  "integration_CreateSecret m k csrf req now s =
     (case live_session k csrf now s of
        (Inl err, s1) \<Rightarrow> ((no_secret, zero_receipt, Inl err), s1)
      | (Inr x, s1) \<Rightarrow>
          if asc_store_in_vault req \<and> in_vault x = None then
            ((no_secret, zero_receipt, Inl (plain_error ''store_in_vault requires a configured Key Vault'')), s1)
          else
            (case on_client (in_client x) (azure_CreateSecret (im_net m) req
                    (if asc_store_in_vault req then in_vault x else None)) s1 of
               (Inl err, s2) \<Rightarrow> ((no_secret, zero_receipt, Inl err), s2)
             | (Inr res, s2) \<Rightarrow>
                 (let keyID = acr_key_id (asr_credential res);
                      s3 = record_ref k (vaultRefKey (asc_application_object_id req) keyID) (asr_vault res) s2 in
                  with_receipt res
                    (receipt m EventSecretCreated (asc_application_object_id req)
                      ([(''key_id'', keyID), (''stored_in_vault'', bool_text (asr_vault res \<noteq> None))] @
                       ref_details (asr_vault res)) now s3))))"

text \<open>ReadSecret reads \<open>result.Vault\<close> without a check: the client sets it whenever it succeeds.\<close>

definition integration_ReadSecret ::
  "'w integration_manager \<Rightarrow> string \<Rightarrow> string \<Rightarrow> azure_secret_read_request \<Rightarrow> time
     \<Rightarrow> 'w im \<Rightarrow> (azure_secret_result \<times> operation_receipt \<times> unit result) \<times> 'w im" where
  "integration_ReadSecret m k csrf req now s =
     (case live_session k csrf now s of
        (Inl err, s1) \<Rightarrow> ((no_secret, zero_receipt, Inl err), s1)
      | (Inr x, s1) \<Rightarrow>
          (let key = vaultRefKey (arr_application_object_id req) (arr_key_id req);
               req1 = req\<lparr>arr_version := recorded_version k key (arr_version req) s1\<rparr> in
           case on_client (in_client x) (azure_ReadSecret (im_net m) req1) s1 of
             (Inl err, s2) \<Rightarrow> ((no_secret, zero_receipt, Inl err), s2)
           | (Inr res, s2) \<Rightarrow> with_receipt res
               (receipt m EventSecretRead (arr_application_object_id req)
                 ((''key_id'', arr_key_id req) # ref_details (asr_vault res)) now
                 (record_ref k key (asr_vault res) s2))))"

definition integration_InvalidateSecret ::
  "'w integration_manager \<Rightarrow> string \<Rightarrow> string \<Rightarrow> azure_secret_invalidate_request \<Rightarrow> time
     \<Rightarrow> 'w im \<Rightarrow> (azure_credential \<times> operation_receipt \<times> unit result) \<times> 'w im" where
  "integration_InvalidateSecret m k csrf req now s =
     (case live_session k csrf now s of
        (Inl err, s1) \<Rightarrow> ((no_credential, zero_receipt, Inl err), s1)
      | (Inr x, s1) \<Rightarrow>
          (let key = vaultRefKey (air_application_object_id req) (air_key_id req);
               req1 = req\<lparr>air_version := recorded_version k key (air_version req) s1\<rparr> in
           case on_client (in_client x) (azure_InvalidateSecret (im_net m) req1) s1 of
             ((credential, Inl err), s2) \<Rightarrow> ((credential, zero_receipt, Inl err), s2)
           | ((credential, Inr _), s2) \<Rightarrow> with_receipt credential
               (receipt m EventSecretInvalidated (air_application_object_id req)
                 ([(''key_id'', air_key_id req), (''vault_disabled'', bool_text (acr_vault credential \<noteq> None))] @
                  ref_details (acr_vault credential)) now
                 (change_refs k (remove_key key) s2))))"

end
