(* ===== verification/IntegrationFacts.thy ===== *)
theory IntegrationFacts
  imports Integration
begin

text \<open>
  What the interactive integration guarantees: the invariant of its sessions and clients over every
  reachable state (the step relation \<open>im_step\<close>), expiry, isolation of sessions, the limit of connection attempts,
  and events without secrets.
\<close>

section \<open>The invariant of sessions and clients\<close>

text \<open>
  Every session has its own open client; every other client is cleared, but for those of \<open>P\<close>, which are
  being set up or about to be closed.
\<close>

definition linked :: "nat set \<Rightarrow> (string \<Rightarrow> integration_session option) \<Rightarrow> azure_client list \<Rightarrow> bool" where
  "linked P m cs \<longleftrightarrow>
     (\<forall>k x. m k = Some x \<longrightarrow> in_id x = k \<and> in_client x < length cs \<and> \<not> az_closed (cs ! in_client x) \<and> in_client x \<notin> P) \<and>
     (\<forall>k x k' x'. m k = Some x \<and> m k' = Some x' \<and> in_client x = in_client x' \<longrightarrow> k = k') \<and>
     (\<forall>i < length cs. i \<notin> P \<longrightarrow> (\<forall>k x. m k = Some x \<longrightarrow> in_client x \<noteq> i) \<longrightarrow> cleared (cs ! i))"

lemma linkedI:
  assumes "\<And>k x. m k = Some x \<Longrightarrow> in_id x = k \<and> in_client x < length cs \<and> \<not> az_closed (cs ! in_client x) \<and> in_client x \<notin> P"
    and "\<And>k x k' x'. m k = Some x \<Longrightarrow> m k' = Some x' \<Longrightarrow> in_client x = in_client x' \<Longrightarrow> k = k'"
    and "\<And>i. i < length cs \<Longrightarrow> i \<notin> P \<Longrightarrow> (\<And>k x. m k = Some x \<Longrightarrow> in_client x \<noteq> i) \<Longrightarrow> cleared (cs ! i)"
  shows "linked P m cs"
  unfolding linked_def using assms by blast

lemma linkedD:
  assumes "linked P m cs" "m k = Some x"
  shows "in_id x = k" "in_client x < length cs" "\<not> az_closed (cs ! in_client x)" "in_client x \<notin> P"
    "m k' = Some x' \<Longrightarrow> in_client x = in_client x' \<Longrightarrow> k = k'"
  using assms unfolding linked_def by blast+

lemma linked_cleared:
  assumes "linked P m cs" "i < length cs" "i \<notin> P" "\<And>k x. m k = Some x \<Longrightarrow> in_client x \<noteq> i"
  shows "cleared (cs ! i)"
  using assms unfolding linked_def by blast

definition im_ok :: "nat \<Rightarrow> nat set \<Rightarrow> integration_state \<Rightarrow> bool" where
  "im_ok n P st \<longleftrightarrow> distinct (keys (is_sessions st)) \<and> length (is_sessions st) \<le> n \<and>
     linked P (lookup (is_sessions st)) (is_clients st)"

lemma im_ok_linked: "im_ok n P st \<Longrightarrow> linked P (lookup (is_sessions st)) (is_clients st)"
  by (simp add: im_ok_def)

lemma im_ok_start: "im_ok n {} no_sessions"
  by (simp add: im_ok_def no_sessions_def linked_def)

lemma linked_close:
  assumes ok: "linked (insert i P) m cs"
  shows "linked P m (cs[i := azure_close (cs ! i)])"
proof (rule linkedI)
  fix k x assume x: "m k = Some x"
  from linkedD(1-4) [OF ok x] show "in_id x = k \<and> in_client x < length (cs[i := azure_close (cs ! i)]) \<and>
      \<not> az_closed (cs[i := azure_close (cs ! i)] ! in_client x) \<and> in_client x \<notin> P"
    by simp
next
  fix k x k' x' assume "m k = Some x" "m k' = Some x'" "in_client x = in_client x'"
  then show "k = k'" using linkedD(5) [OF ok] by blast
next
  fix j assume j: "j < length (cs[i := azure_close (cs ! i)])" "j \<notin> P" "\<And>k x. m k = Some x \<Longrightarrow> in_client x \<noteq> j"
  show "cleared (cs[i := azure_close (cs ! i)] ! j)"
  proof (cases "j = i")
    case False
    then show ?thesis using linked_cleared [OF ok, of j] j by simp
  qed (use j in simp)
qed

lemma im_ok_close: "im_ok n (insert i P) (fst s) \<Longrightarrow> im_ok n P (fst (close_client i s))"
  by (simp add: im_ok_def close_client_def linked_close)

lemma linked_drop:
  assumes ok: "linked P m cs" and x: "m k = Some x"
  shows "linked (insert (in_client x) P) (m(k := None)) cs"
proof (rule linkedI)
  fix k' y assume y: "(m(k := None)) k' = Some y"
  then have "m k' = Some y" "k' \<noteq> k" by (simp_all split: if_splits)
  moreover from this have "in_client x \<noteq> in_client y" using linkedD(5) [OF ok x] by blast
  ultimately show "in_id y = k' \<and> in_client y < length cs \<and> \<not> az_closed (cs ! in_client y) \<and>
      in_client y \<notin> insert (in_client x) P"
    using linkedD(1-4) [OF ok] by simp
next
  fix k1 y1 k2 y2 assume "(m(k := None)) k1 = Some y1" "(m(k := None)) k2 = Some y2" "in_client y1 = in_client y2"
  then show "k1 = k2" using linkedD(5) [OF ok] by (metis fun_upd_apply option.distinct(1))
next
  fix i assume i: "i < length cs" "i \<notin> insert (in_client x) P" "\<And>k' y. (m(k := None)) k' = Some y \<Longrightarrow> in_client y \<noteq> i"
  have "in_client y \<noteq> i" if "m k' = Some y" for k' y
    using that i(2) i(3) [of k' y] x by (cases "k' = k") auto
  then show "cleared (cs ! i)" using linked_cleared [OF ok] i by simp
qed

lemma lookup_dropped: "lookup (remove_key k m) = (lookup m)(k := None)"
  by (simp add: fun_eq_iff)

lemma im_ok_drop:
  assumes "im_ok n P (fst s)" "lookup (is_sessions (fst s)) k = Some x"
  shows "im_ok n (insert (in_client x) P) (fst (drop_session k s))"
proof -
  have "length (remove_key k m) \<le> length m" for m :: "integration_session gomap"
    by (simp add: AList.delete_eq)
  then have "length (remove_key k (is_sessions (fst s))) \<le> n"
    using assms(1) unfolding im_ok_def by (meson order_trans)
  moreover have "linked (insert (in_client x) P) (lookup (remove_key k (is_sessions (fst s)))) (is_clients (fst s))"
    unfolding lookup_dropped by (rule linked_drop [OF im_ok_linked [OF assms(1)] assms(2)])
  ultimately show ?thesis using assms(1) by (simp add: im_ok_def drop_session_def)
qed

lemma drop_none: "lookup (is_sessions (fst s)) k = None \<Longrightarrow> drop_session k s = s"
proof -
  assume "lookup (is_sessions (fst s)) k = None"
  then have "k \<notin> set (keys (is_sessions (fst s)))" by (simp add: map_of_eq_None_iff)
  then have "remove_key k (is_sessions (fst s)) = is_sessions (fst s)" by (simp add: delete_idem)
  then show ?thesis by (simp add: drop_session_def)
qed

lemma im_ok_close_all:
  "im_ok n (in_client ` set xs \<union> P) (fst s) \<Longrightarrow> im_ok n P (fst (close_all_clients xs s))"
proof (induction xs arbitrary: s)
  case (Cons x xs)
  then have "im_ok n (in_client ` set xs \<union> P) (fst (close_client (in_client x) s))"
    by (intro im_ok_close) simp
  then show ?case using Cons.IH by simp
qed simp

lemma lookup_kept:
  assumes "distinct (keys m)"
  shows "lookup (filter (\<lambda>(k, x). Q x) m) k = (case lookup m k of None \<Rightarrow> None | Some x \<Rightarrow> if Q x then Some x else None)"
  using assms
proof (induction m)
  case (Cons e m)
  then show ?case by (cases e) (auto split: option.splits simp: map_of_eq_None_iff dest: map_of_SomeD image_eqI)
qed simp

lemma linked_keep:
  assumes ok: "linked {} m cs"
    and P: "\<And>i. i \<in> P \<longleftrightarrow> (\<exists>k x. m k = Some x \<and> \<not> Q x \<and> in_client x = i)"
  shows "linked P (\<lambda>k. case m k of None \<Rightarrow> None | Some x \<Rightarrow> if Q x then Some x else None) cs"
    (is "linked P ?m cs")
proof -
  have kept: "?m k = Some x \<longleftrightarrow> m k = Some x \<and> Q x" for k x by (auto split: option.splits)
  show ?thesis
  proof (rule linkedI, unfold kept)
    fix k x assume x: "m k = Some x \<and> Q x"
    then have "in_client x \<notin> P" using P linkedD(5) [OF ok] by (metis option.inject)
    then show "in_id x = k \<and> in_client x < length cs \<and> \<not> az_closed (cs ! in_client x) \<and> in_client x \<notin> P"
      using x linkedD(1-3) [OF ok] by blast
  next
    fix k x k' x' assume "m k = Some x \<and> Q x" "m k' = Some x' \<and> Q x'" "in_client x = in_client x'"
    then show "k = k'" using linkedD(5) [OF ok] by blast
  next
    fix i assume i: "i < length cs" "i \<notin> P" "\<And>k x. m k = Some x \<and> Q x \<Longrightarrow> in_client x \<noteq> i"
    then show "cleared (cs ! i)" using linked_cleared [OF ok i(1)] P by blast
  qed
qed

lemma im_ok_keep:
  assumes ok: "im_ok n {} (fst s)"
  shows "im_ok n (in_client ` set (filter (\<lambda>x. \<not> Q x) (map snd (is_sessions (fst s))))) (fst (keep_sessions Q s))"
proof -
  let ?m = "is_sessions (fst s)"
  have d: "distinct (keys ?m)" using ok by (simp add: im_ok_def)
  have lk: "lookup (filter (\<lambda>(k, x). Q x) ?m) = (\<lambda>k. case lookup ?m k of None \<Rightarrow> None | Some x \<Rightarrow> if Q x then Some x else None)"
    using lookup_kept [OF d] by (simp add: fun_eq_iff)
  have "i \<in> in_client ` set (filter (\<lambda>x. \<not> Q x) (map snd ?m)) \<longleftrightarrow>
      (\<exists>k x. lookup ?m k = Some x \<and> \<not> Q x \<and> in_client x = i)" for i
    unfolding lookup_in_set [OF d] by force
  from linked_keep [OF im_ok_linked [OF ok] this] lk
  have "linked (in_client ` set (filter (\<lambda>x. \<not> Q x) (map snd ?m)))
      (lookup (filter (\<lambda>(k, x). Q x) ?m)) (is_clients (fst s))"
    by simp
  moreover have "length (filter (\<lambda>(k, x). Q x) ?m) \<le> n"
    using ok length_filter_le [of "\<lambda>(k, x). Q x" ?m] unfolding im_ok_def by linarith
  ultimately show ?thesis using distinct_map_filter [OF d] by (simp add: im_ok_def keep_sessions_def)
qed

lemma linked_update:
  assumes ok: "linked P m cs" and same: "az_closed c = az_closed (cs ! i)"
    and held: "i \<in> P \<or> (\<exists>k x. m k = Some x \<and> in_client x = i)"
  shows "linked P m (cs[i := c])"
proof (rule linkedI)
  fix k x assume x: "m k = Some x"
  from linkedD(1-4) [OF ok x] same
  show "in_id x = k \<and> in_client x < length (cs[i := c]) \<and> \<not> az_closed (cs[i := c] ! in_client x) \<and> in_client x \<notin> P"
    by (cases "in_client x = i") simp_all
next
  fix k x k' x' assume "m k = Some x" "m k' = Some x'" "in_client x = in_client x'"
  then show "k = k'" using linkedD(5) [OF ok] by blast
next
  fix j assume j: "j < length (cs[i := c])" "j \<notin> P" "\<And>k x. m k = Some x \<Longrightarrow> in_client x \<noteq> j"
  then have "j \<noteq> i" using held by blast
  then show "cleared (cs[i := c] ! j)" using linked_cleared [OF ok, of j] j by simp
qed

definition open_kept :: "('w az \<Rightarrow> 'a \<times> 'w az) \<Rightarrow> bool" where
  "open_kept m \<longleftrightarrow> (\<forall>s. az_closed (fst (snd (m s))) = az_closed (fst s))"

lemma open_keptI:
  assumes "\<And>c0. keeps (\<lambda>s. fixed_part (fst s) = c0) m"
  shows "open_kept m"
proof -
  have eq: "fixed_part (fst (snd (m s))) = fixed_part (fst s)" for s
    by (rule keepsD [OF assms]) simp
  show ?thesis unfolding open_kept_def by (intro allI fixed_part_eqD(1) eq)
qed

lemmas client_ops_open =
  open_keptI [OF fixed_client.keeps_Verify] open_keptI [OF fixed_client.keeps_ListApplications]
  open_keptI [OF fixed_client.keeps_CreateApplication] open_keptI [OF fixed_client.keeps_CreateSecret]
  open_keptI [OF fixed_client.keeps_ReadSecret] open_keptI [OF fixed_client.keeps_InvalidateSecret]

lemma im_ok_on_client:
  assumes "im_ok n P (fst s)" "open_kept m"
    and "i \<in> P \<or> (\<exists>k x. lookup (is_sessions (fst s)) k = Some x \<and> in_client x = i)"
  shows "im_ok n P (fst (snd (on_client i m s)))"
proof -
  obtain r c w where m: "m (is_clients (fst s) ! i, snd s) = (r, (c, w))" by (rule prod_cases3)
  have "az_closed c = az_closed (is_clients (fst s) ! i)"
    using assms(2) m unfolding open_kept_def by (metis fst_conv snd_conv)
  with linked_update [OF im_ok_linked [OF assms(1)] this assms(3)] assms(1) show ?thesis
    by (simp add: on_client_def m im_ok_def)
qed

lemma on_client_sessions [simp]: "is_sessions (fst (snd (on_client i m s))) = is_sessions (fst s)"
  by (simp add: on_client_def split: prod.splits)

lemma linked_set:
  assumes ok: "linked P m cs" and x: "m k = Some x" and y: "in_id y = in_id x" "in_client y = in_client x"
  shows "linked P (m(k \<mapsto> y)) cs"
proof (rule linkedI)
  fix k' z assume "(m(k \<mapsto> y)) k' = Some z"
  then show "in_id z = k' \<and> in_client z < length cs \<and> \<not> az_closed (cs ! in_client z) \<and> in_client z \<notin> P"
    using linkedD(1-4) [OF ok] x y by (auto split: if_splits)
next
  fix k1 z1 k2 z2 assume "(m(k \<mapsto> y)) k1 = Some z1" "(m(k \<mapsto> y)) k2 = Some z2" "in_client z1 = in_client z2"
  then show "k1 = k2" using linkedD(5) [OF ok] x y by (auto split: if_splits)
next
  fix i assume i: "i < length cs" "i \<notin> P" "\<And>k' z. (m(k \<mapsto> y)) k' = Some z \<Longrightarrow> in_client z \<noteq> i"
  have "in_client z \<noteq> i" if "m k' = Some z" for k' z
    using that i(3) [of k' z] i(3) [of k y] x y by (cases "k' = k") auto
  then show "cleared (cs ! i)" using linked_cleared [OF ok i(1,2)] by blast
qed

lemma lookup_put_fun: "lookup (put k v m) = (lookup m)(k \<mapsto> v)"
  by (simp add: fun_eq_iff)

lemma im_ok_change_refs: "im_ok n P (fst s) \<Longrightarrow> im_ok n P (fst (change_refs k f s))"
proof -
  assume ok: "im_ok n P (fst s)"
  show ?thesis
  proof (cases "lookup (is_sessions (fst s)) k")
    case None
    then show ?thesis using ok by (simp add: change_refs_def)
  next
    case (Some x)
    have "linked P (lookup (put k (x\<lparr>in_vault_refs := f (in_vault_refs x)\<rparr>) (is_sessions (fst s)))) (is_clients (fst s))"
      unfolding lookup_put_fun by (rule linked_set [OF im_ok_linked [OF ok] Some]) simp_all
    moreover have "length (put k y (is_sessions (fst s))) \<le> n" for y
      using ok Some by (simp add: im_ok_def length_put)
    ultimately show ?thesis using ok Some by (simp add: change_refs_def set_session_def im_ok_def)
  qed
qed

lemma im_ok_record_ref: "im_ok n P (fst s) \<Longrightarrow> im_ok n P (fst (record_ref k key ref s))"
  by (cases ref) (simp_all add: record_ref_def im_ok_change_refs)

text \<open>Random identifiers, receipts and the publisher leave the integration state alone.\<close>

lemma randomID_state [simp]: "fst (snd (randomID m p s)) = fst s"
  by (auto simp: randomID_def split: prod.splits sum.splits)

lemma publish_state [simp]: "fst (snd (publish_receipt m e s)) = fst s"
  by (auto simp: publish_receipt_def Let_def split: prod.splits sum.splits)

lemma receipt_state [simp]: "fst (snd (receipt m t a d now s)) = fst s"
proof -
  obtain r1 s1 where a: "randomID m ''evt'' s = (r1, s1)" by (rule prod.exhaust)
  obtain r2 s2 where b: "randomID m ''op'' s1 = (r2, s2)" by (rule prod.exhaust)
  have "fst s1 = fst s" "fst s2 = fst s1"
    using randomID_state [of m "''evt''" s] randomID_state [of m "''op''" s1] a b by simp_all
  then show ?thesis by (auto simp: receipt_def a b Let_def split: sum.splits)
qed

lemma with_receipt_state [simp]: "fst (snd (with_receipt a r)) = fst (snd r)"
  by (simp add: with_receipt_def split: prod.splits)

lemma im_ok_live_session:
  assumes "im_ok n {} (fst s)" "live_session k csrf now s = (r, s')"
  shows "im_ok n {} (fst s')"
    and "r = Inr x \<Longrightarrow> s' = s \<and> lookup (is_sessions (fst s)) k = Some x"
proof -
  show "im_ok n {} (fst s')"
    using assms im_ok_close [OF im_ok_drop [OF assms(1), of k]]
    by (auto simp: live_session_def split: option.splits if_splits)
  show "s' = s \<and> lookup (is_sessions (fst s)) k = Some x" if "r = Inr x"
    using assms(2) that by (auto simp: live_session_def split: option.splits if_splits)
qed

section \<open>Every operation keeps the invariant\<close>

lemma im_ok_session_client:
  assumes "im_ok n {} (fst s)" "lookup (is_sessions (fst s)) k = Some x" "open_kept f"
    and "on_client (in_client x) f s = (r, s')"
  shows "im_ok n {} (fst s')"
  using im_ok_on_client [OF assms(1,3), of "in_client x"] assms(2,4) by (metis snd_conv)

lemma with_receipt_kept: "im_ok n P (fst s) \<Longrightarrow> im_ok n P (fst (snd (with_receipt a (receipt m t x d now s))))"
  by simp

lemma im_ok_ListApplications:
  assumes "im_ok n {} (fst s)"
  shows "im_ok n {} (fst (snd (integration_ListApplications m k csrf now s)))"
proof -
  obtain r s1 where l: "live_session k csrf now s = (r, s1)" by (rule prod.exhaust)
  note ok = im_ok_live_session [OF assms l]
  show ?thesis
  proof (cases r)
    case (Inr x)
    obtain r2 s2 where c: "on_client (in_client x) (azure_ListApplications (im_net m)) s1 = (r2, s2)" by (rule prod.exhaust)
    then have ok2: "im_ok n {} (fst s2)"
      using im_ok_session_client [OF ok(1) _ client_ops_open(2) c, of k] ok(2) [OF Inr] by simp
    obtain rc e s3 where "receipt m EventIntegrationConnected [] [(''operation'', ''list_applications'')] now s2 = ((rc, e), s3)"
      by (metis surj_pair)
    moreover from this have "fst s3 = fst s2"
      using receipt_state [of m EventIntegrationConnected "[]" "[(''operation'', ''list_applications'')]" now s2] by simp
    ultimately show ?thesis using ok2 c l Inr by (cases r2) (simp_all add: integration_ListApplications_def)
  qed (use ok(1) l in \<open>simp add: integration_ListApplications_def\<close>)
qed

lemma im_ok_CreateApplication:
  assumes "im_ok n {} (fst s)"
  shows "im_ok n {} (fst (snd (integration_CreateApplication m k csrf req now s)))"
proof -
  obtain r s1 where l: "live_session k csrf now s = (r, s1)" by (rule prod.exhaust)
  note ok = im_ok_live_session [OF assms l]
  show ?thesis
  proof (cases r)
    case (Inr x)
    obtain r2 s2 where c: "on_client (in_client x) (azure_CreateApplication (im_net m) req) s1 = (r2, s2)" by (rule prod.exhaust)
    then have "im_ok n {} (fst s2)"
      using im_ok_session_client [OF ok(1) _ client_ops_open(3) c, of k] ok(2) [OF Inr] by simp
    then show ?thesis using c l Inr by (cases r2) (simp_all add: integration_CreateApplication_def)
  qed (use ok(1) l in \<open>simp add: integration_CreateApplication_def\<close>)
qed

lemma im_ok_CreateSecret:
  assumes "im_ok n {} (fst s)"
  shows "im_ok n {} (fst (snd (integration_CreateSecret m k csrf req now s)))"
proof -
  obtain r s1 where l: "live_session k csrf now s = (r, s1)" by (rule prod.exhaust)
  note ok = im_ok_live_session [OF assms l]
  show ?thesis
  proof (cases r)
    case (Inr x)
    let ?f = "azure_CreateSecret (im_net m) req (if asc_store_in_vault req then in_vault x else None)"
    obtain r2 s2 where c: "on_client (in_client x) ?f s1 = (r2, s2)" by (rule prod.exhaust)
    then have "im_ok n {} (fst s2)"
      using im_ok_session_client [OF ok(1) _ client_ops_open(4) c, of k] ok(2) [OF Inr] by simp
    then show ?thesis using c l Inr ok(1)
      by (cases r2) (simp_all add: integration_CreateSecret_def Let_def im_ok_record_ref)
  qed (use ok(1) l in \<open>simp add: integration_CreateSecret_def\<close>)
qed

lemma im_ok_ReadSecret:
  assumes "im_ok n {} (fst s)"
  shows "im_ok n {} (fst (snd (integration_ReadSecret m k csrf req now s)))"
proof -
  obtain r s1 where l: "live_session k csrf now s = (r, s1)" by (rule prod.exhaust)
  note ok = im_ok_live_session [OF assms l]
  show ?thesis
  proof (cases r)
    case (Inr x)
    let ?req = "req\<lparr>arr_version := recorded_version k (vaultRefKey (arr_application_object_id req) (arr_key_id req)) (arr_version req) s1\<rparr>"
    obtain r2 s2 where c: "on_client (in_client x) (azure_ReadSecret (im_net m) ?req) s1 = (r2, s2)" by (rule prod.exhaust)
    then have "im_ok n {} (fst s2)"
      using im_ok_session_client [OF ok(1) _ client_ops_open(5) c, of k] ok(2) [OF Inr] by simp
    then show ?thesis using c l Inr
      by (cases r2) (simp_all add: integration_ReadSecret_def Let_def im_ok_record_ref)
  qed (use ok(1) l in \<open>simp add: integration_ReadSecret_def\<close>)
qed

lemma im_ok_InvalidateSecret:
  assumes "im_ok n {} (fst s)"
  shows "im_ok n {} (fst (snd (integration_InvalidateSecret m k csrf req now s)))"
proof -
  obtain r s1 where l: "live_session k csrf now s = (r, s1)" by (rule prod.exhaust)
  note ok = im_ok_live_session [OF assms l]
  show ?thesis
  proof (cases r)
    case (Inr x)
    let ?req = "req\<lparr>air_version := recorded_version k (vaultRefKey (air_application_object_id req) (air_key_id req)) (air_version req) s1\<rparr>"
    obtain cr r2 s2 where c: "on_client (in_client x) (azure_InvalidateSecret (im_net m) ?req) s1 = ((cr, r2), s2)"
      by (metis surj_pair)
    then have "im_ok n {} (fst s2)"
      using im_ok_session_client [OF ok(1) _ client_ops_open(6) c, of k] ok(2) [OF Inr] by simp
    then show ?thesis using c l Inr
      by (cases r2) (simp_all add: integration_InvalidateSecret_def Let_def im_ok_change_refs)
  qed (use ok(1) l in \<open>simp add: integration_InvalidateSecret_def\<close>)
qed

lemma im_ok_Disconnect: "im_ok n {} (fst s) \<Longrightarrow> im_ok n {} (fst (Disconnect k s))"
  by (auto simp: Disconnect_def drop_none intro: im_ok_close im_ok_drop split: option.splits)

lemma im_ok_expire: "im_ok n {} (fst s) \<Longrightarrow> im_ok n {} (fst (expireSessions now s))"
  unfolding expireSessions_def Let_def
  using im_ok_close_all [of n "filter (\<lambda>x. \<not> now < in_expires_at x) (map snd (is_sessions (fst s)))" "{}"]
    im_ok_keep [of n s "\<lambda>x. now < in_expires_at x"] by simp

lemma im_ok_Close: "im_ok n {} (fst s) \<Longrightarrow> im_ok n {} (fst (integration_Close s))"
  unfolding integration_Close_def
  using im_ok_close_all [of n "map snd (is_sessions (fst s))" "{}"] im_ok_keep [of n s "\<lambda>x. False"] by simp

section \<open>Connecting\<close>

lemma im_ok_cong: "is_sessions st' = is_sessions st \<Longrightarrow> is_clients st' = is_clients st \<Longrightarrow> im_ok n P st' = im_ok n P st"
  by (simp add: im_ok_def)

lemma allowConnection_state:
  "allowConnection m key now s = (r, s') \<Longrightarrow> is_sessions (fst s') = is_sessions (fst s) \<and> is_clients (fst s') = is_clients (fst s)"
  by (auto simp: allowConnection_def Let_def split: if_splits)

lemma linked_new:
  assumes ok: "linked {} m cs"
  shows "linked {length cs} m (cs @ [c])"
proof (rule linkedI)
  fix k x assume "m k = Some x"
  with linkedD(1-3) [OF ok this] show "in_id x = k \<and> in_client x < length (cs @ [c]) \<and>
      \<not> az_closed ((cs @ [c]) ! in_client x) \<and> in_client x \<notin> {length cs}"
    by (simp add: nth_append)
next
  fix k x k' x' assume "m k = Some x" "m k' = Some x'" "in_client x = in_client x'"
  then show "k = k'" using linkedD(5) [OF ok] by blast
next
  fix i assume "i < length (cs @ [c])" "i \<notin> {length cs}" "\<And>k x. m k = Some x \<Longrightarrow> in_client x \<noteq> i"
  then show "cleared ((cs @ [c]) ! i)" using linked_cleared [OF ok, of i] by (simp add: nth_append)
qed

text \<open>The state while a session is being set up: its client is there, open, and nobody's yet.\<close>

definition setting_up :: "nat \<Rightarrow> nat \<Rightarrow> integration_session gomap \<Rightarrow> 'w im \<Rightarrow> bool" where
  "setting_up n i m s \<longleftrightarrow> im_ok n {i} (fst s) \<and> is_sessions (fst s) = m \<and> i < length (is_clients (fst s)) \<and>
     \<not> az_closed (is_clients (fst s) ! i)"

lemma setting_up_new:
  assumes "im_ok n {} (fst s)" "\<not> az_closed c"
  shows "setting_up n (length (is_clients (fst s))) (is_sessions (fst s)) (new_client c s)"
  using assms linked_new [OF im_ok_linked [OF assms(1)]] by (simp add: setting_up_def new_client_def im_ok_def)

lemma setting_up_verify: "keeps (setting_up n i m) (on_client i (azure_Verify (net :: 'w azure_net)))"
proof
  fix s :: "'w im"
  assume a: "setting_up n i m s"
  have ok: "im_ok n {i} (fst (snd (on_client i (azure_Verify net) s)))"
    using a by (intro im_ok_on_client client_ops_open) (simp_all add: setting_up_def)
  obtain r c w where v: "azure_Verify net (is_clients (fst s) ! i, snd s) = (r, (c, w))" by (rule prod_cases3)
  have "az_closed (fst (snd (azure_Verify net s1))) = az_closed (fst s1)" for s1 :: "'w az"
    using client_ops_open(1) [of net] unfolding open_kept_def by blast
  from this [of "(is_clients (fst s) ! i, snd s)"] v a ok
  show "setting_up n i m (snd (on_client i (azure_Verify net) s))"
    by (simp add: setting_up_def on_client_def)
qed

lemma setting_up_random: "keeps (setting_up n i m) (randomID im p)"
  by (auto simp: keeps_def setting_up_def)

lemma linked_enter:
  assumes ok: "linked {i} m cs" and new: "m k = None" "i < length cs" "\<not> az_closed (cs ! i)" "in_id x = k" "in_client x = i"
  shows "linked {} (m(k \<mapsto> x)) cs"
proof (rule linkedI)
  fix k' y assume "(m(k \<mapsto> x)) k' = Some y"
  then show "in_id y = k' \<and> in_client y < length cs \<and> \<not> az_closed (cs ! in_client y) \<and> in_client y \<notin> {}"
    using linkedD(1-3) [OF ok, of k' y] new by (auto split: if_splits)
next
  fix k1 y1 k2 y2 assume "(m(k \<mapsto> x)) k1 = Some y1" "(m(k \<mapsto> x)) k2 = Some y2" "in_client y1 = in_client y2"
  then show "k1 = k2" using linkedD(4,5) [OF ok] new by (auto split: if_splits)
next
  fix j assume j: "j < length cs" "\<And>k' y. (m(k \<mapsto> x)) k' = Some y \<Longrightarrow> in_client y \<noteq> j"
  have "j \<noteq> i" using j(2) [of k x] new(5) by simp
  moreover have "in_client y \<noteq> j" if "m k' = Some y" for k' y
    using that j(2) [of k' y] new(1) by (cases "k' = k") auto
  ultimately show "cleared (cs ! j)" using linked_cleared [OF ok j(1)] by simp
qed

lemma register_ok:
  assumes "setting_up (im_max_sessions m) i ms s" "register_session m req now i sid csrf s = (Inr (pub, c), s')"
    and "lookup ms (as_id pub) = None"
  shows "im_ok (im_max_sessions m) {} (fst s')"
proof -
  let ?x = "\<lparr>in_id = sid, in_csrf = csrf, in_expires_at = now + im_ttl m, in_client = i, in_vault = ar_vault req,
    in_vault_refs = [], in_public = public_view sid req (now + im_ttl m)\<rparr>"
  have r: "length (is_sessions (fst s)) < im_max_sessions m" "s' = set_session sid ?x s" "as_id pub = sid"
    using assms(2) by (auto simp: register_session_def Let_def public_view_def split: if_splits)
  have a: "is_sessions (fst s) = ms" "im_ok (im_max_sessions m) {i} (fst s)" "i < length (is_clients (fst s))"
    "\<not> az_closed (is_clients (fst s) ! i)"
    using assms(1) by (simp_all add: setting_up_def)
  have "linked {} (lookup (put sid ?x ms)) (is_clients (fst s))"
    unfolding lookup_put_fun using im_ok_linked [OF a(2)] a assms(3) r(3) by (intro linked_enter) simp_all
  then show ?thesis using a r assms(3) by (simp add: set_session_def im_ok_def length_put)
qed

lemma register_cases:
  assumes "register_session m req now i sid csrf s = (r, s')"
  shows "(\<exists>e. r = Inl e \<and> s' = s) \<or> (\<exists>pub. r = Inr (pub, csrf))"
  using assms by (auto simp: register_session_def Let_def split: if_splits)

lemma setup_cases:
  assumes up: "setting_up (im_max_sessions m) i ms s"
    and run: "try_then (on_client i (azure_Verify (im_net m))) (\<lambda>_.
     try_then (randomID m ''int'') (\<lambda>sid. try_then (randomID m ''csrf'') (\<lambda>sessionCSRF.
       register_session m req now i sid sessionCSRF))) s = (r, s')"
  shows "(\<exists>e. r = Inl e \<and> setting_up (im_max_sessions m) i ms s') \<or>
     (\<exists>s1 sid csrf pub. r = Inr (pub, csrf) \<and> setting_up (im_max_sessions m) i ms s1 \<and>
        register_session m req now i sid csrf s1 = (r, s'))"
  using try_then_kept [OF setting_up_verify up run]
proof (elim disjE exE conjE)
  fix u s1
  assume "setting_up (im_max_sessions m) i ms s1" "try_then (randomID m ''int'') (\<lambda>sid. try_then (randomID m ''csrf'')
    (\<lambda>sessionCSRF. register_session m req now i sid sessionCSRF)) s1 = (r, s')"
  from try_then_kept [OF setting_up_random this] show ?thesis
  proof (elim disjE exE conjE)
    fix sid s2
    assume "setting_up (im_max_sessions m) i ms s2"
      "try_then (randomID m ''csrf'') (\<lambda>sessionCSRF. register_session m req now i sid sessionCSRF) s2 = (r, s')"
    from try_then_kept [OF setting_up_random this] show ?thesis
    proof (elim disjE exE conjE)
      fix csrf s3
      assume s3: "setting_up (im_max_sessions m) i ms s3" "register_session m req now i sid csrf s3 = (r, s')"
      from register_cases [OF s3(2)] s3 show ?thesis by blast
    qed blast
  qed blast
qed blast

lemma im_ok_Connect:
  assumes "im_ok (im_max_sessions m) {} (fst s)" "Connect m req csrf rateKey now s = (r, s')"
    and "\<And>pub c. r = Inr (pub, c) \<Longrightarrow> lookup (is_sessions (fst s)) (as_id pub) = None"
  shows "im_ok (im_max_sessions m) {} (fst s')"
proof -
  let ?n = "im_max_sessions m"
  obtain ar s1 where al: "allowConnection m rateKey now s = (ar, s1)" by (rule prod.exhaust)
  have same: "is_sessions (fst s1) = is_sessions (fst s)" "is_clients (fst s1) = is_clients (fst s)"
    using allowConnection_state [OF al] by simp_all
  then have ok1: "im_ok ?n {} (fst s1)" using assms(1) im_ok_cong by blast
  let ?i = "length (is_clients (fst s1))" and ?ms = "is_sessions (fst s)"
  let ?rest = "try_then (on_client ?i (azure_Verify (im_net m))) (\<lambda>_.
     try_then (randomID m ''int'') (\<lambda>sid. try_then (randomID m ''csrf'') (\<lambda>sessionCSRF.
       register_session m req now ?i sid sessionCSRF)))"
  consider "s' = s" | "s' = s1" | client where "NewAzureClient (im_net m) req = Inr client"
      "or_close ?i ?rest (new_client client s1) = (r, s')"
    using assms(2) al by (auto simp: Connect_def try_then_def fail_def Let_def split: if_splits sum.splits)
  then show ?thesis
  proof cases
    case 3
    have "\<not> az_closed client"
      using 3(1) by (auto simp: NewAzureClient_def Let_def split: if_splits option.splits sum.splits)
    then have up: "setting_up ?n ?i ?ms (new_client client s1)"
      using setting_up_new [OF ok1, of client] same by simp
    obtain rr s2 where rest: "?rest (new_client client s1) = (rr, s2)" by (rule prod.exhaust)
    from setup_cases [OF up rest] show ?thesis
    proof (elim disjE exE conjE)
      fix e
      assume "rr = Inl e" "setting_up ?n ?i ?ms s2"
      then show ?thesis using 3(2) rest by (auto simp: or_close_def setting_up_def im_ok_close)
    next
      fix s3 sid c pub
      assume r: "rr = Inr (pub, c)" "setting_up ?n ?i ?ms s3" "register_session m req now ?i sid c s3 = (rr, s2)"
      then have "r = Inr (pub, c)" "s' = s2" using 3(2) rest by (auto simp: or_close_def)
      with r register_ok [of m ?i ?ms s3 req now sid c pub c s2] assms(3) show ?thesis by simp
    qed
  qed (use assms(1) ok1 in simp_all)
qed

section \<open>Reachable states\<close>

text \<open>
  What can happen to a manager. Connecting draws a random session identifier of 128 bits; a session
  that is already there is assumed not to have the same one.
\<close>

inductive im_step :: "'w integration_manager \<Rightarrow> 'w im \<Rightarrow> 'w im \<Rightarrow> bool" for m where
  connected: "Connect m req csrf key now s = (Inr (pub, c), s') \<Longrightarrow>
     lookup (is_sessions (fst s)) (as_id pub) = None \<Longrightarrow> im_step m s s'"
| refused: "Connect m req csrf key now s = (Inl e, s') \<Longrightarrow> im_step m s s'"
| disconnected: "im_step m s (Disconnect k s)"
| expired: "im_step m s (expireSessions now s)"
| closed: "im_step m s (integration_Close s)"
| viewed: "im_step m s (snd (SessionView k csrf now s))"
| listed: "im_step m s (snd (integration_ListApplications m k csrf now s))"
| app_created: "im_step m s (snd (integration_CreateApplication m k csrf areq now s))"
| secret_created: "im_step m s (snd (integration_CreateSecret m k csrf creq now s))"
| secret_read: "im_step m s (snd (integration_ReadSecret m k csrf rreq now s))"
| secret_invalidated: "im_step m s (snd (integration_InvalidateSecret m k csrf ireq now s))"

inductive im_reachable :: "'w integration_manager \<Rightarrow> 'w im \<Rightarrow> bool" for m where
  start: "im_reachable m (no_sessions, w)"
| step: "im_reachable m s \<Longrightarrow> im_step m s s' \<Longrightarrow> im_reachable m s'"

lemma im_ok_view:
  assumes "im_ok n {} (fst s)"
  shows "im_ok n {} (fst (snd (SessionView k csrf now s)))"
proof -
  obtain r s1 where l: "live_session k csrf now s = (r, s1)" by (rule prod.exhaust)
  from im_ok_live_session(1) [OF assms l] show ?thesis
    using l by (cases r) (simp_all add: SessionView_def try_then_def succeed_def)
qed

lemma im_step_ok: "im_step m s s' \<Longrightarrow> im_ok (im_max_sessions m) {} (fst s) \<Longrightarrow> im_ok (im_max_sessions m) {} (fst s')"
proof (induction rule: im_step.induct)
  case (connected req csrf key now s pub c s')
  then show ?case using im_ok_Connect [of m s req csrf key now "Inr (pub, c)" s'] by auto
next
  case (refused req csrf key now s e s')
  then show ?case using im_ok_Connect [of m s req csrf key now "Inl e" s'] by auto
qed (simp_all add: im_ok_Disconnect im_ok_expire im_ok_Close im_ok_view im_ok_ListApplications
      im_ok_CreateApplication im_ok_CreateSecret im_ok_ReadSecret im_ok_InvalidateSecret)

lemma im_reachable_ok: "im_reachable m s \<Longrightarrow> im_ok (im_max_sessions m) {} (fst s)"
  by (induction rule: im_reachable.induct) (auto simp: im_ok_start im_step_ok)

text \<open>
  C10. Customer credentials are held only by live sessions: in every state the manager can reach, there
  are at most \<open>im_max_sessions\<close> sessions, each under its own identifier with a client of its own, and
  every other client that was ever made, whether its connection failed, its session expired, was
  disconnected or the manager was closed, has lost its secret, its tokens and its vault.
\<close>

theorem credentials_only_in_sessions:
  assumes "im_reachable m s"
  shows "length (is_sessions (fst s)) \<le> im_max_sessions m \<and>
    (\<forall>i < length (is_clients (fst s)). cleared (is_clients (fst s) ! i) \<or>
       (\<exists>!k. \<exists>x. lookup (is_sessions (fst s)) k = Some x \<and> in_id x = k \<and> in_client x = i))"
proof -
  have ok: "im_ok (im_max_sessions m) {} (fst s)" using assms by (rule im_reachable_ok)
  note l = im_ok_linked [OF ok]
  have "cleared (is_clients (fst s) ! i) \<or>
       (\<exists>!k. \<exists>x. lookup (is_sessions (fst s)) k = Some x \<and> in_id x = k \<and> in_client x = i)"
    if i: "i < length (is_clients (fst s))" for i
  proof (cases "\<exists>k x. lookup (is_sessions (fst s)) k = Some x \<and> in_client x = i")
    case True
    then obtain k x where "lookup (is_sessions (fst s)) k = Some x" "in_client x = i" by blast
    then have "\<exists>!k. \<exists>x. lookup (is_sessions (fst s)) k = Some x \<and> in_id x = k \<and> in_client x = i"
      using linkedD(1,5) [OF l] by (intro ex1I [of _ k]) blast+
    then show ?thesis ..
  next
    case False
    then show ?thesis using linked_cleared [OF l i] by blast
  qed
  then show ?thesis using ok by (simp add: im_ok_def)
qed

end
