(* ===== verification/IntegrationProperties.thy ===== *)
theory IntegrationProperties
  imports IntegrationFacts
begin

text \<open>
  Properties of the interactive integration beyond its invariant: the limit of connection attempts,
  what a caller without a live session and its CSRF token gets, isolation of sessions, events
  without secrets, the memory of vault versions; and a concrete manager for the witnesses.
\<close>

section \<open>The limit of connection attempts\<close>

fun admitted :: "'w integration_manager \<Rightarrow> (string \<times> time) list \<Rightarrow> 'w im \<Rightarrow> (string \<times> time) list" where
  "admitted m [] s = []"
| "admitted m (a # as) s =
     (case allowConnection m (fst a) (snd a) s of
        (Inr _, s') \<Rightarrow> a # admitted m as s'
      | (Inl _, s') \<Rightarrow> admitted m as s')"

definition times_of :: "string \<Rightarrow> (string \<times> time) list \<Rightarrow> time list" where
  "times_of k h = map snd (filter (\<lambda>a. fst a = k) h)"

text \<open>How many of the attempts with a key fall into the hour that ends at \<open>t\<close>.\<close>

definition in_hour :: "string \<Rightarrow> time \<Rightarrow> (string \<times> time) list \<Rightarrow> nat" where
  "in_hour k t h = length (filter (\<lambda>x. t - hour < x \<and> x \<le> t) (times_of k h))"

definition window_ok :: "nat \<Rightarrow> (string \<times> time) list \<Rightarrow> 'w im \<Rightarrow> time \<Rightarrow> bool" where
  "window_ok n h s now \<longleftrightarrow> (\<forall>a \<in> set h. snd a \<le> now) \<and>
     (\<forall>k. \<exists>c \<le> now. slice_at (is_connections (fst s)) k = filter (\<lambda>x. c - hour < x) (times_of k h)) \<and>
     (\<forall>k t. in_hour k t h \<le> n)"

lemma times_of_snoc: "times_of k (h @ [a]) = times_of k h @ (if fst a = k then [snd a] else [])"
  by (simp add: times_of_def)

lemma times_of_past: "(\<forall>a \<in> set h. snd a \<le> now) \<Longrightarrow> x \<in> set (times_of k h) \<Longrightarrow> x \<le> now"
  by (auto simp: times_of_def)

lemma filter_later: "c \<le> now \<Longrightarrow> filter (\<lambda>x. now - hour < x) (filter (\<lambda>x. c - hour < (x :: int)) xs) = filter (\<lambda>x. now - hour < x) xs"
  by (auto intro: filter_cong)

lemma window_allow:
  assumes ok: "window_ok n h s past" and "past \<le> now" and n: "im_max_connections m = n"
    and al: "allowConnection m key now s = (r, s')"
  shows "window_ok n (case r of Inl _ \<Rightarrow> h | Inr _ \<Rightarrow> h @ [(key, now)]) s' now"
proof -
  have past: "\<forall>a \<in> set h. snd a \<le> now" using ok assms(2) unfolding window_ok_def by force
  obtain c where c: "c \<le> past" "slice_at (is_connections (fst s)) key = filter (\<lambda>x. c - hour < x) (times_of key h)"
    using ok unfolding window_ok_def by blast
  let ?kept = "filter (\<lambda>x. now - hour < x) (times_of key h)"
  have kept: "filter (\<lambda>attempt. now - hour < attempt) (slice_at (is_connections (fst s)) key) = ?kept"
    unfolding c(2) using c(1) assms(2) by (intro filter_later) simp
  have others: "\<exists>c \<le> now. slice_at (is_connections (fst s)) k = filter (\<lambda>x. c - hour < x) (times_of k h)" for k
    using ok assms(2) unfolding window_ok_def by (meson order_trans)
  have slice: "slice_at (put key v mp) k = (if k = key then v else slice_at mp k)" for v :: "time list" and mp k
    by (simp add: slice_at_def)
  show ?thesis
  proof (cases "n \<le> length ?kept")
    case True
    then have r: "r = Inl (sentinel_error ErrIntegrationRateLimited)"
      "is_connections (fst s') = put key ?kept (is_connections (fst s))"
      using al n kept by (auto simp: allowConnection_def Let_def)
    have "\<exists>c \<le> now. slice_at (is_connections (fst s')) k = filter (\<lambda>x. c - hour < x) (times_of k h)" for k
      unfolding r(2) slice using others [of k] by auto
    then show ?thesis using past ok r(1) by (simp add: window_ok_def)
  next
    case False
    then have r: "r = Inr ()" "is_connections (fst s') = put key (?kept @ [now]) (is_connections (fst s))"
      using al n kept by (auto simp: allowConnection_def Let_def)
    have conn: "\<exists>c \<le> now. slice_at (is_connections (fst s')) k = filter (\<lambda>x. c - hour < x) (times_of k (h @ [(key, now)]))" for k
    proof (cases "k = key")
      case True
      have "slice_at (is_connections (fst s')) k = filter (\<lambda>x. now - hour < x) (times_of k (h @ [(key, now)]))"
        unfolding r(2) slice times_of_snoc using True by (simp add: hour_def)
      then show ?thesis by blast
    next
      case False
      then show ?thesis unfolding r(2) slice times_of_snoc using others [of k] by simp
    qed
    have bound: "in_hour k t (h @ [(key, now)]) \<le> n" for k t
    proof (cases "k = key \<and> t - hour < now \<and> now \<le> t")
      case True
      have "filter (\<lambda>x. t - hour < x \<and> x \<le> t) (times_of key h) = filter (\<lambda>x. t - hour < x) ?kept"
        using True by (auto intro!: filter_cong dest: times_of_past [OF past])
      then have "length (filter (\<lambda>x. t - hour < x \<and> x \<le> t) (times_of key h)) \<le> length ?kept"
        by (metis length_filter_le)
      then show ?thesis using True False by (simp add: in_hour_def times_of_snoc)
    next
      case False
      then have "in_hour k t (h @ [(key, now)]) = in_hour k t h" by (auto simp: in_hour_def times_of_snoc)
      then show ?thesis using ok by (simp add: window_ok_def)
    qed
    show ?thesis using past conn bound r(1) by (auto simp: window_ok_def)
  qed
qed

lemma window_admitted:
  assumes "window_ok n h s past" "im_max_connections m = n" "sorted (past # map snd as)"
  shows "in_hour k t (h @ admitted m as s) \<le> n"
  using assms
proof (induction as arbitrary: h s past)
  case Nil
  then show ?case by (simp add: window_ok_def)
next
  case (Cons a as)
  obtain r s' where al: "allowConnection m (fst a) (snd a) s = (r, s')" by (rule prod.exhaust)
  have "past \<le> snd a" "sorted (snd a # map snd as)" using Cons.prems(3) by simp_all
  from Cons.IH [OF window_allow [OF Cons.prems(1) this(1) Cons.prems(2) al] Cons.prems(2) this(2)]
  show ?case by (cases r) (simp_all add: al)
qed

text \<open>
  C30. Connections are throttled per client address: as long as the clock does not go back, of any
  sequence of attempts at most \<open>im_max_connections\<close> with one key are admitted in any hour, wherever
  the hour begins.
\<close>

theorem connections_throttled:
  assumes "sorted (map snd as)"
  shows "in_hour k t (admitted m as (no_sessions, w)) \<le> im_max_connections m"
proof (cases as)
  case (Cons a bs)
  have "window_ok (im_max_connections m) [] (no_sessions, w) (snd a)"
    by (auto simp: window_ok_def no_sessions_def times_of_def in_hour_def)
  from window_admitted [OF this refl, of as k t] Cons assms show ?thesis by simp
qed (simp add: in_hour_def times_of_def)

section \<open>Without a live session\<close>

text \<open>Every operation answers the error, does nothing else, and leaves the state \<open>s'\<close>.\<close>

definition refused :: "'w integration_manager \<Rightarrow> string \<Rightarrow> string \<Rightarrow> time \<Rightarrow> 'w im \<Rightarrow> sentinel \<Rightarrow> 'w im \<Rightarrow> bool" where
  "refused m k csrf now s e s' \<longleftrightarrow>
     SessionView k csrf now s = (Inl (sentinel_error e), s') \<and>
     integration_ListApplications m k csrf now s = (([], None, Inl (sentinel_error e)), s') \<and>
     (\<forall>req. integration_CreateApplication m k csrf req now s = ((no_application, zero_receipt, Inl (sentinel_error e)), s')) \<and>
     (\<forall>req. integration_CreateSecret m k csrf req now s = ((no_secret, zero_receipt, Inl (sentinel_error e)), s')) \<and>
     (\<forall>req. integration_ReadSecret m k csrf req now s = ((no_secret, zero_receipt, Inl (sentinel_error e)), s')) \<and>
     (\<forall>req. integration_InvalidateSecret m k csrf req now s = ((no_credential, zero_receipt, Inl (sentinel_error e)), s'))"

lemma refusedI: "live_session k csrf now s = (Inl (sentinel_error e), s') \<Longrightarrow> refused m k csrf now s e s'"
  by (simp add: refused_def SessionView_def integration_ListApplications_def integration_CreateApplication_def
      integration_CreateSecret_def integration_ReadSecret_def integration_InvalidateSecret_def)


section \<open>Isolation\<close>

text \<open>The session \<open>k\<close> and its client are as they were.\<close>

definition session_kept :: "string \<Rightarrow> 'w im \<Rightarrow> 'w im \<Rightarrow> bool" where
  "session_kept k s s' \<longleftrightarrow> lookup (is_sessions (fst s')) k = lookup (is_sessions (fst s)) k \<and>
     (\<forall>x. lookup (is_sessions (fst s)) k = Some x \<longrightarrow>
        is_clients (fst s') ! in_client x = is_clients (fst s) ! in_client x)"

lemma session_kept_refl [simp]: "session_kept k s s"
  by (simp add: session_kept_def)

lemma session_kept_trans: "session_kept k s s1 \<Longrightarrow> session_kept k s1 s2 \<Longrightarrow> session_kept k s s2"
  by (simp add: session_kept_def)

lemma session_kept_state: "fst s' = fst s1 \<Longrightarrow> session_kept k s s1 \<Longrightarrow> session_kept k s s'"
  by (simp add: session_kept_def)

lemma session_kept_on_client:
  assumes "\<And>x. lookup (is_sessions (fst s)) k = Some x \<Longrightarrow> in_client x \<noteq> i"
  shows "session_kept k s (snd (on_client i f s))"
  using assms by (auto simp: session_kept_def on_client_def split: prod.splits)

lemma session_kept_refs: "k' \<noteq> k \<Longrightarrow> session_kept k s (change_refs k' f s)"
  by (auto simp: session_kept_def change_refs_def set_session_def split: option.splits)

lemma session_kept_record: "k' \<noteq> k \<Longrightarrow> session_kept k s (record_ref k' key ref s)"
  by (simp add: record_ref_def session_kept_refs split: option.splits)

lemma session_kept_drop:
  assumes "k' \<noteq> k" "\<And>x. lookup (is_sessions (fst s)) k = Some x \<Longrightarrow> in_client x \<noteq> i"
  shows "session_kept k s (close_client i (drop_session k' s))"
  using assms by (auto simp: session_kept_def close_client_def drop_session_def)

lemma other_client:
  assumes "im_ok n {} (fst s)" "lookup (is_sessions (fst s)) k' = Some x'" "k' \<noteq> k"
    and "lookup (is_sessions (fst s)) k = Some x"
  shows "in_client x \<noteq> in_client x'"
  using linkedD(5) [OF im_ok_linked [OF assms(1)] assms(4,2)] assms(3) by blast

lemma session_kept_live:
  assumes "im_ok n {} (fst s)" "k' \<noteq> k" "live_session k' csrf now s = (r, s')"
  shows "session_kept k s s'"
  using assms(3) other_client [OF assms(1) _ assms(2)]
  by (auto simp: live_session_def intro!: session_kept_drop assms(2) split: option.splits if_splits)

lemma session_kept_op:
  assumes ok: "im_ok n {} (fst s)" "k' \<noteq> k" and l: "live_session k' csrf now s = (Inr x, s1)"
  shows "session_kept k s (snd (on_client (in_client x) f s1))"
proof -
  have x: "s1 = s" "lookup (is_sessions (fst s)) k' = Some x" using im_ok_live_session(2) [OF ok(1) l] by simp_all
  show ?thesis unfolding x(1) using other_client [OF ok(1) x(2) ok(2)] by (intro session_kept_on_client) blast
qed

lemma session_kept_view:
  assumes "im_ok n {} (fst s)" "k' \<noteq> k"
  shows "session_kept k s (snd (SessionView k' csrf now s))"
proof -
  obtain r s1 where l: "live_session k' csrf now s = (r, s1)" by (rule prod.exhaust)
  from session_kept_live [OF assms l] l show ?thesis
    by (cases r) (simp_all add: SessionView_def try_then_def succeed_def)
qed

lemma session_kept_receipt: "session_kept k s s1 \<Longrightarrow> session_kept k s (snd (with_receipt a (receipt m t x d now s1)))"
  by (rule session_kept_state) simp_all

lemma session_kept_ListApplications:
  assumes "im_ok n {} (fst s)" "k' \<noteq> k"
  shows "session_kept k s (snd (integration_ListApplications m k' csrf now s))"
proof -
  obtain r s1 where l: "live_session k' csrf now s = (r, s1)" by (rule prod.exhaust)
  show ?thesis
  proof (cases r)
    case (Inr x)
    obtain r2 s2 where c: "on_client (in_client x) (azure_ListApplications (im_net m)) s1 = (r2, s2)" by (rule prod.exhaust)
    then have u: "session_kept k s s2" using session_kept_op [OF assms l [unfolded Inr]] by (metis snd_conv)
    obtain rc e s3 where r3: "receipt m EventIntegrationConnected [] [(''operation'', ''list_applications'')] now s2 = ((rc, e), s3)"
      by (metis surj_pair)
    have "session_kept k s s3"
      using u receipt_state [of m EventIntegrationConnected "[]" "[(''operation'', ''list_applications'')]" now s2] r3
      by (intro session_kept_state [OF _ u]) simp
    then show ?thesis using u c l Inr r3 by (cases r2) (simp_all add: integration_ListApplications_def)
  qed (use session_kept_live [OF assms l] l in \<open>simp add: integration_ListApplications_def\<close>)
qed

lemma session_kept_CreateApplication:
  assumes "im_ok n {} (fst s)" "k' \<noteq> k"
  shows "session_kept k s (snd (integration_CreateApplication m k' csrf req now s))"
proof -
  obtain r s1 where l: "live_session k' csrf now s = (r, s1)" by (rule prod.exhaust)
  show ?thesis
  proof (cases r)
    case (Inr x)
    obtain r2 s2 where c: "on_client (in_client x) (azure_CreateApplication (im_net m) req) s1 = (r2, s2)" by (rule prod.exhaust)
    then have u: "session_kept k s s2" using session_kept_op [OF assms l [unfolded Inr]] by (metis snd_conv)
    show ?thesis using u c l Inr by (cases r2) (simp_all add: integration_CreateApplication_def session_kept_receipt)
  qed (use session_kept_live [OF assms l] l in \<open>simp add: integration_CreateApplication_def\<close>)
qed

lemma session_kept_CreateSecret:
  assumes "im_ok n {} (fst s)" "k' \<noteq> k"
  shows "session_kept k s (snd (integration_CreateSecret m k' csrf req now s))"
proof -
  obtain r s1 where l: "live_session k' csrf now s = (r, s1)" by (rule prod.exhaust)
  show ?thesis
  proof (cases r)
    case (Inr x)
    let ?f = "azure_CreateSecret (im_net m) req (if asc_store_in_vault req then in_vault x else None)"
    obtain r2 s2 where c: "on_client (in_client x) ?f s1 = (r2, s2)" by (rule prod.exhaust)
    then have u: "session_kept k s s2" using session_kept_op [OF assms l [unfolded Inr]] by (metis snd_conv)
    have "session_kept k s (record_ref k' key ref s2)" for key ref
      by (rule session_kept_trans [OF u session_kept_record [OF assms(2)]])
    then show ?thesis using u c l Inr session_kept_live [OF assms l]
      by (cases r2) (simp_all add: integration_CreateSecret_def Let_def session_kept_receipt)
  qed (use session_kept_live [OF assms l] l in \<open>simp add: integration_CreateSecret_def\<close>)
qed

lemma session_kept_ReadSecret:
  assumes "im_ok n {} (fst s)" "k' \<noteq> k"
  shows "session_kept k s (snd (integration_ReadSecret m k' csrf req now s))"
proof -
  obtain r s1 where l: "live_session k' csrf now s = (r, s1)" by (rule prod.exhaust)
  show ?thesis
  proof (cases r)
    case (Inr x)
    let ?req = "req\<lparr>arr_version := recorded_version k' (vaultRefKey (arr_application_object_id req) (arr_key_id req)) (arr_version req) s1\<rparr>"
    obtain r2 s2 where c: "on_client (in_client x) (azure_ReadSecret (im_net m) ?req) s1 = (r2, s2)" by (rule prod.exhaust)
    then have u: "session_kept k s s2" using session_kept_op [OF assms l [unfolded Inr]] by (metis snd_conv)
    have "session_kept k s (record_ref k' key ref s2)" for key ref
      by (rule session_kept_trans [OF u session_kept_record [OF assms(2)]])
    then show ?thesis using u c l Inr
      by (cases r2) (simp_all add: integration_ReadSecret_def Let_def session_kept_receipt)
  qed (use session_kept_live [OF assms l] l in \<open>simp add: integration_ReadSecret_def\<close>)
qed

lemma session_kept_InvalidateSecret:
  assumes "im_ok n {} (fst s)" "k' \<noteq> k"
  shows "session_kept k s (snd (integration_InvalidateSecret m k' csrf req now s))"
proof -
  obtain r s1 where l: "live_session k' csrf now s = (r, s1)" by (rule prod.exhaust)
  show ?thesis
  proof (cases r)
    case (Inr x)
    let ?req = "req\<lparr>air_version := recorded_version k' (vaultRefKey (air_application_object_id req) (air_key_id req)) (air_version req) s1\<rparr>"
    obtain cr r2 s2 where c: "on_client (in_client x) (azure_InvalidateSecret (im_net m) ?req) s1 = ((cr, r2), s2)"
      by (metis surj_pair)
    then have u: "session_kept k s s2" using session_kept_op [OF assms l [unfolded Inr]] by (metis snd_conv)
    have "session_kept k s (change_refs k' f s2)" for f
      by (rule session_kept_trans [OF u session_kept_refs [OF assms(2)]])
    then show ?thesis using u c l Inr
      by (cases r2) (simp_all add: integration_InvalidateSecret_def Let_def session_kept_receipt)
  qed (use session_kept_live [OF assms l] l in \<open>simp add: integration_InvalidateSecret_def\<close>)
qed

lemma session_kept_Disconnect:
  assumes "im_ok n {} (fst s)" "k' \<noteq> k"
  shows "session_kept k s (Disconnect k' s)"
  using other_client [OF assms(1) _ assms(2)]
  by (auto simp: Disconnect_def drop_none intro!: session_kept_drop assms(2) split: option.splits)

text \<open>
  C19. Sessions do not reach into each other: whatever is done in one session, its end included, leaves
  every other session, its recorded vault references and its client exactly as they were.
\<close>

theorem sessions_isolated:
  assumes "im_reachable m s" "k' \<noteq> k"
  shows "session_kept k s (Disconnect k' s) \<and>
    session_kept k s (snd (SessionView k' csrf now s)) \<and>
    session_kept k s (snd (integration_ListApplications m k' csrf now s)) \<and>
    (\<forall>req. session_kept k s (snd (integration_CreateApplication m k' csrf req now s))) \<and>
    (\<forall>req. session_kept k s (snd (integration_CreateSecret m k' csrf req now s))) \<and>
    (\<forall>req. session_kept k s (snd (integration_ReadSecret m k' csrf req now s))) \<and>
    (\<forall>req. session_kept k s (snd (integration_InvalidateSecret m k' csrf req now s)))"
  using im_reachable_ok [OF assms(1)] assms(2)
  by (auto intro: session_kept_Disconnect session_kept_view session_kept_ListApplications session_kept_CreateApplication
      session_kept_CreateSecret session_kept_ReadSecret session_kept_InvalidateSecret)

section \<open>Events\<close>

text \<open>Two publishers that agree on every event without secrets.\<close>

lemma redact_unchanged: "redactAuditText v = v \<longleftrightarrow> \<not> has_marker v"
  using redacted_no_marker [of v] by (auto simp: redactAuditText_def)

lemma validated_safe: "validateIntegrationEvent e = Inr () \<Longrightarrow> safe_details (ie_details e)"
  by (auto simp: validateIntegrationEvent_def safe_details_def list_all_iff redact_unchanged find_None_iff
      split: option.splits if_splits)

lemma receipt_safe:
  assumes "\<And>e w. safe_details (ie_details e) \<Longrightarrow> publish e w = im_publish m e w"
  shows "receipt (m\<lparr>im_publish := publish\<rparr>) t a d now s = receipt m t a d now s"
proof -
  have r: "randomID (m\<lparr>im_publish := publish\<rparr>) p s = randomID m p s" for p s by (simp add: randomID_def)
  have "publish_receipt (m\<lparr>im_publish := publish\<rparr>) e s = publish_receipt m e s"
    if "validateIntegrationEvent e = Inr ()" for e s
    using assms [OF validated_safe [OF that]] by (simp add: publish_receipt_def)
  then show ?thesis by (auto simp: receipt_def r Let_def split: prod.splits sum.splits)
qed


section \<open>Vault versions\<close>

lemma lookup_changed: "lookup (is_sessions (fst s)) k = Some x \<Longrightarrow> vault_refs k (change_refs k f s) = f (in_vault_refs x)"
  by (simp add: change_refs_def set_session_def vault_refs_def)

text \<open>
  A session remembers where it put a secret: after a secret was created with a copy in the vault,
  reading or invalidating it without naming a version goes to the version that was stored, and
  listing shows the reference.
\<close>

theorem stored_version_remembered:
  assumes "integration_CreateSecret m k csrf req now s = ((res, rc, e), s')" "asr_vault res = Some ref"
  defines "key \<equiv> vaultRefKey (asc_application_object_id req) (acr_key_id (asr_credential res))"
  shows "lookup (vault_refs k s') key = Some ref \<and> recorded_version k key [] s' = vr_version ref"
proof -
  obtain r s1 where l: "live_session k csrf now s = (r, s1)" by (rule prod.exhaust)
  obtain x where r: "r = Inr x" using assms(1,2) l by (cases r) (auto simp: integration_CreateSecret_def no_secret_def)
  let ?f = "azure_CreateSecret (im_net m) req (if asc_store_in_vault req then in_vault x else None)"
  obtain r2 s2 where c: "on_client (in_client x) ?f s1 = (r2, s2)" by (rule prod.exhaust)
  have r2: "r2 = Inr res" and s': "fst s' = fst (record_ref k key (Some ref) s2)"
  proof -
    show "r2 = Inr res" using assms(1,2) l r c
      by (cases r2) (auto simp: integration_CreateSecret_def no_secret_def with_receipt_def Let_def split: if_splits prod.splits)
    with assms(1) l r c have "s' = snd (with_receipt res (receipt m EventSecretCreated (asc_application_object_id req)
          ([(''key_id'', acr_key_id (asr_credential res)), (''stored_in_vault'', bool_text (asr_vault res \<noteq> None))] @
           ref_details (asr_vault res)) now (record_ref k key (asr_vault res) s2)))"
      using assms(2) by (auto simp: integration_CreateSecret_def no_secret_def key_def Let_def split: if_splits)
    then show "fst s' = fst (record_ref k key (Some ref) s2)" using assms(2) by simp
  qed
  have "s1 = s" "lookup (is_sessions (fst s)) k = Some x"
    using l r by (auto simp: live_session_def split: option.splits if_splits)
  then have "lookup (is_sessions (fst s2)) k = Some x"
    using c on_client_sessions [of "in_client x" ?f s1] by simp
  then have "vault_refs k (record_ref k key (Some ref) s2) = put key ref (in_vault_refs x)"
    by (simp add: record_ref_def lookup_changed)
  then have "vault_refs k s' = put key ref (in_vault_refs x)" using s' by (simp add: vault_refs_def)
  then show ?thesis by (simp add: recorded_version_def)
qed

text \<open>
  Reading forgets it: the reference that a read returns takes its version from the body of the answer only.
  When the vault names the version just in the identifier, as Key Vault does, the version recorded
  afterwards is empty.
\<close>

lemma read_without_version:
  assumes "\<And>d r. an_vault_secret net d = Inr r \<Longrightarrow> kvs_version r = []"
    and "vault_Read net v a k version s = (Inr (secret, ref), s')"
  shows "vr_version ref = []"
proof -
  let ?path = "secret_path (secretName v a k) @ (if version = [] then [] else ''/'' @ path_escape version)"
  obtain r s1 where r: "vault_request net v (an_vault_secret net) zero_vault_secret ''GET'' ?path NoBody s = (Inr r, s1)"
    and ref: "vr_version ref = kvs_version r"
    using assms(2) unfolding vault_Read_def Let_def
    by (auto elim!: try_then_Inr simp: fail_def succeed_def split: if_splits)
  obtain t s2 where "vault_send net v (an_vault_secret net) zero_vault_secret ''GET'' ?path NoBody t s2 = (Inr r, s1)"
    using r unfolding vault_request_def by (rule try_then_Inr)
  then have "r = zero_vault_secret \<or> (\<exists>d. an_vault_secret net d = Inr r)"
    by (auto simp: vault_send_def Let_def split: prod.splits sum.splits if_splits)
  then show ?thesis using ref assms(1) by (auto simp: zero_vault_secret_def)
qed

section \<open>Names with a marker of a secret\<close>

text \<open>
  An application whose name contains a marker, such as "Password portal", is created and then reported
  as an error without a receipt, since its event is refused.
\<close>

lemma marked_name_refused_after_creation:
  assumes "live_session k csrf now s = (Inr x, s1)"
    and "on_client (in_client x) (azure_CreateApplication (im_net m) req) s1 = (Inr a, s2)"
    and "has_marker (aa_display_name a)"
  shows "\<exists>e s3. integration_CreateApplication m k csrf req now s = ((a, zero_receipt, Inl e), s3)"
proof -
  have "\<not> sensitiveAuditKey ''display_name''" by code_simp
  moreover have "redactAuditText (aa_display_name a) \<noteq> aa_display_name a" using assms(3) redact_unchanged by simp
  ultimately have bad: "validateIntegrationEvent ev \<noteq> Inr u"
    if "ie_details ev = [(''display_name'', aa_display_name a)]" for ev u
    using that by (simp add: validateIntegrationEvent_def)
  have "\<exists>e s3. receipt m EventApplicationCreated (aa_object_id a) [(''display_name'', aa_display_name a)] now s2 =
      ((zero_receipt, Inl e), s3)"
    using bad by (auto simp: receipt_def Let_def split: prod.splits sum.splits)
  then show ?thesis using assms(1,2) by (auto simp: integration_CreateApplication_def with_receipt_def)
qed

section \<open>Witnesses\<close>

definition demo_manager :: "nat integration_manager" where
  "demo_manager = \<lparr>im_net = any_tenant, im_publish = (\<lambda>e w. (Inr (), w)), im_rand = (\<lambda>w. (Inr [char_of w], w + 1)),
     im_ttl = 10 * minute, im_max_connections = 5, im_max_sessions = 50\<rparr>"

definition demo_enter :: "nat im \<Rightarrow> (azure_integration_session \<times> string) result \<times> nat im" where
  "demo_enter = try_then (allowConnection demo_manager ''ip'' 0) (\<lambda>_ s.
     (let i = length (is_clients (fst s)) in
      or_close i
        (try_then (on_client i (azure_Verify any_tenant)) (\<lambda>_.
         try_then (randomID demo_manager ''int'') (\<lambda>sid.
         try_then (randomID demo_manager ''csrf'') (\<lambda>sessionCSRF.
           register_session demo_manager demo_connect 0 i sid sessionCSRF))))
        (new_client demo_client s)))"

lemma demo_Connect: "Connect demo_manager demo_connect ''c'' ''ip'' 0 = demo_enter"
proof -
  have "trim_space ''c'' = ''c''" by code_simp
  then show ?thesis by (simp add: Connect_def demo_enter_def demo_manager_def demo_new)
qed

definition demo_verified :: azure_client where
  "demo_verified = demo_client\<lparr>az_tokens := [(graph_scope, \<lparr>at_value = ''t'', at_expires_at = 3600000000000\<rparr>)],
     az_calling_object_ids := [demo_guid], az_calling_sp_id := demo_guid\<rparr>"

lemma demo_verify: "azure_Verify any_tenant (demo_client, w :: nat) = (Inr (), (demo_verified, w))"
  by code_simp

definition demo_session :: "string \<Rightarrow> string \<Rightarrow> nat \<Rightarrow> integration_session" where
  "demo_session sid csrf i = \<lparr>in_id = sid, in_csrf = csrf, in_expires_at = 10 * minute, in_client = i, in_vault = None,
     in_vault_refs = [], in_public = public_view sid demo_connect (10 * minute)\<rparr>"

definition demo_im :: "nat im" where
  "demo_im = (\<lparr>is_sessions = [(''int-00'', demo_session ''int-00'' ''csrf-01'' 0)],
     is_connections = [(''ip'', [0])], is_clients = [demo_verified]\<rparr>, 2)"

lemma demo_first: "demo_enter (no_sessions, 0) = (Inr (public_view ''int-00'' demo_connect (10 * minute), ''csrf-01''), demo_im)"
proof -
  have "hex_encode [char_of (0 :: nat)] = ''00''" "hex_encode [char_of (1 :: nat)] = ''01''" by code_simp+
  then show ?thesis
    by (simp add: demo_enter_def allowConnection_def no_sessions_def demo_manager_def slice_at_def or_close_def
        new_client_def on_client_def demo_verify randomID_def register_session_def set_session_def demo_im_def
        demo_session_def demo_connect_def Let_def try_then_def)
qed

lemma demo_reachable: "im_reachable demo_manager demo_im"
proof -
  have "Connect demo_manager demo_connect ''c'' ''ip'' 0 (no_sessions, 0) =
      (Inr (public_view ''int-00'' demo_connect (10 * minute), ''csrf-01''), demo_im)"
    using demo_first by (simp add: demo_Connect)
  from im_step.connected [OF this] show ?thesis
    by (intro im_reachable.step [OF im_reachable.start]) (simp add: no_sessions_def)
qed

theorem credentials_only_in_sessions_witness:
  "cleared demo_verified \<or> (\<exists>!k. \<exists>x. lookup (is_sessions (fst demo_im)) k = Some x \<and> in_id x = k \<and> in_client x = 0)"
  using credentials_only_in_sessions [OF demo_reachable] by (simp add: demo_im_def)

theorem connections_throttled_witness:
  "in_hour ''ip'' hour (admitted demo_manager [(''ip'', 0), (''ip'', 1), (''ip'', 2), (''ip'', 3), (''ip'', 4), (''ip'', 5)]
     (no_sessions, 0)) \<le> 5"
  using connections_throttled [of "[(''ip'', 0), (''ip'', 1), (''ip'', 2), (''ip'', 3), (''ip'', 4), (''ip'', 5)]"
      "''ip''" hour demo_manager 0]
  by (simp add: demo_manager_def)


definition demo_im2 :: "nat im" where
  "demo_im2 = (\<lparr>is_sessions = [(''int-00'', demo_session ''int-00'' ''csrf-01'' 0), (''int-02'', demo_session ''int-02'' ''csrf-03'' 1)],
     is_connections = [(''ip'', [0, 0])], is_clients = [demo_verified, demo_verified]\<rparr>, 4)"

lemma demo_second: "demo_enter demo_im = (Inr (public_view ''int-02'' demo_connect (10 * minute), ''csrf-03''), demo_im2)"
proof -
  have "hex_encode [char_of (2 :: nat)] = ''02''" "hex_encode [char_of (3 :: nat)] = ''03''" by code_simp+
  then show ?thesis
    by (simp add: demo_enter_def allowConnection_def demo_im_def demo_im2_def demo_manager_def slice_at_def or_close_def
        new_client_def on_client_def demo_verify randomID_def register_session_def set_session_def hour_def
        demo_session_def demo_connect_def Let_def try_then_def)
qed

lemma demo_reachable2: "im_reachable demo_manager demo_im2"
proof -
  have "Connect demo_manager demo_connect ''c'' ''ip'' 0 demo_im =
      (Inr (public_view ''int-02'' demo_connect (10 * minute), ''csrf-03''), demo_im2)"
    using demo_second by (simp add: demo_Connect)
  from im_step.connected [OF this] show ?thesis
    by (intro im_reachable.step [OF demo_reachable]) (simp add: demo_im_def public_view_def)
qed

theorem sessions_isolated_witness:
  "lookup (is_sessions (fst demo_im2)) ''int-00'' \<noteq> None \<and> lookup (is_sessions (fst demo_im2)) ''int-02'' \<noteq> None \<and>
   session_kept ''int-00'' demo_im2 (Disconnect ''int-02'' demo_im2)"
proof -
  have "session_kept ''int-00'' demo_im2 (Disconnect ''int-02'' demo_im2)"
    using sessions_isolated [OF demo_reachable2, of "''int-02''" "''int-00''"] by simp
  then show ?thesis by (simp add: demo_im2_def)
qed

definition strict_publish :: "azure_integration_event \<Rightarrow> nat \<Rightarrow> unit result \<times> nat" where
  "strict_publish e w = (if safe_details (ie_details e) then Inr () else Inl (plain_error ''unsafe''), w)"


definition vault_net :: "nat azure_net" where
  "vault_net = any_tenant\<lparr>an_parse_url := (\<lambda>u. Some \<lparr>vu_scheme = ''https'', vu_host = ''v.vault.azure.net'',
     vu_hostname = ''v.vault.azure.net'', vu_has_user = False, vu_raw_query = [], vu_fragment = [], vu_text = u\<rparr>),
     an_vault_secret := (\<lambda>t. Inr (zero_vault_secret\<lparr>kvs_value := ''s'', kvs_version := ''v1''\<rparr>))\<rparr>"

definition demo_vault_im :: "nat im" where
  "demo_vault_im = (\<lparr>is_sessions = [(''k'', (demo_session ''k'' ''csrf'' 0)\<lparr>in_vault := Some demo_vault\<rparr>)], is_connections = [],
     is_clients = [demo_verified\<lparr>az_created_objects := [demo_guid],
       az_vault := Some \<lparr>kv_base_url = ''https://v.vault.azure.net'', kv_secret_prefix = ''mutandae''\<rparr>\<rparr>]\<rparr>, 0)"

definition stored_request :: azure_secret_create_request where
  "stored_request = \<lparr>asc_application_object_id = demo_guid, asc_display_name = ''key'', asc_expires_at = 0,
     asc_store_in_vault = True\<rparr>"

definition has_ref :: "azure_secret_result result \<Rightarrow> bool" where
  "has_ref r = (case r of Inl _ \<Rightarrow> False | Inr res \<Rightarrow> asr_vault res \<noteq> None)"

lemma vault_stores: "has_ref (fst (azure_CreateSecret vault_net stored_request (Some demo_vault) (is_clients (fst demo_vault_im) ! 0, 0)))"
  by code_simp

lemma demo_stores: "\<exists>res rc e s' ref. integration_CreateSecret (demo_manager\<lparr>im_net := vault_net\<rparr>) ''k'' ''csrf'' stored_request 0 demo_vault_im
   = ((res, rc, e), s') \<and> asr_vault res = Some ref"
proof -
  have live: "live_session ''k'' ''csrf'' 0 demo_vault_im =
      (Inr ((demo_session ''k'' ''csrf'' 0)\<lparr>in_vault := Some demo_vault\<rparr>), demo_vault_im)"
    by (simp add: live_session_def demo_vault_im_def demo_session_def minute_def)
  obtain r s2 where c: "on_client 0 (azure_CreateSecret vault_net stored_request (Some demo_vault)) demo_vault_im = (r, s2)"
    by (rule prod.exhaust)
  have "snd demo_vault_im = 0" by (simp add: demo_vault_im_def)
  then have "has_ref r" using c vault_stores by (auto simp: on_client_def split: prod.splits)
  then obtain res ref where "r = Inr res" "asr_vault res = Some ref" by (auto simp: has_ref_def split: sum.splits)
  then show ?thesis using live c
    by (simp add: integration_CreateSecret_def stored_request_def demo_session_def with_receipt_def Let_def split: prod.split)
qed

theorem stored_version_remembered_witness:
  "\<exists>res rc e s'. integration_CreateSecret (demo_manager\<lparr>im_net := vault_net\<rparr>) ''k'' ''csrf'' stored_request 0 demo_vault_im
     = ((res, rc, e), s') \<and> recorded_version ''k'' (vaultRefKey demo_guid (acr_key_id (asr_credential res))) [] s' = vr_version (the (asr_vault res))"
proof -
  obtain res rc e s' ref where run:
    "integration_CreateSecret (demo_manager\<lparr>im_net := vault_net\<rparr>) ''k'' ''csrf'' stored_request 0 demo_vault_im = ((res, rc, e), s')"
    and ref: "asr_vault res = Some ref"
    using demo_stores by blast
  have "asc_application_object_id stored_request = demo_guid" by (simp add: stored_request_def)
  with stored_version_remembered [OF run ref] run ref show ?thesis by auto
qed

end
