(* ===== verification/Views.thy ===== *)
theory Views
  imports Store Lifecycle Auth Calendar Float64
begin

text \<open>
  What the pages show (internal/web/server.go from \<open>chromeData\<close> on, internal/config/config.go and
  internal/buildinfo): the runtime description, the view of an identity, the summaries of providers, the
  counters of the dashboard and the furniture of a page. The HTML templates that print these
  values are not modelled. Instants are in UTC.
\<close>

section \<open>Configuration\<close>

record provider_descriptor =
  pd_kind :: string
  pd_label :: string
  pd_scope :: string
  pd_allow :: "string list"
  pd_deny :: "string list"

record configuration =
  cf_service :: string
  cf_protocol_version :: string
  cf_media_type :: string
  cf_environment :: string
  cf_provider :: string
  cf_persistence :: string
  cf_read_only :: bool
  cf_features :: "string list"
  cf_providers :: "provider_descriptor list"
  cf_updated_at :: time

record public_config =
  pc_environment :: string
  pc_persistence :: string
  pc_provider :: string
  pc_auth_mode :: string
  pc_auth_roles :: "string list"
  pc_tokens_configured :: bool
  pc_providers :: "provider_descriptor list"
  pc_features :: "string list"

definition Configuration :: "public_config \<Rightarrow> time \<Rightarrow> configuration" where
  "Configuration p now =
     (let environment = (if pc_environment p = [] then ''preview'' else pc_environment p);
          persistence = (if pc_persistence p = [] then ''in-memory'' else pc_persistence p);
          provider = (if pc_provider p = [] then ''multi-cloud (azure-entra, aws-iam, gcp-iam simulated)''
                      else pc_provider p);
          features =
            [''Multi-cloud simulator for the public lifecycle inventory'',
             ''Azure/Entra ID, AWS IAM, and GCP IAM adapters'',
             ''Protocol v1'',
             ''Optional ephemeral Azure Graph integration'',
             ''Graph mutations constrained by Application.ReadWrite.OwnedBy'',
             ''Customer credentials never persisted by Mutandae'',
             ''Read-only deployment configuration''] @ pc_features p @
            (if persistence = ''redis'' then
               [''Redis snapshot persistence'', ''Redis pub/sub change propagation'', ''Redacted integration event receipts'']
             else [''Process-local demo state''])
      in \<lparr>cf_service = ''mutandae-control-plane'', cf_protocol_version = Version, cf_media_type = MediaType,
          cf_environment = environment, cf_provider = provider, cf_persistence = persistence,
          cf_read_only = True, cf_features = features, cf_providers = pc_providers p, cf_updated_at = now\<rparr>)"

definition ValidateAuthMode :: "string \<Rightarrow> string \<Rightarrow> string list result" where
  "ValidateAuthMode environment mode0 =
     (let m = to_lower (trim_space mode0); mode = (if m = [] then ''none'' else m) in
      if mode \<notin> {''none'', ''oidc'', ''token''} then
        Inl (plain_error (''MUTANDAE_AUTH_MODE must be none, oidc, or token (got '' @ quoted mode @ '')''))
      else Inr (if equal_fold (trim_space environment) ''live'' \<and> mode = ''none'' then
        [''MUTANDAE_AUTH_MODE=none: this deployment accepts unauthenticated traffic. '' @
         ''The hosted demo runs this way on purpose (rate-limited, scoped to the '' @
         ''mutandae-demo-* namespace). Any deployment governing real identities '' @
         ''beyond that scope must set MUTANDAE_AUTH_MODE=oidc or token.''] else []))"

text \<open>
  The configuration service of the server: the Public value of package config, whose descriptors
  the pages read by a type assertion, or any other service.
\<close>

datatype config_service = PublicConfig public_config | OtherConfig configuration

definition service_configuration :: "config_service \<Rightarrow> time \<Rightarrow> configuration" where
  "service_configuration s now = (case s of PublicConfig p \<Rightarrow> Configuration p now | OtherConfig c \<Rightarrow> c)"

definition wiredProviderDescriptors :: "config_service option \<Rightarrow> provider_descriptor list" where
  "wiredProviderDescriptors s = (case s of Some (PublicConfig p) \<Rightarrow> pc_providers p | _ \<Rightarrow> [])"

definition clusterVaultEnabled :: "config_service option \<Rightarrow> time \<Rightarrow> bool" where
  "clusterVaultEnabled s now =
     (case s of None \<Rightarrow> False | Some c \<Rightarrow> ''vault:cluster'' \<in> set (cf_features (service_configuration c now)))"

section \<open>The build\<close>

record build =
  bu_revision :: string
  bu_dirty :: bool

text \<open>
  Current: the revision set by the linker, else the settings the toolchain stamped, a later setting of one
  key overriding an earlier one.
\<close>

definition Current :: "string \<Rightarrow> (string \<times> string) list option \<Rightarrow> build" where
  "Current Revision settings =
     (if Revision \<noteq> [] then \<lparr>bu_revision = Revision, bu_dirty = False\<rparr>
      else case settings of
        None \<Rightarrow> \<lparr>bu_revision = [], bu_dirty = False\<rparr>
      | Some kvs \<Rightarrow> fold (\<lambda>(k, v) b.
          if k = ''vcs.revision'' then b\<lparr>bu_revision := v\<rparr>
          else if k = ''vcs.modified'' then b\<lparr>bu_dirty := (v = ''true'')\<rparr> else b) kvs
          \<lparr>bu_revision = [], bu_dirty = False\<rparr>)"

definition Short :: "build \<Rightarrow> string" where
  "Short b = (if bu_revision b = [] then ''unknown''
     else if length (bu_revision b) < 7 then bu_revision b else take 7 (bu_revision b))"

definition URL :: "build \<Rightarrow> string" where
  "URL b = (if bu_revision b = [] then [] else ''https://github.com/macel94/mutandae/commit/'' @ bu_revision b)"

record build_view =
  bv_short :: string
  bv_url :: string
  bv_dirty :: bool

definition toBuildView :: "build \<Rightarrow> build_view" where
  "toBuildView b = \<lparr>bv_short = Short b, bv_url = URL b, bv_dirty = bu_dirty b\<rparr>"

section \<open>Labels\<close>

definition providerLabel :: "string \<Rightarrow> string" where
  "providerLabel kind =
     (if kind = ''azure-entra'' then ''Azure / Entra ID''
      else if kind = ''aws-iam'' then ''AWS IAM''
      else if kind = ''gcp-iam'' then ''GCP IAM''
      else if kind = [] then ''Unknown'' else kind)"

definition vaultLabel :: "string \<Rightarrow> string" where
  "vaultLabel kind =
     (if kind = ''azure-entra'' then ''Key Vault''
      else if kind = ''aws-iam'' then ''Secrets Manager''
      else if kind = ''gcp-iam'' then ''Secret Manager'' else ''Vault'')"

definition providerMark :: "string \<Rightarrow> string" where
  "providerMark kind =
     (if kind = ''azure-entra'' then ''Az''
      else if kind = ''aws-iam'' then ''AW''
      else if kind = ''gcp-iam'' then ''GC'' else ''?'')"

definition providerScope :: "machine_identity \<Rightarrow> string" where
  "providerScope i =
     (let b = mi_provider i; kind = pb_provider b in
      if kind = ''azure-entra'' then ''tenant '' @ pb_tenant_id b
      else if kind = ''aws-iam'' then ''account '' @ pb_account_id b
      else if kind = ''gcp-iam'' then ''project '' @ pb_project_id b else [])"

fun stateLabel :: "state \<Rightarrow> string" where
  "stateLabel StateRegistered = ''Registered''"
| "stateLabel StateRenewing = ''Renewing''"
| "stateLabel StateRetired = ''Retired''"
| "stateLabel _ = ''Active''"

fun urgencyLabel :: "urgency \<Rightarrow> string" where
  "urgencyLabel UrgencyExpiring = ''Expiring soon''"
| "urgencyLabel UrgencyOverdue = ''Overdue''"
| "urgencyLabel UrgencyRetired = ''Retired''"
| "urgencyLabel UrgencyHealthy = ''Healthy''"

text \<open>
  strconvItoa on a 64-bit int. The digits go into an array of twenty bytes from its end, here a list that
  grows at its front. Negation wraps, so the least int stays negative and has no digits.
\<close>

function itoa_loop :: "int \<Rightarrow> string \<Rightarrow> string" where
  "itoa_loop v acc = (if 0 < v then itoa_loop (v div 10) (digit (nat (v mod 10)) # acc) else acc)"
  by pat_completeness auto
termination by (relation "measure (\<lambda>(v, acc). nat v)") auto

declare itoa_loop.simps [simp del]

definition strconvItoa :: "int \<Rightarrow> string" where
  "strconvItoa v =
     (if v = 0 then ''0''
      else if v < 0 then ''-'' @ itoa_loop (wrap_int64 (- v)) [] else itoa_loop v [])"

definition formatDays :: "int \<Rightarrow> string" where
  "formatDays days = strconvItoa days @ '' '' @ (if days = 1 then ''day'' else ''days'')"

definition lastRotatedLabel :: "time \<Rightarrow> string" where
  "lastRotatedLabel t = (if t = 0 then ''Never'' else date_label t)"

definition clock_label :: "time \<Rightarrow> string" where
  "clock_label t = (let s = (t mod day) div second in
     two_digits (s div 3600) @ '':'' @ two_digits (s div 60 mod 60) @ '' UTC'')"

definition vaultReferenceName :: "vault_reference option \<Rightarrow> string \<Rightarrow> string" where
  "vaultReferenceName v kind =
     (case v of
        Some ref \<Rightarrow> if contains (vr_url ref) ''mutandae-vault'' then ''the cluster '' @ mu @ ''Vault vault''
                    else vaultLabel kind
      | None \<Rightarrow> vaultLabel kind)"

section \<open>The view of an identity\<close>

record identity_view =
  iv_id :: string
  iv_name :: string
  iv_provider :: string
  iv_provider_kind :: string
  iv_provider_mark :: string
  iv_environment :: string
  iv_owner :: string
  iv_workload :: string
  iv_criticality :: string
  iv_state :: string
  iv_state_label :: string
  iv_renewal_health :: string
  iv_urgency :: string
  iv_urgency_label :: string
  iv_urgency_class :: string
  iv_expiry_label :: string
  iv_expiry_relative :: string
  iv_expiry_title :: string
  iv_last_rotated_label :: string
  iv_vault_label :: string
  iv_vault_version :: string
  iv_common_vault_label :: string
  iv_common_vault_version :: string
  iv_search_text :: string

text \<open>time.Duration.Hours, and int of it divided by 24.\<close>

definition hours :: "duration \<Rightarrow> rat" where
  "hours d =
     (let (q, r) = (if 0 \<le> d then (d div hour, d mod hour) else (- ((- d) div hour), - ((- d) mod hour)))
      in f64 (f64 (of_int q) + f64 (f64 (of_int r) / of_int hour)))"

definition days_left :: "time \<Rightarrow> time \<Rightarrow> int" where
  "days_left expires now =
     (let left = time_sub expires now; days = trunc_rat (f64 (hours left / 24)) in
      if now < expires \<and> left mod day \<noteq> 0 then days + 1 else days)"

definition expiry_relative :: "int \<Rightarrow> string" where
  "expiry_relative days =
     (if days < 0 then ''Overdue by '' @ formatDays (- days)
      else if days = 1 then ''Due tomorrow''
      else if 1 < days then ''Due in '' @ formatDays days else ''Due today'')"

definition middle_dot :: string where "middle_dot = [CHR 0xC2, CHR 0xB7]"

definition expiry_columns :: "machine_identity \<Rightarrow> time \<Rightarrow> string \<times> string \<times> string" where
  "expiry_columns i now =
     (if mi_state i = StateRetired then
        (let retired = (if mi_updated_at i = 0 then now else mi_updated_at i) in
         (date_label retired, ''Retired'', ''Retired '' @ date_label retired @ '' '' @ middle_dot @
            '' the original expiry '' @ date_label (mi_expires_at i) @ '' no longer applies''))
      else (date_label (mi_expires_at i), expiry_relative (days_left (mi_expires_at i) now), []))"

definition toIdentityView :: "machine_identity \<Rightarrow> time \<Rightarrow> identity_view" where
  "toIdentityView i now =
     (let urg = ComputeUrgency i now; kind = pb_provider (mi_provider i); own = mi_ownership i;
          (label, relative, title) = expiry_columns i now in
      \<lparr>iv_id = mi_id i, iv_name = mi_name i, iv_provider = providerLabel kind, iv_provider_kind = kind,
       iv_provider_mark = providerMark kind, iv_environment = mi_environment i, iv_owner = ow_team own,
       iv_workload = ow_service own, iv_criticality = ow_criticality own, iv_state = state_text (mi_state i),
       iv_state_label = stateLabel (mi_state i), iv_renewal_health = health_text (mi_health i),
       iv_urgency = urgency_text urg, iv_urgency_label = urgencyLabel urg, iv_urgency_class = urgency_text urg,
       iv_expiry_label = label, iv_expiry_relative = relative, iv_expiry_title = title,
       iv_last_rotated_label = lastRotatedLabel (mi_last_rotated_at i),
       iv_vault_label = vaultLabel kind, iv_vault_version = text_at (mi_metadata i) ''vault_version'',
       iv_common_vault_label =
         (if text_at (mi_metadata i) ''common_vault_url'' \<noteq> [] \<or> text_at (mi_metadata i) ''common_vault_secret'' \<noteq> [] \<or>
             text_at (mi_metadata i) ''common_vault_version'' \<noteq> [] then mu @ ''Vault (cluster)'' else []),
       iv_common_vault_version = text_at (mi_metadata i) ''common_vault_version'',
       iv_search_text = to_lower (join '' '' [mi_name i, providerLabel kind, mi_environment i, ow_team own,
         ow_service own, ow_criticality own])\<rparr>)"

section \<open>Providers\<close>

record provider_summary =
  ps_kind :: string
  ps_label :: string
  ps_mark :: string
  ps_scope :: string

text \<open>The descriptor of a kind: of several the last.\<close>

definition descriptor_of :: "provider_descriptor list \<Rightarrow> string \<Rightarrow> provider_descriptor option" where
  "descriptor_of ds kind = find (\<lambda>d. pd_kind d = kind) (rev ds)"

definition describe :: "provider_descriptor list \<Rightarrow> provider_summary \<Rightarrow> provider_summary" where
  "describe ds s = (case descriptor_of ds (ps_kind s) of
     None \<Rightarrow> s | Some d \<Rightarrow> s\<lparr>ps_label := pd_label d, ps_scope := pd_scope d\<rparr>)"

definition cut_provision :: "string \<Rightarrow> string option" where
  "cut_provision feature = (if has_prefix feature ''provision:'' then Some (drop 10 feature) else None)"

fun provision_summaries :: "string list \<Rightarrow> string list \<Rightarrow> provider_summary list" where
  "provision_summaries seen [] = []"
| "provision_summaries seen (feature # features) =
     (case cut_provision feature of
        None \<Rightarrow> provision_summaries seen features
      | Some kind \<Rightarrow>
          if kind \<in> set seen then provision_summaries seen features
          else \<lparr>ps_kind = kind, ps_label = providerLabel kind, ps_mark = providerMark kind,
                ps_scope = ''real tenant, zero permissions''\<rparr> # provision_summaries (kind # seen) features)"

definition provisionableProviders :: "config_service option \<Rightarrow> time \<Rightarrow> provider_summary list" where
  "provisionableProviders s now =
     (case s of
        None \<Rightarrow> []
      | Some c \<Rightarrow> map (describe (wiredProviderDescriptors s))
          (provision_summaries [] (cf_features (service_configuration c now))))"

text \<open>The first identity of each kind gives its summary.\<close>

fun seen_kinds :: "machine_identity list \<Rightarrow> provider_summary gomap \<Rightarrow> provider_summary gomap" where
  "seen_kinds [] seen = seen"
| "seen_kinds (i # is) seen =
     (let kind = pb_provider (mi_provider i) in
      if lookup seen kind \<noteq> None \<or> kind = [] then seen_kinds is seen
      else seen_kinds is (put kind \<lparr>ps_kind = kind, ps_label = providerLabel kind, ps_mark = providerMark kind,
             ps_scope = providerScope i\<rparr> seen))"

definition descriptor_summary :: "provider_descriptor \<Rightarrow> provider_summary" where
  "descriptor_summary d = \<lparr>ps_kind = pd_kind d, ps_label = pd_label d, ps_mark = providerMark (pd_kind d),
     ps_scope = pd_scope d\<rparr>"

definition providerSummaries :: "config_service option \<Rightarrow> machine_identity list \<Rightarrow> time \<Rightarrow> provider_summary list" where
  "providerSummaries s identities now =
     (let ds = wiredProviderDescriptors s; seen = seen_kinds identities [];
          known = map (describe ds) (List.map_filter (lookup seen) [''azure-entra'', ''aws-iam'', ''gcp-iam'']) in
      known @
      (if ds \<noteq> [] then map descriptor_summary (filter (\<lambda>d. lookup seen (pd_kind d) = None) ds)
       else filter (\<lambda>p. lookup seen (ps_kind p) = None) (provisionableProviders s now)))"

section \<open>Pages\<close>

record chrome =
  ch_title :: string
  ch_description :: string
  ch_active :: string
  ch_live_real :: bool
  ch_providers :: "provider_summary list"
  ch_cluster_vault :: bool
  ch_build :: build_view
  ch_authenticated :: bool
  ch_principal :: string
  ch_role :: string
  ch_csrf_token :: string

definition page_chrome ::
  "config_service option \<Rightarrow> build_view \<Rightarrow> store \<Rightarrow> time \<Rightarrow> string \<Rightarrow> string \<Rightarrow> string \<Rightarrow> chrome" where
  "page_chrome cs bv st now active title description =
     \<lparr>ch_title = title, ch_description = description, ch_active = active,
      ch_live_real = provisionableProviders cs now \<noteq> [], ch_providers = providerSummaries cs (List st) now,
      ch_cluster_vault = clusterVaultEnabled cs now, ch_build = bv, ch_authenticated = False,
      ch_principal = [], ch_role = [], ch_csrf_token = []\<rparr>"

definition chromeForRequest ::
  "config_service option \<Rightarrow> build_view \<Rightarrow> web_request \<Rightarrow> store \<Rightarrow> time \<Rightarrow> string \<Rightarrow> string \<Rightarrow> string \<Rightarrow> chrome" where
  "chromeForRequest cs bv r st now active title description =
     (let c = (page_chrome cs bv st now active title description)\<lparr>ch_csrf_token := csrfCookie r\<rparr> in
      case wr_identity r of
        None \<Rightarrow> c
      | Some i \<Rightarrow> c\<lparr>ch_authenticated := True, ch_principal := ai_principal i, ch_role := ai_role i\<rparr>)"

record dashboard_view =
  dv_identities :: "identity_view list"
  dv_retired :: "identity_view list"
  dv_provision :: "provider_summary list"
  dv_live_real :: bool
  dv_total :: nat
  dv_healthy :: nat
  dv_expiring :: nat
  dv_attention :: nat
  dv_updated_at :: string
  dv_chrome :: chrome

text \<open>One turn of the counting loop.\<close>

definition count_item :: "identity_view \<Rightarrow> dashboard_view \<Rightarrow> dashboard_view" where
  "count_item item v0 =
     (let v = v0\<lparr>dv_identities := dv_identities v0 @ [item]\<rparr>;
          v1 = (if iv_urgency item = urgency_text UrgencyHealthy then
                  (if iv_renewal_health item = health_text HealthHealthy then v\<lparr>dv_healthy := dv_healthy v + 1\<rparr> else v)
                else if iv_urgency item = urgency_text UrgencyExpiring then v\<lparr>dv_expiring := dv_expiring v + 1\<rparr>
                else v) in
      if iv_renewal_health item \<noteq> health_text HealthHealthy \<or> iv_urgency item = urgency_text UrgencyOverdue
      then v1\<lparr>dv_attention := dv_attention v1 + 1\<rparr> else v1)"

definition overview_title :: string where
  "overview_title = ''Mutandae '' @ middle_dot @ '' Machine identity control plane''"

definition overview_description :: string where
  "overview_description = ''Mutandae machine identity lifecycle control plane demo''"

definition dashboardView :: "config_service option \<Rightarrow> build_view \<Rightarrow> store \<Rightarrow> time \<Rightarrow> dashboard_view" where
  "dashboardView cs bv st now =
     (let chrome = page_chrome cs bv st now ''overview'' overview_title overview_description;
          identities = ListIncludingRetired st in
      (fold (\<lambda>i. count_item (toIdentityView i now)) (List st)
        \<lparr>dv_identities = [],
         dv_retired = map (\<lambda>i. toIdentityView i now) (filter (\<lambda>i. mi_state i = StateRetired) identities),
         dv_provision = [], dv_live_real = ch_live_real chrome, dv_total = length identities,
         dv_healthy = 0, dv_expiring = 0, dv_attention = 0, dv_updated_at = clock_label now, dv_chrome = chrome\<rparr>)
      \<lparr>dv_provision := provisionableProviders cs now\<rparr>)"

definition dashboardViewForRequest ::
  "config_service option \<Rightarrow> build_view \<Rightarrow> web_request \<Rightarrow> store \<Rightarrow> time \<Rightarrow> dashboard_view" where
  "dashboardViewForRequest cs bv r st now =
     (let c = chromeForRequest cs bv r st now ''overview'' overview_title overview_description in
      (dashboardView cs bv st now)\<lparr>dv_chrome := c, dv_live_real := ch_live_real c\<rparr>)"

end
