(* ===== verification/Server.thy ===== *)
theory Server
  imports Views Integration RateLimit Operations
begin

text \<open>
  The HTTP handlers of internal/web/server.go and preview.go over the Store and the integration manager.
  A handler gets the request (its body as text, its path value) and the state, and gives an answer: status,
  body, cookies. The decoders of encoding/json are arguments, one per request type; what a handler
  renders or encodes is a value of \<open>body\<close>. The clock is a reading of the world.
\<close>

section \<open>Answers\<close>

record set_cookie =
  sc_name :: string
  sc_value :: string
  sc_http_only :: bool
  sc_secure :: bool
  sc_max_age :: int

record preview_view =
  pr_identity :: identity_view
  pr_plan :: plan
  pr_action :: string

record provision_view =
  pw_identity :: identity_view
  pw_key_id :: string
  pw_secret :: string
  pw_vault :: "vault_reference option"
  pw_vault_name :: string
  pw_instructions :: string
  pw_dashboard :: dashboard_view

record use_result_view =
  uw_identity :: identity_view
  uw_key_id :: string
  uw_secret :: string
  uw_vault :: "vault_reference option"
  uw_vault_name :: string

record configuration_page_view =
  cp_configuration :: configuration
  cp_requirements :: "azure_integration_requirements option"
  cp_provision :: "provider_summary list"
  cp_auth :: auth_metadata
  cp_chrome :: chrome

text \<open>\<open>PageProvisionResult\<close> is the compact fragment, without instructions.\<close>

datatype body =
    Plain string
  | Asset string
  | Failure protocol_error
  | RawFailure string string
  | PageIndex dashboard_view
  | PageIdentityList dashboard_view
  | PageConfiguration configuration_page_view
  | PageEvents identity_view "lifecycle_event list"
  | PagePreview preview_view
  | PageDeleteResult identity_view "lifecycle_event list" dashboard_view
  | PageProvision provision_view
  | PageProvisionResult provision_view
  | PageUseResult use_result_view
  | JsonRoot "(string \<times> string \<times> string \<times> string) list"
  | JsonConfiguration configuration auth_metadata
  | JsonList nat "machine_identity list"
  | JsonInspect machine_identity
  | JsonRegister register_response
  | JsonRotate rotate_response
  | JsonRetire retire_response
  | JsonDelete delete_response
  | JsonProvision provision_response
  | JsonUse use_response
  | JsonRequirements azure_integration_requirements
  | JsonSession azure_integration_session string
  | JsonDisconnected
  | JsonApplications "azure_application list" "operation_receipt option" "protocol_error option"
  | JsonApplication azure_application operation_receipt "protocol_error option"
  | JsonSecret azure_secret_result operation_receipt "protocol_error option"
  | JsonCredential azure_credential operation_receipt "protocol_error option"

record answer =
  an_status :: int
  an_body :: body
  an_cookies :: "set_cookie list"

definition reply :: "int \<Rightarrow> body \<Rightarrow> answer" where
  "reply st b = \<lparr>an_status = st, an_body = b, an_cookies = []\<rparr>"

section \<open>Requests with a body\<close>

record web_input =
  wi_request :: web_request
  wi_id :: string
  wi_body :: "string option"
  wi_content_length :: int

text \<open>
  A decoder reads the first value of a text; it tells whether only white space follows. The strict ones
  refuse unknown fields.
\<close>

record codecs =
  de_register :: "string \<Rightarrow> (register_request \<times> bool) result"
  de_provision :: "string \<Rightarrow> (provision_request \<times> bool) result"
  de_delete :: "string \<Rightarrow> (delete_request \<times> bool) result"
  de_use :: "string \<Rightarrow> (use_request \<times> bool) result"
  de_rotate :: "string \<Rightarrow> (rotate_request \<times> bool) result"
  de_retire :: "string \<Rightarrow> (retire_request \<times> bool) result"
  de_connect :: "string \<Rightarrow> (azure_integration_request \<times> bool) result"
  de_application :: "string \<Rightarrow> (azure_application_create_request \<times> bool) result"
  de_secret :: "string \<Rightarrow> (azure_secret_create_request \<times> bool) result"
  de_read :: "string \<Rightarrow> (azure_secret_read_request \<times> bool) result"
  de_invalidate :: "string \<Rightarrow> (azure_secret_invalidate_request \<times> bool) result"

definition body_limit :: nat where "body_limit = 1048576"

definition body_text :: "web_input \<Rightarrow> string" where
  "body_text i = (case wi_body i of None \<Rightarrow> [] | Some t \<Rightarrow> t)"

definition decode_first :: "(string \<Rightarrow> ('a \<times> bool) result) \<Rightarrow> string \<Rightarrow> 'a result" where
  "decode_first decoder t = (case decoder t of Inl e \<Rightarrow> Inl e | Inr (v, _) \<Rightarrow> Inr v)"

definition decodeJSONBody :: "(string \<Rightarrow> ('a \<times> bool) result) \<Rightarrow> web_input \<Rightarrow> 'a result" where
  "decodeJSONBody decoder i =
     (case wi_body i of
        None \<Rightarrow> Inl (plain_error ''request body is required'')
      | Some t \<Rightarrow>
          (case decoder (take body_limit t) of
             Inl e \<Rightarrow> Inl e
           | Inr (v, only) \<Rightarrow> if only then Inr v else Inl (plain_error ''request body must contain one JSON object'')))"

text \<open>The zero values of the request types, for a request without a body.\<close>

definition zero_rotate :: rotate_request where
  "zero_rotate = \<lparr>ro_id = [], ro_requested_by = [], ro_reason = [], ro_metadata = [], ro_dry_run = False\<rparr>"

definition zero_retire :: retire_request where
  "zero_retire = \<lparr>rt_id = [], rt_requested_by = [], rt_reason = [], rt_confirm = False, rt_dry_run = False\<rparr>"

definition zero_delete :: delete_request where
  "zero_delete = \<lparr>de_id = [], de_requested_by = [], de_reason = [], de_confirm = False\<rparr>"

definition zero_use :: use_request where
  "zero_use = \<lparr>us_id = [], us_requested_by = [], us_version = []\<rparr>"

definition optional_body :: "web_input \<Rightarrow> 'a \<Rightarrow> 'a result \<Rightarrow> 'a result" where
  "optional_body i zero decoded = (if wi_content_length i \<noteq> 0 then decoded else Inr zero)"

definition isDryRunForm :: "web_request \<Rightarrow> bool" where
  "isDryRunForm r \<longleftrightarrow> to_lower (trim_space (text_at (wr_form r) ''dry_run'')) \<in> {''1'', ''true'', ''on'', ''yes''}"

section \<open>The server\<close>

record 'w server =
  sv_env :: "'w env"
  sv_configuration :: "config_service option"
  sv_integration :: "'w integration_manager option"
  sv_codecs :: codecs
  sv_now :: "'w \<Rightarrow> time"
  sv_token :: "'w \<Rightarrow> string \<times> 'w"
  sv_auth :: "authenticator option"
  sv_build :: build_view
  sv_demo_limit :: int

text \<open>The state: the store, the sessions of the integration, the world.\<close>

type_synonym 'w web = "store \<times> integration_state \<times> 'w"
type_synonym 'w handler = "web_input \<Rightarrow> 'w web \<Rightarrow> answer \<times> 'w web"

definition clock :: "'w server \<Rightarrow> 'w web \<Rightarrow> time" where
  "clock sv s = sv_now sv (snd (snd s))"

definition on_store :: "('a, 'w) op \<Rightarrow> 'w web \<Rightarrow> 'a result \<times> 'w web" where
  "on_store f s = (case s of (st, im, w) \<Rightarrow> (case f (st, w) of (r, (st', w')) \<Rightarrow> (r, (st', im, w'))))"

definition on_integration :: "('w im \<Rightarrow> 'a \<times> 'w im) \<Rightarrow> 'w web \<Rightarrow> 'a \<times> 'w web" where
  "on_integration f s = (case s of (st, im, w) \<Rightarrow> (case f (im, w) of (r, (im', w')) \<Rightarrow> (r, (st, im', w'))))"

definition newServer ::
  "'w env \<Rightarrow> config_service \<Rightarrow> 'w integration_manager option \<Rightarrow> codecs \<Rightarrow> ('w \<Rightarrow> time)
     \<Rightarrow> ('w \<Rightarrow> string \<times> 'w) \<Rightarrow> authenticator result \<Rightarrow> build \<Rightarrow> int \<Rightarrow> 'w server result" where
  "newServer env cs im cd now tok auth b demoLimit =
     (case auth of
        Inl e \<Rightarrow> Inl e
      | Inr a \<Rightarrow> Inr \<lparr>sv_env = env, sv_configuration = Some cs, sv_integration = im, sv_codecs = cd, sv_now = now,
          sv_token = tok, sv_auth = Some a, sv_build = toBuildView b,
          sv_demo_limit = (if demoLimit \<le> 0 then 40 else demoLimit)\<rparr>)"

text \<open>writeJSON of a failure, writeError.\<close>

definition fail_json :: "int \<Rightarrow> error_code \<Rightarrow> string \<Rightarrow> answer" where
  "fail_json status code message = reply status (Failure (NewProtocolError code message))"

definition mutationErrorStatus :: "go_error \<Rightarrow> int" where
  "mutationErrorStatus err =
     (if errors_is err ErrNotFound then 404 else if errors_is err ErrForbidden then 403 else 409)"

definition writeError :: "go_error \<Rightarrow> int \<Rightarrow> answer" where
  "writeError err defaultStatus = reply
     (if errors_is err ErrNotFound then 404 else if errors_is err ErrForbidden then 403 else defaultStatus)
     (Plain (err_text err))"

definition dashboard_for :: "'w server \<Rightarrow> web_request \<Rightarrow> 'w web \<Rightarrow> dashboard_view" where
  "dashboard_for sv r s = dashboardViewForRequest (sv_configuration sv) (sv_build sv) r (fst s) (clock sv s)"

section \<open>Pages\<close>

definition dashboard :: "'w server \<Rightarrow> 'w handler" where
  "dashboard sv i s = (reply 200 (PageIndex (dashboard_for sv (wi_request i) s)), s)"

definition identityList :: "'w server \<Rightarrow> 'w handler" where
  "identityList sv i s = (reply 200 (PageIdentityList (dashboard_for sv (wi_request i) s)), s)"

definition csrf_set_cookie :: "web_request \<Rightarrow> string \<Rightarrow> set_cookie" where
  "csrf_set_cookie r v = \<lparr>sc_name = csrfCookieName, sc_value = v, sc_http_only = False,
     sc_secure = requestIsSecure r, sc_max_age = 1800\<rparr>"

definition configurationPage :: "'w server \<Rightarrow> 'w handler" where
  "configurationPage sv i s =
     (let r = wi_request i; now = clock sv s in
      case sv_configuration sv of
        None \<Rightarrow> (reply 500 (Plain []), s)
      | Some cs \<Rightarrow>
          (let (fresh, w') = (if csrfCookie r = [] then sv_token sv (snd (snd s)) else ([], snd (snd s)));
               (token, set) = ensureCSRFCookie fresh r;
               c = chromeForRequest (Some cs) (sv_build sv) r (fst s) now ''configuration''
                 (''Mutandae '' @ middle_dot @ '' Configuration'')
                 (''Mutandae demo: create and govern zero-permission machine identities in real '' @
                  ''Azure, AWS, and GCP tenants'');
               c1 = (if ch_csrf_token c = [] then c\<lparr>ch_csrf_token := token\<rparr> else c) in
           (\<lparr>an_status = 200, an_body = PageConfiguration
               \<lparr>cp_configuration = service_configuration cs now,
                cp_requirements = map_option (\<lambda>_. Requirements) (sv_integration sv),
                cp_provision = provisionableProviders (Some cs) now,
                cp_auth = metadata_of (sv_auth sv), cp_chrome = c1\<rparr>,
             an_cookies = (case set of None \<Rightarrow> [] | Some v \<Rightarrow> [csrf_set_cookie r v])\<rparr>,
            (fst s, fst (snd s), w'))))"

definition identityEvents :: "'w server \<Rightarrow> 'w handler" where
  "identityEvents sv i s =
     (case Get (fst s) (wi_id i) of
        None \<Rightarrow> (reply 404 (Plain ''404 page not found''), s)
      | Some identity \<Rightarrow> (reply 200 (PageEvents (toIdentityView identity (clock sv s))
          (case Events (fst s) (wi_id i) of None \<Rightarrow> [] | Some es \<Rightarrow> es)), s))"

definition preview_answer :: "'w server \<Rightarrow> string \<Rightarrow> string \<Rightarrow> machine_identity \<Rightarrow> plan option \<Rightarrow> 'w web \<Rightarrow> answer" where
  "preview_answer sv what action identity p s =
     (case p of
        None \<Rightarrow> writeError (plain_error (what @ '' preview did not return a plan'')) 500
      | Some pl \<Rightarrow> reply 200 (PagePreview \<lparr>pr_identity = toIdentityView identity (clock sv s), pr_plan = pl,
                                pr_action = action\<rparr>))"

definition previewRotation :: "'w server \<Rightarrow> 'w handler" where
  "previewRotation sv i s =
     (case on_store (Rotate (sv_env sv) \<lparr>ro_id = wi_id i, ro_requested_by = operatorOrDefault (wi_request i),
              ro_reason = ''operator requested a rotation preview'', ro_metadata = [], ro_dry_run = True\<rparr> (clock sv s)) s of
        (Inl err, s1) \<Rightarrow> (writeError err 409, s1)
      | (Inr resp, s1) \<Rightarrow> (preview_answer sv ''rotation'' ''rotate'' (ror_identity resp) (ror_plan resp) s1, s1))"

definition previewRetirement :: "'w server \<Rightarrow> 'w handler" where
  "previewRetirement sv i s =
     (case on_store (Retire (sv_env sv) \<lparr>rt_id = wi_id i, rt_requested_by = operatorOrDefault (wi_request i),
              rt_reason = ''operator requested a retirement preview'', rt_confirm = False, rt_dry_run = True\<rparr> (clock sv s)) s of
        (Inl err, s1) \<Rightarrow> (writeError err 409, s1)
      | (Inr resp, s1) \<Rightarrow> (preview_answer sv ''retirement'' ''retire'' (rtr_identity resp) (rtr_plan resp) s1, s1))"

definition rotate_form :: "'w server \<Rightarrow> 'w handler" where
  "rotate_form sv i s =
     (if isDryRunForm (wi_request i) then previewRotation sv i s
      else case on_store (Rotate (sv_env sv) \<lparr>ro_id = wi_id i, ro_requested_by = operatorOrDefault (wi_request i),
              ro_reason = ''operator initiated from dashboard'', ro_metadata = [], ro_dry_run = False\<rparr> (clock sv s)) s of
        (Inl err, s1) \<Rightarrow> (writeError err 409, s1)
      | (Inr _, s1) \<Rightarrow> identityList sv i s1)"

definition retire_form :: "'w server \<Rightarrow> 'w handler" where
  "retire_form sv i s =
     (if isDryRunForm (wi_request i) then previewRetirement sv i s
      else case on_store (Retire (sv_env sv) \<lparr>rt_id = wi_id i, rt_requested_by = operatorOrDefault (wi_request i),
              rt_reason = ''operator initiated from dashboard'', rt_confirm = True, rt_dry_run = False\<rparr> (clock sv s)) s of
        (Inl err, s1) \<Rightarrow> (writeError err 409, s1)
      | (Inr _, s1) \<Rightarrow> identityList sv i s1)"

definition deleteIdentity :: "'w server \<Rightarrow> 'w handler" where
  "deleteIdentity sv i s =
     (case on_store (Delete (sv_env sv) \<lparr>de_id = wi_id i, de_requested_by = operatorOrDefault (wi_request i),
              de_reason = ''operator deleted from dashboard'', de_confirm = True\<rparr> (clock sv s)) s of
        (Inl err, s1) \<Rightarrow> (writeError err 409, s1)
      | (Inr resp, s1) \<Rightarrow> (reply 200 (PageDeleteResult (toIdentityView (der_identity resp) (clock sv s1)) (der_events resp)
          (dashboard_for sv (wi_request i) s1)), s1))"

definition use_form :: "'w server \<Rightarrow> 'w handler" where
  "use_form sv i s =
     (case on_store (Use (sv_env sv) \<lparr>us_id = wi_id i, us_requested_by = operatorOrDefault (wi_request i),
              us_version = []\<rparr> (clock sv s)) s of
        (Inl err, s1) \<Rightarrow> (writeError err 409, s1)
      | (Inr resp, s1) \<Rightarrow> (reply 200 (PageUseResult
          \<lparr>uw_identity = toIdentityView (usr_identity resp) (clock sv s1), uw_key_id = usr_key_id resp,
           uw_secret = usr_secret resp, uw_vault = usr_vault resp,
           uw_vault_name = vaultReferenceName (usr_vault resp) (pb_provider (mi_provider (usr_identity resp)))\<rparr>), s1))"

end
