(* ===== verification/Api.thy ===== *)
theory Api
  imports Server
begin

text \<open>
  The JSON API of internal/web/server.go: the lifecycle operations under /api/v1/identities, provisioning
  with its quota of demo identities, and the interactive integration under /api/v1/integration. The loop
  that reclaims demo identities may in principle go on for ever, so it and what calls it are
  option-valued; that it ends is proved in ServerProperties.
\<close>

section \<open>Reading\<close>

text \<open>Relation, method, path pattern and envelope of every resource.\<close>

definition discovery_resources :: "(string \<times> string \<times> string \<times> string) list" where
  "discovery_resources =
     [(''configuration'', ''GET'', ''/api/v1/configuration'', ''configuration''),
      (''integration-requirements'', ''GET'', ''/api/v1/integration/requirements'', ''requirements''),
      (''integration-connect'', ''POST'', ''/api/v1/integration/connect'', ''integration''),
      (''integration-session'', ''GET'', ''/api/v1/integration/session'', ''integration''),
      (''applications'', ''GET'', ''/api/v1/integration/applications'', ''applications''),
      (''application-create'', ''POST'', ''/api/v1/integration/applications'', ''application''),
      (''secret-create'', ''POST'', ''/api/v1/integration/secrets'', ''secret''),
      (''secret-read'', ''POST'', ''/api/v1/integration/secrets/read'', ''secret''),
      (''secret-invalidate'', ''POST'', ''/api/v1/integration/secrets/invalidate'', ''secret''),
      (''identities'', ''GET'', ''/api/v1/identities'', ''list''),
      (''identity'', ''GET'', ''/api/v1/identities/{id}'', ''inspect''),
      (''register'', ''POST'', ''/api/v1/identities'', ''register''),
      (''provision'', ''POST'', ''/api/v1/demo/identities'', ''provision''),
      (''rotate'', ''POST'', ''/api/v1/identities/{id}/rotations'', ''rotate''),
      (''use'', ''POST'', ''/api/v1/identities/{id}/use'', ''use''),
      (''retire'', ''POST'', ''/api/v1/identities/{id}/retire'', ''retire''),
      (''delete'', ''DELETE'', ''/api/v1/identities/{id}'', ''delete'')]"

definition apiRoot :: "'w server \<Rightarrow> 'w handler" where
  "apiRoot sv i s = (reply 200 (JsonRoot discovery_resources), s)"

definition apiConfiguration :: "'w server \<Rightarrow> 'w handler" where
  "apiConfiguration sv i s =
     (case sv_configuration sv of
        None \<Rightarrow> (reply 500 (Plain []), s)
      | Some cs \<Rightarrow> (reply 200 (JsonConfiguration (service_configuration cs (clock sv s)) (metadata_of (sv_auth sv))), s))"

definition apiList :: "'w server \<Rightarrow> 'w handler" where
  "apiList sv i s =
     (let identities = (if equal_fold (trim_space (text_at (wr_query (wi_request i)) ''include'')) ''retired''
                        then ListIncludingRetired (fst s) else List (fst s)) in
      (reply 200 (JsonList (length identities) identities), s))"

definition apiInspect :: "'w server \<Rightarrow> 'w handler" where
  "apiInspect sv i s =
     (case Get (fst s) (wi_id i) of
        None \<Rightarrow> (fail_json 404 ErrCodeNotFound ''identity not found'', s)
      | Some identity \<Rightarrow> (reply 200 (JsonInspect identity), s))"

section \<open>Mutations\<close>

definition lifecycle_failure :: "int \<Rightarrow> go_error \<Rightarrow> answer" where
  "lifecycle_failure status err = reply status (Failure (NewError err))"

definition bad_body :: answer where
  "bad_body = fail_json 400 ErrCodeInvalidRequest ''invalid request body''"

definition apiRegister :: "'w server \<Rightarrow> 'w handler" where
  "apiRegister sv i s =
     (case decode_first (de_register (sv_codecs sv)) (body_text i) of
        Inl _ \<Rightarrow> (bad_body, s)
      | Inr req \<Rightarrow>
          (case on_store (Register (sv_env sv) req (clock sv s)) s of
             (Inl err, s1) \<Rightarrow> (lifecycle_failure 400 err, s1)
           | (Inr resp, s1) \<Rightarrow> (reply 201 (JsonRegister resp), s1)))"

definition apiRotate :: "'w server \<Rightarrow> 'w handler" where
  "apiRotate sv i s =
     (case optional_body i zero_rotate (decodeJSONBody (de_rotate (sv_codecs sv)) i) of
        Inl _ \<Rightarrow> (bad_body, s)
      | Inr body \<Rightarrow>
          (let req = body\<lparr>ro_id := wi_id i, ro_requested_by := operatorOrDefault (wi_request i),
             ro_reason := (if ro_reason body = [] then ''protocol api'' else ro_reason body)\<rparr> in
           case on_store (Rotate (sv_env sv) req (clock sv s)) s of
             (Inl err, s1) \<Rightarrow> (lifecycle_failure (mutationErrorStatus err) err, s1)
           | (Inr resp, s1) \<Rightarrow> (reply 200 (JsonRotate resp), s1)))"

definition apiRetire :: "'w server \<Rightarrow> 'w handler" where
  "apiRetire sv i s =
     (case optional_body i zero_retire (decodeJSONBody (de_retire (sv_codecs sv)) i) of
        Inl _ \<Rightarrow> (bad_body, s)
      | Inr body \<Rightarrow>
          (case on_store (Retire (sv_env sv) (body\<lparr>rt_id := wi_id i,
                  rt_requested_by := operatorOrDefault (wi_request i)\<rparr>) (clock sv s)) s of
             (Inl err, s1) \<Rightarrow> (lifecycle_failure (mutationErrorStatus err) err, s1)
           | (Inr resp, s1) \<Rightarrow> (reply 200 (JsonRetire resp), s1)))"

definition apiDeleteIdentity :: "'w server \<Rightarrow> 'w handler" where
  "apiDeleteIdentity sv i s =
     (case optional_body i zero_delete (decode_first (de_delete (sv_codecs sv)) (take body_limit (body_text i))) of
        Inl _ \<Rightarrow> (bad_body, s)
      | Inr body \<Rightarrow>
          if \<not> de_confirm body then
            (fail_json 400 ErrCodeInvalidRequest ''delete requires explicit confirmation (confirm: true)'', s)
          else
            (case on_store (Delete (sv_env sv) (body\<lparr>de_id := wi_id i,
                    de_requested_by := operatorOrDefault (wi_request i)\<rparr>) (clock sv s)) s of
               (Inl err, s1) \<Rightarrow> (lifecycle_failure (mutationErrorStatus err) err, s1)
             | (Inr resp, s1) \<Rightarrow> (reply 200 (JsonDelete resp), s1)))"

definition apiUse :: "'w server \<Rightarrow> 'w handler" where
  "apiUse sv i s =
     (case optional_body i zero_use (decode_first (de_use (sv_codecs sv)) (body_text i)) of
        Inl _ \<Rightarrow> (bad_body, s)
      | Inr body \<Rightarrow>
          (case on_store (Use (sv_env sv) (body\<lparr>us_id := wi_id i,
                  us_requested_by := operatorOrDefault (wi_request i)\<rparr>) (clock sv s)) s of
             (Inl err, s1) \<Rightarrow> (lifecycle_failure (if errors_is err ErrNotFound then 404 else 409) err, s1)
           | (Inr resp, s1) \<Rightarrow> (reply 200 (JsonUse resp), s1)))"

section \<open>Provisioning\<close>

definition demoPrefixWeb :: string where "demoPrefixWeb = ''mutandae-demo-''"

definition activeDemo :: "string \<Rightarrow> store \<Rightarrow> machine_identity list" where
  "activeDemo provider st = filter (\<lambda>i. pb_provider (mi_provider i) = provider \<and> mi_state i = StateActive \<and>
     has_prefix (mi_name i) demoPrefixWeb) (List st)"

text \<open>The first of the oldest identities of a list that is not empty.\<close>

definition oldest_demo :: "machine_identity list \<Rightarrow> machine_identity" where
  "oldest_demo demo =
     fold (\<lambda>candidate oldest. if mi_created_at candidate < mi_created_at oldest then candidate else oldest)
       (tl demo) (hd demo)"

definition demo_quota :: "'w server \<Rightarrow> nat" where
  "demo_quota sv = nat (if sv_demo_limit sv \<le> 0 then 40 else sv_demo_limit sv)"

definition reclaim_request :: "machine_identity \<Rightarrow> retire_request" where
  "reclaim_request i = \<lparr>rt_id = mi_id i, rt_requested_by = ''demo-reclaim'',
     rt_reason = ''demo quota reached '' @ [CHR 0xE2, CHR 0x80, CHR 0x94] @ '' oldest demo identity reclaimed'',
     rt_confirm = True, rt_dry_run = False\<rparr>"

partial_function (option) reclaimDemo :: "'w server \<Rightarrow> string \<Rightarrow> 'w web \<Rightarrow> 'w web option" where
  "reclaimDemo sv provider s =
     (let demo = activeDemo provider (fst s) in
      if length demo < demo_quota sv then Some s
      else case on_store (Retire (sv_env sv) (reclaim_request (oldest_demo demo)) (clock sv s)) s of
        (Inl _, s1) \<Rightarrow> Some s1
      | (Inr _, s1) \<Rightarrow> reclaimDemo sv provider s1)"

definition provisionIdentity ::
  "'w server \<Rightarrow> web_request \<Rightarrow> string \<Rightarrow> string \<Rightarrow> 'w web \<Rightarrow> (provision_response result \<times> 'w web) option" where
  "provisionIdentity sv r provider0 hint s =
     (let provider = trim_space provider0 in
      if provider = [] then Some (Inl (plain_error ''provider is required''), s)
      else case reclaimDemo sv provider s of
        None \<Rightarrow> None
      | Some s1 \<Rightarrow> Some (on_store (Provision (sv_env sv) \<lparr>pv_provider = provider, pv_purpose = trim_space hint,
          pv_requested_by = operatorOrDefault r, pv_owner_ip = clientIP r\<rparr> (clock sv s1)) s1))"

definition apiProvision :: "'w server \<Rightarrow> web_input \<Rightarrow> 'w web \<Rightarrow> (answer \<times> 'w web) option" where
  "apiProvision sv i s =
     (case decode_first (de_provision (sv_codecs sv)) (body_text i) of
        Inl _ \<Rightarrow> Some (bad_body, s)
      | Inr req \<Rightarrow>
          map_option (\<lambda>(res, s1). case res of
              Inl err \<Rightarrow> (lifecycle_failure (mutationErrorStatus err) err, s1)
            | Inr resp \<Rightarrow> (reply 201 (JsonProvision resp), s1))
            (provisionIdentity sv (wi_request i) (pv_provider req) (pv_purpose req) s))"

definition provision_page :: "'w server \<Rightarrow> web_request \<Rightarrow> provision_response \<Rightarrow> 'w web \<Rightarrow> provision_view" where
  "provision_page sv r resp s =
     \<lparr>pw_identity = toIdentityView (pvr_identity resp) (clock sv s), pw_key_id = pvr_key_id resp,
      pw_secret = pvr_one_time_secret resp, pw_vault = pvr_vault resp,
      pw_vault_name = vaultReferenceName (pvr_vault resp) (pb_provider (mi_provider (pvr_identity resp))),
      pw_instructions = pvr_instructions resp, pw_dashboard = dashboard_for sv r s\<rparr>"

definition provision_form :: "'w server \<Rightarrow> web_input \<Rightarrow> 'w web \<Rightarrow> (answer \<times> 'w web) option" where
  "provision_form sv i s =
     (let r = wi_request i; form = trim_space (text_at (wr_form r) ''provider'');
          provider = (if form = [] then trim_space (text_at (wr_query r) ''provider'') else form) in
      if provider = [] then Some (writeError (plain_error ''provider is required'') 400, s)
      else map_option (\<lambda>(res, s1). case res of
          Inl err \<Rightarrow> (writeError err 409, s1)
        | Inr resp \<Rightarrow>
            (if header r ''Hx-Target'' = ''provision-slot'' then
               (reply 200 (PageProvisionResult ((provision_page sv r resp s1)\<lparr>pw_instructions := []\<rparr>)), s1)
             else (reply 200 (PageProvision (provision_page sv r resp s1)), s1)))
        (provisionIdentity sv r provider (text_at (wr_form r) ''purpose'') s))"

section \<open>The interactive integration\<close>

definition integrationSessionCookie :: string where "integrationSessionCookie = ''mutandae_integration''"

definition integrationStatus :: "go_error \<Rightarrow> int" where
  "integrationStatus err =
     (if errors_is err ErrIntegrationSessionNotFound then 401
      else if errors_is err ErrIntegrationCSRF then 403
      else if errors_is err ErrIntegrationRateLimited then 429 else 502)"

definition integration_failure :: "int \<Rightarrow> string \<Rightarrow> answer" where
  "integration_failure status message = fail_json status ErrCodeInvalidRequest message"

definition integrationError :: "unit result \<Rightarrow> protocol_error option" where
  "integrationError r = (case r of Inl err \<Rightarrow> Some (NewProtocolError ErrCodeProviderFailure (err_text err)) | Inr _ \<Rightarrow> None)"

definition outcome_status :: "int \<Rightarrow> unit result \<Rightarrow> int" where
  "outcome_status ok r = (case r of Inl err \<Rightarrow> integrationStatus err | Inr _ \<Rightarrow> ok)"

text \<open>What every handler begins with: the integration is enabled; then the CSRF header, then the session.\<close>

definition enabled ::
  "'w server \<Rightarrow> ('w integration_manager \<Rightarrow> 'w web \<Rightarrow> answer \<times> 'w web) \<Rightarrow> 'w web \<Rightarrow> answer \<times> 'w web" where
  "enabled sv f s =
     (case sv_integration sv of
        None \<Rightarrow> (integration_failure 501 ''interactive Azure integration is not enabled'', s)
      | Some m \<Rightarrow> f m s)"

definition csrf_checked :: "web_request \<Rightarrow> ('w web \<Rightarrow> answer \<times> 'w web) \<Rightarrow> 'w web \<Rightarrow> answer \<times> 'w web" where
  "csrf_checked r f s =
     (case validateCSRF r True of Inl err \<Rightarrow> (integration_failure 403 (err_text err), s) | Inr _ \<Rightarrow> f s)"

definition integrationSession :: "web_request \<Rightarrow> (string \<times> string) result" where
  "integrationSession r =
     (case requestCookie r integrationSessionCookie of
        None \<Rightarrow> Inl (sentinel_error ErrIntegrationSessionNotFound)
      | Some sid \<Rightarrow>
          (case validateCSRF r False of Inl err \<Rightarrow> Inl err | Inr _ \<Rightarrow> Inr (sid, csrfCookie r)))"

definition in_session ::
  "web_request \<Rightarrow> (string \<Rightarrow> string \<Rightarrow> 'w web \<Rightarrow> answer \<times> 'w web) \<Rightarrow> 'w web \<Rightarrow> answer \<times> 'w web" where
  "in_session r f s =
     (case integrationSession r of
        Inl err \<Rightarrow> (integration_failure (integrationStatus err) (err_text err), s)
      | Inr (sid, csrf) \<Rightarrow> f sid csrf s)"

definition with_body ::
  "'a result \<Rightarrow> string \<Rightarrow> ('a \<Rightarrow> 'w web \<Rightarrow> answer \<times> 'w web) \<Rightarrow> 'w web \<Rightarrow> answer \<times> 'w web" where
  "with_body decoded message f s =
     (case decoded of Inl _ \<Rightarrow> (integration_failure 400 message, s) | Inr req \<Rightarrow> f req s)"

definition apiIntegrationRequirements :: "'w server \<Rightarrow> 'w handler" where
  "apiIntegrationRequirements sv i = enabled sv (\<lambda>_ s. (reply 200 (JsonRequirements Requirements), s))"

definition setCookie :: "web_request \<Rightarrow> string \<Rightarrow> string \<Rightarrow> bool \<Rightarrow> set_cookie" where
  "setCookie r k v http_only = \<lparr>sc_name = k, sc_value = v, sc_http_only = http_only,
     sc_secure = requestIsSecure r, sc_max_age = 1800\<rparr>"

definition clearCookie :: "web_request \<Rightarrow> string \<Rightarrow> bool \<Rightarrow> set_cookie" where
  "clearCookie r k http_only = \<lparr>sc_name = k, sc_value = [], sc_http_only = http_only,
     sc_secure = requestIsSecure r, sc_max_age = -1\<rparr>"

definition insecure_remote :: "web_request \<Rightarrow> bool" where
  "insecure_remote r \<longleftrightarrow> \<not> requestIsSecure r \<and> wr_remote_addr r \<noteq> [] \<and>
     \<not> has_prefix (wr_remote_addr r) ''127.0.0.1:'' \<and> \<not> has_prefix (wr_remote_addr r) ''[::1]:''"

definition apiIntegrationConnect :: "'w server \<Rightarrow> 'w handler" where
  "apiIntegrationConnect sv i =
     (let r = wi_request i in
      enabled sv (\<lambda>m. csrf_checked r (\<lambda>s.
        if insecure_remote r then (integration_failure 426 ''real-tenant credentials require HTTPS'', s)
        else with_body (decodeJSONBody (de_connect (sv_codecs sv)) i) ''invalid integration request'' (\<lambda>req s.
          (case on_integration (Connect m req (csrfCookie r) (integrationRateKey r) (clock sv s)) s of
             (Inl err, s1) \<Rightarrow> (integration_failure (integrationStatus err) (err_text err), s1)
           | (Inr (session, csrf), s1) \<Rightarrow>
               (\<lparr>an_status = 200, an_body = JsonSession session csrf,
                 an_cookies = [setCookie r integrationSessionCookie (as_id session) True,
                               setCookie r csrfCookieName csrf False]\<rparr>, s1))) s)))"

definition apiIntegrationSession :: "'w server \<Rightarrow> 'w handler" where
  "apiIntegrationSession sv i =
     (let r = wi_request i in
      enabled sv (\<lambda>m s.
        (case requestCookie r integrationSessionCookie of
           None \<Rightarrow> (integration_failure 401 (sentinel_text ErrIntegrationSessionNotFound), s)
         | Some sid \<Rightarrow>
             (case on_integration (SessionView sid (csrfCookie r) (clock sv s)) s of
                (Inl err, s1) \<Rightarrow> (integration_failure (integrationStatus err) (err_text err), s1)
              | (Inr session, s1) \<Rightarrow> (reply 200 (JsonSession session []), s1)))))"

definition apiIntegrationDisconnect :: "'w server \<Rightarrow> 'w handler" where
  "apiIntegrationDisconnect sv i =
     (let r = wi_request i in
      enabled sv (\<lambda>m. csrf_checked r (\<lambda>s.
        (let s1 = (case requestCookie r integrationSessionCookie of
             None \<Rightarrow> s | Some sid \<Rightarrow> snd (on_integration (\<lambda>x. ((), Disconnect sid x)) s)) in
         (\<lparr>an_status = 200, an_body = JsonDisconnected,
           an_cookies = [clearCookie r integrationSessionCookie True]\<rparr>, s1)))))"

definition apiIntegrationApplications :: "'w server \<Rightarrow> 'w handler" where
  "apiIntegrationApplications sv i =
     (let r = wi_request i in
      enabled sv (\<lambda>m. in_session r (\<lambda>sid csrf s.
        (case on_integration (integration_ListApplications m sid csrf (clock sv s)) s of
           ((apps, rc, e), s1) \<Rightarrow> (reply (outcome_status 200 e) (JsonApplications apps rc (integrationError e)), s1)))))"

definition apiIntegrationCreateApplication :: "'w server \<Rightarrow> 'w handler" where
  "apiIntegrationCreateApplication sv i =
     (let r = wi_request i in
      enabled sv (\<lambda>m. csrf_checked r (in_session r (\<lambda>sid csrf.
        with_body (decodeJSONBody (de_application (sv_codecs sv)) i) ''invalid application request'' (\<lambda>req s.
        (case on_integration (integration_CreateApplication m sid csrf req (clock sv s)) s of
           ((a, rc, e), s1) \<Rightarrow> (reply (outcome_status 201 e) (JsonApplication a rc (integrationError e)), s1)))))))"

definition apiIntegrationCreateSecret :: "'w server \<Rightarrow> 'w handler" where
  "apiIntegrationCreateSecret sv i =
     (let r = wi_request i in
      enabled sv (\<lambda>m. csrf_checked r (in_session r (\<lambda>sid csrf.
        with_body (decodeJSONBody (de_secret (sv_codecs sv)) i) ''invalid secret request'' (\<lambda>req s.
        (case on_integration (integration_CreateSecret m sid csrf req (clock sv s)) s of
           ((x, rc, e), s1) \<Rightarrow> (reply (outcome_status 201 e) (JsonSecret x rc (integrationError e)), s1)))))))"

definition apiIntegrationReadSecret :: "'w server \<Rightarrow> 'w handler" where
  "apiIntegrationReadSecret sv i =
     (let r = wi_request i in
      enabled sv (\<lambda>m. csrf_checked r (in_session r (\<lambda>sid csrf.
        with_body (decodeJSONBody (de_read (sv_codecs sv)) i) ''invalid secret read request'' (\<lambda>req s.
        (case on_integration (integration_ReadSecret m sid csrf req (clock sv s)) s of
           ((x, rc, e), s1) \<Rightarrow> (reply (outcome_status 200 e) (JsonSecret x rc (integrationError e)), s1)))))))"

definition apiIntegrationInvalidateSecret :: "'w server \<Rightarrow> 'w handler" where
  "apiIntegrationInvalidateSecret sv i =
     (let r = wi_request i in
      enabled sv (\<lambda>m. csrf_checked r (in_session r (\<lambda>sid csrf.
        with_body (decodeJSONBody (de_invalidate (sv_codecs sv)) i) ''invalid secret invalidation request'' (\<lambda>req s.
        (case on_integration (integration_InvalidateSecret m sid csrf req (clock sv s)) s of
           ((x, rc, e), s1) \<Rightarrow> (reply (outcome_status 200 e) (JsonCredential x rc (integrationError e)), s1)))))))"

end
