(* ===== verification/Routes.thy ===== *)
theory Routes
  imports Api Login
begin

text \<open>
  How a request reaches its handler (routes of internal/web/server.go): the table of patterns of the
  ServeMux, the middleware in front of it in the order in which the code wraps it (authentication, then the
  rate limits, then the table), and the answers of the middleware. Paths are clean and decoded: the
  redirects by which ServeMux cleans a path are not modelled, nor are the middleware for logs,
  metrics and request identifiers, which pass a request on unchanged.
\<close>

section \<open>Patterns\<close>

datatype segment = Lit string | Wild

datatype route =
    RDashboard | RConfiguration | RRequirements | RConnect | RSession | RDisconnect | RApplications
  | RCreateApplication | RCreateSecret | RReadSecret | RInvalidateSecret | RIdentityList | RIdentityEvents
  | RRotate | RPreviewRotation | RRetire | RDelete | RUse | RProvision | RApiConfiguration | RApiList
  | RApiRegister | RApiInspect | RApiRotate | RApiRetire | RApiDelete | RApiUse | RApiProvision
  | RHealth | RMetrics | RLogin | RCallback | RLogout | RFaviconICO | RFaviconSVG | RStatic | RApiRoot

definition route_table :: "(string \<times> segment list \<times> route) list" where
  "route_table =
     [(''GET'', [Lit []], RDashboard),
      (''GET'', [Lit ''configuration''], RConfiguration),
      (''GET'', [Lit ''api'', Lit ''v1'', Lit ''integration'', Lit ''requirements''], RRequirements),
      (''POST'', [Lit ''api'', Lit ''v1'', Lit ''integration'', Lit ''connect''], RConnect),
      (''GET'', [Lit ''api'', Lit ''v1'', Lit ''integration'', Lit ''session''], RSession),
      (''POST'', [Lit ''api'', Lit ''v1'', Lit ''integration'', Lit ''disconnect''], RDisconnect),
      (''GET'', [Lit ''api'', Lit ''v1'', Lit ''integration'', Lit ''applications''], RApplications),
      (''POST'', [Lit ''api'', Lit ''v1'', Lit ''integration'', Lit ''applications''], RCreateApplication),
      (''POST'', [Lit ''api'', Lit ''v1'', Lit ''integration'', Lit ''secrets''], RCreateSecret),
      (''POST'', [Lit ''api'', Lit ''v1'', Lit ''integration'', Lit ''secrets'', Lit ''read''], RReadSecret),
      (''POST'', [Lit ''api'', Lit ''v1'', Lit ''integration'', Lit ''secrets'', Lit ''invalidate''], RInvalidateSecret),
      (''GET'', [Lit ''partials'', Lit ''identities''], RIdentityList),
      (''GET'', [Lit ''identities'', Wild, Lit ''events''], RIdentityEvents),
      (''POST'', [Lit ''identities'', Wild, Lit ''rotate''], RRotate),
      (''POST'', [Lit ''identities'', Wild, Lit ''rotate'', Lit ''preview''], RPreviewRotation),
      (''POST'', [Lit ''identities'', Wild, Lit ''retire''], RRetire),
      (''DELETE'', [Lit ''identities'', Wild], RDelete),
      (''POST'', [Lit ''identities'', Wild, Lit ''use''], RUse),
      (''POST'', [Lit ''identities'', Lit ''provision''], RProvision),
      (''GET'', [Lit ''api'', Lit ''v1'', Lit ''configuration''], RApiConfiguration),
      (''GET'', [Lit ''api'', Lit ''v1'', Lit ''identities''], RApiList),
      (''POST'', [Lit ''api'', Lit ''v1'', Lit ''identities''], RApiRegister),
      (''GET'', [Lit ''api'', Lit ''v1'', Lit ''identities'', Wild], RApiInspect),
      (''POST'', [Lit ''api'', Lit ''v1'', Lit ''identities'', Wild, Lit ''rotations''], RApiRotate),
      (''POST'', [Lit ''api'', Lit ''v1'', Lit ''identities'', Wild, Lit ''retire''], RApiRetire),
      (''DELETE'', [Lit ''api'', Lit ''v1'', Lit ''identities'', Wild], RApiDelete),
      (''POST'', [Lit ''api'', Lit ''v1'', Lit ''identities'', Wild, Lit ''use''], RApiUse),
      (''POST'', [Lit ''api'', Lit ''v1'', Lit ''demo'', Lit ''identities''], RApiProvision),
      (''GET'', [Lit ''livez''], RHealth),
      (''GET'', [Lit ''readyz''], RHealth),
      (''GET'', [Lit ''metrics''], RMetrics),
      (''GET'', [Lit ''favicon.ico''], RFaviconICO),
      (''GET'', [Lit ''favicon.svg''], RFaviconSVG)]"

definition auth_routes :: "(string \<times> segment list \<times> route) list" where
  "auth_routes =
     [(''GET'', [Lit ''auth'', Lit ''login''], RLogin),
      (''GET'', [Lit ''auth'', Lit ''callback''], RCallback),
      (''POST'', [Lit ''auth'', Lit ''logout''], RLogout)]"

fun seg_matches :: "segment \<Rightarrow> string \<Rightarrow> bool" where
  "seg_matches (Lit t) s \<longleftrightarrow> s = t"
| "seg_matches Wild s \<longleftrightarrow> s \<noteq> []"

definition path_segments :: "string \<Rightarrow> string list" where
  "path_segments path = split_on CHR ''/'' (drop 1 path)"

text \<open>A pattern for GET also takes HEAD. The two subtrees are the least specific patterns.\<close>

definition mux_method :: "string \<Rightarrow> string" where
  "mux_method m = (if m = ''HEAD'' then ''GET'' else m)"

definition route_of :: "string option \<Rightarrow> string \<Rightarrow> string \<Rightarrow> (segment list \<times> route) option" where
  "route_of mode m path =
     (let table = (if mode = Some AuthModeOIDC then route_table @ auth_routes else route_table) in
      case find (\<lambda>(m', p, _). m' = mux_method m \<and> list_all2 seg_matches p (path_segments path)) table of
        Some (_, p, r) \<Rightarrow> Some (p, r)
      | None \<Rightarrow>
          if mux_method m = ''GET'' \<and> has_prefix path ''/static/'' then Some ([], RStatic)
          else if mux_method m = ''GET'' \<and> has_prefix path ''/api/v1/'' then Some ([], RApiRoot)
          else None)"

text \<open>The value of \<open>{id}\<close>.\<close>

fun path_value :: "segment list \<Rightarrow> string list \<Rightarrow> string" where
  "path_value (Wild # ps) (s # ss) = s"
| "path_value (Lit _ # ps) (s # ss) = path_value ps ss"
| "path_value _ _ = []"

section \<open>Dispatch\<close>

text \<open>
  What the OpenID Connect handlers need beside the server: the network of the issuer, its caches,
  the sessions, random texts.
\<close>

record ('s, 'w) site =
  si_server :: "'w server"
  si_token_files :: token_files
  si_sessions :: "'s session_store"
  si_oidc :: "'w oidc_net"
  si_random :: "nat \<Rightarrow> string result"
  si_fresh :: string

record ('s, 'w) site_state =
  ss_web :: "'w web"
  ss_limits :: limiters
  ss_store :: 's
  ss_cache :: oidc_cache

definition cookie_age :: "authenticator \<Rightarrow> string \<Rightarrow> string \<Rightarrow> int" where
  "cookie_age a k v =
     (if v = [] then -1 else if k = csrfCookieName then 1800
      else if k = oidcStateCookie then 600 else au_session_ttl a div second)"

definition auth_answer :: "authenticator \<Rightarrow> web_request \<Rightarrow> http_answer \<Rightarrow> answer" where
  "auth_answer a r ans = \<lparr>an_status = int (ha_status ans), an_body = Plain (ha_text ans),
     an_cookies = map (\<lambda>(k, v). \<lparr>sc_name = k, sc_value = v, sc_http_only = (k \<noteq> csrfCookieName),
       sc_secure = requestIsSecure r, sc_max_age = cookie_age a k v\<rparr>) (ha_cookies ans)\<rparr>"

definition not_configured :: answer where
  "not_configured = reply 501 (Plain ''authentication is not configured'')"

definition web_world :: "('s, 'w) site_state \<Rightarrow> 'w" where
  "web_world x = snd (snd (ss_web x))"

definition set_world :: "'w \<Rightarrow> ('s, 'w) site_state \<Rightarrow> ('s, 'w) site_state" where
  "set_world w x = x\<lparr>ss_web := (fst (ss_web x), fst (snd (ss_web x)), w)\<rparr>"

definition authLogin :: "('s, 'w) site \<Rightarrow> web_request \<Rightarrow> ('s, 'w) site_state \<Rightarrow> answer \<times> ('s, 'w) site_state" where
  "authLogin site r x =
     (case sv_auth (si_server site) of
        None \<Rightarrow> (not_configured, x)
      | Some a \<Rightarrow>
          (case login (si_oidc site) a (clock (si_server site) (ss_web x)) (si_random site) r (ss_cache x, web_world x) of
             (ans, cache, w) \<Rightarrow> (auth_answer a r ans, (set_world w x)\<lparr>ss_cache := cache\<rparr>)))"

definition authCallback :: "('s, 'w) site \<Rightarrow> web_request \<Rightarrow> ('s, 'w) site_state \<Rightarrow> answer \<times> ('s, 'w) site_state" where
  "authCallback site r x =
     (case sv_auth (si_server site) of
        None \<Rightarrow> (not_configured, x)
      | Some a \<Rightarrow>
          (case au_oidc a of
             None \<Rightarrow> (reply 501 (Plain ''OIDC is not configured''), x)
           | Some o1 \<Rightarrow>
               (case callback (si_oidc site) (si_sessions site) a o1 (clock (si_server site) (ss_web x)) (si_random site 3) r
                       ((ss_cache x, web_world x), ss_store x) of
                  (ans, (cache, w), st) \<Rightarrow> (auth_answer a r ans, (set_world w x)\<lparr>ss_cache := cache, ss_store := st\<rparr>))))"

definition authLogout :: "('s, 'w) site \<Rightarrow> web_request \<Rightarrow> ('s, 'w) site_state \<Rightarrow> answer \<times> ('s, 'w) site_state" where
  "authLogout site r x =
     (case sv_auth (si_server site) of
        None \<Rightarrow> (not_configured, x)
      | Some a \<Rightarrow>
          (case logout (si_sessions site) a (si_fresh site) r (ss_store x) of
             (ans, st) \<Rightarrow> (auth_answer a r ans, x\<lparr>ss_store := st\<rparr>)))"

fun web_route :: "'w server \<Rightarrow> route \<Rightarrow> web_input \<Rightarrow> 'w web \<Rightarrow> (answer \<times> 'w web) option" where
  "web_route sv RDashboard i s = Some (dashboard sv i s)"
| "web_route sv RConfiguration i s = Some (configurationPage sv i s)"
| "web_route sv RRequirements i s = Some (apiIntegrationRequirements sv i s)"
| "web_route sv RConnect i s = Some (apiIntegrationConnect sv i s)"
| "web_route sv RSession i s = Some (apiIntegrationSession sv i s)"
| "web_route sv RDisconnect i s = Some (apiIntegrationDisconnect sv i s)"
| "web_route sv RApplications i s = Some (apiIntegrationApplications sv i s)"
| "web_route sv RCreateApplication i s = Some (apiIntegrationCreateApplication sv i s)"
| "web_route sv RCreateSecret i s = Some (apiIntegrationCreateSecret sv i s)"
| "web_route sv RReadSecret i s = Some (apiIntegrationReadSecret sv i s)"
| "web_route sv RInvalidateSecret i s = Some (apiIntegrationInvalidateSecret sv i s)"
| "web_route sv RIdentityList i s = Some (identityList sv i s)"
| "web_route sv RIdentityEvents i s = Some (identityEvents sv i s)"
| "web_route sv RRotate i s = Some (rotate_form sv i s)"
| "web_route sv RPreviewRotation i s = Some (previewRotation sv i s)"
| "web_route sv RRetire i s = Some (retire_form sv i s)"
| "web_route sv RDelete i s = Some (deleteIdentity sv i s)"
| "web_route sv RUse i s = Some (use_form sv i s)"
| "web_route sv RProvision i s = provision_form sv i s"
| "web_route sv RApiConfiguration i s = Some (apiConfiguration sv i s)"
| "web_route sv RApiList i s = Some (apiList sv i s)"
| "web_route sv RApiRegister i s = Some (apiRegister sv i s)"
| "web_route sv RApiInspect i s = Some (apiInspect sv i s)"
| "web_route sv RApiRotate i s = Some (apiRotate sv i s)"
| "web_route sv RApiRetire i s = Some (apiRetire sv i s)"
| "web_route sv RApiDelete i s = Some (apiDeleteIdentity sv i s)"
| "web_route sv RApiUse i s = Some (apiUse sv i s)"
| "web_route sv RApiProvision i s = apiProvision sv i s"
| "web_route sv RHealth i s = Some (reply 200 (Plain ''ok''), s)"
| "web_route sv RMetrics i s = Some (reply 200 (Asset ''metrics''), s)"
| "web_route sv RFaviconICO i s = Some (reply 200 (Asset ''favicon.ico''), s)"
| "web_route sv RFaviconSVG i s = Some (reply 200 (Asset ''favicon.svg''), s)"
| "web_route sv RStatic i s = Some (reply 200 (Asset (drop 8 (wr_path (wi_request i)))), s)"
| "web_route sv _ i s = Some (apiRoot sv i s)"

text \<open>A method without a pattern for a path that another method has is answered 405.\<close>

definition unrouted :: "string option \<Rightarrow> string \<Rightarrow> answer" where
  "unrouted mode path =
     (if list_ex (\<lambda>m. route_of mode m path \<noteq> None) [''GET'', ''POST'', ''DELETE''] then
        reply 405 (Plain ''Method Not Allowed'')
      else reply 404 (Plain ''404 page not found''))"

definition dispatch ::
  "('s, 'w) site \<Rightarrow> web_input \<Rightarrow> ('s, 'w) site_state \<Rightarrow> (answer \<times> ('s, 'w) site_state) option" where
  "dispatch site i x =
     (let r = wi_request i; mode = map_option au_mode (sv_auth (si_server site)) in
      case route_of mode (wr_method r) (wr_path r) of
        None \<Rightarrow> Some (unrouted mode (wr_path r), x)
      | Some (p, rt) \<Rightarrow>
          if rt = RLogin then Some (authLogin site r x)
          else if rt = RCallback then Some (authCallback site r x)
          else if rt = RLogout then Some (authLogout site r x)
          else map_option (\<lambda>(ans, s). (ans, x\<lparr>ss_web := s\<rparr>))
            (web_route (si_server site) rt (i\<lparr>wi_id := path_value p (path_segments (wr_path r))\<rparr>) (ss_web x)))"

section \<open>The middleware\<close>

definition rate_limited :: answer where
  "rate_limited = reply 429 (RawFailure ''rate_limited''
     (''too many requests '' @ [CHR 0xE2, CHR 0x80, CHR 0x94] @ '' please wait and retry''))"

definition throttled ::
  "('s, 'w) site \<Rightarrow> web_input \<Rightarrow> ('s, 'w) site_state \<Rightarrow> (answer \<times> ('s, 'w) site_state) option" where
  "throttled site i x =
     (case throttle (clock (si_server site) (ss_web x)) (wi_request i) (ss_limits x) of
        (ok, ls) \<Rightarrow> if ok then dispatch site i (x\<lparr>ss_limits := ls\<rparr>) else Some (rate_limited, x\<lparr>ss_limits := ls\<rparr>))"

definition auth_failure :: "web_request \<Rightarrow> int \<Rightarrow> string \<Rightarrow> string \<Rightarrow> answer" where
  "auth_failure r status code message =
     reply status (if wants_json r then RawFailure code message else Plain message)"

definition with_cookie :: "web_request \<Rightarrow> string option \<Rightarrow> answer \<Rightarrow> answer" where
  "with_cookie r sent a = (case sent of None \<Rightarrow> a | Some v \<Rightarrow> a\<lparr>an_cookies := csrf_set_cookie r v # an_cookies a\<rparr>)"

text \<open>The whole stack. In the mode none there is no authentication in front of the limits.\<close>

definition serve ::
  "('s, 'w) site \<Rightarrow> web_input \<Rightarrow> ('s, 'w) site_state \<Rightarrow> (answer \<times> ('s, 'w) site_state) option" where
  "serve site i x =
     (case sv_auth (si_server site) of
        None \<Rightarrow> throttled site i x
      | Some a \<Rightarrow>
          if au_mode a = AuthModeNone then throttled site i x
          else (let r = wi_request i in
            case auth_serve (si_token_files site) (si_sessions site) a (clock (si_server site) (ss_web x))
                   (si_fresh site) r (ss_store x) of
              ((v, sent), st) \<Rightarrow>
                (let x1 = x\<lparr>ss_store := st\<rparr> in
                 case v of
                   Unauthorized \<Rightarrow> Some (auth_failure r 401 ''authentication_required'' ''authentication required'', x1)
                 | Forbidden m \<Rightarrow> Some (with_cookie r sent (auth_failure r 403 ''forbidden'' m), x1)
                 | Redirect u \<Rightarrow> Some (reply 302 (Plain u), x1)
                 | Next r1 \<Rightarrow> map_option (\<lambda>(ans, x2). (with_cookie r sent ans, x2))
                     (throttled site (i\<lparr>wi_request := r1\<rparr>) x1))))"

end
