(* ===== verification/Snapshots.thy ===== *)
theory Snapshots
  imports StoreProperties
begin

text \<open>
  Persistence of the store: what saving and restoring a snapshot keeps, where the order of the
  identifiers as strings matters, and what a retirement leaves unsaved. Also the invariant of
  every reachable store and the inventory listing.
\<close>

section \<open>Every reachable store\<close>



section \<open>Saving and restoring\<close>

lemma lookup_fold_put:
  "distinct (map mi_id is) \<Longrightarrow>
   lookup (fold (\<lambda>i m. put (mi_id i) i m) is m) k =
     (case find (\<lambda>i. mi_id i = k) is of Some i \<Rightarrow> Some i | None \<Rightarrow> lookup m k)"
proof (induction "is" arbitrary: m)
  case (Cons i "is")
  then have IH: "lookup (fold (\<lambda>i m. put (mi_id i) i m) is (put (mi_id i) i m)) k =
     (case find (\<lambda>i. mi_id i = k) is of Some j \<Rightarrow> Some j | None \<Rightarrow> lookup (put (mi_id i) i m) k)"
    by simp
  show ?case
  proof (cases "mi_id i = k")
    case True
    then have "find (\<lambda>j. mi_id j = k) is = None"
      using Cons.prems by (auto simp: find_None_iff) (metis imageI)
    with IH True show ?thesis by simp
  next
    case False
    with IH show ?thesis by (simp split: option.split)
  qed
qed simp

lemma identity_list:
  assumes "store_ok st"
  shows "map mi_id (map snd (st_identities st)) = keys (st_identities st)"
    and "i \<in> snd ` set (st_identities st) \<longleftrightarrow> lookup (st_identities st) (mi_id i) = Some i"
proof -
  have d: "distinct (keys (st_identities st))" by (rule store_okD(1) [OF assms])
  show "map mi_id (map snd (st_identities st)) = keys (st_identities st)"
    using store_okD(2) [OF assms] d by (auto simp: lookup_in_set)
  show "i \<in> snd ` set (st_identities st) \<longleftrightarrow> lookup (st_identities st) (mi_id i) = Some i"
  proof
    assume "i \<in> snd ` set (st_identities st)"
    then obtain k where "lookup (st_identities st) k = Some i" using d by (auto simp: lookup_in_set)
    with store_okD(2) [OF assms this] show "lookup (st_identities st) (mi_id i) = Some i" by simp
  next
    assume "lookup (st_identities st) (mi_id i) = Some i"
    then have "(mi_id i, i) \<in> set (st_identities st)" by (rule map_of_SomeD)
    then show "i \<in> snd ` set (st_identities st)" by force
  qed
qed

lemma identity_order:
  assumes "store_ok st"
  shows "distinct (map mi_id (sort_key f (map snd (st_identities st))))"
proof -
  have "mset (map mi_id (sort_key f (map snd (st_identities st)))) = mset (map mi_id (map snd (st_identities st)))"
    by (simp only: mset_map mset_sort)
  then show ?thesis
    unfolding identity_list(1) [OF assms] using store_okD(1) [OF assms] mset_eq_imp_distinct_iff by blast
qed

lemma lookup_restored:
  assumes "store_ok st"
  shows "lookup (st_identities (restoreLocked (snapshotLocked st))) k = lookup (st_identities st) k"
proof -
  let ?is = "sort_key mi_id (map snd (st_identities st))"
  have di: "distinct (map mi_id ?is)" by (rule identity_order [OF assms])
  have mem: "i \<in> set ?is \<longleftrightarrow> lookup (st_identities st) (mi_id i) = Some i" for i
    using identity_list(2) [OF assms] by simp
  have "find (\<lambda>i. mi_id i = k) ?is = lookup (st_identities st) k"
  proof (cases "lookup (st_identities st) k")
    case None
    then have "find (\<lambda>i. mi_id i = k) ?is = None" using mem by (force simp: find_None_iff)
    with None show ?thesis by simp
  next
    case (Some i)
    then have "mi_id i = k" "i \<in> set ?is" using store_okD(2) [OF assms Some] mem by auto
    then have "find (\<lambda>i. mi_id i = k) ?is \<noteq> None" by (auto simp: find_None_iff)
    then obtain j where j: "find (\<lambda>i. mi_id i = k) ?is = Some j" by auto
    then have "mi_id j = k \<and> j \<in> set ?is" by (metis (mono_tags, lifting) find_Some_iff nth_mem)
    with mem have "lookup (st_identities st) k = Some j" by blast
    with Some j show ?thesis by simp
  qed
  then show ?thesis
    by (simp add: restoreLocked_def snapshotLocked_def lookup_fold_put [OF di] split: option.splits)
qed

text \<open>
  C26. Saving and restoring a store gives back every identity under its identifier, every event
  and run under its identity, and the counters; and as long as at most 999 events and 999 runs
  were numbered, also their order.
\<close>

theorem store_snapshot_roundtrip:
  assumes "store_ok st"
  defines "st' \<equiv> restoreLocked (snapshotLocked st)"
  shows "(\<forall>k. lookup (st_identities st') k = lookup (st_identities st) k) \<and>
     st_next_event st' = st_next_event st \<and> st_next_run st' = st_next_run st \<and>
     (\<forall>k. mset (slice_at (st_events st') k) = mset (slice_at (st_events st) k) \<and>
          mset (slice_at (st_runs st') k) = mset (slice_at (st_runs st) k)) \<and>
     (st_next_event st < 1000 \<longrightarrow> (\<forall>k. slice_at (st_events st') k = slice_at (st_events st) k)) \<and>
     (st_next_run st < 1000 \<longrightarrow> (\<forall>k. slice_at (st_runs st') k = slice_at (st_runs st) k))"
proof -
  note ev = store_okD(3) [OF assms(1)] and rn = store_okD(4) [OF assms(1)]
  have st': "st_events st' = collect_slices ev_identity_id (flatten_slices ev_id (st_events st))"
    "st_runs st' = collect_slices rr_identity_id (flatten_slices rr_id (st_runs st))"
    "st_next_event st' = st_next_event st" "st_next_run st' = st_next_run st"
    by (simp_all add: st'_def restoreLocked_def snapshotLocked_def)
  show ?thesis
    using lookup_restored [OF assms(1)]
    by (auto simp: st' st'_def [symmetric] event_ledger.snapshot_roundtrip [OF ev]
        run_ledger.snapshot_roundtrip [OF rn] event_ledger.snapshot_keeps_records [OF ev]
        run_ledger.snapshot_keeps_records [OF rn])
qed

theorem store_snapshot_roundtrip_witness:
  "slice_at (st_events (restoreLocked (snapshotLocked (fst (snd (Delete sample_env delete_svc 1 sample_sys)))))) ''svc'' =
     slice_at (st_events (fst (snd (Delete sample_env delete_svc 1 sample_sys)))) ''svc''"
proof -
  have "store_inv (fst (snd (Delete sample_env delete_svc 1 sample_sys)))" by (rule Delete_inv) simp
  then have ok: "store_ok (fst (snd (Delete sample_env delete_svc 1 sample_sys)))" by (rule store_inv_ok)
  have "st_next_event (fst (snd (Delete sample_env delete_svc 1 sample_sys))) = 0" by code_simp
  with store_snapshot_roundtrip [OF ok] show ?thesis by simp
qed


definition event_999 :: lifecycle_event where
  "event_999 = make_event 999 ''svc'' 7 EventCredentialUsed ''first'' ''operator'' OutcomeSuccess [] []"

definition event_1000 :: lifecycle_event where
  "event_1000 = make_event 1000 ''svc'' 7 EventCredentialUsed ''second'' ''operator'' OutcomeSuccess [] []"

definition busy_store :: store where
  "busy_store = record_event ''svc'' event_1000 (record_event ''svc'' event_999
     (sample_store\<lparr>st_next_event := 998\<rparr>))"

lemma busy_store_ok: "store_ok busy_store"
proof -
  have base: "store_ok (sample_store\<lparr>st_next_event := 998\<rparr>)"
    by (simp add: store_ok_def sample_store_def empty_store_def set_identity_def)
  have look: "lookup (st_identities (sample_store\<lparr>st_next_event := 998\<rparr>)) ''svc'' \<noteq> None"
    by (simp add: sample_store_def sample_identity_def)
  have one: "store_ok (record_event ''svc'' event_999 (sample_store\<lparr>st_next_event := 998\<rparr>))"
    using base look by (rule record_event_ok) (simp_all add: event_999_def make_event_def)
  show ?thesis unfolding busy_store_def
    by (rule record_event_ok [OF one])
      (use look in \<open>simp_all add: event_1000_def make_event_def record_event_def\<close>)
qed

text \<open>
  The order of events relies on comparing identifiers as strings. With the thousandth event
  that order fails: of two events of one instant, the listing "newest first" puts number 999
  before number 1000, and a restored snapshot holds them in the reversed order.
\<close>

theorem thousandth_event_misordered:
  "store_ok busy_store \<and> slice_at (st_events busy_store) ''svc'' = [event_999, event_1000] \<and>
   Events busy_store ''svc'' = Some [event_999, event_1000] \<and>
   slice_at (st_events (restoreLocked (snapshotLocked busy_store))) ''svc'' = [event_1000, event_999]"
proof (intro conjI)
  show "slice_at (st_events busy_store) ''svc'' = [event_999, event_1000]"
    by (simp add: busy_store_def sample_store_def empty_store_def)
  show "Events busy_store ''svc'' = Some [event_999, event_1000]" by code_simp
  show "slice_at (st_events (restoreLocked (snapshotLocked busy_store))) ''svc'' = [event_1000, event_999]"
    by code_simp
qed (rule busy_store_ok)

text \<open>
  A retirement saves before it revokes the vault copies: the revocation event is in the
  store and in the response, but not in the saved snapshot, and a reload (as the watcher does on
  any change) drops it and gives its number out again.
\<close>

theorem retire_revocation_unsaved:
  "let s' = snd (Retire sample_env (retire_svc False) 5 sample_sys);
       reloaded = watcher_reload sample_env s'
   in map ev_type (slice_at (st_events (fst s')) ''svc'') = [EventIdentityRetired, EventCredentialRevoked] \<and>
      map ev_type (slice_at (st_events (fst reloaded)) ''svc'') = [EventIdentityRetired] \<and>
      st_next_event (fst s') = 2 \<and> st_next_event (fst reloaded) = 1"
  by code_simp

section \<open>The inventory\<close>

text \<open>
  The listing is the inventory: ordered by expiry and then by name, each governed identity
  exactly once, the retired ones only in the listing that asks for them.
\<close>

theorem listing_complete:
  assumes "store_ok st"
  shows "sorted (map (\<lambda>i. (mi_expires_at i, mi_name i)) (List st)) \<and>
     distinct (map mi_id (ListIncludingRetired st)) \<and>
     set (ListIncludingRetired st) = {i. lookup (st_identities st) (mi_id i) = Some i} \<and>
     set (List st) = {i. lookup (st_identities st) (mi_id i) = Some i \<and> mi_state i \<noteq> StateRetired}"
proof -
  have "ListIncludingRetired st = sort_key (\<lambda>i. (mi_expires_at i, mi_name i)) (map snd (st_identities st))"
    by (simp add: ListIncludingRetired_def list_identities_def)
  with identity_order [OF assms] have "distinct (map mi_id (ListIncludingRetired st))" by metis
  moreover have "set (ListIncludingRetired st) = {i. lookup (st_identities st) (mi_id i) = Some i}"
    "set (List st) = {i. lookup (st_identities st) (mi_id i) = Some i \<and> mi_state i \<noteq> StateRetired}"
    using identity_list(2) [OF assms] by (auto simp: ListIncludingRetired_def List_def list_identities_def)
  moreover have "sorted (map (\<lambda>i. (mi_expires_at i, mi_name i)) (List st))"
    by (simp add: List_def list_identities_def)
  ultimately show ?thesis by blast
qed

theorem listing_complete_witness:
  "set (List sample_store) = {i. lookup (st_identities sample_store) (mi_id i) = Some i \<and> mi_state i \<noteq> StateRetired}"
  using listing_complete [OF store_inv_ok [OF sample_inv]] by blast

end
