(* ===== verification/ServerFacts.thy ===== *)
theory ServerFacts
  imports Routes Snapshots Worker
begin

text \<open>
  What the handlers do to the store: which of them leave it alone, that all of them keep its invariant, and
  that the loop which reclaims demo identities ends.
\<close>

section \<open>The parts of the state\<close>

lemma fst_on_store: "fst (snd (on_store f s)) = fst (snd (f (fst s, snd (snd s))))"
  by (simp add: on_store_def case_prod_beta)

lemma fst_on_integration [simp]: "fst (snd (on_integration f s)) = fst s"
  by (simp add: on_integration_def case_prod_beta)

lemma on_store_result: "fst (on_store f s) = fst (f (fst s, snd (snd s)))"
  by (simp add: on_store_def case_prod_beta)

lemma on_store_integration: "fst (snd (snd (on_store f s))) = fst (snd s)"
  by (simp add: on_store_def case_prod_beta)

lemma on_storeE:
  assumes "on_store f s = (r, s')"
  obtains st w where "f (fst s, snd (snd s)) = (r, (st, w))" "s' = (st, fst (snd s), w)"
  using assms by (auto simp: on_store_def split: prod.splits)

section \<open>Demo identities\<close>

lemma activeDemo_iff:
  assumes "store_ok st"
  shows "i \<in> set (activeDemo p st) \<longleftrightarrow> lookup (st_identities st) (mi_id i) = Some i \<and>
    pb_provider (mi_provider i) = p \<and> mi_state i = StateActive \<and> has_prefix (mi_name i) demoPrefixWeb"
  using identity_list(2) [OF assms, of i]
  by (auto simp: activeDemo_def List_def list_identities_def)

lemma activeDemo_distinct: "store_ok st \<Longrightarrow> distinct (activeDemo p st)"
  unfolding activeDemo_def using List_distinct [of st] by (auto simp: distinct_map intro: distinct_filter)

lemma oldest_demo_in: "demo \<noteq> [] \<Longrightarrow> oldest_demo demo \<in> set demo"
proof -
  have "fold (\<lambda>candidate oldest. if mi_created_at candidate < mi_created_at oldest then candidate else oldest) xs x
      \<in> insert x (set xs)" for xs x
    by (induction xs arbitrary: x) auto
  then show "demo \<noteq> [] \<Longrightarrow> oldest_demo demo \<in> set demo"
    by (cases demo) (force simp: oldest_demo_def)+
qed

text \<open>
  One turn of the loop retires the oldest identity or changes no identity; when it goes on, it retired one.
\<close>

definition demos_retired :: "string \<Rightarrow> store \<Rightarrow> store \<Rightarrow> bool" where
  "demos_retired p st st' \<longleftrightarrow> set (activeDemo p st') \<subseteq> set (activeDemo p st) \<and>
     (\<forall>j. lookup (st_identities st') j \<noteq> lookup (st_identities st) j \<longrightarrow>
        (\<exists>i \<in> set (activeDemo p st). mi_id i = j) \<and>
        (\<exists>i'. lookup (st_identities st') j = Some i' \<and> mi_state i' = StateRetired))"

lemma demos_retired_refl [simp]: "demos_retired p st st"
  by (simp add: demos_retired_def)

lemma demos_retired_trans:
  assumes "demos_retired p st1 st2" "demos_retired p st2 st3"
  shows "demos_retired p st1 st3"
  unfolding demos_retired_def
proof (intro conjI allI impI)
  show "set (activeDemo p st3) \<subseteq> set (activeDemo p st1)" using assms by (auto simp: demos_retired_def)
next
  fix j assume j: "lookup (st_identities st3) j \<noteq> lookup (st_identities st1) j"
  show "\<exists>i \<in> set (activeDemo p st1). mi_id i = j"
    using assms j unfolding demos_retired_def by (metis subsetD)
  show "\<exists>i'. lookup (st_identities st3) j = Some i' \<and> mi_state i' = StateRetired"
    using assms j unfolding demos_retired_def by metis
qed

lemma reclaim_turn:
  assumes inv: "store_inv (fst s)" and ne: "activeDemo p (fst s) \<noteq> []"
    and r: "on_store (Retire env (reclaim_request (oldest_demo (activeDemo p (fst s)))) now) s = (res, s')"
  shows "demos_retired p (fst s) (fst s') \<and>
    (\<forall>resp. res = Inr resp \<longrightarrow> length (activeDemo p (fst s')) < length (activeDemo p (fst s)))"
proof -
  let ?old = "oldest_demo (activeDemo p (fst s))" and ?st = "fst s"
  have ok: "store_ok ?st" using inv by (rule store_inv_ok)
  have old: "?old \<in> set (activeDemo p ?st)" using oldest_demo_in [OF ne] .
  obtain st w where run: "Retire env (reclaim_request ?old) now (?st, snd (snd s)) = (res, (st, w))"
    and s': "s' = (st, fst (snd s), w)" using r by (rule on_storeE)
  have id: "rt_id (reclaim_request ?old) = mi_id ?old" and nodry: "\<not> rt_dry_run (reclaim_request ?old)"
    by (simp_all add: reclaim_request_def)
  have ok0: "store_ok (fst (?st, snd (snd s)))" using ok by simp
  show ?thesis
  proof (rule Retire_effect [OF ok0 run])
    fix i view j
    assume j: "j = retired_identity (rt_id (reclaim_request ?old)) view now"
      and g0: "governed (rt_id (reclaim_request ?old)) j (fst (?st, snd (snd s))) (fst (st, w))"
    have g: "governed (mi_id ?old) j ?st st" and ret: "mi_state j = StateRetired"
      using g0 by (simp_all add: id j retired_identity_def)
    have look: "lookup (st_identities st) k = (if k = mi_id ?old then Some j else lookup (st_identities ?st) k)" for k
      using g by (simp add: governed_def)
    have ok': "store_ok st" using g by (simp add: governed_def)
    have sub: "set (activeDemo p st) \<subseteq> set (activeDemo p ?st) - {?old}"
      using ret by (auto simp: activeDemo_iff [OF ok'] activeDemo_iff [OF ok] look split: if_splits)
    have "card (set (activeDemo p st)) < card (set (activeDemo p ?st))"
      by (rule psubset_card_mono) (use sub old in auto)
    then have "length (activeDemo p st) < length (activeDemo p ?st)"
      by (simp add: distinct_card activeDemo_distinct ok ok')
    moreover have "demos_retired p ?st st"
      using old ret sub by (auto simp: demos_retired_def look)
    ultimately show ?thesis by (simp add: s')
  qed (use nodry s' in auto)
qed

lemma demo_quota_pos: "0 < demo_quota sv"
  by (simp add: demo_quota_def)

lemma on_store_inv:
  assumes "\<And>s. store_inv (fst s) \<Longrightarrow> store_inv (fst (snd (f s)))" "store_inv (fst s)"
  shows "store_inv (fst (snd (on_store f s)))"
  using assms(1) [of "(fst s, snd (snd s))"] assms(2) by (simp add: fst_on_store)

text \<open>What holds of the state in which the loop ends, by induction on the number of active identities.\<close>

definition reclaimed :: "'w server \<Rightarrow> string \<Rightarrow> 'w web \<Rightarrow> 'w web \<Rightarrow> bool" where
  "reclaimed sv p s s' \<longleftrightarrow> store_inv (fst s') \<and> fst (snd s') = fst (snd s) \<and> demos_retired p (fst s) (fst s') \<and>
     (length (activeDemo p (fst s')) < demo_quota sv \<or>
      (\<exists>x e. store_inv (fst x) \<and> demos_retired p (fst s) (fst x) \<and> demo_quota sv \<le> length (activeDemo p (fst x)) \<and>
         on_store (Retire (sv_env sv) (reclaim_request (oldest_demo (activeDemo p (fst x)))) (clock sv x)) x = (Inl e, s')))"

lemma reclaimed_turn:
  assumes "demos_retired p (fst s) (fst s1)" "fst (snd s1) = fst (snd s)" "reclaimed sv p s1 s'"
  shows "reclaimed sv p s s'"
  using assms(2,3) demos_retired_trans [OF assms(1)] unfolding reclaimed_def by (metis (no_types, lifting))

lemma reclaim_ends:
  assumes "store_inv (fst s)"
  shows "\<exists>s'. reclaimDemo sv p s = Some s' \<and> reclaimed sv p s s'"
  using assms
proof (induction "length (activeDemo p (fst s))" arbitrary: s rule: less_induct)
  case less
  show ?case
  proof (cases "length (activeDemo p (fst s)) < demo_quota sv")
    case True
    then show ?thesis using less.prems by (simp add: reclaimDemo.simps [of sv p s] reclaimed_def Let_def)
  next
    case False
    then have ne: "activeDemo p (fst s) \<noteq> []" using demo_quota_pos [of sv] by auto
    let ?f = "Retire (sv_env sv) (reclaim_request (oldest_demo (activeDemo p (fst s)))) (clock sv s)"
    obtain r s1 where run: "on_store ?f s = (r, s1)" by (rule prod.exhaust)
    have inv: "store_inv (fst s1)" using on_store_inv [of ?f s, OF Retire_inv less.prems] run by simp
    have im: "fst (snd s1) = fst (snd s)" using on_store_integration [of ?f s] run by simp
    have turn: "demos_retired p (fst s) (fst s1)"
      and fewer: "r = Inr resp \<Longrightarrow> length (activeDemo p (fst s1)) < length (activeDemo p (fst s))" for resp
      using reclaim_turn [OF less.prems ne run] by blast+
    show ?thesis
    proof (cases r)
      case (Inl e)
      then have "reclaimDemo sv p s = Some s1" using False run by (simp add: reclaimDemo.simps [of sv p s] Let_def)
      moreover have "reclaimed sv p s s1"
        unfolding reclaimed_def using inv im run Inl turn less.prems False demos_retired_refl [of p "fst s"]
        by (meson not_less)
      ultimately show ?thesis by blast
    next
      case (Inr resp)
      from less.hyps [OF fewer [OF Inr] inv] obtain s' where "reclaimDemo sv p s1 = Some s'" "reclaimed sv p s1 s'" by blast
      moreover have "reclaimDemo sv p s = reclaimDemo sv p s1"
        using False run Inr by (simp add: reclaimDemo.simps [of sv p s] Let_def)
      ultimately show ?thesis using reclaimed_turn [OF turn im] by auto
    qed
  qed
qed

section \<open>Handlers that leave the store alone\<close>

named_theorems store_kept

lemma enabled_store: "(\<And>m s. fst (snd (f m s)) = fst s) \<Longrightarrow> fst (snd (enabled sv f s)) = fst s"
  by (simp add: enabled_def split: option.split)

lemma csrf_checked_store: "(\<And>s. fst (snd (f s)) = fst s) \<Longrightarrow> fst (snd (csrf_checked r f s)) = fst s"
  by (simp add: csrf_checked_def split: sum.split)

lemma in_session_store: "(\<And>sid csrf s. fst (snd (f sid csrf s)) = fst s) \<Longrightarrow> fst (snd (in_session r f s)) = fst s"
  by (simp add: in_session_def split: sum.split prod.split)

lemma with_body_store: "(\<And>req s. fst (snd (f req s)) = fst s) \<Longrightarrow> fst (snd (with_body d m f s)) = fst s"
  by (simp add: with_body_def split: sum.split)

lemmas chain_store = enabled_store csrf_checked_store in_session_store with_body_store

lemma on_integration_kept: "on_integration f s = (r, s') \<Longrightarrow> fst s' = fst s"
  using fst_on_integration [of f s] by simp

lemma reading_store [store_kept]:
  "fst (snd (dashboard sv i s)) = fst s" "fst (snd (identityList sv i s)) = fst s"
  "fst (snd (identityEvents sv i s)) = fst s" "fst (snd (apiRoot sv i s)) = fst s"
  "fst (snd (apiConfiguration sv i s)) = fst s" "fst (snd (apiList sv i s)) = fst s"
  "fst (snd (apiInspect sv i s)) = fst s" "fst (snd (configurationPage sv i s)) = fst s"
  by (simp_all add: dashboard_def identityList_def identityEvents_def apiRoot_def apiConfiguration_def apiList_def
      apiInspect_def configurationPage_def Let_def case_prod_beta split: option.split)

lemma integration_reading_store [store_kept]:
  "fst (snd (apiIntegrationRequirements sv i s)) = fst s" "fst (snd (apiIntegrationSession sv i s)) = fst s"
  "fst (snd (apiIntegrationApplications sv i s)) = fst s"
  unfolding apiIntegrationRequirements_def apiIntegrationSession_def apiIntegrationApplications_def Let_def
  by (rule chain_store | auto dest: on_integration_kept split: option.split sum.split prod.split)+

lemma integration_store [store_kept]:
  "fst (snd (apiIntegrationCreateApplication sv i s)) = fst s" "fst (snd (apiIntegrationCreateSecret sv i s)) = fst s"
  "fst (snd (apiIntegrationReadSecret sv i s)) = fst s" "fst (snd (apiIntegrationInvalidateSecret sv i s)) = fst s"
  unfolding apiIntegrationCreateApplication_def
    apiIntegrationCreateSecret_def apiIntegrationReadSecret_def apiIntegrationInvalidateSecret_def Let_def
  by (intro chain_store; auto dest: on_integration_kept split: prod.split)+

lemma integration_connect_store [store_kept]: "fst (snd (apiIntegrationConnect sv i s)) = fst s"
proof -
  have c: "fst (snd (with_body d m (\<lambda>req s. case on_integration (C req s) s of
      (Inl e, s1) \<Rightarrow> (f e s1, s1) | (Inr (x, y), s1) \<Rightarrow> (g x y s1, s1)) s)) = fst s" for d m C f g s
    by (rule with_body_store) (auto dest: on_integration_kept split: prod.split sum.split)
  show ?thesis
    unfolding apiIntegrationConnect_def Let_def
    by (intro enabled_store csrf_checked_store) (simp add: c)
qed

lemma integration_disconnect_store [store_kept]: "fst (snd (apiIntegrationDisconnect sv i s)) = fst s"
  unfolding apiIntegrationDisconnect_def Let_def
  by (intro enabled_store csrf_checked_store) (simp split: option.split)

section \<open>Handlers of lifecycle operations\<close>

text \<open>The store after a handler is the one after its operation, or the one before.\<close>

named_theorems store_after

lemma page_store [store_after]:
  "fst (snd (identityList sv i s)) = fst s"
  "fst (snd (case x of (Inl e, s1) \<Rightarrow> (f e s1, s1) | (Inr a, s1) \<Rightarrow> (g a s1, s1))) = fst (snd x)"
  "fst (snd (case x of (Inl e, s1) \<Rightarrow> (f e s1, s1) | (Inr a, s1) \<Rightarrow> identityList sv i s1)) = fst (snd x)"
  by (simp_all add: identityList_def split: prod.split sum.split)

lemma store_ops_inv [store_after]:
  assumes "store_inv (fst s)"
  shows "store_inv (fst (snd (on_store (Register env rq now) s)))"
    "store_inv (fst (snd (on_store (Rotate env oq now) s)))"
    "store_inv (fst (snd (on_store (Retire env tq now) s)))"
    "store_inv (fst (snd (on_store (Delete env dq now) s)))"
    "store_inv (fst (snd (on_store (Use env uq now) s)))"
    "store_inv (fst (snd (on_store (Provision env pq now) s)))"
  using assms by (simp_all add: fst_on_store Register_inv Rotate_inv Retire_inv Delete_inv Use_inv Provision_inv)

lemma form_inv:
  assumes "store_inv (fst s)"
  shows "store_inv (fst (snd (previewRotation sv i s)))" "store_inv (fst (snd (previewRetirement sv i s)))"
    "store_inv (fst (snd (rotate_form sv i s)))" "store_inv (fst (snd (retire_form sv i s)))"
    "store_inv (fst (snd (deleteIdentity sv i s)))" "store_inv (fst (snd (use_form sv i s)))"
  using assms unfolding previewRotation_def previewRetirement_def rotate_form_def retire_form_def
    deleteIdentity_def use_form_def
  by (simp_all add: store_after)

lemma api_inv:
  assumes "store_inv (fst s)"
  shows "store_inv (fst (snd (apiRegister sv i s)))" "store_inv (fst (snd (apiRotate sv i s)))"
    "store_inv (fst (snd (apiRetire sv i s)))" "store_inv (fst (snd (apiDeleteIdentity sv i s)))"
    "store_inv (fst (snd (apiUse sv i s)))"
  using assms unfolding apiRegister_def apiRotate_def apiRetire_def apiDeleteIdentity_def apiUse_def Let_def
  by (auto simp: store_after split: sum.split)

lemma provisionIdentity_ends:
  assumes "store_inv (fst s)"
  shows "\<exists>res s'. provisionIdentity sv r p hint s = Some (res, s') \<and> store_inv (fst s')"
proof (cases "trim_space p = []")
  case False
  obtain s1 where s1: "reclaimDemo sv (trim_space p) s = Some s1" "reclaimed sv (trim_space p) s s1"
    using reclaim_ends [OF assms] by blast
  let ?f = "Provision (sv_env sv) \<lparr>pv_provider = trim_space p, pv_purpose = trim_space hint,
    pv_requested_by = operatorOrDefault r, pv_owner_ip = clientIP r\<rparr> (clock sv s1)"
  have "store_inv (fst (snd (on_store ?f s1)))"
    using s1(2) by (intro on_store_inv Provision_inv) (simp_all add: reclaimed_def)
  then show ?thesis using False s1(1) by (cases "on_store ?f s1") (simp add: provisionIdentity_def Let_def)
qed (use assms in \<open>simp add: provisionIdentity_def\<close>)

lemma provision_handlers_end:
  assumes "store_inv (fst s)"
  shows "\<exists>a s'. apiProvision sv i s = Some (a, s') \<and> store_inv (fst s')"
    "\<exists>a s'. provision_form sv i s = Some (a, s') \<and> store_inv (fst s')"
proof -
  have m: "\<exists>a s'. map_option (\<lambda>(res, s1). case res of Inl e \<Rightarrow> (f e s1, s1) | Inr x \<Rightarrow> g x s1)
      (provisionIdentity sv r p h s) = Some (a, s') \<and> store_inv (fst s')"
    if "\<And>x s1. snd (g x s1) = s1" for f g r p h
  proof -
    obtain res s1 where run: "provisionIdentity sv r p h s = Some (res, s1)" and inv: "store_inv (fst s1)"
      using provisionIdentity_ends [OF assms] by blast
    have "snd (case res of Inl e \<Rightarrow> (f e s1, s1) | Inr x \<Rightarrow> g x s1) = s1"
      using that by (cases res) simp_all
    with run inv show ?thesis by (cases "case res of Inl e \<Rightarrow> (f e s1, s1) | Inr x \<Rightarrow> g x s1") simp
  qed
  show "\<exists>a s'. apiProvision sv i s = Some (a, s') \<and> store_inv (fst s')"
  proof (cases "decode_first (de_provision (sv_codecs sv)) (body_text i)")
    case (Inr req)
    show ?thesis unfolding apiProvision_def Inr sum.case by (rule m) simp
  qed (use assms in \<open>simp add: apiProvision_def\<close>)
  show "\<exists>a s'. provision_form sv i s = Some (a, s') \<and> store_inv (fst s')"
  proof (cases "(if trim_space (text_at (wr_form (wi_request i)) ''provider'') = []
      then trim_space (text_at (wr_query (wi_request i)) ''provider'')
      else trim_space (text_at (wr_form (wi_request i)) ''provider'')) = []")
    case False
    show ?thesis unfolding provision_form_def Let_def if_not_P [OF False] by (rule m) simp
  qed (use assms in \<open>simp add: provision_form_def Let_def\<close>)
qed

section \<open>All handlers\<close>

lemma web_route_ends:
  assumes "store_inv (fst s)"
  shows "\<exists>a s'. web_route sv rt i s = Some (a, s') \<and> store_inv (fst s')"
proof -
  have total: "\<exists>a s'. Some h = Some (a, s') \<and> store_inv (fst s')" if "store_inv (fst (snd h))" for h :: "answer \<times> 'a web"
    using that by (cases h) simp
  have kept: "store_inv (fst (snd h))" if "fst (snd h) = fst s" for h :: "answer \<times> 'a web"
    using that assms by simp
  show ?thesis
    by (cases rt) (simp_all only: web_route.simps, (rule total kept store_kept form_inv api_inv
        provision_handlers_end assms | simp add: assms)+)
qed

text \<open>The routes that only read.\<close>

fun lifecycle_route :: "route \<Rightarrow> bool" where
  "lifecycle_route RRotate = True"
| "lifecycle_route RPreviewRotation = True"
| "lifecycle_route RRetire = True"
| "lifecycle_route RDelete = True"
| "lifecycle_route RUse = True"
| "lifecycle_route RProvision = True"
| "lifecycle_route RApiRegister = True"
| "lifecycle_route RApiRotate = True"
| "lifecycle_route RApiRetire = True"
| "lifecycle_route RApiDelete = True"
| "lifecycle_route RApiUse = True"
| "lifecycle_route RApiProvision = True"
| "lifecycle_route _ = False"

fun reads :: "route \<Rightarrow> bool" where
  "reads RRotate = False"
| "reads RPreviewRotation = False"
| "reads RRetire = False"
| "reads RDelete = False"
| "reads RUse = False"
| "reads RProvision = False"
| "reads RApiRegister = False"
| "reads RApiRotate = False"
| "reads RApiRetire = False"
| "reads RApiDelete = False"
| "reads RApiUse = False"
| "reads RApiProvision = False"
| "reads RConnect = False"
| "reads RDisconnect = False"
| "reads RCreateApplication = False"
| "reads RCreateSecret = False"
| "reads RReadSecret = False"
| "reads RInvalidateSecret = False"
| "reads RLogout = False"
| "reads _ = True"

lemma web_route_store:
  assumes "\<not> lifecycle_route rt" "web_route sv rt i s = Some (a, s')"
  shows "fst s' = fst s"
proof -
  have kept: "fst s' = fst s" if "Some h = Some (a, s')" "fst (snd h) = fst s" for h using that by auto
  show ?thesis using assms
    by (cases rt) (simp_all only: web_route.simps lifecycle_route.simps simp_thms,
      (erule kept, simp add: store_kept)+)
qed

lemma find_in: "find P xs = Some x \<Longrightarrow> x \<in> set xs \<and> P x"
  by (auto simp: find_Some_iff)

lemma route_in_table:
  assumes "route_of mode m path = Some (p, rt)"
  shows "(mux_method m, p, rt) \<in> set (route_table @ auth_routes) \<or>
    mux_method m = ''GET'' \<and> (rt = RStatic \<or> rt = RApiRoot)"
proof -
  let ?table = "if mode = Some AuthModeOIDC then route_table @ auth_routes else route_table"
  let ?P = "\<lambda>(m', p, _ :: route). m' = mux_method m \<and> list_all2 seg_matches p (path_segments path)"
  show ?thesis
  proof (cases "find ?P ?table")
    case None
    then show ?thesis using assms unfolding route_of_def Let_def by (simp split: if_splits)
  next
    case (Some x)
    obtain m' p' rt' where x: "x = (m', p', rt')" by (rule prod_cases3)
    have "(m', p', rt') \<in> set ?table" using find_in [OF Some, THEN conjunct1] by (simp only: x)
    moreover have "m' = mux_method m" using find_in [OF Some, THEN conjunct2] by (simp add: x)
    moreover have "p' = p" "rt' = rt" using assms Some unfolding route_of_def Let_def x by simp_all
    ultimately show ?thesis by (auto split: if_splits)
  qed
qed

lemma table_reads: "\<forall>(m, p, rt) \<in> set (route_table @ auth_routes). m = ''GET'' \<longrightarrow> reads rt"
  by (simp add: route_table_def auth_routes_def)

lemma reads_lifecycle: "reads rt \<Longrightarrow> \<not> lifecycle_route rt"
  by (cases rt) simp_all

lemma get_reads:
  assumes "route_of mode m path = Some (p, rt)" "mux_method m = ''GET''"
  shows "reads rt"
  using route_in_table [OF assms(1)] assms(2) table_reads by force

end
