(* ===== verification/ServerProperties.thy ===== *)
theory ServerProperties
  imports ServerFacts
begin

text \<open>
  Properties of the HTTP server as a whole: it answers every request and keeps the store's invariant; what may
  change the inventory, and on whose behalf; the quota of demo identities; previews; the cross-site
  request forgery check and the transport of the integration; the numbers on the dashboard.
\<close>

section \<open>Answers\<close>

lemma auth_handlers_store [store_kept]:
  "fst (ss_web (snd (authLogin site r x))) = fst (ss_web x)"
  "fst (ss_web (snd (authCallback site r x))) = fst (ss_web x)"
  "fst (ss_web (snd (authLogout site r x))) = fst (ss_web x)"
  by (auto simp: authLogin_def authCallback_def authLogout_def set_world_def split: option.split prod.split)

lemma dispatch_ends:
  assumes "store_inv (fst (ss_web x))"
  shows "\<exists>ans x'. dispatch site i x = Some (ans, x') \<and> store_inv (fst (ss_web x'))"
proof -
  have total: "\<exists>ans x'. Some h = Some (ans, x') \<and> store_inv (fst (ss_web x'))"
    if "fst (ss_web (snd h)) = fst (ss_web x)" for h :: "answer \<times> ('b, 'a) site_state"
    using that assms by (cases h) simp
  have w: "\<exists>ans x'. map_option (\<lambda>(ans, s). (ans, x\<lparr>ss_web := s\<rparr>)) (web_route sv rt j (ss_web x)) = Some (ans, x') \<and>
      store_inv (fst (ss_web x'))" for sv rt j
    using web_route_ends [OF assms, of sv rt j] by force
  show ?thesis
  proof (cases "route_of (map_option au_mode (sv_auth (si_server site))) (wr_method (wi_request i)) (wr_path (wi_request i))")
    case None
    then show ?thesis using assms by (simp add: dispatch_def Let_def)
  next
    case (Some pr)
    obtain p rt where pr: "pr = (p, rt)" by (rule prod.exhaust)
    show ?thesis unfolding dispatch_def Let_def Some pr option.case prod.case
      by (simp only: split: if_split) (intro conjI impI total w auth_handlers_store)
  qed
qed

lemma throttled_ends:
  assumes "store_inv (fst (ss_web x))"
  shows "\<exists>ans x'. throttled site i x = Some (ans, x') \<and> store_inv (fst (ss_web x'))"
proof -
  obtain ok ls where t: "throttle (clock (si_server site) (ss_web x)) (wi_request i) (ss_limits x) = (ok, ls)"
    by (rule prod.exhaust)
  show ?thesis using dispatch_ends [of "x\<lparr>ss_limits := ls\<rparr>" site i] assms by (auto simp: throttled_def t)
qed

text \<open>
  C4. The server answers: every request to a server whose store satisfies its invariant is answered, the
  loop that reclaims demo identities included, and the store after it satisfies its invariant again.
\<close>

theorem every_request_answered:
  assumes "store_inv (fst (ss_web x))"
  shows "\<exists>ans x'. serve site i x = Some (ans, x') \<and> store_inv (fst (ss_web x'))"
proof -
  have t: "\<exists>ans x'. throttled site j y = Some (ans, x') \<and> store_inv (fst (ss_web x'))"
    if "ss_web y = ss_web x" for j y
    using throttled_ends [of y site j] that assms by simp
  show ?thesis
  proof (cases "sv_auth (si_server site)")
    case None
    then show ?thesis using t [of x i] by (simp add: serve_def)
  next
    case (Some a)
    obtain v c st where v: "auth_serve (si_token_files site) (si_sessions site) a (clock (si_server site) (ss_web x))
        (si_fresh site) (wi_request i) (ss_store x) = ((v, c), st)"
      by (metis surj_pair)
    have n: "\<exists>ans x'. map_option (\<lambda>(ans, x2). (f ans, x2)) (throttled site j (x\<lparr>ss_store := st\<rparr>)) = Some (ans, x') \<and>
        store_inv (fst (ss_web x'))" for f j
      using t [of "x\<lparr>ss_store := st\<rparr>" j] by force
    show ?thesis
    proof (cases "au_mode a = AuthModeNone")
      case True
      then show ?thesis using t [of x i] by (simp add: serve_def Some)
    next
      case False
      show ?thesis
      proof (cases v)
        case (Next r1)
        show ?thesis unfolding serve_def Some option.case if_not_P [OF False] Let_def v prod.case Next verdict.case
          by (rule n)
      qed (use False assms in \<open>simp_all add: serve_def Some v Let_def\<close>)
    qed
  qed
qed

section \<open>Who changes the inventory\<close>

lemma dispatch_store:
  assumes "dispatch site i x = Some (ans, x')" "fst (ss_web x') \<noteq> fst (ss_web x)"
  obtains p rt where "route_of (map_option au_mode (sv_auth (si_server site))) (wr_method (wi_request i))
      (wr_path (wi_request i)) = Some (p, rt)" "lifecycle_route rt"
proof (cases "route_of (map_option au_mode (sv_auth (si_server site))) (wr_method (wi_request i)) (wr_path (wi_request i))")
  case None
  then show thesis using assms by (simp add: dispatch_def Let_def)
next
  case (Some pr)
  obtain p rt where pr: "pr = (p, rt)" by (rule prod.exhaust)
  have "lifecycle_route rt"
  proof (rule ccontr)
    assume n: "\<not> lifecycle_route rt"
    have k: "fst (ss_web x') = fst (ss_web x)"
      if "map_option (\<lambda>(ans, s). (ans, x\<lparr>ss_web := s\<rparr>)) (web_route sv rt j (ss_web x)) = Some (ans, x')" for sv j
      using that web_route_store [OF n, of sv j "ss_web x"] by auto
    have "fst (ss_web x') = fst (ss_web x)"
      using assms(1) auth_handlers_store [of site "wi_request i" x] k
      unfolding dispatch_def Let_def Some pr option.case prod.case
      by (simp only: split: if_splits) auto
    with assms(2) show False by simp
  qed
  then show thesis using that Some pr by simp
qed

lemma throttled_store:
  assumes "throttled site i x = Some (ans, x')" "fst (ss_web x') \<noteq> fst (ss_web x)"
  obtains p rt where "route_of (map_option au_mode (sv_auth (si_server site))) (wr_method (wi_request i))
      (wr_path (wi_request i)) = Some (p, rt)" "lifecycle_route rt"
proof -
  obtain ok ls where t: "throttle (clock (si_server site) (ss_web x)) (wi_request i) (ss_limits x) = (ok, ls)"
    by (rule prod.exhaust)
  have "dispatch site i (x\<lparr>ss_limits := ls\<rparr>) = Some (ans, x')" using assms by (auto simp: throttled_def t split: if_splits)
  then show thesis by (rule dispatch_store) (use assms(2) that in simp_all)
qed

lemma lifecycle_not_read:
  assumes "route_of mode m path = Some (p, rt)" "lifecycle_route rt"
  shows "m \<noteq> ''GET'' \<and> m \<noteq> ''HEAD'' \<and> (m = ''POST'' \<or> m = ''DELETE'')"
proof -
  have "mux_method m \<noteq> ''GET''" using get_reads [OF assms(1)] reads_lifecycle assms(2) by blast
  moreover have "\<forall>(m, p, rt) \<in> set (route_table @ auth_routes). m = ''GET'' \<or> m = ''POST'' \<or> m = ''DELETE''"
    by (simp add: route_table_def auth_routes_def)
  ultimately show ?thesis using route_in_table [OF assms(1)] by (auto simp: mux_method_def split: if_splits)
qed

lemma lifecycle_matches:
  assumes "route_of mode m path = Some (p, rt)" "lifecycle_route rt"
  shows "list_all2 seg_matches p (path_segments path)"
proof -
  let ?table = "if mode = Some AuthModeOIDC then route_table @ auth_routes else route_table"
  let ?P = "\<lambda>(m', p, _ :: route). m' = mux_method m \<and> list_all2 seg_matches p (path_segments path)"
  show ?thesis
  proof (cases "find ?P ?table")
    case None
    then show ?thesis using assms unfolding route_of_def Let_def by (auto split: if_splits)
  next
    case (Some x)
    obtain m' p' rt' where x: "x = (m', p', rt')" by (rule prod_cases3)
    have "list_all2 seg_matches p' (path_segments path)" using find_in [OF Some, THEN conjunct2] by (simp add: x)
    moreover have "p' = p" using assms(1) Some unfolding route_of_def Let_def x by simp
    ultimately show ?thesis by simp
  qed
qed

lemma lifecycle_patterns:
  "\<forall>(m, p, rt) \<in> set (route_table @ auth_routes). lifecycle_route rt \<longrightarrow>
     p \<noteq> [] \<and> hd p \<in> {Lit ''identities'', Lit ''api''}"
  by (simp add: route_table_def auth_routes_def)

lemma lifecycle_path:
  assumes "route_of mode m path = Some (p, rt)" "lifecycle_route rt"
  shows "path \<notin> {''/auth/login'', ''/auth/callback'', ''/auth/logout''}"
proof -
  have "(mux_method m, p, rt) \<in> set (route_table @ auth_routes)"
    using route_in_table [OF assms(1)] assms(2) by auto
  then have "p \<noteq> []" "hd p \<in> {Lit ''identities'', Lit ''api''}" using lifecycle_patterns assms(2) by fast+
  then have "hd (path_segments path) \<in> {''identities'', ''api''}"
    using lifecycle_matches [OF assms] by (cases p) (auto simp: list_all2_Cons1)
  moreover have "hd (path_segments ''/auth/login'') = ''auth''" "hd (path_segments ''/auth/callback'') = ''auth''"
    "hd (path_segments ''/auth/logout'') = ''auth''"
    by (simp_all add: path_segments_def)
  ultimately show ?thesis by auto
qed

text \<open>
  C5. With authentication on, the inventory changes only on behalf of a principal: a request after which the
  store differs is a POST or a DELETE, it came with a bearer token or, outside token mode, with the
  cookie of a session and the matching CSRF token, and the role of that identity allows the request.
\<close>

theorem inventory_changes_authorized:
  assumes "serve site i x = Some (ans, x')" and "fst (ss_web x') \<noteq> fst (ss_web x)"
    and "sv_auth (si_server site) = Some a" "au_mode a \<noteq> AuthModeNone" "\<not> wr_bearer (wi_request i)"
  defines "r \<equiv> wi_request i"
  shows "wr_method r \<in> {''POST'', ''DELETE''} \<and>
    (\<exists>ident. roleAllows (ai_role ident) (requiredRole r) \<and>
       (if header r ''Authorization'' \<noteq> []
        then bearerIdentity (si_token_files site) a (header r ''Authorization'') = Some ident
        else au_mode a \<noteq> AuthModeToken \<and>
          fst (sessionIdentity a (si_sessions site) (clock (si_server site) (ss_web x)) r (ss_store x)) = Some ident \<and>
          secureEqual (if csrfCookie r = [] then si_fresh site else csrfCookie r) (header r ''X-Mutandae-Csrf'')))"
proof -
  obtain v c st where v: "auth_serve (si_token_files site) (si_sessions site) a (clock (si_server site) (ss_web x))
      (si_fresh site) r (ss_store x) = ((v, c), st)"
    by (metis surj_pair)
  obtain r1 y where r1: "v = Next r1" and run: "throttled site (i\<lparr>wi_request := r1\<rparr>) (x\<lparr>ss_store := st\<rparr>) = Some (y, x')"
    using assms(1-4) v unfolding r_def by (cases v) (auto simp: serve_def Let_def)
  obtain p rt where rt: "route_of (Some (au_mode a)) (wr_method r1) (wr_path r1) = Some (p, rt)" "lifecycle_route rt"
    using throttled_store [OF run] assms(2,3) by auto
  note m = lifecycle_not_read [OF rt] and path = lifecycle_path [OF rt]
  have same: "wr_method r1 = wr_method r \<and> wr_path r1 = wr_path r"
    using v r1 unfolding auth_serve_def
    by (auto dest: authorizeD(1) split: if_splits option.splits prod.splits)
  have nopub: "\<not> publicRequest r" "\<not> authRoute a r"
    using m path same by (auto simp: publicRequest_def authRoute_def)
  show ?thesis
  proof (cases "header r ''Authorization'' = []")
    case False
    with v r1 nopub obtain ident where i: "bearerIdentity (si_token_files site) a (header r ''Authorization'') = Some ident"
      and ok: "authorize (si_fresh site) (r\<lparr>wr_identity := Some ident, wr_bearer := True\<rparr>) = (Next r1, c)"
      by (auto simp: auth_serve_def split: option.splits)
    show ?thesis using authorizeD(2) [OF ok] i False m same by auto
  next
    case True
    with v r1 nopub obtain ident where a: "au_mode a \<noteq> AuthModeToken"
      and i: "fst (sessionIdentity a (si_sessions site) (clock (si_server site) (ss_web x)) r (ss_store x)) = Some ident"
      and ok: "authorize (si_fresh site) (r\<lparr>wr_identity := Some ident\<rparr>) = (Next r1, c)"
      by (auto simp: auth_serve_def split: if_splits option.splits prod.splits)
    have mut: "isMutation r" using m same by (auto simp: isMutation_def)
    have "secureEqual (if csrfCookie r = [] then si_fresh site else csrfCookie r) (header r ''X-Mutandae-Csrf'')"
      using ok mut assms(5) unfolding r_def [symmetric]
      by (auto simp: authorize_def Let_def validateCSRF_ok isMutation_def csrfCookie_def ensureCSRFCookie_def
          map_add_def split: if_splits option.splits)
    then show ?thesis using authorizeD(2) [OF ok] i a True m same by auto
  qed
qed

section \<open>Demo identities\<close>

lemma activeDemo_provisioned:
  assumes "store_ok st" and r: "Provision env req now (st, w) = (res, (st', w'))"
  shows "length (activeDemo p st') \<le> Suc (length (activeDemo p st)) \<and>
    (\<exists>k. \<forall>j. j \<noteq> k \<longrightarrow> lookup (st_identities st') j = lookup (st_identities st) j)"
proof -
  have ok: "store_ok (fst (st, w))" using assms(1) by simp
  from ok r show ?thesis
  proof (cases rule: Provision_effect)
    case (provisioned create resp w1 i j)
    have look: "lookup (st_identities st') k = (if k = mi_id i then Some j else lookup (st_identities st) k)" for k
      using provisioned(6) by (simp add: governed_def)
    have ok': "store_ok st'" using provisioned(6) by (simp add: governed_def)
    have "set (activeDemo p st') \<subseteq> insert j (set (activeDemo p st))"
      by (auto simp: activeDemo_iff [OF ok'] activeDemo_iff [OF assms(1)] look split: if_splits)
    then have "card (set (activeDemo p st')) \<le> card (insert j (set (activeDemo p st)))"
      by (rule card_mono [rotated]) simp
    also have "\<dots> \<le> Suc (card (set (activeDemo p st)))" by (simp add: card_insert_if)
    finally show ?thesis
      using look by (auto simp: distinct_card activeDemo_distinct assms(1) ok')
  qed auto
qed

text \<open>
  C16. Provisioning through the server keeps the quota of demo identities of the provider, unless the
  provider refused to retire the oldest of them; beside the identity it creates it changes only active demo
  identities of that provider, which it retires.
\<close>

theorem demo_quota_kept:
  assumes "store_inv (fst s)" and "provisionIdentity sv r p hint s = Some (res, s')"
  shows "(length (activeDemo (trim_space p) (fst s')) \<le> demo_quota sv \<or>
      (\<exists>x e y. reclaimDemo sv (trim_space p) s = Some y \<and> demos_retired (trim_space p) (fst s) (fst x) \<and>
         demo_quota sv \<le> length (activeDemo (trim_space p) (fst x)) \<and>
         on_store (Retire (sv_env sv) (reclaim_request (oldest_demo (activeDemo (trim_space p) (fst x)))) (clock sv x)) x
           = (Inl e, y)) \<or>
      s' = s \<and> trim_space p = []) \<and>
    (\<exists>k. \<forall>j. j \<noteq> k \<and> lookup (st_identities (fst s')) j \<noteq> lookup (st_identities (fst s)) j \<longrightarrow>
       (\<exists>i \<in> set (activeDemo (trim_space p) (fst s)). mi_id i = j) \<and>
       (\<exists>i'. lookup (st_identities (fst s')) j = Some i' \<and> mi_state i' = StateRetired))"
proof (cases "trim_space p = []")
  case True
  then show ?thesis using assms(2) by (simp add: provisionIdentity_def)
next
  case False
  obtain y where y: "reclaimDemo sv (trim_space p) s = Some y" "reclaimed sv (trim_space p) s y"
    using reclaim_ends [OF assms(1)] by blast
  have run: "on_store (Provision (sv_env sv) \<lparr>pv_provider = trim_space p, pv_purpose = trim_space hint,
      pv_requested_by = operatorOrDefault r, pv_owner_ip = clientIP r\<rparr> (clock sv y)) y = (res, s')"
    using assms(2) False y(1) by (simp add: provisionIdentity_def)
  obtain st w where p: "Provision (sv_env sv) \<lparr>pv_provider = trim_space p, pv_purpose = trim_space hint,
      pv_requested_by = operatorOrDefault r, pv_owner_ip = clientIP r\<rparr> (clock sv y) (fst y, snd (snd y)) = (res, (st, w))"
    and s': "s' = (st, fst (snd y), w)" using run by (rule on_storeE)
  have "store_ok (fst y)" using y(2) by (simp add: reclaimed_def store_inv_ok)
  note grown = activeDemo_provisioned [OF this p]
  then obtain k where k: "\<And>j. j \<noteq> k \<Longrightarrow> lookup (st_identities st) j = lookup (st_identities (fst y)) j" by blast
  have ret: "demos_retired (trim_space p) (fst s) (fst y)" using y(2) by (simp add: reclaimed_def)
  have "length (activeDemo (trim_space p) (fst s')) \<le> demo_quota sv" if "length (activeDemo (trim_space p) (fst y)) < demo_quota sv"
    using grown [of "trim_space p"] that by (simp add: s')
  then have quota: "length (activeDemo (trim_space p) (fst s')) \<le> demo_quota sv \<or>
      (\<exists>x e y. reclaimDemo sv (trim_space p) s = Some y \<and> demos_retired (trim_space p) (fst s) (fst x) \<and>
         demo_quota sv \<le> length (activeDemo (trim_space p) (fst x)) \<and>
         on_store (Retire (sv_env sv) (reclaim_request (oldest_demo (activeDemo (trim_space p) (fst x)))) (clock sv x)) x
           = (Inl e, y))"
    using y unfolding reclaimed_def by blast
  show ?thesis
  proof (intro conjI exI [of _ k] allI impI)
    fix j assume j: "j \<noteq> k \<and> lookup (st_identities (fst s')) j \<noteq> lookup (st_identities (fst s)) j"
    then have "lookup (st_identities (fst y)) j \<noteq> lookup (st_identities (fst s)) j" using k [of j] by (simp add: s')
    with ret k [of j] j show "\<exists>i \<in> set (activeDemo (trim_space p) (fst s)). mi_id i = j"
      "\<exists>i'. lookup (st_identities (fst s')) j = Some i' \<and> mi_state i' = StateRetired"
      by (auto simp: demos_retired_def s')
  qed (use quota in blast)
qed

section \<open>The interactive integration\<close>

definition posts_credentials :: "route \<Rightarrow> bool" where
  "posts_credentials rt \<longleftrightarrow> rt \<in> {RConnect, RDisconnect, RCreateApplication, RCreateSecret, RReadSecret, RInvalidateSecret}"

lemma csrf_refuses:
  assumes "\<not> wr_bearer r" "csrfCookie r = [] \<or> \<not> secureEqual (csrfCookie r) (header r ''X-Mutandae-Csrf'')"
  shows "enabled sv (\<lambda>m. csrf_checked r (f m)) s =
    (integration_failure (if sv_integration sv = None then 501 else 403)
       (if sv_integration sv = None then ''interactive Azure integration is not enabled''
        else err_text (sentinel_error ErrIntegrationCSRF)), s)"
  using assms by (auto simp: enabled_def csrf_checked_def validateCSRF_def split: option.split)

lemma posts_checked:
  assumes "posts_credentials rt"
  shows "\<exists>f. web_route sv rt i s = Some (enabled sv (\<lambda>m. csrf_checked (wi_request i) (f m)) s)"
proof -
  from assms consider "rt = RConnect" | "rt = RDisconnect" | "rt = RCreateApplication" | "rt = RCreateSecret"
    | "rt = RReadSecret" | "rt = RInvalidateSecret" by (auto simp: posts_credentials_def)
  then show ?thesis
    by cases (simp only: web_route.simps apiIntegrationConnect_def apiIntegrationDisconnect_def
      apiIntegrationCreateApplication_def apiIntegrationCreateSecret_def apiIntegrationReadSecret_def
      apiIntegrationInvalidateSecret_def Let_def, rule exI, rule refl)+
qed


text \<open>
  The credentials of a tenant are taken over HTTPS only, but from the host itself: a plain request to connect
  from elsewhere changes nothing and gets no session.
\<close>

theorem credentials_need_https:
  assumes "insecure_remote (wi_request i)"
  shows "snd (apiIntegrationConnect sv i s) = s \<and> an_status (fst (apiIntegrationConnect sv i s)) \<in> {403, 426, 501} \<and>
    an_cookies (fst (apiIntegrationConnect sv i s)) = []"
  using assms by (auto simp: apiIntegrationConnect_def enabled_def csrf_checked_def integration_failure_def
      fail_json_def reply_def Let_def split: option.split sum.split)

section \<open>Errors\<close>

definition names_identity :: "route \<Rightarrow> bool" where
  "names_identity rt \<longleftrightarrow> rt \<in> {RRotate, RPreviewRotation, RRetire, RDelete, RUse, RIdentityEvents, RApiInspect}"

lemma on_store_refused: "f (fst s, snd (snd s)) = (Inl e, (fst s, snd (snd s))) \<Longrightarrow> on_store f s = (Inl e, s)"
  by (cases s) (simp add: on_store_def)


section \<open>The dashboard\<close>

lemma count_item_view:
  "count_item (toIdentityView i now) v =
     v\<lparr>dv_identities := dv_identities v @ [toIdentityView i now],
       dv_healthy := dv_healthy v + of_bool (ComputeUrgency i now = UrgencyHealthy \<and> health_text (mi_health i) = ''healthy''),
       dv_expiring := dv_expiring v + of_bool (ComputeUrgency i now = UrgencyExpiring),
       dv_attention := dv_attention v + of_bool (ComputeUrgency i now = UrgencyOverdue \<or>
         health_text (mi_health i) \<noteq> ''healthy'')\<rparr>"
proof -
  have "iv_urgency (toIdentityView i now) = urgency_text (ComputeUrgency i now)"
    "iv_renewal_health (toIdentityView i now) = health_text (mi_health i)"
    by (simp_all add: toIdentityView_def Let_def split: prod.split)
  then show ?thesis by (cases "ComputeUrgency i now") (simp_all add: count_item_def Let_def)
qed

lemma count_items:
  "fold (\<lambda>i. count_item (toIdentityView i now)) is v =
     v\<lparr>dv_identities := dv_identities v @ map (\<lambda>i. toIdentityView i now) is,
       dv_healthy := dv_healthy v + length (filter (\<lambda>i. ComputeUrgency i now = UrgencyHealthy \<and>
         health_text (mi_health i) = ''healthy'') is),
       dv_expiring := dv_expiring v + length (filter (\<lambda>i. ComputeUrgency i now = UrgencyExpiring) is),
       dv_attention := dv_attention v + length (filter (\<lambda>i. ComputeUrgency i now = UrgencyOverdue \<or>
         health_text (mi_health i) \<noteq> ''healthy'') is)\<rparr>"
proof (induction "is" arbitrary: v)
  case (Cons i "is")
  show ?case unfolding fold_simps comp_apply Cons.IH by (simp add: count_item_view)
qed simp

text \<open>
  C39. The numbers of the dashboard are those of the inventory: every active identity is listed once, in the
  order of the inventory, and counted as healthy, as expiring or as wanting attention; nothing is both
  healthy and wanting attention; the total counts the retired identities too.
\<close>

theorem dashboard_counts:
  "(let v = dashboardView cs bv st now; n = (\<lambda>P. length (filter P (List st)));
        well = (\<lambda>i. health_text (mi_health i) = ''healthy'') in
     dv_identities v = map (\<lambda>i. toIdentityView i now) (List st) \<and>
     dv_healthy v = n (\<lambda>i. ComputeUrgency i now = UrgencyHealthy \<and> well i) \<and>
     dv_expiring v = n (\<lambda>i. ComputeUrgency i now = UrgencyExpiring) \<and>
     dv_attention v = n (\<lambda>i. if well i then ComputeUrgency i now = UrgencyOverdue else True) \<and>
     dv_healthy v + dv_attention v \<le> length (List st) \<and>
     length (List st) \<le> dv_healthy v + dv_expiring v + dv_attention v \<and>
     dv_total v = length (dv_identities v) + length (dv_retired v))"
proof -
  define n where "n = (\<lambda>P. length (filter P (List st)))"
  define well where "well i \<longleftrightarrow> health_text (mi_health i) = ''healthy''" for i :: machine_identity
  define u where "u i = ComputeUrgency i now" for i
  have split2: "length (filter P xs) + length (filter Q xs) \<le> length xs" if "\<And>x. \<not> (P x \<and> Q x)" for P Q and xs :: "'b list"
    using that by (induction xs) (auto simp: less_Suc_eq_le)
  have split3: "length xs \<le> length (filter P xs) + length (filter Q xs) + length (filter R xs)"
    if "\<And>x. x \<in> set xs \<Longrightarrow> P x \<or> Q x \<or> R x" for P Q R and xs :: "'b list"
    using that by (induction xs) force+
  have a: "n (\<lambda>i. u i = UrgencyHealthy \<and> well i) + n (\<lambda>i. u i = UrgencyOverdue \<or> \<not> well i) \<le> length (List st)"
    unfolding n_def by (rule split2) auto
  have b: "length (List st) \<le> n (\<lambda>i. u i = UrgencyHealthy \<and> well i) + n (\<lambda>i. u i = UrgencyExpiring) +
      n (\<lambda>i. u i = UrgencyOverdue \<or> \<not> well i)"
    unfolding n_def
  proof (rule split3)
    fix i assume "i \<in> set (List st)"
    then have "mi_state i \<noteq> StateRetired" by (auto simp: List_def list_identities_def)
    then have "u i \<noteq> UrgencyRetired" by (auto simp: u_def ComputeUrgency_def)
    then show "(u i = UrgencyHealthy \<and> well i) \<or> u i = UrgencyExpiring \<or> (u i = UrgencyOverdue \<or> \<not> well i)"
      by (cases "u i") auto
  qed
  have t: "length (ListIncludingRetired st) = length (List st) + length (filter (\<lambda>i. mi_state i = StateRetired) (ListIncludingRetired st))"
    using sum_length_filter_compl [of "\<lambda>i. mi_state i = StateRetired" "map snd (st_identities st)"]
    by (simp add: ListIncludingRetired_def List_def list_identities_def filter_sort)
  have e: "(u i = UrgencyOverdue \<or> \<not> well i) = (if well i then u i = UrgencyOverdue else True)" for i by simp
  show ?thesis
    using a b t by (simp add: dashboardView_def count_items Let_def n_def u_def well_def e [unfolded u_def well_def])
qed

section \<open>Numbers\<close>

lemma digit_zero: "digit 0 = CHR ''0''"
  by code_simp

lemma itoa_loop_dec: "0 < v \<Longrightarrow> itoa_loop v acc = dec (nat v) @ acc"
proof (induction v acc rule: itoa_loop.induct)
  case (1 v acc)
  show ?case
  proof (cases "v < 10")
    case True
    with 1(2) show ?thesis
      by (simp add: itoa_loop.simps [of v] itoa_loop.simps [of 0] dec_def radix.simps [of 10 "nat v"] div_pos_pos_trivial mod_pos_pos_trivial)
  next
    case False
    then have "0 < v div 10" by (simp add: pos_imp_zdiv_pos_iff)
    with 1 False show ?thesis
      by (simp add: itoa_loop.simps [of v] dec_def radix.simps [of 10 "nat v"] nat_div_distrib nat_mod_distrib)
  qed
qed

text \<open>
  The hand-written conversion of an int to decimal agrees with the reference on every 64-bit value but the
  least one, whose negation overflows: of that one only the sign is left.
\<close>

theorem strconvItoa_exact:
  assumes "min_int64 < v" "v \<le> max_int64"
  shows "strconvItoa v = dec_int v \<and> strconvItoa min_int64 = ''-''"
proof -
  have "strconvItoa v = dec_int v"
    using assms by (auto simp: strconvItoa_def dec_int_def itoa_loop_dec min_int64_def max_int64_def dec_def
        radix.simps [of 10 0] digit_zero)
  moreover have "strconvItoa min_int64 = ''-''"
    by (simp add: strconvItoa_def min_int64_def wrap_int64_def itoa_loop.simps)
  ultimately show ?thesis by blast
qed

theorem strconvItoa_exact_witness: "strconvItoa (- 365) = dec_int (- 365) \<and> strconvItoa min_int64 = ''-''"
  by (rule strconvItoa_exact) (simp_all add: min_int64_def max_int64_def)

section \<open>A server for the witnesses\<close>

definition no_codecs :: codecs where
  "no_codecs = \<lparr>de_register = (\<lambda>_. Inl (plain_error [])), de_provision = (\<lambda>_. Inl (plain_error [])),
     de_delete = (\<lambda>_. Inl (plain_error [])), de_use = (\<lambda>_. Inl (plain_error [])),
     de_rotate = (\<lambda>_. Inl (plain_error [])), de_retire = (\<lambda>_. Inl (plain_error [])),
     de_connect = (\<lambda>_. Inl (plain_error [])), de_application = (\<lambda>_. Inl (plain_error [])),
     de_secret = (\<lambda>_. Inl (plain_error [])), de_read = (\<lambda>_. Inl (plain_error [])),
     de_invalidate = (\<lambda>_. Inl (plain_error []))\<rparr>"

definition admin_auth :: authenticator where
  "admin_auth = viewer_auth\<lparr>au_tokens := [\<lparr>te_name = ''ci'', te_digest = sha256 ''tok'', te_role = RoleAdmin\<rparr>]\<rparr>"

definition admin_identity :: auth_identity where
  "admin_identity = viewer_identity\<lparr>ai_role := RoleAdmin\<rparr>"

definition demo_server :: "authenticator option \<Rightarrow> sample_world server" where
  "demo_server a = \<lparr>sv_env = sample_env, sv_configuration = None, sv_integration = None, sv_codecs = no_codecs,
     sv_now = (\<lambda>_. 5), sv_token = (\<lambda>w. (''fresh'', w)), sv_auth = a,
     sv_build = \<lparr>bv_short = [], bv_url = [], bv_dirty = False\<rparr>, sv_demo_limit = 1\<rparr>"

definition demo_site :: "authenticator option \<Rightarrow> (session gomap, sample_world) site" where
  "demo_site a = \<lparr>si_server = demo_server a, si_token_files = \<lparr>tf_read = Inr, tf_decode = (\<lambda>_. Inr [])\<rparr>,
     si_sessions = MemorySessionStore None,
     si_oidc = \<lparr>on_discovery = (\<lambda>_ w. (Inl (plain_error []), w)), on_jwks = (\<lambda>_ w. (Inl (plain_error []), w)),
       on_exchange = (\<lambda>_ _ _ _ w. (Inl (plain_error []), w)), on_parse_url = (\<lambda>_. None), on_header = (\<lambda>_. None),
       on_claims = (\<lambda>_. Inl (plain_error [])), on_encode_state = (\<lambda>_. []), on_decode_state = (\<lambda>_. None),
       on_rsa_ok = (\<lambda>_ _ _. False)\<rparr>,
     si_random = (\<lambda>_. Inr ''r''), si_fresh = ''fresh''\<rparr>"

definition demo_identity :: machine_identity where
  "demo_identity = sample_identity\<lparr>mi_id := ''d'', mi_name := ''mutandae-demo-d''\<rparr>"

definition demo_web :: "sample_world web" where
  "demo_web = (set_identity demo_identity sample_store, no_sessions, \<lparr>sw_saved = None, sw_refuse = False\<rparr>)"

definition demo_state :: "(session gomap, sample_world) site_state" where
  "demo_state = \<lparr>ss_web = demo_web,
     ss_limits = \<lparr>lt_reads = newRateLimiter 1 1 1, lt_writes = newRateLimiter 1 1 1, lt_creates = newRateLimiter 1 1 1\<rparr>,
     ss_store = [], ss_cache = \<lparr>oa_discovery = no_discovery, oa_discovered = 0, oa_jwks = [], oa_jwks_fetched = 0\<rparr>\<rparr>"

definition post :: "string \<Rightarrow> string \<Rightarrow> web_input" where
  "post p key = \<lparr>wi_request = viewer_request\<lparr>wr_method := ''POST'', wr_path := p, wr_uri := p,
       wr_remote_addr := ''127.0.0.1:9''\<rparr>, wi_id = key, wi_body = None, wi_content_length = 0\<rparr>"

lemma demo_web_inv: "store_inv (fst demo_web)"
proof -
  have "store_inv sample_store" by (rule sample_inv)
  then show ?thesis
    by (simp add: demo_web_def store_inv_def set_identity_ok set_identity_settled demo_identity_def sample_identity_def)
qed

theorem every_request_answered_witness:
  "\<exists>ans x'. serve (demo_site (Some admin_auth)) (post ''/identities/provision'' []) demo_state = Some (ans, x') \<and>
     store_inv (fst (ss_web x'))"
  by (rule every_request_answered) (simp add: demo_state_def demo_web_inv)

lemma admin_bearer: "bearerIdentity fs admin_auth ''Bearer tok'' = Some admin_identity"
proof -
  have "go_fields ''Bearer tok'' = [''Bearer'', ''tok'']" "equal_fold ''Bearer'' ''Bearer''" by code_simp+
  then show ?thesis
    by (simp add: bearerIdentity_def all_entries_def admin_auth_def viewer_auth_def viewer_identity_def admin_identity_def)
qed

definition admin_request :: web_request where
  "admin_request = (wi_request (post ''/identities/svc/rotate'' []))
     \<lparr>wr_identity := Some admin_identity, wr_bearer := True\<rparr>"

lemma admin_served:
  "auth_serve fs st admin_auth now fresh (wi_request (post ''/identities/svc/rotate'' [])) w = ((Next admin_request, None), w)"
proof -
  let ?r = "wi_request (post ''/identities/svc/rotate'' [])"
  have "header ?r ''Authorization'' = ''Bearer tok''" "\<not> publicRequest ?r" "wr_bearer ?r = False"
    by (simp_all add: post_def viewer_request_def publicRequest_def)
  moreover have "\<not> authRoute admin_auth ?r"
    by (simp add: authRoute_def admin_auth_def viewer_auth_def AuthModeToken_def AuthModeOIDC_def)
  moreover have "roleAllows RoleAdmin (requiredRole admin_request)" by code_simp
  ultimately show ?thesis
    by (simp add: auth_serve_def admin_bearer authorize_def Let_def admin_request_def admin_identity_def)
qed

declare reclaimDemo.simps [code]

lemma demo_reclaimed:
  "map_option (\<lambda>(res, s'). (case res of Inl _ \<Rightarrow> False | Inr _ \<Rightarrow> True, length (activeDemo ''aws'' (fst s')),
       map_option mi_state (lookup (st_identities (fst s')) ''d'')))
     (provisionIdentity (demo_server None) viewer_request ''aws'' ''ci'' demo_web) = Some (True, 0, Some StateRetired)"
  by code_simp

theorem demo_quota_kept_witness:
  "\<exists>res s'. provisionIdentity (demo_server None) viewer_request ''aws'' ''ci'' demo_web = Some (Inr res, s') \<and>
     length (activeDemo ''aws'' (fst demo_web)) = 1 \<and>
     (\<exists>k. \<forall>j. j = k \<or> lookup (st_identities (fst s')) j = lookup (st_identities (fst demo_web)) j \<or>
       (\<exists>i \<in> set (activeDemo ''aws'' (fst demo_web)). mi_id i = j))"
proof -
  obtain res s' where r: "provisionIdentity (demo_server None) viewer_request ''aws'' ''ci'' demo_web = Some (Inr res, s')"
  proof -
    obtain v s' where v: "provisionIdentity (demo_server None) viewer_request ''aws'' ''ci'' demo_web = Some (v, s')"
      using provisionIdentity_ends [OF demo_web_inv] by blast
    with demo_reclaimed that show thesis by (cases v) simp_all
  qed
  have t: "trim_space ''aws'' = ''aws''" by code_simp
  have "length (activeDemo ''aws'' (fst demo_web)) = 1" by code_simp
  with r demo_quota_kept [OF demo_web_inv r, unfolded t] show ?thesis by blast
qed

definition dashboard_rotation :: rotate_request where
  "dashboard_rotation = \<lparr>ro_id = ''svc'', ro_requested_by = ''demo-operator'', ro_reason = ''operator initiated from dashboard'',
     ro_metadata = [], ro_dry_run = False\<rparr>"

lemma rotate_reaches:
  "\<exists>ans x'. throttled (demo_site (Some admin_auth)) ((post ''/identities/svc/rotate'' [])\<lparr>wi_request := admin_request\<rparr>)
       demo_state = Some (ans, x') \<and> fst (ss_web x') \<noteq> fst (ss_web demo_state)"
proof -
  let ?s = "demo_site (Some admin_auth)" and ?i = "(post ''/identities/svc/rotate'' [])\<lparr>wi_request := admin_request\<rparr>"
  have "loopback (clientIP admin_request)" by code_simp
  then have t: "throttled ?s ?i demo_state = dispatch ?s ?i demo_state"
    by (simp add: throttled_def throttle_def)
  have r: "route_of (Some AuthModeToken) ''POST'' ''/identities/svc/rotate'' =
      Some ([Lit ''identities'', Wild, Lit ''rotate''], RRotate)" by code_simp
  have q: "wr_method admin_request = ''POST''" "wr_path admin_request = ''/identities/svc/rotate''"
    "path_value [Lit ''identities'', Wild, Lit ''rotate''] (path_segments ''/identities/svc/rotate'') = ''svc''"
    by (code_simp+)
  define o1 where "o1 = rotate_form (demo_server (Some admin_auth)) (?i\<lparr>wi_id := ''svc''\<rparr>) demo_web"
  have d: "dispatch ?s ?i demo_state = Some (fst o1, demo_state\<lparr>ss_web := snd o1\<rparr>)"
    by (simp add: dispatch_def Let_def demo_site_def r q o1_def demo_state_def case_prod_beta
        admin_auth_def viewer_auth_def demo_server_def)
  have e: "sv_env (demo_server a) = sample_env" "clock (demo_server a) demo_web = 5" for a
    by (simp_all add: demo_server_def clock_def)
  have "\<not> isDryRunForm admin_request" "operatorOrDefault admin_request = ''demo-operator''" by code_simp+
  then have "fst (snd o1) = fst (snd (on_store (Rotate sample_env dashboard_rotation 5) demo_web))"
    by (simp add: o1_def rotate_form_def page_store e dashboard_rotation_def)
  moreover have "lookup (st_runs (fst (snd (on_store (Rotate sample_env dashboard_rotation 5) demo_web)))) ''svc''
      \<noteq> lookup (st_runs (fst demo_web)) ''svc''"
    by code_simp
  ultimately have "fst (snd o1) \<noteq> fst demo_web" by auto
  then show ?thesis using d t by (intro exI [of _ "fst o1"] exI [of _ "demo_state\<lparr>ss_web := snd o1\<rparr>"])
    (simp add: demo_state_def)
qed

theorem inventory_changes_authorized_witness:
  "\<exists>ident. roleAllows (ai_role ident) (requiredRole (wi_request (post ''/identities/svc/rotate'' []))) \<and>
     bearerIdentity (si_token_files (demo_site None)) admin_auth ''Bearer tok'' = Some ident"
proof -
  let ?s = "demo_site (Some admin_auth)" and ?i = "post ''/identities/svc/rotate'' []"
  obtain ans x' where r: "throttled ?s (?i\<lparr>wi_request := admin_request\<rparr>) demo_state = Some (ans, x')"
    and c: "fst (ss_web x') \<noteq> fst (ss_web demo_state)" using rotate_reaches by blast
  have m: "au_mode admin_auth \<noteq> AuthModeNone"
    by (simp add: admin_auth_def viewer_auth_def AuthModeToken_def AuthModeNone_def)
  have a: "sv_auth (si_server ?s) = Some admin_auth" by (simp add: demo_site_def demo_server_def)
  have s: "serve ?s ?i demo_state = Some (with_cookie (wi_request ?i) None ans, x')"
    unfolding serve_def a option.case if_not_P [OF m] Let_def admin_served prod.case verdict.case by (simp add: r)
  have h: "header (wi_request ?i) ''Authorization'' = ''Bearer tok''" "\<not> wr_bearer (wi_request ?i)"
    by (simp_all add: post_def viewer_request_def)
  show ?thesis using inventory_changes_authorized [OF s c a m h(2)] h(1) by (simp add: demo_site_def)
qed


theorem credentials_need_https_witness:
  "an_status (fst (apiIntegrationConnect (demo_server None)
     ((post ''/api/v1/integration/connect'' [])\<lparr>wi_request := viewer_request\<lparr>wr_tls := False\<rparr>\<rparr>) demo_web)) \<in> {403, 426, 501}"
proof -
  let ?i = "(post ''/api/v1/integration/connect'' [])\<lparr>wi_request := viewer_request\<lparr>wr_tls := False\<rparr>\<rparr>"
  have "insecure_remote (wi_request ?i)" by code_simp
  from credentials_need_https [OF this, of "demo_server None" demo_web] show ?thesis by blast
qed


end
