(* ===== verification/AzureCloud.thy ===== *)
theory AzureCloud
  imports AzureFacts MultiCloud Encoding
begin

text \<open>
  The real Azure adapter of the control plane (internal/provider: azurecloud.go, azurevault.go), over the
  Graph client of AzureClient. The adapter's memory is its client and the one-time secret it buffers for the
  vault; its configuration holds the scope that is its safety boundary. The random suffixes of new
  names are drawn from the world.
\<close>

section \<open>The adapter and its vault\<close>

record azure_demo_vault =
  zv_client :: key_vault_client
  zv_scope :: scope

record 'w azure_cloud =
  zc_net :: "'w azure_net"
  zc_rand :: "'w \<Rightarrow> (nat \<Rightarrow> string result) \<times> 'w"
  zc_tenant_id :: string
  zc_scope :: scope
  zc_vault :: "azure_demo_vault option"

record azure_memory =
  am_client :: azure_client
  am_one_time_secret :: string
  am_one_time_key_id :: string

type_synonym 'w acs = "azure_memory \<times> 'w"

record azure_cloud_config =
  zf_tenant_id :: string
  zf_client_id :: string
  zf_client_secret :: string
  zf_scope :: scope
  zf_vault_url :: string
  zf_vault_secret_prefix :: string

definition newAzureDemoVault :: "'w azure_net \<Rightarrow> string \<Rightarrow> string \<Rightarrow> scope \<Rightarrow> azure_demo_vault result" where
  "newAzureDemoVault net vaultURL secretPrefix scope =
     (case an_parse_url net (trim_right_set ''/'' (trim_space vaultURL)) of
        None \<Rightarrow> Inl (plain_error ''azure: vault URL must be an HTTPS Azure Key Vault URL'')
      | Some parsed \<Rightarrow>
          if vu_scheme parsed \<noteq> ''https'' \<or> vu_host parsed = [] then
            Inl (plain_error ''azure: vault URL must be an HTTPS Azure Key Vault URL'')
          else if vu_has_user parsed \<or> vu_raw_query parsed \<noteq> [] \<or> vu_fragment parsed \<noteq> [] \<or>
                  \<not> has_suffix (to_lower (vu_hostname parsed)) ''.vault.azure.net'' then
            Inl (plain_error (''azure: vault URL must use an Azure Key Vault host ending in .vault.azure.net '' @
              ''without credentials, query, or fragment''))
          else
            (let prefix0 = trim_set ''-/ '' secretPrefix;
                 prefix = (if prefix0 = [] then ''mutandae'' else prefix0) in
             if \<not> is_prefix_text prefix then
               Inl (plain_error ''azure: vault secret prefix must contain only letters, numbers, and hyphens'')
             else Inr \<lparr>zv_client = \<lparr>kv_base_url = vu_text parsed, kv_secret_prefix = prefix\<rparr>, zv_scope = scope\<rparr>))"

definition NewAzureCloudAdapter ::
  "'w azure_net \<Rightarrow> ('w \<Rightarrow> (nat \<Rightarrow> string result) \<times> 'w) \<Rightarrow> azure_cloud_config
     \<Rightarrow> ('w azure_cloud \<times> azure_memory) result" where
  "NewAzureCloudAdapter net rand cfg =
     (if trim_space (zf_tenant_id cfg) = [] then Inl (plain_error ''azure: tenant_id is required'')
      else if trim_space (zf_client_id cfg) = [] then Inl (plain_error ''azure: client_id is required'')
      else if zf_client_secret cfg = [] then Inl (plain_error ''azure: client_secret is required'')
      else case validateRealScope (zf_scope cfg) False of
        Inl err \<Rightarrow> Inl (prefixed ''azure: '' err)
      | Inr scope \<Rightarrow>
          (case NewAzureClient net \<lparr>ar_tenant_id = zf_tenant_id cfg, ar_client_id = zf_client_id cfg,
                  ar_client_secret = zf_client_secret cfg, ar_vault = None, ar_requested_by = []\<rparr> of
             Inl err \<Rightarrow> Inl err
           | Inr client \<Rightarrow>
               (let memory = \<lparr>am_client = client, am_one_time_secret = [], am_one_time_key_id = []\<rparr>;
                    adapter = \<lparr>zc_net = net, zc_rand = rand, zc_tenant_id = zf_tenant_id cfg, zc_scope = scope,
                      zc_vault = None\<rparr> in
                if trim_space (zf_vault_url cfg) = [] then Inr (adapter, memory)
                else case newAzureDemoVault net (zf_vault_url cfg) (zf_vault_secret_prefix cfg) scope of
                  Inl err \<Rightarrow> Inl err
                | Inr vault \<Rightarrow> Inr (adapter\<lparr>zc_vault := Some vault\<rparr>, memory))))"

text \<open>A call of the adapter's client; a reading of its clock.\<close>

definition with_client :: "('w az \<Rightarrow> 'a \<times> 'w az) \<Rightarrow> 'w acs \<Rightarrow> 'a \<times> 'w acs" where
  "with_client m s =
     (case m (am_client (fst s), snd s) of (r, (c, w)) \<Rightarrow> (r, ((fst s)\<lparr>am_client := c\<rparr>, w)))"

definition adapter_now :: "'w azure_cloud \<Rightarrow> 'w acs \<Rightarrow> time \<times> 'w acs" where
  "adapter_now a s = (case an_clock (zc_net a) (snd s) of (t, w) \<Rightarrow> (t, (fst s, w)))"

definition outside :: "scope \<Rightarrow> string \<Rightarrow> bool" where
  "outside scope name \<longleftrightarrow> trim_space name = [] \<or> \<not> scope_match scope name"

section \<open>Identities\<close>

definition azureFingerprint :: "string \<Rightarrow> string" where
  "azureFingerprint oid = ''sha256:'' @ hex_encode (sha256 oid)"

text \<open>The credential that expires last, of several the first.\<close>

definition latest_credential :: "azure_credential list \<Rightarrow> time \<times> string" where
  "latest_credential cs =
     fold (\<lambda>c (t, k). if t < acr_expires_at c then (acr_expires_at c, acr_key_id c) else (t, k)) cs (0, [])"

definition application_identity ::
  "'w azure_cloud \<Rightarrow> azure_application \<Rightarrow> string \<Rightarrow> time \<Rightarrow> time \<Rightarrow> machine_identity" where
  "application_identity a app keyID expiresAt now = zero_identity\<lparr>mi_name := aa_display_name app,
     mi_display_name := aa_display_name app, mi_environment := ''demo'',
     mi_provider := zero_binding\<lparr>pb_provider := azureKind, pb_provider_id := aa_object_id app,
       pb_object_id := aa_object_id app, pb_tenant_id := zc_tenant_id a\<rparr>,
     mi_ownership := zero_ownership\<lparr>ow_team := ''Demo'', ow_service := aa_display_name app,
       ow_purpose := ''Public demo identity with zero permissions'', ow_criticality := ''low''\<rparr>,
     mi_policy := zero_policy\<lparr>lp_renewal_period := ''P90D'', lp_approval_required := False\<rparr>,
     mi_credential := zero_credential\<lparr>cr_kind := ''client_secret'',
       cr_location := ''graph://applications/'' @ aa_object_id app, cr_fingerprint := azureFingerprint (aa_object_id app),
       cr_key_id := keyID, cr_delivery := ''secret-manager''\<rparr>,
     mi_state := StateActive, mi_health := (if now < expiresAt then HealthHealthy else HealthAttention),
     mi_expires_at := expiresAt\<rparr>"

definition toIdentity :: "'w azure_cloud \<Rightarrow> azure_application \<Rightarrow> 'w acs \<Rightarrow> machine_identity \<times> 'w acs" where
  "toIdentity a app s =
     (case latest_credential (aa_credentials app) of (latest, keyID) \<Rightarrow>
       (case (if latest = 0 then (case adapter_now a s of (t, s1) \<Rightarrow> (t + 90 * day, s1)) else (latest, s)) of
          (expiresAt, s1) \<Rightarrow>
            (case adapter_now a s1 of (now, s2) \<Rightarrow> (application_identity a app keyID expiresAt now, s2))))"

fun governed_identities ::
  "'w azure_cloud \<Rightarrow> azure_application list \<Rightarrow> 'w acs \<Rightarrow> machine_identity list \<times> 'w acs" where
  "governed_identities a [] s = ([], s)"
| "governed_identities a (app # apps) s =
     (if \<not> scope_match (zc_scope a) (aa_display_name app) \<or> aa_credentials app = [] then governed_identities a apps s
      else case toIdentity a app s of (i, s1) \<Rightarrow>
        (case governed_identities a apps s1 of (is, s2) \<Rightarrow> (i # is, s2)))"

section \<open>Operations\<close>

definition AzureCloud_Discover :: "'w azure_cloud \<Rightarrow> 'w acs \<Rightarrow> machine_identity list result \<times> 'w acs" where
  "AzureCloud_Discover a =
     try_then (with_client (azure_ListApplications (zc_net a))) (\<lambda>apps s.
       (case governed_identities a apps s of (is, s1) \<Rightarrow> (Inr is, s1)))"

definition rememberOneTimeSecret :: "azure_secret_result \<Rightarrow> 'w acs \<Rightarrow> 'w acs" where
  "rememberOneTimeSecret secret s =
     ((fst s)\<lparr>am_one_time_secret := asr_secret_text secret, am_one_time_key_id := acr_key_id (asr_credential secret)\<rparr>,
      snd s)"

definition ConsumeOneTimeSecret :: "'w acs \<Rightarrow> string \<times> 'w acs" where
  "ConsumeOneTimeSecret s = (am_one_time_secret (fst s), ((fst s)\<lparr>am_one_time_secret := []\<rparr>, snd s))"

definition create_instructions :: string where
  "create_instructions = ''This application registration has NO API permissions and NO admin consent, so its '' @
     ''client credentials cannot do anything on their own. Store the secret now '' @ [CHR 0xE2, CHR 0x80, CHR 0x94] @
     '' it will never be shown again.''"

text \<open>What Create does with the application it made: a secret, or the application is deleted again.\<close>

definition create_secret ::
  "'w azure_cloud \<Rightarrow> azure_application \<Rightarrow> 'w acs \<Rightarrow> provision_response result \<times> 'w acs" where
  "create_secret a app s =
     (case adapter_now a s of (now, s1) \<Rightarrow>
      case with_client (azure_AddPassword (zc_net a) (aa_object_id app) ''demo-rotation'' (now + 90 * day)) s1 of
        (Inl err, s2) \<Rightarrow> (Inl err, snd (with_client (azure_DeleteApplication (zc_net a) (aa_object_id app)) s2))
      | (Inr secret, s2) \<Rightarrow>
          (case toIdentity a (app\<lparr>aa_credentials := [asr_credential secret]\<rparr>) s2 of (identity, s3) \<Rightarrow>
            (Inr \<lparr>pvr_api_version = Version, pvr_identity = identity, pvr_one_time_secret = asr_secret_text secret,
               pvr_key_id = acr_key_id (asr_credential secret), pvr_instructions = create_instructions,
               pvr_vault = None\<rparr>, rememberOneTimeSecret secret s3)))"

definition AzureCloud_Create :: "'w azure_cloud \<Rightarrow> string \<Rightarrow> 'w acs \<Rightarrow> provision_response result \<times> 'w acs" where
  "AzureCloud_Create a hint s =
     (case zc_rand a (snd s) of (draw, w) \<Rightarrow>
      case buildScopedName (zc_scope a) hint 8 draw of
        Inl err \<Rightarrow> (Inl err, (fst s, w))
      | Inr name \<Rightarrow>
          if \<not> scope_match (zc_scope a) name then (Inl (forbiddenScopeError azureKind name (zc_scope a)), (fst s, w))
          else try_then (with_client (azure_CreateApplication (zc_net a) \<lparr>apc_display_name = name\<rparr>))
            (create_secret a) (fst s, w))"

definition replace_secret ::
  "'w azure_cloud \<Rightarrow> machine_identity \<Rightarrow> azure_secret_result \<Rightarrow> 'w acs \<Rightarrow> machine_identity result \<times> 'w acs" where
  "replace_secret a identity secret =
     (let oid = pb_provider_id (mi_provider identity); current = cr_key_id (mi_credential identity);
          new = acr_key_id (asr_credential secret) in
      try_then (if current \<noteq> [] \<and> current \<noteq> new
                then with_client (azure_RemovePassword (zc_net a) oid current) else succeed ())
        (\<lambda>_ s. (case toIdentity a (no_application\<lparr>aa_object_id := oid, aa_display_name := mi_name identity,
                       aa_credentials := [asr_credential secret]\<rparr>) (rememberOneTimeSecret secret s) of
                  (i, s1) \<Rightarrow> (Inr i, s1))))"

definition AzureCloud_Rotate :: "'w azure_cloud \<Rightarrow> machine_identity \<Rightarrow> 'w acs \<Rightarrow> machine_identity result \<times> 'w acs" where
  "AzureCloud_Rotate a identity s =
     (if outside (zc_scope a) (mi_name identity) then
        fail (forbiddenScopeError azureKind (mi_name identity) (zc_scope a)) s
      else case adapter_now a s of (now, s1) \<Rightarrow>
        try_then (with_client (azure_AddPassword (zc_net a) (pb_provider_id (mi_provider identity))
            (''demo-rotation-'' @ to_lower (cr_key_id (mi_credential identity))) (now + 90 * day)))
          (replace_secret a identity) s1)"

definition retired_view :: "machine_identity \<Rightarrow> machine_identity" where
  "retired_view identity = identity\<lparr>mi_state := StateRetired, mi_health := HealthAttention,
     mi_credential := zero_credential\<lparr>cr_kind := ''client_secret'',
       cr_location := ''graph://applications/'' @ pb_provider_id (mi_provider identity),
       cr_delivery := ''secret-manager''\<rparr>\<rparr>"

definition AzureCloud_Retire :: "'w azure_cloud \<Rightarrow> machine_identity \<Rightarrow> 'w acs \<Rightarrow> machine_identity result \<times> 'w acs" where
  "AzureCloud_Retire a identity =
     (if outside (zc_scope a) (mi_name identity) then
        fail (forbiddenScopeError azureKind (mi_name identity) (zc_scope a))
      else try_then (with_client (azure_DeleteApplication (zc_net a) (pb_provider_id (mi_provider identity))))
        (\<lambda>_. succeed (retired_view identity)))"

section \<open>Plans\<close>

definition azure_cloud_plan :: "'w azure_cloud \<Rightarrow> string \<Rightarrow> (string \<Rightarrow> planned_operation list) \<Rightarrow> string \<Rightarrow> operations result" where
  "azure_cloud_plan a what ops i =
     (let name = trim_space i in
      if name = [] then Inl (plan_needs_id azureKind what)
      else if \<not> scope_match (zc_scope a) name then Inl (forbiddenScopeError azureKind name (zc_scope a))
      else Inr (Some (ops name)))"

definition AzureCloud_PlanRotate :: "'w azure_cloud \<Rightarrow> string \<Rightarrow> 'w acs \<Rightarrow> operations result \<times> 'w acs" where
  "AzureCloud_PlanRotate a i s = (azure_cloud_plan a ''rotate'' (\<lambda>name.
     [planned ''graph.addPassword'' name ''Add a replacement Microsoft Graph password credential.'' True False,
      planned ''graph.removePassword'' name ''Remove the rotated-out Graph password credential.'' False True]) i, s)"

definition AzureCloud_PlanRetire :: "'w azure_cloud \<Rightarrow> string \<Rightarrow> 'w acs \<Rightarrow> operations result \<times> 'w acs" where
  "AzureCloud_PlanRetire a i s = (azure_cloud_plan a ''retire'' (\<lambda>name.
     [planned ''graph.deleteApplication'' name
        ''Delete the application registration so its credentials can no longer authenticate.'' False True]) i, s)"

definition planned_for :: "machine_identity \<Rightarrow> string" where
  "planned_for identity = (if trim_space (mi_name identity) = [] then pb_provider_id (mi_provider identity)
     else mi_name identity)"

section \<open>The vault\<close>

text \<open>\<open>azureVaultNamePattern\<close>.\<close>

definition vault_name_ok :: "string \<Rightarrow> bool" where
  "vault_name_ok s \<longleftrightarrow> 1 \<le> length s \<and> length s \<le> 127 \<and> list_all (\<lambda>c. is_prefix_text [c]) s"

definition demo_secret_name :: "azure_demo_vault \<Rightarrow> machine_identity \<Rightarrow> string result" where
  "demo_secret_name v identity =
     (if outside (zv_scope v) (mi_name identity) then
        Inl (forbiddenScopeError azureKind (mi_name identity) (zv_scope v))
      else
        (let name = take 127 (trim_set ''-'' (kv_secret_prefix (zv_client v) @ ''-'' @ to_lower (mi_name identity))) in
         if vault_name_ok name then Inr name else Inl (plain_error ''azure: derived Key Vault secret name is invalid'')))"

definition secret_body :: "machine_identity \<Rightarrow> string \<Rightarrow> string \<Rightarrow> time \<Rightarrow> request_body" where
  "secret_body identity keyID secret expiresAt = JsonBody (JObject [(''value'', JString secret),
     (''contentType'', JString ''mutandae-demo-credential''),
     (''attributes'', JObject [(''enabled'', JBool True), (''exp'', JInt (unix_seconds expiresAt))]),
     (''tags'', JObject [(''mutandaeIdentity'', JString (mi_name identity)),
       (''mutandaeProvider'', JString (pb_provider (mi_provider identity))), (''mutandaeKeyId'', JString keyID),
       (''mutandaeExpiresAt'', JString (rfc3339 expiresAt)),
       (''mutandaeProviderID'', JString (pb_provider_id (mi_provider identity)))])])"

definition secret_version :: "key_vault_secret \<Rightarrow> string" where
  "secret_version k = (if kvs_version k = [] then versionFromID (kvs_id k) else kvs_version k)"

definition lift_result :: "'a result \<Rightarrow> 's \<Rightarrow> 'a result \<times> 's" where
  "lift_result r s = (r, s)"

definition AzureVault_StoreSecret ::
  "'w azure_net \<Rightarrow> azure_demo_vault \<Rightarrow> machine_identity \<Rightarrow> string \<Rightarrow> string \<Rightarrow> 'w az \<Rightarrow> vault_reference result \<times> 'w az" where
  "AzureVault_StoreSecret net v identity keyID secret =
     try_then (lift_result (demo_secret_name v identity)) (\<lambda>name.
       if trim_space secret = [] then fail (plain_error ''azure: cannot store an empty secret'')
       else try_then (if mi_expires_at identity = 0 then try_then (azure_now net) (\<lambda>t. succeed (t + 90 * day))
                      else succeed (mi_expires_at identity)) (\<lambda>expiresAt.
         try_then (vault_request net (zv_client v) (an_vault_secret net) zero_vault_secret ''PUT'' (secret_path name)
             (secret_body identity keyID secret expiresAt))
           (\<lambda>response. succeed \<lparr>vr_url = kv_base_url (zv_client v), vr_secret_name = name,
              vr_version = secret_version response, vr_expires_at = expiresAt, vr_owner_object_ids = []\<rparr>)))"

definition AzureVault_ReadSecret ::
  "'w azure_net \<Rightarrow> azure_demo_vault \<Rightarrow> machine_identity \<Rightarrow> string \<Rightarrow> 'w az \<Rightarrow> (string \<times> vault_reference) result \<times> 'w az" where
  "AzureVault_ReadSecret net v identity version =
     try_then (lift_result (demo_secret_name v identity)) (\<lambda>name.
       if version \<noteq> [] \<and> \<not> valid_version version then fail (plain_error ''azure: vault version is invalid'')
       else try_then (vault_request net (zv_client v) (an_vault_secret net) zero_vault_secret ''GET''
           (secret_path name @ (if version = [] then [] else ''/'' @ path_escape version)) NoBody)
         (\<lambda>response.
           if kvs_value response = [] then fail (plain_error ''azure: Key Vault returned an empty secret'')
           else succeed (kvs_value response, \<lparr>vr_url = kv_base_url (zv_client v), vr_secret_name = name,
             vr_version = kvs_version response, vr_expires_at = tag_time net response, vr_owner_object_ids = []\<rparr>)))"

definition AzureVault_RevokeSecret ::
  "'w azure_net \<Rightarrow> azure_demo_vault \<Rightarrow> machine_identity \<Rightarrow> 'w az \<Rightarrow> vault_reference result \<times> 'w az" where
  "AzureVault_RevokeSecret net v identity =
     try_then (lift_result (demo_secret_name v identity)) (\<lambda>name.
       try_then (vault_request net (zv_client v) (an_vault_secret net) zero_vault_secret ''GET'' (secret_path name) NoBody)
         (\<lambda>current.
           if secret_version current = [] then fail (plain_error ''azure: Key Vault did not return a secret version'')
           else try_then (vault_request net (zv_client v) ignore_reply () ''PATCH''
               (secret_path name @ ''/'' @ path_escape (secret_version current))
               (JsonBody (JObject [(''attributes'', JObject [(''enabled'', JBool False)])])))
             (\<lambda>_. succeed \<lparr>vr_url = kv_base_url (zv_client v), vr_secret_name = name,
                vr_version = secret_version current, vr_expires_at = 0, vr_owner_object_ids = []\<rparr>)))"

text \<open>The adapter in front of the vault: the scope first, then whether there is a vault.\<close>

definition with_vault ::
  "'w azure_cloud \<Rightarrow> machine_identity \<Rightarrow> (azure_demo_vault \<Rightarrow> 'w az \<Rightarrow> 'a result \<times> 'w az) \<Rightarrow> 'w acs \<Rightarrow> 'a result \<times> 'w acs" where
  "with_vault a identity m =
     (if outside (zc_scope a) (mi_name identity) then
        fail (forbiddenScopeError azureKind (mi_name identity) (zc_scope a))
      else case zc_vault a of
        None \<Rightarrow> fail (sentinel_error ErrVaultUnsupported)
      | Some v \<Rightarrow> with_client (m v))"

definition azure_cloud_vault :: "'w azure_cloud \<Rightarrow> 'w acs vault" where
  "azure_cloud_vault a =
     \<lparr>va_store = (\<lambda>i k sec. with_vault a i (\<lambda>v. AzureVault_StoreSecret (zc_net a) v i k sec)),
      va_read = (\<lambda>i k version. with_vault a i (\<lambda>v. AzureVault_ReadSecret (zc_net a) v i version)),
      va_revoke = (\<lambda>i k. with_vault a i (\<lambda>v. AzureVault_RevokeSecret (zc_net a) v i))\<rparr>"

section \<open>The adapter as the control plane sees it\<close>

definition azure_cloud_adapter :: "'w azure_cloud \<Rightarrow> 'w acs cloud_adapter" where
  "azure_cloud_adapter a =
     \<lparr>ca_kind = azureKind, ca_discover = AzureCloud_Discover a, ca_rotate = AzureCloud_Rotate a,
      ca_retire = AzureCloud_Retire a, ca_plan_rotate = Some (AzureCloud_PlanRotate a),
      ca_plan_retire = Some (AzureCloud_PlanRetire a),
      ca_plan_rotate_identity = Some (\<lambda>i. AzureCloud_PlanRotate a (planned_for i)),
      ca_plan_retire_identity = Some (\<lambda>i. AzureCloud_PlanRetire a (planned_for i)),
      ca_create = Some (AzureCloud_Create a), ca_vault = Some (azure_cloud_vault a),
      ca_secret = Some ConsumeOneTimeSecret\<rparr>"

end
