(* ===== verification/AzureCloudProperties.thy ===== *)
theory AzureCloudProperties
  imports AzureCloud AzureProperties
begin

text \<open>
  What the real Azure adapter guarantees: its scope is a boundary, a mutation sends nothing that concerns another
  object than the one its identity names, and the one-time secret of a rotation is handed out once. The locale
  \<open>sending\<close> is a rule about the requests of a client; it is interpreted for the objects of Graph and for the
  secrets of the vault.
\<close>

section \<open>A rule that all requests of a client obey\<close>

locale sending =
  fixes net :: "'w azure_net" and base :: azure_client and before :: "exchange list" and ok :: "http_request \<Rightarrow> bool"
  assumes token_ok: "ok (token_request base scope)"
begin

definition obeys :: "('w \<times> exchange list) az \<Rightarrow> bool" where
  "obeys s \<longleftrightarrow> fixed_part (fst s) = base \<and> (\<exists>es. snd (snd s) = before @ es \<and> (\<forall>e \<in> set es. ok (fst e)))"

lemma obeys_fields: "obeys (c, w) \<Longrightarrow> obeys (c\<lparr>az_tokens := t\<rparr>, w)"
  by (simp add: obeys_def fixed_part_def)

lemma obeys_clock: "obeys (c, w) \<Longrightarrow> obeys (c, snd (an_clock (recorded net) w))"
  by (auto simp: obeys_def recorded_def split: prod.split)

lemma obeys_pause: "obeys (c, w) \<Longrightarrow> obeys (c, snd (an_pause (recorded net) d w))"
  by (auto simp: obeys_def recorded_def split: prod.split)

lemma obeys_send: "obeys (c, w) \<Longrightarrow> ok q \<Longrightarrow> obeys (c, snd (an_send (recorded net) q w))"
  by (fastforce simp: obeys_def recorded_def split: prod.split)

lemma base_fields:
  assumes "obeys (c, w)"
  shows "token_request c scope = token_request base scope" "az_graph_base_url c = az_graph_base_url base"
proof -
  have "base = fixed_part c" using assms by (simp add: obeys_def)
  then show "token_request c scope = token_request base scope" "az_graph_base_url c = az_graph_base_url base"
    by (simp_all add: fixed_part_def token_request_def token_endpoint_def)
qed

lemma obeys_token [keeps_intros]: "keeps obeys (azure_token (recorded net) scope)"
proof
  fix s assume o: "obeys s"
  obtain c w where s: "s = (c, w)" by (rule prod.exhaust)
  obtain now w1 where clock: "an_clock (recorded net) w = (now, w1)" by (rule prod.exhaust)
  have o1: "obeys (c, w1)" using obeys_clock [of c w] o clock by (simp add: s)
  obtain r w2 where send: "an_send (recorded net) (token_request c scope) w1 = (r, w2)" by (rule prod.exhaust)
  have o2: "obeys (c, w2)" using obeys_send [OF o1, of "token_request c scope"] send token_ok base_fields(1) [OF o1] by simp
  show "obeys (snd (azure_token (recorded net) scope s))"
    using o1 o2 obeys_fields [OF o2]
    by (auto simp: azure_token_def s clock send Let_def split: option.split sum.split)
qed

lemma obeys_graph_send:
  assumes "\<And>t. ok (bearer_request method (az_graph_base_url base @ path) t body)"
  shows "keeps obeys (graph_send (recorded net) decode zero method path body token)"
proof
  fix s assume o: "obeys s"
  obtain c w where s: "s = (c, w)" by (rule prod.exhaust)
  let ?q = "bearer_request method (az_graph_base_url c @ path) token body"
  obtain r w2 where send: "an_send (recorded net) ?q w = (r, w2)" by (rule prod.exhaust)
  have "ok ?q" using assms base_fields(2) [of c w] o by (simp add: s)
  then have "obeys (c, w2)" using obeys_send [of c w ?q] o send by (simp add: s)
  then show "obeys (snd (graph_send (recorded net) decode zero method path body token s))"
    by (simp add: graph_send_def s send Let_def split: sum.split)
qed

lemma obeys_graph [keeps_intros]:
  assumes "\<And>t. ok (bearer_request method (az_graph_base_url base @ path) t body)"
  shows "keeps obeys (graphJSON (recorded net) decode zero method path body)"
  unfolding graphJSON_def by (intro keeps_intros obeys_graph_send assms)

lemma obeys_vault [keeps_intros]:
  assumes "\<And>t. ok (bearer_request method (kv_base_url v @ path @ ''?api-version=2025-07-01'') t body)"
  shows "keeps obeys (vault_request (recorded net) v decode zero method path body)"
  unfolding vault_request_def
proof (intro keeps_intros keepsI)
  fix token s assume o: "obeys s"
  obtain c w where s: "s = (c, w)" by (rule prod.exhaust)
  let ?q = "bearer_request method (kv_base_url v @ path @ ''?api-version=2025-07-01'') token body"
  obtain r w2 where send: "an_send (recorded net) ?q w = (r, w2)" by (rule prod.exhaust)
  have "obeys (c, w2)" using obeys_send [of c w ?q] assms o send by (simp add: s)
  then show "obeys (snd (vault_send (recorded net) v decode zero method path body token s))"
    by (simp add: vault_send_def s send Let_def split: sum.split)
qed

lemma obeys_retry_loop: "keeps obeys m \<Longrightarrow> keeps obeys (retry_loop (recorded net) n m e)"
proof (induction n arbitrary: e)
  case 0
  then show ?case by (simp add: keeps_def)
next
  case (Suc n)
  show ?case
  proof
    fix s assume o: "obeys s"
    obtain r s1 where m: "m s = (r, s1)" by (rule prod.exhaust)
    then have o1: "obeys s1" using keepsD [OF Suc.prems o] by simp
    obtain p s2 where p: "azure_pause (recorded net) (700 * millisecond) s1 = (p, s2)" by (rule prod.exhaust)
    have "obeys s2" using obeys_pause [of "fst s1" "snd s1" "700 * millisecond"] o1 p
      by (auto simp: azure_pause_def split: prod.splits)
    then have "obeys (snd (retry_loop (recorded net) n m e' s2))" for e' by (rule keepsD [OF Suc.IH [OF Suc.prems]])
    then show "obeys (snd (retry_loop (recorded net) (Suc n) m e s))"
      using o1 \<open>obeys s2\<close> by (simp add: m p split: sum.split option.split)
  qed
qed

lemma obeys_retry [keeps_intros]:
  assumes "\<And>t. ok (bearer_request method (az_graph_base_url base @ path) t body)"
  shows "keeps obeys (graphJSONRetry (recorded net) n decode zero method path body)"
  unfolding graphJSONRetry_def by (intro obeys_retry_loop obeys_graph assms)

lemma obeys_now [keeps_intros]: "keeps obeys (azure_now (recorded net))"
proof
  fix s assume "obeys s"
  then show "obeys (snd (azure_now (recorded net) s))"
    using obeys_clock [of "fst s" "snd s"] by (simp add: azure_now_def case_prod_beta)
qed

lemma obeys_expiry [keeps_intros]: "keeps obeys (expiry_of (recorded net) e)"
  by (auto simp: expiry_of_def intro!: keeps_intros)

text \<open>The same of the adapter's memory.\<close>

definition memory_obeys :: "('w \<times> exchange list) acs \<Rightarrow> bool" where
  "memory_obeys s \<longleftrightarrow> obeys (am_client (fst s), snd s)"

lemma memory_client [keeps_intros]: "keeps obeys m \<Longrightarrow> keeps memory_obeys (with_client m)"
  by (auto simp: keeps_def memory_obeys_def with_client_def split: prod.split) (metis snd_conv)

lemma memory_now: "zc_net a = recorded net \<Longrightarrow> memory_obeys s \<Longrightarrow> memory_obeys (snd (adapter_now a s))"
  using obeys_clock [of "am_client (fst s)" "snd s"]
  by (auto simp: memory_obeys_def adapter_now_def split: prod.split)

lemma memory_remember: "memory_obeys s \<Longrightarrow> memory_obeys (rememberOneTimeSecret secret s)"
  by (simp add: memory_obeys_def rememberOneTimeSecret_def)

lemma memory_identity: "zc_net a = recorded net \<Longrightarrow> memory_obeys s \<Longrightarrow> memory_obeys (snd (toIdentity a app s))"
  using memory_now by (simp add: toIdentity_def case_prod_beta)

end

section \<open>The object an identity names\<close>

definition concerns :: "azure_client \<Rightarrow> string \<Rightarrow> http_request \<Rightarrow> bool" where
  "concerns c oid q \<longleftrightarrow> (\<exists>scope. q = token_request c scope) \<or>
     hq_method q = ''POST'' \<and> (hq_url q = az_graph_base_url c @ applications_path oid @ ''/addPassword'' \<or>
       hq_url q = az_graph_base_url c @ applications_path oid @ ''/removePassword'') \<or>
     hq_method q = ''DELETE'' \<and> hq_url q = az_graph_base_url c @ applications_path oid"

interpretation one_object: sending net c l "concerns c oid" for net :: "'w azure_net" and c l oid
  by unfold_locales (auto simp: concerns_def)

lemma concerns_fixed: "concerns (fixed_part c) oid = concerns c oid"
  by (simp add: concerns_def fun_eq_iff fixed_part_def token_request_def token_endpoint_def)

lemma mutation_keeps:
  fixes net :: "'w azure_net"
  assumes "zc_net a = recorded net" and "oid = pb_provider_id (mi_provider i)"
  shows "keeps (one_object.memory_obeys c l oid) (AzureCloud_Rotate a i)"
    and "keeps (one_object.memory_obeys c l oid) (AzureCloud_Retire a i)"
proof -
  let ?I = "one_object.memory_obeys c l oid :: ('w \<times> exchange list) acs \<Rightarrow> bool"
  have add: "keeps ?I (with_client (azure_AddPassword (recorded net) oid name e))" for name e
    by (auto simp: azure_AddPassword_def add_password_def concerns_def bearer_request_def
        intro!: keeps_intros one_object.memory_client one_object.obeys_expiry one_object.obeys_retry)
  have remove: "keeps ?I (with_client (azure_RemovePassword (recorded net) oid k))" for k
    by (auto simp: azure_RemovePassword_def remove_password_def concerns_def bearer_request_def
        intro!: keeps_intros one_object.memory_client one_object.obeys_retry)
  have delete: "keeps ?I (with_client (azure_DeleteApplication (recorded net) oid))"
    by (auto simp: azure_DeleteApplication_def concerns_def bearer_request_def
        intro!: keeps_intros one_object.memory_client one_object.obeys_retry)
  have replace: "keeps ?I (replace_secret a i secret)" for secret
    unfolding replace_secret_def Let_def assms(1) assms(2) [symmetric]
  proof (rule keeps_try keeps_if remove keeps_succeed keepsI)+
    fix u s assume "?I s"
    then have "?I (snd (toIdentity a app (rememberOneTimeSecret secret s)))" for app
      using one_object.memory_identity [OF assms(1)] one_object.memory_remember by blast
    then show "?I (snd (case toIdentity a (no_application\<lparr>aa_object_id := oid, aa_display_name := mi_name i,
        aa_credentials := [asr_credential secret]\<rparr>) (rememberOneTimeSecret secret s) of (j, s1) \<Rightarrow> (Inr j, s1)))"
      by (simp add: case_prod_beta)
  qed
  show "keeps ?I (AzureCloud_Rotate a i)"
  proof
    fix s assume I: "?I s"
    have "?I (snd (try_then (with_client (azure_AddPassword (recorded net) oid name e)) (replace_secret a i)
        (snd (adapter_now a s))))" for name e
      by (rule keepsD [OF keeps_try [OF add replace] one_object.memory_now [OF assms(1) I]])
    then show "?I (snd (AzureCloud_Rotate a i s))"
      using I by (simp add: AzureCloud_Rotate_def case_prod_beta assms(1) assms(2) [symmetric] fail_def)
  qed
  show "keeps ?I (AzureCloud_Retire a i)"
    unfolding AzureCloud_Retire_def assms(1) assms(2) [symmetric] by (intro keeps_intros delete)
qed

text \<open>
  C27. A mutation of the real adapter concerns one object: outside the configured scope rotation and retirement are
  forbidden and nothing at all happens; inside it, every request that goes out asks for a token or adds or
  removes a password of, or deletes, the application that the binding of the identity names.
\<close>

theorem azure_mutations_confined:
  assumes "zc_net a = recorded net" and "f = AzureCloud_Rotate a i \<or> f = AzureCloud_Retire a i"
    and "f s = (res, s')"
  shows "(if outside (zc_scope a) (mi_name i) then s' = s \<and> (\<exists>e. res = Inl e \<and> errors_is e ErrForbidden)
    else \<exists>es. snd (snd s') = snd (snd s) @ es \<and>
      (\<forall>e \<in> set es. concerns (am_client (fst s)) (pb_provider_id (mi_provider i)) (fst e)))"
proof (cases "outside (zc_scope a) (mi_name i)")
  case True
  then have "f s = (Inl (forbiddenScopeError azureKind (mi_name i) (zc_scope a)), s)"
    using assms(2) by (auto simp: AzureCloud_Rotate_def AzureCloud_Retire_def fail_def)
  then show ?thesis using True assms(3) by (simp add: forbiddenScopeError_def Let_def)
next
  case False
  let ?c = "fixed_part (am_client (fst s))" and ?oid = "pb_provider_id (mi_provider i)"
  have "one_object.memory_obeys ?c (snd (snd s)) ?oid s"
    by (simp add: one_object.memory_obeys_def one_object.obeys_def)
  then have "one_object.memory_obeys ?c (snd (snd s)) ?oid (snd (f s))"
    using assms(2) keepsD [OF mutation_keeps(1) [OF assms(1) refl]] keepsD [OF mutation_keeps(2) [OF assms(1) refl]] by blast
  then have "one_object.memory_obeys ?c (snd (snd s)) ?oid s'" using assms(3) by simp
  then show ?thesis
    using False unfolding one_object.memory_obeys_def one_object.obeys_def by (simp add: concerns_fixed)
qed

section \<open>Discovery and creation\<close>

lemma governed_names:
  assumes "governed_identities a apps s = (is, s')"
  shows "\<forall>i \<in> set is. scope_match (zc_scope a) (mi_name i) \<and>
    (\<exists>app \<in> set apps. mi_name i = aa_display_name app \<and> pb_provider_id (mi_provider i) = aa_object_id app \<and>
       aa_credentials app \<noteq> [])"
  using assms
proof (induction apps arbitrary: s "is" s')
  case (Cons app apps)
  have view: "mi_name (fst (toIdentity a x t)) = aa_display_name x \<and>
      pb_provider_id (mi_provider (fst (toIdentity a x t))) = aa_object_id x" for x t
    by (simp add: toIdentity_def case_prod_beta application_identity_def)
  show ?case
  proof (cases "\<not> scope_match (zc_scope a) (aa_display_name app) \<or> aa_credentials app = []")
    case True
    then show ?thesis using Cons.IH [of s "is" s'] Cons.prems by auto
  next
    case False
    obtain i s1 where i: "toIdentity a app s = (i, s1)" by (rule prod.exhaust)
    obtain js s2 where js: "governed_identities a apps s1 = (js, s2)" by (rule prod.exhaust)
    show ?thesis using False Cons.IH [OF js] Cons.prems view [of app s] by (auto simp: i js)
  qed
qed simp

text \<open>
  What the adapter discovers is inside its scope, and it creates applications under names inside its scope only.
\<close>

theorem azure_scope_governs:
  "(case AzureCloud_Discover a s of (Inl e, s') \<Rightarrow> True
    | (Inr is, s') \<Rightarrow> list_all (\<lambda>i. scope_match (zc_scope a) (mi_name i)) is) \<and>
   (\<exists>r w. AzureCloud_Create a hint s = (r, (fst s, w)) \<or>
     (\<exists>name w. scope_match (zc_scope a) name \<and> AzureCloud_Create a hint s =
        try_then (with_client (azure_CreateApplication (zc_net a) \<lparr>apc_display_name = name\<rparr>)) (create_secret a) (fst s, w)))"
proof -
  have "list_all (\<lambda>i. scope_match (zc_scope a) (mi_name i)) is" if r: "AzureCloud_Discover a s = (Inr is, s')" for "is" s'
  proof -
    obtain apps s1 where "governed_identities a apps s1 = (is, s')"
      using r unfolding AzureCloud_Discover_def by (rule try_then_Inr) (auto split: prod.splits)
    from governed_names [OF this] show ?thesis by (auto simp: list_all_iff)
  qed
  moreover have "\<exists>r w. AzureCloud_Create a hint s = (r, (fst s, w)) \<or>
     (\<exists>name w. scope_match (zc_scope a) name \<and> AzureCloud_Create a hint s =
        try_then (with_client (azure_CreateApplication (zc_net a) \<lparr>apc_display_name = name\<rparr>)) (create_secret a) (fst s, w))"
    by (auto simp: AzureCloud_Create_def split: prod.split sum.split)
  ultimately show ?thesis by (auto split: prod.split sum.split)
qed

section \<open>The one-time secret\<close>

lemma client_buffer: "with_client m s = (r, s') \<Longrightarrow> am_one_time_secret (fst s') = am_one_time_secret (fst s)"
  by (auto simp: with_client_def split: prod.splits)

lemma identity_buffer: "fst (snd (toIdentity a app s)) = fst s"
  by (simp add: toIdentity_def adapter_now_def case_prod_beta)

lemma added_secret:
  "azure_AddPassword net oid name e s = (Inr secret, s') \<Longrightarrow> asr_secret_text secret \<noteq> [] \<and> acr_key_id (asr_credential secret) \<noteq> []"
  unfolding azure_AddPassword_def
  by (auto elim!: try_then_Inr simp: fail_def succeed_def credential_view_def split: if_splits)

lemma replaced_secret:
  assumes "replace_secret a i secret s = (res, s')"
  shows "case res of Inl e \<Rightarrow> am_one_time_secret (fst s') = am_one_time_secret (fst s)
    | Inr j \<Rightarrow> am_one_time_secret (fst s') = asr_secret_text secret \<and> mi_name j = mi_name i \<and>
        pb_provider_id (mi_provider j) = pb_provider_id (mi_provider i) \<and> mi_state j = StateActive \<and>
        cr_key_id (mi_credential j) \<in> {[], acr_key_id (asr_credential secret)}"
proof -
  let ?m = "if cr_key_id (mi_credential i) \<noteq> [] \<and> cr_key_id (mi_credential i) \<noteq> acr_key_id (asr_credential secret)
    then with_client (azure_RemovePassword (zc_net a) (pb_provider_id (mi_provider i)) (cr_key_id (mi_credential i)))
    else succeed ()"
  obtain r s1 where m: "?m s = (r, s1)" by (rule prod.exhaust)
  have b: "am_one_time_secret (fst s1) = am_one_time_secret (fst s)"
    using m by (auto simp: succeed_def dest: client_buffer split: if_splits)
  show ?thesis
    using assms m b identity_buffer [of a _ "rememberOneTimeSecret secret s1"]
    by (cases r) (auto simp: replace_secret_def Let_def try_then_def rememberOneTimeSecret_def
      toIdentity_def latest_credential_def application_identity_def adapter_now_def split: prod.splits if_splits)
qed


section \<open>A tenant for the witnesses\<close>

definition demo_azure :: "(unit \<times> exchange list) azure_net \<Rightarrow> (unit \<times> exchange list) azure_cloud" where
  "demo_azure net = \<lparr>zc_net = net, zc_rand = (\<lambda>w. (\<lambda>_. Inr ''0123456789abcdef'', w)), zc_tenant_id = ''t'',
     zc_scope = DemoScope, zc_vault = None\<rparr>"

definition demo_memory :: azure_memory where
  "demo_memory = \<lparr>am_client = demo_client, am_one_time_secret = [], am_one_time_key_id = []\<rparr>"

definition old_key :: string where "old_key = ''22222222-2222-2222-8222-222222222222''"

definition demo_application :: machine_identity where
  "demo_application = zero_identity\<lparr>mi_name := ''mutandae-demo-a'',
     mi_provider := zero_binding\<lparr>pb_provider := azureKind, pb_provider_id := demo_guid\<rparr>,
     mi_credential := zero_credential\<lparr>cr_key_id := old_key\<rparr>\<rparr>"

definition request_lines :: "'w \<times> exchange list \<Rightarrow> (string \<times> string) list" where
  "request_lines w = map (\<lambda>e. (hq_method (fst e), hq_url (fst e))) (snd w)"

theorem azure_mutations_confined_witness:
  "\<exists>res s' es. AzureCloud_Rotate (demo_azure (recorded demo_tenant)) demo_application (demo_memory, ((), [])) = (res, s') \<and>
     snd (snd s') = es \<and> (\<forall>e \<in> set es. concerns demo_client demo_guid (fst e))"
proof -
  let ?a = "demo_azure (recorded demo_tenant)"
  obtain res s' where r: "AzureCloud_Rotate ?a demo_application (demo_memory, ((), [])) = (res, s')" by (rule prod.exhaust)
  have "\<not> outside (zc_scope ?a) (mi_name demo_application)" by code_simp
  moreover have "zc_net ?a = recorded demo_tenant" by (simp add: demo_azure_def)
  ultimately have "\<exists>es. snd (snd s') = es \<and> (\<forall>e \<in> set es. concerns demo_client demo_guid (fst e))"
    using azure_mutations_confined [of ?a demo_tenant "AzureCloud_Rotate ?a demo_application" demo_application, OF _ _ r]
    by (simp add: demo_memory_def demo_application_def)
  with r show ?thesis by blast
qed

definition is_ok :: "'a result \<times> 's \<Rightarrow> bool" where
  "is_ok p = (case fst p of Inl _ \<Rightarrow> False | Inr _ \<Rightarrow> True)"

text \<open>Whether a rotation succeeds is settled by its calls.\<close>

definition rotation_calls :: "'w azure_cloud \<Rightarrow> machine_identity \<Rightarrow> 'w acs \<Rightarrow> unit result \<times> 'w acs" where
  "rotation_calls a i s = (case adapter_now a s of (now, s1) \<Rightarrow>
     try_then (with_client (azure_AddPassword (zc_net a) (pb_provider_id (mi_provider i))
         (''demo-rotation-'' @ to_lower (cr_key_id (mi_credential i))) (now + 90 * day)))
       (\<lambda>secret. if cr_key_id (mi_credential i) \<noteq> [] \<and> cr_key_id (mi_credential i) \<noteq> acr_key_id (asr_credential secret)
          then with_client (azure_RemovePassword (zc_net a) (pb_provider_id (mi_provider i)) (cr_key_id (mi_credential i)))
          else succeed ()) s1)"

lemma rotates_by_calls:
  assumes "\<not> outside (zc_scope a) (mi_name i)"
  shows "is_ok (AzureCloud_Rotate a i s) = is_ok (rotation_calls a i s)"
proof -
  have r: "is_ok (replace_secret a i secret t) = is_ok ((if cr_key_id (mi_credential i) \<noteq> [] \<and>
      cr_key_id (mi_credential i) \<noteq> acr_key_id (asr_credential secret)
      then with_client (azure_RemovePassword (zc_net a) (pb_provider_id (mi_provider i)) (cr_key_id (mi_credential i)))
      else succeed ()) t)" for secret t
    by (simp add: replace_secret_def Let_def try_then_def is_ok_def split: prod.split sum.split)
  show ?thesis
    using assms r by (simp add: AzureCloud_Rotate_def rotation_calls_def try_then_def split: prod.split sum.split)
      (simp add: is_ok_def)
qed

lemma demo_rotates: "is_ok (AzureCloud_Rotate (demo_azure (recorded demo_tenant)) demo_application (demo_memory, ((), [])))"
proof -
  have "\<not> outside (zc_scope (demo_azure (recorded demo_tenant))) (mi_name demo_application)" by code_simp
  moreover have "is_ok (rotation_calls (demo_azure (recorded demo_tenant)) demo_application (demo_memory, ((), [])))"
    by code_simp
  ultimately show ?thesis using rotates_by_calls by blast
qed


text \<open>
  Two observations. The scope looks at the name that comes with the identity while the request goes to the object its
  binding names, so an identity with a name inside the scope and the identifier of any application removes that
  application. And when the old password cannot be removed, the new one is lost: it stays with the
  application but neither the caller nor the buffer has it.
\<close>

lemma retire_by_name:
  "request_lines (snd (snd (AzureCloud_Retire (demo_azure (recorded demo_tenant)) demo_application (demo_memory, ((), []))))) =
     [(''POST'', ''https://login.microsoftonline.com/t/oauth2/v2.0/token''),
      (''DELETE'', ''https://graph.microsoft.com/v1.0/applications/'' @ demo_guid)]"
  by code_simp

definition stubborn_tenant :: "unit azure_net" where
  "stubborn_tenant = demo_tenant\<lparr>an_send := (\<lambda>q w. (Inr \<lparr>hr_status =
     (if has_suffix (hq_url q) ''/removePassword'' then 403 else 200), hr_data = ''x''\<rparr>, w))\<rparr>"

lemma rotation_loses_secret:
  "(case AzureCloud_Rotate (demo_azure (recorded stubborn_tenant)) demo_application (demo_memory, ((), [])) of (res, s') \<Rightarrow>
      (\<not> is_ok (res, s'), am_one_time_secret (fst s'), request_lines (snd s'))) =
    (True, [], [(''POST'', ''https://login.microsoftonline.com/t/oauth2/v2.0/token''),
      (''POST'', ''https://graph.microsoft.com/v1.0/applications/'' @ demo_guid @ ''/addPassword''),
      (''POST'', ''https://graph.microsoft.com/v1.0/applications/'' @ demo_guid @ ''/removePassword'')])"
  by code_simp

end
