(* ===== verification/Repository.thy ===== *)
theory Repository
  imports Snapshots AuditTrail
begin

text \<open>
  The Redis repository of internal/lifecycle/redis_repository.go: one snapshot per environment under a key, and
  the listeners that are told of changes. Redis and encoding/json are outside: what they do is the
  record \<open>snapshot_redis\<close>. The goroutine that reads the subscription is the operation \<open>deliver\<close>, one per message.
  The locale \<open>snapshot_repository\<close> is what the store relies on.
\<close>

section \<open>The repository\<close>

record 'w snapshot_redis =
  sr_get :: "string \<Rightarrow> (string option result, 'w) act"
  sr_set :: "string \<Rightarrow> string \<Rightarrow> (unit result, 'w) act"
  sr_publish :: "string \<Rightarrow> string \<Rightarrow> (unit result, 'w) act"
  sr_encode :: "string \<times> snapshot \<Rightarrow> string result"
  sr_decode :: "string \<Rightarrow> (string \<times> snapshot) result"

definition snapshotVersion :: string where "snapshotVersion = ''v1''"

record redis_repository =
  rx_prefix :: string
  rx_snapshot :: string
  rx_channel :: string

text \<open>A listener is a number and whether a signal waits in its channel, which holds one.\<close>

record listeners =
  ls_closed :: bool
  ls_waiting :: "(nat \<times> bool) list"
  ls_next :: nat

definition no_listeners :: listeners where
  "no_listeners = \<lparr>ls_closed = False, ls_waiting = [], ls_next = 0\<rparr>"

definition NewRedisRepository :: "bool \<Rightarrow> string \<Rightarrow> (redis_repository \<times> listeners) result" where
  "NewRedisRepository has_client prefix0 =
     (if \<not> has_client then Inl (plain_error ''redis client is required'')
      else
        (let prefix = trim_suffix1 CHR '':'' (trim_space prefix0) in
         if prefix = [] \<or> list_ex (\<lambda>c. c = CHR '' '' \<or> c = CHR 0x09 \<or> c = CHR 0x0D \<or> c = CHR 0x0A) prefix then
           Inl (plain_error ''redis key prefix is required and must not contain whitespace'')
         else Inr (\<lparr>rx_prefix = prefix, rx_snapshot = prefix @ '':snapshot'', rx_channel = prefix @ '':changes''\<rparr>,
                   no_listeners)))"

definition persistence_error :: "string \<Rightarrow> go_error \<Rightarrow> go_error" where
  "persistence_error what err = wrap_error ErrPersistenceFailure (what @ '': '' @ err_text err)"

definition RedisRepository_Load :: "'w snapshot_redis \<Rightarrow> redis_repository \<Rightarrow> 'w \<Rightarrow> snapshot result \<times> 'w" where
  "RedisRepository_Load r p w =
     (case sr_get r (rx_snapshot p) w of
        (Inl err, w') \<Rightarrow> (Inl (persistence_error ''load redis snapshot'' err), w')
      | (Inr None, w') \<Rightarrow> (Inl (sentinel_error ErrNoSnapshot), w')
      | (Inr (Some payload), w') \<Rightarrow>
          ((case sr_decode r payload of
              Inl err \<Rightarrow> Inl (persistence_error ''decode redis snapshot'' err)
            | Inr (version, state) \<Rightarrow>
                if version \<noteq> snapshotVersion then
                  Inl (wrap_error ErrPersistenceFailure (''unsupported snapshot version '' @ quoted version))
                else Inr state), w'))"

definition RedisRepository_Save :: "'w snapshot_redis \<Rightarrow> redis_repository \<Rightarrow> snapshot \<Rightarrow> 'w \<Rightarrow> unit result \<times> 'w" where
  "RedisRepository_Save r p sn w =
     (case sr_encode r (snapshotVersion, sn) of
        Inl err \<Rightarrow> (Inl (persistence_error ''encode redis snapshot'' err), w)
      | Inr payload \<Rightarrow>
          (case sr_set r (rx_snapshot p) payload w of
             (Inl err, w') \<Rightarrow> (Inl (persistence_error ''save redis snapshot'' err), w')
           | (Inr _, w') \<Rightarrow>
               (case sr_publish r (rx_channel p) ''changed'' w' of
                  (Inl err, w2) \<Rightarrow> (Inl (persistence_error ''publish redis change'' err), w2)
                | (Inr _, w2) \<Rightarrow> (Inr (), w2))))"

definition Changes :: "listeners \<Rightarrow> nat result \<times> listeners" where
  "Changes n =
     (if ls_closed n then (Inl (plain_error ''redis repository is closed''), n)
      else (Inr (ls_next n), n\<lparr>ls_waiting := ls_waiting n @ [(ls_next n, False)], ls_next := ls_next n + 1\<rparr>))"

text \<open>The context of a listener has ended: its channel is closed.\<close>

definition removeListener :: "nat \<Rightarrow> listeners \<Rightarrow> listeners" where
  "removeListener k n = n\<lparr>ls_waiting := filter (\<lambda>(j, _). j \<noteq> k) (ls_waiting n)\<rparr>"

text \<open>A message on the channel: every listener gets a signal, unless one waits already.\<close>

definition deliver :: "listeners \<Rightarrow> listeners" where
  "deliver n = n\<lparr>ls_waiting := map (\<lambda>(k, waits). (k, if waits then waits else True)) (ls_waiting n)\<rparr>"

text \<open>A listener takes its signal: none when nothing waits, an error value when the channel is closed.\<close>

definition take_signal :: "nat \<Rightarrow> listeners \<Rightarrow> bool option \<times> listeners" where
  "take_signal k n =
     (case map_of (ls_waiting n) k of
        None \<Rightarrow> (None, n)
      | Some waits \<Rightarrow> (Some waits, n\<lparr>ls_waiting := map (\<lambda>(j, b). (j, if j = k then False else b)) (ls_waiting n)\<rparr>))"

definition RedisRepository_Close :: "listeners \<Rightarrow> unit result \<times> listeners" where
  "RedisRepository_Close n = (Inr (), if ls_closed n then n else n\<lparr>ls_closed := True, ls_waiting := []\<rparr>)"

text \<open>The repository as the store sees it.\<close>

definition redis_repository_of :: "'w snapshot_redis \<Rightarrow> redis_repository \<Rightarrow> ('w \<times> listeners) repository" where
  "redis_repository_of r p =
     \<lparr>re_load = (\<lambda>(w, n). case RedisRepository_Load r p w of (res, w') \<Rightarrow> (res, (w', n))),
      re_save = (\<lambda>sn (w, n). case RedisRepository_Save r p sn w of (res, w') \<Rightarrow> (res, (w', n))),
      re_changes = (\<lambda>(w, n). case Changes n of (res, n') \<Rightarrow> (map_sum id (\<lambda>_. ()) res, (w, n'))),
      re_close = (\<lambda>(w, n). case RedisRepository_Close n of (res, n') \<Rightarrow> (res, (w, n')))\<rparr>"

section \<open>What the store relies on\<close>

locale snapshot_repository =
  fixes repo :: "'w repository" and saved :: "'w \<Rightarrow> snapshot option"
  assumes save_ok: "re_save repo sn w = (Inr (), w') \<Longrightarrow> saved w' = Some sn"
    and save_failed: "re_save repo sn w = (Inl e, w') \<Longrightarrow> saved w' = saved w \<or> saved w' = Some sn"
    and load_ok: "re_load repo w = (Inr sn, w') \<Longrightarrow> saved w = Some sn \<and> saved w' = saved w"
    and load_failed: "re_load repo w = (Inl e, w') \<Longrightarrow> saved w' = saved w"
begin

lemma persisted:
  assumes "en_repository env = Some repo" "persistLocked env (st, w) = (Inr u, (st', w'))"
  shows "st' = st \<and> saved w' = Some (snapshotLocked st)"
  using assms save_ok [of "snapshotLocked st" w] by (auto simp: persistLocked_def split: prod.splits sum.splits)

lemma reloaded:
  assumes "en_repository env = Some repo" "saved w = Some (snapshotLocked st)" "store_ok st"
    and "watcher_reload env (st2, w) = (st3, w3)"
  shows "saved w3 = saved w \<and> (st3 = st2 \<or>
    st3 = restoreLocked (snapshotLocked st) \<and> (\<forall>k. lookup (st_identities st3) k = lookup (st_identities st) k))"
  using assms load_ok [of w] load_failed [of w] lookup_restored [OF assms(3)]
  by (auto simp: watcher_reload_def split: prod.splits sum.splits)

end

section \<open>Documented Redis\<close>

text \<open>
  \<open>kv\<close> reads the keys of the server. A command that fails may have taken effect; only SET changes a key; what was
  encoded decodes to itself.
\<close>

locale documented_redis =
  fixes r :: "'w snapshot_redis" and kv :: "'w \<Rightarrow> string \<Rightarrow> string option" and p :: redis_repository
  assumes get: "sr_get r key w = (res, w') \<Longrightarrow> kv w' = kv w \<and> (\<forall>x. res = Inr x \<longrightarrow> x = kv w key)"
    and set_ok: "sr_set r key t w = (Inr u, w') \<Longrightarrow> kv w' = (kv w)(key \<mapsto> t)"
    and set_failed: "sr_set r key t w = (Inl e, w') \<Longrightarrow> kv w' = kv w \<or> kv w' = (kv w)(key \<mapsto> t)"
    and publish: "sr_publish r ch t w = (res2, w') \<Longrightarrow> kv w' = kv w"
    and codec: "sr_encode r x = Inr t \<Longrightarrow> sr_decode r t = Inr x"
begin

definition current :: "'w \<times> listeners \<Rightarrow> snapshot option" where
  "current s = (case kv (fst s) (rx_snapshot p) of None \<Rightarrow> None | Some t \<Rightarrow>
     (case sr_decode r t of Inl _ \<Rightarrow> None | Inr (version, sn) \<Rightarrow> if version = snapshotVersion then Some sn else None))"

lemma save_effect:
  assumes "RedisRepository_Save r p sn w = (res, w')"
  shows "(kv w' = kv w \<or> (\<exists>t. sr_decode r t = Inr (snapshotVersion, sn) \<and> kv w' = (kv w)(rx_snapshot p \<mapsto> t))) \<and>
    (res = Inr () \<longrightarrow> current (w', n) = Some sn)"
proof (cases "sr_encode r (snapshotVersion, sn)")
  case (Inl e)
  then show ?thesis using assms by (auto simp: RedisRepository_Save_def)
next
  case (Inr t)
  have d: "sr_decode r t = Inr (snapshotVersion, sn)" using codec [OF Inr] .
  obtain r1 w1 where s: "sr_set r (rx_snapshot p) t w = (r1, w1)" by (rule prod.exhaust)
  obtain r2 w2 where b: "sr_publish r (rx_channel p) ''changed'' w1 = (r2, w2)" by (rule prod.exhaust)
  have k2: "kv w2 = kv w1" using publish [OF b] .
  show ?thesis
  proof (cases r1)
    case (Inl e)
    then show ?thesis using assms Inr s set_failed [of "rx_snapshot p" t w e w1] d
      by (auto simp: RedisRepository_Save_def)
  next
    case i: (Inr u)
    have k1: "kv w1 = (kv w)(rx_snapshot p \<mapsto> t)" using set_ok s i by blast
    have w': "w' = w2" using assms Inr s i b by (auto simp: RedisRepository_Save_def split: sum.splits)
    show ?thesis using d k1 k2 w' by (auto simp: current_def)
  qed
qed

lemma load_effect:
  assumes "RedisRepository_Load r p w = (res, w')"
  shows "kv w' = kv w \<and> (\<forall>sn. res = Inr sn \<longrightarrow> current (w, n) = Some sn)"
proof -
  obtain g w1 where g: "sr_get r (rx_snapshot p) w = (g, w1)" by (rule prod.exhaust)
  show ?thesis using assms get [OF g]
    by (auto simp: RedisRepository_Load_def g current_def split: sum.splits option.splits if_splits prod.splits)
qed

lemma current_kv: "kv w' = kv w \<Longrightarrow> current (w', n') = current (w, n)"
  by (simp add: current_def)

end

sublocale documented_redis \<subseteq> redis_snapshots: snapshot_repository "redis_repository_of r p" current
proof
  fix sn s s' e
  assume "re_save (redis_repository_of r p) sn s = (Inr (), s')"
  then show "current s' = Some sn"
    using save_effect by (cases s) (auto simp: redis_repository_of_def split: prod.splits)
next
  fix sn s s' e
  assume f: "re_save (redis_repository_of r p) sn s = (Inl e, s')"
  obtain w n where s: "s = (w, n)" by (rule prod.exhaust)
  obtain w' where "RedisRepository_Save r p sn w = (Inl e, w')" "s' = (w', n)"
    using f by (auto simp: redis_repository_of_def s split: prod.splits)
  then show "current s' = current s \<or> current s' = Some sn"
    using save_effect [of sn w "Inl e" w'] by (auto simp: s current_def)
next
  fix s s' sn
  assume f: "re_load (redis_repository_of r p) s = (Inr sn, s')"
  obtain w n where s: "s = (w, n)" by (rule prod.exhaust)
  obtain w' where "RedisRepository_Load r p w = (Inr sn, w')" "s' = (w', n)"
    using f by (auto simp: redis_repository_of_def s split: prod.splits)
  then show "current s = Some sn \<and> current s' = current s"
    using load_effect [of w "Inr sn" w' n] current_kv [of w' w n n] by (simp add: s)
next
  fix s s' e
  assume f: "re_load (redis_repository_of r p) s = (Inl e, s')"
  obtain w n where s: "s = (w, n)" by (rule prod.exhaust)
  obtain w' where "RedisRepository_Load r p w = (Inl e, w')" "s' = (w', n)"
    using f by (auto simp: redis_repository_of_def s split: prod.splits)
  then show "current s' = current s"
    using load_effect [of w "Inl e" w' n] current_kv [of w' w n n] by (simp add: s)
qed

context documented_redis begin

lemma restarts:
  assumes "store_ok st" and "en_repository env = Some (redis_repository_of r p)"
    and "persistLocked env (st, s) = (Inr u, (st', s'))"
    and "re_load (redis_repository_of r p) s' = (Inr sn, s2)"
  shows "st' = st \<and> sn = snapshotLocked st"
  using redis_snapshots.persisted [OF assms(2,3)] redis_snapshots.load_ok [OF assms(4)] by simp

lemma other_kept:
  assumes "RedisRepository_Save r p sn w = (res, w')" and "key \<noteq> rx_snapshot p"
  shows "kv w' key = kv w key"
  using save_effect [OF assms(1), of no_listeners, THEN conjunct1] assms(2) by auto

end

section \<open>Properties\<close>


text \<open>
  Environments with different prefixes do not share a snapshot: saving one leaves what the other loads as it is.
\<close>

theorem environments_apart:
  assumes "documented_redis r kv" and "NewRedisRepository True x = Inr (p, n)" and "NewRedisRepository True y = Inr (q, m)"
    and "rx_prefix p \<noteq> rx_prefix q" and "RedisRepository_Save r p sn w = (res, w')"
  shows "kv w' (rx_snapshot q) = kv w (rx_snapshot q)"
proof -
  have "rx_snapshot p = rx_prefix p @ '':snapshot''" "rx_snapshot q = rx_prefix q @ '':snapshot''"
    using assms(2,3) by (auto simp: NewRedisRepository_def Let_def split: if_splits)
  then have "rx_snapshot q \<noteq> rx_snapshot p" using assms(4) by simp
  then show ?thesis by (rule documented_redis.other_kept [OF assms(1,5)])
qed


section \<open>A server for the witnesses\<close>

type_synonym kv_world = "string gomap"

definition kv_snapshots :: "kv_world snapshot_redis" where
  "kv_snapshots = \<lparr>sr_get = (\<lambda>key w. (Inr (lookup w key), w)), sr_set = (\<lambda>key t w. (Inr (), put key t w)),
     sr_publish = (\<lambda>ch t w. (Inr (), w)),
     sr_encode = (\<lambda>x. if x = (snapshotVersion, snapshotLocked sample_store) then Inr ''S'' else Inl (plain_error ''too large'')),
     sr_decode = (\<lambda>t. if t = ''S'' then Inr (snapshotVersion, snapshotLocked sample_store) else Inl (plain_error ''bad''))\<rparr>"

interpretation kv: documented_redis kv_snapshots lookup p for p
  by unfold_locales (auto simp: kv_snapshots_def fun_eq_iff split: if_splits)

definition live :: redis_repository where
  "live = \<lparr>rx_prefix = ''mutandae:live'', rx_snapshot = ''mutandae:live:snapshot'', rx_channel = ''mutandae:live:changes''\<rparr>"

definition live_env :: "(kv_world \<times> listeners) env" where
  "live_env = \<lparr>en_adapter = \<lparr>ad_kind = ''aws'', ad_discover = (\<lambda>w. (Inr [], w)), ad_rotate = (\<lambda>i w. (Inr i, w)),
       ad_retire = (\<lambda>i w. (Inr i, w)), ad_identity_planner = None, ad_planner = None, ad_create = None,
       ad_vault = None, ad_secretor = None\<rparr>,
     en_common_vault = None, en_repository = Some (redis_repository_of kv_snapshots live), en_audit = None, en_logger = None\<rparr>"


theorem environments_apart_witness:
  "\<exists>p n q m. NewRedisRepository True '' mutandae:live: '' = Inr (p, n) \<and> NewRedisRepository True ''mutandae:preview'' = Inr (q, m) \<and>
     lookup (snd (RedisRepository_Save kv_snapshots p (snapshotLocked sample_store) [(''mutandae:preview:snapshot'', ''P'')]))
       (rx_snapshot q) = Some ''P''"
proof -
  obtain p n q m where p: "NewRedisRepository True '' mutandae:live: '' = Inr (p, n)" "rx_prefix p = ''mutandae:live''"
    and q: "NewRedisRepository True ''mutandae:preview'' = Inr (q, m)" "rx_prefix q = ''mutandae:preview''"
    "rx_snapshot q = ''mutandae:preview:snapshot''"
  proof -
    have "trim_suffix1 CHR '':'' (trim_space '' mutandae:live: '') = ''mutandae:live''"
      "trim_suffix1 CHR '':'' (trim_space ''mutandae:preview'') = ''mutandae:preview''" by code_simp+
    with that show thesis by (simp add: NewRedisRepository_def)
  qed
  have d: "rx_prefix p \<noteq> rx_prefix q" by (simp add: p q)
  obtain res w' where s: "RedisRepository_Save kv_snapshots p (snapshotLocked sample_store)
      [(''mutandae:preview:snapshot'', ''P'')] = (res, w')" by (rule prod.exhaust)
  from environments_apart [OF kv.documented_redis_axioms p(1) q(1) d s] p q s show ?thesis by simp
qed


end
