(* ===== verification/HashiVault.thy ===== *)
theory HashiVault
  imports Rest Calendar Encoding Adapter Scope
begin

text \<open>
  The HashiCorp Vault KV v2 client of internal/provider/hashicorpvault.go, the vault of the cluster that the
  store knows as its common vault. The network is the record \<open>hashi_net\<close>: the context's error, the clock, the
  exchange of a request, the reading of a
  reply's body up to a megabyte, the decoders of encoding/json and net/url.
\<close>

section \<open>Configuration\<close>

definition vaultErrorDetailMax :: nat where "vaultErrorDetailMax = 200"
definition vaultSegmentMax :: nat where "vaultSegmentMax = 63"
definition vaultDefaultTTL :: duration where "vaultDefaultTTL = 24 * hour"

record hashi_config =
  hc_addr :: string
  hc_token :: string
  hc_mount :: string
  hc_prefix :: string
  hc_ttl :: duration

record hashi_vault =
  hv_addr :: string
  hv_token :: string
  hv_mount :: string
  hv_prefix :: string
  hv_ttl :: duration

text \<open>A parsed address: scheme, host, and whether it has credentials, a query or a fragment.\<close>

record hashi_url =
  hu_scheme :: string
  hu_host :: string
  hu_has_user :: bool
  hu_raw_query :: string
  hu_fragment :: string

text \<open>
  What a read decodes to: the fields of the payload, each the text it decodes to as a string or an error; the
  version; whether that version is destroyed.
\<close>

record hashi_read =
  hr_fields :: "string result gomap"
  hr_version :: int
  hr_destroyed :: bool

record 'w hashi_net =
  hn_context :: "'w \<Rightarrow> go_error option"
  hn_clock :: "'w \<Rightarrow> time \<times> 'w"
  hn_send :: "http_request \<Rightarrow> 'w \<Rightarrow> http_reply result \<times> 'w"
  hn_body :: "http_reply \<Rightarrow> 'w \<Rightarrow> string result \<times> 'w"
  hn_parse_url :: "string \<Rightarrow> hashi_url result"
  hn_stored_version :: "string \<Rightarrow> int result"
  hn_read :: "string \<Rightarrow> hashi_read result"
  hn_errors :: "string \<Rightarrow> string list result"

definition segment_char :: "char \<Rightarrow> bool" where
  "segment_char c \<longleftrightarrow> (let n = (of_char c :: nat) in
     97 \<le> n \<and> n \<le> 122 \<or> 65 \<le> n \<and> n \<le> 90 \<or> 48 \<le> n \<and> n \<le> 57 \<or> c = CHR ''_'' \<or> c = CHR ''-'')"

definition vaultSegmentAllowed :: "string \<Rightarrow> bool" where
  "vaultSegmentAllowed s \<longleftrightarrow> s \<noteq> [] \<and> length s \<le> 128 \<and> s \<noteq> ''.'' \<and> s \<noteq> ''..'' \<and>
     list_all (\<lambda>c. segment_char c \<or> c = CHR ''.'') s"

definition vaultPrefixAllowed :: "string \<Rightarrow> bool" where
  "vaultPrefixAllowed pre \<longleftrightarrow> pre \<noteq> [] \<and> length pre \<le> 512 \<and>
     list_all vaultSegmentAllowed (split_on CHR ''/'' pre)"

definition NewHashiCorpVault :: "'w hashi_net \<Rightarrow> hashi_config \<Rightarrow> hashi_vault result" where
  "NewHashiCorpVault net config =
     (let addr = rev (dropWhile (\<lambda>c. c = CHR ''/'') (rev (trim_space (hc_addr config)))) in
      case hn_parse_url net addr of
        Inl err \<Rightarrow> Inl (plain_error (''hashicorp vault: invalid addr: '' @ err_text err))
      | Inr parsed \<Rightarrow>
          if hu_scheme parsed = [] \<or> hu_host parsed = [] \<or> hu_has_user parsed \<or> hu_raw_query parsed \<noteq> [] \<or>
             hu_fragment parsed \<noteq> [] then
            Inl (plain_error (''hashicorp vault: invalid addr: '' @
              ''addr must be an absolute URL without credentials, query, or fragment''))
          else if hu_scheme parsed \<noteq> ''http'' \<and> hu_scheme parsed \<noteq> ''https'' then
            Inl (plain_error (''hashicorp vault: addr scheme '' @ quoted (hu_scheme parsed) @
              '' is not supported; use http or https''))
          else
            (let token = trim_space (hc_token config);
                 mount = (if hc_mount config = [] then ''secret'' else hc_mount config);
                 pre = (if hc_prefix config = [] then ''mutandae'' else hc_prefix config);
                 ttl = (if hc_ttl config \<le> 0 then vaultDefaultTTL else hc_ttl config) in
             if token = [] then Inl (plain_error ''hashicorp vault: token is required'')
             else if \<not> vaultSegmentAllowed mount then
               Inl (plain_error ''hashicorp vault: mount is not a valid path segment'')
             else if \<not> vaultPrefixAllowed pre then
               Inl (plain_error ''hashicorp vault: prefix is not a valid path prefix'')
             else Inr \<lparr>hv_addr = addr, hv_token = token, hv_mount = mount, hv_prefix = pre, hv_ttl = ttl\<rparr>))"

section \<open>Paths\<close>

definition trim_dashes :: "string \<Rightarrow> string" where
  "trim_dashes s = rev (dropWhile (\<lambda>c. c = CHR ''-'') (rev (dropWhile (\<lambda>c. c = CHR ''-'') s)))"

text \<open>A range over a string visits its characters, which may have several bytes: each outside the set becomes one dash.\<close>

function sanitize_runes :: "string \<Rightarrow> string" where
  "sanitize_runes [] = []"
| "sanitize_runes (c # s) =
     (if segment_char c then c # sanitize_runes s
      else CHR ''-'' # sanitize_runes (drop (max 1 (snd (decode_rune (c # s)))) (c # s)))"
  by pat_completeness auto
termination by (relation "measure length") auto

definition vaultSanitizeSegment :: "string \<Rightarrow> string" where
  "vaultSanitizeSegment v =
     (let sanitized = trim_dashes (sanitize_runes v) in
      if vaultSegmentMax < length sanitized then trim_dashes (take vaultSegmentMax sanitized) else sanitized)"

definition vaultPath :: "hashi_vault \<Rightarrow> machine_identity \<Rightarrow> string \<Rightarrow> (string \<times> string) result" where
  "vaultPath v identity keyID =
     (if \<not> isDemoName (mi_name identity) then
        Inl (plain_error (''hashicorp vault: refusing vault access outside the '' @ demoPrefix @ ''* namespace''))
      else
        (let name = vaultSanitizeSegment (mi_name identity) in
         if name = [] then
           Inl (plain_error ''hashicorp vault: demo identity name sanitizes to an empty path segment'')
         else Inr (hv_prefix v @ ''/'' @ name, if keyID = [] then ''current'' else keyID)))"

section \<open>Requests\<close>

definition hashi_secrets :: "hashi_vault \<Rightarrow> string \<Rightarrow> string list" where
  "hashi_secrets v secret = [secret, hv_token v]"

definition redactedString :: "hashi_vault \<Rightarrow> string \<Rightarrow> string \<Rightarrow> string" where
  "redactedString v t secret = redact_text (hashi_secrets v secret) t"

definition redactedError :: "hashi_vault \<Rightarrow> string \<Rightarrow> string \<Rightarrow> go_error" where
  "redactedError v t secret = plain_error (redactedString v t secret)"

definition vaultTruncate :: "string \<Rightarrow> string" where
  "vaultTruncate detail =
     (if length detail \<le> vaultErrorDetailMax then detail else take vaultErrorDetailMax detail @ ''...'')"

definition vaultErrorDetail :: "'w hashi_net \<Rightarrow> hashi_vault \<Rightarrow> string \<Rightarrow> string \<Rightarrow> string" where
  "vaultErrorDetail net v data secret =
     (case hn_errors net data of
        Inl _ \<Rightarrow> ''(response body withheld)''
      | Inr errors \<Rightarrow>
          if errors = [] then ''(response body withheld)''
          else vaultTruncate (redactedString v (join ''; '' errors) secret))"

definition apiError :: "'w hashi_net \<Rightarrow> hashi_vault \<Rightarrow> int \<Rightarrow> string \<Rightarrow> string \<Rightarrow> go_error" where
  "apiError net v status data secret =
     (if status = 404 then GoError [ErrVaultSecretNotFound] (sentinel_text ErrVaultSecretNotFound @ '' (HTTP 404)'')
      else if status = 501 \<or> status = 503 then
        plain_error (''Vault is sealed or unavailable (HTTP '' @ dec_int status @ '')'')
      else redactedError v (''HashiCorp Vault returned HTTP '' @ dec_int status @ '': '' @
        vaultErrorDetail net v data secret) secret)"

text \<open>
  A failure of the transport. \<open>ErrCanceled\<close> stands for both errors of a context that is done; such an error is
  wrapped, and its own text is appended as it is.
\<close>

definition transport_error :: "hashi_vault \<Rightarrow> string \<Rightarrow> string \<Rightarrow> go_error \<Rightarrow> go_error" where
  "transport_error v stage secret err =
     (let message = redactedString v (''hashicorp vault: '' @ stage @ err_text err) secret in
      if errors_is err ErrCanceled then GoError (err_wraps err) (message @ '': '' @ err_text err)
      else plain_error message)"

definition hashi_header :: "hashi_vault \<Rightarrow> request_body \<Rightarrow> (string \<times> string) list" where
  "hashi_header v payload = (''X-Vault-Token'', hv_token v) #
     (if payload = NoBody then [] else [(''Content-Type'', ''application/json'')])"

definition hashi_request ::
  "'w hashi_net \<Rightarrow> hashi_vault \<Rightarrow> (string \<Rightarrow> 'a result) \<Rightarrow> 'a \<Rightarrow> string \<Rightarrow> string \<Rightarrow> request_body \<Rightarrow> string
     \<Rightarrow> 'w \<Rightarrow> 'a result \<times> 'w" where
  "hashi_request net v decode zero method apiPath payload secret w =
     (case hn_context net w of
        Some err \<Rightarrow> (Inl err, w)
      | None \<Rightarrow>
          (case hn_send net \<lparr>hq_method = method, hq_url = hv_addr v @ ''/v1/'' @ apiPath, hq_headers = hashi_header v payload,
                  hq_body = payload\<rparr> w of
             (Inl err, w1) \<Rightarrow> (Inl (transport_error v ''request failed: '' secret err), w1)
           | (Inr reply, w1) \<Rightarrow>
               (case hn_body net reply w1 of
                  (Inl err, w2) \<Rightarrow> (Inl (transport_error v ''read response: '' secret err), w2)
                | (Inr body, w2) \<Rightarrow>
                    ((if \<not> success_status (hr_status reply) then Inl (apiError net v (hr_status reply) body secret)
                      else if body = [] then Inr zero
                      else case decode body of
                        Inl err \<Rightarrow> Inl (redactedError v (''hashicorp vault: decode response: '' @ err_text err) secret)
                      | Inr a \<Rightarrow> Inr a), w2))))"

section \<open>Store, read, revoke\<close>

definition vaultVersionString :: "int \<Rightarrow> string" where
  "vaultVersionString n = (if n \<le> 0 then [] else dec_int n)"

definition hashi_expiresAt :: "'w hashi_net \<Rightarrow> hashi_vault \<Rightarrow> 'w \<Rightarrow> time \<times> 'w" where
  "hashi_expiresAt net v w = (case hn_clock net w of (t, w') \<Rightarrow> (t + hv_ttl v, w'))"

definition hashi_reference :: "'w hashi_net \<Rightarrow> hashi_vault \<Rightarrow> string \<Rightarrow> int \<Rightarrow> 'w \<Rightarrow> vault_reference \<times> 'w" where
  "hashi_reference net v path version w =
     (case hashi_expiresAt net v w of (t, w') \<Rightarrow>
       (\<lparr>vr_url = hv_addr v, vr_secret_name = hv_mount v @ ''/'' @ path, vr_version = vaultVersionString version,
         vr_expires_at = t, vr_owner_object_ids = []\<rparr>, w'))"

text \<open>The context is looked at before anything else, and again by the request.\<close>

definition when_live :: "'w hashi_net \<Rightarrow> ('w \<Rightarrow> 'a result \<times> 'w) \<Rightarrow> 'w \<Rightarrow> 'a result \<times> 'w" where
  "when_live net m w = (case hn_context net w of Some err \<Rightarrow> (Inl err, w) | None \<Rightarrow> m w)"

definition store_payload :: "machine_identity \<Rightarrow> string \<Rightarrow> string \<Rightarrow> time \<Rightarrow> request_body" where
  "store_payload identity keyID secret now = JsonBody (JObject [(''data'', JObject [(''identity'', JString (mi_name identity)),
     (''key_id'', JString keyID), (''provider'', JString (pb_provider (mi_provider identity))),
     (''secret'', JString secret), (''stored_at'', JString (rfc3339 now))])])"

definition HashiVault_StoreSecret ::
  "'w hashi_net \<Rightarrow> hashi_vault \<Rightarrow> machine_identity \<Rightarrow> string \<Rightarrow> string \<Rightarrow> 'w \<Rightarrow> vault_reference result \<times> 'w" where
  "HashiVault_StoreSecret net v identity keyID secret =
     when_live net (\<lambda>w. case vaultPath v identity keyID of
        Inl err \<Rightarrow> (Inl err, w)
      | Inr (path, effective) \<Rightarrow>
          (case hn_clock net w of (now, w1) \<Rightarrow>
           case hashi_request net v (hn_stored_version net) 0 ''POST'' (hv_mount v @ ''/data/'' @ path)
                  (store_payload identity effective secret now) secret w1 of
             (Inl err, w2) \<Rightarrow> (Inl err, w2)
           | (Inr version, w2) \<Rightarrow> (case hashi_reference net v path version w2 of (ref, w3) \<Rightarrow> (Inr ref, w3))))"

text \<open>strconv.Atoi accepts a sign and digits in the range of int64.\<close>

definition atoi_ok :: "string \<Rightarrow> bool" where
  "atoi_ok s =
     (let neg = (s \<noteq> [] \<and> hd s = CHR ''-''); digits = (if s \<noteq> [] \<and> hd s \<in> {CHR ''-'', CHR ''+''} then tl s else s) in
      digits \<noteq> [] \<and> list_all is_digit digits \<and>
      (if neg then int (dec_val digits) \<le> 2 ^ 63 else int (dec_val digits) \<le> max_int64))"

text \<open>What a read does with the reply.\<close>

definition finish_read ::
  "'w hashi_net \<Rightarrow> hashi_vault \<Rightarrow> string \<Rightarrow> hashi_read result \<times> 'w \<Rightarrow> (string \<times> vault_reference) result \<times> 'w" where
  "finish_read net v path r = (case r of
     (Inl err, w1) \<Rightarrow> (Inl err, w1)
   | (Inr read, w1) \<Rightarrow>
       if hr_destroyed read then (Inl (wrap_error ErrVaultSecretNotFound ''version is destroyed''), w1)
       else case lookup (hr_fields read) ''secret'' of
         None \<Rightarrow> (Inl (plain_error ''hashicorp vault: response contains no secret value''), w1)
       | Some (Inl _) \<Rightarrow> (Inl (plain_error ''hashicorp vault: response secret value is malformed''), w1)
       | Some (Inr val) \<Rightarrow> (case hashi_reference net v path (hr_version read) w1 of (ref, w2) \<Rightarrow> (Inr (val, ref), w2)))"

definition HashiVault_ReadSecret ::
  "'w hashi_net \<Rightarrow> hashi_vault \<Rightarrow> machine_identity \<Rightarrow> string \<Rightarrow> string \<Rightarrow> 'w \<Rightarrow> (string \<times> vault_reference) result \<times> 'w" where
  "HashiVault_ReadSecret net v identity keyID version =
     when_live net (\<lambda>w. case vaultPath v identity keyID of
        Inl err \<Rightarrow> (Inl err, w)
      | Inr (path, _) \<Rightarrow>
          (let pinned = version \<notin> {[], ''current'', ''latest''} in
           if pinned \<and> \<not> atoi_ok version then (Inl (plain_error ''hashicorp vault: secret version is invalid''), w)
           else finish_read net v path
             (hashi_request net v (hn_read net) \<lparr>hr_fields = [], hr_version = 0, hr_destroyed = False\<rparr> ''GET''
                (hv_mount v @ ''/data/'' @ path @ (if pinned then ''?version='' @ query_escape version else [])) NoBody [] w)))"

definition HashiVault_RevokeSecret ::
  "'w hashi_net \<Rightarrow> hashi_vault \<Rightarrow> machine_identity \<Rightarrow> string \<Rightarrow> 'w \<Rightarrow> vault_reference result \<times> 'w" where
  "HashiVault_RevokeSecret net v identity keyID =
     when_live net (\<lambda>w. case vaultPath v identity keyID of
        Inl err \<Rightarrow> (Inl err, w)
      | Inr (path, _) \<Rightarrow>
          (let gone = \<lparr>vr_url = hv_addr v, vr_secret_name = hv_mount v @ ''/'' @ path, vr_version = [], vr_expires_at = 0,
             vr_owner_object_ids = []\<rparr> in
           case hashi_request net v (\<lambda>_. Inr ()) () ''DELETE'' (hv_mount v @ ''/metadata/'' @ path) NoBody [] w of
             (Inl err, w1) \<Rightarrow> if errors_is err ErrVaultSecretNotFound then (Inr gone, w1) else (Inl err, w1)
           | (Inr _, w1) \<Rightarrow> (Inr gone, w1)))"

text \<open>The vault as the store's common vault.\<close>

definition hashi_common_vault :: "'w hashi_net \<Rightarrow> hashi_vault \<Rightarrow> 'w vault" where
  "hashi_common_vault net v = \<lparr>va_store = HashiVault_StoreSecret net v, va_read = HashiVault_ReadSecret net v,
     va_revoke = HashiVault_RevokeSecret net v\<rparr>"

end
