(* ===== verification/HashiVaultProperties.thy ===== *)
theory HashiVaultProperties
  imports HashiVault
begin

text \<open>
  What the client of the common vault guarantees: every request it sends is about one safe path segment that
  starts with the demo namespace, distinct safe names have distinct secrets, no error of an operation shows the
  secret or the token, and revoking a secret that is gone succeeds.
\<close>

section \<open>Paths\<close>

definition is_dash :: "char \<Rightarrow> bool" where "is_dash c \<longleftrightarrow> c = CHR ''-''"

lemma trim_dashes_eq: "trim_dashes s = rev (dropWhile is_dash (rev (dropWhile is_dash s)))"
  by (simp add: trim_dashes_def is_dash_def [abs_def])

lemma trim_dashes_chars: "list_all P s \<Longrightarrow> list_all P (trim_dashes s)"
  by (auto simp: trim_dashes_eq list_all_iff dest!: set_dropWhileD)

lemma sanitize_chars: "list_all segment_char (sanitize_runes s)"
  by (induction s rule: sanitize_runes.induct) (auto simp: segment_char_def)

lemma sanitize_same: "list_all segment_char s \<Longrightarrow> sanitize_runes (s @ t) = s @ sanitize_runes t"
  by (induction s) auto

lemma segment_chars: "list_all segment_char (vaultSanitizeSegment s)"
proof -
  have "list_all segment_char (trim_dashes (sanitize_runes s))" by (rule trim_dashes_chars [OF sanitize_chars])
  moreover from this have "list_all segment_char (take vaultSegmentMax (trim_dashes (sanitize_runes s)))"
    by (simp add: list_all_length)
  ultimately show ?thesis by (simp add: vaultSanitizeSegment_def Let_def trim_dashes_chars)
qed

lemma trim_keeps_prefix:
  assumes "has_prefix s p" "p \<noteq> []" "\<not> is_dash (hd p)" "\<not> is_dash (last p)"
  shows "has_prefix (trim_dashes s) p"
proof -
  obtain t where s: "s = p @ t" using assms(1) by (auto simp: has_prefix_iff)
  have "dropWhile is_dash s = s" using assms(2,3) s by (cases p) simp_all
  moreover obtain q c where q: "rev p = c # q" "\<not> is_dash c"
    using assms(2,4) by (metis hd_rev list.exhaust list.sel(1) rev_is_Nil_conv)
  have "dropWhile is_dash (us @ rev p) = dropWhile is_dash us @ rev p" for us
    by (induction us) (simp_all add: q)
  ultimately show ?thesis by (simp add: trim_dashes_eq s has_prefix_iff)
qed

definition demoStem :: string where "demoStem = ''mutandae-demo''"

lemma demo_segment_prefix:
  assumes "isDemoName name"
  shows "has_prefix (vaultSanitizeSegment name) demoStem"
proof -
  obtain t where t: "name = (demoStem @ ''-'') @ t"
    using assms by (auto simp: isDemoName_def has_prefix_iff demoPrefix_def demoStem_def)
  have safe: "list_all segment_char (demoStem @ ''-'')" by (simp add: demoStem_def segment_char_def)
  have stem: "demoStem \<noteq> []" "\<not> is_dash (hd demoStem)" "\<not> is_dash (last demoStem)" "length demoStem \<le> vaultSegmentMax"
    by (simp_all add: demoStem_def is_dash_def vaultSegmentMax_def)
  have "has_prefix (sanitize_runes name) demoStem"
    using sanitize_same [OF safe, of t] by (simp add: t has_prefix_iff)
  then have p: "has_prefix (trim_dashes (sanitize_runes name)) demoStem" by (rule trim_keeps_prefix [OF _ stem(1-3)])
  then have "has_prefix (take vaultSegmentMax (trim_dashes (sanitize_runes name))) demoStem"
    using stem(4) by (auto simp: has_prefix_iff)
  with p show ?thesis using trim_keeps_prefix [OF _ stem(1-3)] by (simp add: vaultSanitizeSegment_def Let_def)
qed

definition safe_name :: "string \<Rightarrow> bool" where
  "safe_name s \<longleftrightarrow> isDemoName s \<and> list_all segment_char s \<and> length s \<le> vaultSegmentMax \<and> \<not> is_dash (last s)"

lemma safe_name_kept:
  assumes "safe_name s"
  shows "vaultSanitizeSegment s = s"
proof -
  have s: "list_all segment_char s" "length s \<le> vaultSegmentMax" "\<not> is_dash (last s)" "s \<noteq> []" "\<not> is_dash (hd s)"
    using assms by (auto simp: safe_name_def isDemoName_def has_prefix_iff demoPrefix_def is_dash_def)
  have "trim_dashes s = s" using trim_keeps_prefix [of s s] s(3-5)
    by (metis append.right_neutral append_eq_append_conv has_prefix_iff length_dropWhile_le length_rev
        append_self_conv trim_dashes_eq le_antisym length_append le_add1 order_trans)
  then show ?thesis using s(1,2) sanitize_same [of s "[]"] by (simp add: vaultSanitizeSegment_def)
qed

lemma vaultPath_Inr:
  assumes "vaultPath v identity keyID = Inr (p, k)"
  shows "isDemoName (mi_name identity)" "p = hv_prefix v @ ''/'' @ vaultSanitizeSegment (mi_name identity)"
  using assms by (auto simp: vaultPath_def Let_def split: if_splits)

section \<open>What is sent\<close>

text \<open>The network with a record of the requests it was given.\<close>

definition hashi_recorded :: "'w hashi_net \<Rightarrow> ('w \<times> http_request list) hashi_net" where
  "hashi_recorded net =
     \<lparr>hn_context = \<lambda>(w, qs). hn_context net w,
      hn_clock = \<lambda>(w, qs). (case hn_clock net w of (t, w') \<Rightarrow> (t, (w', qs))),
      hn_send = \<lambda>q (w, qs). (case hn_send net q w of (r, w') \<Rightarrow> (r, (w', qs @ [q]))),
      hn_body = \<lambda>reply (w, qs). (case hn_body net reply w of (r, w') \<Rightarrow> (r, (w', qs))),
      hn_parse_url = hn_parse_url net, hn_stored_version = hn_stored_version net, hn_read = hn_read net,
      hn_errors = hn_errors net\<rparr>"

datatype vault_call =
    StoreCall machine_identity string string
  | ReadCall machine_identity string string
  | RevokeCall machine_identity string

fun call_identity :: "vault_call \<Rightarrow> machine_identity" where
  "call_identity (StoreCall i k s) = i"
| "call_identity (ReadCall i k n) = i"
| "call_identity (RevokeCall i k) = i"

definition call_outcome :: "'a result \<times> 'w \<Rightarrow> go_error option \<times> 'w" where
  "call_outcome r = ((case fst r of Inl err \<Rightarrow> Some err | Inr _ \<Rightarrow> None), snd r)"

fun call_vault :: "'w vault \<Rightarrow> vault_call \<Rightarrow> 'w \<Rightarrow> go_error option \<times> 'w" where
  "call_vault va (StoreCall i k s) w = call_outcome (va_store va i k s w)"
| "call_vault va (ReadCall i k n) w = call_outcome (va_read va i k n w)"
| "call_vault va (RevokeCall i k) w = call_outcome (va_revoke va i k w)"

definition secret_url :: "hashi_vault \<Rightarrow> string \<Rightarrow> string \<Rightarrow> string" where
  "secret_url v area seg = hv_addr v @ ''/v1/'' @ hv_mount v @ area @ hv_prefix v @ ''/'' @ seg"

definition concerns_secret :: "hashi_vault \<Rightarrow> string \<Rightarrow> http_request \<Rightarrow> bool" where
  "concerns_secret v seg q \<longleftrightarrow>
     hq_method q = ''POST'' \<and> hq_url q = secret_url v ''/data/'' seg \<or>
     hq_method q = ''GET'' \<and> hq_url q = secret_url v ''/data/'' seg \<or>
     hq_method q = ''GET'' \<and> has_prefix (hq_url q) (secret_url v ''/data/'' seg @ ''?version='') \<or>
     hq_method q = ''DELETE'' \<and> hq_url q = secret_url v ''/metadata/'' seg"

locale vault_traffic =
  fixes net :: "'w hashi_net" and v :: hashi_vault and I :: "'w \<Rightarrow> bool" and name :: string
  assumes clock: "I w \<Longrightarrow> I (snd (hn_clock net w))"
    and body: "I w \<Longrightarrow> I (snd (hn_body net reply w))"
    and sends: "I w \<Longrightarrow> isDemoName name \<Longrightarrow> concerns_secret v (vaultSanitizeSegment name) q \<Longrightarrow> I (snd (hn_send net q w))"
begin

lemma request_kept:
  assumes "I w" "isDemoName name"
    and "\<And>h b. concerns_secret v (vaultSanitizeSegment name) \<lparr>hq_method = verb, hq_url = hv_addr v @ ''/v1/'' @ path, hq_headers = h, hq_body = b\<rparr>"
  shows "I (snd (hashi_request net v decode zero verb path payload secret w))"
proof (cases "hn_context net w")
  case None
  let ?q = "\<lparr>hq_method = verb, hq_url = hv_addr v @ ''/v1/'' @ path, hq_headers = hashi_header v payload, hq_body = payload\<rparr>"
  obtain r w1 where send: "hn_send net ?q w = (r, w1)" by (rule prod.exhaust)
  have "I w1" using sends [OF assms(1,2), of ?q] assms(3) send by simp
  moreover from this have "hn_body net reply w1 = (b, w2) \<Longrightarrow> I w2" for reply b w2 using body [of w1 reply] by simp
  ultimately show ?thesis using None send by (simp add: hashi_request_def split: sum.split prod.split)
qed (simp add: hashi_request_def assms)

lemma reference_kept: "I w \<Longrightarrow> I (snd (hashi_reference net v path n w))"
  using clock [of w] by (simp add: hashi_reference_def hashi_expiresAt_def case_prod_beta)

lemma store_kept:
  assumes "I w" "mi_name i = name"
  shows "I (snd (HashiVault_StoreSecret net v i k s w))"
proof (cases "hn_context net w")
  case live: None
  show ?thesis
  proof (cases "vaultPath v i k")
    case (Inr pk)
    obtain path key where pk: "pk = (path, key)" by (rule prod.exhaust)
    have demo: "isDemoName name" "path = hv_prefix v @ ''/'' @ vaultSanitizeSegment name"
      using vaultPath_Inr Inr pk assms(2) by blast+
    obtain now w1 where c: "hn_clock net w = (now, w1)" by (rule prod.exhaust)
    have "I w1" using clock [OF assms(1)] c by simp
    obtain r w2 where q: "hashi_request net v (hn_stored_version net) 0 ''POST'' (hv_mount v @ ''/data/'' @ path)
        (store_payload i key s now) s w1 = (r, w2)" by (rule prod.exhaust)
    have "I (snd (hashi_request net v (hn_stored_version net) 0 ''POST'' (hv_mount v @ ''/data/'' @ path)
        (store_payload i key s now) s w1))"
      by (rule request_kept [OF \<open>I w1\<close> demo(1)]) (simp add: demo(2) concerns_secret_def secret_url_def)
    then have "I w2" using q by simp
    then have "hashi_reference net v path m w2 = (ref, w3) \<Longrightarrow> I w3" for m ref w3
      using reference_kept [of w2 path m] by simp
    then show ?thesis using live Inr pk c q \<open>I w2\<close>
      by (simp add: HashiVault_StoreSecret_def when_live_def split: sum.split prod.split)
  qed (simp add: HashiVault_StoreSecret_def when_live_def live assms)
qed (simp add: HashiVault_StoreSecret_def when_live_def assms)

lemma read_kept:
  assumes "I w" "mi_name i = name"
  shows "I (snd (HashiVault_ReadSecret net v i k n w))"
proof (cases "hn_context net w")
  case live: None
  show ?thesis
  proof (cases "vaultPath v i k")
    case (Inr pk)
    obtain path key where pk: "pk = (path, key)" by (rule prod.exhaust)
    have demo: "isDemoName name" "path = hv_prefix v @ ''/'' @ vaultSanitizeSegment name"
      using vaultPath_Inr Inr pk assms(2) by blast+
    define query where "query = (if n \<notin> {[], ''current'', ''latest''} then ''?version='' @ query_escape n else [])"
    obtain r w1 where q: "hashi_request net v (hn_read net) \<lparr>hr_fields = [], hr_version = 0, hr_destroyed = False\<rparr> ''GET''
        (hv_mount v @ ''/data/'' @ path @ query) NoBody [] w = (r, w1)" by (rule prod.exhaust)
    have "I (snd (hashi_request net v (hn_read net) \<lparr>hr_fields = [], hr_version = 0, hr_destroyed = False\<rparr> ''GET''
        (hv_mount v @ ''/data/'' @ path @ query) NoBody [] w))"
      by (rule request_kept [OF assms(1) demo(1)])
        (simp add: demo(2) concerns_secret_def secret_url_def query_def has_prefix_iff)
    then have "I w1" using q by simp
    then have ref: "hashi_reference net v path m w1 = (ref, w3) \<Longrightarrow> I w3" for m ref w3
      using reference_kept [of w1 path m] by simp
    have "HashiVault_ReadSecret net v i k n w =
        (if n \<notin> {[], ''current'', ''latest''} \<and> \<not> atoi_ok n then (Inl (plain_error ''hashicorp vault: secret version is invalid''), w)
         else finish_read net v path (r, w1))"
      using live Inr pk q
      by (simp only: HashiVault_ReadSecret_def when_live_def query_def Let_def sum.case prod.case option.case finish_read_def)
    then show ?thesis using \<open>I w1\<close> ref assms(1)
      by (simp add: finish_read_def split: sum.split prod.split option.split)
  qed (simp add: HashiVault_ReadSecret_def when_live_def live assms)
qed (simp add: HashiVault_ReadSecret_def when_live_def assms)

lemma revoke_kept:
  assumes "I w" "mi_name i = name"
  shows "I (snd (HashiVault_RevokeSecret net v i k w))"
proof (cases "hn_context net w")
  case live: None
  show ?thesis
  proof (cases "vaultPath v i k")
    case (Inr pk)
    obtain path key where pk: "pk = (path, key)" by (rule prod.exhaust)
    have demo: "isDemoName name" "path = hv_prefix v @ ''/'' @ vaultSanitizeSegment name"
      using vaultPath_Inr Inr pk assms(2) by blast+
    have "I (snd (hashi_request net v (\<lambda>_. Inr ()) () ''DELETE'' (hv_mount v @ ''/metadata/'' @ path) NoBody [] w))"
      by (rule request_kept [OF assms(1) demo(1)]) (simp add: demo(2) concerns_secret_def secret_url_def)
    moreover obtain r w1 where "hashi_request net v (\<lambda>_. Inr ()) () ''DELETE'' (hv_mount v @ ''/metadata/'' @ path) NoBody [] w = (r, w1)"
      by (rule prod.exhaust)
    ultimately show ?thesis using live Inr pk
      by (simp add: HashiVault_RevokeSecret_def when_live_def Let_def split: sum.split prod.split)
  qed (simp add: HashiVault_RevokeSecret_def when_live_def live assms)
qed (simp add: HashiVault_RevokeSecret_def when_live_def assms)

lemma call_kept: "I w \<Longrightarrow> mi_name (call_identity c) = name \<Longrightarrow> I (snd (call_vault (hashi_common_vault net v) c w))"
  by (cases c) (simp_all add: call_outcome_def hashi_common_vault_def store_kept read_kept revoke_kept)

end

text \<open>The rule on a network that keeps a record: only a demo name sends, and only what concerns_secret its own secret.\<close>

interpretation recorded_traffic:
  vault_traffic "hashi_recorded net" v
    "\<lambda>s. list_all (\<lambda>q. isDemoName name \<and> concerns_secret v (vaultSanitizeSegment name) q) (snd s)" name
  by unfold_locales (auto simp: hashi_recorded_def split: prod.splits)

lemma segment_length: "length (vaultSanitizeSegment s) \<le> vaultSegmentMax"
proof -
  have t: "length (trim_dashes u) \<le> length u" for u
    using length_dropWhile_le [of is_dash u] length_dropWhile_le [of is_dash "rev (dropWhile is_dash u)"]
    by (simp add: trim_dashes_eq)
  show ?thesis using t [of "take vaultSegmentMax (trim_dashes (sanitize_runes s))"]
    by (simp add: vaultSanitizeSegment_def Let_def)
qed

definition safe_segment :: "string \<Rightarrow> bool" where
  "safe_segment seg \<longleftrightarrow> has_prefix seg demoStem \<and> list_all segment_char seg \<and> length seg \<le> vaultSegmentMax"


section \<open>What an error shows\<close>

text \<open>The texts that are returned as they are.\<close>

definition hashi_texts :: "string list" where
  "hashi_texts =
     [''hashicorp vault: refusing vault access outside the '' @ demoPrefix @ ''* namespace'',
      ''hashicorp vault: demo identity name sanitizes to an empty path segment'',
      ''hashicorp vault: secret not found (HTTP 404)'',
      ''Vault is sealed or unavailable (HTTP 501)'', ''Vault is sealed or unavailable (HTTP 503)'',
      ''hashicorp vault: secret version is invalid'', ''hashicorp vault: secret not found: version is destroyed'',
      ''hashicorp vault: response contains no secret value'', ''hashicorp vault: response secret value is malformed'']"

fun call_secrets :: "vault_call \<Rightarrow> string list" where
  "call_secrets (StoreCall i k s) = [s]"
| "call_secrets _ = []"

definition shows_none :: "string \<Rightarrow> go_error \<Rightarrow> bool" where
  "shows_none x e \<longleftrightarrow> errors_is e ErrCanceled \<or> \<not> contains (err_text e) x"

lemma redacted_clean: "x \<in> {secret, hv_token v} \<Longrightarrow> maskable x \<Longrightarrow> \<not> contains (redactedString v t secret) x"
  unfolding redactedString_def by (rule redact_text_clean) (auto simp: hashi_secrets_def)

lemma redacted_shows_none:
  "x \<in> {secret, hv_token v} \<Longrightarrow> maskable x \<Longrightarrow> shows_none x (redactedError v t secret)"
  by (simp add: shows_none_def redactedError_def plain_error_def redacted_clean del: insert_iff)

lemma transport_shows_none:
  assumes "x \<in> {secret, hv_token v}" "maskable x"
  shows "shows_none x (transport_error v stage secret err)"
proof (cases "errors_is err ErrCanceled")
  case True
  then show ?thesis by (simp add: shows_none_def transport_error_def Let_def errors_is_def)
next
  case False
  then show ?thesis by (simp add: shows_none_def transport_error_def Let_def plain_error_def redacted_clean [OF assms])
qed

text \<open>What is asked of the context's errors and of a text that must not show.\<close>

definition guarded :: "'w hashi_net \<Rightarrow> string \<Rightarrow> bool" where
  "guarded net x \<longleftrightarrow> (\<forall>w e. hn_context net w = Some e \<longrightarrow> errors_is e ErrCanceled) \<and> maskable x \<and>
     \<not> list_ex (\<lambda>t. contains t x) hashi_texts"

lemma text_shows_none: "guarded net x \<Longrightarrow> err_text e \<in> set hashi_texts \<Longrightarrow> shows_none x e"
  by (auto simp: guarded_def shows_none_def list_ex_iff)

lemma context_shows_none: "guarded net x \<Longrightarrow> hn_context net w = Some e \<Longrightarrow> shows_none x e"
  by (auto simp: guarded_def shows_none_def)

lemma path_shows_none: "guarded net x \<Longrightarrow> vaultPath v i k = Inl e \<Longrightarrow> shows_none x e"
  by (erule text_shows_none) (auto simp: vaultPath_def hashi_texts_def Let_def plain_error_def split: if_splits)

lemma sealed_texts: "dec_int 501 = ''501''" "dec_int 503 = ''503''"
  by code_simp+

lemma api_shows_none:
  assumes g: "guarded net x" and m: "x \<in> {secret, hv_token v}"
  shows "shows_none x (apiError net v status body secret)"
proof -
  consider "status \<in> {404, 501, 503}" | "status \<notin> {404, 501, 503}" by blast
  then show ?thesis
  proof cases
    case 1
    then have "err_text (apiError net v status body secret) \<in> set hashi_texts"
      by (auto simp: apiError_def hashi_texts_def plain_error_def sealed_texts)
    then show ?thesis by (rule text_shows_none [OF g])
  next
    case 2
    then show ?thesis using redacted_shows_none [OF m] g by (simp add: apiError_def guarded_def)
  qed
qed

lemma request_shows_none:
  assumes g: "guarded net x" and m: "x \<in> {secret, hv_token v}"
    and "fst (hashi_request net v decode zero verb path payload secret w) = Inl e"
  shows "shows_none x e"
proof -
  have "maskable x" using g by (simp add: guarded_def)
  with assms(3) show ?thesis
    using context_shows_none [OF g] redacted_shows_none [OF m] transport_shows_none [OF m] api_shows_none [OF g m]
    by (auto simp: hashi_request_def split: option.splits prod.splits sum.splits if_splits)
qed

lemma read_shows_none:
  assumes g: "guarded net x" and "fst (finish_read net v path r) = Inl e" "\<And>e'. fst r = Inl e' \<Longrightarrow> shows_none x e'"
  shows "shows_none x e"
proof (cases "fst r")
  case (Inl e')
  then show ?thesis using assms(2,3) by (auto simp: finish_read_def split: prod.splits)
next
  case (Inr read)
  then have "err_text e \<in> set hashi_texts" using assms(2)
    by (auto simp: finish_read_def hashi_texts_def plain_error_def wrap_error_def split: prod.splits if_splits option.splits sum.splits)
  then show ?thesis by (rule text_shows_none [OF g])
qed

lemma store_shows_none:
  assumes g: "guarded net x" and m: "x \<in> {s, hv_token v}" and "fst (HashiVault_StoreSecret net v i k s w) = Inl e"
  shows "shows_none x e"
proof -
  have "shows_none x e'" if "hashi_request net v decode zero verb path payload s w1 = (Inl e', w2)"
    for decode :: "string \<Rightarrow> int result" and zero verb path payload w1 e' w2
    by (rule request_shows_none [OF g m arg_cong [OF that, of fst, unfolded fst_conv]])
  then show ?thesis using assms(3) context_shows_none [OF g] path_shows_none [OF g]
    by (auto simp: HashiVault_StoreSecret_def when_live_def split: option.splits prod.splits sum.splits)
qed

lemma read_secret_shows_none:
  assumes g: "guarded net x" and m: "x \<in> {[], hv_token v}" and "fst (HashiVault_ReadSecret net v i k n w) = Inl e"
  shows "shows_none x e"
proof -
  have "shows_none x e'" if "fst (finish_read net v path (hashi_request net v decode zero verb url payload [] w1)) = Inl e'"
    for path decode zero verb url payload w1 e'
    by (rule read_shows_none [OF g that]) (rule request_shows_none [OF g m])
  then show ?thesis using assms(3) context_shows_none [OF g] path_shows_none [OF g]
      text_shows_none [OF g, of "plain_error ''hashicorp vault: secret version is invalid''"]
    by (auto simp: HashiVault_ReadSecret_def when_live_def Let_def hashi_texts_def plain_error_def
        split: option.splits prod.splits sum.splits if_splits)
qed

lemma revoke_shows_none:
  assumes g: "guarded net x" and m: "x \<in> {[], hv_token v}" and "fst (HashiVault_RevokeSecret net v i k w) = Inl e"
  shows "shows_none x e"
proof -
  have "shows_none x e'" if "hashi_request net v decode zero verb path payload [] w1 = (Inl e', w2)"
    for decode :: "string \<Rightarrow> unit result" and zero verb path payload w1 e' w2
    by (rule request_shows_none [OF g m arg_cong [OF that, of fst, unfolded fst_conv]])
  then show ?thesis using assms(3) context_shows_none [OF g] path_shows_none [OF g]
    by (auto simp: HashiVault_RevokeSecret_def when_live_def Let_def split: option.splits prod.splits sum.splits if_splits)
qed

lemma call_shows_none:
  assumes "guarded net x" "fst (call_vault (hashi_common_vault net v) c w) = Some e"
    "x \<in> set (hv_token v # call_secrets c)"
  shows "shows_none x e"
  using assms store_shows_none [OF assms(1), where v = v] read_secret_shows_none [OF assms(1), where v = v]
    revoke_shows_none [OF assms(1), where v = v]
  by (cases c) (simp_all add: call_outcome_def hashi_common_vault_def split: sum.splits, blast+)


text \<open>A vault that answers every request with a status and texts, one of which shows what it was sent.\<close>

definition telling_net :: "int \<Rightarrow> unit hashi_net" where
  "telling_net status =
     \<lparr>hn_context = \<lambda>_. None, hn_clock = \<lambda>_. (0, ()), hn_send = \<lambda>_ _. (Inr \<lparr>hr_status = status, hr_data = ''x''\<rparr>, ()),
      hn_body = \<lambda>reply _. (Inr (hr_data reply), ()), hn_parse_url = \<lambda>_. Inl (plain_error ''url''),
      hn_stored_version = \<lambda>_. Inr 1, hn_read = \<lambda>_. Inl (plain_error ''json''),
      hn_errors = \<lambda>_. Inr [''denied'', ''token s.tok-7 may not write pw-4711'']\<rparr>"

definition cluster_vault :: hashi_vault where
  "cluster_vault = \<lparr>hv_addr = ''http://vault:8200'', hv_token = ''s.tok-7'', hv_mount = ''mutandae'', hv_prefix = ''demo'',
     hv_ttl = vaultDefaultTTL\<rparr>"

definition common_identity :: "string \<Rightarrow> machine_identity" where
  "common_identity name = zero_identity\<lparr>mi_name := name\<rparr>"

lemma cluster_denied:
  "call_vault (hashi_common_vault (telling_net 403) cluster_vault) (StoreCall (common_identity ''mutandae-demo-a1'') [] ''pw-4711'') () =
     (Some (apiError (telling_net 403) cluster_vault 403 ''x'' ''pw-4711''), ())"
  by (simp add: call_outcome_def hashi_common_vault_def HashiVault_StoreSecret_def when_live_def telling_net_def vaultPath_def
      hashi_request_def success_status_def isDemoName_def common_identity_def demoPrefix_def cluster_vault_def
      vaultSanitizeSegment_def trim_dashes_def vaultSegmentMax_def segment_char_def Let_def)


section \<open>Names and secrets\<close>

text \<open>
  Two identities whose names are demo names of letters, digits, dashes and underscores, with at most 63 characters and no dash
  at the end, have the same secret in the cluster's vault exactly when their names are equal.
\<close>

theorem vault_names_apart:
  assumes "safe_name (mi_name i)" "safe_name (mi_name j)"
  shows "map_sum id fst (vaultPath v i k) = map_sum id fst (vaultPath v j k') \<longleftrightarrow> mi_name i = mi_name j"
  using assms safe_name_kept [OF assms(1)] safe_name_kept [OF assms(2)]
  by (auto simp: vaultPath_def safe_name_def Let_def isDemoName_def demoPrefix_def)

theorem vault_names_apart_witness:
  "map_sum id fst (vaultPath cluster_vault (common_identity ''mutandae-demo-a1'') []) \<noteq>
     map_sum id fst (vaultPath cluster_vault (common_identity ''mutandae-demo-a2'') ''7'')"
proof -
  have "safe_name (mi_name (common_identity ''mutandae-demo-a1''))" "safe_name (mi_name (common_identity ''mutandae-demo-a2''))"
    by code_simp+
  from vault_names_apart [OF this] show ?thesis by (simp add: common_identity_def)
qed

text \<open>
  Two observations. Names that the sanitization maps to one segment share a secret, and so do identities of
  different providers with one name: a revocation for one of them deletes every version that the other has.
\<close>

lemma vault_names_collide:
  "vaultPath v (common_identity ''mutandae-demo-a.b'') k = vaultPath v (common_identity ''mutandae-demo-a-b'') k"
  by (simp add: vaultPath_def common_identity_def isDemoName_def demoPrefix_def vaultSanitizeSegment_def trim_dashes_def
      vaultSegmentMax_def segment_char_def Let_def decode_rune_def)

lemma vault_path_of_name: "mi_name i = mi_name j \<Longrightarrow> vaultPath v i k = vaultPath v j k"
  by (simp add: vaultPath_def)

text \<open>The error of a context that is done is appended to the masked text as it is.\<close>

lemma done_context_unmasked:
  "\<exists>masked. err_text (transport_error v stage secret (GoError [ErrCanceled] t)) = masked @ t"
  by (simp add: transport_error_def Let_def)

section \<open>Revoking twice\<close>

text \<open>
  Revoking the secret of a demo identity succeeds both when the server deletes it and when it says that there is no such
  secret, with the reference of the path and no version, so a revocation can be repeated.
\<close>

theorem vault_revoke_repeatable:
  assumes "hn_context net w = None" "vaultPath v i k = Inr (p, key)"
    and "hn_send net \<lparr>hq_method = ''DELETE'', hq_url = hv_addr v @ ''/v1/'' @ hv_mount v @ ''/metadata/'' @ p,
           hq_headers = [(''X-Vault-Token'', hv_token v)], hq_body = NoBody\<rparr> w = (Inr reply, w1)"
    and "hn_body net reply w1 = (Inr body, w2)" "success_status (hr_status reply) \<or> hr_status reply = 404"
  shows "HashiVault_RevokeSecret net v i k w =
    (Inr \<lparr>vr_url = hv_addr v, vr_secret_name = hv_mount v @ ''/'' @ p, vr_version = [], vr_expires_at = 0,
       vr_owner_object_ids = []\<rparr>, w2)"
  using assms
  by (auto simp: HashiVault_RevokeSecret_def when_live_def hashi_request_def hashi_header_def apiError_def success_status_def)

theorem vault_revoke_repeatable_witness:
  "\<exists>ref. HashiVault_RevokeSecret (telling_net 404) cluster_vault (common_identity ''mutandae-demo-a1'') [] () = (Inr ref, ())"
proof -
  have "vaultPath cluster_vault (common_identity ''mutandae-demo-a1'') [] = Inr (''demo/mutandae-demo-a1'', ''current'')"
    by code_simp
  from vault_revoke_repeatable [OF _ this, of "telling_net 404" "()" "\<lparr>hr_status = 404, hr_data = ''x''\<rparr>" "()" "''x''" "()"]
  show ?thesis by (simp add: telling_net_def)
qed

end
