(* ===== verification/Aws.thy ===== *)
theory Aws
  imports Rest Calendar Encoding MultiCloud
begin

text \<open>
  The real AWS adapter (internal/provider: aws.go): the IAM Query API over requests signed with AWS Signature
  Version 4. What the adapter keeps, its secrets and the one-time secret of the last rotation, is the record
  \<open>aws_memory\<close>; the network, the clock and the decoders of encoding/xml and net/url are the record \<open>aws_net\<close>.
\<close>

section \<open>The adapter\<close>

record iam_user_record =
  ur_user_name :: string
  ur_tags :: "(string \<times> string) list"

record iam_key =
  ik_key_id :: string
  ik_status :: string
  ik_create_date :: time

record iam_access_key =
  ia_key_id :: string
  ia_secret :: string
  ia_create_date :: time

record secrets_response =
  sp_version_id :: string
  sp_secret_string :: string

record aws_url =
  wu_scheme :: string
  wu_host :: string
  wu_path :: string
  wu_text :: string
  wu_has_user :: bool
  wu_raw_query :: string
  wu_fragment :: string

record 'w aws_net =
  wn_clock :: "'w \<Rightarrow> time \<times> 'w"
  wn_send :: "http_request \<Rightarrow> 'w \<Rightarrow> http_reply result \<times> 'w"
  wn_body :: "http_reply \<Rightarrow> 'w \<Rightarrow> string result \<times> 'w"
  wn_url :: "string \<Rightarrow> aws_url result"
  wn_error :: "string \<Rightarrow> (string \<times> string) result"
  wn_users :: "string \<Rightarrow> (iam_user_record list \<times> bool \<times> string) result"
  wn_user :: "string \<Rightarrow> iam_user_record result"
  wn_keys :: "string \<Rightarrow> iam_key list result"
  wn_created_user :: "string \<Rightarrow> iam_user_record result"
  wn_created_key :: "string \<Rightarrow> iam_access_key result"
  wn_json :: "json_value \<Rightarrow> string result"
  wn_secret :: "string \<Rightarrow> secrets_response result"
  wn_api_error :: "string \<Rightarrow> string \<times> string \<times> string"

record aws_config =
  wf_account_id :: string
  wf_region :: string
  wf_access_key_id :: string
  wf_secret_key :: string
  wf_session_token :: string
  wf_endpoint :: string
  wf_scope :: scope
  wf_demo_only :: bool
  wf_secrets_manager :: bool
  wf_secrets_endpoint :: string

record 'w aws_account =
  wa_net :: "'w aws_net"
  wa_rand :: "'w \<Rightarrow> (nat \<Rightarrow> string result) \<times> 'w"
  wa_account_id :: string
  wa_region :: string
  wa_access_key_id :: string
  wa_endpoint :: string
  wa_scope :: scope
  wa_scope_configured :: bool
  wa_demo_only :: bool
  wa_secrets_manager :: bool
  wa_secrets_endpoint :: string

record aws_memory =
  wm_secret_key :: string
  wm_session_token :: string
  wm_one_time_secret :: string
  wm_one_time_key_id :: string
  wm_one_time_created :: time

type_synonym 'w awm = "aws_memory \<times> 'w"

definition NewAWSAdapter ::
  "'w aws_net \<Rightarrow> ('w \<Rightarrow> (nat \<Rightarrow> string result) \<times> 'w) \<Rightarrow> aws_config \<Rightarrow> ('w aws_account \<times> aws_memory) result" where
  "NewAWSAdapter net rand cfg =
     (let accountID = trim_space (wf_account_id cfg); accessKeyID = trim_space (wf_access_key_id cfg) in
      if accountID = [] then Inl (plain_error ''aws: account_id is required'')
      else if accessKeyID = [] then Inl (plain_error ''aws: access key id is required'')
      else if wf_secret_key cfg = [] then Inl (plain_error ''aws: secret access key is required'')
      else case validateRealScope (wf_scope cfg) (wf_demo_only cfg) of
        Inl err \<Rightarrow> Inl (prefixed ''aws: '' err)
      | Inr scope \<Rightarrow>
          (let region = trim_space (wf_region cfg); endpoint = trim_space (wf_endpoint cfg) in
           Inr (\<lparr>wa_net = net, wa_rand = rand, wa_account_id = accountID,
                  wa_region = (if region = [] then ''us-east-1'' else region), wa_access_key_id = accessKeyID,
                  wa_endpoint = (if endpoint = [] then ''https://iam.amazonaws.com'' else endpoint), wa_scope = scope,
                  wa_scope_configured = (sc_allow (wf_scope cfg) \<noteq> [] \<or> sc_deny (wf_scope cfg) \<noteq> [] \<or> wf_demo_only cfg),
                  wa_demo_only = wf_demo_only cfg, wa_secrets_manager = wf_secrets_manager cfg,
                  wa_secrets_endpoint = trim_space (wf_secrets_endpoint cfg)\<rparr>,
                \<lparr>wm_secret_key = wf_secret_key cfg, wm_session_token = wf_session_token cfg, wm_one_time_secret = [],
                 wm_one_time_key_id = [], wm_one_time_created = 0\<rparr>)))"

definition inScope :: "'w aws_account \<Rightarrow> string \<Rightarrow> bool" where
  "inScope a name \<longleftrightarrow>
     (if wa_demo_only a \<and> \<not> wa_scope_configured a then scope_match DemoScope name else scope_match (wa_scope a) name)"

definition AWS_ConsumeOneTimeSecret :: "'w awm \<Rightarrow> string \<times> 'w awm" where
  "AWS_ConsumeOneTimeSecret s =
     (wm_one_time_secret (fst s), ((fst s)\<lparr>wm_one_time_secret := [], wm_one_time_key_id := []\<rparr>, snd s))"

definition OneTimeKeyID :: "'w awm \<Rightarrow> string" where
  "OneTimeKeyID s = wm_one_time_key_id (fst s)"

definition AWS_Close :: "'w awm \<Rightarrow> 'w awm" where
  "AWS_Close s = ((fst s)\<lparr>wm_secret_key := [], wm_session_token := [], wm_one_time_secret := [],
     wm_one_time_key_id := []\<rparr>, snd s)"

definition aws_now :: "'w aws_account \<Rightarrow> 'w awm \<Rightarrow> ('e + time) \<times> 'w awm" where
  "aws_now a s = (case wn_clock (wa_net a) (snd s) of (t, w) \<Rightarrow> (Inr t, (fst s, w)))"

section \<open>Signature Version 4\<close>

definition newline :: string where "newline = [CHR 0x0A]"

definition sha256Hex :: "string \<Rightarrow> string" where
  "sha256Hex s = hex_encode (sha256 s)"

text \<open>The layout 20060102T150405Z.\<close>

definition amz_date :: "time \<Rightarrow> string" where
  "amz_date t =
     (case civil_date (t div day) of (y, mo, d) \<Rightarrow>
        (let s = (t mod day) div second in
         four_digits y @ two_digits mo @ two_digits d @ ''T'' @
         two_digits (s div 3600) @ two_digits (s div 60 mod 60) @ two_digits (s mod 60) @ ''Z''))"

record sig_v4_options =
  sv_method :: string
  sv_canonical_uri :: string
  sv_canonical_headers :: string
  sv_signed_headers :: string
  sv_payload_hash :: string
  sv_amz_date :: string
  sv_scope :: string
  sv_secret_key :: string

definition canonical_request :: "sig_v4_options \<Rightarrow> string" where
  "canonical_request o4 = join newline [sv_method o4, sv_canonical_uri o4, [], sv_canonical_headers o4,
     sv_signed_headers o4, sv_payload_hash o4]"

definition string_to_sign :: "sig_v4_options \<Rightarrow> string" where
  "string_to_sign o4 = join newline [''AWS4-HMAC-SHA256'', sv_amz_date o4, sv_scope o4, sha256Hex (canonical_request o4)]"

definition signV4 :: "sig_v4_options \<Rightarrow> string" where
  "signV4 o4 =
     (case split_on CHR ''/'' (sv_scope o4) of
        [date, region, service, _] \<Rightarrow>
          hex_encode (hmac_sha256
            (hmac_sha256 (hmac_sha256 (hmac_sha256 (hmac_sha256 (''AWS4'' @ sv_secret_key o4) date) region) service)
               ''aws4_request'')
            (string_to_sign o4))
      | _ \<Rightarrow> [])"

definition authorization :: "'w aws_account \<Rightarrow> sig_v4_options \<Rightarrow> string" where
  "authorization a o4 = ''AWS4-HMAC-SHA256 Credential='' @ wa_access_key_id a @ ''/'' @ sv_scope o4 @
     '', SignedHeaders='' @ sv_signed_headers o4 @ '', Signature='' @ signV4 o4"

definition token_lines :: "string \<Rightarrow> string" where
  "token_lines token = (if token = [] then [] else ''x-amz-security-token:'' @ token @ newline)"

definition token_names :: "string \<Rightarrow> string" where
  "token_names token = (if token = [] then [] else '';x-amz-security-token'')"

definition session_header :: "string \<Rightarrow> (string \<times> string) list" where
  "session_header token = (if token = [] then [] else [(''X-Amz-Security-Token'', token)])"

text \<open>url.Values.Encode: sorted by key, both parts escaped.\<close>

definition form_encode :: "(string \<times> string) list \<Rightarrow> string" where
  "form_encode params = join ''&'' (map (\<lambda>(k, v). query_escape k @ ''='' @ query_escape v) (sort_key fst params))"

definition form_type :: string where "form_type = ''application/x-www-form-urlencoded; charset=utf-8''"

definition canonical_uri :: "aws_url \<Rightarrow> string" where
  "canonical_uri u = (if wu_path u = [] then ''/'' else wu_path u)"

definition iam_sig_options :: "'w aws_account \<Rightarrow> aws_memory \<Rightarrow> aws_url \<Rightarrow> string \<Rightarrow> string \<Rightarrow> sig_v4_options" where
  "iam_sig_options a m u amzDate payload =
     (let signingRegion = (if contains (wu_host u) ''amazonaws.com'' then ''us-east-1'' else wa_region a) in
      \<lparr>sv_method = ''POST'', sv_canonical_uri = canonical_uri u,
       sv_canonical_headers = ''content-type:'' @ form_type @ newline @ ''host:'' @ wu_host u @ newline @
         ''x-amz-date:'' @ amzDate @ newline @ token_lines (wm_session_token m),
       sv_signed_headers = ''content-type;host;x-amz-date'' @ token_names (wm_session_token m),
       sv_payload_hash = sha256Hex payload, sv_amz_date = amzDate,
       sv_scope = join ''/'' [take 8 amzDate, signingRegion, ''iam'', ''aws4_request''],
       sv_secret_key = wm_secret_key m\<rparr>)"

definition signedRequest :: "'w aws_account \<Rightarrow> (string \<times> string) list \<Rightarrow> 'w awm \<Rightarrow> http_request result \<times> 'w awm" where
  "signedRequest a params s =
     (case wn_url (wa_net a) (wa_endpoint a) of
        Inl err \<Rightarrow> (Inl (prefixed (''aws: invalid IAM endpoint '' @ quoted (wa_endpoint a) @ '': '') err), s)
      | Inr u \<Rightarrow>
          try_then (aws_now a) (\<lambda>now s.
            (let amzDate = amz_date now; o4 = iam_sig_options a (fst s) u amzDate (form_encode params) in
             succeed \<lparr>hq_method = ''POST'', hq_url = wu_text u,
               hq_headers = [(''Content-Type'', form_type), (''X-Amz-Date'', amzDate), (''Authorization'', authorization a o4)] @
                 session_header (wm_session_token (fst s)),
               hq_body = FormBody params\<rparr> s)) s)"

section \<open>Calls\<close>

definition redactString :: "aws_memory \<Rightarrow> string \<Rightarrow> string" where
  "redactString m = redact_text [wm_secret_key m, wm_session_token m, wm_one_time_secret m]"

definition aws_redact :: "aws_memory \<Rightarrow> string \<Rightarrow> go_error" where
  "aws_redact m t = plain_error (redactString m t)"

definition iamError :: "'w aws_account \<Rightarrow> aws_memory \<Rightarrow> string \<Rightarrow> string \<Rightarrow> int \<Rightarrow> go_error" where
  "iamError a m action data status =
     (let decoded = trim_space data;
          raw = aws_redact m (action @ '': IAM returned HTTP '' @ dec_int status @ '': '' @
            (if decoded = [] then ''(empty response)'' else decoded)) in
      case wn_error (wa_net a) data of
        Inr (code, message) \<Rightarrow>
          if code \<noteq> [] then plain_error (action @ '': IAM returned '' @ code @ '': '' @ redactString m message) else raw
      | Inl _ \<Rightarrow> raw)"

text \<open>The request, its answer and the body of the answer, which \<open>call\<close> and \<open>tolerateNoSuchEntity\<close> share.\<close>

definition iam_exchange :: "'w aws_account \<Rightarrow> string \<Rightarrow> (string \<times> string) list \<Rightarrow> 'w awm \<Rightarrow> (int \<times> string) result \<times> 'w awm" where
  "iam_exchange a action params =
     try_then (signedRequest a params) (\<lambda>q (m, w).
       case wn_send (wa_net a) q w of
         (Inl err, w1) \<Rightarrow> (Inl (aws_redact m (action @ '': request failed: '' @ err_text err)), (m, w1))
       | (Inr reply, w1) \<Rightarrow>
           (case wn_body (wa_net a) reply w1 of
              (Inl err, w2) \<Rightarrow> (Inl (aws_redact m (action @ '': read response: '' @ err_text err)), (m, w2))
            | (Inr data, w2) \<Rightarrow> (Inr (hr_status reply, data), (m, w2))))"

definition iam_params :: "string \<Rightarrow> (string \<times> string) list \<Rightarrow> (string \<times> string) list" where
  "iam_params action rest = [(''Action'', action), (''Version'', ''2010-05-08'')] @ rest"

definition iam_call ::
  "'w aws_account \<Rightarrow> (string \<Rightarrow> 'a result) \<Rightarrow> 'a \<Rightarrow> string \<Rightarrow> (string \<times> string) list \<Rightarrow> 'w awm \<Rightarrow> 'a result \<times> 'w awm" where
  "iam_call a decode zero action rest =
     try_then (iam_exchange a action (iam_params action rest)) (\<lambda>(status, data) s.
       ((if \<not> success_status status then Inl (iamError a (fst s) action data status)
         else if data = [] then Inr zero
         else case decode data of
           Inl err \<Rightarrow> Inl (aws_redact (fst s) (action @ '': decode response: '' @ err_text err))
         | Inr x \<Rightarrow> Inr x), s))"

definition entityMissing :: "go_error \<Rightarrow> bool" where
  "entityMissing err = contains (err_text err) ''NoSuchEntity''"

definition tolerateNoSuchEntity :: "'w aws_account \<Rightarrow> string \<Rightarrow> (string \<times> string) list \<Rightarrow> 'w awm \<Rightarrow> unit result \<times> 'w awm" where
  "tolerateNoSuchEntity a action rest =
     try_then (iam_exchange a action (iam_params action rest)) (\<lambda>(status, data) s.
       ((if success_status status then Inr ()
         else case wn_error (wa_net a) data of
           Inr (code, message) \<Rightarrow>
             if code = ''NoSuchEntity'' then Inr () else Inl (iamError a (fst s) action data status)
         | Inl _ \<Rightarrow> Inl (iamError a (fst s) action data status)), s))"

end
