(* ===== verification/AwsCloud.thy ===== *)
theory AwsCloud
  imports Aws
begin

text \<open>
  The operations of the AWS adapter (internal/provider/aws.go): the calls of IAM, discovery, rotation under the ceiling of
  two access keys, retirement, plans and the creation of demo users. The pages of ListUsers are a partial
  function, since a server decides whether there is a last one.
\<close>

section \<open>Users, keys and tags\<close>

definition no_user :: iam_user_record where "no_user = \<lparr>ur_user_name = [], ur_tags = []\<rparr>"

definition no_access_key :: iam_access_key where
  "no_access_key = \<lparr>ia_key_id = [], ia_secret = [], ia_create_date = 0\<rparr>"

definition user_param :: "string \<Rightarrow> (string \<times> string) list" where
  "user_param userName = [(''UserName'', userName)]"

definition createUser :: "'w aws_account \<Rightarrow> string \<Rightarrow> 'w awm \<Rightarrow> iam_user_record result \<times> 'w awm" where
  "createUser a userName s =
     (case iam_call a (wn_created_user (wa_net a)) no_user ''CreateUser'' (user_param userName) s of
        (Inl err, s1) \<Rightarrow>
          if contains (err_text err) ''EntityAlreadyExists'' then (Inr (no_user\<lparr>ur_user_name := userName\<rparr>), s1)
          else (Inl err, s1)
      | (Inr user, s1) \<Rightarrow>
          (Inr (if ur_user_name user = [] then no_user\<lparr>ur_user_name := userName\<rparr> else user), s1))"

definition tag_params :: "(string \<times> string) list \<Rightarrow> (string \<times> string) list" where
  "tag_params tags = concat (map (\<lambda>(i, k, v).
     [(''Tags.member.'' @ dec (i + 1) @ ''.Key'', k), (''Tags.member.'' @ dec (i + 1) @ ''.Value'', v)])
     (enumerate 0 (sort_key fst tags)))"

definition tagUser :: "'w aws_account \<Rightarrow> string \<Rightarrow> (string \<times> string) list \<Rightarrow> 'w awm \<Rightarrow> unit result \<times> 'w awm" where
  "tagUser a userName tags = iam_call a (\<lambda>_. Inr ()) () ''TagUser'' (user_param userName @ tag_params tags)"

definition getUser :: "'w aws_account \<Rightarrow> string \<Rightarrow> 'w awm \<Rightarrow> iam_user_record result \<times> 'w awm" where
  "getUser a userName = iam_call a (wn_user (wa_net a)) no_user ''GetUser'' (user_param userName)"

definition listAccessKeys :: "'w aws_account \<Rightarrow> string \<Rightarrow> 'w awm \<Rightarrow> iam_key list result \<times> 'w awm" where
  "listAccessKeys a userName = iam_call a (wn_keys (wa_net a)) [] ''ListAccessKeys'' (user_param userName)"

definition createAccessKey :: "'w aws_account \<Rightarrow> string \<Rightarrow> 'w awm \<Rightarrow> iam_access_key result \<times> 'w awm" where
  "createAccessKey a userName =
     try_then (iam_call a (wn_created_key (wa_net a)) no_access_key ''CreateAccessKey'' (user_param userName)) (\<lambda>key.
       if ia_key_id key = [] \<or> ia_secret key = [] then
         fail (plain_error (awsKind @ '': CreateAccessKey returned an incomplete response''))
       else succeed key)"

definition deleteAccessKey :: "'w aws_account \<Rightarrow> string \<Rightarrow> string \<Rightarrow> 'w awm \<Rightarrow> unit result \<times> 'w awm" where
  "deleteAccessKey a userName keyID =
     (if keyID = [] then succeed ()
      else tolerateNoSuchEntity a ''DeleteAccessKey'' (user_param userName @ [(''AccessKeyId'', keyID)]))"

definition deleteLoginProfile :: "'w aws_account \<Rightarrow> string \<Rightarrow> 'w awm \<Rightarrow> unit result \<times> 'w awm" where
  "deleteLoginProfile a userName = tolerateNoSuchEntity a ''DeleteLoginProfile'' (user_param userName)"

definition findKey :: "iam_key list \<Rightarrow> string \<Rightarrow> iam_key option" where
  "findKey ks keyID = find (\<lambda>k. keyID \<noteq> [] \<and> ik_key_id k = keyID) ks"

fun oldest_key :: "iam_key \<Rightarrow> iam_key list \<Rightarrow> iam_key" where
  "oldest_key k [] = k"
| "oldest_key k (x # xs) = oldest_key (if ik_create_date x < ik_create_date k then x else k) xs"

definition oldestNonCurrent :: "iam_key list \<Rightarrow> string \<Rightarrow> iam_key" where
  "oldestNonCurrent ks currentKeyID =
     (case filter (\<lambda>k. ik_key_id k \<noteq> currentKeyID) ks of
        k # rest \<Rightarrow> oldest_key k rest
      | [] \<Rightarrow> oldest_key (hd ks) ks)"

definition tag_map :: "(string \<times> string) list \<Rightarrow> string gomap" where
  "tag_map tags = fold (\<lambda>(k, v). put k v) tags []"

definition tag_text :: "string gomap \<Rightarrow> string \<Rightarrow> string" where
  "tag_text tags key = (case lookup tags key of None \<Rightarrow> [] | Some v \<Rightarrow> trim_space v)"

definition tagValue :: "string gomap \<Rightarrow> string \<Rightarrow> string \<Rightarrow> string" where
  "tagValue tags key fallback = (if tag_text tags key = [] then fallback else tag_text tags key)"

text \<open>The days are a 64-bit int: the sum wraps around.\<close>

fun tag_days :: "int \<Rightarrow> string \<Rightarrow> int option" where
  "tag_days days [] = Some days"
| "tag_days days (c # s) =
     (if is_digit c then tag_days (wrap_int64 (wrap_int64 (days * 10) + int (digit_val c))) s else None)"

definition tagInt :: "string gomap \<Rightarrow> string \<Rightarrow> int \<Rightarrow> int" where
  "tagInt tags key fallback =
     (if tag_text tags key = [] then fallback
      else case tag_days 0 (tag_text tags key) of
        None \<Rightarrow> fallback
      | Some days \<Rightarrow> if days < 1 \<or> 3650 < days then fallback else days)"

definition tagList :: "string gomap \<Rightarrow> string \<Rightarrow> string list" where
  "tagList tags key =
     (if tag_text tags key = [] then []
      else filter (\<lambda>p. p \<noteq> []) (map trim_space (split_on CHR '','' (tag_text tags key))))"

section \<open>Identities\<close>

definition awsFingerprint :: "string \<Rightarrow> string" where
  "awsFingerprint keyID = ''sha256:'' @ hex_encode (sha256 keyID)"

definition newest_first :: "iam_key list \<Rightarrow> iam_key list" where
  "newest_first = sort_desc ik_create_date"

definition shown_key :: "iam_key list \<Rightarrow> iam_key" where
  "shown_key ks =
     (let sorted_keys = newest_first ks in
      case find (\<lambda>k. equal_fold (ik_status k) ''Active'') sorted_keys of Some k \<Rightarrow> k | None \<Rightarrow> hd sorted_keys)"

definition user_identity :: "'w aws_account \<Rightarrow> iam_user_record \<Rightarrow> iam_key \<Rightarrow> time \<Rightarrow> machine_identity" where
  "user_identity a user key now =
     (let tags = tag_map (ur_tags user); name = ur_user_name user;
          renewal = tagInt tags ''MUTANDAE_RENEWAL_DAYS'' 90 * 24 * hour;
          expiresAt = ik_create_date key + renewal in
      zero_identity\<lparr>mi_name := name, mi_display_name := name,
        mi_environment := tagValue tags ''MUTANDAE_ENVIRONMENT'' ''production'',
        mi_provider := zero_binding\<lparr>pb_provider := awsKind, pb_provider_id := name,
          pb_account_id := wa_account_id a, pb_region := wa_region a\<rparr>,
        mi_ownership := zero_ownership\<lparr>ow_team := tagValue tags ''MUTANDAE_TEAM'' ''AWS IAM'',
          ow_service := tagValue tags ''MUTANDAE_SERVICE'' name,
          ow_purpose := tagValue tags ''MUTANDAE_PURPOSE'' ''Machine workload identity'',
          ow_criticality := tagValue tags ''MUTANDAE_CRITICALITY'' ''medium'',
          ow_contacts := tagList tags ''MUTANDAE_CONTACTS''\<rparr>,
        mi_policy := zero_policy\<lparr>lp_renewal_period := FormatISO8601Duration renewal\<rparr>,
        mi_credential := \<lparr>cr_kind = ''access_key'', cr_location = ''iam://'' @ wa_account_id a @ ''/user/'' @ name,
          cr_fingerprint = awsFingerprint (ik_key_id key), cr_key_id = ik_key_id key, cr_delivery = ''secret-manager''\<rparr>,
        mi_state := StateActive, mi_health := (if now < expiresAt then HealthHealthy else HealthAttention),
        mi_expires_at := expiresAt, mi_last_rotated_at := ik_create_date key\<rparr>)"

definition aws_toIdentity :: "'w aws_account \<Rightarrow> iam_user_record \<Rightarrow> iam_key list \<Rightarrow> 'w awm \<Rightarrow> machine_identity result \<times> 'w awm" where
  "aws_toIdentity a user ks = try_then (aws_now a) (\<lambda>now. succeed (user_identity a user (shown_key ks) now))"

section \<open>Discovery\<close>

definition list_users_params :: "string \<Rightarrow> (string \<times> string) list" where
  "list_users_params marker = (if marker = [] then [] else [(''Marker'', marker)])"

partial_function (option) listUsers ::
  "'w aws_account \<Rightarrow> iam_user_record list \<Rightarrow> string \<Rightarrow> 'w awm \<Rightarrow> (iam_user_record list result \<times> 'w awm) option" where
  "listUsers a users marker s =
     (case iam_call a (wn_users (wa_net a)) ([], False, []) ''ListUsers'' (list_users_params marker) s of
        (Inl err, s1) \<Rightarrow> Some (Inl err, s1)
      | (Inr (page, truncated, next_marker), s1) \<Rightarrow>
          if \<not> truncated \<or> next_marker = [] then Some (Inr (users @ page), s1)
          else if 10000 < length (users @ page) then
            Some (Inl (plain_error (awsKind @ '': ListUsers pagination exceeded a sane bound'')), s1)
          else listUsers a (users @ page) next_marker s1)"

definition about_user :: "string \<Rightarrow> go_error \<Rightarrow> go_error" where
  "about_user userName = prefixed (awsKind @ '': user '' @ quoted userName @ '': '')"

fun governed_users :: "'w aws_account \<Rightarrow> iam_user_record list \<Rightarrow> 'w awm \<Rightarrow> machine_identity list result \<times> 'w awm" where
  "governed_users a [] = succeed []"
| "governed_users a (user # users) =
     (if \<not> inScope a (ur_user_name user) then governed_users a users
      else try_then (on_error (about_user (ur_user_name user)) (getUser a (ur_user_name user))) (\<lambda>detail.
        try_then (on_error (about_user (ur_user_name user)) (listAccessKeys a (ur_user_name user))) (\<lambda>ks.
          if ks = [] then governed_users a users
          else try_then (aws_toIdentity a detail ks) (\<lambda>i.
            try_then (governed_users a users) (\<lambda>is. succeed (i # is))))))"

definition AWS_Discover :: "'w aws_account \<Rightarrow> 'w awm \<Rightarrow> (machine_identity list result \<times> 'w awm) option" where
  "AWS_Discover a s = map_option (\<lambda>(res, s1). (case res of Inl err \<Rightarrow> (Inl err, s1) | Inr users \<Rightarrow> governed_users a users s1))
     (listUsers a [] [] s)"

section \<open>Rotation and retirement\<close>

definition aws_remember :: "iam_access_key \<Rightarrow> time \<Rightarrow> 'w awm \<Rightarrow> 'w awm" where
  "aws_remember created now s = ((fst s)\<lparr>wm_one_time_secret := ia_secret created,
     wm_one_time_key_id := ia_key_id created, wm_one_time_created := now\<rparr>, snd s)"

definition active_key :: "string \<Rightarrow> time \<Rightarrow> iam_key" where
  "active_key keyID createDate = \<lparr>ik_key_id = keyID, ik_status = ''Active'', ik_create_date = createDate\<rparr>"

text \<open>The keys in the order in which the code looks at them from there on, and the key to be rotated out.\<close>

definition current_key :: "iam_key list \<Rightarrow> string \<Rightarrow> iam_key list \<times> iam_key" where
  "current_key ks keyID =
     (case findKey ks keyID of
        Some k \<Rightarrow> (ks, k)
      | None \<Rightarrow> (newest_first ks, hd (newest_first ks)))"

definition replace_key :: "'w aws_account \<Rightarrow> string \<Rightarrow> iam_key list \<Rightarrow> iam_key \<Rightarrow> 'w awm \<Rightarrow> iam_access_key result \<times> 'w awm" where
  "replace_key a userName ks current =
     try_then (if 2 \<le> length ks then deleteAccessKey a userName (ik_key_id (oldestNonCurrent ks (ik_key_id current)))
               else succeed ()) (\<lambda>_.
       try_then (createAccessKey a userName) (\<lambda>created.
         try_then (if ik_key_id current \<noteq> ia_key_id created then deleteAccessKey a userName (ik_key_id current)
                   else succeed ()) (\<lambda>_. succeed created)))"

definition AWS_Rotate :: "'w aws_account \<Rightarrow> machine_identity \<Rightarrow> 'w awm \<Rightarrow> machine_identity result \<times> 'w awm" where
  "AWS_Rotate a identity =
     (let userName = trim_space (pb_provider_id (mi_provider identity)) in
      if userName = [] then fail (plain_error (awsKind @ '': rotate requires a provider_id (IAM user name)''))
      else if \<not> inScope a userName then fail (forbiddenScopeError awsKind userName (wa_scope a))
      else try_then (listAccessKeys a userName) (\<lambda>listed.
        if listed = [] then
          fail (plain_error (awsKind @ '': user '' @ quoted userName @ '' has no access keys to rotate''))
        else case current_key listed (trim_space (cr_key_id (mi_credential identity))) of
          (ks, current) \<Rightarrow>
            try_then (replace_key a userName ks current) (\<lambda>created.
              try_then (aws_now a) (\<lambda>now s.
                aws_toIdentity a (no_user\<lparr>ur_user_name := userName\<rparr>)
                  [active_key (ia_key_id created) (ia_create_date created)] (aws_remember created now s)))))"

fun retire_keys :: "'w aws_account \<Rightarrow> string \<Rightarrow> iam_key list \<Rightarrow> 'w awm \<Rightarrow> unit result \<times> 'w awm" where
  "retire_keys a userName [] s = (Inr (), s)"
| "retire_keys a userName (k # ks) s =
     (case deleteAccessKey a userName (ik_key_id k) s of
        (Inl err, s1) \<Rightarrow> if \<not> entityMissing err then (Inl err, s1) else (Inr (), s1)
      | (Inr _, s1) \<Rightarrow> retire_keys a userName ks s1)"

definition listed_or_gone :: "'w aws_account \<Rightarrow> string \<Rightarrow> 'w awm \<Rightarrow> iam_key list result \<times> 'w awm" where
  "listed_or_gone a userName s =
     (case listAccessKeys a userName s of
        (Inl err, s1) \<Rightarrow> if \<not> entityMissing err then (Inl err, s1) else (Inr [], s1)
      | (Inr ks, s1) \<Rightarrow> (Inr ks, s1))"

definition aws_retired_view :: "'w aws_account \<Rightarrow> string \<Rightarrow> machine_identity \<Rightarrow> machine_identity" where
  "aws_retired_view a userName identity = identity\<lparr>mi_state := StateRetired, mi_health := HealthAttention,
     mi_credential := zero_credential\<lparr>cr_kind := ''access_key'',
       cr_location := ''iam://'' @ wa_account_id a @ ''/user/'' @ userName, cr_delivery := ''secret-manager''\<rparr>\<rparr>"

definition AWS_Retire :: "'w aws_account \<Rightarrow> machine_identity \<Rightarrow> 'w awm \<Rightarrow> machine_identity result \<times> 'w awm" where
  "AWS_Retire a identity =
     (let userName = trim_space (pb_provider_id (mi_provider identity)) in
      if userName = [] then fail (plain_error (awsKind @ '': retire requires a provider_id (IAM user name)''))
      else if \<not> inScope a userName then fail (forbiddenScopeError awsKind userName (wa_scope a))
      else try_then (listed_or_gone a userName) (\<lambda>ks.
        try_then (retire_keys a userName ks) (\<lambda>_ s.
          (Inr (aws_retired_view a userName identity), snd (deleteLoginProfile a userName s)))))"

section \<open>Plans\<close>

definition aws_adapter_plan :: "'w aws_account \<Rightarrow> string \<Rightarrow> (string \<Rightarrow> planned_operation list) \<Rightarrow> string \<Rightarrow> operations result" where
  "aws_adapter_plan a what ops i =
     (let name = trim_space i in
      if name = [] then Inl (plan_needs_id awsKind what)
      else if \<not> inScope a name then Inl (forbiddenScopeError awsKind name (wa_scope a))
      else Inr (Some (ops name)))"

definition AWS_PlanRotate :: "'w aws_account \<Rightarrow> string \<Rightarrow> 'w awm \<Rightarrow> operations result \<times> 'w awm" where
  "AWS_PlanRotate a i s = (aws_adapter_plan a ''rotate'' (\<lambda>name.
     [planned ''aws.delete_access_key'' name
        ''If the IAM user is at the two-key ceiling, remove the oldest non-current access key first.'' True True,
      planned ''aws.create_access_key'' name
        ''Create a replacement access key and retain its one-time secret for delivery.'' True False,
      planned ''aws.verify_access_key'' name
        ''Use the provider response as evidence that the replacement key is current.'' True False,
      planned ''aws.delete_access_key'' name
        ''Delete the rotated-out access key after the replacement is available.'' False True]) i, s)"

definition AWS_PlanRetire :: "'w aws_account \<Rightarrow> string \<Rightarrow> 'w awm \<Rightarrow> operations result \<times> 'w awm" where
  "AWS_PlanRetire a i s = (aws_adapter_plan a ''retire'' (\<lambda>name.
     [planned ''aws.delete_access_key'' name ''Delete every access key owned by the IAM user.'' False True,
      planned ''aws.delete_login_profile'' name
        ''Remove the optional console login profile when present.'' False True]) i, s)"

definition aws_planned_for :: "machine_identity \<Rightarrow> string" where
  "aws_planned_for identity =
     (let name = trim_space (pb_provider_id (mi_provider identity)) in if name = [] then mi_name identity else name)"

section \<open>Creation\<close>

definition demo_tags :: "string \<Rightarrow> (string \<times> string) list" where
  "demo_tags name =
     [(''MUTANDAE_TEAM'', ''Demo''), (''MUTANDAE_SERVICE'', name),
      (''MUTANDAE_PURPOSE'', ''Public demo identity with zero permissions''), (''MUTANDAE_ENVIRONMENT'', ''demo''),
      (''MUTANDAE_CRITICALITY'', ''low''), (''MUTANDAE_RENEWAL_DAYS'', ''1''),
      (''MUTANDAE_CONTACTS'', ''none@none.invalid'')]"

definition demoIdentity :: "'w aws_account \<Rightarrow> string \<Rightarrow> string \<Rightarrow> time \<Rightarrow> 'w awm \<Rightarrow> machine_identity result \<times> 'w awm" where
  "demoIdentity a name keyID createDate =
     try_then (if createDate = 0 then aws_now a else succeed createDate) (\<lambda>created.
       try_then (aws_toIdentity a (no_user\<lparr>ur_user_name := name\<rparr>) [active_key keyID created]) (\<lambda>identity.
         succeed (identity\<lparr>mi_display_name := name\<rparr>)))"

definition aws_instructions :: string where
  "aws_instructions = ''This IAM user has NO attached policies, NO group memberships, and NO console login. '' @
     ''Its access key cannot do anything on its own. Store the secret now '' @ [CHR 0xE2, CHR 0x80, CHR 0x94] @
     '' it will never be shown again.''"

definition AWS_Create :: "'w aws_account \<Rightarrow> string \<Rightarrow> 'w awm \<Rightarrow> provision_response result \<times> 'w awm" where
  "AWS_Create a hint s =
     (case wa_rand a (snd s) of (draw, w) \<Rightarrow>
      case buildScopedName (wa_scope a) hint 8 draw of
        Inl err \<Rightarrow> (Inl err, (fst s, w))
      | Inr name \<Rightarrow>
          if \<not> inScope a name then (Inl (forbiddenScopeError awsKind name (wa_scope a)), (fst s, w))
          else try_then (createUser a name) (\<lambda>_.
            try_then (createAccessKey a name) (\<lambda>key s.
              try_then (demoIdentity a name (ia_key_id key) (ia_create_date key)) (\<lambda>identity.
                succeed \<lparr>pvr_api_version = Version, pvr_identity = identity, pvr_one_time_secret = ia_secret key,
                  pvr_key_id = ia_key_id key, pvr_instructions = aws_instructions, pvr_vault = None\<rparr>)
                (snd (tagUser a name (demo_tags name) s)))) (fst s, w))"

end
