(* ===== verification/AwsSecrets.thy ===== *)
theory AwsSecrets
  imports AwsCloud
begin

text \<open>
  The vault of the AWS adapter (internal/provider/awssecrets.go): credentials as secrets of AWS Secrets Manager. An
  error of its API keeps the status and the code, so it has a type of its own beside the errors of the transport.
\<close>

section \<open>Names\<close>

definition secret_name_char :: "char \<Rightarrow> bool" where
  "secret_name_char c \<longleftrightarrow> (let n = (of_char c :: nat) in
     97 \<le> n \<and> n \<le> 122 \<or> 65 \<le> n \<and> n \<le> 90 \<or> 48 \<le> n \<and> n \<le> 57 \<or> c \<in> set ''/_+=.@-'')"

definition awsSecretsManagerNameAllowed :: "string \<Rightarrow> bool" where
  "awsSecretsManagerNameAllowed name \<longleftrightarrow> name \<noteq> [] \<and> length name \<le> 512 \<and> list_all secret_name_char name"

definition allowed_secret_name :: "aws_memory \<Rightarrow> string \<Rightarrow> string \<Rightarrow> (string \<times> string) result" where
  "allowed_secret_name m name keyID =
     (let effectiveKeyID = (if keyID = [] then ''current'' else keyID);
          secretName = ''mutandae-demo/'' @ name @ ''/'' @ effectiveKeyID in
      if 512 < length secretName \<or> \<not> awsSecretsManagerNameAllowed secretName then
        Inl (aws_redact m ''aws: derived Secrets Manager secret name is invalid'')
      else Inr (secretName, effectiveKeyID))"

definition awsSecretName :: "'w aws_account \<Rightarrow> aws_memory \<Rightarrow> machine_identity \<Rightarrow> string \<Rightarrow> (string \<times> string) result" where
  "awsSecretName a m identity keyID =
     (let trimmed = trim_space (mi_name identity); pid = pb_provider_id (mi_provider identity);
          name = (if trimmed = [] then trim_space pid else trimmed);
          vaultScope = (if wa_scope_configured a then wa_scope a else DemoScope) in
      if name = [] then Inl (forbiddenScopeError awsKind name (wa_scope a))
      else if \<not> scope_match vaultScope name then Inl (forbiddenScopeError awsKind name vaultScope)
      else if wa_scope_configured a \<and> pid \<noteq> [] \<and> \<not> inScope a pid then
        Inl (forbiddenScopeError awsKind pid (wa_scope a))
      else allowed_secret_name m name keyID)"

definition awsSecretNameLegacy :: "'w aws_account \<Rightarrow> aws_memory \<Rightarrow> machine_identity \<Rightarrow> string \<Rightarrow> (string \<times> string) result" where
  "awsSecretNameLegacy a m identity keyID =
     (if \<not> inScope a (mi_name identity) then Inl (forbiddenScopeError awsKind (mi_name identity) (wa_scope a))
      else allowed_secret_name m (mi_name identity) keyID)"

definition secrets_endpoint_base :: "'w aws_account \<Rightarrow> string" where
  "secrets_endpoint_base a =
     (let endpoint = (if wa_secrets_endpoint a = [] then ''https://secretsmanager.'' @ wa_region a @ ''.amazonaws.com/''
                      else wa_secrets_endpoint a) in
      rev (dropWhile (\<lambda>c. c = CHR ''/'') (rev endpoint)))"

section \<open>Requests\<close>

record secrets_api_error =
  se_status :: int
  se_code :: string
  se_detail :: string
  se_resource_not_found :: bool
  se_unauthorized :: bool

datatype secrets_error = ApiFailure secrets_api_error | OtherFailure go_error

definition api_error_text :: "secrets_api_error \<Rightarrow> string" where
  "api_error_text e =
     (if se_code e = [] then ''AWS Secrets Manager returned HTTP '' @ dec_int (se_status e) @ '': '' @ se_detail e
      else ''AWS Secrets Manager returned HTTP '' @ dec_int (se_status e) @ '' ('' @ se_code e @ ''): '' @ se_detail e)"

fun secrets_error_value :: "secrets_error \<Rightarrow> go_error" where
  "secrets_error_value (ApiFailure e) = plain_error (api_error_text e)"
| "secrets_error_value (OtherFailure err) = err"

fun awsSecretsManagerResourceNotFound :: "secrets_error \<Rightarrow> bool" where
  "awsSecretsManagerResourceNotFound (ApiFailure e) = se_resource_not_found e"
| "awsSecretsManagerResourceNotFound (OtherFailure _) = False"

fun awsSecretsManagerDenied :: "secrets_error \<Rightarrow> bool" where
  "awsSecretsManagerDenied (ApiFailure e) = se_unauthorized e"
| "awsSecretsManagerDenied (OtherFailure _) = False"

definition awsRedactedString :: "aws_memory \<Rightarrow> string list \<Rightarrow> string \<Rightarrow> string" where
  "awsRedactedString m extra t = redact_text extra (redactString m t)"

definition awsRedactedError :: "aws_memory \<Rightarrow> string list \<Rightarrow> string \<Rightarrow> go_error" where
  "awsRedactedError m extra t = aws_redact m (awsRedactedString m extra t)"

definition awsSecretsManagerAPIError ::
  "'w aws_account \<Rightarrow> aws_memory \<Rightarrow> string \<Rightarrow> int \<Rightarrow> string \<Rightarrow> string list \<Rightarrow> secrets_error" where
  "awsSecretsManagerAPIError a m operation status data extra =
     (case wn_api_error (wa_net a) data of (type0, code0, message) \<Rightarrow>
        (let t = trim_space type0;
             code = (if code0 = [] then t else if t = [] then trim_space code0 else t @ '' '' @ trim_space code0);
             d1 = (if trim_space message = [] then trim_space data else trim_space message);
             detail = (if d1 = [] then ''(empty response)'' else d1) in
         ApiFailure \<lparr>se_status = status, se_code = awsRedactedString m extra code,
           se_detail = awsRedactedString m extra (operation @ '': '' @ detail),
           se_resource_not_found = (status = 404 \<and> contains code ''ResourceNotFoundException''),
           se_unauthorized = (status = 403 \<or> contains code ''AccessDenied'')\<rparr>))"

definition secrets_transport_error :: "aws_memory \<Rightarrow> string list \<Rightarrow> string \<Rightarrow> go_error \<Rightarrow> secrets_error" where
  "secrets_transport_error m extra stage err =
     (let message = redactString m (awsRedactedString m extra (stage @ err_text err)) in
      OtherFailure (if errors_is err ErrCanceled then GoError (err_wraps err) (message @ '': '' @ err_text err)
                    else plain_error message))"

definition bad_endpoint :: "aws_url \<Rightarrow> bool" where
  "bad_endpoint u \<longleftrightarrow> wu_scheme u = [] \<or> wu_host u = [] \<or> wu_has_user u \<or> wu_raw_query u \<noteq> [] \<or> wu_fragment u \<noteq> []"

definition json_type :: string where "json_type = ''application/x-amz-json-1.1''"

definition secrets_sig_options :: "'w aws_account \<Rightarrow> aws_memory \<Rightarrow> aws_url \<Rightarrow> string \<Rightarrow> string \<Rightarrow> string \<Rightarrow> sig_v4_options" where
  "secrets_sig_options a m u amzDate operation payload =
     \<lparr>sv_method = ''POST'', sv_canonical_uri = canonical_uri u,
      sv_canonical_headers = ''content-type:'' @ json_type @ newline @ ''host:'' @ wu_host u @ newline @
        ''x-amz-date:'' @ amzDate @ newline @ token_lines (wm_session_token m) @
        ''x-amz-target:secretsmanager.'' @ operation @ newline,
      sv_signed_headers = ''content-type;host;x-amz-date'' @ token_names (wm_session_token m) @ '';x-amz-target'',
      sv_payload_hash = sha256Hex payload, sv_amz_date = amzDate,
      sv_scope = join ''/'' [take 8 amzDate, wa_region a, ''secretsmanager'', ''aws4_request''],
      sv_secret_key = wm_secret_key m\<rparr>"

definition secrets_http_request ::
  "'w aws_account \<Rightarrow> aws_memory \<Rightarrow> aws_url \<Rightarrow> string \<Rightarrow> string \<Rightarrow> json_value \<Rightarrow> string \<Rightarrow> http_request" where
  "secrets_http_request a m u amzDate operation payload encoded =
     \<lparr>hq_method = ''POST'', hq_url = wu_text u,
      hq_headers = [(''Content-Type'', json_type), (''X-Amz-Target'', ''secretsmanager.'' @ operation),
        (''X-Amz-Date'', amzDate),
        (''Authorization'', authorization a (secrets_sig_options a m u amzDate operation encoded))] @
        session_header (wm_session_token m),
      hq_body = JsonBody payload\<rparr>"

definition secrets_request ::
  "'w aws_account \<Rightarrow> (string \<Rightarrow> 'a result) \<Rightarrow> 'a \<Rightarrow> string \<Rightarrow> json_value \<Rightarrow> string list \<Rightarrow> 'w awm
     \<Rightarrow> (secrets_error + 'a) \<times> 'w awm" where
  "secrets_request a decode zero operation payload extra s =
     (let m = fst s; failed = (\<lambda>t. OtherFailure (awsRedactedError m extra (operation @ t))) in
      case wn_json (wa_net a) payload of
        Inl err \<Rightarrow> (Inl (failed ('': encode request: '' @ err_text err)), s)
      | Inr encoded \<Rightarrow>
          (case wn_url (wa_net a) (secrets_endpoint_base a) of
             Inl err \<Rightarrow> (Inl (failed ('': invalid Secrets Manager endpoint: '' @ err_text err)), s)
           | Inr u \<Rightarrow>
               if bad_endpoint u then
                 (Inl (failed ('': invalid Secrets Manager endpoint: '' @
                    ''endpoint must be an absolute URL without credentials, query, or fragment'')), s)
               else case wn_clock (wa_net a) (snd s) of (now, w0) \<Rightarrow>
                 (case wn_send (wa_net a) (secrets_http_request a m u (amz_date now) operation payload encoded) w0 of
                    (Inl err, w1) \<Rightarrow> (Inl (secrets_transport_error m extra (operation @ '': request failed: '') err), (m, w1))
                  | (Inr reply, w1) \<Rightarrow>
                      (case wn_body (wa_net a) reply w1 of
                         (Inl err, w2) \<Rightarrow>
                           (Inl (secrets_transport_error m extra (operation @ '': read response: '') err), (m, w2))
                       | (Inr data, w2) \<Rightarrow>
                           ((if \<not> success_status (hr_status reply) then
                               Inl (awsSecretsManagerAPIError a m operation (hr_status reply) data extra)
                             else if data = [] then Inr zero
                             else case decode data of
                               Inl err \<Rightarrow> Inl (failed ('': decode response: '' @ err_text err))
                             | Inr x \<Rightarrow> Inr x), (m, w2))))))"

section \<open>Store, read, revoke\<close>

definition secrets_denied :: "string \<Rightarrow> go_error" where
  "secrets_denied what = wrap_error ErrVaultUnsupported (''AWS Secrets Manager denied the credential '' @ what)"

text \<open>A failed operation: a denial counts as no vault.\<close>

definition denial_or :: "string \<Rightarrow> secrets_error \<Rightarrow> go_error" where
  "denial_or what err = (if awsSecretsManagerDenied err then secrets_denied what else secrets_error_value err)"

definition no_secrets_response :: secrets_response where
  "no_secrets_response = \<lparr>sp_version_id = [], sp_secret_string = []\<rparr>"

definition put_secret :: "'w aws_account \<Rightarrow> string \<Rightarrow> string \<Rightarrow> 'w awm \<Rightarrow> (secrets_error + secrets_response) \<times> 'w awm" where
  "put_secret a name secret = secrets_request a (wn_secret (wa_net a)) no_secrets_response ''PutSecretValue''
     (JObject [(''SecretId'', JString name), (''SecretString'', JString secret)]) [secret]"

definition secret_tag :: "string \<Rightarrow> string \<Rightarrow> json_value" where
  "secret_tag k v = JObject [(''Key'', JString k), (''Value'', JString v)]"

definition create_payload :: "machine_identity \<Rightarrow> string \<Rightarrow> string \<Rightarrow> string \<Rightarrow> json_value" where
  "create_payload identity name keyID secret = JObject [(''Name'', JString name), (''SecretString'', JString secret),
     (''Description'', JString ''Mutandae demo credential''),
     (''Tags'', JArray [secret_tag ''MutandaeIdentity'' (mi_name identity), secret_tag ''MutandaeKeyId'' keyID,
        secret_tag ''MutandaeProvider'' (pb_provider (mi_provider identity))])]"

definition create_and_put ::
  "'w aws_account \<Rightarrow> machine_identity \<Rightarrow> string \<Rightarrow> string \<Rightarrow> string \<Rightarrow> 'w awm \<Rightarrow> secrets_response result \<times> 'w awm" where
  "create_and_put a identity name keyID secret =
     try_then (on_error (denial_or ''write'') (secrets_request a (\<lambda>_. Inr ()) () ''CreateSecret''
         (create_payload identity name keyID secret) [secret]))
       (\<lambda>_. on_error (denial_or ''write'') (put_secret a name secret))"

definition write_secret ::
  "'w aws_account \<Rightarrow> machine_identity \<Rightarrow> string \<Rightarrow> string \<Rightarrow> string \<Rightarrow> 'w awm \<Rightarrow> secrets_response result \<times> 'w awm" where
  "write_secret a identity name keyID secret s =
     (case put_secret a name secret s of
        (Inr response, s1) \<Rightarrow> (Inr response, s1)
      | (Inl err, s1) \<Rightarrow>
          if \<not> awsSecretsManagerDenied err \<and> awsSecretsManagerResourceNotFound err then
            create_and_put a identity name keyID secret s1
          else (Inl (denial_or ''write'' err), s1))"

definition secrets_reference :: "'w aws_account \<Rightarrow> string \<Rightarrow> string \<Rightarrow> machine_identity \<Rightarrow> vault_reference" where
  "secrets_reference a name version identity = \<lparr>vr_url = secrets_endpoint_base a, vr_secret_name = name,
     vr_version = version, vr_expires_at = mi_expires_at identity, vr_owner_object_ids = []\<rparr>"

definition AWS_StoreSecret ::
  "'w aws_account \<Rightarrow> machine_identity \<Rightarrow> string \<Rightarrow> string \<Rightarrow> 'w awm \<Rightarrow> vault_reference result \<times> 'w awm" where
  "AWS_StoreSecret a identity keyID secret s =
     (if \<not> wa_secrets_manager a then (Inl (sentinel_error ErrVaultUnsupported), s)
      else case awsSecretName a (fst s) identity keyID of
        Inl err \<Rightarrow> (Inl (awsRedactedError (fst s) [secret] (err_text err)), s)
      | Inr (name, effectiveKeyID) \<Rightarrow>
          try_then (write_secret a identity name effectiveKeyID secret)
            (\<lambda>response. succeed (secrets_reference a name (sp_version_id response) identity)) s)"

definition AWS_ReadSecret ::
  "'w aws_account \<Rightarrow> machine_identity \<Rightarrow> string \<Rightarrow> string \<Rightarrow> 'w awm \<Rightarrow> (string \<times> vault_reference) result \<times> 'w awm" where
  "AWS_ReadSecret a identity keyID version s =
     (if \<not> wa_secrets_manager a then (Inl (sentinel_error ErrVaultUnsupported), s)
      else case awsSecretName a (fst s) identity keyID of
        Inl err \<Rightarrow> (Inl err, s)
      | Inr (name, _) \<Rightarrow>
          try_then (on_error (denial_or ''read'') (secrets_request a (wn_secret (wa_net a)) no_secrets_response ''GetSecretValue''
              (JObject [(''SecretId'', JString name),
                 (if version \<noteq> [] \<and> version \<noteq> ''current'' then (''VersionId'', JString version)
                  else (''VersionStage'', JString ''AWSCURRENT''))]) []))
            (\<lambda>response s.
               if sp_secret_string response = [] then
                 (Inl (aws_redact (fst s) ''GetSecretValue returned no SecretString''), s)
               else (Inr (sp_secret_string response, secrets_reference a name (sp_version_id response) identity), s)) s)"

definition AWS_RevokeSecret ::
  "'w aws_account \<Rightarrow> machine_identity \<Rightarrow> string \<Rightarrow> 'w awm \<Rightarrow> vault_reference result \<times> 'w awm" where
  "AWS_RevokeSecret a identity keyID s =
     (if \<not> wa_secrets_manager a then (Inl (sentinel_error ErrVaultUnsupported), s)
      else case awsSecretName a (fst s) identity keyID of
        Inl err \<Rightarrow> (Inl err, s)
      | Inr (name, _) \<Rightarrow>
          (let revoked = secrets_reference a name [] identity in
           case secrets_request a (\<lambda>_. Inr ()) () ''DeleteSecret''
               (JObject [(''SecretId'', JString name), (''RecoveryWindowInDays'', JInt 7)]) [] s of
             (Inr _, s1) \<Rightarrow> (Inr revoked, s1)
           | (Inl err, s1) \<Rightarrow>
               if \<not> awsSecretsManagerDenied err \<and> awsSecretsManagerResourceNotFound err then (Inr revoked, s1)
               else (Inl (denial_or ''revocation'' err), s1)))"

definition aws_adapter_vault :: "'w aws_account \<Rightarrow> 'w awm vault" where
  "aws_adapter_vault a = \<lparr>va_store = AWS_StoreSecret a, va_read = AWS_ReadSecret a, va_revoke = AWS_RevokeSecret a\<rparr>"

end
