(* ===== verification/AwsSignature.thy ===== *)
theory AwsSignature
  imports AwsSecrets
begin

text \<open>
  The signature of a request against Signature Version 4 as AWS documents it: the canonical request is computed from the
  headers the request really carries (and its host), lower case, sorted, with the spaces of values trimmed and
  collapsed, and the key is derived from date, region and service.
\<close>

section \<open>The documented signature\<close>

fun collapse :: "string \<Rightarrow> string" where
  "collapse (c # d # s) = (if c = CHR '' '' \<and> d = CHR '' '' then collapse (d # s) else c # collapse (d # s))"
| "collapse s = s"

definition trimall :: "string \<Rightarrow> string" where
  "trimall s = collapse (rev (dropWhile (\<lambda>c. c = CHR '' '') (rev (dropWhile (\<lambda>c. c = CHR '' '') s))))"

text \<open>The headers that are signed: all the request has, except the authorization itself, and the host.\<close>

definition signed_fields :: "string \<Rightarrow> http_request \<Rightarrow> (string \<times> string) list" where
  "signed_fields host q = sort_key fst ((''host'', trimall host) #
     map (\<lambda>(k, v). (to_lower k, trimall v)) (filter (\<lambda>(k, v). k \<noteq> ''Authorization'') (hq_headers q)))"

definition canonical_of :: "string \<Rightarrow> string \<Rightarrow> string \<Rightarrow> http_request \<Rightarrow> string" where
  "canonical_of host uri payload q =
     hq_method q @ newline @ uri @ newline @ newline @
     concat (map (\<lambda>(k, v). k @ '':'' @ v @ newline) (signed_fields host q)) @ newline @
     join '';'' (map fst (signed_fields host q)) @ newline @ sha256Hex payload"

definition signing_key_of :: "string \<Rightarrow> string \<Rightarrow> string \<Rightarrow> string \<Rightarrow> string" where
  "signing_key_of secret date region service =
     hmac_sha256 (hmac_sha256 (hmac_sha256 (hmac_sha256 (''AWS4'' @ secret) date) region) service) ''aws4_request''"

definition documented_authorization ::
  "string \<Rightarrow> string \<Rightarrow> string \<Rightarrow> string \<Rightarrow> string \<Rightarrow> string \<Rightarrow> string \<Rightarrow> string \<Rightarrow> http_request \<Rightarrow> string" where
  "documented_authorization keyID secret stamp region service host uri payload q =
     (let date = take 8 stamp; scope = date @ ''/'' @ region @ ''/'' @ service @ ''/aws4_request'';
          to_sign = ''AWS4-HMAC-SHA256'' @ newline @ stamp @ newline @ scope @ newline @
            sha256Hex (canonical_of host uri payload q) in
      ''AWS4-HMAC-SHA256 Credential='' @ keyID @ ''/'' @ scope @ '', SignedHeaders='' @
      join '';'' (map fst (signed_fields host q)) @ '', Signature='' @
      hex_encode (hmac_sha256 (signing_key_of secret date region service) to_sign))"

section \<open>The requests of the adapter\<close>

lemma split_on_sep: "c \<notin> set p \<Longrightarrow> split_on c (p @ c # s) = p # split_on c s"
  by (induction p) auto

lemma split_on_whole: "c \<notin> set p \<Longrightarrow> split_on c p = [p]"
  by (induction p) auto

lemma split_on_four:
  assumes "CHR ''/'' \<notin> set a" "CHR ''/'' \<notin> set b" "CHR ''/'' \<notin> set c" "CHR ''/'' \<notin> set d"
  shows "split_on CHR ''/'' (join ''/'' [a, b, c, d]) = [a, b, c, d]"
  using assms by (simp add: split_on_sep split_on_whole)

lemma digits_no_slash: "CHR ''/'' \<notin> set (pad0 n (dec k))"
  using list_all_pad0 [of n k] by (auto simp: list_all_iff is_digit_iff)

lemma amz_date_no_slash: "CHR ''/'' \<notin> set (amz_date t)"
  by (auto simp: amz_date_def four_digits_def two_digits_def Let_def digits_no_slash split: prod.splits)

lemma trimall_plain: "CHR '' '' \<notin> set s \<Longrightarrow> trimall s = s"
proof -
  assume s: "CHR '' '' \<notin> set s"
  have d: "dropWhile (\<lambda>c. c = CHR '' '') u = u" if "CHR '' '' \<notin> set u" for u
    using that by (cases u) auto
  have "collapse s = s" using s by (induction s rule: collapse.induct) auto
  then show ?thesis using s by (simp add: trimall_def d)
qed

lemma trimall_form: "trimall form_type = form_type"
  by code_simp

lemma trimall_json: "trimall json_type = json_type"
  by code_simp

lemma iam_fields_sorted:
  "sort_key fst [(''host'', h), (''content-type'', c), (''x-amz-date'', d)] =
     [(''content-type'', c), (''host'', h), (''x-amz-date'', d)]"
  "sort_key fst [(''host'', h), (''content-type'', c), (''x-amz-date'', d), (''x-amz-security-token'', t)] =
     [(''content-type'', c), (''host'', h), (''x-amz-date'', d), (''x-amz-security-token'', t)]"
  by (simp_all add: sort_key_def)

lemma lower_names:
  "to_lower ''Content-Type'' = ''content-type''" "to_lower ''X-Amz-Date'' = ''x-amz-date''"
  "to_lower ''X-Amz-Target'' = ''x-amz-target''" "to_lower ''X-Amz-Security-Token'' = ''x-amz-security-token''"
  by code_simp+

lemma amz_date_no_space: "CHR '' '' \<notin> set (amz_date t)"
proof -
  have "CHR '' '' \<notin> set (pad0 n (dec k))" for n k
    using list_all_pad0 [of n k] by (auto simp: list_all_iff is_digit_iff)
  then show ?thesis by (auto simp: amz_date_def four_digits_def two_digits_def Let_def split: prod.splits)
qed

lemma signV4_scope:
  assumes "sv_scope o4 = join ''/'' [date, region, service, ''aws4_request'']"
    and "CHR ''/'' \<notin> set date" "CHR ''/'' \<notin> set region" "CHR ''/'' \<notin> set service"
  shows "signV4 o4 = hex_encode (hmac_sha256 (signing_key_of (sv_secret_key o4) date region service) (string_to_sign o4))"
proof -
  have "split_on CHR ''/'' (sv_scope o4) = [date, region, service, ''aws4_request'']"
    unfolding assms(1) by (rule split_on_four) (use assms(2-4) in simp_all)
  then show ?thesis by (simp add: signV4_def signing_key_of_def)
qed

definition signing_region :: "'w aws_account \<Rightarrow> string \<Rightarrow> string" where
  "signing_region a host = (if contains host ''amazonaws.com'' then ''us-east-1'' else wa_region a)"

lemma iam_fields:
  assumes "CHR '' '' \<notin> set h" "CHR '' '' \<notin> set token" "CHR '' '' \<notin> set d"
  shows "signed_fields h \<lparr>hq_method = verb, hq_url = url, hq_headers = [(''Content-Type'', form_type), (''X-Amz-Date'', d),
       (''Authorization'', auth)] @ session_header token, hq_body = b\<rparr> =
     [(''content-type'', form_type), (''host'', h), (''x-amz-date'', d)] @
     (if token = [] then [] else [(''x-amz-security-token'', token)])"
  using assms
  by (cases "token = []")
    (simp_all add: signed_fields_def session_header_def lower_names trimall_plain trimall_form iam_fields_sorted
      del: to_lower.simps sort_key_simps)

lemma secrets_fields_sorted:
  "sort_key fst [(''host'', h), (''content-type'', c), (''x-amz-target'', g), (''x-amz-date'', d)] =
     [(''content-type'', c), (''host'', h), (''x-amz-date'', d), (''x-amz-target'', g)]"
  "sort_key fst [(''host'', h), (''content-type'', c), (''x-amz-target'', g), (''x-amz-date'', d), (''x-amz-security-token'', t)] =
     [(''content-type'', c), (''host'', h), (''x-amz-date'', d), (''x-amz-security-token'', t), (''x-amz-target'', g)]"
  by (simp_all add: sort_key_def)


lemma secrets_fields:
  assumes "CHR '' '' \<notin> set h" "CHR '' '' \<notin> set token" "CHR '' '' \<notin> set d" "CHR '' '' \<notin> set g"
  shows "signed_fields h \<lparr>hq_method = verb, hq_url = url, hq_headers = [(''Content-Type'', json_type), (''X-Amz-Target'', g),
       (''X-Amz-Date'', d), (''Authorization'', auth)] @ session_header token, hq_body = b\<rparr> =
     [(''content-type'', json_type), (''host'', h), (''x-amz-date'', d)] @
     (if token = [] then [] else [(''x-amz-security-token'', token)]) @ [(''x-amz-target'', g)]"
  using assms
  by (cases "token = []")
    (simp_all add: signed_fields_def session_header_def lower_names trimall_plain trimall_json secrets_fields_sorted
      del: to_lower.simps sort_key_simps)

text \<open>
  The requests to Secrets Manager are signed as documented as well, with the operation among the signed headers
  and the region of the adapter, for the operations the client has.
\<close>

theorem secrets_signature_documented:
  assumes "q = secrets_http_request a m u (amz_date now) operation payload encoded"
    and "CHR '' '' \<notin> set (wu_host u)" "CHR '' '' \<notin> set (wm_session_token m)" "CHR '' '' \<notin> set operation"
    and "CHR ''/'' \<notin> set (wa_region a)"
  shows "map_of (hq_headers q) ''Authorization'' = Some (documented_authorization (wa_access_key_id a) (wm_secret_key m)
    (amz_date now) (wa_region a) ''secretsmanager'' (wu_host u) (canonical_uri u) encoded q)"
proof -
  define o4 where "o4 = secrets_sig_options a m u (amz_date now) operation encoded"
  have q: "q = \<lparr>hq_method = ''POST'', hq_url = wu_text u, hq_headers = [(''Content-Type'', json_type),
      (''X-Amz-Target'', ''secretsmanager.'' @ operation), (''X-Amz-Date'', amz_date now),
      (''Authorization'', authorization a o4)] @ session_header (wm_session_token m), hq_body = JsonBody payload\<rparr>"
    by (simp add: assms(1) secrets_http_request_def o4_def)
  have fields: "signed_fields (wu_host u) q = [(''content-type'', json_type), (''host'', wu_host u), (''x-amz-date'', amz_date now)] @
      (if wm_session_token m = [] then [] else [(''x-amz-security-token'', wm_session_token m)]) @
      [(''x-amz-target'', ''secretsmanager.'' @ operation)]"
    unfolding q by (rule secrets_fields) (use assms(2-4) amz_date_no_space in simp_all)
  have verb: "hq_method q = ''POST''" by (simp add: q)
  have names: "join '';'' (map fst (signed_fields (wu_host u) q)) = sv_signed_headers o4"
    by (simp add: fields o4_def secrets_sig_options_def token_names_def)
  have canonical: "canonical_of (wu_host u) (canonical_uri u) encoded q = canonical_request o4"
    unfolding canonical_of_def names
    by (simp add: fields canonical_request_def o4_def secrets_sig_options_def token_lines_def verb)
  have "CHR ''/'' \<notin> set (take 8 (amz_date now))" using amz_date_no_slash by (meson in_set_takeD)
  from signV4_scope [OF _ this assms(5), of o4 "''secretsmanager''"]
  have "signV4 o4 = hex_encode (hmac_sha256 (signing_key_of (sv_secret_key o4) (take 8 (amz_date now)) (wa_region a) ''secretsmanager'')
      (string_to_sign o4))"
    by (simp add: o4_def secrets_sig_options_def)
  then have "authorization a o4 = documented_authorization (wa_access_key_id a) (wm_secret_key m) (amz_date now)
      (wa_region a) ''secretsmanager'' (wu_host u) (canonical_uri u) encoded q"
    unfolding documented_authorization_def names canonical
    by (simp add: authorization_def string_to_sign_def Let_def) (simp add: o4_def secrets_sig_options_def)
  then show ?thesis by (simp add: q)
qed

section \<open>Instances\<close>

definition iam_url :: aws_url where
  "iam_url = \<lparr>wu_scheme = ''https'', wu_host = ''iam.amazonaws.com'', wu_path = [], wu_text = ''https://iam.amazonaws.com'',
     wu_has_user = False, wu_raw_query = [], wu_fragment = []\<rparr>"

text \<open>A network without answers, at the instant of the published example of the algorithm.\<close>

definition silent_aws :: "unit aws_net" where
  "silent_aws = \<lparr>wn_clock = \<lambda>w. (735840 * day + 45360 * second, w), wn_send = \<lambda>q w. (Inl (plain_error ''down''), w),
     wn_body = \<lambda>r w. (Inr (hr_data r), w), wn_url = \<lambda>_. Inr iam_url, wn_error = \<lambda>_. Inl (plain_error ''xml''),
     wn_users = \<lambda>_. Inr ([], False, []), wn_user = \<lambda>_. Inr no_user, wn_keys = \<lambda>_. Inr [],
     wn_created_user = \<lambda>_. Inr no_user, wn_created_key = \<lambda>_. Inr no_access_key, wn_json = \<lambda>_. Inr ''{}'',
     wn_secret = \<lambda>_. Inr no_secrets_response, wn_api_error = \<lambda>_. ([], [], [])\<rparr>"

definition sample_aws :: "'w aws_net \<Rightarrow> 'w aws_account" where
  "sample_aws net = \<lparr>wa_net = net, wa_rand = (\<lambda>w. (\<lambda>_. Inr ''0123456789abcdef'', w)), wa_account_id = ''123456789012'',
     wa_region = ''eu-west-1'', wa_access_key_id = ''AKIDEXAMPLE'', wa_endpoint = ''https://iam.amazonaws.com'',
     wa_scope = DemoScope, wa_scope_configured = True, wa_demo_only = False, wa_secrets_manager = True,
     wa_secrets_endpoint = []\<rparr>"

definition sample_aws_memory :: aws_memory where
  "sample_aws_memory = \<lparr>wm_secret_key = ''wJalrXUtnFEMI'', wm_session_token = ''FwoG'', wm_one_time_secret = [],
     wm_one_time_key_id = [], wm_one_time_created = 0\<rparr>"


theorem secrets_signature_documented_witness:
  "map_of (hq_headers (secrets_http_request (sample_aws silent_aws) sample_aws_memory iam_url (amz_date 0) ''GetSecretValue''
       (JObject []) ''{}'')) ''Authorization'' =
     Some (documented_authorization ''AKIDEXAMPLE'' ''wJalrXUtnFEMI'' (amz_date 0) ''eu-west-1'' ''secretsmanager''
       ''iam.amazonaws.com'' ''/'' ''{}'' (secrets_http_request (sample_aws silent_aws) sample_aws_memory iam_url (amz_date 0)
         ''GetSecretValue'' (JObject []) ''{}''))"
proof -
  have plain: "CHR '' '' \<notin> set (wu_host iam_url)" "CHR '' '' \<notin> set (wm_session_token sample_aws_memory)"
    "CHR '' '' \<notin> set ''GetSecretValue''" "CHR ''/'' \<notin> set (wa_region (sample_aws silent_aws))"
    by (simp_all add: iam_url_def sample_aws_memory_def sample_aws_def)
  from secrets_signature_documented [OF refl plain, of 0 "JObject []" "''{}''"] show ?thesis
    by (simp add: iam_url_def sample_aws_def sample_aws_memory_def canonical_uri_def)
qed

end
