(* ===== verification/AwsProperties.thy ===== *)
theory AwsProperties
  imports AwsSignature
begin

text \<open>
  What the AWS adapter guarantees: a mutation asks IAM about the user of its identity and no other, and
  discovery ends unless IAM pages without end. The locale \<open>iam_traffic\<close> is a rule about the requests sent.
\<close>

section \<open>Requests about one user\<close>

definition about :: "string \<Rightarrow> http_request \<Rightarrow> bool" where
  "about user q \<longleftrightarrow> (case hq_body q of FormBody ps \<Rightarrow> map_of ps ''UserName'' = Some user | _ \<Rightarrow> False)"

locale iam_traffic =
  fixes a :: "'w aws_account" and I :: "'w awm \<Rightarrow> bool" and user :: string
  assumes clock: "I (m, w) \<Longrightarrow> I (m, snd (wn_clock (wa_net a) w))"
    and body: "I (m, w) \<Longrightarrow> I (m, snd (wn_body (wa_net a) reply w))"
    and send: "I (m, w) \<Longrightarrow> about user q \<Longrightarrow> I (m, snd (wn_send (wa_net a) q w))"
    and memory: "I s \<Longrightarrow> I (aws_remember key t s)"
begin

lemma now_kept [keeps_intros]: "keeps I (aws_now a)"
  by (rule keepsI) (use clock in \<open>auto simp: aws_now_def split: prod.split dest: sym\<close>, metis snd_conv)

lemma signed_step:
  assumes "I (m, w)" "map_of ps ''UserName'' = Some user"
  obtains r w1 where "signedRequest a ps (m, w) = (r, (m, w1))" "I (m, w1)" "\<And>q. r = Inr q \<Longrightarrow> about user q"
proof -
  obtain now w1 where c: "wn_clock (wa_net a) w = (now, w1)" by (rule prod.exhaust)
  have "I (m, w1)" using clock [OF assms(1)] c by simp
  then show ?thesis using that assms c
    by (cases "wn_url (wa_net a) (wa_endpoint a)")
      (simp_all add: signedRequest_def aws_now_def try_then_def succeed_def about_def Let_def)
qed

lemma exchange_kept [keeps_intros]:
  assumes "map_of ps ''UserName'' = Some user"
  shows "keeps I (iam_exchange a action ps)"
proof (rule keepsI)
  fix s assume "I s"
  obtain m w where mw: "s = (m, w)" by (rule prod.exhaust)
  obtain r w1 where signed: "signedRequest a ps (m, w) = (r, (m, w1))" "I (m, w1)" "\<And>q. r = Inr q \<Longrightarrow> about user q"
    using signed_step [OF _ assms, of m w] \<open>I s\<close> mw by blast
  show "I (snd (iam_exchange a action ps s))"
  proof (cases r)
    case (Inr q)
    obtain x w2 where sent: "wn_send (wa_net a) q w1 = (x, w2)" by (rule prod.exhaust)
    have w2: "I (m, w2)" using send [OF signed(2) signed(3) [OF Inr]] sent by simp
    then have "wn_body (wa_net a) reply w2 = (b, w3) \<Longrightarrow> I (m, w3)" for reply b w3 using body [of m w2 reply] by simp
    then show ?thesis using signed(1) Inr sent w2
      by (simp add: iam_exchange_def mw split: sum.split prod.split)
  qed (use signed in \<open>simp add: iam_exchange_def mw\<close>)
qed

lemma call_kept [keeps_intros]: "map_of rest ''UserName'' = Some user \<Longrightarrow> keeps I (iam_call a decode zero action rest)"
  unfolding iam_call_def by (intro keeps_intros exchange_kept) (auto simp: iam_params_def intro!: keepsI split: prod.split)

lemma tolerate_kept [keeps_intros]: "map_of rest ''UserName'' = Some user \<Longrightarrow> keeps I (tolerateNoSuchEntity a action rest)"
  unfolding tolerateNoSuchEntity_def
  by (intro keeps_intros exchange_kept) (auto simp: iam_params_def intro!: keepsI split: prod.split)

lemma list_kept [keeps_intros]: "keeps I (listAccessKeys a user)"
  unfolding listAccessKeys_def by (rule call_kept) (simp add: user_param_def)

lemma create_kept [keeps_intros]: "keeps I (createAccessKey a user)"
  unfolding createAccessKey_def by (intro keeps_intros) (simp add: user_param_def)

lemma delete_kept [keeps_intros]: "keeps I (deleteAccessKey a user keyID)"
  unfolding deleteAccessKey_def by (intro keeps_intros) (simp add: user_param_def)

lemma profile_kept [keeps_intros]: "keeps I (deleteLoginProfile a user)"
  unfolding deleteLoginProfile_def by (intro keeps_intros) (simp add: user_param_def)

lemma identity_kept [keeps_intros]: "keeps I (aws_toIdentity a u ks)"
  unfolding aws_toIdentity_def by (intro keeps_intros)

lemma rotate_kept:
  assumes "trim_space (pb_provider_id (mi_provider i)) = user"
  shows "keeps I (AWS_Rotate a i)"
proof -
  have remembered: "keeps I (\<lambda>s. aws_toIdentity a u ks (aws_remember key t s))" for u ks key t
    by (rule keepsI) (rule keepsD [OF identity_kept], erule memory)
  show ?thesis unfolding AWS_Rotate_def replace_key_def Let_def assms
    by (auto intro!: keeps_intros remembered split: prod.split)
qed

lemma retire_keys_kept [keeps_intros]: "keeps I (retire_keys a user ks)"
proof (induction ks)
  case (Cons k ks)
  show ?case
  proof (rule keepsI)
    fix s assume "I s"
    obtain r s1 where d: "deleteAccessKey a user (ik_key_id k) s = (r, s1)" by (rule prod.exhaust)
    then have "I s1" using keepsD [OF delete_kept \<open>I s\<close>, of "ik_key_id k"] by simp
    then show "I (snd (retire_keys a user (k # ks) s))" using keepsD [OF Cons.IH] d by (simp split: sum.split)
  qed
qed (simp add: keepsI)

lemma gone_kept [keeps_intros]: "keeps I (listed_or_gone a user)"
proof (rule keepsI)
  fix s assume "I s"
  moreover obtain r s1 where "listAccessKeys a user s = (r, s1)" by (rule prod.exhaust)
  ultimately show "I (snd (listed_or_gone a user s))"
    using keepsD [OF list_kept \<open>I s\<close>] by (simp add: listed_or_gone_def split: sum.split)
qed

lemma retire_kept:
  assumes "trim_space (pb_provider_id (mi_provider i)) = user"
  shows "keeps I (AWS_Retire a i)"
  unfolding AWS_Retire_def Let_def assms by (intro keeps_intros) (auto intro!: keepsI keepsD [OF profile_kept])

end

definition aws_recorded :: "'w aws_net \<Rightarrow> ('w \<times> http_request list) aws_net" where
  "aws_recorded net =
     \<lparr>wn_clock = \<lambda>(w, qs). (case wn_clock net w of (t, w') \<Rightarrow> (t, (w', qs))),
      wn_send = \<lambda>q (w, qs). (case wn_send net q w of (r, w') \<Rightarrow> (r, (w', qs @ [q]))),
      wn_body = \<lambda>reply (w, qs). (case wn_body net reply w of (r, w') \<Rightarrow> (r, (w', qs))),
      wn_url = wn_url net, wn_error = wn_error net, wn_users = wn_users net, wn_user = wn_user net,
      wn_keys = wn_keys net, wn_created_user = wn_created_user net, wn_created_key = wn_created_key net,
      wn_json = wn_json net, wn_secret = wn_secret net, wn_api_error = wn_api_error net\<rparr>"

definition on_record :: "'w aws_net \<Rightarrow> ('w \<times> http_request list) aws_account \<Rightarrow> ('w \<times> http_request list) aws_account" where
  "on_record net a = a\<lparr>wa_net := aws_recorded net\<rparr>"

interpretation one_user: iam_traffic "on_record net a" "\<lambda>s. list_all (about user) (snd (snd s))" user
  by unfold_locales (auto simp: on_record_def aws_recorded_def aws_remember_def split: prod.splits)

text \<open>
  C37. A rotation or retirement of the AWS adapter looks at the user that it acts on: without a user, or with one outside the
  scope, nothing is sent and nothing changes; otherwise every request that leaves names that user.
\<close>

theorem aws_mutations_confined:
  assumes "f = AWS_Rotate (on_record net a) i \<or> f = AWS_Retire (on_record net a) i"
    and "user = trim_space (pb_provider_id (mi_provider i))"
  shows "if user = [] \<or> \<not> inScope (on_record net a) user then (\<exists>e. f s = (Inl e, s))
    else list_all (about user) (snd (snd (snd (f (m, (w, []))))))"
proof (cases "user = [] \<or> \<not> inScope (on_record net a) user")
  case True
  then show ?thesis using assms by (auto simp: AWS_Rotate_def AWS_Retire_def Let_def fail_def)
next
  case False
  have "keeps (\<lambda>s. list_all (about user) (snd (snd s))) f"
    using assms one_user.rotate_kept one_user.retire_kept by blast
  from keepsD [OF this, of "(m, (w, []))"] False show ?thesis by simp
qed

definition demo_user :: machine_identity where
  "demo_user = zero_identity\<lparr>mi_name := ''mutandae-demo-a1'',
     mi_provider := zero_binding\<lparr>pb_provider := awsKind, pb_provider_id := ''mutandae-demo-a1''\<rparr>\<rparr>"

theorem aws_mutations_confined_witness:
  "list_all (about ''mutandae-demo-a1'')
     (snd (snd (snd (AWS_Retire (on_record silent_aws (sample_aws (aws_recorded silent_aws))) demo_user (sample_aws_memory, ((), []))))))"
proof -
  let ?a = "on_record silent_aws (sample_aws (aws_recorded silent_aws))"
  have u: "''mutandae-demo-a1'' = trim_space (pb_provider_id (mi_provider demo_user))" by code_simp
  have "scope_match DemoScope ''mutandae-demo-a1''" by code_simp
  then have "inScope ?a ''mutandae-demo-a1''" by (simp add: inScope_def on_record_def sample_aws_def)
  with aws_mutations_confined [OF disjI2 [OF refl] u, of silent_aws "sample_aws (aws_recorded silent_aws)" _ sample_aws_memory "()"]
  show ?thesis by simp
qed

section \<open>The pages of ListUsers\<close>

lemma listUsers_ends_from:
  assumes full: "\<And>s marker page next_marker s1.
      iam_call a (wn_users (wa_net a)) ([], False, []) ''ListUsers'' (list_users_params marker) s = (Inr (page, True, next_marker), s1)
      \<Longrightarrow> page \<noteq> []"
  shows "\<exists>r. listUsers a users marker s = Some r"
proof (induction "10001 - length users" arbitrary: users marker s rule: less_induct)
  case less
  obtain r s1 where call: "iam_call a (wn_users (wa_net a)) ([], False, []) ''ListUsers'' (list_users_params marker) s = (r, s1)"
    by (rule prod.exhaust)
  show ?case
  proof (cases r)
    case (Inl e)
    then show ?thesis using call by (simp add: listUsers.simps [of a users])
  next
    case (Inr p)
    obtain page truncated next_marker where p: "p = (page, truncated, next_marker)" by (rule prod_cases3)
    show ?thesis
    proof (cases "truncated \<and> next_marker \<noteq> [] \<and> length (users @ page) \<le> 10000")
      case True
      then have "page \<noteq> []" using full [of marker s page next_marker s1] call Inr p by simp
      then have "0 < length page" by simp
      then have "10001 - length (users @ page) < 10001 - length users" using True unfolding length_append by linarith
      from less [OF this, of next_marker s1] show ?thesis using call Inr p True by (simp add: listUsers.simps [of a users])
    next
      case False
      then show ?thesis using call Inr p by (auto simp: listUsers.simps [of a users])
    qed
  qed
qed

text \<open>
  Discovery ends whenever IAM never sends an empty page that is not the last one: the pages of users stop with the last,
  with an error or with the bound of ten thousand users.
\<close>

theorem aws_discovery_ends:
  assumes "\<And>s marker page next_marker s1.
      iam_call a (wn_users (wa_net a)) ([], False, []) ''ListUsers'' (list_users_params marker) s = (Inr (page, True, next_marker), s1)
      \<Longrightarrow> page \<noteq> []"
  shows "\<exists>res s'. AWS_Discover a s = Some (res, s')"
proof -
  have "\<exists>r. listUsers a [] [] s = Some r" by (rule listUsers_ends_from) (rule assms)
  then have "AWS_Discover a s \<noteq> None" by (auto simp: AWS_Discover_def)
  then show ?thesis by (cases "AWS_Discover a s") (simp, metis surj_pair)
qed

lemma silent_call:
  "iam_call (sample_aws silent_aws) decode zero action rest s = (Inl (aws_redact (fst s) (action @ '': request failed: down'')), s)"
  by (cases s) (simp add: iam_call_def iam_exchange_def signedRequest_def aws_now_def sample_aws_def silent_aws_def
      try_then_def succeed_def plain_error_def aws_redact_def redactString_def Let_def del: redact_text.simps)

theorem aws_discovery_ends_witness:
  "\<exists>res s'. AWS_Discover (sample_aws silent_aws) (sample_aws_memory, ()) = Some (res, s')"
  by (rule aws_discovery_ends) (simp add: silent_call)

text \<open>A server whose pages are empty and never the last: discovery does not return.\<close>

definition endless_aws :: "unit aws_net" where
  "endless_aws = silent_aws\<lparr>wn_send := (\<lambda>q w. (Inr \<lparr>hr_status = 200, hr_data = ''x''\<rparr>, w)),
     wn_users := (\<lambda>_. Inr ([], True, ''m''))\<rparr>"

lemma endless_page:
  "iam_call (sample_aws endless_aws) (wn_users (wa_net (sample_aws endless_aws))) ([], False, []) ''ListUsers'' rest s =
     (Inr ([], True, ''m''), s)"
  by (cases s) (simp add: iam_call_def iam_exchange_def signedRequest_def aws_now_def sample_aws_def endless_aws_def
      silent_aws_def try_then_def succeed_def success_status_def Let_def)

lemma endless_pages_step:
  assumes "listUsers (sample_aws endless_aws) [] marker s = Some r"
  shows False
proof -
  have "a = sample_aws endless_aws \<longrightarrow> users = [] \<longrightarrow> False" if "listUsers a users marker s = Some r" for a users marker s r
  proof (rule listUsers.raw_induct
      [where P = "\<lambda>a users marker s r. a = sample_aws endless_aws \<longrightarrow> users = [] \<longrightarrow> False", OF _ that])
    fix rec a users marker s r
    assume IH: "\<And>a users marker s r. rec a users marker s = Some r \<Longrightarrow>
        a = sample_aws endless_aws \<longrightarrow> users = [] \<longrightarrow> False"
      and step: "(case iam_call a (wn_users (wa_net a)) ([], False, []) ''ListUsers'' (list_users_params marker) s of
        (Inl err, s1) \<Rightarrow> Some (Inl err, s1)
      | (Inr (page, truncated, next_marker), s1) \<Rightarrow>
          if \<not> truncated \<or> next_marker = [] then Some (Inr (users @ page), s1)
          else if 10000 < length (users @ page) then
            Some (Inl (plain_error (awsKind @ '': ListUsers pagination exceeded a sane bound'')), s1)
          else rec a (users @ page) next_marker s1) = Some r"
    show "a = sample_aws endless_aws \<longrightarrow> users = [] \<longrightarrow> False"
    proof (intro impI)
      assume a: "a = sample_aws endless_aws" and u: "users = []"
      have "rec a users ''m'' s = Some r" using step unfolding a u endless_page by simp
      then show False using IH a u by blast
    qed
  qed
  then show ?thesis using assms by blast
qed

lemma endless_pages: "AWS_Discover (sample_aws endless_aws) s = None"
proof (cases "listUsers (sample_aws endless_aws) [] [] s")
  case (Some r)
  then show ?thesis using endless_pages_step by blast
qed (simp add: AWS_Discover_def)

section \<open>Observations\<close>

text \<open>
  The number of days in a tag is read with a 64-bit sum that wraps around, so a number far out of the range is
  accepted as one day.
\<close>

lemma tag_days_wrap: "tagInt [(''MUTANDAE_RENEWAL_DAYS'', ''18446744073709551617'')] ''MUTANDAE_RENEWAL_DAYS'' 90 = 1"
  by code_simp

text \<open>
  A demo user is tagged with a renewal period of one day, but the identity that Create returns is computed without the
  tags and has ninety.
\<close>

lemma demo_user_period:
  "lp_renewal_period (mi_policy (user_identity a (no_user\<lparr>ur_user_name := name\<rparr>) key now)) = FormatISO8601Duration (90 * 24 * hour)"
  "tagInt (tag_map (demo_tags name)) ''MUTANDAE_RENEWAL_DAYS'' 90 = 1"
proof -
  show "lp_renewal_period (mi_policy (user_identity a (no_user\<lparr>ur_user_name := name\<rparr>) key now)) = FormatISO8601Duration (90 * 24 * hour)"
    by (simp add: user_identity_def no_user_def tag_map_def tagInt_def tag_text_def Let_def)
  have "tag_text (tag_map (demo_tags name)) ''MUTANDAE_RENEWAL_DAYS'' = trim_space ''1''"
    by (simp add: tag_map_def demo_tags_def tag_text_def)
  moreover have "trim_space ''1'' = ''1''" "tag_days 0 ''1'' = Some 1" by code_simp+
  ultimately show "tagInt (tag_map (demo_tags name)) ''MUTANDAE_RENEWAL_DAYS'' 90 = 1" by (simp add: tagInt_def)
qed

text \<open>
  The name of a secret contains the identifier of the key, so a rotation writes a secret of another name and the secret
  of the key that was rotated out stays where it is.
\<close>

lemma secret_per_key:
  assumes "awsSecretName a m i k = Inr (n, e)" "awsSecretName a m i k' = Inr (n', e')" "k \<noteq> []" "k' \<noteq> []"
  shows "n = n' \<longleftrightarrow> k = k'"
  using assms by (auto simp: awsSecretName_def allowed_secret_name_def Let_def split: if_splits)

end
