(* ===== verification/Spec2Isabelle.thy ===== *)
theory Spec2Isabelle
  imports DemoClouds Worker RateLimit Login IntegrationProperties ServerProperties AzureCloudProperties Repository
    HashiVaultProperties AwsProperties
begin

text \<open>
  A verification library of the mutandae control plane, the Go program under \<open>src/\<close> that governs
  non-human identities (cloud users, applications, service accounts) and their credentials.

  The program. \<open>internal/lifecycle\<close> holds the governed inventory (the Store), its lifecycle operations,
  the audit trail, the leader lease and the sweeper that rotates overdue identities. \<open>internal/provider\<close>
  holds the adapters that change a cloud, simulated or real, and the composite that routes to them.
  \<open>internal/web\<close> puts an HTTP server with authentication and rate limits in front. \<open>pkg/protocol\<close> is
  their common vocabulary. A request passes the throttle and the authenticator, a handler calls one Store
  operation, the Store calls the adapter and the vaults, appends to the audit trail and persists.

  Theories, and the code each one models.
    Prelude: Go strings (bytes), maps (association lists), errors (text and wrapped sentinels), instants
      and durations (nanoseconds), and the functions of strings and fmt the sources use.
    Float64: finite binary64 values as rationals with rounding to nearest even.
    Encoding: base64url, hexadecimal, SHA-256, HMAC, query escaping and strings.Fields of the standard library.
    Protocol: pkg/protocol enums, transitions, models, messages. Duration: duration.go. Validation: validation.go.
    Adapter: internal/lifecycle adapter.go, repository.go and the error sentinels: interfaces as records of
      functions over a world. AuditTrail: audit_sink.go and event_publisher.go.
    Ledger: numbered records per identity, the common shape of events and runs.
    Store: the state, queries and persistence of lifecycle.go, persistence.go and urgency.go; Lifecycle:
      Register, Provision, Rotate, Retire, Delete and Use, split where the code takes and releases its lock.
    StoreFacts, Operations, StoreProperties, Snapshots: what the store keeps, the effect of each
      operation outcome by outcome, its properties, and saving and restoring.
    Scope: internal/provider scope.go and create.go, with path.Match of the standard library.
    Simulators, CloudFacts: awssimulator.go, azuresimulator.go, gcpsimulator.go and what they promise.
    MultiCloud, DemoClouds: multicloud.go and vault.go, and the three simulators wired as in cmd/mutandae.
    Lease: lease.go with its two Redis scripts. Worker: worker.go.
    Request, RateLimit: the request helpers of server.go and rate.go.
    Auth, Oidc, AuthProperties, Login: auth.go, from the API tokens to the OpenID Connect login.
    Rest, Calendar: what the clients of remote services share, requests, redaction of error texts, printed instants.
    AzureModels, AzureClient, AzureFacts, AzureProperties: azure.go and keyvault.go, the Microsoft Graph and Key
      Vault clients, over a network that may answer anything.
    Integration, IntegrationFacts, IntegrationProperties: integration.go, the sessions in which a visitor connects
      a tenant of their own.
    AzureCloud, AzureCloudProperties: azurecloud.go and azurevault.go, the adapter of a real tenant.
    Aws, AwsCloud, AwsSecrets: aws.go and awssecrets.go, the adapter of a real AWS account with its vault in Secrets
      Manager; AwsSignature: its requests against the documented Signature Version 4; AwsProperties.
    HashiVault, HashiVaultProperties: hashicorpvault.go, the cluster's common vault. Repository: redis_repository.go.
    Views: the labels and counters of server.go, config.go and buildinfo.go; Server, Api: the handlers of server.go and
      preview.go; Routes: the table of routes and the middleware, a request to its answer; ServerFacts,
      ServerProperties: what the server promises.

  How code becomes definitions. A definition keeps the name of the function it translates; where the code
  splits into pieces that are proved apart, the pieces have names of their own. A struct is a record, whose
  fields carry a prefix; an enumeration that outside text may enter is a datatype with a constructor for
  other texts. A fallible function returns \<open>go_error + 'a\<close>. Code outside \<open>src/\<close> that acts (a cloud, Redis, a
  file, the network, the clock, random numbers) is a function over a world of type \<open>'w\<close> or an argument; what
  is assumed of it is a named hypothesis (\<open>redis_documented\<close>) with an instance that satisfies it. Pure
  functions of the standard library are written out. The operations run one after the other; where the code
  gives up its lock in the middle of an operation the model has a definition for either side, and where
  goroutines of one sweep interleave their order is an argument (\<open>schedule\<close>). Counters are naturals. A range
  over a Go map visits the association list in its order, one of the orders Go allows.

  What the lemmas show. The store keeps its invariant under every sequence of operations, whatever the
  adapter, vaults, repository and audit sink answer; each operation has its effect on every outcome, leaves
  the other identities alone, and is without effect when it fails or is a dry run; retirement is final;
  secrets stay out of store and trail. The simulated clouds meet one contract, hence so does any sequence of
  calls on them, alone or composed. At most one instance relies on the lease. The sweeper selects exactly
  the overdue identities, attempts none twice within the window, and backs off within bounds. A request
  reaches a handler only with an identity whose role allows it; an ID token is accepted only if it is signed
  by the issuer for this client and login; a session ends with logout or expiry. Durations and snapshots
  survive a round trip, with the exceptions stated, and what one instance saves in Redis another restores. The Graph client
  changes secrets of applications it owns only; the credentials of a visitor live in a live session and nowhere
  else; the Azure and AWS adapters act on the object their identity names and on nothing outside their scope; the
  signature of an AWS request is the one the algorithm gives for that request; no
  request to the common vault leaves the demo namespace and no error of it shows the secret or the token. Every request to the
  server is answered, and the inventory changes only for an identity that is allowed to change it.

  Bounds and fuel. No definition has fuel: loops are structural recursions or have a measure. The loop that
  reclaims demo identities is a partial function, as its end depends on the adapter and the store; that it ends is
  the theorem \<open>every_request_answered\<close>. So is the loop over the pages of IAM users, whose end depends on the server:
  \<open>aws_discovery_ends\<close>; an option type keeps discovery apart from the adapter record of the composite. SHA-256 words
  are 32-bit words; durations are int64 with the wrap-around written out where it can happen.

  Not modelled. The JSON text of messages and lines (the values are), the HTML templates and UI assets, the
  constant security headers, log and metric output, the process set-up of cmd/mutandae beyond the demo composition,
  and the GCP adapter with its secret store, whose interface the simulator has.
\<close>

end
